(* ===== verification/KerMP_Prelude.thy ===== *)
theory KerMP_Prelude
  imports Complex_Main "HOL-Library.AList" "HOL-Library.Char_ord" "HOL-Library.List_Lexorder"
begin

text \<open>
  Shared ground of the KerMP development: the values a JSON payload of
  \<^verbatim>\<open>src/kermp\<close> can hold, the conversions of the Python language the code
  applies to them (\<open>str\<close>, \<open>int\<close>, \<open>bool\<close>, \<open>dict\<close>, \<open>list\<close>,
  \<open>==\<close>), exceptions as values, and dictionaries in insertion order.

  A \<open>dict\<close> is an association list: \<^term>\<open>map_of d k\<close> looks a key up,
  \<^term>\<open>AList.update k v d\<close> overwrites a key in place or appends it, and
  \<^term>\<open>AList.delete k d\<close> removes it, which is the insertion order Python keeps.
  Text is a list of characters with code points up to 255.
\<close>

section \<open>Lemma collections\<close>

named_theorems kermp_defs \<open>definitions a component's proofs unfold together\<close>
named_theorems kermp_inv \<open>one preservation lemma per operation of a component\<close>
named_theorems kermp_frame \<open>fields an operation leaves alone\<close>

section \<open>Exceptions\<close>

datatype py_error =
    ValueError string
  | TypeError string
  | KeyError string
  | RuntimeError string
  | PermissionError string
  | AttributeError string
  | IndexError string
  | OSError string
  | Unmodelled string

section \<open>Values of a payload\<close>

text \<open>
  A finite float is its exact value with the text \<open>repr\<close> prints for it; the
  literals NaN and Infinity, which JSON does not have, are outside the model.
\<close>

datatype pyval =
    VNone
  | VBool bool
  | VInt int
  | VFloat rat string
  | VStr string
  | VList "pyval list"
  | VDict "(string \<times> pyval) list"

type_synonym pydict = "(string \<times> pyval) list"

text \<open>\<open>bool(x)\<close>, and the values of \<open>a or b\<close> and \<open>a and b\<close>.\<close>

fun truthy :: "pyval \<Rightarrow> bool" where
  "truthy VNone = False"
| "truthy (VBool b) = b"
| "truthy (VInt i) = (i \<noteq> 0)"
| "truthy (VFloat r t) = (r \<noteq> 0)"
| "truthy (VStr s) = (s \<noteq> [])"
| "truthy (VList xs) = (xs \<noteq> [])"
| "truthy (VDict d) = (d \<noteq> [])"

definition py_or :: "pyval \<Rightarrow> pyval \<Rightarrow> pyval" where
  "py_or a b = (if truthy a then a else b)"

definition py_and :: "pyval \<Rightarrow> pyval \<Rightarrow> pyval" where
  "py_and a b = (if truthy a then b else a)"

text \<open>\<open>d.get(k)\<close> and \<open>d.get(k, default)\<close>.\<close>

definition pget :: "pydict \<Rightarrow> string \<Rightarrow> pyval" where
  "pget d k = (case map_of d k of None \<Rightarrow> VNone | Some v \<Rightarrow> v)"

definition pget_default :: "pydict \<Rightarrow> string \<Rightarrow> pyval \<Rightarrow> pyval" where
  "pget_default d k v = (case map_of d k of None \<Rightarrow> v | Some w \<Rightarrow> w)"

section \<open>Text\<close>

fun nat_str :: "nat \<Rightarrow> string" where
  "nat_str n = (if n < 10 then [char_of (48 + n)]
     else nat_str (n div 10) @ [char_of (48 + n mod 10)])"

declare nat_str.simps [simp del]

definition int_str :: "int \<Rightarrow> string" where
  "int_str i = (if i < 0 then CHR ''-'' # nat_str (nat (- i)) else nat_str (nat i))"

definition hex_digit :: "nat \<Rightarrow> char" where
  "hex_digit n = (if n < 10 then char_of (48 + n) else char_of (87 + n))"

definition is_digit :: "char \<Rightarrow> bool" where
  "is_digit c \<longleftrightarrow> (48::nat) \<le> of_char c \<and> of_char c \<le> (57::nat)"

definition digit_val :: "char \<Rightarrow> nat" where
  "digit_val c = of_char c - 48"

definition py_space :: "char \<Rightarrow> bool" where
  "py_space c \<longleftrightarrow> of_char c \<in> {9::nat, 10, 11, 12, 13, 28, 29, 30, 31, 32, 133, 160}"

definition py_strip :: "string \<Rightarrow> string" where
  "py_strip s = rev (dropWhile py_space (rev (dropWhile py_space s)))"

text \<open>\<open>s.split()\<close>; the word read so far is in front, backwards.\<close>

fun split_words :: "string \<Rightarrow> string \<Rightarrow> string list" where
  "split_words acc [] = (if acc = [] then [] else [rev acc])"
| "split_words acc (c # cs) =
     (if py_space c then (if acc = [] then split_words [] cs else rev acc # split_words [] cs)
      else split_words (c # acc) cs)"

text \<open>Characters \<open>repr\<close> prints as themselves.\<close>

definition py_printable :: "char \<Rightarrow> bool" where
  "py_printable c \<longleftrightarrow> (let n = (of_char c :: nat) in
     (32 \<le> n \<and> n \<le> 126) \<or> (161 \<le> n \<and> n \<noteq> 173))"

definition repr_char :: "char \<Rightarrow> char \<Rightarrow> string" where
  "repr_char q c =
     (let n = (of_char c :: nat) in
      if c = q \<or> n = 92 then [char_of (92::nat), c]
      else if n = 9 then [char_of (92::nat), CHR ''t'']
      else if n = 10 then [char_of (92::nat), CHR ''n'']
      else if n = 13 then [char_of (92::nat), CHR ''r'']
      else if py_printable c then [c]
      else [char_of (92::nat), CHR ''x'', hex_digit (n div 16), hex_digit (n mod 16)])"

definition repr_str :: "string \<Rightarrow> string" where
  "repr_str s =
     (let sq = char_of (39::nat); dq = char_of (34::nat);
          q = (if sq \<in> set s \<and> dq \<notin> set s then dq else sq)
      in [q] @ concat (map (repr_char q) s) @ [q])"

text \<open>\<open>text.lower()\<close> on the characters of the model.\<close>

definition lower_char :: "char \<Rightarrow> char" where
  "lower_char c = (let n = (of_char c :: nat) in
     if (65 \<le> n \<and> n \<le> 90) \<or> (192 \<le> n \<and> n \<le> 222 \<and> n \<noteq> 215) then char_of (n + 32) else c)"

definition py_lower :: "string \<Rightarrow> string" where
  "py_lower s = map lower_char s"

text \<open>\<open>sep.join(parts)\<close>.\<close>

fun join :: "string \<Rightarrow> string list \<Rightarrow> string" where
  "join sep [] = []"
| "join sep [x] = x"
| "join sep (x # y # ys) = x @ sep @ join sep (y # ys)"

fun py_repr :: "pyval \<Rightarrow> string" where
  "py_repr VNone = ''None''"
| "py_repr (VBool b) = (if b then ''True'' else ''False'')"
| "py_repr (VInt i) = int_str i"
| "py_repr (VFloat r t) = t"
| "py_repr (VStr s) = repr_str s"
| "py_repr (VList xs) = ''['' @ join '', '' (map py_repr xs) @ '']''"
| "py_repr (VDict d) =
     ''{'' @ join '', '' (map (\<lambda>kv. repr_str (fst kv) @ '': '' @ py_repr (snd kv)) d) @ ''}''"

fun py_str :: "pyval \<Rightarrow> string" where
  "py_str (VStr s) = s"
| "py_str v = py_repr v"

text \<open>\<open>str(exc)\<close>: a \<open>KeyError\<close> prints the \<open>repr\<close> of its key.\<close>

fun exc_text :: "py_error \<Rightarrow> string" where
  "exc_text (KeyError s) = repr_str s"
| "exc_text (ValueError s) = s"
| "exc_text (TypeError s) = s"
| "exc_text (RuntimeError s) = s"
| "exc_text (PermissionError s) = s"
| "exc_text (AttributeError s) = s"
| "exc_text (IndexError s) = s"
| "exc_text (OSError s) = s"
| "exc_text (Unmodelled s) = s"

text \<open>
  The class an \<open>except\<close> clause names. \<open>PermissionError\<close> derives from
  \<open>OSError\<close>; no other of these classes derives from another one.
\<close>

fun exc_class :: "py_error \<Rightarrow> string" where
  "exc_class (KeyError s) = ''KeyError''"
| "exc_class (ValueError s) = ''ValueError''"
| "exc_class (TypeError s) = ''TypeError''"
| "exc_class (RuntimeError s) = ''RuntimeError''"
| "exc_class (PermissionError s) = ''PermissionError''"
| "exc_class (AttributeError s) = ''AttributeError''"
| "exc_class (IndexError s) = ''IndexError''"
| "exc_class (OSError s) = ''OSError''"
| "exc_class (Unmodelled s) = ''Unmodelled''"

fun type_name :: "pyval \<Rightarrow> string" where
  "type_name VNone = ''NoneType''"
| "type_name (VBool b) = ''bool''"
| "type_name (VInt i) = ''int''"
| "type_name (VFloat r t) = ''float''"
| "type_name (VStr s) = ''str''"
| "type_name (VList xs) = ''list''"
| "type_name (VDict d) = ''dict''"

section \<open>Conversions\<close>

text \<open>
  \<open>int(text)\<close>: surrounding blanks, one sign, digits with single underscores between.
  The flag of \<open>parse_dec\<close> says that the last character read was a digit.
\<close>

fun parse_dec :: "nat \<Rightarrow> bool \<Rightarrow> string \<Rightarrow> nat option" where
  "parse_dec acc d [] = (if d then Some acc else None)"
| "parse_dec acc d (c # cs) =
     (if is_digit c then parse_dec (acc * 10 + digit_val c) True cs
      else if c = CHR ''_'' \<and> d then parse_dec acc False cs
      else None)"

definition parse_int :: "string \<Rightarrow> int option" where
  "parse_int s =
     (case py_strip s of
        [] \<Rightarrow> None
      | c # cs \<Rightarrow>
          if c = CHR ''-'' then map_option (\<lambda>n. - int n) (parse_dec 0 False cs)
          else if c = CHR ''+'' then map_option int (parse_dec 0 False cs)
          else map_option int (parse_dec 0 False (c # cs)))"

definition rat_trunc :: "rat \<Rightarrow> int" where
  "rat_trunc r = (if r < 0 then - \<lfloor>- r\<rfloor> else \<lfloor>r\<rfloor>)"

fun py_int :: "pyval \<Rightarrow> py_error + int" where
  "py_int (VBool b) = Inr (if b then 1 else 0)"
| "py_int (VInt i) = Inr i"
| "py_int (VFloat r t) = Inr (rat_trunc r)"
| "py_int (VStr s) =
     (case parse_int s of
        Some i \<Rightarrow> Inr i
      | None \<Rightarrow> Inl (ValueError (''invalid literal for int() with base 10: '' @ repr_str s)))"
| "py_int v = Inl (TypeError
     (''int() argument must be a string, a bytes-like object or a real number, not '' @ repr_str (type_name v)))"

text \<open>\<open>list(x)\<close> and the loop \<open>for y in x\<close>.\<close>

fun py_iter :: "pyval \<Rightarrow> py_error + pyval list" where
  "py_iter (VList xs) = Inr xs"
| "py_iter (VDict d) = Inr (map (\<lambda>kv. VStr (fst kv)) d)"
| "py_iter (VStr s) = Inr (map (\<lambda>c. VStr [c]) s)"
| "py_iter v = Inl (TypeError (repr_str (type_name v) @ '' object is not iterable''))"

text \<open>
  \<open>dict(x)\<close>: a copy of a mapping, or a sequence of pairs. A pair whose key is not text
  would give a dictionary the model has no value for.
\<close>

definition pair_error :: "nat \<Rightarrow> nat \<Rightarrow> py_error" where
  "pair_error i n = ValueError (''dictionary update sequence element #'' @ nat_str i @
     '' has length '' @ nat_str n @ ''; 2 is required'')"

fun dict_pairs :: "nat \<Rightarrow> pyval list \<Rightarrow> pydict \<Rightarrow> py_error + pydict" where
  "dict_pairs i [] acc = Inr acc"
| "dict_pairs i (x # xs) acc =
     (case py_iter x of
        Inl e \<Rightarrow> Inl (TypeError (''cannot convert dictionary update sequence element #'' @ nat_str i @ '' to a sequence''))
      | Inr ys \<Rightarrow>
          (if length ys \<noteq> 2 then Inl (pair_error i (length ys))
           else case ys ! 0 of
                  VStr k \<Rightarrow> dict_pairs (Suc i) xs (AList.update k (ys ! 1) acc)
                | _ \<Rightarrow> Inl (Unmodelled ''dict key is not text'')))"

fun py_dict :: "pyval \<Rightarrow> py_error + pydict" where
  "py_dict (VDict d) = Inr d"
| "py_dict (VList xs) = dict_pairs 0 xs []"
| "py_dict (VStr s) = dict_pairs 0 (map (\<lambda>c. VStr [c]) s) []"
| "py_dict v = Inl (TypeError (repr_str (type_name v) @ '' object is not iterable''))"

text \<open>\<open>x.get(...)\<close> needs a mapping; anything else raises \<open>AttributeError\<close>.\<close>

fun as_mapping :: "pyval \<Rightarrow> py_error + pydict" where
  "as_mapping (VDict d) = Inr d"
| "as_mapping v = Inl (AttributeError
     (repr_str (type_name v) @ '' object has no attribute '' @ repr_str ''get''))"

text \<open>
  \<open>a == b\<close>: numbers compare by value whatever their type, dictionaries without regard
  to the order of their entries. \<open>py_norm\<close> gives equal values the same normal form:
  every number a float without text, the entries of a dictionary sorted by key.
\<close>

fun py_norm :: "pyval \<Rightarrow> pyval" where
  "py_norm VNone = VNone"
| "py_norm (VBool b) = VFloat (if b then 1 else 0) []"
| "py_norm (VInt i) = VFloat (of_int i) []"
| "py_norm (VFloat r t) = VFloat r []"
| "py_norm (VStr s) = VStr s"
| "py_norm (VList xs) = VList (map py_norm xs)"
| "py_norm (VDict d) = VDict (sort_key fst (map (\<lambda>kv. (fst kv, py_norm (snd kv))) d))"

definition py_eq :: "pyval \<Rightarrow> pyval \<Rightarrow> bool" where
  "py_eq a b \<longleftrightarrow> py_norm a = py_norm b"

text \<open>\<open>x in (None, "", 0, "0")\<close>, the code's test for an absent id.\<close>

definition blank_id :: "pyval \<Rightarrow> bool" where
  "blank_id v \<longleftrightarrow> py_eq v VNone \<or> py_eq v (VStr []) \<or> py_eq v (VInt 0) \<or> py_eq v (VStr ''0'')"

section \<open>Generic lemmas\<close>

lemma split_words_nonempty: "w \<in> set (split_words acc s) \<Longrightarrow> w \<noteq> []"
  by (induction acc s rule: split_words.induct) (auto split: if_splits)

lemma split_words_bounded: "w \<in> set (split_words acc s) \<Longrightarrow> length w \<le> length acc + length s"
proof (induction acc s rule: split_words.induct)
  case (2 acc c cs)
  then show ?case by (fastforce split: if_splits)
qed (auto split: if_splits)

lemma py_eq_refl [simp]: "py_eq v v"
  by (simp add: py_eq_def)

lemma py_eq_sym: "py_eq a b \<Longrightarrow> py_eq b a"
  by (simp add: py_eq_def)

lemma py_eq_trans: "py_eq a b \<Longrightarrow> py_eq b c \<Longrightarrow> py_eq a c"
  by (simp add: py_eq_def)

lemma py_eq_simps [simp]:
  "py_eq (VStr s) (VStr t) \<longleftrightarrow> s = t"
  "py_eq (VInt i) (VInt j) \<longleftrightarrow> i = j"
  "py_eq (VBool b) (VBool c) \<longleftrightarrow> b = c"
  "\<not> py_eq VNone (VStr s)" "\<not> py_eq (VStr s) VNone"
  "\<not> py_eq VNone (VInt i)" "\<not> py_eq (VInt i) VNone"
  "\<not> py_eq (VStr s) (VInt i)" "\<not> py_eq (VInt i) (VStr s)"
  by (auto simp: py_eq_def)

lemma truthy_simps [simp]:
  "truthy (py_or a b) \<longleftrightarrow> truthy a \<or> truthy b"
  "truthy (py_and a b) \<longleftrightarrow> truthy a \<and> truthy b"
  by (auto simp: py_or_def py_and_def)

lemma blank_id_simps [simp]:
  "blank_id VNone" "blank_id (VStr s) \<longleftrightarrow> s = [] \<or> s = ''0''" "blank_id (VInt i) \<longleftrightarrow> i = 0"
  by (auto simp: blank_id_def)

subsection \<open>Dictionaries\<close>

text \<open>The keys of a dictionary are distinct; every operation keeps that.\<close>

abbreviation dict_ok :: "('k \<times> 'v) list \<Rightarrow> bool" where
  "dict_ok d \<equiv> distinct (map fst d)"

abbreviation dict_keys :: "('k \<times> 'v) list \<Rightarrow> 'k set" where
  "dict_keys d \<equiv> fst ` set d"

declare map_of_eq_Some_iff [simp del] Some_eq_map_of_iff [simp del]

lemma map_of_dict_update [simp]: "map_of (AList.update k v d) = (map_of d)(k \<mapsto> v)"
  by (simp add: update_conv')

lemma map_of_dict_delete [simp]: "map_of (AList.delete k d) = (map_of d)(k := None)"
  by (simp add: delete_conv')

lemma dict_ok_update [simp]: "dict_ok d \<Longrightarrow> dict_ok (AList.update k v d)"
  by (rule distinct_update)

lemma dict_ok_delete [simp]: "dict_ok d \<Longrightarrow> dict_ok (AList.delete k d)"
  by (rule distinct_delete)

lemma dict_keys_update [simp]: "dict_keys (AList.update k v d) = insert k (dict_keys d)"
  by (simp add: dom_map_of_conv_image_fst [symmetric])

lemma dict_keys_delete [simp]: "dict_keys (AList.delete k d) = dict_keys d - {k}"
  by (simp add: dom_map_of_conv_image_fst [symmetric])

lemma map_of_iff_keys: "(\<exists>v. map_of d k = Some v) \<longleftrightarrow> k \<in> dict_keys d"
  by (metis domIff dom_map_of_conv_image_fst not_Some_eq)

lemma dict_ok_filter [simp]: "dict_ok d \<Longrightarrow> dict_ok (filter P d)"
  by (rule distinct_map_filter)

text \<open>A dictionary whose entries are rewritten without touching the keys.\<close>

lemma dict_ok_map_snd [simp]: "dict_ok (map (\<lambda>(k, v). (k, f k v)) d) \<longleftrightarrow> dict_ok d"
  by (simp add: split_def comp_def)

lemma dict_keys_map_snd [simp]: "dict_keys (map (\<lambda>(k, v). (k, f k v)) d) = dict_keys d"
  by force

lemma map_of_map_snd [simp]:
  "map_of (map (\<lambda>(k, v). (k, f k v)) d) k = map_option (f k) (map_of d k)"
  by (induction d) auto

subsection \<open>Integers as text\<close>

lemma of_char_digit [simp]: "n < 10 \<Longrightarrow> (of_char (char_of (48 + n)) :: nat) = 48 + n"
  by (simp add: of_char_of)

lemma digit_char [simp]:
  "n < 10 \<Longrightarrow> is_digit (char_of (48 + n))" "n < 10 \<Longrightarrow> digit_val (char_of (48 + n)) = n"
  by (simp_all add: is_digit_def digit_val_def)

lemma parse_dec_digits: "parse_dec acc True (nat_str n @ cs) =
    parse_dec (acc * 10 ^ length (nat_str n) + n) True cs
  \<and> parse_dec acc False (nat_str n @ cs) = parse_dec (acc * 10 ^ length (nat_str n) + n) True cs"
proof (induction n arbitrary: acc cs rule: nat_str.induct)
  case (1 n)
  show ?case
  proof (cases "n < 10")
    case True
    then show ?thesis by (simp add: nat_str.simps [of n])
  next
    case False
    have eq: "nat_str n = nat_str (n div 10) @ [char_of (48 + n mod 10)]"
      using False by (simp add: nat_str.simps [of n])
    have arith: "(a + n div 10) * 10 + n mod 10 = a * 10 + n" for a :: nat
      by (simp add: add_mult_distrib)
    show ?thesis
      using False by (simp add: eq "1.IH" arith) (simp add: algebra_simps)
  qed
qed

lemma nat_str_not_Nil [simp]: "nat_str n \<noteq> []"
  by (subst nat_str.simps) simp

lemma nat_str_digits: "c \<in> set (nat_str n) \<Longrightarrow> is_digit c"
proof (induction n rule: nat_str.induct)
  case (1 n)
  then show ?case
    by (cases "n < 10") (auto simp: nat_str.simps [of n])
qed

lemma digit_not_special [simp]:
  assumes "is_digit c"
  shows "\<not> py_space c" "c \<noteq> CHR ''-''" "c \<noteq> CHR ''+''"
  using assms by (auto simp: is_digit_def py_space_def)

lemma dropWhile_space: "(\<And>c. c \<in> set s \<Longrightarrow> \<not> py_space c) \<Longrightarrow> dropWhile py_space s = s"
  by (cases s) auto

lemma strip_nat_str [simp]: "py_strip (nat_str n) = nat_str n"
proof -
  have "\<not> py_space c" if "c \<in> set (nat_str n)" for c
    using that by (simp add: nat_str_digits)
  then show ?thesis
    unfolding py_strip_def by (metis dropWhile_space rev_rev_ident set_rev)
qed

lemma strip_neg [simp]: "py_strip (CHR ''-'' # nat_str n) = CHR ''-'' # nat_str n"
proof -
  have s: "\<not> py_space c" if "c \<in> set (CHR ''-'' # nat_str n)" for c
    using that nat_str_digits digit_not_special(1) by (auto simp: py_space_def)
  then show ?thesis
    unfolding py_strip_def by (metis dropWhile_space rev_rev_ident set_rev)
qed

lemma parse_dec_nat_str [simp]: "parse_dec 0 False (nat_str n) = Some n"
  using parse_dec_digits [of 0 n "[]"] by simp

lemma parse_int_nat_str: "parse_int (nat_str n) = Some (int n)"
proof -
  obtain c cs where n: "nat_str n = c # cs" by (cases "nat_str n") auto
  have "is_digit c" by (rule nat_str_digits [of c n]) (simp add: n)
  then have "c \<noteq> CHR ''-''" "c \<noteq> CHR ''+''" by auto
  moreover have "py_strip (c # cs) = c # cs" by (metis n strip_nat_str)
  moreover have "parse_dec 0 False (c # cs) = Some n" by (simp only: n [symmetric] parse_dec_nat_str)
  ultimately show ?thesis by (simp add: parse_int_def n del: parse_dec.simps)
qed

text \<open>Ids travel as text: \<open>int(str(i)) = i\<close>.\<close>

lemma py_int_int_str [simp]: "py_int (VStr (int_str i)) = Inr i"
  by (auto simp: int_str_def parse_int_nat_str) (simp add: parse_int_def)

lemma int_str_inj [simp]: "int_str i = int_str j \<longleftrightarrow> i = j"
  by (metis py_int_int_str sum.inject(2))

lemma nat_str_inj [simp]: "nat_str m = nat_str n \<longleftrightarrow> m = n"
  by (metis of_nat_eq_iff option.inject parse_int_nat_str)

end
