(* ===== verification/Game_Values.thy ===== *)
theory Game_Values
  imports KerMP_Prelude "HOL-Library.Word"
begin

text \<open>
  The values of the game process the mod handles, and the conversions of
  \<^verbatim>\<open>src/sims_mod_src/kermp_mod/hooks.py\<close> and \<^verbatim>\<open>interaction_trace.py\<close> that turn them into
  data for the wire: \<open>_json_value\<close>, \<open>_components\<close>, \<open>_serialize_transform\<close>,
  \<open>_coerce_id\<close>, \<open>_classify_interaction_target\<close>, \<open>_position_matches\<close> and the tracer's
  \<open>_primitive\<close>. A game object is its type name and the attributes \<open>getattr\<close> finds on it; a
  callable is known by a name only. \<open>repr\<close> of a value and \<open>float\<close> of a text are
  parameters.
\<close>

section \<open>Values\<close>

datatype gval =
    GNone
  | GBool bool
  | GInt int
  | GFloat rat
  | GStr string
  | GBytes "8 word list"
  | GSeq "gval list"
  | GMap "(string \<times> gval) list"
  | GFun string
  | GObj string "(string \<times> gval) list"

text \<open>\<open>getattr(value, name, None)\<close>, and whether the attribute is there.\<close>

fun gattr_opt :: "gval \<Rightarrow> string \<Rightarrow> gval option" where
  "gattr_opt (GObj t as) n = map_of as n"
| "gattr_opt v n = None"

definition gattr :: "gval \<Rightarrow> string \<Rightarrow> gval" where
  "gattr v n = (case gattr_opt v n of None \<Rightarrow> GNone | Some w \<Rightarrow> w)"

fun gcallable :: "gval \<Rightarrow> bool" where
  "gcallable (GFun f) = True"
| "gcallable v = False"

fun gtruthy :: "gval \<Rightarrow> bool" where
  "gtruthy GNone = False"
| "gtruthy (GBool b) = b"
| "gtruthy (GInt i) = (i \<noteq> 0)"
| "gtruthy (GFloat r) = (r \<noteq> 0)"
| "gtruthy (GStr s) = (s \<noteq> [])"
| "gtruthy (GBytes bs) = (bs \<noteq> [])"
| "gtruthy (GSeq xs) = (xs \<noteq> [])"
| "gtruthy (GMap d) = (d \<noteq> [])"
| "gtruthy (GFun f) = True"
| "gtruthy (GObj t as) = True"

text \<open>\<open>int(value)\<close> where it succeeds; an object of the game is not a number.\<close>

fun gint :: "gval \<Rightarrow> int option" where
  "gint (GBool b) = Some (if b then 1 else 0)"
| "gint (GInt i) = Some i"
| "gint (GFloat r) = Some (rat_trunc r)"
| "gint (GStr s) = parse_int s"
| "gint v = None"

text \<open>\<open>float(value)\<close>; \<open>flt\<close> reads a text.\<close>

fun gfloat :: "(string \<Rightarrow> rat option) \<Rightarrow> gval \<Rightarrow> rat option" where
  "gfloat flt (GBool b) = Some (if b then 1 else 0)"
| "gfloat flt (GInt i) = Some (of_int i)"
| "gfloat flt (GFloat r) = Some r"
| "gfloat flt (GStr s) = flt s"
| "gfloat flt v = None"

fun gtype :: "gval \<Rightarrow> string" where
  "gtype GNone = ''builtins.NoneType''"
| "gtype (GBool b) = ''builtins.bool''"
| "gtype (GInt i) = ''builtins.int''"
| "gtype (GFloat r) = ''builtins.float''"
| "gtype (GStr s) = ''builtins.str''"
| "gtype (GBytes bs) = ''builtins.bytes''"
| "gtype (GSeq xs) = ''builtins.list''"
| "gtype (GMap d) = ''builtins.dict''"
| "gtype (GFun f) = ''builtins.function''"
| "gtype (GObj t as) = t"

text \<open>\<open>isinstance(value, (bool, int, float, str))\<close> or \<open>None\<close>.\<close>

fun gscalar :: "gval \<Rightarrow> bool" where
  "gscalar GNone = True"
| "gscalar (GBool b) = True"
| "gscalar (GInt i) = True"
| "gscalar (GFloat r) = True"
| "gscalar (GStr s) = True"
| "gscalar v = False"

text \<open>What \<open>json.dumps\<close> accepts: scalars, lists and dictionaries of such.\<close>

fun plain :: "gval \<Rightarrow> bool" where
  "plain (GSeq xs) = list_all plain xs"
| "plain (GMap d) = list_all (\<lambda>kv. plain (snd kv)) d"
| "plain v = gscalar v"

section \<open>\<open>_json_value\<close>\<close>

definition vector_names :: "string list" where
  "vector_names = [''x'', ''y'', ''z'', ''w'', ''primary_id'', ''secondary_id'', ''type'', ''level'']"

text \<open>The attributes with the given names, in the order of the names.\<close>

definition pick_attrs :: "string list \<Rightarrow> (string \<times> 'a) list \<Rightarrow> (string \<times> 'a) list" where
  "pick_attrs names as = List.map_filter (\<lambda>n. map_option (Pair n) (map_of as n)) names"

text \<open>
  An enumeration value gives its number, a vector-like object the attributes it has, anything
  else the start of its \<open>repr\<close>. Below depth 5 the value is returned as it is.
\<close>

fun hook_json :: "(gval \<Rightarrow> string) \<Rightarrow> nat \<Rightarrow> gval \<Rightarrow> gval" where
  "hook_json rep depth (GSeq xs) =
     (if 5 < depth then GSeq xs else GSeq (map (hook_json rep (depth + 1)) xs))"
| "hook_json rep depth (GObj t as) =
     (if 5 < depth then GObj t as
      else case Option.bind (map_of as ''value'') gint of
        Some i \<Rightarrow> GInt i
      | None \<Rightarrow>
         (let found = pick_attrs vector_names (map (\<lambda>kv. (fst kv, hook_json rep (depth + 1) (snd kv))) as)
          in if found = [] then GStr (take 500 (rep (GObj t as))) else GMap found))"
| "hook_json rep depth v =
     (if 5 < depth \<or> gscalar v then v else GStr (take 500 (rep v)))"

section \<open>Positions\<close>

definition axis_names :: "string list" where
  "axis_names = [''x'', ''y'', ''z'', ''w'']"

fun all_some :: "'a option list \<Rightarrow> 'a list option" where
  "all_some [] = Some []"
| "all_some (None # xs) = None"
| "all_some (Some x # xs) = map_option (Cons x) (all_some xs)"

text \<open>
  \<open>_components\<close>: attributes first, then the items of a sequence; an item that is no number
  raises out of the handler.
\<close>

definition components :: "(string \<Rightarrow> rat option) \<Rightarrow> gval \<Rightarrow> nat \<Rightarrow> py_error + rat list option" where
  "components flt v n =
     (if v = GNone then Inr None
      else case all_some (map (\<lambda>a. Option.bind (gattr_opt v a) (gfloat flt)) (take n axis_names)) of
        Some rs \<Rightarrow> Inr (Some rs)
      | None \<Rightarrow>
         (case v of
            GSeq xs \<Rightarrow>
              if n \<le> length xs
              then (case all_some (map (gfloat flt) (take n xs)) of
                      Some rs \<Rightarrow> Inr (Some rs)
                    | None \<Rightarrow> Inl (ValueError ''could not convert to float''))
              else Inr None
          | _ \<Rightarrow> Inr None))"

definition gfloats :: "rat list option \<Rightarrow> gval" where
  "gfloats rs = (case rs of None \<Rightarrow> GNone | Some xs \<Rightarrow> GSeq (map GFloat xs))"

definition serialize_transform ::
  "(gval \<Rightarrow> string) \<Rightarrow> (string \<Rightarrow> rat option) \<Rightarrow> gval \<Rightarrow> py_error + gval" where
  "serialize_transform rep flt t =
     (if t = GNone then Inr GNone
      else
       (let position = (case gattr_opt t ''position'' of Some p \<Rightarrow> p | None \<Rightarrow> gattr t ''translation'')
        in case components flt position 3 of
             Inl e \<Rightarrow> Inl e
           | Inr p \<Rightarrow>
             (case components flt (gattr t ''orientation'') 4 of
                Inl e \<Rightarrow> Inl e
              | Inr q \<Rightarrow>
                 if p = None \<and> q = None then Inr (hook_json rep 0 t)
                 else Inr (GMap [(''translation'', gfloats p), (''orientation'', gfloats q),
                        (''routing_surface'', hook_json rep 0 (gattr t ''routing_surface''))]))))"

definition gget :: "gval \<Rightarrow> string \<Rightarrow> gval" where
  "gget v k = (case v of GMap d \<Rightarrow> (case map_of d k of None \<Rightarrow> GNone | Some w \<Rightarrow> w) | _ \<Rightarrow> GNone)"

definition is_gmap :: "gval \<Rightarrow> bool" where
  "is_gmap v \<longleftrightarrow> (case v of GMap d \<Rightarrow> True | _ \<Rightarrow> False)"

text \<open>\<open>_serialize_interaction_position_target\<close>: the level of a pick is added when it is a number.\<close>

definition serialize_position_target ::
  "(gval \<Rightarrow> string) \<Rightarrow> (string \<Rightarrow> rat option) \<Rightarrow> gval \<Rightarrow> py_error + gval" where
  "serialize_position_target rep flt target =
     (case serialize_transform rep flt target of
        Inl e \<Rightarrow> Inl e
      | Inr v \<Rightarrow>
         (case v of
            GMap d \<Rightarrow>
              (if gget v ''translation'' = GNone then Inr v
               else case gint (gattr target ''level'') of
                      None \<Rightarrow> Inr v
                    | Some l \<Rightarrow> Inr (GMap (AList.update ''level'' (GInt l) d)))
          | _ \<Rightarrow> Inr v))"

definition target_position ::
  "(gval \<Rightarrow> string) \<Rightarrow> (string \<Rightarrow> rat option) \<Rightarrow> gval \<Rightarrow> py_error + gval" where
  "target_position rep flt v =
     (case serialize_position_target rep flt v of
        Inl e \<Rightarrow> Inl e
      | Inr c \<Rightarrow> if is_gmap c \<and> gget c ''translation'' \<noteq> GNone then Inr c else Inr GNone)"

section \<open>Identities\<close>

text \<open>\<open>_coerce_id\<close>: the first id attribute that is a number, else the value itself.\<close>

definition id_names :: "string list" where
  "id_names = [''target_id'', ''guid64'', ''guid'', ''id'']"

definition first_some :: "'a option list \<Rightarrow> 'a option" where
  "first_some xs = (case dropWhile (\<lambda>x. x = None) xs of [] \<Rightarrow> None | x # ys \<Rightarrow> x)"

definition coerce_id :: "gval \<Rightarrow> int option" where
  "coerce_id v =
     (if v = GNone then None
      else first_some (map (\<lambda>n. Option.bind (gattr_opt v n) gint) id_names @ [gint v]))"

definition target_type :: "gval \<Rightarrow> string" where
  "target_type v = (if v = GNone then ''NoneType'' else gtype v)"

text \<open>\<open>a or b\<close> on ids: 0 counts as absent.\<close>

definition id_or :: "int option \<Rightarrow> int option \<Rightarrow> int option" where
  "id_or a b = (case a of None \<Rightarrow> b | Some i \<Rightarrow> if i = 0 then b else Some i)"

definition sim_id_of :: "gval \<Rightarrow> int option" where
  "sim_id_of sim = id_or (coerce_id (gattr sim ''sim_info'')) (coerce_id sim)"

section \<open>Targets of an interaction\<close>

record target =
  tg_kind :: string
  tg_id :: string
  tg_sim :: "string option"
  tg_type :: string
  tg_local :: bool
  tg_position :: gval
  tg_pick :: gval

text \<open>
  \<open>_classify_interaction_target\<close>. \<open>managed\<close> asks the game's object manager whether the object
  it holds under an id is this very target.
\<close>

definition classify_target ::
  "(gval \<Rightarrow> string) \<Rightarrow> (string \<Rightarrow> rat option) \<Rightarrow> (int \<Rightarrow> gval \<Rightarrow> bool) \<Rightarrow> gval \<Rightarrow> gval \<Rightarrow> py_error + target" where
  "classify_target rep flt managed tgt context =
     (let tid = coerce_id tgt; ty = target_type tgt in
      case target_position rep flt tgt of
        Inl e \<Rightarrow> Inl e
      | Inr tp \<Rightarrow>
         (case target_position rep flt (gattr context ''pick'') of
            Inl e \<Rightarrow> Inl e
          | Inr pp \<Rightarrow>
             (let info = gattr tgt ''sim_info'';
                  can = gcallable (gattr tgt ''get_sim_instance'');
                  sid = (case coerce_id info of None \<Rightarrow> if can then coerce_id tgt else None | Some i \<Rightarrow> Some i);
                  best = (if gtruthy tp then tp else pp)
              in case sid of
                   Some i \<Rightarrow> Inr \<lparr>tg_kind = ''sim'', tg_id = ''0'', tg_sim = Some (int_str i), tg_type = ty,
                       tg_local = False, tg_position = best, tg_pick = pp\<rparr>
                 | None \<Rightarrow>
                    (case tid of
                       Some i \<Rightarrow>
                         if managed i tgt
                         then Inr \<lparr>tg_kind = ''object'', tg_id = int_str i, tg_sim = None, tg_type = ty,
                                tg_local = True, tg_position = best, tg_pick = pp\<rparr>
                         else if tp \<noteq> GNone \<or> pp \<noteq> GNone
                         then Inr \<lparr>tg_kind = ''position'', tg_id = ''0'', tg_sim = None, tg_type = ty,
                                tg_local = False, tg_position = (if gtruthy pp then pp else tp), tg_pick = pp\<rparr>
                         else Inr \<lparr>tg_kind = ''unknown'', tg_id = ''0'', tg_sim = None, tg_type = ty,
                                tg_local = False, tg_position = GNone, tg_pick = GNone\<rparr>
                     | None \<Rightarrow>
                         if tp \<noteq> GNone \<or> pp \<noteq> GNone
                         then Inr \<lparr>tg_kind = ''position'', tg_id = ''0'', tg_sim = None, tg_type = ty,
                                tg_local = False, tg_position = (if gtruthy pp then pp else tp), tg_pick = pp\<rparr>
                         else Inr \<lparr>tg_kind = ''unknown'', tg_id = ''0'', tg_sim = None, tg_type = ty,
                                tg_local = False, tg_position = GNone, tg_pick = GNone\<rparr>))))"

text \<open>\<open>_command_target_descriptor\<close>: only objects and sims have a typed replay form.\<close>

definition command_target ::
  "(gval \<Rightarrow> string) \<Rightarrow> (string \<Rightarrow> rat option) \<Rightarrow> (int \<Rightarrow> gval \<Rightarrow> bool) \<Rightarrow> gval \<Rightarrow> py_error + target option" where
  "command_target rep flt managed tgt =
     (case classify_target rep flt managed tgt GNone of
        Inl e \<Rightarrow> Inl e
      | Inr t \<Rightarrow> Inr (if tg_kind t \<in> {''object'', ''sim''} then Some t else None))"

section \<open>The wire\<close>

text \<open>The value \<open>json\<close> gives back for a plain one; \<open>ftext\<close> is the \<open>repr\<close> of a float.\<close>

fun wire :: "(rat \<Rightarrow> string) \<Rightarrow> gval \<Rightarrow> pyval" where
  "wire ft (GBool b) = VBool b"
| "wire ft (GInt i) = VInt i"
| "wire ft (GFloat r) = VFloat r (ft r)"
| "wire ft (GStr s) = VStr s"
| "wire ft (GSeq xs) = VList (map (wire ft) xs)"
| "wire ft (GMap d) = VDict (map (\<lambda>kv. (fst kv, wire ft (snd kv))) d)"
| "wire ft v = VNone"

fun unwire :: "pyval \<Rightarrow> gval" where
  "unwire VNone = GNone"
| "unwire (VBool b) = GBool b"
| "unwire (VInt i) = GInt i"
| "unwire (VFloat r t) = GFloat r"
| "unwire (VStr s) = GStr s"
| "unwire (VList xs) = GSeq (map unwire xs)"
| "unwire (VDict d) = GMap (map (\<lambda>kv. (fst kv, unwire (snd kv))) d)"

section \<open>\<open>_position_matches\<close>\<close>

definition expected_position :: "pydict \<Rightarrow> pyval" where
  "expected_position d = py_or (pget d ''translation'') (pget d ''position'')"

definition close_to :: "rat \<Rightarrow> rat list \<Rightarrow> rat list \<Rightarrow> bool" where
  "close_to tol xs ys \<longleftrightarrow> list_all2 (\<lambda>x y. \<bar>x - y\<bar> \<le> tol) xs ys"

definition position_tolerance :: rat where
  "position_tolerance = 1 / 1000"

definition position_matches :: "(string \<Rightarrow> rat option) \<Rightarrow> gval \<Rightarrow> pyval \<Rightarrow> py_error + bool" where
  "position_matches flt position data =
     (case data of
        VDict d \<Rightarrow>
          (case components flt position 3 of
             Inl e \<Rightarrow> Inl e
           | Inr None \<Rightarrow> Inr False
           | Inr (Some actual) \<Rightarrow>
              (case expected_position d of
                 VList xs \<Rightarrow>
                   Inr (3 \<le> length xs \<and>
                     (case all_some (map (\<lambda>x. gfloat flt (unwire x)) (take 3 xs)) of
                        None \<Rightarrow> False
                      | Some ex \<Rightarrow> close_to position_tolerance actual ex))
               | _ \<Rightarrow> Inr False))
      | _ \<Rightarrow> Inr False)"

section \<open>The tracer's view of a value\<close>

definition trace_names :: "string list" where
  "trace_names = [''id'', ''sim_id'', ''guid64'', ''revision'', ''context_handle'', ''group_id'', ''aop_id'']"

definition describe_object :: "gval \<Rightarrow> gval" where
  "describe_object v =
     GMap ((''type'', GStr (gtype v)) # List.map_filter (\<lambda>n. case gattr v n of
        GNone \<Rightarrow> None | w \<Rightarrow> if gscalar w then Some (n, w) else None) trace_names)"

fun trace_scalar :: "gval \<Rightarrow> gval" where
  "trace_scalar (GStr s) = GStr (take 120 s)"
| "trace_scalar (GBytes bs) = GMap [(''type'', GStr ''bytes''), (''length'', GInt (int (length bs)))]"
| "trace_scalar v = (if gscalar v then v else describe_object v)"

text \<open>\<open>_primitive\<close> at depth 0; one level down containers are described like objects.\<close>

definition primitive :: "gval \<Rightarrow> gval" where
  "primitive v =
     (case v of
        GSeq xs \<Rightarrow> GSeq (map trace_scalar (take 8 xs))
      | GMap d \<Rightarrow> GMap (fold (\<lambda>kv acc. AList.update (take 40 (fst kv)) (trace_scalar (snd kv)) acc) (take 8 d) [])
      | _ \<Rightarrow> trace_scalar v)"

section \<open>Lemmas\<close>

lemma plain_unwire: "plain (unwire v)"
  by (induction v) (auto simp: list_all_iff)

text \<open>A plain value survives the wire.\<close>

lemma unwire_wire: "plain v \<Longrightarrow> unwire (wire ft v) = v"
  by (induction ft v rule: wire.induct) (auto simp: list_all_iff comp_def map_idI)

lemma pick_attrs_set: "set (pick_attrs ns as) \<subseteq> set as"
  unfolding pick_attrs_def map_filter_def by (auto dest: map_of_SomeD)

text \<open>How deep a value nests; beyond depth 5 \<open>_json_value\<close> stops converting.\<close>

fun gdepth :: "gval \<Rightarrow> nat" where
  "gdepth (GSeq xs) = Suc (foldr max (map gdepth xs) 0)"
| "gdepth (GObj t as) = Suc (foldr max (map (\<lambda>kv. gdepth (snd kv)) as) 0)"
| "gdepth v = 0"

lemma foldr_max_ge: "x \<in> set xs \<Longrightarrow> x \<le> foldr max xs (m :: nat)"
  by (induction xs) (auto simp: le_max_iff_disj)

lemma scalar_plain: "gscalar v \<Longrightarrow> plain v"
  by (cases v) simp_all

lemma hook_json_plain: "gdepth v + depth \<le> 5 \<Longrightarrow> plain (hook_json rep depth v)"
proof (induction rep depth v rule: hook_json.induct)
  case (1 rep depth xs)
  have "gdepth x + (depth + 1) \<le> 5" if "x \<in> set xs" for x
    using foldr_max_ge [of "gdepth x" "map gdepth xs" 0] that "1.prems" by auto
  then show ?case using 1 by (auto simp: list_all_iff)
next
  case (2 rep depth t as)
  have "gdepth (snd kv) + (depth + 1) \<le> 5" if "kv \<in> set as" for kv
    using foldr_max_ge [of "gdepth (snd kv)" "map (\<lambda>kv. gdepth (snd kv)) as" 0] that "2.prems" by auto
  then have p: "plain (hook_json rep (depth + 1) (snd kv))"
    if "kv \<in> set as" "Option.bind (map_of as ''value'') gint = None" for kv
    using 2 that by auto
  show ?case
  proof (cases "Option.bind (map_of as ''value'') gint")
    case None
    let ?l = "map (\<lambda>kv. (fst kv, hook_json rep (depth + 1) (snd kv))) as"
    have "plain (snd kv)" if "kv \<in> set (pick_attrs vector_names ?l)" for kv
      using that p None pick_attrs_set [of vector_names ?l] by auto
    then show ?thesis using None "2.prems" by (simp add: Let_def list_all_iff)
  qed (use "2.prems" in simp)
qed (auto intro: scalar_plain)

lemma all_some_iff: "all_some xs = Some ys \<longleftrightarrow> xs = map Some ys"
  by (induction xs arbitrary: ys rule: all_some.induct) auto

lemma all_some_map [simp]: "all_some (map Some ys) = Some ys"
  by (simp add: all_some_iff)

text \<open>A position is three numbers within the tolerance of the ones asked for.\<close>

lemma position_matches_iff:
  "position_matches flt position (VDict d) = Inr True \<longleftrightarrow>
     (\<exists>actual xs ex. components flt position 3 = Inr (Some actual) \<and> expected_position d = VList xs \<and>
        3 \<le> length xs \<and> map (\<lambda>x. gfloat flt (unwire x)) (take 3 xs) = map Some ex \<and>
        close_to position_tolerance actual ex)"
  by (auto simp: position_matches_def all_some_iff split: sum.splits option.splits pyval.splits)

lemma classify_kinds:
  "classify_target rep flt managed tgt context = Inr t \<Longrightarrow>
     tg_kind t \<in> {''sim'', ''object'', ''position'', ''unknown''} \<and>
     (tg_kind t = ''object'' \<longleftrightarrow> tg_local t) \<and> (tg_kind t = ''sim'' \<longleftrightarrow> tg_sim t \<noteq> None) \<and>
     (tg_kind t \<noteq> ''object'' \<longrightarrow> tg_id t = ''0'')"
  by (auto simp: classify_target_def Let_def split: sum.splits option.splits if_splits)

end
