(* ===== verification/KerMP_Interfaces.thy ===== *)
theory KerMP_Interfaces
  imports KerMP_Prelude
begin

text \<open>
  The contracts the components share, as locales: a barrier every expected party has to
  reach, a log bounded by a capacity, a request stream that accepts each key once, and a
  lease with one holder at a time. Each is interpreted on the model's own operations in
  the theory of the component that provides it.
\<close>

section \<open>A barrier\<close>

text \<open>
  \<open>waiting s\<close>: the barrier is closed and accepts arrivals; \<open>fired s\<close>: it has opened.
  An arrival of a party that is not expected changes nothing that counts.
\<close>

locale barrier =
  fixes expected :: "'s \<Rightarrow> 'p set"
    and arrived :: "'s \<Rightarrow> 'p set"
    and waiting :: "'s \<Rightarrow> bool"
    and fired :: "'s \<Rightarrow> bool"
    and arrive :: "'p \<Rightarrow> 's \<Rightarrow> 's"
  assumes expected_arrive: "expected (arrive p s) = expected s"
    and arrived_arrive: "waiting s \<Longrightarrow> arrived (arrive p s) = arrived s \<union> ({p} \<inter> expected s)"
    and arrived_arrive_fired: "fired s \<Longrightarrow> arrived (arrive p s) = arrived s"
    and fired_arrive: "waiting s \<Longrightarrow> fired (arrive p s) \<longleftrightarrow> arrived (arrive p s) = expected s"
    and waiting_arrive: "waiting s \<Longrightarrow> \<not> fired (arrive p s) \<Longrightarrow> waiting (arrive p s)"
    and fired_stays: "fired s \<Longrightarrow> fired (arrive p s)"
    and not_both: "waiting s \<Longrightarrow> \<not> fired s"
begin

lemma expected_fold: "expected (fold arrive ps s) = expected s"
  by (induction ps arbitrary: s) (simp_all add: expected_arrive)

lemma fired_fold: "fired s \<Longrightarrow> fired (fold arrive ps s)"
  by (induction ps arbitrary: s) (simp_all add: fired_stays)

text \<open>Whatever the order and the repetitions, the barrier opens exactly when all came.\<close>

lemma fired_iff_all_arrived:
  assumes "waiting s" and "arrived s \<subset> expected s"
  shows "fired (fold arrive ps s) \<longleftrightarrow> expected s \<subseteq> arrived s \<union> set ps"
  using assms
proof (induction ps arbitrary: s)
  case Nil
  then show ?case using not_both by auto
next
  case (Cons p ps)
  let ?t = "arrive p s"
  have arr: "arrived ?t = arrived s \<union> ({p} \<inter> expected s)"
    using Cons.prems(1) by (rule arrived_arrive)
  show ?case
  proof (cases "fired ?t")
    case True
    then have "expected s \<subseteq> arrived s \<union> {p}"
      using fired_arrive [OF Cons.prems(1)] arr by auto
    with True show ?thesis by (auto simp: fired_fold)
  next
    case False
    then have w: "waiting ?t" using Cons.prems(1) by (blast intro: waiting_arrive)
    have "arrived ?t \<subset> expected ?t"
      using False fired_arrive [OF Cons.prems(1)] arr Cons.prems(2) by (auto simp: expected_arrive)
    with w have "fired (fold arrive ps ?t) \<longleftrightarrow> expected s \<subseteq> arrived ?t \<union> set ps"
      using Cons.IH by (simp add: expected_arrive)
    then show ?thesis using arr by auto
  qed
qed

corollary fires_in_any_order:
  assumes "waiting s" and "arrived s \<subset> expected s" and "set ps = expected s"
  shows "fired (fold arrive ps s)"
  using fired_iff_all_arrived [OF assms(1,2)] assms(3) by auto

corollary one_missing_keeps_closed:
  assumes "waiting s" and "arrived s \<subset> expected s"
    and "q \<in> expected s" and "q \<notin> arrived s" and "q \<notin> set ps"
  shows "\<not> fired (fold arrive ps s)"
  using fired_iff_all_arrived [OF assms(1,2)] assms(3-5) by auto

end

section \<open>A bounded log\<close>

definition last_n :: "nat \<Rightarrow> 'a list \<Rightarrow> 'a list" where
  "last_n n xs = drop (length xs - n) xs"

lemma length_last_n: "length (last_n n xs) = min n (length xs)"
  by (simp add: last_n_def)

lemma last_n_last_n: "last_n n (last_n n xs @ ys) = last_n n (xs @ ys)"
proof (cases "length xs \<le> n")
  case False
  then show ?thesis
    by (simp add: last_n_def drop_append) (rule arg_cong [where f = "\<lambda>k. drop k xs"], simp)
qed (simp add: last_n_def)

lemma set_last_n: "set (last_n n xs) \<subseteq> set xs"
  by (simp add: last_n_def set_drop_subset)

lemma last_n_short [simp]: "length xs \<le> n \<Longrightarrow> last_n n xs = xs"
  by (simp add: last_n_def)

locale bounded_log =
  fixes entries :: "'s \<Rightarrow> 'a list"
    and capacity :: "'s \<Rightarrow> nat"
    and push :: "'a \<Rightarrow> 's \<Rightarrow> 's"
  assumes entries_push: "0 < capacity s \<Longrightarrow> entries (push x s) = last_n (capacity s) (entries s @ [x])"
    and capacity_push: "capacity (push x s) = capacity s"
begin

lemma capacity_fold: "capacity (fold push xs s) = capacity s"
  by (induction xs arbitrary: s) (simp_all add: capacity_push)

lemma bounded_push: "0 < capacity s \<Longrightarrow> length (entries (push x s)) \<le> capacity (push x s)"
  by (simp add: entries_push length_last_n capacity_push)

lemma newest_kept: "0 < capacity s \<Longrightarrow> x \<in> set (entries (push x s))"
  by (simp add: entries_push last_n_def)

text \<open>After any run the log holds exactly the newest entries, in order.\<close>

lemma entries_fold:
  assumes "0 < capacity s" and "length (entries s) \<le> capacity s"
  shows "entries (fold push xs s) = last_n (capacity s) (entries s @ xs)"
  using assms
proof (induction xs arbitrary: s)
  case Nil
  then show ?case by simp
next
  case (Cons x xs)
  have "entries (fold push xs (push x s)) = last_n (capacity s) (entries (push x s) @ xs)"
    using Cons.IH [of "push x s"] Cons.prems bounded_push [of s x] by (simp add: capacity_push)
  then show ?case
    using Cons.prems by (simp add: entries_push last_n_last_n)
qed

end

section \<open>Each key accepted once\<close>

locale once_only =
  fixes seen :: "'s \<Rightarrow> 'k set"
    and key :: "'op \<Rightarrow> 'k"
    and accepts :: "'op \<Rightarrow> 's \<Rightarrow> bool"
    and exec :: "'op \<Rightarrow> 's \<Rightarrow> 's"
  assumes accepts_new: "accepts op s \<Longrightarrow> key op \<notin> seen s"
    and seen_accepted: "accepts op s \<Longrightarrow> key op \<in> seen (exec op s)"
    and seen_mono: "seen s \<subseteq> seen (exec op s)"
begin

primrec accepted :: "'op list \<Rightarrow> 's \<Rightarrow> 'op list" where
  "accepted [] s = []"
| "accepted (op # ops) s =
     (if accepts op s then op # accepted ops (exec op s) else accepted ops (exec op s))"

lemma seen_not_accepted: "k \<in> seen s \<Longrightarrow> k \<notin> key ` set (accepted ops s)"
proof (induction ops arbitrary: s)
  case (Cons op ops)
  then have "k \<in> seen (exec op s)" using seen_mono by blast
  with Cons accepts_new show ?case by auto
qed simp

text \<open>No run accepts two requests with the same key.\<close>

lemma distinct_accepted: "distinct (map key (accepted ops s))"
proof (induction ops arbitrary: s)
  case (Cons op ops)
  then show ?case using seen_not_accepted seen_accepted by auto
qed simp

end

section \<open>A lease\<close>

text \<open>
  \<open>holder t s\<close> is who may operate at time \<open>t\<close>. A request by somebody else is refused
  while the lease runs, and nothing another party does before it ends takes it away.
\<close>

locale exclusive_lease =
  fixes holder :: "'t::linorder \<Rightarrow> 's \<Rightarrow> 'p option"
    and until :: "'s \<Rightarrow> 't"
    and act :: "'t \<Rightarrow> 'p \<Rightarrow> 'op \<Rightarrow> 's \<Rightarrow> 's"
    and allowed :: "'t \<Rightarrow> 'p \<Rightarrow> 'op \<Rightarrow> 's \<Rightarrow> bool"
  assumes other_keeps:
      "holder t s = Some p \<Longrightarrow> q \<noteq> p \<Longrightarrow> t' \<le> until s \<Longrightarrow> t \<le> t' \<Longrightarrow>
       holder t' (act t' q op s) = Some p \<and> until (act t' q op s) = until s"
    and other_refused:
      "holder t s = Some p \<Longrightarrow> q \<noteq> p \<Longrightarrow> t' \<le> until s \<Longrightarrow> t \<le> t' \<Longrightarrow> \<not> allowed t' q op s"
begin

text \<open>Steps \<open>(time, who, what)\<close> of other parties, in time order, before the lease ends.\<close>

primrec others_before :: "'p \<Rightarrow> 't \<Rightarrow> 't \<Rightarrow> ('t \<times> 'p \<times> 'op) list \<Rightarrow> bool" where
  "others_before p t e [] \<longleftrightarrow> True"
| "others_before p t e (x # xs) \<longleftrightarrow>
     fst x \<le> e \<and> t \<le> fst x \<and> fst (snd x) \<noteq> p \<and> others_before p (fst x) e xs"

primrec run_lease :: "('t \<times> 'p \<times> 'op) list \<Rightarrow> 's \<Rightarrow> 's" where
  "run_lease [] s = s"
| "run_lease (x # xs) s = run_lease xs (act (fst x) (fst (snd x)) (snd (snd x)) s)"

primrec any_allowed :: "('t \<times> 'p \<times> 'op) list \<Rightarrow> 's \<Rightarrow> bool" where
  "any_allowed [] s \<longleftrightarrow> False"
| "any_allowed (x # xs) s \<longleftrightarrow> allowed (fst x) (fst (snd x)) (snd (snd x)) s
     \<or> any_allowed xs (act (fst x) (fst (snd x)) (snd (snd x)) s)"

lemma exclusive_until_end:
  assumes "holder t s = Some p" and "others_before p t (until s) xs"
  shows "\<not> any_allowed xs s \<and> until (run_lease xs s) = until s
    \<and> holder (if xs = [] then t else fst (last xs)) (run_lease xs s) = Some p"
  using assms
proof (induction xs arbitrary: t s)
  case Nil
  then show ?case by simp
next
  case (Cons x xs)
  let ?t' = "fst x" and ?q = "fst (snd x)" and ?op = "snd (snd x)"
  let ?s' = "act ?t' ?q ?op s"
  have x: "?t' \<le> until s" "t \<le> ?t'" "?q \<noteq> p" and rest: "others_before p ?t' (until s) xs"
    using Cons.prems(2) by auto
  have keeps: "holder ?t' ?s' = Some p" "until ?s' = until s"
    using other_keeps [OF Cons.prems(1) x(3) x(1) x(2)] by auto
  have "\<not> allowed ?t' ?q ?op s"
    using other_refused [OF Cons.prems(1) x(3) x(1) x(2)] .
  moreover have "\<not> any_allowed xs ?s' \<and> until (run_lease xs ?s') = until ?s'
      \<and> holder (if xs = [] then ?t' else fst (last xs)) (run_lease xs ?s') = Some p"
    using Cons.IH [OF keeps(1)] rest keeps(2) by simp
  ultimately show ?case using keeps(2) by auto
qed

end

end
