(* ===== verification/Build_Sync.thy ===== *)
theory Build_Sync
  imports KerMP_Interfaces
begin

text \<open>
  \<^verbatim>\<open>src/kermp/buildsync.py\<close>: the validation of build operations and the host's
  build authority, one leased lock with a serialized, bounded history. Clock readings
  (seconds as rationals) and the nanosecond stamp of the lease id are arguments; one call
  reads the clock once.
\<close>

section \<open>Validation\<close>

definition OBJECT_OPERATIONS :: "string list" where
  "OBJECT_OPERATIONS =
     [''object.create'', ''object.destroy'', ''object.move'', ''object.definition'',
      ''object.scale'', ''object.set_parent'', ''object.clear_parent'', ''funds.modify'',
      ''wall.create'', ''wall.delete'']"

definition MAX_BUILD_DATA_KEYS :: nat where "MAX_BUILD_DATA_KEYS = 32"
definition MAX_BUILD_VALUE_LENGTH :: nat where "MAX_BUILD_VALUE_LENGTH = 4096"

definition id_keys :: "string list" where
  "id_keys = [''object_id'', ''parent_id'', ''definition_id'', ''household_id'', ''zone_id'',
     ''routing_surface_id'']"

text \<open>The first entry with an oversized key or value decides the error.\<close>

fun entry_error :: "pydict \<Rightarrow> py_error option" where
  "entry_error [] = None"
| "entry_error ((k, v) # d) =
     (if 128 < length k then Some (ValueError ''invalid build operation key'')
      else case v of
        VStr s \<Rightarrow> if MAX_BUILD_VALUE_LENGTH < length s
                 then Some (ValueError ''build operation value too large'') else entry_error d
      | _ \<Rightarrow> entry_error d)"

text \<open>\<open>if key in result and result[key] is not None: result[key] = str(result[key])\<close>.\<close>

definition stringify_key :: "string \<Rightarrow> pydict \<Rightarrow> pydict" where
  "stringify_key k d =
     (case map_of d k of
        None \<Rightarrow> d
      | Some VNone \<Rightarrow> d
      | Some v \<Rightarrow> AList.update k (VStr (py_str v)) d)"

definition stringify_keys :: "string list \<Rightarrow> pydict \<Rightarrow> pydict" where
  "stringify_keys ks d = fold stringify_key ks d"

text \<open>\<open>not str(result.get(key, ""))\<close>: an explicit \<open>None\<close> prints as \<open>None\<close> and counts as present.\<close>

definition blank_field :: "string \<Rightarrow> pydict \<Rightarrow> bool" where
  "blank_field k d \<longleftrightarrow> py_str (pget_default d k (VStr [])) = []"

definition is_number :: "pyval \<Rightarrow> bool" where
  "is_number v \<longleftrightarrow> (case v of VBool b \<Rightarrow> True | VInt i \<Rightarrow> True | VFloat r t \<Rightarrow> True | _ \<Rightarrow> False)"

definition startswith :: "string \<Rightarrow> string \<Rightarrow> bool" where
  "startswith p s \<longleftrightarrow> take (length p) s = p"

definition required_error :: "string \<Rightarrow> pydict \<Rightarrow> py_error option" where
  "required_error op d =
     (if startswith ''object.'' op \<and> blank_field ''object_id'' d \<and> op \<noteq> ''object.create''
      then Some (ValueError ''object_id is required'')
      else if op = ''object.create'' \<and> blank_field ''definition_id'' d
      then Some (ValueError ''definition_id is required'')
      else if op = ''funds.modify'' \<and> blank_field ''household_id'' d
      then Some (ValueError ''household_id is required'')
      else if op = ''funds.modify'' \<and> \<not> is_number (pget d ''amount'')
      then Some (ValueError ''funds amount must be numeric'')
      else None)"

definition validate_build_data :: "string \<Rightarrow> pydict \<Rightarrow> py_error + pydict" where
  "validate_build_data op data =
     (if op \<notin> set OBJECT_OPERATIONS
      then Inl (ValueError (''unsupported build operation: '' @ op))
      else if MAX_BUILD_DATA_KEYS < length data
      then Inl (ValueError ''invalid build operation data'')
      else case entry_error data of
        Some e \<Rightarrow> Inl e
      | None \<Rightarrow>
        (let result = stringify_keys id_keys data
         in case required_error op result of Some e \<Rightarrow> Inl e | None \<Rightarrow> Inr result))"

section \<open>The authority\<close>

record build_lock =
  bl_owner :: string
  bl_acquired :: rat
  bl_lease :: rat

definition lock_expired :: "rat \<Rightarrow> build_lock \<Rightarrow> bool" where
  "lock_expired now l \<longleftrightarrow> bl_lease l < now - bl_acquired l"

record build_operation =
  bo_id :: string
  bo_seq :: int
  bo_player :: string
  bo_op :: string
  bo_data :: pydict

record build_authority =
  ba_lease :: rat
  ba_lock :: "build_lock option"
  ba_seq :: int
  ba_limit :: nat
  ba_history :: "build_operation list"
  ba_lease_id :: "string option"

definition new_authority :: "rat \<Rightarrow> nat \<Rightarrow> build_authority" where
  "new_authority lease limit = \<lparr>ba_lease = lease, ba_lock = None, ba_seq = 0, ba_limit = limit,
     ba_history = [], ba_lease_id = None\<rparr>"

definition default_authority :: build_authority where
  "default_authority = new_authority 8 128"

text \<open>\<open>if self.lock and self.lock.expired: self.lock = None\<close> (the lease id stays).\<close>

definition drop_expired :: "rat \<Rightarrow> build_authority \<Rightarrow> build_authority" where
  "drop_expired now a =
     (case ba_lock a of
        None \<Rightarrow> a
      | Some l \<Rightarrow> if lock_expired now l then a\<lparr>ba_lock := None\<rparr> else a)"

definition owns :: "string \<Rightarrow> build_authority \<Rightarrow> bool" where
  "owns pid a \<longleftrightarrow> (case ba_lock a of None \<Rightarrow> False | Some l \<Rightarrow> bl_owner l = pid)"

definition request_lock :: "rat \<Rightarrow> int \<Rightarrow> string \<Rightarrow> build_authority \<Rightarrow> build_authority \<times> bool" where
  "request_lock now ns pid a =
     (let a1 = drop_expired now a
      in if ba_lock a1 = None \<or> owns pid a1
         then (a1\<lparr>ba_lock := Some \<lparr>bl_owner = pid, bl_acquired = now, bl_lease = ba_lease a1\<rparr>,
                  ba_lease_id := Some (pid @ '':'' @ int_str ns)\<rparr>, True)
         else (a1, False))"

definition release_lock :: "string \<Rightarrow> build_authority \<Rightarrow> build_authority \<times> bool" where
  "release_lock pid a =
     (if owns pid a then (a\<lparr>ba_lock := None, ba_lease_id := None\<rparr>, True) else (a, False))"

text \<open>\<open>append\<close>, then \<open>del history[:-limit]\<close> (which deletes nothing for limit 0).\<close>

definition record_operation :: "build_operation \<Rightarrow> build_authority \<Rightarrow> build_authority" where
  "record_operation o1 a =
     (let h = ba_history a @ [o1]
      in a\<lparr>ba_history := (if ba_limit a = 0 then h else last_n (ba_limit a) h)\<rparr>)"

definition touch_lock :: "rat \<Rightarrow> build_authority \<Rightarrow> build_authority" where
  "touch_lock now a = a\<lparr>ba_lock := map_option (\<lambda>l. l\<lparr>bl_acquired := now\<rparr>) (ba_lock a)\<rparr>"

definition submit ::
  "rat \<Rightarrow> string \<Rightarrow> string \<Rightarrow> pydict \<Rightarrow> build_authority \<Rightarrow> build_authority \<times> (py_error + build_operation)" where
  "submit now pid op data a =
     (let a1 = drop_expired now a
      in if \<not> owns pid a1
         then (a1, Inl (PermissionError ''build operation submitted without authority''))
         else case validate_build_data op data of
           Inl e \<Rightarrow> (a1, Inl e)
         | Inr d \<Rightarrow>
           (let a2 = (touch_lock now a1)\<lparr>ba_seq := ba_seq a1 + 1\<rparr>;
                o1 = \<lparr>bo_id = ''build-'' @ int_str (ba_seq a2), bo_seq = ba_seq a2,
                      bo_player = pid, bo_op = op, bo_data = d\<rparr>
            in (record_operation o1 a2, Inr o1)))"

definition history_since :: "int \<Rightarrow> build_authority \<Rightarrow> build_operation list" where
  "history_since seq a = filter (\<lambda>o1. seq < bo_seq o1) (ba_history a)"

definition operation_dict :: "build_operation \<Rightarrow> pydict" where
  "operation_dict o1 = [(''operation_id'', VStr (bo_id o1)), (''seq'', VInt (bo_seq o1)),
     (''player_id'', VStr (bo_player o1)), (''op'', VStr (bo_op o1)), (''data'', VDict (bo_data o1))]"

definition opt_text :: "string option \<Rightarrow> pyval" where
  "opt_text s = (case s of None \<Rightarrow> VNone | Some t \<Rightarrow> VStr t)"

definition live_owner :: "rat \<Rightarrow> build_authority \<Rightarrow> string option" where
  "live_owner now a =
     (case ba_lock a of None \<Rightarrow> None | Some l \<Rightarrow> if lock_expired now l then None else Some (bl_owner l))"

definition build_snapshot :: "rat \<Rightarrow> build_authority \<Rightarrow> pydict" where
  "build_snapshot now a =
     [(''owner_id'', opt_text (live_owner now a)), (''lease_id'', opt_text (ba_lease_id a)),
      (''current_sequence'', VInt (ba_seq a)),
      (''recent_operations'', VList (map (\<lambda>o1. VDict (operation_dict o1)) (last_n 20 (ba_history a))))]"

text \<open>\<open>build.lock.owner_id if build.lock else None\<close>, which does not look at the lease.\<close>

definition lock_owner :: "build_authority \<Rightarrow> pyval" where
  "lock_owner a = (case ba_lock a of None \<Rightarrow> VNone | Some l \<Rightarrow> VStr (bl_owner l))"

section \<open>Validation: properties\<close>

lemma keys_stringify_key [simp]: "dict_keys (stringify_key k d) = dict_keys d"
  by (auto simp: stringify_key_def dom_map_of_conv_image_fst [symmetric] split: option.splits pyval.splits)

lemma dict_ok_stringify_key [simp]: "dict_ok d \<Longrightarrow> dict_ok (stringify_key k d)"
  by (auto simp: stringify_key_def split: option.splits pyval.splits)

lemma stringify_key_lookup:
  "map_of (stringify_key k d) j =
     (if j = k then map_option (\<lambda>v. if v = VNone then VNone else VStr (py_str v)) (map_of d k)
      else map_of d j)"
  by (auto simp: stringify_key_def split: option.splits pyval.splits)

lemma keys_stringify_keys [simp]: "dict_keys (stringify_keys ks d) = dict_keys d"
  by (induction ks arbitrary: d) (simp_all add: stringify_keys_def)

lemma stringify_keys_other: "j \<notin> set ks \<Longrightarrow> map_of (stringify_keys ks d) j = map_of d j"
  by (induction ks arbitrary: d) (simp_all add: stringify_keys_def stringify_key_lookup)

lemma stringify_keys_text:
  "j \<in> set ks \<Longrightarrow> map_of (stringify_keys ks d) j = Some v \<Longrightarrow> v = VNone \<or> (\<exists>s. v = VStr s)"
proof (induction ks arbitrary: d)
  case (Cons k ks)
  show ?case
  proof (cases "j \<in> set ks")
    case False
    with Cons.prems have "map_of (stringify_key k d) j = Some v" "j = k"
      by (auto simp: stringify_keys_def stringify_keys_other [unfolded stringify_keys_def])
    then show ?thesis by (auto simp: stringify_key_lookup split: if_splits)
  qed (use Cons in \<open>simp add: stringify_keys_def\<close>)
qed simp

lemma validate_ids_text:
  assumes "validate_build_data op data = Inr d" and "k \<in> set id_keys" and "map_of d k = Some v"
  shows "v = VNone \<or> (\<exists>s. v = VStr s)"
  using assms stringify_keys_text
  by (auto simp: validate_build_data_def Let_def split: if_splits option.splits)

lemma validate_accepts_known: "validate_build_data op data = Inr d \<Longrightarrow> op \<in> set OBJECT_OPERATIONS"
  by (auto simp: validate_build_data_def split: if_splits)

lemma validate_result: "validate_build_data op data = Inr d \<Longrightarrow> d = stringify_keys id_keys data"
  by (simp add: validate_build_data_def Let_def split: if_splits option.splits)

lemma validate_keys: "validate_build_data op data = Inr d \<Longrightarrow> dict_keys d = dict_keys data"
  by (drule validate_result) (simp only: keys_stringify_keys)

lemma validate_required: "validate_build_data op data = Inr d \<Longrightarrow> required_error op d = None"
  by (auto simp: validate_build_data_def Let_def split: if_splits option.splits)

lemma validate_error_kind: "validate_build_data op data = Inl e \<Longrightarrow> \<exists>m. e = ValueError m"
proof -
  have "entry_error d = Some e \<Longrightarrow> \<exists>m. e = ValueError m" for d
    by (induction d rule: entry_error.induct) (auto split: if_splits pyval.splits)
  then show "validate_build_data op data = Inl e \<Longrightarrow> \<exists>m. e = ValueError m"
    by (auto simp: validate_build_data_def required_error_def Let_def split: if_splits option.splits)
qed

section \<open>The authority: invariant\<close>

text \<open>
  The history is the newest operations with consecutive numbers up to the current one,
  and no longer than its limit.
\<close>

definition authority_ok :: "build_authority \<Rightarrow> bool" where
  "authority_ok a \<longleftrightarrow> 0 < ba_limit a \<and> length (ba_history a) \<le> ba_limit a \<and>
     int (length (ba_history a)) \<le> ba_seq a \<and>
     map bo_seq (ba_history a) = [ba_seq a - int (length (ba_history a)) + 1..ba_seq a]"

lemma authority_ok_new [simp]: "0 < limit \<Longrightarrow> authority_ok (new_authority lease limit)"
  by (simp add: authority_ok_def new_authority_def)

lemma drop_expired_frame [simp]:
  "ba_seq (drop_expired now a) = ba_seq a" "ba_history (drop_expired now a) = ba_history a"
  "ba_limit (drop_expired now a) = ba_limit a" "ba_lease (drop_expired now a) = ba_lease a"
  by (simp_all add: drop_expired_def split: option.splits)

lemma request_lock_frame [simp]:
  "ba_seq (fst (request_lock now ns pid a)) = ba_seq a"
  "ba_history (fst (request_lock now ns pid a)) = ba_history a"
  "ba_limit (fst (request_lock now ns pid a)) = ba_limit a"
  by (simp_all add: request_lock_def Let_def)

lemma release_lock_frame [simp]:
  "ba_seq (fst (release_lock pid a)) = ba_seq a"
  "ba_history (fst (release_lock pid a)) = ba_history a"
  "ba_limit (fst (release_lock pid a)) = ba_limit a"
  by (simp_all add: release_lock_def)

lemma authority_ok_cong:
  "ba_seq a = ba_seq b \<Longrightarrow> ba_history a = ba_history b \<Longrightarrow> ba_limit a = ba_limit b \<Longrightarrow>
   authority_ok a \<longleftrightarrow> authority_ok b"
  by (simp add: authority_ok_def)

lemma drop_expired_ok [kermp_inv]: "authority_ok a \<Longrightarrow> authority_ok (drop_expired now a)"
  by (simp add: authority_ok_def)

lemma request_lock_ok [kermp_inv]: "authority_ok a \<Longrightarrow> authority_ok (fst (request_lock now ns pid a))"
  by (simp add: authority_ok_def)

lemma release_lock_ok [kermp_inv]: "authority_ok a \<Longrightarrow> authority_ok (fst (release_lock pid a))"
  by (simp add: authority_ok_def)

interpretation build_history: bounded_log ba_history ba_limit record_operation
  by unfold_locales (simp_all add: record_operation_def Let_def)

lemma record_operation_frame [simp]:
  "ba_seq (record_operation o1 a) = ba_seq a" "ba_lock (record_operation o1 a) = ba_lock a"
  "ba_limit (record_operation o1 a) = ba_limit a" "ba_lease_id (record_operation o1 a) = ba_lease_id a"
  "ba_lease (record_operation o1 a) = ba_lease a"
  by (simp_all add: record_operation_def Let_def)

lemma drop_upto: "n \<le> j + 1 - i \<Longrightarrow> 0 \<le> n \<Longrightarrow> drop (nat n) [i..j] = [i + n..j]"
proof (induction "nat n" arbitrary: n i)
  case (Suc k)
  then have "i \<le> j" by linarith
  then have "[i..j] = i # [i + 1..j]" by (rule upto_rec1)
  moreover have "drop (nat (n - 1)) [i + 1..j] = [i + 1 + (n - 1)..j]"
    using Suc by (intro Suc.hyps(1)) auto
  moreover have "nat n = Suc (nat (n - 1))" using Suc by linarith
  ultimately show ?case by simp
qed simp

lemma record_next_ok:
  assumes ok: "authority_ok a" and n: "ba_seq b = ba_seq a + 1" "ba_history b = ba_history a"
    "ba_limit b = ba_limit a" and o1: "bo_seq o1 = ba_seq b"
  shows "authority_ok (record_operation o1 b)"
proof -
  let ?h = "ba_history a" and ?k = "ba_seq a - int (length (ba_history a)) + 1"
  have lim: "0 < ba_limit b" and len: "length ?h \<le> ba_limit b" "int (length ?h) \<le> ba_seq a"
    using ok n by (auto simp: authority_ok_def)
  have seqs: "map bo_seq (?h @ [o1]) = [?k..ba_seq b]"
    using ok n o1 len by (simp add: authority_ok_def upto_rec2)
  have h: "ba_history (record_operation o1 b) = last_n (ba_limit b) (?h @ [o1])"
    using build_history.entries_push [OF lim] n by simp
  define m where "m = length ?h + 1 - ba_limit b"
  have "map bo_seq (last_n (ba_limit b) (?h @ [o1])) = drop m [?k..ba_seq b]"
    by (simp add: last_n_def m_def drop_map [symmetric] seqs [symmetric])
  also have "\<dots> = [?k + int m..ba_seq b]"
    using drop_upto [of "int m" "ba_seq b" ?k] n len m_def lim by simp
  finally show ?thesis
    using h lim len n m_def by (simp add: authority_ok_def length_last_n min_def algebra_simps)
qed

lemma submit_ok [kermp_inv]: "authority_ok a \<Longrightarrow> authority_ok (fst (submit now pid op data a))"
  by (auto simp: submit_def Let_def touch_lock_def split: sum.splits
      intro!: record_next_ok [of a] intro: kermp_inv)

section \<open>The lease\<close>

datatype lease_op = Request int | Release | Submit string pydict

definition lease_act :: "rat \<Rightarrow> string \<Rightarrow> lease_op \<Rightarrow> build_authority \<Rightarrow> build_authority" where
  "lease_act now pid op a =
     (case op of
        Request ns \<Rightarrow> fst (request_lock now ns pid a)
      | Release \<Rightarrow> fst (release_lock pid a)
      | Submit kind data \<Rightarrow> fst (submit now pid kind data a))"

definition lease_allowed :: "rat \<Rightarrow> string \<Rightarrow> lease_op \<Rightarrow> build_authority \<Rightarrow> bool" where
  "lease_allowed now pid op a =
     (case op of
        Request ns \<Rightarrow> snd (request_lock now ns pid a)
      | Release \<Rightarrow> snd (release_lock pid a)
      | Submit kind data \<Rightarrow> (case snd (submit now pid kind data a) of Inl e \<Rightarrow> False | Inr o1 \<Rightarrow> True))"

definition lease_end :: "build_authority \<Rightarrow> rat" where
  "lease_end a = (case ba_lock a of None \<Rightarrow> 0 | Some l \<Rightarrow> bl_acquired l + bl_lease l)"

lemma live_owner_Some:
  "live_owner t a = Some p \<longleftrightarrow> (\<exists>l. ba_lock a = Some l \<and> bl_owner l = p \<and> t \<le> lease_end a)"
  by (auto simp: live_owner_def lease_end_def lock_expired_def split: option.splits)

lemma live_not_dropped: "t \<le> lease_end a \<Longrightarrow> drop_expired t a = a"
  by (auto simp: drop_expired_def lease_end_def lock_expired_def split: option.splits)

text \<open>A call by another party before the end of the lease is refused and changes nothing.\<close>

lemma other_no_effect:
  assumes "live_owner t a = Some p" and "q \<noteq> p" and "t' \<le> lease_end a"
  shows "lease_act t' q op a = a" and "\<not> lease_allowed t' q op a"
proof -
  have o: "\<not> owns q a" "ba_lock a \<noteq> None" "drop_expired t' a = a"
    using assms live_not_dropped by (auto simp: live_owner_Some owns_def)
  show "lease_act t' q op a = a"
    by (cases op) (simp_all add: o lease_act_def request_lock_def release_lock_def submit_def Let_def)
  show "\<not> lease_allowed t' q op a"
    by (cases op) (simp_all add: o lease_allowed_def request_lock_def release_lock_def submit_def Let_def)
qed

interpretation build_lease: exclusive_lease live_owner lease_end lease_act lease_allowed
proof unfold_locales
  fix t t' :: rat and s :: build_authority and p q :: string and op :: lease_op
  assume "live_owner t s = Some p" and "q \<noteq> p" and "t' \<le> lease_end s" and "t \<le> t'"
  then show "live_owner t' (lease_act t' q op s) = Some p \<and> lease_end (lease_act t' q op s) = lease_end s"
    using other_no_effect(1) by (auto simp: live_owner_Some)
next
  fix t t' :: rat and s :: build_authority and p q :: string and op :: lease_op
  assume "live_owner t s = Some p" and "q \<noteq> p" and "t' \<le> lease_end s" and "t \<le> t'"
  then show "\<not> lease_allowed t' q op s" using other_no_effect(2) by blast
qed

lemma request_granted_iff:
  "snd (request_lock now ns pid a) \<longleftrightarrow> live_owner now a = None \<or> live_owner now a = Some pid"
  by (auto simp: request_lock_def drop_expired_def live_owner_def owns_def Let_def split: option.splits)

lemma request_granted_owner:
  "snd (request_lock now ns pid a) \<Longrightarrow> 0 \<le> ba_lease a \<Longrightarrow>
   live_owner now (fst (request_lock now ns pid a)) = Some pid \<and>
   lease_end (fst (request_lock now ns pid a)) = now + ba_lease a"
  by (auto simp: request_lock_def live_owner_def lease_end_def lock_expired_def Let_def split: if_splits)

text \<open>Who may submit, and what an accepted submission records.\<close>

lemma submit_accepted_iff:
  "(\<exists>o1. snd (submit now pid op data a) = Inr o1) \<longleftrightarrow>
     live_owner now a = Some pid \<and> (\<exists>d. validate_build_data op data = Inr d)"
  by (auto simp: submit_def drop_expired_def live_owner_def owns_def Let_def
      split: option.splits sum.splits)

lemma submit_records:
  assumes "snd (submit now pid op data a) = Inr o1" and "0 < ba_limit a"
  shows "bo_seq o1 = ba_seq a + 1 \<and> bo_player o1 = pid \<and> bo_op o1 = op \<and>
    ba_seq (fst (submit now pid op data a)) = ba_seq a + 1 \<and>
    o1 \<in> set (ba_history (fst (submit now pid op data a)))"
  using assms
  by (auto simp: submit_def Let_def touch_lock_def split: if_splits sum.splits
      intro!: build_history.newest_kept)

lemma submit_rejected_frame:
  "snd (submit now pid op data a) = Inl e \<Longrightarrow> fst (submit now pid op data a) = drop_expired now a"
  by (auto simp: submit_def Let_def split: if_splits sum.splits)

section \<open>Catching up\<close>

lemma filter_upto: "i - 1 \<le> s \<Longrightarrow> filter (\<lambda>x. s < x) [i..j] = [s + 1..j]"
proof (induction "nat (j - i + 1)" arbitrary: i)
  case (Suc k)
  then have ij: "i \<le> j" by linarith
  then have up: "[i..j] = i # [i + 1..j]" by (rule upto_rec1)
  show ?case
  proof (cases "s < i")
    case True
    then have "s + 1 = i" using Suc.prems by linarith
    moreover have "filter (\<lambda>x. s < x) [i + 1..j] = [i + 1..j]"
      using True by (auto simp: filter_id_conv)
    ultimately show ?thesis using True up by simp
  next
    case False
    then have "filter (\<lambda>x. s < x) [i + 1..j] = [s + 1..j]"
      using Suc by (intro Suc.hyps(1)) auto
    with False up show ?thesis by simp
  qed
qed simp

text \<open>
  A peer that has seen everything up to \<open>s\<close>, no older than the retained history, gets
  exactly the operations it misses, in order and without a gap.
\<close>

lemma history_since_complete:
  assumes "authority_ok a" and "ba_seq a - int (length (ba_history a)) \<le> s"
  shows "map bo_seq (history_since s a) = [s + 1..ba_seq a]"
proof -
  have "map bo_seq (history_since s a) = filter (\<lambda>x. s < x) (map bo_seq (ba_history a))"
    by (simp add: history_since_def filter_map comp_def)
  also have "\<dots> = filter (\<lambda>x. s < x) [ba_seq a - int (length (ba_history a)) + 1..ba_seq a]"
    using assms(1) by (simp add: authority_ok_def)
  also have "\<dots> = [s + 1..ba_seq a]"
    using assms(2) by (intro filter_upto) simp
  finally show ?thesis .
qed

section \<open>Runs of requests\<close>

text \<open>A request with its time and author, and what a run of them leaves.\<close>

definition lease_step :: "rat \<times> string \<times> lease_op \<Rightarrow> build_authority \<Rightarrow> build_authority" where
  "lease_step x a = lease_act (fst x) (fst (snd x)) (snd (snd x)) a"

lemma run_lease_fold: "build_lease.run_lease xs a = fold lease_step xs a"
  by (induction xs arbitrary: a) (simp_all add: lease_step_def)

lemma any_allowed_append:
  "build_lease.any_allowed (xs @ ys) a \<longleftrightarrow>
     build_lease.any_allowed xs a \<or> build_lease.any_allowed ys (build_lease.run_lease xs a)"
  by (induction xs arbitrary: a) auto

lemma others_before_iff:
  "build_lease.others_before p t e xs \<longleftrightarrow>
     sorted (t # map fst xs) \<and> (\<forall>x \<in> set xs. fst x \<le> e \<and> fst (snd x) \<noteq> p)"
  by (induction xs arbitrary: t) (auto intro: order_trans)

text \<open>No request of another player succeeds, or takes the lock, before the lease ends.\<close>

lemma others_refused:
  assumes "live_owner t a = Some p" and "sorted (t # map fst xs)"
    and "\<forall>x \<in> set xs. fst x \<le> lease_end a \<and> fst (snd x) \<noteq> p" and "xs = ys @ x # zs"
  shows "\<not> lease_allowed (fst x) (fst (snd x)) (snd (snd x)) (fold lease_step ys a) \<and>
    live_owner (fst x) (fold lease_step (ys @ [x]) a) = Some p"
proof -
  have "build_lease.others_before p t (lease_end a) (ys @ [x])"
    using assms(2-4) by (auto simp: others_before_iff sorted_append simp del: sorted_simps(2) intro: sorted_simps(2) [THEN iffD2])
  from build_lease.exclusive_until_end [OF assms(1) this]
  show ?thesis
    by (simp add: any_allowed_append run_lease_fold lease_step_def)
qed

lemma lease_step_ok: "authority_ok a \<Longrightarrow> authority_ok (lease_step x a)"
  by (cases "snd (snd x)") (simp_all add: lease_step_def lease_act_def kermp_inv)

lemma lease_run_ok: "authority_ok a \<Longrightarrow> authority_ok (fold lease_step xs a)"
  by (induction xs arbitrary: a) (simp_all add: lease_step_ok)

end
