(* ===== verification/Build_Adapter.thy ===== *)
theory Build_Adapter
  imports Build_Sync
begin

text \<open>
  \<^verbatim>\<open>src/sims_mod_src/kermp_mod/build_adapter.py\<close>: the mod's boundary to Build/Buy.
  It normalizes operations, captures local ones once, applies remote ones once and keeps
  the changes a remote operation makes in the game from being captured again. The
  game-side \<open>apply\<close> callable is an argument; it may run the capture hooks, so it acts on
  the adapter. \<open>json.dumps(..., sort_keys=True)\<close> is the argument \<open>dumps\<close>.
\<close>

section \<open>Normal forms\<close>

text \<open>\<open>_json_value\<close> on values that are already JSON; other objects are outside the model.\<close>

function json_value :: "nat \<Rightarrow> pyval \<Rightarrow> pyval" where
  "json_value depth v =
     (if 5 < depth then VStr ''<depth-limit>''
      else case v of
        VDict d \<Rightarrow> VDict (map (\<lambda>kv. (fst kv, json_value (Suc depth) (snd kv))) (sort_key fst d))
      | VList xs \<Rightarrow> VList (map (json_value (Suc depth)) xs)
      | _ \<Rightarrow> v)"
  by pat_completeness auto
termination by (relation "measure (\<lambda>(depth, v). 6 - depth)") auto

declare json_value.simps [simp del]

definition OBJECT_ID_OPERATIONS :: "string list" where
  "OBJECT_ID_OPERATIONS =
     filter (\<lambda>op. op \<notin> {''wall.create'', ''wall.delete'', ''funds.modify''}) OBJECT_OPERATIONS"

record game_op =
  go_op :: string
  go_data :: pydict
  go_id :: "string option"

definition game_op_dict :: "game_op \<Rightarrow> pydict" where
  "game_op_dict o1 = [(''op'', VStr (go_op o1)), (''data'', VDict (go_data o1))] @
     (case go_id o1 of None \<Rightarrow> [] | Some i \<Rightarrow> [(''op_id'', VStr i)])"

definition adapter_id_keys :: "string list" where
  "adapter_id_keys = [''object_id'', ''parent_id'', ''definition_id'', ''household_id'', ''zone_id'']"

definition missing_field :: "string \<Rightarrow> pydict \<Rightarrow> py_error option" where
  "missing_field op d =
     (if op \<in> set OBJECT_ID_OPERATIONS \<and> blank_field ''object_id'' d
      then Some (ValueError ''object_id is required'')
      else if op = ''object.create'' \<and> blank_field ''definition_id'' d
      then Some (ValueError ''definition_id is required'')
      else if op = ''funds.modify'' \<and> blank_field ''household_id'' d
      then Some (ValueError ''household_id is required'')
      else None)"

definition operation_id :: "pydict \<Rightarrow> string option" where
  "operation_id p =
     (case pget_default p ''op_id'' (pget p ''op_seq'') of VNone \<Rightarrow> None | v \<Rightarrow> Some (py_str v))"

definition normalize_operation :: "pyval \<Rightarrow> py_error + game_op" where
  "normalize_operation payload =
     (case as_mapping (py_or payload (VDict [])) of
        Inl e \<Rightarrow> Inl e
      | Inr p \<Rightarrow>
        (let op = py_str (py_or (pget p ''op'') (VStr [])) in
         if op \<notin> set OBJECT_OPERATIONS then Inl (ValueError (''unsupported build operation: '' @ op))
         else case py_dict (py_or (pget p ''data'') (VDict [])) of
           Inl e \<Rightarrow> Inl e
         | Inr d \<Rightarrow>
            (case missing_field op d of
               Some e \<Rightarrow> Inl e
             | None \<Rightarrow> Inr \<lparr>go_op = op, go_data = stringify_keys adapter_id_keys d, go_id = operation_id p\<rparr>)))"

section \<open>The parent of an object\<close>

definition root_or_int :: "pyval \<Rightarrow> int" where
  "root_or_int v =
     (if v = VNone \<or> py_str v = [] \<or> py_str v = ''0'' then 0
      else case parse_int (py_str v) of None \<Rightarrow> 0 | Some i \<Rightarrow> i)"

fun all_ints :: "pyval list \<Rightarrow> int list option" where
  "all_ints [] = Some []"
| "all_ints (v # vs) =
     (case py_int v of
        Inl e \<Rightarrow> None
      | Inr i \<Rightarrow> (case all_ints vs of None \<Rightarrow> None | Some is \<Rightarrow> Some (i # is)))"

definition resolve_parent_context :: "pydict \<Rightarrow> int \<times> int list \<times> int" where
  "resolve_parent_context d =
     (root_or_int (pget d ''parent_id''),
      (case pget d ''parent_type_info'' of
         VList vs \<Rightarrow> (case all_ints vs of None \<Rightarrow> [0, 0] | Some is \<Rightarrow> is)
       | _ \<Rightarrow> [0, 0]),
      root_or_int (pget d ''slot_hash''))"

section \<open>Contours\<close>

text \<open>The keys of a counting dictionary: each once, where it first occurs.\<close>

fun first_occurrences :: "'a list \<Rightarrow> 'a list" where
  "first_occurrences [] = []"
| "first_occurrences (x # xs) = x # filter (\<lambda>y. y \<noteq> x) (first_occurrences xs)"

text \<open>For each key of \<open>xs\<close>, its first item as many times as \<open>xs\<close> has it more often than \<open>ys\<close>.\<close>

definition surplus :: "('a \<Rightarrow> 'k) \<Rightarrow> 'a list \<Rightarrow> 'a list \<Rightarrow> 'a list" where
  "surplus key xs ys =
     concat (map (\<lambda>k. replicate (count_list (map key xs) k - count_list (map key ys) k)
         (hd (filter (\<lambda>x. key x = k) xs)))
       (first_occurrences (map key xs)))"

definition identity_keys :: "string list" where
  "identity_keys = [''wall_id'', ''wallId'', ''id'', ''guid'', ''uid'', ''handle'']"

definition item_identity :: "pyval \<Rightarrow> string option" where
  "item_identity v =
     (case v of
        VDict d \<Rightarrow>
          (case filter (\<lambda>k. map_of d k \<noteq> None) identity_keys of
             [] \<Rightarrow> None | k # _ \<Rightarrow> Some (py_str (pget d k)))
      | _ \<Rightarrow> None)"

definition by_identity :: "pyval list \<Rightarrow> (string \<times> pyval) list" where
  "by_identity xs =
     fold (\<lambda>x m. case item_identity x of None \<Rightarrow> m | Some i \<Rightarrow> AList.update i x m) xs []"

definition changed_items :: "pyval list \<Rightarrow> pyval list \<Rightarrow> (string \<times> pyval \<times> pyval) list" where
  "changed_items before after =
     (let b = by_identity before; a = by_identity after;
          both = sort (filter (\<lambda>i. map_of a i \<noteq> None) (map fst b))
      in concat (map (\<lambda>i. case (map_of b i, map_of a i) of
           (Some x, Some y) \<Rightarrow> if py_eq x y then [] else [(i, x, y)]
         | _ \<Rightarrow> []) both))"

record delta =
  dt_before :: nat
  dt_after :: nat
  dt_added :: "pyval list"
  dt_removed :: "pyval list"
  dt_changed :: "(string \<times> pyval \<times> pyval) list"

definition contour_delta :: "(pyval \<Rightarrow> string) \<Rightarrow> pyval list \<Rightarrow> pyval list \<Rightarrow> delta" where
  "contour_delta dumps before after =
     \<lparr>dt_before = length before, dt_after = length after, dt_added = surplus dumps after before,
      dt_removed = surplus dumps before after, dt_changed = changed_items before after\<rparr>"

section \<open>The adapter\<close>

record adapter =
  ad_capture :: bool
  ad_apply :: bool
  ad_seen :: "string set"
  ad_last_local :: "game_op option"
  ad_by_type :: "(string \<times> game_op) list"
  ad_last_remote :: "game_op option"
  ad_applying :: bool
  ad_probe :: "pyval list option"
  ad_counts :: "(string \<times> int) list"
  ad_last_error :: "string option"
  ad_hooks :: pydict
  ad_captured :: int
  ad_suppressed :: int
  ad_errors :: int
  ad_last_capture :: "game_op option"
  ad_capture_error :: "string option"
  ad_definitions :: "(pyval \<times> pyval) list"
  ad_sequence :: int

definition new_adapter :: adapter where
  "new_adapter =
     \<lparr>ad_capture = False, ad_apply = False, ad_seen = {}, ad_last_local = None, ad_by_type = [],
      ad_last_remote = None, ad_applying = False, ad_probe = None, ad_counts = [], ad_last_error = None,
      ad_hooks = [], ad_captured = 0, ad_suppressed = 0, ad_errors = 0, ad_last_capture = None,
      ad_capture_error = None, ad_definitions = [], ad_sequence = 0\<rparr>"

definition configure :: "bool \<Rightarrow> bool \<Rightarrow> adapter \<Rightarrow> adapter" where
  "configure capture apply a = a\<lparr>ad_capture := capture, ad_apply := apply\<rparr>"

definition reset_diagnostics :: "adapter \<Rightarrow> adapter" where
  "reset_diagnostics a =
     a\<lparr>ad_counts := [], ad_captured := 0, ad_suppressed := 0, ad_errors := 0, ad_last_capture := None,
       ad_capture_error := None, ad_last_local := None, ad_by_type := [], ad_last_error := None,
       ad_definitions := [], ad_sequence := 0\<rparr>"

definition capabilities :: "adapter \<Rightarrow> string set" where
  "capabilities a = (if ad_capture a then {''capture''} else {}) \<union> (if ad_apply a then {''apply''} else {})"

definition error_line :: "py_error \<Rightarrow> string" where
  "error_line e = exc_class e @ '': '' @ exc_text e"

definition count_op :: "string \<Rightarrow> adapter \<Rightarrow> adapter" where
  "count_op op a = a\<lparr>ad_counts := AList.update op
     ((case map_of (ad_counts a) op of None \<Rightarrow> 0 | Some n \<Rightarrow> n) + 1) (ad_counts a)\<rparr>"

text \<open>A definition change that repeats the last one captured for the object.\<close>

definition repeats_definition :: "game_op \<Rightarrow> adapter \<Rightarrow> bool" where
  "repeats_definition o1 a \<longleftrightarrow> go_op o1 = ''object.definition'' \<and>
     (case map_of (ad_definitions a) (pget (go_data o1) ''object_id'') of None \<Rightarrow> VNone | Some v \<Rightarrow> v) =
     pget (go_data o1) ''definition_id''"

definition note_definition :: "game_op \<Rightarrow> adapter \<Rightarrow> adapter" where
  "note_definition o1 a =
     (if go_op o1 = ''object.definition''
      then a\<lparr>ad_definitions := AList.update (pget (go_data o1) ''object_id'')
             (pget (go_data o1) ''definition_id'') (ad_definitions a)\<rparr>
      else a)"

definition local_id :: "pyval \<Rightarrow> int \<Rightarrow> string" where
  "local_id payload n =
     (case payload of
        VDict p \<Rightarrow> py_str (py_or (pget p ''op_id'') (VStr (''local-'' @ int_str n)))
      | _ \<Rightarrow> ''local-'' @ int_str n)"

definition capture_local :: "pyval \<Rightarrow> adapter \<Rightarrow> adapter \<times> game_op option" where
  "capture_local payload a =
     (if ad_applying a then (a\<lparr>ad_suppressed := ad_suppressed a + 1\<rparr>, None)
      else case normalize_operation payload of
        Inl e \<Rightarrow> (a\<lparr>ad_last_error := Some (error_line e), ad_errors := ad_errors a + 1,
                   ad_capture_error := Some (error_line e)\<rparr>, None)
      | Inr o1 \<Rightarrow>
          if repeats_definition o1 a then (a, None)
          else
            (let a1 = note_definition o1 a;
                 n = ad_sequence a1 + 1;
                 o2 = o1\<lparr>go_id := Some (local_id payload n)\<rparr>
             in (count_op (go_op o2)
                   (a1\<lparr>ad_sequence := n, ad_last_local := Some o2,
                       ad_by_type := AList.update (go_op o2) o2 (ad_by_type a1),
                       ad_last_capture := Some o2, ad_captured := ad_captured a1 + 1\<rparr>), Some o2)))"

type_synonym apply_fn = "game_op \<Rightarrow> adapter \<Rightarrow> adapter \<times> py_error option"

definition remote_key :: "(pyval \<Rightarrow> string) \<Rightarrow> game_op \<Rightarrow> string" where
  "remote_key dumps o1 =
     (case go_id o1 of
        Some i \<Rightarrow> if i = [] then dumps (VDict (game_op_dict o1)) else i
      | None \<Rightarrow> dumps (VDict (game_op_dict o1)))"

text \<open>The value returned, or the exception the callable raised.\<close>

definition apply_remote ::
  "(pyval \<Rightarrow> string) \<Rightarrow> apply_fn \<Rightarrow> pyval \<Rightarrow> adapter \<Rightarrow> adapter \<times> (py_error + bool)" where
  "apply_remote dumps apply payload a =
     (case normalize_operation payload of
        Inl e \<Rightarrow> (a\<lparr>ad_last_error := Some (error_line e)\<rparr>, Inr False)
      | Inr o1 \<Rightarrow>
         if remote_key dumps o1 \<in> ad_seen a then (a, Inr False)
         else
           (let a1 = a\<lparr>ad_seen := insert (remote_key dumps o1) (ad_seen a), ad_last_remote := Some o1\<rparr>
            in if \<not> ad_apply a1 then (a1, Inr False)
               else case apply o1 (a1\<lparr>ad_applying := True\<rparr>) of
                 (a2, None) \<Rightarrow> ((count_op (go_op o1) a2)\<lparr>ad_applying := False\<rparr>, Inr True)
               | (a2, Some e) \<Rightarrow>
                   (a2\<lparr>ad_last_error := Some (error_line e), ad_applying := False\<rparr>, Inl e)))"

definition replay_last ::
  "(pyval \<Rightarrow> string) \<Rightarrow> apply_fn \<Rightarrow> adapter \<Rightarrow> adapter \<times> (py_error + bool)" where
  "replay_last dumps apply a =
     (case ad_last_local a of
        None \<Rightarrow> (a, Inr False)
      | Some o1 \<Rightarrow> apply_remote dumps apply (VDict (game_op_dict o1)) a)"

definition opt_op :: "game_op option \<Rightarrow> pyval" where
  "opt_op o1 = (case o1 of None \<Rightarrow> VNone | Some x \<Rightarrow> VDict (game_op_dict x))"

definition adapter_status :: "adapter \<Rightarrow> pydict" where
  "adapter_status a =
     [(''capture_hook'', VBool (ad_capture a)), (''apply_hook'', VBool (ad_apply a)),
      (''suppression_active'', VBool (ad_applying a)), (''last_local_operation'', opt_op (ad_last_local a)),
      (''last_remote_operation'', opt_op (ad_last_remote a)),
      (''operation_counts'', VDict (map (\<lambda>kn. (fst kn, VInt (snd kn))) (ad_counts a))),
      (''hooks'', VDict (ad_hooks a)), (''last_error'', opt_text (ad_last_error a)),
      (''captured_total'', VInt (ad_captured a)), (''suppressed_remote_echo'', VInt (ad_suppressed a)),
      (''capture_errors'', VInt (ad_errors a)), (''last_capture'', opt_op (ad_last_capture a)),
      (''last_capture_error'', opt_text (ad_capture_error a))]"

text \<open>\<open>probe\<close>, given the contours the game reports: the first call is the baseline.\<close>

definition probe :: "(pyval \<Rightarrow> string) \<Rightarrow> pyval list \<Rightarrow> adapter \<Rightarrow> adapter \<times> delta option" where
  "probe dumps current a =
     (a\<lparr>ad_probe := Some current\<rparr>, map_option (\<lambda>b. contour_delta dumps b current) (ad_probe a))"

definition wanted_surface :: "string list" where
  "wanted_surface =
     [''register_build_buy_enter_callback'', ''register_build_buy_exit_callback'',
      ''wall_contour_update_callbacks'', ''get_wall_contours'', ''c_api_wall_contour_update'',
      ''is_in_build_buy'', ''c_api_create_object'', ''c_api_set_object_location_ex'',
      ''c_api_modify_household_funds'', ''c_api_set_parent_object'', ''c_api_clear_parent_object'']"

definition build_buy_surface :: "string list option \<Rightarrow> bool \<times> string list" where
  "build_buy_surface names =
     (case names of None \<Rightarrow> (False, []) | Some ns \<Rightarrow> (True, filter (\<lambda>w. w \<in> set ns) wanted_surface))"

section \<open>Properties\<close>

lemma normalize_result:
  assumes "normalize_operation payload = Inr o1"
  shows "go_op o1 \<in> set OBJECT_OPERATIONS"
    "\<exists>d. go_data o1 = stringify_keys adapter_id_keys d \<and> missing_field (go_op o1) d = None"
  using assms by (auto simp: normalize_operation_def Let_def split: sum.splits if_splits option.splits)

text \<open>What the adapter captured is normalized already: normalizing it again changes nothing.\<close>

lemma stringify_key_idem: "stringify_key k (stringify_key k d) = stringify_key k d"
proof (cases "map_of d k")
  case (Some v)
  then show ?thesis
    by (cases v) (simp_all add: stringify_key_def)
qed (simp add: stringify_key_def)

subsection \<open>Contours\<close>

lemma set_first_occurrences [simp]: "set (first_occurrences xs) = set xs"
  by (induction xs) auto

lemma distinct_first_occurrences [simp]: "distinct (first_occurrences xs)"
  by (induction xs) (auto intro: distinct_filter)

lemma count_list_concat_replicate:
  assumes "distinct ks" and "\<And>k. k \<in> set ks \<Longrightarrow> f (g k) = k"
  shows "count_list (map f (concat (map (\<lambda>k. replicate (n k) (g k)) ks))) j = (if j \<in> set ks then n j else 0)"
  using assms
proof (induction ks)
  case (Cons k ks)
  have "count_list (map f (replicate m (g k))) j = (if k = j then m else 0)" for m
    using Cons.prems(2) [of k] by (induction m) auto
  then show ?case using Cons by auto
qed simp

lemma count_surplus:
  "count_list (map key (surplus key xs ys)) k = count_list (map key xs) k - count_list (map key ys) k"
proof -
  have "key (hd (filter (\<lambda>x. key x = j) xs)) = j" if "j \<in> set (map key xs)" for j
  proof -
    have "filter (\<lambda>x. key x = j) xs \<noteq> []" using that by (auto simp: filter_empty_conv)
    then have "hd (filter (\<lambda>x. key x = j) xs) \<in> set (filter (\<lambda>x. key x = j) xs)" by (rule hd_in_set)
    then show ?thesis by simp
  qed
  then have "count_list (map key (surplus key xs ys)) k =
      (if k \<in> set (first_occurrences (map key xs)) then count_list (map key xs) k - count_list (map key ys) k else 0)"
    unfolding surplus_def by (intro count_list_concat_replicate) auto
  then show ?thesis by (auto simp: count_list_0_iff)
qed

lemma surplus_items: "set (surplus key xs ys) \<subseteq> set xs"
proof
  fix x
  assume "x \<in> set (surplus key xs ys)"
  then obtain k where k: "k \<in> set (map key xs)" "x = hd (filter (\<lambda>x. key x = k) xs)"
    by (auto simp: surplus_def)
  then have "filter (\<lambda>x. key x = k) xs \<noteq> []" by (auto simp: filter_empty_conv)
  then show "x \<in> set xs" using k(2) hd_in_set by fastforce
qed

lemma contour_balance:
  "count_list (map dumps after) k + count_list (map dumps (dt_removed (contour_delta dumps before after))) k =
   count_list (map dumps before) k + count_list (map dumps (dt_added (contour_delta dumps before after))) k"
  by (simp add: contour_delta_def count_surplus)

lemma contour_unchanged:
  "dt_added (contour_delta dumps xs xs) = []" "dt_removed (contour_delta dumps xs xs) = []"
  "dt_changed (contour_delta dumps xs xs) = []"
  by (auto simp: contour_delta_def surplus_def changed_items_def Let_def split: option.splits)

subsection \<open>Capturing\<close>

lemma capture_result:
  assumes "capture_local payload a = (a', Some o1)"
  obtains o0 where "normalize_operation payload = Inr o0" "o1 = o0\<lparr>go_id := go_id o1\<rparr>"
    "go_id o1 \<noteq> None" "ad_captured a' = ad_captured a + 1" "ad_last_local a' = Some o1"
    "ad_sequence a' = ad_sequence a + 1" "\<not> ad_applying a"
  using assms that
  by (auto simp: capture_local_def note_definition_def count_op_def Let_def split: if_splits sum.splits)

lemma blank_stringified:
  "blank_field k (stringify_keys ks d) \<longleftrightarrow> blank_field k d"
proof -
  have one: "blank_field k (stringify_key j e) \<longleftrightarrow> blank_field k e" for j e
    by (simp add: blank_field_def pget_default_def stringify_key_lookup split: option.splits)
  show ?thesis
    unfolding stringify_keys_def by (induction ks arbitrary: d) (simp_all add: one)
qed

lemma object_ops: "op \<in> set OBJECT_OPERATIONS \<Longrightarrow> startswith ''object.'' op \<Longrightarrow> op \<in> set OBJECT_ID_OPERATIONS"
proof -
  have "list_all (\<lambda>op. startswith ''object.'' op \<longrightarrow> op \<in> set OBJECT_ID_OPERATIONS) OBJECT_OPERATIONS"
    by code_simp
  then show "op \<in> set OBJECT_OPERATIONS \<Longrightarrow> startswith ''object.'' op \<Longrightarrow> op \<in> set OBJECT_ID_OPERATIONS"
    by (simp add: list_all_iff)
qed

text \<open>
  What the adapter captures the host accepts, as long as it stays within the host's size
  limits and funds carry a number, which the adapter does not check.
\<close>

lemma captured_validates:
  assumes "capture_local payload a = (a', Some o1)"
    and "length (go_data o1) \<le> MAX_BUILD_DATA_KEYS" "entry_error (go_data o1) = None"
    and "go_op o1 = ''funds.modify'' \<Longrightarrow> is_number (pget (stringify_keys id_keys (go_data o1)) ''amount'')"
  shows "\<exists>d. validate_build_data (go_op o1) (go_data o1) = Inr d"
proof -
  obtain o0 where n: "normalize_operation payload = Inr o0" "o1 = o0\<lparr>go_id := go_id o1\<rparr>"
    using capture_result [OF assms(1)] by blast
  have eq: "go_op o1 = go_op o0" "go_data o1 = go_data o0"
    by (subst n(2), simp)+
  obtain d where d: "go_op o0 \<in> set OBJECT_OPERATIONS" "go_data o0 = stringify_keys adapter_id_keys d"
    "missing_field (go_op o0) d = None"
    using normalize_result [OF n(1)] by blast
  have "required_error (go_op o1) (stringify_keys id_keys (go_data o1)) = None"
    using d(1,3) object_ops [OF d(1)] assms(4) unfolding eq
    by (auto simp: required_error_def missing_field_def blank_stringified d(2) split: if_splits)
  then show ?thesis
    using d(1) assms(2,3) by (simp add: validate_build_data_def Let_def eq)
qed

subsection \<open>Applying\<close>

text \<open>
  What a game does while it applies an operation: it runs capture hooks and then returns
  or raises.
\<close>

definition echo_apply :: "(game_op \<Rightarrow> pyval list) \<Rightarrow> (game_op \<Rightarrow> py_error option) \<Rightarrow> apply_fn" where
  "echo_apply echoes err o1 a = (fold (\<lambda>p a. fst (capture_local p a)) (echoes o1) a, err o1)"

lemma echoes_suppressed:
  "ad_applying a \<Longrightarrow>
   fold (\<lambda>p a. fst (capture_local p a)) ps a = a\<lparr>ad_suppressed := ad_suppressed a + int (length ps)\<rparr>"
  by (induction ps arbitrary: a) (simp_all add: capture_local_def)

lemma apply_remote_silent:
  assumes "\<not> ad_applying a"
  shows "ad_captured (fst (apply_remote dumps (echo_apply echoes err) payload a)) = ad_captured a"
    "ad_last_local (fst (apply_remote dumps (echo_apply echoes err) payload a)) = ad_last_local a"
    "\<not> ad_applying (fst (apply_remote dumps (echo_apply echoes err) payload a))"
  using assms
  by (auto simp: apply_remote_def echo_apply_def echoes_suppressed count_op_def Let_def
      split: sum.splits option.splits)

lemma apply_remote_seen:
  "ad_seen (fst (apply_remote dumps (echo_apply echoes err) payload a)) =
     (case normalize_operation payload of
        Inl e \<Rightarrow> ad_seen a | Inr o1 \<Rightarrow> insert (remote_key dumps o1) (ad_seen a))"
  by (auto simp: apply_remote_def echo_apply_def echoes_suppressed count_op_def Let_def insert_absorb
      split: sum.splits option.splits)

lemma apply_remote_new:
  "snd (apply_remote dumps apply payload a) = Inr True \<Longrightarrow>
   \<exists>o1. normalize_operation payload = Inr o1 \<and> remote_key dumps o1 \<notin> ad_seen a"
  by (auto simp: apply_remote_def Let_def split: sum.splits if_splits)

definition payload_key :: "(pyval \<Rightarrow> string) \<Rightarrow> pyval \<Rightarrow> string" where
  "payload_key dumps payload =
     (case normalize_operation payload of Inl e \<Rightarrow> [] | Inr o1 \<Rightarrow> remote_key dumps o1)"

interpretation remote_once: once_only ad_seen "payload_key dumps"
  "\<lambda>payload a. snd (apply_remote dumps (echo_apply echoes err) payload a) = Inr True"
  "\<lambda>payload a. fst (apply_remote dumps (echo_apply echoes err) payload a)" for dumps echoes err
proof unfold_locales
  fix payload :: pyval and a :: adapter
  assume "snd (apply_remote dumps (echo_apply echoes err) payload a) = Inr True"
  then show "payload_key dumps payload \<notin> ad_seen a"
    using apply_remote_new by (fastforce simp: payload_key_def)
next
  fix payload :: pyval and a :: adapter
  assume "snd (apply_remote dumps (echo_apply echoes err) payload a) = Inr True"
  then obtain o1 where "normalize_operation payload = Inr o1" using apply_remote_new by blast
  then show "payload_key dumps payload \<in> ad_seen (fst (apply_remote dumps (echo_apply echoes err) payload a))"
    by (simp add: payload_key_def apply_remote_seen)
next
  fix payload :: pyval and a :: adapter
  show "ad_seen a \<subseteq> ad_seen (fst (apply_remote dumps (echo_apply echoes err) payload a))"
    by (auto simp: apply_remote_seen split: sum.splits)
qed

text \<open>A parent that is written as text is read back as the number.\<close>

lemma root_or_int_str [simp]: "root_or_int (VStr (int_str i)) = i"
proof (cases "int_str i = [] \<or> int_str i = ''0''")
  case True
  have "int_str i \<noteq> []" by (simp add: int_str_def)
  moreover have "int_str 0 = ''0''" by code_simp
  ultimately have "i = 0" using True int_str_inj [of i 0] by simp
  then show ?thesis using \<open>int_str 0 = ''0''\<close> by (simp add: root_or_int_def)
next
  case False
  have "py_int (VStr (int_str i)) = Inr i" by (rule py_int_int_str)
  then show ?thesis using False by (auto simp: root_or_int_def split: option.splits)
qed

end
