(* ===== verification/Object_Apply.thy ===== *)
theory Object_Apply
  imports Game_Values Build_Adapter
begin

text \<open>
  \<^verbatim>\<open>src/sims_mod_src/kermp_mod/hooks.py\<close>, the receiving side of Build/Buy: how a remote
  operation is turned into calls of the game (\<open>_apply_object_operation\<close>,
  \<open>_apply_object_location\<close>, the \<open>_deserialize_*\<close> helpers). What the game answers is a record of
  parameters; the calls that were made are returned in their order, with the exception that
  escapes, if any.
\<close>

section \<open>Rebuilding game values\<close>

datatype vec = Vec "rat list" | RawVec pyval

datatype transform = Built vec vec | KeptTransform

datatype surface = SurfaceId int int int | RawSurface pyval | KeptSurface

text \<open>
  \<open>Vector3(float(p[0]), ...)\<close> of a list, \<open>float(p.get('x', default))\<close> of a dictionary; any
  other value is passed on. \<open>None\<close>: an exception.
\<close>

definition vec_of :: "(string \<Rightarrow> rat option) \<Rightarrow> nat \<Rightarrow> pyval \<Rightarrow> vec option" where
  "vec_of flt n v =
     (case v of
        VList xs \<Rightarrow>
          if length xs < n then None
          else map_option Vec (all_some (map (\<lambda>x. gfloat flt (unwire x)) (take n xs)))
      | VDict d \<Rightarrow>
          map_option Vec (all_some (map (\<lambda>a. gfloat flt (unwire
            (pget_default d a (VInt (if a = ''w'' then 1 else 0))))) (take n axis_names)))
      | _ \<Rightarrow> Some (RawVec v))"

text \<open>\<open>accepts\<close>: the game's \<open>Transform\<close> takes these two values.\<close>

definition deserialize_transform ::
  "(string \<Rightarrow> rat option) \<Rightarrow> (vec \<Rightarrow> vec \<Rightarrow> bool) \<Rightarrow> pyval \<Rightarrow> transform" where
  "deserialize_transform flt accepts data =
     (case data of
        VDict d \<Rightarrow>
          (case (vec_of flt 3 (py_or (pget d ''position'') (pget d ''translation'')),
                 vec_of flt 4 (pget d ''orientation'')) of
             (Some p, Some q) \<Rightarrow> if accepts p q then Built p q else KeptTransform
           | _ \<Rightarrow> KeptTransform)
      | _ \<Rightarrow> KeptTransform)"

definition deserialize_surface :: "pyval \<Rightarrow> surface" where
  "deserialize_surface v =
     (case v of
        VNone \<Rightarrow> KeptSurface
      | VDict d \<Rightarrow>
          (case (py_int (pget_default d ''primary_id'' (VInt 0)), py_int (pget_default d ''secondary_id'' (VInt 0)),
                 py_int (pget_default d ''type'' (VInt 0))) of
             (Inr a, Inr b, Inr c) \<Rightarrow> SurfaceId a b c
           | _ \<Rightarrow> KeptSurface)
      | _ \<Rightarrow> RawSurface v)"

section \<open>The game's side\<close>

datatype native_call =
    CreateObject int int "int option" pyval pyval pyval
  | DestroyObject int "int option"
  | SetDefinition int int
  | SetScale int rat
  | SetParent int int transform pyval pyval int
  | ClearParent int transform int pyval
  | SetLocation int "int option" surface transform int "int list" int
  | AssignLocation transform surface
  | ResendLocation

text \<open>
  The zone, the objects the manager knows, which methods they have, what a call returns or
  raises, and the position of the moved object after the calls made so far.
\<close>

record game_side =
  gs_zone :: "py_error + int"
  gs_known :: "int option \<Rightarrow> bool"
  gs_call :: "native_call \<Rightarrow> py_error + gval"
  gs_position :: "native_call list \<Rightarrow> gval"
  gs_methods :: "string \<Rightarrow> bool"
  gs_transform :: "vec \<Rightarrow> vec \<Rightarrow> bool"
  gs_has_transform :: bool
  gs_float :: "string \<Rightarrow> rat option"

type_synonym apply_result = "native_call list \<times> py_error option"

definition perform :: "game_side \<Rightarrow> native_call \<Rightarrow> native_call list \<Rightarrow> native_call list \<times> (py_error + gval)" where
  "perform g c calls = (calls @ [c], gs_call g c)"

text \<open>\<open>int(str(v))\<close>.\<close>

definition int_text :: "pyval \<Rightarrow> py_error + int" where
  "int_text v = py_int (VStr (py_str v))"

text \<open>\<open>'<stage>:%s:%s' % (type(exc).__name__, exc)\<close>.\<close>

definition staged :: "string \<Rightarrow> py_error \<Rightarrow> string" where
  "staged stage e = stage @ '':'' @ exc_class e @ '':'' @ exc_text e"

section \<open>Moving an object\<close>

definition in_place :: "game_side \<Rightarrow> native_call list \<Rightarrow> pyval \<Rightarrow> py_error + bool" where
  "in_place g calls data = position_matches (gs_float g) (gs_position g calls) data"

text \<open>
  After a stage: done when the object stands where asked, else the next stage. The last
  stage raises \<open>move_postcondition_failed\<close>.
\<close>

definition or_else :: "game_side \<Rightarrow> pyval \<Rightarrow> native_call list \<Rightarrow> (native_call list \<Rightarrow> apply_result) \<Rightarrow> apply_result" where
  "or_else g data calls next_stage =
     (case in_place g calls data of
        Inl e \<Rightarrow> (calls, Some e)
      | Inr True \<Rightarrow> (calls, None)
      | Inr False \<Rightarrow> next_stage calls)"

definition resend_stage :: "game_side \<Rightarrow> pyval \<Rightarrow> native_call list \<Rightarrow> apply_result" where
  "resend_stage g data calls =
     (let failed = (\<lambda>cs. (cs, Some (ValueError ''move_postcondition_failed'')))
      in if gs_methods g ''resend_location''
         then (case perform g ResendLocation calls of
                 (cs, Inl e) \<Rightarrow> (cs, Some (TypeError (staged ''location_resend'' e)))
               | (cs, Inr v) \<Rightarrow> or_else g data cs failed)
         else or_else g data calls failed)"

definition assign_stage :: "game_side \<Rightarrow> transform \<Rightarrow> pyval \<Rightarrow> native_call list \<Rightarrow> apply_result" where
  "assign_stage g t data calls =
     (let s = (case data of VDict d \<Rightarrow> deserialize_surface (pget d ''routing_surface'') | _ \<Rightarrow> KeptSurface)
      in case perform g (AssignLocation t s) calls of
           (cs, Inl e) \<Rightarrow> (cs, Some (TypeError (staged ''location_assignment'' e)))
         | (cs, Inr v) \<Rightarrow> or_else g data cs (resend_stage g data))"

definition apply_location :: "game_side \<Rightarrow> int option \<Rightarrow> int \<Rightarrow> pydict \<Rightarrow> native_call list \<Rightarrow> apply_result" where
  "apply_location g oid zone d calls =
     (let data = pget d ''transform'';
          t = deserialize_transform (gs_float g) (gs_transform g) data;
          s = deserialize_surface (pget d ''routing_surface'');
          (parent, info, slot) = resolve_parent_context d
      in if t = KeptTransform \<and> \<not> gs_has_transform g
         then (calls, Some (ValueError ''transform_unavailable''))
         else case perform g (SetLocation zone oid s t parent info slot) calls of
           (cs, Inl e) \<Rightarrow> (cs, Some (ValueError (staged ''native_set_location_failed'' e)))
         | (cs, Inr v) \<Rightarrow> or_else g data cs (assign_stage g t data))"

section \<open>Applying an operation\<close>

definition result_of :: "native_call list \<times> (py_error + gval) \<Rightarrow> apply_result" where
  "result_of r = (fst r, case snd r of Inl e \<Rightarrow> Some e | Inr v \<Rightarrow> None)"

definition apply_create :: "game_side \<Rightarrow> int \<Rightarrow> int option \<Rightarrow> pydict \<Rightarrow> apply_result" where
  "apply_create g zone oid d =
     (case int_text (pget d ''definition_id'') of
        Inl e \<Rightarrow> ([], Some e)
      | Inr def \<Rightarrow>
         (case perform g (CreateObject zone def oid (pget_default d ''object_state'' (VInt 0))
                 (pget_default d ''location_type'' (VInt 1)) (pget_default d ''content_source'' (VInt 0))) [] of
            (cs, Inl e) \<Rightarrow> (cs, Some e)
          | (cs, Inr v) \<Rightarrow>
             (let known = (oid \<noteq> None \<and> oid \<noteq> Some 0 \<and> gs_known g oid);
                  rid = gattr_opt v ''id'';
                  target_id = (case oid of
                     Some i \<Rightarrow> if i \<noteq> 0 then Some i else Option.bind rid gint
                   | None \<Rightarrow> Option.bind rid gint)
              in if (known \<or> rid \<noteq> None) \<and> truthy (pget d ''transform'')
                 then apply_location g target_id zone d cs else (cs, None))))"

definition apply_known :: "game_side \<Rightarrow> string \<Rightarrow> int \<Rightarrow> int \<Rightarrow> pydict \<Rightarrow> apply_result" where
  "apply_known g op zone oid d =
     (let rebuilt = deserialize_transform (gs_float g) (gs_transform g) (pget d ''transform'')
      in if op = ''object.definition''
      then (if \<not> gs_methods g ''set_definition'' then ([], Some (ValueError ''set_definition_unavailable''))
            else case int_text (pget d ''definition_id'') of
              Inl e \<Rightarrow> ([], Some e)
            | Inr def \<Rightarrow> result_of (perform g (SetDefinition oid def) []))
      else if op = ''object.scale''
      then (if \<not> gs_methods g ''scale'' then ([], Some (ValueError ''scale_unavailable''))
            else case gfloat (gs_float g) (unwire (pget d ''scale'')) of
              None \<Rightarrow> ([], Some (TypeError ''scale is not a number''))
            | Some r \<Rightarrow> result_of (perform g (SetScale oid r) []))
      else if op = ''object.set_parent''
      then (case int_text (pget d ''parent_id'') of
              Inl e \<Rightarrow> ([], Some e)
            | Inr p \<Rightarrow> result_of (perform g (SetParent oid p rebuilt (pget d ''joint_name'') (pget d ''slot_hash'') zone) []))
      else if op = ''object.clear_parent''
      then result_of (perform g (ClearParent oid rebuilt zone (pget d ''routing_surface'')) [])
      else if op = ''object.move'' then apply_location g (Some oid) zone d []
      else if op = ''funds.modify''
      then ([], Some (ValueError ''funds.modify is host-authoritative and not a client object apply''))
      else ([], Some (ValueError (''unsupported object apply: '' @ op))))"

definition zone_of :: "game_side \<Rightarrow> pydict \<Rightarrow> py_error + int" where
  "zone_of g d = (case pget d ''zone_id'' of VNone \<Rightarrow> gs_zone g | v \<Rightarrow> int_text v)"

definition object_of :: "pydict \<Rightarrow> py_error + int option" where
  "object_of d =
     (case pget d ''object_id'' of
        VNone \<Rightarrow> Inr None
      | v \<Rightarrow> (case int_text v of Inl e \<Rightarrow> Inl e | Inr i \<Rightarrow> Inr (Some i)))"

definition apply_object_operation :: "game_side \<Rightarrow> game_op \<Rightarrow> apply_result" where
  "apply_object_operation g o1 =
     (let d = go_data o1; op = go_op o1 in
      case zone_of g d of
        Inl e \<Rightarrow> ([], Some e)
      | Inr zone \<Rightarrow>
         (case object_of d of
            Inl e \<Rightarrow> ([], Some e)
          | Inr oid \<Rightarrow>
             if op = ''object.create'' then apply_create g zone oid d
             else if op = ''object.destroy'' then result_of (perform g (DestroyObject zone oid) [])
             else if \<not> gs_known g oid
             then ([], Some (ValueError (''object_not_found:'' @
                    (case oid of None \<Rightarrow> ''None'' | Some i \<Rightarrow> int_str i))))
             else case oid of
               None \<Rightarrow> ([], Some (Unmodelled ''object manager knows no object without an id''))
             | Some i \<Rightarrow> apply_known g op zone i d))"

section \<open>Properties\<close>

lemma or_else_ok:
  "or_else g data calls f = (cs, None) \<Longrightarrow>
     (calls = cs \<and> in_place g cs data = Inr True) \<or> f calls = (cs, None)"
  by (auto simp: or_else_def split: sum.splits bool.splits)

lemma resend_ok: "resend_stage g data calls = (cs, None) \<Longrightarrow> in_place g cs data = Inr True"
  by (auto simp: resend_stage_def perform_def Let_def split: if_splits sum.splits dest: or_else_ok)

lemma assign_ok: "assign_stage g t data calls = (cs, None) \<Longrightarrow> in_place g cs data = Inr True"
  by (auto simp: assign_stage_def perform_def Let_def split: sum.splits dest!: or_else_ok dest: resend_ok)

text \<open>A move that raises nothing has put the object where it was asked to be.\<close>

lemma apply_location_ok:
  "apply_location g oid zone d calls = (cs, None) \<Longrightarrow> in_place g cs (pget d ''transform'') = Inr True"
  by (auto simp: apply_location_def perform_def Let_def split: if_splits sum.splits prod.splits
      dest!: or_else_ok dest: assign_ok)

text \<open>A move makes only the calls of a move: no object is created or destroyed on its way.\<close>

fun moves :: "native_call \<Rightarrow> bool" where
  "moves (SetLocation z i s t p ti sl) = True"
| "moves (AssignLocation t s) = True"
| "moves ResendLocation = True"
| "moves c = False"

definition adds_moves :: "native_call list \<Rightarrow> apply_result \<Rightarrow> bool" where
  "adds_moves calls r \<longleftrightarrow> (\<exists>cs. fst r = calls @ cs \<and> list_all moves cs)"

lemma adds_moves_self [simp]: "adds_moves calls (calls, e)"
  by (simp add: adds_moves_def)

lemma adds_moves_step: "adds_moves (calls @ [c]) r \<Longrightarrow> moves c \<Longrightarrow> adds_moves calls r"
  by (auto simp: adds_moves_def)

lemma adds_moves_one [simp]: "moves c \<Longrightarrow> adds_moves calls (calls @ [c], e)"
  by (auto simp: adds_moves_def)

lemma or_else_moves:
  "(\<And>cs. adds_moves cs (f cs)) \<Longrightarrow> adds_moves calls (or_else g data calls f)"
  by (auto simp: or_else_def split: sum.splits bool.splits)

lemma resend_moves: "adds_moves calls (resend_stage g data calls)"
  by (auto simp: resend_stage_def perform_def Let_def split: sum.splits
      intro: adds_moves_step [OF or_else_moves] or_else_moves)

lemma assign_moves: "adds_moves calls (assign_stage g t data calls)"
  by (auto simp: assign_stage_def perform_def Let_def split: sum.splits
      intro: adds_moves_step [OF or_else_moves] resend_moves)

lemma apply_location_moves: "adds_moves calls (apply_location g oid zone d calls)"
  by (auto simp: apply_location_def perform_def Let_def split: sum.splits prod.splits
      intro: adds_moves_step [OF or_else_moves] assign_moves)

lemma create_calls:
  "fst (apply_create g zone oid d) = [] \<or>
     (\<exists>def st lt src ms. fst (apply_create g zone oid d) = CreateObject zone def oid st lt src # ms \<and>
        list_all moves ms)"
proof (cases "int_text (pget d ''definition_id'')")
  case (Inr def)
  let ?c = "CreateObject zone def oid (pget_default d ''object_state'' (VInt 0))
    (pget_default d ''location_type'' (VInt 1)) (pget_default d ''content_source'' (VInt 0))"
  have "adds_moves [?c] (apply_location g i zone d [?c])" for i by (rule apply_location_moves)
  then have "\<exists>ms. fst (apply_create g zone oid d) = ?c # ms \<and> list_all moves ms"
    using Inr by (simp add: apply_create_def perform_def Let_def adds_moves_def split: sum.split)
  then show ?thesis by blast
qed (simp add: apply_create_def)

text \<open>The household's funds are never touched, and an object is destroyed only by \<open>object.destroy\<close>.\<close>

lemma destroys_only_destroy:
  assumes "DestroyObject z i \<in> set (fst (apply_object_operation g o1))"
  shows "go_op o1 = ''object.destroy''"
proof (rule ccontr)
  assume no: "go_op o1 \<noteq> ''object.destroy''"
  have m: "DestroyObject z i \<notin> set (fst (apply_location g j zone d []))" for j zone d
    using apply_location_moves [of "[]" g j zone d] by (auto simp: adds_moves_def list_all_iff)
  have c: "DestroyObject z i \<notin> set (fst (apply_create g zone j d))" for zone j d
    using create_calls [of g zone j d] by (auto simp: list_all_iff dest!: bspec)
  have k: "DestroyObject z i \<notin> set (fst (apply_known g op zone j d))" for op zone j d
    using m [of "Some j" zone d]
    by (simp add: apply_known_def perform_def result_of_def Let_def split: sum.split option.split)
  show False
    using assms no c k by (auto simp: apply_object_operation_def Let_def split: sum.splits if_splits option.splits)
qed

lemma funds_never_applied:
  assumes "go_op o1 = ''funds.modify''"
  shows "fst (apply_object_operation g o1) = []"
  using assms by (auto simp: apply_object_operation_def apply_known_def Let_def split: sum.split option.split)

end
