(* ===== verification/Bridge.thy ===== *)
theory Bridge
  imports KerMP_Prelude
begin

text \<open>
  The localhost link between the sidecar and the game: \<open>LocalGameBridge\<close> of
  \<^verbatim>\<open>src/kermp/bridge.py\<close> (the sidecar listens) and \<open>KerMPBridgeClient\<close> of
  \<^verbatim>\<open>src/sims_mod_src/kermp_mod/bridge_client.py\<close> (the mod connects). A line is what
  decoding and \<open>json.loads\<close> make of it. Whether the operating system takes a write is the
  argument \<open>up\<close>; a connection is the list of the lines that arrive on it.
\<close>

section \<open>The sidecar's end\<close>

record local_bridge =
  lb_conn :: bool
  lb_stop :: bool
  lb_wire :: "(string \<times> pydict) list"

definition new_bridge :: local_bridge where
  "new_bridge = \<lparr>lb_conn = False, lb_stop = False, lb_wire = []\<rparr>"

definition bridge_write :: "bool \<Rightarrow> string \<Rightarrow> pydict \<Rightarrow> local_bridge \<Rightarrow> local_bridge \<times> bool" where
  "bridge_write up ty payload b =
     (if \<not> lb_conn b then (b, False)
      else if up then (b\<lparr>lb_wire := lb_wire b @ [(ty, payload)]\<rparr>, True)
      else (b\<lparr>lb_conn := False\<rparr>, False))"

definition bridge_close :: "local_bridge \<Rightarrow> local_bridge" where
  "bridge_close b = b\<lparr>lb_stop := True\<rparr>"

text \<open>\<open>BridgeEvent(raw["type"], raw.get("payload", {}))\<close>.\<close>

type_synonym bridge_event = "pyval \<times> pyval"

definition bridge_event_of :: "pyval \<Rightarrow> py_error + bridge_event" where
  "bridge_event_of v =
     (case v of
        VDict d \<Rightarrow>
          (case map_of d ''type'' of
             None \<Rightarrow> Inl (KeyError ''type'')
           | Some t \<Rightarrow> Inr (t, pget_default d ''payload'' (VDict [])))
      | _ \<Rightarrow> Inl (TypeError (''indices must be integers or the value is not subscriptable'')))"

text \<open>
  The read loop of one connection: the events handed on, and the exception that leaves the
  loop. \<open>except (OSError, ValueError, json.JSONDecodeError)\<close> ends the connection only.
\<close>

definition caught_by_reader :: "py_error \<Rightarrow> bool" where
  "caught_by_reader e \<longleftrightarrow> exc_class e \<in> {''OSError'', ''PermissionError'', ''ValueError''}"

fun read_conn :: "(py_error + pyval) list \<Rightarrow> bridge_event list \<times> py_error option" where
  "read_conn [] = ([], None)"
| "read_conn (Inl e # ls) = ([], if caught_by_reader e then None else Some e)"
| "read_conn (Inr v # ls) =
     (case bridge_event_of v of
        Inl e \<Rightarrow> ([], if caught_by_reader e then None else Some e)
      | Inr ev \<Rightarrow> (let (evs, x) = read_conn ls in (ev # evs, x)))"

text \<open>
  \<open>_run\<close> over the connections the game opens one after the other: an exception that is not
  caught ends the thread, and no later connection is accepted.
\<close>

fun run_bridge :: "(py_error + pyval) list list \<Rightarrow> bridge_event list \<times> bool" where
  "run_bridge [] = ([], True)"
| "run_bridge (c # cs) =
     (case read_conn c of
        (evs, Some e) \<Rightarrow> (evs, False)
      | (evs, None) \<Rightarrow> (let (rest, alive) = run_bridge cs in (evs @ rest, alive)))"

section \<open>The mod's end\<close>

record bridge_client =
  bc_open :: bool
  bc_stop :: bool
  bc_sent :: "(string \<times> pydict) list"

definition new_bridge_client :: bridge_client where
  "new_bridge_client = \<lparr>bc_open = False, bc_stop = False, bc_sent = []\<rparr>"

text \<open>\<open>_send\<close> (and \<open>emit\<close>): a failing \<open>sendall\<close> raises.\<close>

definition bridge_send :: "bool \<Rightarrow> string \<Rightarrow> pydict \<Rightarrow> bridge_client \<Rightarrow> bridge_client \<times> (py_error + bool)" where
  "bridge_send up ty payload b =
     (if \<not> bc_open b then (b, Inr False)
      else if up then (b\<lparr>bc_sent := bc_sent b @ [(ty, payload)]\<rparr>, Inr True)
      else (b, Inl (OSError ''sendall failed'')))"

definition bridge_stop :: "bridge_client \<Rightarrow> bridge_client" where
  "bridge_stop b = b\<lparr>bc_stop := True, bc_open := False\<rparr>"

text \<open>The first message of a new connection, sent by \<open>connect\<close>.\<close>

definition bridge_connect :: "bool \<Rightarrow> bridge_client \<Rightarrow> bridge_client \<times> py_error option" where
  "bridge_connect up b =
     (if bc_stop b then (b, None)
      else case bridge_send up ''game.hello'' [(''bridge_version'', VInt 1)] (b\<lparr>bc_open := True\<rparr>) of
             (b1, Inl e) \<Rightarrow> (b1\<lparr>bc_open := False\<rparr>, Some e)
           | (b1, Inr _) \<Rightarrow> (b1, None))"

text \<open>
  \<open>_read_loop\<close> on the state \<open>'s\<close> of the handlers. An exception of a handler, or a line that
  is no JSON object, ends the loop; \<open>connect\<close> catches it and opens a new connection.
\<close>

type_synonym 's handlers = "(string \<times> (pyval \<Rightarrow> 's \<Rightarrow> 's \<times> py_error option)) list"

definition handle_line :: "'s handlers \<Rightarrow> pyval \<Rightarrow> 's \<Rightarrow> 's \<times> py_error option" where
  "handle_line hs v s =
     (case as_mapping v of
        Inl e \<Rightarrow> (s, Some e)
      | Inr d \<Rightarrow>
         (case pget d ''type'' of
            VStr t \<Rightarrow>
              (case map_of hs t of
                 None \<Rightarrow> (s, None)
               | Some f \<Rightarrow> f (pget_default d ''payload'' (VDict [])) s)
          | _ \<Rightarrow> (s, None)))"

fun client_read :: "'s handlers \<Rightarrow> (py_error + pyval) list \<Rightarrow> 's \<Rightarrow> 's \<times> py_error option" where
  "client_read hs [] s = (s, None)"
| "client_read hs (Inl e # ls) s = (s, Some e)"
| "client_read hs (Inr v # ls) s =
     (case handle_line hs v s of
        (s1, Some e) \<Rightarrow> (s1, Some e)
      | (s1, None) \<Rightarrow> client_read hs ls s1)"

section \<open>Properties\<close>

text \<open>The line \<open>send\<close> of either end writes.\<close>

definition bridge_line :: "string \<times> pydict \<Rightarrow> pyval" where
  "bridge_line m = VDict [(''type'', VStr (fst m)), (''payload'', VDict (snd m))]"

lemma bridge_event_of_line: "bridge_event_of (bridge_line m) = Inr (VStr (fst m), VDict (snd m))"
  by (simp add: bridge_event_of_def bridge_line_def pget_default_def)

text \<open>Everything the mod writes on a connection reaches the sidecar, in order.\<close>

lemma read_conn_sent:
  "read_conn (map (\<lambda>m. Inr (bridge_line m)) ms) = (map (\<lambda>m. (VStr (fst m), VDict (snd m))) ms, None)"
  by (induction ms) (simp_all add: bridge_event_of_line)

lemma run_bridge_alive:
  "snd (run_bridge cs) \<longleftrightarrow> list_all (\<lambda>c. snd (read_conn c) = None) cs"
  by (induction cs) (auto split: prod.splits option.splits)

lemma run_bridge_append:
  "snd (run_bridge cs) \<Longrightarrow> run_bridge (cs @ ds) = (fst (run_bridge cs) @ fst (run_bridge ds), snd (run_bridge ds))"
  by (induction cs) (auto split: prod.splits option.splits)

text \<open>A malformed line ends a connection; one without a type ends the bridge for good.\<close>

lemma read_conn_stops:
  "bridge_event_of v = Inl e \<Longrightarrow> read_conn (map (\<lambda>m. Inr (bridge_line m)) ms @ [Inr v]) =
     (map (\<lambda>m. (VStr (fst m), VDict (snd m))) ms, if caught_by_reader e then None else Some e)"
  by (induction ms) (simp_all add: bridge_event_of_line)

lemma untyped_line_kills:
  assumes "map_of d ''type'' = None"
  shows "run_bridge ((map (\<lambda>m. Inr (bridge_line m)) ms @ [Inr (VDict d)]) # cs) =
    (map (\<lambda>m. (VStr (fst m), VDict (snd m))) ms, False)"
proof -
  have "bridge_event_of (VDict d) = Inl (KeyError ''type'')"
    unfolding bridge_event_of_def using assms by (simp del: map_of_eq_None_iff)
  moreover have "\<not> caught_by_reader (KeyError ''type'')" by (simp add: caught_by_reader_def)
  ultimately show ?thesis by (simp add: read_conn_stops)
qed

lemma handlers_in_order:
  assumes "\<And>m s. m \<in> set ms \<Longrightarrow> \<exists>f. map_of hs (fst m) = Some f \<and> f (VDict (snd m)) s = (g m s, None)"
  shows "client_read hs (map (\<lambda>m. Inr (bridge_line m)) ms) s = (fold g ms s, None)"
  using assms
proof (induction ms arbitrary: s)
  case (Cons m ms)
  have "\<exists>f. map_of hs (fst m) = Some f \<and> f (VDict (snd m)) s = (g m s, None)"
    by (rule Cons.prems) simp
  then obtain f where "map_of hs (fst m) = Some f" "f (VDict (snd m)) s = (g m s, None)" by blast
  then have "handle_line hs (bridge_line m) s = (g m s, None)"
    by (simp add: handle_line_def bridge_line_def pget_def pget_default_def)
  moreover have "client_read hs (map (\<lambda>m. Inr (bridge_line m)) ms) (g m s) = (fold g ms (g m s), None)"
    using Cons.prems by (intro Cons.IH) simp
  ultimately show ?case by simp
qed simp

end
