(* ===== verification/Mod_Interactions.thy ===== *)
theory Mod_Interactions
  imports Object_Apply Bridge
begin

text \<open>
  \<^verbatim>\<open>src/sims_mod_src/kermp_mod/hooks.py\<close>, interactions: on a client the capture of what the
  player chose (\<open>_aop_request\<close>, \<open>_capture_native_push\<close>, \<open>_capture_native_cancel\<close>,
  \<open>_capture_native_choice\<close>), on the host the replay of accepted requests
  (\<open>_interaction_command\<close>, \<open>_resolve_interaction\<close>, \<open>_interaction_request\<close>) and the
  correlation of the game's own events with them. What the game answers is a record of
  parameters.
\<close>

section \<open>State\<close>

type_synonym counters = "(string \<times> int) list"

definition count_of :: "string \<Rightarrow> counters \<Rightarrow> int" where
  "count_of k cs = (case map_of cs k of None \<Rightarrow> 0 | Some n \<Rightarrow> n)"

definition bump :: "string \<Rightarrow> counters \<Rightarrow> counters" where
  "bump k cs = AList.update k (count_of k cs + 1) cs"

record inter_mod =
  im_bridge :: bridge_client
  im_role :: pyval
  im_requests :: "(string \<times> pydict) list"
  im_native :: "(string \<times> pydict) list"
  im_active :: "pydict option"
  im_stats :: counters
  im_error :: "string option"
  im_commands :: counters
  im_by_name :: "(string \<times> counters) list"
  im_command_error :: "string option"

definition new_inter_mod :: inter_mod where
  "new_inter_mod = \<lparr>im_bridge = new_bridge_client, im_role = VNone, im_requests = [], im_native = [],
     im_active = None, im_stats = [], im_error = None, im_commands = [], im_by_name = [], im_command_error = None\<rparr>"

definition host_role :: "inter_mod \<Rightarrow> bool" where
  "host_role m \<longleftrightarrow> im_role m = VStr ''host''"

definition client_role :: "inter_mod \<Rightarrow> bool" where
  "client_role m \<longleftrightarrow> im_role m = VStr ''client''"

definition stat :: "string \<Rightarrow> inter_mod \<Rightarrow> inter_mod" where
  "stat k m = m\<lparr>im_stats := bump k (im_stats m)\<rparr>"

definition command_count :: "string \<Rightarrow> inter_mod \<Rightarrow> inter_mod" where
  "command_count k m = m\<lparr>im_commands := bump k (im_commands m)\<rparr>"

text \<open>\<open>_command_stat\<close>: the counters of one command, all zero when it is first seen.\<close>

definition command_fields :: counters where
  "command_fields = [(''captured'', 0), (''received'', 0), (''replayed'', 0), (''result_truthy'', 0),
     (''queue_created'', 0), (''interaction_started'', 0), (''rejected'', 0)]"

definition command_stat :: "pyval \<Rightarrow> string \<Rightarrow> inter_mod \<Rightarrow> inter_mod" where
  "command_stat name field m =
     (let n = py_str (py_or name (VStr ''unknown''));
          cs = (case map_of (im_by_name m) n of None \<Rightarrow> command_fields | Some c \<Rightarrow> c)
      in m\<lparr>im_by_name := AList.update n (bump field cs) (im_by_name m)\<rparr>)"

definition im_emit :: "bool \<Rightarrow> string \<Rightarrow> pydict \<Rightarrow> inter_mod \<Rightarrow> inter_mod \<times> (py_error + bool)" where
  "im_emit up ty d m =
     (case bridge_send up ty d (im_bridge m) of (b, r) \<Rightarrow> (m\<lparr>im_bridge := b\<rparr>, r))"

definition error_text :: "py_error \<Rightarrow> string" where
  "error_text e = exc_class e @ '': '' @ exc_text e"

section \<open>Answers of the host\<close>

definition note_accepted :: "inter_mod \<Rightarrow> inter_mod" where
  "note_accepted m = stat ''accepted'' m"

definition note_rejected :: "pydict \<Rightarrow> inter_mod \<Rightarrow> inter_mod" where
  "note_rejected d m =
     (let m1 = (stat ''rejected'' m)\<lparr>im_error := Some (py_str (py_or (pget d ''reason'') (VStr ''rejected'')))\<rparr>
      in if host_role m1 then stat ''apply_rejected'' m1 else m1)"

text \<open>The interaction's id is kept with the request it belongs to.\<close>

definition note_interaction_id :: "pydict \<Rightarrow> inter_mod \<Rightarrow> inter_mod" where
  "note_interaction_id d m =
     (let rid = py_str (py_or (pget d ''request_id'') (VStr [])); iid = pget d ''interaction_id'' in
      case map_of (im_requests m) rid of
        None \<Rightarrow> m
      | Some r \<Rightarrow>
          if rid = [] \<or> \<not> truthy iid then m
          else m\<lparr>im_requests := AList.update rid (AList.update ''interaction_id'' (VStr (py_str iid)) r) (im_requests m)\<rparr>)"

definition note_started :: "pydict \<Rightarrow> inter_mod \<Rightarrow> inter_mod" where
  "note_started d m =
     (let m1 = stat ''started'' m
      in note_interaction_id d (if host_role m1 then stat ''apply_accepted'' m1 else m1))"

definition note_queued :: "pydict \<Rightarrow> inter_mod \<Rightarrow> inter_mod" where
  "note_queued d m = note_interaction_id d (stat ''queued'' m)"

section \<open>The client's captures\<close>

text \<open>
  What a capture did: the message was forwarded or not, and how often the game's own handler
  was called.
\<close>

record capture_outcome =
  co_forwarded :: bool
  co_local :: nat
  co_raised :: "py_error option"

definition forwarded :: capture_outcome where
  "forwarded = \<lparr>co_forwarded = True, co_local = 0, co_raised = None\<rparr>"

record player_env =
  pe_up :: bool
  pe_uuid :: string
  pe_repr :: "gval \<Rightarrow> string"
  pe_float :: "string \<Rightarrow> rat option"
  pe_text :: "rat \<Rightarrow> string"
  pe_managed :: "int \<Rightarrow> gval \<Rightarrow> bool"
  pe_original :: "py_error option"

definition delegated :: "player_env \<Rightarrow> capture_outcome" where
  "delegated g = \<lparr>co_forwarded = False, co_local = 1, co_raised = pe_original g\<rparr>"

definition target_dict :: "(rat \<Rightarrow> string) \<Rightarrow> target \<Rightarrow> pydict" where
  "target_dict ft t =
     [(''target_kind'', VStr (tg_kind t)), (''target_id'', VStr (tg_id t)),
      (''target_sim_id'', case tg_sim t of None \<Rightarrow> VNone | Some s \<Rightarrow> VStr s), (''target_type'', VStr (tg_type t)),
      (''target_local_object'', VBool (tg_local t)), (''position'', wire ft (tg_position t)),
      (''pick'', wire ft (tg_pick t))]"

text \<open>\<open>_command_value\<close>: the name of an enumeration value, a text or number, else the default.\<close>

definition command_value :: "player_env \<Rightarrow> gval \<Rightarrow> gval \<Rightarrow> gval" where
  "command_value g v def =
     (let n = gattr v ''name'' in
      if gtruthy n then (case n of GStr s \<Rightarrow> GStr s | _ \<Rightarrow> GStr (pe_repr g n))
      else case hook_json (pe_repr g) 0 v of
             GStr s \<Rightarrow> GStr s
           | GInt i \<Rightarrow> GInt i
           | GBool b \<Rightarrow> GBool b
           | _ \<Rightarrow> def)"

definition begin_capture :: "string \<Rightarrow> inter_mod \<Rightarrow> inter_mod" where
  "begin_capture name m = command_stat (VStr name) ''captured'' (command_count ''captured'' m)"

definition fall_back :: "player_env \<Rightarrow> py_error option \<Rightarrow> inter_mod \<Rightarrow> inter_mod \<times> capture_outcome" where
  "fall_back g e m =
     ((command_count ''fallback'' m)\<lparr>im_command_error :=
         (case e of None \<Rightarrow> im_command_error m | Some x \<Rightarrow> Some (error_text x))\<rparr>, delegated g)"

text \<open>
  A fallback inside the \<open>try\<close>: when the game's handler raises, the \<open>except\<close> clause counts
  another fallback and calls it again.
\<close>

definition fall_back_guarded :: "player_env \<Rightarrow> inter_mod \<Rightarrow> inter_mod \<times> capture_outcome" where
  "fall_back_guarded g m =
     (case (fall_back g None m, pe_original g) of
        (r, None) \<Rightarrow> r
      | ((m1, r), Some e) \<Rightarrow> (fst (fall_back g (Some e) m1), r\<lparr>co_local := 2\<rparr>))"

definition remember :: "string \<Rightarrow> pydict \<Rightarrow> inter_mod \<Rightarrow> inter_mod" where
  "remember rid r m = m\<lparr>im_requests := AList.update rid r (im_requests m)\<rparr>"

definition note_forwarded :: "string \<Rightarrow> string \<Rightarrow> string \<Rightarrow> inter_mod \<Rightarrow> inter_mod" where
  "note_forwarded rid sid name m =
     (command_count ''forwarded'' (remember rid [(''sim_id'', VStr sid), (''command'', VStr name)] m))
        \<lparr>im_command_error := None\<rparr>"

definition command_message :: "string \<Rightarrow> string \<Rightarrow> pydict \<Rightarrow> pydict" where
  "command_message rid sid command =
     [(''request_id'', VStr rid), (''sim_id'', VStr sid), (''command'', VDict command)]"

definition push_command :: "player_env \<Rightarrow> string \<Rightarrow> int \<Rightarrow> target \<Rightarrow> gval \<Rightarrow> gval \<Rightarrow> pydict" where
  "push_command g name aid t priority context =
     [(''name'', VStr name), (''affordance_id'', VStr (int_str aid)), (''target'', VDict (target_dict (pe_text g) t)),
      (''priority'', wire (pe_text g) (command_value g priority (GStr ''High''))),
      (''interaction_source'', wire (pe_text g) (command_value g context (GStr ''SOURCE_PIE_MENU'')))]"

text \<open>
  \<open>_capture_native_push\<close>; the target is what its accessor returns or raises. Whatever cannot
  be replayed exactly runs locally instead.
\<close>

definition capture_push ::
  "player_env \<Rightarrow> string \<Rightarrow> py_error + gval \<Rightarrow> gval \<Rightarrow> gval \<Rightarrow> gval \<Rightarrow> gval \<Rightarrow> inter_mod \<Rightarrow> inter_mod \<times> capture_outcome" where
  "capture_push g name target sim affordance priority context m =
     (let m1 = begin_capture name m in
      case target of
        Inl e \<Rightarrow> fall_back g (Some e) m1
      | Inr tgt \<Rightarrow>
         (case command_target (pe_repr g) (pe_float g) (pe_managed g) tgt of
            Inl e \<Rightarrow> fall_back g (Some e) m1
          | Inr descriptor \<Rightarrow>
             (case (descriptor, sim_id_of sim, coerce_id affordance) of
                (Some t, Some sid, Some aid) \<Rightarrow>
                  (let rid = ''command-'' @ pe_uuid g; command = push_command g name aid t priority context
                   in if \<not> plain (tg_position t) \<or> \<not> plain (tg_pick t)
                      then fall_back g (Some (TypeError ''Object is not JSON serializable'')) m1
                      else case im_emit (pe_up g) ''interaction.command'' (command_message rid (int_str sid) command) m1 of
                        (m2, Inl e) \<Rightarrow> fall_back g (Some e) m2
                      | (m2, Inr False) \<Rightarrow> fall_back_guarded g m2
                      | (m2, Inr True) \<Rightarrow> (note_forwarded rid (int_str sid) name m2, forwarded))
              | _ \<Rightarrow> fall_back_guarded g m1)))"

text \<open>\<open>_capture_native_cancel\<close>; an exception of the bridge escapes.\<close>

definition capture_cancel ::
  "player_env \<Rightarrow> string \<Rightarrow> string option \<Rightarrow> string list \<Rightarrow> inter_mod \<Rightarrow> inter_mod \<times> capture_outcome" where
  "capture_cancel g name active args m =
     (let m1 = begin_capture name m in
      case active of
        None \<Rightarrow> fall_back g None m1
      | Some sid \<Rightarrow>
          if sid = [] then fall_back g None m1
          else
           (let rid = ''command-'' @ pe_uuid g;
                command = [(''name'', VStr name), (''affordance_id'', VStr ''native.cancel''),
                           (''args'', VList (map VStr args))]
            in case im_emit (pe_up g) ''interaction.command'' (command_message rid sid command) m1 of
                 (m2, Inl e) \<Rightarrow> (m2, \<lparr>co_forwarded = False, co_local = 0, co_raised = Some e\<rparr>)
               | (m2, Inr False) \<Rightarrow> fall_back g None m2
               | (m2, Inr True) \<Rightarrow> (note_forwarded rid sid name m2, forwarded)))"

text \<open>
  \<open>_capture_native_choice\<close>: the menu calls also run locally. The local call is inside the
  \<open>try\<close>, so a local call that raises is made a second time.
\<close>

definition capture_choice ::
  "player_env \<Rightarrow> string \<Rightarrow> gval \<Rightarrow> pyval list \<Rightarrow> bool \<Rightarrow> inter_mod \<Rightarrow> inter_mod \<times> capture_outcome" where
  "capture_choice g name sim args locally m =
     (let m1 = begin_capture name m in
      case sim_id_of sim of
        None \<Rightarrow> fall_back g (Some (ValueError ''active_sim_unresolved'')) m1
      | Some i \<Rightarrow>
         (let rid = ''command-'' @ pe_uuid g; sid = int_str i;
              command = [(''name'', VStr name), (''affordance_id'', VStr ''native.choice''), (''args'', VList args)]
          in case im_emit (pe_up g) ''interaction.command'' (command_message rid sid command) m1 of
               (m2, Inl e) \<Rightarrow> fall_back g (Some e) m2
             | (m2, Inr False) \<Rightarrow> fall_back g (Some (ValueError ''bridge_disconnected'')) m2
             | (m2, Inr True) \<Rightarrow>
                 (let m3 = note_forwarded rid sid name m2 in
                  if \<not> locally then (m3, forwarded)
                  else case pe_original g of
                    None \<Rightarrow> (m3, \<lparr>co_forwarded = True, co_local = 1, co_raised = None\<rparr>)
                  | Some e \<Rightarrow> (fst (fall_back g (Some e) m3),
                                \<lparr>co_forwarded = True, co_local = 2, co_raised = Some e\<rparr>))))"

section \<open>Affordance pairs\<close>

definition upper_char :: "char \<Rightarrow> char" where
  "upper_char c = (let n = (of_char c :: nat) in if 97 \<le> n \<and> n \<le> 122 then char_of (n - 32) else c)"

definition source_name :: "player_env \<Rightarrow> gval \<Rightarrow> string" where
  "source_name g context =
     (let s = gattr context ''source'' in
      if s = GNone then ''UNKNOWN''
      else (let n = (case gattr_opt s ''name'' of None \<Rightarrow> s | Some v \<Rightarrow> v);
                t = map upper_char (case n of GStr x \<Rightarrow> x | _ \<Rightarrow> pe_repr g n)
            in rev (takeWhile (\<lambda>c. c \<noteq> CHR ''.'') (rev t))))"

definition player_sources :: "string list" where
  "player_sources = [''SOURCE_PIE_MENU'', ''PIE_MENU'', ''SOURCE_SCRIPT_WITH_USER_INTENT'', ''SCRIPT_WITH_USER_INTENT'']"

definition player_context :: "player_env \<Rightarrow> gval \<Rightarrow> bool" where
  "player_context g context \<longleftrightarrow> source_name g context \<in> set player_sources"

text \<open>\<open>_aop_request\<close>: the request is remembered before it is sent.\<close>

definition aop_request ::
  "player_env \<Rightarrow> gval \<Rightarrow> gval \<Rightarrow> (string \<times> gval) list \<Rightarrow> inter_mod \<Rightarrow> inter_mod \<times> py_error option" where
  "aop_request g aop context kwargs m =
     (case classify_target (pe_repr g) (pe_float g) (pe_managed g) (gattr aop ''target'') context of
        Inl e \<Rightarrow> (m, Some e)
      | Inr t \<Rightarrow>
         (case (coerce_id (gattr aop ''affordance''), sim_id_of (gattr context ''sim'')) of
            (Some aid, Some sid) \<Rightarrow>
              (let safe = map (\<lambda>kv. (fst kv, hook_json (pe_repr g) 0 (snd kv))) kwargs;
                   rid = ''local-'' @ pe_uuid g;
                   m1 = remember rid [(''sim_id'', VStr (int_str sid))] m;
                   request = [(''request_id'', VStr rid), (''sim_id'', VStr (int_str sid)),
                     (''affordance_id'', VStr (int_str aid)), (''target_id'', VStr (tg_id t)),
                     (''target_kind'', VStr (tg_kind t)),
                     (''target_sim_id'', case tg_sim t of None \<Rightarrow> VNone | Some s \<Rightarrow> VStr s),
                     (''target_type'', VStr (tg_type t)), (''position'', wire (pe_text g) (tg_position t)),
                     (''pick'', wire (pe_text g) (tg_pick t)), (''interaction_kwargs'', wire (pe_text g) (GMap safe))]
               in if \<not> plain (tg_position t) \<or> \<not> plain (tg_pick t) \<or> \<not> plain (GMap safe)
                  then (m1, Some (TypeError ''Object is not JSON serializable''))
                  else case im_emit (pe_up g) ''interaction.request'' request m1 of
                    (m2, Inl e) \<Rightarrow> (m2, Some e)
                  | (m2, Inr False) \<Rightarrow> (m2, Some (ValueError ''bridge_disconnected''))
                  | (m2, Inr True) \<Rightarrow> (stat ''sent'' (stat ''forwarded'' m2), None))
          | _ \<Rightarrow> (m, Some (ValueError ''aop_ids_unresolved''))))"

text \<open>
  The wrapper of \<open>test_and_execute\<close>: on a client a player's own choice never runs the game's
  code, whether or not the request could be sent.
\<close>

definition aop_wrapper ::
  "player_env \<Rightarrow> gval \<Rightarrow> gval \<Rightarrow> (string \<times> gval) list \<Rightarrow> inter_mod \<Rightarrow> inter_mod \<times> capture_outcome" where
  "aop_wrapper g aop context kwargs m =
     (let m1 = stat ''aop_seen'' m in
      if \<not> client_role m1 \<or> \<not> player_context g context then (m1, delegated g)
      else case aop_request g aop context kwargs (stat ''aop_user_seen'' m1) of
        (m2, None) \<Rightarrow> (stat ''aop_forwarded'' m2, forwarded)
      | (m2, Some e) \<Rightarrow> (m2\<lparr>im_error := Some (error_text e)\<rparr>, \<lparr>co_forwarded = False, co_local = 0, co_raised = None\<rparr>))"

text \<open>The cancel command of a client: the last request of the active Sim is named with it.\<close>

definition cancel_request :: "string option \<Rightarrow> inter_mod \<Rightarrow> pyval" where
  "cancel_request active m =
     (case filter (\<lambda>kv. pget (snd kv) ''sim_id'' = (case active of None \<Rightarrow> VNone | Some s \<Rightarrow> VStr s)) (im_requests m) of
        [] \<Rightarrow> VNone
      | xs \<Rightarrow> VStr (fst (last xs)))"

definition cancel_wrapper ::
  "player_env \<Rightarrow> string option \<Rightarrow> string \<Rightarrow> string \<Rightarrow> inter_mod \<Rightarrow> inter_mod \<times> capture_outcome" where
  "cancel_wrapper g active iid handle m =
     (if \<not> client_role m then (m, delegated g)
      else case im_emit (pe_up g) ''interaction.cancel'' [(''request_id'', cancel_request active m),
               (''sim_id'', VStr (case active of None \<Rightarrow> [] | Some s \<Rightarrow> s)), (''interaction_id'', VStr iid),
               (''context_handle'', VStr handle)] m of
        (m1, Inl e) \<Rightarrow> (m1, \<lparr>co_forwarded = False, co_local = 0, co_raised = Some e\<rparr>)
      | (m1, Inr True) \<Rightarrow> (m1, forwarded)
      | (m1, Inr False) \<Rightarrow> (m1\<lparr>im_error := Some ''bridge_disconnected''\<rparr>,
                            \<lparr>co_forwarded = False, co_local = 0, co_raised = None\<rparr>))"

section \<open>Properties\<close>

text \<open>What the mod has written to the sidecar.\<close>

definition im_sent :: "inter_mod \<Rightarrow> (string \<times> pydict) list" where
  "im_sent m = bc_sent (im_bridge m)"

lemma sent_same [simp]:
  "im_sent (command_stat n f m) = im_sent m" "im_sent (command_count f m) = im_sent m" "im_sent (stat f m) = im_sent m"
  "im_sent (remember rid r m) = im_sent m" "im_sent (begin_capture name m) = im_sent m"
  "im_sent (note_forwarded rid sid name m) = im_sent m" "im_sent (fst (fall_back g e m)) = im_sent m"
  "im_sent (m\<lparr>im_command_error := c\<rparr>) = im_sent m" "im_sent (m\<lparr>im_error := d\<rparr>) = im_sent m"
  by (simp_all add: im_sent_def command_stat_def command_count_def stat_def remember_def begin_capture_def
      note_forwarded_def fall_back_def Let_def)

lemma im_emit_sent:
  "im_emit up ty d m = (m1, Inr True) \<Longrightarrow> im_sent m1 = im_sent m @ [(ty, d)]"
  "im_emit up ty d m = (m1, Inr False) \<Longrightarrow> im_sent m1 = im_sent m"
  "im_emit up ty d m = (m1, Inl e) \<Longrightarrow> im_sent m1 = im_sent m"
  by (auto simp: im_emit_def bridge_send_def im_sent_def split: if_splits)

text \<open>An outcome that stands for exactly one execution: at the host, or here.\<close>

definition executed_once :: "inter_mod \<Rightarrow> inter_mod \<Rightarrow> capture_outcome \<Rightarrow> bool" where
  "executed_once m m1 r \<longleftrightarrow>
     (if co_forwarded r then co_local r = 0 \<and> (\<exists>msg. im_sent m1 = im_sent m @ [msg])
      else co_local r = 1 \<and> im_sent m1 = im_sent m)"

lemma fall_back_once:
  "fall_back g e m0 = (m1, r) \<Longrightarrow> im_sent m0 = im_sent m \<Longrightarrow> executed_once m m1 r"
  using sent_same(7) [of g e m0] by (auto simp: executed_once_def fall_back_def delegated_def)

lemma forward_once:
  "im_emit up ty d m0 = (m2, Inr True) \<Longrightarrow> im_sent m0 = im_sent m \<Longrightarrow>
     executed_once m (note_forwarded rid sid name m2) forwarded"
  by (auto simp: executed_once_def forwarded_def dest: im_emit_sent)

text \<open>A player's choice runs once, unless the game's handler raises inside the capture.\<close>

definition raised_twice :: "player_env \<Rightarrow> capture_outcome \<Rightarrow> bool" where
  "raised_twice g r \<longleftrightarrow> \<not> co_forwarded r \<and> co_local r = 2 \<and> pe_original g \<noteq> None"

lemma fall_back_guarded_once:
  "fall_back_guarded g m0 = (m1, r) \<Longrightarrow> im_sent m0 = im_sent m \<Longrightarrow> executed_once m m1 r \<or> raised_twice g r"
  by (auto simp: fall_back_guarded_def fall_back_def delegated_def raised_twice_def executed_once_def
      split: option.splits)

lemma push_once:
  "capture_push g name target sim aff prio ctx m = (m1, r) \<Longrightarrow> executed_once m m1 r \<or> raised_twice g r"
  by (auto simp: capture_push_def Let_def split: sum.splits option.splits if_splits prod.splits bool.splits
      dest!: fall_back_guarded_once [where m = m] dest: im_emit_sent elim!: fall_back_once forward_once)

lemma cancel_once:
  "capture_cancel g name active args m = (m1, r) \<Longrightarrow>
     executed_once m m1 r \<or> (co_raised r \<noteq> None \<and> \<not> co_forwarded r \<and> co_local r = 0)"
  by (auto simp: capture_cancel_def Let_def split: sum.splits option.splits if_splits prod.splits bool.splits
      elim!: fall_back_once forward_once dest: im_emit_sent)

lemma select_once: "capture_choice g name sim args False m = (m1, r) \<Longrightarrow> executed_once m m1 r"
  by (auto simp: capture_choice_def Let_def split: sum.splits option.splits if_splits prod.splits bool.splits
      elim!: fall_back_once forward_once dest: im_emit_sent)

text \<open>A menu call that raises on the client has been made there twice, besides the host's call.\<close>

lemma choice_raises_twice:
  assumes "capture_choice g name sim args True m = (m1, r)" and "co_forwarded r" and "pe_original g = Some e"
  shows "co_local r = 2"
  using assms
  by (auto simp: capture_choice_def Let_def fall_back_def delegated_def
      split: sum.splits option.splits if_splits prod.splits bool.splits)

text \<open>Once forwarded, the choice of a player is on its way to the host and nowhere else.\<close>

lemma aop_never_local:
  assumes "client_role m" and "player_context g context"
  shows "co_local (snd (aop_wrapper g aop context kwargs m)) = 0"
  using assms by (auto simp: aop_wrapper_def Let_def client_role_def stat_def forwarded_def split: prod.splits option.splits)

lemma cancel_never_local:
  "client_role m \<Longrightarrow> co_local (snd (cancel_wrapper g active iid h m)) = 0"
  by (auto simp: cancel_wrapper_def forwarded_def split: prod.splits sum.splits bool.splits)

end
