(* ===== verification/Mod_Replay.thy ===== *)
theory Mod_Replay
  imports Mod_Interactions
begin

text \<open>
  \<^verbatim>\<open>src/sims_mod_src/kermp_mod/hooks.py\<close>, the host's side of interactions: the
  replay of a typed command through the game's own handler (\<open>_interaction_command\<close>), the
  start event of the game (\<open>_native_interaction_started\<close>), the cancellation
  (\<open>_interaction_cancel\<close>), the virtual clients of remote players
  (\<open>_remote_client_for\<close>, \<open>_forward_remote_client_message\<close>) and the registration of
  the command wrappers. The game is a record of parameters: what it looks up and what its
  handlers return.
\<close>

section \<open>The typed commands\<close>

datatype native_cmd =
    HasChoices "pyval list"
  | GenerateChoices "pyval list"
  | SelectChoice int int
  | PushInteraction int string pyval pyval
  | PushTargetingSim int string pyval pyval
  | CancelSuper int int
  | CancelMixer int int int int

text \<open>\<open>list(command.get('args') or [])\<close> with its length checked.\<close>

definition listed_args :: "nat \<Rightarrow> string \<Rightarrow> pydict \<Rightarrow> py_error + pyval list" where
  "listed_args n msg command =
     (case py_iter (py_or (pget command ''args'') (VList [])) of
        Inl e \<Rightarrow> Inl e
      | Inr xs \<Rightarrow> if length xs \<noteq> n then Inl (ValueError msg) else Inr xs)"

text \<open>\<open>command.get('args') or []\<close> as it is: its length, then its elements by position.\<close>

fun sized_args :: "nat \<Rightarrow> string \<Rightarrow> pyval \<Rightarrow> py_error + pyval list" where
  "sized_args n msg (VList xs) = (if length xs \<noteq> n then Inl (ValueError msg) else Inr xs)"
| "sized_args n msg (VStr s) = (if length s \<noteq> n then Inl (ValueError msg) else Inr (map (\<lambda>c. VStr [c]) s))"
| "sized_args n msg (VDict d) = (if length d \<noteq> n then Inl (ValueError msg) else Inl (KeyError ''0''))"
| "sized_args n msg v =
     (if truthy v then Inl (TypeError (''object of type '' @ repr_str (type_name v) @ '' has no len()''))
      else Inl (ValueError msg))"

fun int_list :: "pyval list \<Rightarrow> py_error + int list" where
  "int_list [] = Inr []"
| "int_list (v # vs) =
     (case py_int v of
        Inl e \<Rightarrow> Inl e
      | Inr i \<Rightarrow> (case int_list vs of Inl e \<Rightarrow> Inl e | Inr ks \<Rightarrow> Inr (i # ks)))"

definition int_args :: "nat \<Rightarrow> string \<Rightarrow> pydict \<Rightarrow> py_error + int list" where
  "int_args n msg command =
     (case sized_args n msg (py_or (pget command ''args'') (VList [])) of
        Inl e \<Rightarrow> Inl e
      | Inr xs \<Rightarrow> int_list xs)"

text \<open>\<open>first\<close> is the key of the target read first, \<open>second\<close> the one used when it is empty.\<close>

definition push_args ::
  "(int \<Rightarrow> bool) \<Rightarrow> string \<Rightarrow> string \<Rightarrow> string \<Rightarrow> pydict \<Rightarrow> py_error + int \<times> string" where
  "push_args known first second msg command =
     (case py_dict (py_or (pget command ''target'') (VDict [])) of
        Inl e \<Rightarrow> Inl e
      | Inr target \<Rightarrow>
          (let tid = py_or (pget target first) (pget target second) in
           if \<not> truthy tid then Inl (ValueError msg)
           else case int_text (pget command ''affordance_id'') of
                  Inl e \<Rightarrow> Inl e
                | Inr a \<Rightarrow> if \<not> known a then Inl (ValueError ''affordance_not_found'') else Inr (a, py_str tid)))"

definition map_sum_r :: "('a \<Rightarrow> 'b) \<Rightarrow> py_error + 'a \<Rightarrow> py_error + 'b" where
  "map_sum_r f r = (case r of Inl e \<Rightarrow> Inl e | Inr x \<Rightarrow> Inr (f x))"

text \<open>
  The \<open>if\<close> chain over the command's name. The symbolic names (pick type, priority,
  interaction source) are looked up by the game with a default and cannot fail here.
\<close>

definition parse_command :: "(int \<Rightarrow> bool) \<Rightarrow> pydict \<Rightarrow> py_error + native_cmd" where
  "parse_command known command =
     (let name = pget command ''name''; prio = pget command ''priority''; src = pget command ''interaction_source'' in
      if name = VStr ''interactions.has_choices'' then
        map_sum_r HasChoices (listed_args 12 ''has_choices_args_invalid'' command)
      else if name = VStr ''interactions.choices'' then
        map_sum_r GenerateChoices (listed_args 14 ''choices_args_invalid'' command)
      else if name = VStr ''interactions.select'' then
        (case listed_args 2 ''select_args_invalid'' command of
           Inl e \<Rightarrow> Inl e
         | Inr xs \<Rightarrow> map_sum_r (\<lambda>ks. SelectChoice (ks ! 0) (ks ! 1)) (int_list xs))
      else if name = VStr ''interactions.push'' then
        map_sum_r (\<lambda>(a, t). PushInteraction a t prio src)
          (push_args known ''target_id'' ''target_sim_id'' ''target_id_missing'' command)
      else if name = VStr ''interactions.push_targeting_sim_info'' then
        map_sum_r (\<lambda>(a, t). PushTargetingSim a t prio src)
          (push_args known ''target_sim_id'' ''target_id'' ''target_sim_id_missing'' command)
      else if name = VStr ''interactions.cancel_si'' then
        map_sum_r (\<lambda>ks. CancelSuper (ks ! 0) (ks ! 1)) (int_args 2 ''cancel_si_args_invalid'' command)
      else if name = VStr ''interactions.cancel'' then
        map_sum_r (\<lambda>ks. CancelMixer (ks ! 0) (ks ! 1) (ks ! 2) (ks ! 3)) (int_args 4 ''cancel_args_invalid'' command)
      else Inl (ValueError (''command_not_allowed:'' @ py_str name)))"

definition ACTIONABLE :: "string list" where
  "ACTIONABLE = [''interactions.select'', ''interactions.push'', ''interactions.push_targeting_sim_info'']"

definition actionable :: "pyval \<Rightarrow> bool" where
  "actionable name \<longleftrightarrow> name \<in> set (map VStr ACTIONABLE)"

section \<open>The start event\<close>

definition STARTABLE :: "string list" where
  "STARTABLE = ACTIONABLE @ [''interaction.request'']"

definition text_id :: "pyval \<Rightarrow> string" where
  "text_id v = py_str (py_or v (VStr []))"

definition request_entry :: "string \<Rightarrow> string \<Rightarrow> pyval \<Rightarrow> pydict" where
  "request_entry rid sid name = [(''request_id'', VStr rid), (''sim_id'', VStr sid), (''name'', name)]"

definition interaction_note :: "string \<Rightarrow> pyval \<Rightarrow> pyval \<Rightarrow> pyval \<Rightarrow> pyval \<Rightarrow> pydict" where
  "interaction_note iid rid sid name signal =
     [(''request_id'', rid), (''sim_id'', sid), (''interaction_id'', VStr iid), (''command'', name), (''signal'', signal)]"

text \<open>
  \<open>_native_interaction_started\<close>: an interaction belongs to the request it was queued for,
  else to the command being replayed now.
\<close>

definition native_started :: "bool \<Rightarrow> string \<Rightarrow> inter_mod \<Rightarrow> inter_mod \<times> py_error option" where
  "native_started up iid m =
     (let r = (case map_of (im_native m) iid of Some r \<Rightarrow> Some r | None \<Rightarrow> im_active m);
          m1 = m\<lparr>im_native := AList.delete iid (im_native m)\<rparr>
      in case r of
           None \<Rightarrow> (m1, None)
         | Some q \<Rightarrow>
             if q = [] \<or> pget q ''name'' \<notin> set (map VStr STARTABLE) then (m1, None)
             else
              (let m2 = command_stat (pget q ''name'') ''interaction_started'' (command_count ''interaction_started'' m1)
               in case im_emit up ''interaction.started''
                         (interaction_note iid (pget q ''request_id'') (pget q ''sim_id'') (pget q ''name'')
                           (VStr ''Interaction._trigger_interaction_start_event'')) m2 of
                    (m3, Inl e) \<Rightarrow> (m3, Some e)
                  | (m3, Inr _) \<Rightarrow> (m3, None)))"

text \<open>The wrapper of the game's start event keeps an exception of the report.\<close>

definition start_event :: "bool \<Rightarrow> string \<Rightarrow> inter_mod \<Rightarrow> inter_mod" where
  "start_event up iid m =
     (case native_started up iid m of
        (m1, None) \<Rightarrow> m1
      | (m1, Some e) \<Rightarrow> m1\<lparr>im_command_error := Some (''interaction_start:'' @ exc_class e @ '':'' @ exc_text e)\<rparr>)"

section \<open>The replay\<close>

text \<open>
  What a handler of the game does: the start events it triggers before it returns, and the
  exception or the result, as its truth value, the id of the interaction it carries and the
  queue of the Sim afterwards.
\<close>

record native_result =
  nr_started :: "string list"
  nr_raised :: "py_error option"
  nr_truthy :: bool
  nr_interaction :: "string option"
  nr_queue :: "string list"

record replay_env =
  re_up :: bool
  re_sim :: "int \<Rightarrow> bool"
  re_client :: "py_error option"
  re_affordance :: "int \<Rightarrow> bool"
  re_queue :: "string list"
  re_call :: "native_cmd \<Rightarrow> native_result"

text \<open>\<open>result = True\<close> for the calls whose value is not used.\<close>

definition result_used :: "native_cmd \<Rightarrow> bool" where
  "result_used c = (case c of SelectChoice a b \<Rightarrow> True | PushInteraction a t p q \<Rightarrow> True
     | PushTargetingSim a t p q \<Rightarrow> True | _ \<Rightarrow> False)"

definition call_truthy :: "native_cmd \<Rightarrow> native_result \<Rightarrow> bool" where
  "call_truthy c r \<longleftrightarrow> (if result_used c then nr_truthy r else True)"

text \<open>The queued interaction: the one of the result, else the first new one of the queue.\<close>

definition created_interaction :: "string list \<Rightarrow> native_result \<Rightarrow> string" where
  "created_interaction before r =
     (case nr_interaction r of
        Some i \<Rightarrow> i
      | None \<Rightarrow> (case filter (\<lambda>i. i \<notin> set before) (nr_queue r) of [] \<Rightarrow> [] | i # _ \<Rightarrow> i))"

definition note_queue :: "replay_env \<Rightarrow> string \<Rightarrow> string \<Rightarrow> pyval \<Rightarrow> native_result \<Rightarrow> inter_mod \<Rightarrow> inter_mod \<times> py_error option" where
  "note_queue g rid sid name r m =
     (let iid = created_interaction (re_queue g) r in
      if iid = [] \<or> iid \<notin> set (nr_queue r) then (m, None)
      else
       (let m1 = command_stat name ''queue_created'' (command_count ''queue_created''
                   (m\<lparr>im_native := AList.update iid (request_entry rid sid name) (im_native m)\<rparr>))
        in case im_emit (re_up g) ''interaction.queued''
                  (interaction_note iid (VStr rid) (VStr sid) name (VStr ''sim.queue membership'')) m1 of
             (m2, Inl e) \<Rightarrow> (m2, Some e)
           | (m2, Inr _) \<Rightarrow> (m2, None)))"

definition replay_result ::
  "replay_env \<Rightarrow> string \<Rightarrow> string \<Rightarrow> pyval \<Rightarrow> native_cmd \<Rightarrow> native_result \<Rightarrow> inter_mod \<Rightarrow> inter_mod \<times> py_error option" where
  "replay_result g rid sid name c r m =
     (if nr_raised r \<noteq> None then (m, nr_raised r)
      else if \<not> call_truthy c r then (m, Some (ValueError ''native_command_rejected''))
      else
       (let m1 = command_stat name ''result_truthy'' (command_count ''result_truthy'' m)
        in if actionable name then note_queue g rid sid name r m1 else (m1, None)))"

text \<open>The body of the \<open>try\<close>; the handlers called are listed.\<close>

definition replay_body ::
  "replay_env \<Rightarrow> string \<Rightarrow> pyval \<Rightarrow> pydict \<Rightarrow> inter_mod \<Rightarrow> inter_mod \<times> native_cmd list \<times> py_error option" where
  "replay_body g rid sim command m =
     (case int_text sim of
        Inl e \<Rightarrow> (m, [], Some e)
      | Inr sid \<Rightarrow>
          if \<not> re_sim g sid then (m, [], Some (ValueError ''sim_not_loaded''))
          else case re_client g of Some e \<Rightarrow> (m, [], Some e)
          | None \<Rightarrow>
             (let name = pget command ''name'';
                  m1 = m\<lparr>im_active := Some (request_entry rid (int_str sid) name)\<rparr>
              in case parse_command (re_affordance g) command of
                   Inl e \<Rightarrow> (m1, [], Some e)
                 | Inr c \<Rightarrow>
                     (let r = re_call g c; m2 = fold (start_event (re_up g)) (nr_started r) m1
                      in case replay_result g rid (int_str sid) name c r m2 of (m3, e) \<Rightarrow> (m3, [c], e))))"

definition replay_reason :: "py_error \<Rightarrow> string" where
  "replay_reason e = ''native_command:'' @ exc_class e @ '':'' @ exc_text e"

definition rejection_note :: "string \<Rightarrow> pyval \<Rightarrow> pyval \<Rightarrow> py_error \<Rightarrow> pydict" where
  "rejection_note rid sim name e =
     [(''request_id'', VStr rid), (''sim_id'', sim), (''command'', name), (''reason'', VStr (replay_reason e))]"

text \<open>
  \<open>_interaction_command\<close>: an exception of the body is counted and answered; one of the
  answer itself escapes. In every case no command is active afterwards.
\<close>

definition interaction_command ::
  "replay_env \<Rightarrow> pydict \<Rightarrow> inter_mod \<Rightarrow> inter_mod \<times> native_cmd list \<times> py_error option" where
  "interaction_command g payload m =
     (if \<not> host_role m then (m, [], None)
      else case py_dict (py_or (pget payload ''command'') (VDict [])) of
        Inl e \<Rightarrow> (m, [], Some e)
      | Inr command \<Rightarrow>
         (let rid = text_id (pget payload ''request_id''); name = pget command ''name'';
              m1 = command_stat name ''received'' (command_count ''received'' m)
          in case replay_body g rid (pget payload ''sim_id'') command m1 of
               (m2, cs, None) \<Rightarrow>
                 ((command_stat name ''replayed'' (command_count ''replayed'' m2))
                    \<lparr>im_command_error := None, im_active := None\<rparr>, cs, None)
             | (m2, cs, Some e) \<Rightarrow>
                 (let m3 = (command_stat name ''rejected'' (command_count ''rejected'' m2))
                             \<lparr>im_command_error := Some (replay_reason e)\<rparr>
                  in case im_emit (re_up g) ''interaction.rejected''
                            (rejection_note rid (pget payload ''sim_id'') name e) m3 of
                       (m4, Inl x) \<Rightarrow> (m4\<lparr>im_active := None\<rparr>, cs, Some x)
                     | (m4, Inr _) \<Rightarrow> (m4\<lparr>im_active := None\<rparr>, cs, None))))"

section \<open>Cancelling\<close>

record cancel_env =
  ce_up :: bool
  ce_sim :: "int \<Rightarrow> bool"
  ce_found :: "int \<Rightarrow> int \<Rightarrow> bool"
  ce_cancel :: "int \<Rightarrow> py_error option"

text \<open>
  \<open>_interaction_cancel\<close>; an exception while reporting the end is answered like one of the
  cancellation. The interactions cancelled are listed.
\<close>

definition cancel_outcome :: "cancel_env \<Rightarrow> pydict \<Rightarrow> py_error + int" where
  "cancel_outcome g payload =
     (case py_int (VStr (text_id (pget payload ''sim_id''))) of
        Inl e \<Rightarrow> Inl e
      | Inr sid \<Rightarrow>
          if \<not> ce_sim g sid then Inl (ValueError ''sim_not_loaded'')
          else case int_text (py_or (pget payload ''interaction_id'') (VStr ''0'')) of
            Inl e \<Rightarrow> Inl e
          | Inr iid \<Rightarrow> if ce_found g sid iid then Inr iid else Inl (ValueError ''interaction_not_found''))"

definition interaction_cancel ::
  "cancel_env \<Rightarrow> pydict \<Rightarrow> inter_mod \<Rightarrow> inter_mod \<times> int list \<times> py_error option" where
  "interaction_cancel g payload m =
     (if \<not> host_role m then (m, [], None)
      else
       (let rid = VStr (text_id (pget payload ''request_id''));
            reject = (\<lambda>e m. case im_emit (ce_up g) ''interaction.rejected''
                         [(''request_id'', rid), (''reason'', VStr (error_text e))] m of
                       (m1, Inl x) \<Rightarrow> (m1, Some x) | (m1, Inr _) \<Rightarrow> (m1, None))
        in case cancel_outcome g payload of
             Inl e \<Rightarrow> (case reject e m of (m1, x) \<Rightarrow> (m1, [], x))
           | Inr iid \<Rightarrow>
              (case ce_cancel g iid of
                 Some e \<Rightarrow> (case reject e m of (m1, x) \<Rightarrow> (m1, [iid], x))
               | None \<Rightarrow>
                  (case im_emit (ce_up g) ''interaction.finished''
                          [(''request_id'', rid), (''interaction_id'', VStr (int_str iid)), (''status'', VStr ''cancelled'')] m of
                     (m1, Inl e) \<Rightarrow> (case reject e m1 of (m2, x) \<Rightarrow> (m2, [iid], x))
                   | (m1, Inr _) \<Rightarrow> (m1, [iid], None)))))"

section \<open>Generic requests\<close>

text \<open>The target of a request as the host rebuilds it.\<close>

datatype live_target = NoTarget | ObjectTarget int | SimTarget int | PointTarget "rat list" surface

record resolve_env =
  ve_up :: bool
  ve_float :: "string \<Rightarrow> rat option"
  ve_sim :: "int \<Rightarrow> bool"
  ve_affordance :: "int \<Rightarrow> bool"
  ve_object :: "int \<Rightarrow> bool"
  ve_location :: "rat list \<Rightarrow> surface \<Rightarrow> py_error option"
  ve_proxy :: "rat list \<Rightarrow> surface \<Rightarrow> py_error + bool"
  ve_context :: "py_error option"
  ve_push :: "int \<Rightarrow> int \<Rightarrow> live_target \<Rightarrow> pydict \<Rightarrow> native_result"

text \<open>\<open>_deserialize_interaction_position_target\<close>; the text of a failed \<open>float()\<close> is left out.\<close>

definition bounded_repr :: "pyval \<Rightarrow> string" where
  "bounded_repr v = take 2000 (py_repr v)"

definition rebuild_point :: "resolve_env \<Rightarrow> pyval list \<Rightarrow> surface \<Rightarrow> py_error + live_target" where
  "rebuild_point g xs sf =
     (case all_some (map (\<lambda>x. gfloat (ve_float g) (unwire x)) (take 3 xs)) of
        None \<Rightarrow> Inl (ValueError ''math_location'')
      | Some p \<Rightarrow>
         (case ve_location g p sf of
            Some e \<Rightarrow> Inl (ValueError (''math_location:'' @ exc_class e @ '':'' @ exc_text e))
          | None \<Rightarrow>
             (case ve_proxy g p sf of
                Inl e \<Rightarrow> Inl (ValueError (''surface_proxy_factory:'' @ exc_class e @ '':'' @ exc_text e))
              | Inr False \<Rightarrow> Inl (ValueError ''surface_proxy_factory_returned_none'')
              | Inr True \<Rightarrow> Inr (PointTarget p sf))))"

definition position_target :: "resolve_env \<Rightarrow> pyval \<Rightarrow> py_error + live_target" where
  "position_target g v =
     (case v of
        VDict d \<Rightarrow>
          (case py_or (pget d ''translation'') (pget d ''position'') of
             VList xs \<Rightarrow>
               (if length xs < 3 then Inl (ValueError (''position_descriptor_missing_translation:'' @ bounded_repr v))
                else case deserialize_surface (pget d ''routing_surface'') of
                  KeptSurface \<Rightarrow> Inl (ValueError (''position_descriptor_missing_routing_surface:''
                                    @ bounded_repr (pget d ''routing_surface'')))
                | sf \<Rightarrow> rebuild_point g xs sf)
           | _ \<Rightarrow> Inl (ValueError (''position_descriptor_missing_translation:'' @ bounded_repr v)))
      | _ \<Rightarrow> Inl (ValueError (''position_descriptor_not_dict:'' @ type_name v)))"

datatype resolve_error = StageError string string | PlainError py_error

definition at_stage :: "string \<Rightarrow> py_error \<Rightarrow> resolve_error" where
  "at_stage stage e = StageError stage (error_text e)"

definition pindex :: "pydict \<Rightarrow> string \<Rightarrow> py_error + pyval" where
  "pindex d k = (case map_of d k of None \<Rightarrow> Inl (KeyError k) | Some v \<Rightarrow> Inr v)"

definition lookup_id :: "string \<Rightarrow> string \<Rightarrow> (int \<Rightarrow> bool) \<Rightarrow> py_error + pyval \<Rightarrow> resolve_error + int" where
  "lookup_id stage missing known v =
     (case v of
        Inl e \<Rightarrow> Inl (at_stage stage e)
      | Inr x \<Rightarrow>
         (case int_text x of
            Inl e \<Rightarrow> Inl (at_stage stage e)
          | Inr i \<Rightarrow> if known i then Inr i else Inl (StageError stage missing)))"

definition resolve_target :: "resolve_env \<Rightarrow> pydict \<Rightarrow> resolve_error + live_target" where
  "resolve_target g payload =
     (let kind = py_str (py_or (pget payload ''target_kind'') (VStr ''object'')) in
      if kind = ''object'' then
        map_sum id ObjectTarget (lookup_id ''resolve_object_target'' ''target_not_found'' (ve_object g)
          (Inr (pget payload ''target_id'')))
      else if kind = ''sim'' then
        map_sum id SimTarget (lookup_id ''resolve_sim_target'' ''target_sim_not_loaded'' (ve_sim g)
          (Inr (pget payload ''target_sim_id'')))
      else if kind = ''position'' then
        (case position_target g (pget payload ''position'') of
           Inl e \<Rightarrow> Inl (StageError ''resolve_position_target''
             (''TerrainPoint target reconstruction failed target_type='' @ py_str (pget payload ''target_type'')
              @ '' position='' @ bounded_repr (pget payload ''position'') @ '' error='' @ exc_class e @ '':'' @ exc_text e))
         | Inr t \<Rightarrow> Inr t)
      else if kind = ''none'' then Inr NoTarget
      else Inl (StageError ''classify_target'' (''unsupported_target_kind:'' @ kind)))"

text \<open>The pick of the context and its \<open>target_sim_id\<close> are rebuilt before the context is made.\<close>

definition resolve_context :: "resolve_env \<Rightarrow> pydict \<Rightarrow> resolve_error + unit" where
  "resolve_context g payload =
     (let kind = py_str (py_or (pget payload ''target_kind'') (VStr ''object'')) in
      case (if truthy (pget payload ''pick'') then map_sum id (\<lambda>t. ()) (position_target g (pget payload ''pick'')) else Inr ()) of
        Inl e \<Rightarrow> Inl (at_stage ''reconstruct_context'' e)
      | Inr _ \<Rightarrow>
         (case (if kind = ''sim'' \<and> pget payload ''target_sim_id'' \<noteq> VNone
                then map_sum id (\<lambda>i. ()) (int_text (pget payload ''target_sim_id'')) else Inr ()) of
            Inl e \<Rightarrow> Inl (at_stage ''reconstruct_context'' e)
          | Inr _ \<Rightarrow> (case ve_context g of None \<Rightarrow> Inr () | Some e \<Rightarrow> Inl (at_stage ''reconstruct_context'' e))))"

definition resolve_interaction ::
  "resolve_env \<Rightarrow> pydict \<Rightarrow> resolve_error + int \<times> int \<times> live_target \<times> pydict" where
  "resolve_interaction g payload =
     (case lookup_id ''resolve_sim'' ''sim_not_loaded'' (ve_sim g) (pindex payload ''sim_id'') of
        Inl e \<Rightarrow> Inl e
      | Inr sid \<Rightarrow>
         (case lookup_id ''resolve_affordance'' ''affordance_not_found'' (ve_affordance g) (pindex payload ''affordance_id'') of
            Inl e \<Rightarrow> Inl e
          | Inr a \<Rightarrow>
             (case resolve_target g payload of
                Inl e \<Rightarrow> Inl e
              | Inr t \<Rightarrow>
                 (case resolve_context g payload of
                    Inl e \<Rightarrow> Inl e
                  | Inr _ \<Rightarrow>
                     (case py_dict (py_or (pget payload ''interaction_kwargs'') (VDict [])) of
                        Inl e \<Rightarrow> Inl (PlainError e)
                      | Inr kw \<Rightarrow> Inr (sid, a, t, kw))))))"

text \<open>
  \<open>_interaction_request\<close>: the game's queue is asked for the interaction of the result; a failure
  of any kind is answered with the stage it happened in. The pushes made are listed.
\<close>

type_synonym push = "int \<times> int \<times> live_target \<times> pydict"

definition STAGE_PUSH :: string where
  "STAGE_PUSH = ''push_super_affordance''"

definition request_rejection :: "pydict \<Rightarrow> string \<Rightarrow> string \<Rightarrow> pydict" where
  "request_rejection payload stage reason =
     [(''request_id'', VStr (text_id (pget payload ''request_id''))), (''sim_id'', pget payload ''sim_id''),
      (''affordance_id'', pget payload ''affordance_id''), (''target_id'', pget payload ''target_id''),
      (''resolve_stage'', VStr stage), (''reason'', VStr reason)]"

definition staged_rejection :: "pydict \<Rightarrow> string \<Rightarrow> string \<Rightarrow> pydict" where
  "staged_rejection payload stage reason =
     [(''request_id'', VStr (text_id (pget payload ''request_id''))), (''sim_id'', pget payload ''sim_id''),
      (''affordance_id'', pget payload ''affordance_id''), (''target_id'', pget payload ''target_id''),
      (''target_kind'', pget payload ''target_kind''), (''target_type'', pget payload ''target_type''),
      (''position_present'', VBool (pget payload ''position'' \<noteq> VNone)),
      (''pick_present'', VBool (pget payload ''pick'' \<noteq> VNone)),
      (''resolve_stage'', VStr stage), (''reason'', VStr reason)]"

definition reject_request :: "bool \<Rightarrow> string \<Rightarrow> pydict \<Rightarrow> inter_mod \<Rightarrow> inter_mod \<times> py_error option" where
  "reject_request up reason note m =
     (case im_emit up ''interaction.rejected'' note (m\<lparr>im_error := Some reason\<rparr>) of
        (m1, Inl e) \<Rightarrow> (m1, Some e)
      | (m1, Inr _) \<Rightarrow> (m1, None))"

definition note_pushed :: "resolve_env \<Rightarrow> pydict \<Rightarrow> native_result \<Rightarrow> inter_mod \<Rightarrow> inter_mod \<times> py_error option" where
  "note_pushed g payload r m =
     (case nr_interaction r of
        None \<Rightarrow> (m, None)
      | Some iid \<Rightarrow>
          if iid = [] \<or> iid \<notin> set (nr_queue r) then (m, None)
          else
           (let rid = text_id (pget payload ''request_id''); name = VStr ''interaction.request'';
                m1 = m\<lparr>im_native := AList.update iid (request_entry rid (py_str (pget payload ''sim_id'')) name) (im_native m)\<rparr>
            in case im_emit (ve_up g) ''interaction.queued''
                      (interaction_note iid (VStr rid) (pget payload ''sim_id'') name (VStr ''sim.queue membership'')) m1 of
                 (m2, Inl e) \<Rightarrow> (m2, Some e)
               | (m2, Inr _) \<Rightarrow> (m2, None)))"

definition push_outcome :: "resolve_env \<Rightarrow> pydict \<Rightarrow> native_result \<Rightarrow> inter_mod \<Rightarrow> inter_mod \<times> py_error option" where
  "push_outcome g payload r m =
     (let m1 = fold (start_event (ve_up g)) (nr_started r) m in
      if nr_raised r \<noteq> None then (m1, nr_raised r)
      else if \<not> nr_truthy r then (m1, Some (ValueError ''push_rejected''))
      else note_pushed g payload r m1)"

definition plain_reason :: "string \<Rightarrow> py_error \<Rightarrow> string" where
  "plain_reason stage e = stage @ '':'' @ error_text e"

definition interaction_request ::
  "resolve_env \<Rightarrow> pydict \<Rightarrow> inter_mod \<Rightarrow> inter_mod \<times> push list \<times> py_error option" where
  "interaction_request g payload m =
     (let m1 = stat ''delivered'' m in
      case resolve_interaction g payload of
        Inl (StageError stage t) \<Rightarrow>
          (let reason = stage @ '':'' @ t in
           case reject_request (ve_up g) reason (staged_rejection payload stage reason) m1 of (m2, x) \<Rightarrow> (m2, [], x))
      | Inl (PlainError e) \<Rightarrow>
          (let reason = plain_reason ''resolve_sim'' e in
           case reject_request (ve_up g) reason (request_rejection payload ''resolve_sim'' reason) m1 of (m2, x) \<Rightarrow> (m2, [], x))
      | Inr (sid, a, t, kw) \<Rightarrow>
          (case push_outcome g payload (ve_push g sid a t kw) m1 of
             (m2, None) \<Rightarrow> (m2, [(sid, a, t, kw)], None)
           | (m2, Some e) \<Rightarrow>
               (let reason = plain_reason STAGE_PUSH e in
                case reject_request (ve_up g) reason (request_rejection payload STAGE_PUSH reason) m2 of
                  (m3, x) \<Rightarrow> (m3, [(sid, a, t, kw)], x))))"

section \<open>Virtual clients of remote players\<close>

text \<open>
  \<open>_remote_client_for\<close> creates at most one client of the game per remote player, with the
  first free number from the one the player's id is hashed to. \<open>numeric\<close> is
  \<open>_remote_numeric_id\<close>: the leading 56 bits of a SHA-256 digest with bit 62 set.
\<close>

record client_pool =
  cp_manager :: "int list"
  cp_clients :: "(string \<times> int) list"
  cp_headless :: "int list"
  cp_active :: "(int \<times> int) list"

definition new_pool :: "int list \<Rightarrow> client_pool" where
  "new_pool ids = \<lparr>cp_manager = ids, cp_clients = [], cp_headless = [], cp_active = []\<rparr>"

text \<open>\<open>while manager.get(client_id) is not None: client_id += 1\<close>\<close>

function free_id :: "int list \<Rightarrow> int \<Rightarrow> int" where
  "free_id used i = (if i \<in> set used then free_id used (i + 1) else i)"
  by pat_completeness auto

termination
proof (relation "measure (\<lambda>(used, i). card {j \<in> set used. i \<le> j})")
  fix used :: "int list" and i :: int
  assume "i \<in> set used"
  then have "i \<in> {j \<in> set used. i \<le> j}" "i \<notin> {j \<in> set used. i + 1 \<le> j}"
    by simp_all
  moreover have "{j \<in> set used. i + 1 \<le> j} \<subseteq> {j \<in> set used. i \<le> j}"
    by auto
  ultimately have "{j \<in> set used. i + 1 \<le> j} \<subset> {j \<in> set used. i \<le> j}"
    by blast
  then show "((used, i + 1), used, i) \<in> measure (\<lambda>(used, i). card {j \<in> set used. i \<le> j})"
    by (simp add: psubset_card_mono)
qed simp

declare free_id.simps [simp del]

definition headless_bit :: int where
  "headless_bit = 4611686018427387904"

text \<open>\<open>int(digest[:14], 16) | 0x4000000000000000\<close>; the digits have 56 bits.\<close>

definition remote_numeric_id :: "(string \<Rightarrow> int) \<Rightarrow> string \<Rightarrow> string \<Rightarrow> int" where
  "remote_numeric_id digest kind pid = or (digest (''KerMP:'' @ kind @ '':'' @ pid)) headless_bit"

text \<open>
  \<open>create\<close> is the error the game's \<open>create_client\<close> raises for an id, if any, and
  \<open>activate\<close> the one of making the Sim the client's active one.
\<close>

definition remote_error :: "py_error \<Rightarrow> py_error" where
  "remote_error e = ValueError (''remote_client:'' @ exc_class e @ '':'' @ exc_text e)"

definition activate_sim :: "(int \<Rightarrow> py_error option) \<Rightarrow> int \<Rightarrow> int \<Rightarrow> client_pool \<Rightarrow> client_pool \<times> (py_error + int)" where
  "activate_sim activate sid c p =
     (case activate sid of
        Some e \<Rightarrow> (p, Inl (remote_error e))
      | None \<Rightarrow> (p\<lparr>cp_active := AList.update c sid (cp_active p)\<rparr>, Inr c))"

definition remote_client_for ::
  "(string \<Rightarrow> int) \<Rightarrow> (int \<Rightarrow> py_error option) \<Rightarrow> (int \<Rightarrow> py_error option) \<Rightarrow> string \<Rightarrow> int \<Rightarrow> client_pool \<Rightarrow>
     client_pool \<times> (py_error + int)" where
  "remote_client_for digest create activate pid sid p =
     (case map_of (cp_clients p) pid of
        Some c \<Rightarrow> activate_sim activate sid c p
      | None \<Rightarrow>
         (let c = free_id (cp_manager p) (remote_numeric_id digest ''client'' pid) in
          case create c of
            Some e \<Rightarrow> (p, Inl (remote_error e))
          | None \<Rightarrow> activate_sim activate sid c
                      (p\<lparr>cp_manager := cp_manager p @ [c], cp_clients := AList.update pid c (cp_clients p),
                         cp_headless := cp_headless p @ [c]\<rparr>)))"

text \<open>Leaving: the clients KerMP created are removed from the game's manager.\<close>

definition teardown_clients :: "client_pool \<Rightarrow> client_pool" where
  "teardown_clients p =
     \<lparr>cp_manager = filter (\<lambda>c. c \<notin> snd ` set (cp_clients p)) (cp_manager p),
      cp_clients = [], cp_headless = [], cp_active = []\<rparr>"

section \<open>Properties of the counters\<close>

lemma count_of_bump: "count_of k (bump j cs) = (if k = j then count_of k cs + 1 else count_of k cs)"
  by (simp add: count_of_def bump_def)

text \<open>A counter of the command statistics, and the fields each operation leaves alone.\<close>

definition commands_seen :: "string \<Rightarrow> inter_mod \<Rightarrow> int" where
  "commands_seen k m = count_of k (im_commands m)"

lemma seen_command_count:
  "commands_seen k (command_count j m) = commands_seen k m + (if k = j then 1 else 0)"
  by (simp add: commands_seen_def command_count_def count_of_bump)

lemma seen_same [simp]:
  "commands_seen k (command_stat n f m) = commands_seen k m" "commands_seen k (stat f m) = commands_seen k m"
  "commands_seen k (m\<lparr>im_command_error := e\<rparr>) = commands_seen k m"
  "commands_seen k (m\<lparr>im_active := a\<rparr>) = commands_seen k m"
  "commands_seen k (m\<lparr>im_native := b\<rparr>) = commands_seen k m"
  "commands_seen k (m\<lparr>im_requests := c\<rparr>) = commands_seen k m"
  "commands_seen k (m\<lparr>im_error := d\<rparr>) = commands_seen k m"
  by (simp_all add: commands_seen_def command_stat_def stat_def Let_def)

lemma seen_emit: "im_emit up ty d m = (m1, r) \<Longrightarrow> commands_seen k m1 = commands_seen k m"
  by (auto simp: im_emit_def commands_seen_def split: prod.splits)

lemma seen_emit_all: "im_emit up ty d m = (m1, r) \<Longrightarrow> \<forall>k. commands_seen k m1 = commands_seen k m"
  by (simp add: seen_emit)

lemma active_same [simp]:
  "im_active (command_stat n f m) = im_active m" "im_active (stat f m) = im_active m"
  "im_active (command_count f m) = im_active m"
  by (simp_all add: command_stat_def stat_def command_count_def Let_def)

lemma active_emit: "im_emit up ty d m = (m1, r) \<Longrightarrow> im_active m1 = im_active m"
  by (auto simp: im_emit_def split: prod.splits)

lemma seen_start_event:
  "k \<noteq> ''interaction_started'' \<Longrightarrow> commands_seen k (start_event up iid m) = commands_seen k m"
  by (auto simp: start_event_def native_started_def Let_def seen_command_count
      split: prod.splits option.splits if_splits sum.splits dest!: seen_emit [of _ _ _ _ _ _ k])

lemma seen_start_events:
  "k \<noteq> ''interaction_started'' \<Longrightarrow> commands_seen k (fold (start_event up) xs m) = commands_seen k m"
  by (induction xs arbitrary: m) (simp_all add: seen_start_event)

text \<open>Every command the host receives is either replayed or rejected, whatever the game does.\<close>

definition replay_balanced :: "inter_mod \<Rightarrow> bool" where
  "replay_balanced m \<longleftrightarrow>
     commands_seen ''received'' m = commands_seen ''replayed'' m + commands_seen ''rejected'' m"

definition replay_key :: "string \<Rightarrow> bool" where
  "replay_key k \<longleftrightarrow> k \<in> {''received'', ''replayed'', ''rejected''}"

lemma seen_note_queue:
  "note_queue g rid sid name r m = (m1, e) \<Longrightarrow> replay_key k \<Longrightarrow> commands_seen k m1 = commands_seen k m"
  by (auto simp: note_queue_def Let_def seen_command_count replay_key_def
      split: if_splits prod.splits sum.splits dest!: seen_emit [of _ _ _ _ _ _ k])

lemma seen_replay_result:
  "replay_result g rid sid name c r m = (m1, e) \<Longrightarrow> replay_key k \<Longrightarrow> commands_seen k m1 = commands_seen k m"
  by (auto simp: replay_result_def Let_def seen_command_count replay_key_def
      split: if_splits dest!: seen_note_queue [where k = k])

lemma seen_replay_body:
  assumes "replay_body g rid sim command m = (m1, cs, e)" and "replay_key k"
  shows "commands_seen k m1 = commands_seen k m"
proof -
  have "k \<noteq> ''interaction_started''"
    using assms(2) by (auto simp: replay_key_def)
  then show ?thesis
    using assms
    by (auto simp: replay_body_def Let_def seen_start_events split: sum.splits if_splits option.splits prod.splits
        dest!: seen_replay_result [where k = k])
qed

lemma replay_counts:
  assumes "interaction_command g p m = (m1, cs, e)" and "replay_balanced m"
  shows "replay_balanced m1"
proof (cases "host_role m")
  case False
  then show ?thesis
    using assms by (simp add: interaction_command_def)
next
  case True
  show ?thesis
  proof (cases "py_dict (py_or (pget p ''command'') (VDict []))")
    case (Inl x)
    then show ?thesis
      using True assms by (simp add: interaction_command_def)
  next
    case (Inr command)
    define m0 where "m0 = command_stat (pget command ''name'') ''received'' (command_count ''received'' m)"
    obtain m2 cs2 e2 where body:
      "replay_body g (text_id (pget p ''request_id'')) (pget p ''sim_id'') command m0 = (m2, cs2, e2)"
      by (cases "replay_body g (text_id (pget p ''request_id'')) (pget p ''sim_id'') command m0")
    have "commands_seen k m2 = commands_seen k m + (if k = ''received'' then 1 else 0)" if "replay_key k" for k
      using seen_replay_body [OF body that] by (simp add: m0_def seen_command_count)
    then have keys: "commands_seen ''received'' m2 = commands_seen ''received'' m + 1"
      "commands_seen ''replayed'' m2 = commands_seen ''replayed'' m" "commands_seen ''rejected'' m2 = commands_seen ''rejected'' m"
      by (simp_all add: replay_key_def)
    show ?thesis
      using assms(1) assms(2) True Inr body keys
      by (cases e2) (auto simp: interaction_command_def Let_def m0_def [symmetric] replay_balanced_def
          seen_command_count split: prod.splits sum.splits dest!: seen_emit_all)
  qed
qed

text \<open>No command stays active after it was handled.\<close>

lemma replay_idle:
  "interaction_command g p m = (m1, cs, e) \<Longrightarrow> im_active m = None \<Longrightarrow> im_active m1 = None"
  by (auto simp: interaction_command_def Let_def split: sum.splits if_splits option.splits prod.splits)

text \<open>
  A handler of the game runs at most once per command, only on the host, only for a loaded Sim
  with a client, and it is the handler the command parses to.
\<close>

lemma replay_body_calls:
  "replay_body g rid sim command m = (m1, cs, e) \<Longrightarrow>
     cs = [] \<or> (\<exists>c sid. cs = [c] \<and> parse_command (re_affordance g) command = Inr c \<and> int_text sim = Inr sid \<and>
       re_sim g sid \<and> re_client g = None)"
  by (auto simp: replay_body_def Let_def split: sum.splits if_splits option.splits prod.splits)

lemma replay_calls:
  assumes "interaction_command g p m = (m1, c # cs, e)"
  shows "cs = [] \<and> host_role m \<and> re_client g = None \<and>
    (\<exists>command sid. py_dict (py_or (pget p ''command'') (VDict [])) = Inr command \<and>
       parse_command (re_affordance g) command = Inr c \<and> int_text (pget p ''sim_id'') = Inr sid \<and> re_sim g sid)"
  using assms
  by (auto simp: interaction_command_def Let_def split: sum.splits if_splits option.splits prod.splits
      dest!: replay_body_calls)

text \<open>Only seven names are replayed.\<close>

definition NATIVE_COMMANDS :: "string list" where
  "NATIVE_COMMANDS = [''interactions.has_choices'', ''interactions.choices'', ''interactions.select'',
     ''interactions.push'', ''interactions.push_targeting_sim_info'', ''interactions.cancel_si'', ''interactions.cancel'']"

lemma parse_command_names:
  "parse_command known command = Inr c \<Longrightarrow> \<exists>n\<in>set NATIVE_COMMANDS. pget command ''name'' = VStr n"
  by (auto simp: parse_command_def Let_def NATIVE_COMMANDS_def split: if_splits)

section \<open>From the client's capture to the host's call\<close>

lemma pget_push_command [simp]:
  "pget (push_command g name aid t pr ctx) ''name'' = VStr name"
  "pget (push_command g name aid t pr ctx) ''affordance_id'' = VStr (int_str aid)"
  "pget (push_command g name aid t pr ctx) ''target'' = VDict (target_dict (pe_text g) t)"
  "pget (push_command g name aid t pr ctx) ''priority'' = wire (pe_text g) (command_value g pr (GStr ''High''))"
  "pget (push_command g name aid t pr ctx) ''interaction_source'' =
     wire (pe_text g) (command_value g ctx (GStr ''SOURCE_PIE_MENU''))"
  by (simp_all add: push_command_def pget_def)

lemma pget_target_dict [simp]:
  "pget (target_dict ft t) ''target_id'' = VStr (tg_id t)"
  "pget (target_dict ft t) ''target_sim_id'' = (case tg_sim t of None \<Rightarrow> VNone | Some s \<Rightarrow> VStr s)"
  by (simp_all add: target_dict_def pget_def)

lemma target_dict_nonempty [simp]: "target_dict ft t \<noteq> []"
  by (simp add: target_dict_def)

lemma int_text_int_str [simp]: "int_text (VStr (int_str i)) = Inr i"
  unfolding int_text_def py_str.simps by (rule py_int_int_str)

lemma push_object_parses:
  assumes "known aid" and "tg_id t \<noteq> []"
  shows "parse_command known (push_command g ''interactions.push'' aid t pr ctx) =
    Inr (PushInteraction aid (tg_id t) (wire (pe_text g) (command_value g pr (GStr ''High'')))
      (wire (pe_text g) (command_value g ctx (GStr ''SOURCE_PIE_MENU''))))"
  using assms by (simp add: parse_command_def Let_def push_args_def py_or_def map_sum_r_def)

lemma push_sim_parses:
  assumes "known aid" and "tg_sim t = Some s" and "s \<noteq> []"
  shows "parse_command known (push_command g ''interactions.push_targeting_sim_info'' aid t pr ctx) =
    Inr (PushTargetingSim aid s (wire (pe_text g) (command_value g pr (GStr ''High'')))
      (wire (pe_text g) (command_value g ctx (GStr ''SOURCE_PIE_MENU''))))"
  using assms by (simp add: parse_command_def Let_def push_args_def py_or_def map_sum_r_def)

lemma classify_object:
  "classify_target rep flt managed tgt context = Inr t \<Longrightarrow> tg_kind t = ''object'' \<Longrightarrow>
     \<exists>i. managed i tgt \<and> coerce_id tgt = Some i \<and> tg_id t = int_str i"
  by (auto simp: classify_target_def Let_def split: sum.splits option.splits if_splits)

lemma classify_sim:
  "classify_target rep flt managed tgt context = Inr t \<Longrightarrow> tg_kind t = ''sim'' \<Longrightarrow>
     tg_id t = ''0'' \<and> (\<exists>i. tg_sim t = Some (int_str i))"
  by (auto simp: classify_target_def Let_def split: sum.splits option.splits if_splits)

lemma command_target_kinds:
  "command_target rep flt managed tgt = Inr (Some t) \<Longrightarrow>
     classify_target rep flt managed tgt GNone = Inr t \<and> tg_kind t \<in> {''object'', ''sim''}"
  by (auto simp: command_target_def split: sum.splits if_splits)

lemma push_sent:
  assumes "capture_push g name (Inr tgt) sim aff pr ctx m = (m1, r)" and "co_forwarded r"
  shows "\<exists>t aid sid. command_target (pe_repr g) (pe_float g) (pe_managed g) tgt = Inr (Some t) \<and>
    coerce_id aff = Some aid \<and> sim_id_of sim = Some sid \<and>
    im_sent m1 = im_sent m @ [(''interaction.command'',
      command_message (''command-'' @ pe_uuid g) (int_str sid) (push_command g name aid t pr ctx))]"
  using assms
  by (auto simp: capture_push_def Let_def fall_back_def fall_back_guarded_def delegated_def
      split: sum.splits option.splits if_splits prod.splits bool.splits dest: im_emit_sent)

text \<open>An interaction pushed at an object on the client is pushed at that object on the host.\<close>

lemma push_object_reaches_host:
  assumes "capture_push g ''interactions.push'' (Inr tgt) sim aff pr ctx m = (m1, r)" and "co_forwarded r"
    and "gattr tgt ''sim_info'' = GNone" and "\<not> gcallable (gattr tgt ''get_sim_instance'')" and "\<And>a. known a"
  shows "\<exists>oid aid sid command. pe_managed g oid tgt \<and> coerce_id tgt = Some oid \<and> coerce_id aff = Some aid \<and>
    sim_id_of sim = Some sid \<and>
    im_sent m1 = im_sent m @ [(''interaction.command'', command_message (''command-'' @ pe_uuid g) (int_str sid) command)] \<and>
    parse_command known command = Inr (PushInteraction aid (int_str oid)
      (wire (pe_text g) (command_value g pr (GStr ''High'')))
      (wire (pe_text g) (command_value g ctx (GStr ''SOURCE_PIE_MENU''))))"
proof -
  obtain t aid sid where t: "command_target (pe_repr g) (pe_float g) (pe_managed g) tgt = Inr (Some t)"
    and ids: "coerce_id aff = Some aid" "sim_id_of sim = Some sid"
    and sent: "im_sent m1 = im_sent m @ [(''interaction.command'', command_message (''command-'' @ pe_uuid g)
      (int_str sid) (push_command g ''interactions.push'' aid t pr ctx))]"
    using push_sent [OF assms(1,2)] by blast
  have c: "classify_target (pe_repr g) (pe_float g) (pe_managed g) tgt GNone = Inr t"
    and k: "tg_kind t \<in> {''object'', ''sim''}"
    using command_target_kinds [OF t] by simp_all
  have "tg_kind t \<noteq> ''sim''"
    using c assms(3,4) by (auto simp: classify_target_def Let_def coerce_id_def split: sum.splits option.splits if_splits)
  then obtain oid where oid: "pe_managed g oid tgt" "coerce_id tgt = Some oid" "tg_id t = int_str oid"
    using k classify_object [OF c] by auto
  have "int_str oid \<noteq> []"
    using int_text_int_str [of oid] by (auto simp: int_text_def parse_int_def py_strip_def)
  then have "parse_command known (push_command g ''interactions.push'' aid t pr ctx) =
    Inr (PushInteraction aid (int_str oid) (wire (pe_text g) (command_value g pr (GStr ''High'')))
      (wire (pe_text g) (command_value g ctx (GStr ''SOURCE_PIE_MENU''))))"
    using push_object_parses [where known = known and aid = aid and t = t and g = g and pr = pr and ctx = ctx]
      assms(5) oid(3) by simp
  then show ?thesis
    using oid ids sent by blast
qed

text \<open>
  At a Sim the same command is replayed on the object with the number 0, because the
  descriptor of a Sim has the text \<^verbatim>\<open>0\<close> for its \<open>target_id\<close>, which counts as present.
\<close>

lemma push_at_sim_hits_zero:
  assumes "command_target rep flt managed tgt = Inr (Some t)" and "tg_kind t = ''sim''" and "known aid"
  shows "\<exists>p q. parse_command known (push_command g ''interactions.push'' aid t pr ctx) = Inr (PushInteraction aid ''0'' p q)"
proof -
  have "tg_id t = ''0''"
    using classify_sim assms(1,2) command_target_kinds by blast
  then show ?thesis
    using push_object_parses [where known = known and aid = aid and t = t and g = g and pr = pr and ctx = ctx] assms(3)
    by simp
qed

section \<open>Requests\<close>

lemma map_of_pick_attrs:
  "distinct names \<Longrightarrow> map_of (pick_attrs names as) n = (if n \<in> set names then map_of as n else None)"
proof (induction names)
  case (Cons a names)
  then show ?case
    by (auto simp: pick_attrs_def List.map_filter_simps split: option.splits)
qed (simp add: pick_attrs_def List.map_filter_simps)

lemma map_of_mapped_values: "map_of (map (\<lambda>kv. (fst kv, f (snd kv))) xs) k = map_option f (map_of xs k)"
  by (induction xs) auto

text \<open>The numbers of a routing surface reach the other process.\<close>

definition surface_object :: "gval \<Rightarrow> int \<Rightarrow> int \<Rightarrow> int \<Rightarrow> bool" where
  "surface_object v a b c \<longleftrightarrow>
     (case v of
        GObj t as \<Rightarrow> map_of as ''value'' = None \<and> map_of as ''primary_id'' = Some (GInt a) \<and>
          map_of as ''secondary_id'' = Some (GInt b) \<and> map_of as ''type'' = Some (GInt c)
      | _ \<Rightarrow> False)"

lemma surface_survives:
  assumes "surface_object v a b c"
  shows "deserialize_surface (wire ft (hook_json rep 0 v)) = SurfaceId a b c"
proof -
  obtain t as where v: "v = GObj t as" and as: "map_of as ''value'' = None"
    "map_of as ''primary_id'' = Some (GInt a)" "map_of as ''secondary_id'' = Some (GInt b)"
    "map_of as ''type'' = Some (GInt c)"
    using assms by (auto simp: surface_object_def split: gval.splits)
  define found where "found = pick_attrs vector_names (map (\<lambda>kv. (fst kv, hook_json rep 1 (snd kv))) as)"
  have m: "map_of found n = (if n \<in> set vector_names then map_option (hook_json rep 1) (map_of as n) else None)" for n
    by (simp add: found_def map_of_pick_attrs map_of_mapped_values vector_names_def)
  then have f: "map_of found ''primary_id'' = Some (GInt a)" "map_of found ''secondary_id'' = Some (GInt b)"
    "map_of found ''type'' = Some (GInt c)"
    using as by (simp_all add: vector_names_def)
  then have "found \<noteq> []"
    by auto
  then have "hook_json rep 0 v = GMap found"
    using as(1) by (simp add: v found_def)
  then show ?thesis
    using f by (simp add: deserialize_surface_def pget_default_def map_of_mapped_values)
qed

text \<open>
  Go Here: the point a player picked on the client is the point the host rebuilds, on the same
  routing surface.
\<close>

lemma point_survives:
  assumes "gattr_opt tgt ''position'' = Some p" and "components flt p 3 = Inr (Some [x, y, z])"
    and "surface_object (gattr tgt ''routing_surface'') a b c" and "tgt \<noteq> GNone"
    and "target_position rep flt tgt = Inr v"
    and "ve_location g [x, y, z] (SurfaceId a b c) = None" and "ve_proxy g [x, y, z] (SurfaceId a b c) = Inr True"
  shows "position_target g (wire ft v) = Inr (PointTarget [x, y, z] (SurfaceId a b c))"
proof -
  obtain q where q: "components flt (gattr tgt ''orientation'') 4 = Inr q"
    using assms by (auto simp: target_position_def serialize_position_target_def serialize_transform_def
        split: sum.splits)
  define d where "d = [(''translation'', GSeq (map GFloat [x, y, z])), (''orientation'', gfloats q),
     (''routing_surface'', hook_json rep 0 (gattr tgt ''routing_surface''))]"
  have "v = GMap d \<or> (\<exists>l. v = GMap (AList.update ''level'' (GInt l) d))"
    using assms q by (auto simp: target_position_def serialize_position_target_def serialize_transform_def
        d_def gfloats_def gget_def is_gmap_def split: sum.splits option.splits if_splits)
  then obtain e where v: "v = GMap e" and e: "map_of e ''translation'' = map_of d ''translation''"
    "map_of e ''routing_surface'' = map_of d ''routing_surface''"
    by (auto simp: update_conv')
  have "pget (map (\<lambda>kv. (fst kv, wire ft (snd kv))) e) ''translation'' = VList [VFloat x (ft x), VFloat y (ft y), VFloat z (ft z)]"
    "pget (map (\<lambda>kv. (fst kv, wire ft (snd kv))) e) ''routing_surface'' =
       wire ft (hook_json rep 0 (gattr tgt ''routing_surface''))"
    using e by (simp_all add: pget_def map_of_mapped_values d_def)
  then show ?thesis
    using assms(6,7) surface_survives [OF assms(3), of ft rep]
    by (simp add: position_target_def v py_or_def rebuild_point_def)
qed

text \<open>A request is pushed exactly when everything it names is there, and at most once.\<close>

lemma request_pushes:
  assumes "interaction_request g p m = (m1, ps, e)"
  shows "(case resolve_interaction g p of Inl x \<Rightarrow> ps = [] | Inr q \<Rightarrow> ps = [q])"
  using assms by (auto simp: interaction_request_def Let_def split: sum.splits prod.splits option.splits resolve_error.splits)

lemma reject_request_answers:
  "ve_up g \<Longrightarrow> bc_open (im_bridge m) \<Longrightarrow>
     reject_request (ve_up g) reason note m = (m1, e) \<Longrightarrow> e = None \<and> im_sent m1 = im_sent m @ [(''interaction.rejected'', note)]"
  by (auto simp: reject_request_def im_emit_def bridge_send_def im_sent_def split: prod.splits sum.splits)

lemma rejections_named [simp]:
  "pget (request_rejection p stage reason) ''request_id'' = VStr (text_id (pget p ''request_id''))"
  "pget (staged_rejection p stage reason) ''request_id'' = VStr (text_id (pget p ''request_id''))"
  "pget (request_rejection p stage reason) ''resolve_stage'' = VStr stage"
  "pget (staged_rejection p stage reason) ''resolve_stage'' = VStr stage"
  by (simp_all add: request_rejection_def staged_rejection_def pget_def)

lemma stat_open [simp]: "im_bridge (stat f m) = im_bridge m"
  by (simp add: stat_def)

text \<open>A request that cannot be resolved is answered under its own id, with the stage that failed.\<close>

definition failed_stage :: "resolve_error \<Rightarrow> string" where
  "failed_stage x = (case x of StageError stage t \<Rightarrow> stage | PlainError e \<Rightarrow> ''resolve_sim'')"

lemma unresolved_answered:
  assumes "resolve_interaction g p = Inl x" and "ve_up g" and "bc_open (im_bridge m)"
    and "interaction_request g p m = (m1, ps, e)"
  shows "e = None \<and> ps = [] \<and> (\<exists>note. im_sent m1 = im_sent m @ [(''interaction.rejected'', note)] \<and>
    pget note ''request_id'' = VStr (text_id (pget p ''request_id'')) \<and>
    pget note ''resolve_stage'' = VStr (failed_stage x))"
proof (cases x)
  case (StageError stage t)
  then show ?thesis
    using assms reject_request_answers [of g "stat ''delivered'' m" "stage @ '':'' @ t"
        "staged_rejection p stage (stage @ '':'' @ t)"]
    by (auto simp: interaction_request_def Let_def failed_stage_def split: prod.splits)
next
  case (PlainError y)
  then show ?thesis
    using assms reject_request_answers [of g "stat ''delivered'' m" "plain_reason ''resolve_sim'' y"
        "request_rejection p ''resolve_sim'' (plain_reason ''resolve_sim'' y)"]
    by (auto simp: interaction_request_def Let_def failed_stage_def split: prod.splits)
qed

text \<open>
  The start of a queued interaction is reported under the request it was queued for, and
  only once.
\<close>

lemma pget_entry [simp]:
  "pget (request_entry rid sid n) ''request_id'' = VStr rid" "pget (request_entry rid sid n) ''name'' = n"
  "pget (request_entry rid sid n) ''sim_id'' = VStr sid" "request_entry rid sid n \<noteq> []"
  by (simp_all add: request_entry_def pget_def)

lemma sent_native [simp]: "im_sent (m\<lparr>im_native := x\<rparr>) = im_sent m"
  by (simp add: im_sent_def)

lemma bridge_same [simp]: "im_bridge (command_stat n f m) = im_bridge m" "im_bridge (command_count f m) = im_bridge m"
  by (simp_all add: command_stat_def command_count_def Let_def)

lemma emit_open:
  "up \<Longrightarrow> bc_open (im_bridge m) \<Longrightarrow> \<exists>m1. im_emit up ty d m = (m1, Inr True) \<and> im_sent m1 = im_sent m @ [(ty, d)] \<and>
     im_native m1 = im_native m"
  by (simp add: im_emit_def bridge_send_def im_sent_def)

lemma started_reported:
  assumes "map_of (im_native m) iid = Some (request_entry rid sid (VStr n))" and "n \<in> set STARTABLE"
    and "up" and "bc_open (im_bridge m)"
  shows "im_sent (start_event up iid m) = im_sent m @ [(''interaction.started'',
      interaction_note iid (VStr rid) (VStr sid) (VStr n) (VStr ''Interaction._trigger_interaction_start_event''))] \<and>
    map_of (im_native (start_event up iid m)) iid = None"
proof -
  define m2 where "m2 = command_stat (VStr n) ''interaction_started''
     (command_count ''interaction_started'' (m\<lparr>im_native := AList.delete iid (im_native m)\<rparr>))"
  have m2: "im_sent m2 = im_sent m" "bc_open (im_bridge m2)" "map_of (im_native m2) iid = None"
    using assms(4) by (simp_all add: m2_def command_stat_def command_count_def Let_def delete_conv' im_sent_def)
  obtain m3 where "im_emit up ''interaction.started'' (interaction_note iid (VStr rid) (VStr sid) (VStr n)
      (VStr ''Interaction._trigger_interaction_start_event'')) m2 = (m3, Inr True)"
    "im_sent m3 = im_sent m2 @ [(''interaction.started'', interaction_note iid (VStr rid) (VStr sid) (VStr n)
      (VStr ''Interaction._trigger_interaction_start_event''))]" "im_native m3 = im_native m2"
    using emit_open [OF assms(3) m2(2)] by blast
  then show ?thesis
    using assms(1,2) m2 by (simp add: start_event_def native_started_def m2_def [symmetric] image_iff Let_def)
qed

section \<open>Virtual clients\<close>

lemma free_id_free: "free_id used i \<notin> set used"
proof (induction used i rule: free_id.induct)
  case (1 used i)
  then show ?case
    by (cases "i \<in> set used") (simp_all add: free_id.simps [of used i])
qed

lemma free_id_first: "i \<le> j \<Longrightarrow> j < free_id used i \<Longrightarrow> j \<in> set used"
proof (induction used i rule: free_id.induct)
  case (1 used i)
  show ?case
  proof (cases "i \<in> set used")
    case True
    then show ?thesis
      using 1 by (cases "j = i") (simp_all add: free_id.simps [of used i])
  next
    case False
    then show ?thesis
      using 1 by (simp add: free_id.simps [of used i])
  qed
qed

text \<open>
  One client per player, numbered apart from each other and from the game's own, all of them
  headless and known to the game's manager.
\<close>

definition pool_ok :: "int list \<Rightarrow> client_pool \<Rightarrow> bool" where
  "pool_ok ids p \<longleftrightarrow> cp_manager p = ids @ map snd (cp_clients p) \<and> cp_headless p = map snd (cp_clients p) \<and>
     distinct (map fst (cp_clients p)) \<and> distinct (map snd (cp_clients p)) \<and>
     set ids \<inter> snd ` set (cp_clients p) = {} \<and> set (map fst (cp_active p)) \<subseteq> snd ` set (cp_clients p)"

lemma pool_ok_new: "pool_ok ids (new_pool ids)"
  by (simp add: pool_ok_def new_pool_def)

lemma pool_ok_activate:
  assumes "pool_ok ids p" and "c \<in> snd ` set (cp_clients p)"
  shows "pool_ok ids (fst (activate_sim f sid c p))"
  using assms by (cases "f sid") (auto simp: activate_sim_def pool_ok_def dom_update)

lemma update_new: "map_of xs k = None \<Longrightarrow> AList.update k v xs = xs @ [(k, v)]"
  by (induction xs) (auto split: if_splits)

lemma pool_ok_remote_client:
  assumes ok: "pool_ok ids p"
  shows "pool_ok ids (fst (remote_client_for digest create act pid sid p))"
proof (cases "map_of (cp_clients p) pid")
  case (Some c)
  then have "c \<in> snd ` set (cp_clients p)"
    by (force dest: map_of_SomeD)
  then show ?thesis
    using Some ok by (simp add: remote_client_for_def pool_ok_activate)
next
  case None
  define c where "c = free_id (cp_manager p) (remote_numeric_id digest ''client'' pid)"
  have c: "c \<notin> set (cp_manager p)"
    by (simp add: c_def free_id_free)
  have "pool_ok ids (p\<lparr>cp_manager := cp_manager p @ [c], cp_clients := AList.update pid c (cp_clients p),
                        cp_headless := cp_headless p @ [c]\<rparr>)"
    using None c ok by (auto simp: pool_ok_def update_new map_of_eq_None_iff)
  then have "pool_ok ids (fst (activate_sim act sid c (p\<lparr>cp_manager := cp_manager p @ [c],
       cp_clients := AList.update pid c (cp_clients p), cp_headless := cp_headless p @ [c]\<rparr>)))"
    by (rule pool_ok_activate) (simp add: update_new [OF None])
  then show ?thesis
    using None ok by (simp add: remote_client_for_def c_def Let_def split: option.split)
qed

text \<open>Asking again for a player gives the client it already has, with the Sim it now controls.\<close>

lemma remote_client_again:
  assumes "remote_client_for digest create act pid sid p = (p1, Inr c)"
  shows "map_of (cp_clients p1) pid = Some c \<and> map_of (cp_active p1) c = Some sid"
  using assms
  by (auto simp: remote_client_for_def activate_sim_def Let_def update_conv' split: option.splits)

lemma filter_not_in_self: "filter (\<lambda>c. c \<notin> set xs) xs = []"
  by (simp add: filter_empty_conv)

text \<open>After the teardown the game's manager holds its own clients again.\<close>

lemma teardown_restores:
  assumes "pool_ok ids p"
  shows "teardown_clients p = new_pool ids"
proof -
  have "filter (\<lambda>c. c \<notin> snd ` set (cp_clients p)) ids = ids"
    using assms by (auto simp: pool_ok_def filter_id_conv)
  moreover have "filter (\<lambda>c. c \<notin> snd ` set (cp_clients p)) (map snd (cp_clients p)) = []"
    using filter_not_in_self [of "map snd (cp_clients p)"] by simp
  ultimately show ?thesis
    using assms by (simp add: teardown_clients_def new_pool_def pool_ok_def)
qed

end
