(* ===== verification/Protocol.thy ===== *)
theory Protocol
  imports KerMP_Prelude
begin

text \<open>
  \<^verbatim>\<open>src/kermp/protocol.py\<close> and the version constants of
  \<^verbatim>\<open>src/kermp/__init__.py\<close>: the message types with the names they have on the
  wire, the envelope, and its line format. The JSON codec is the parameter \<open>dumps\<close> /
  \<open>loads\<close> (a line to its value, or the \<open>ValueError\<close> of a line that does not decode).
  Fields of another type than the one \<open>Envelope\<close> declares are outside the model.
\<close>

section \<open>Constants\<close>

definition KERMP_VERSION :: string where "KERMP_VERSION = ''0.1.0''"
definition PROTOCOL_VERSION :: int where "PROTOCOL_VERSION = 2"
definition SIMS_MOD_PROTOCOL_VERSION :: int where "SIMS_MOD_PROTOCOL_VERSION = 2"
definition NATIVE_API_VERSION :: int where "NATIVE_API_VERSION = 1"

definition MAX_GAME_MESSAGE_BYTES :: nat where "MAX_GAME_MESSAGE_BYTES = 2 * 1024 * 1024"
definition MAX_SAVE_CHUNK_BYTES :: nat where "MAX_SAVE_CHUNK_BYTES = 256 * 1024"
definition MAX_NATIVE_MESSAGE_BYTES :: nat where "MAX_NATIVE_MESSAGE_BYTES = 512 * 1024"
definition MAX_ENVELOPE_BYTES :: nat where "MAX_ENVELOPE_BYTES = MAX_GAME_MESSAGE_BYTES * 2"

section \<open>Message types\<close>

datatype (plugins only: code) message_type =
    MT_HELLO | MT_WELCOME | MT_ERROR | MT_PING
  | MT_PONG | MT_ACK | MT_COMPATIBILITY | MT_READINESS
  | MT_SAVE_MANIFEST | MT_SAVE_BEGIN | MT_SAVE_CHUNK | MT_SAVE_END
  | MT_SAVE_ACK | MT_SAVE_ERROR | MT_CLOCK_STATE | MT_CLOCK_REQUEST_SPEED
  | MT_CLOCK_REQUEST_PAUSE | MT_CLOCK_RESYNC | MT_COMMAND_REQUEST | MT_COMMAND_ACCEPTED
  | MT_COMMAND_REJECTED | MT_COMMAND_RESULT | MT_DIALOG_OPEN | MT_DIALOG_RESPONSE
  | MT_DIALOG_CANCEL | MT_TRAVEL_REQUEST | MT_TRAVEL_PROPOSE | MT_TRAVEL_READY
  | MT_TRAVEL_COMMIT | MT_TRAVEL_ZONE_READY | MT_TRAVEL_RESUME | MT_TRAVEL_ABORT
  | MT_TRAVEL_VIEW_BATCH | MT_BUILD_LOCK_REQUEST | MT_BUILD_LOCK_STATE | MT_BUILD_OPERATION
  | MT_BUILD_APPLY | MT_BUILD_LOCK_RELEASE | MT_BUILD_NATIVE_REQUEST | MT_BUILD_NATIVE_RESULT
  | MT_BUILD_NATIVE_REJECT | MT_SNAPSHOT_REQUEST | MT_SNAPSHOT | MT_SIM_SELECT
  | MT_SIM_SELECTION_STATE | MT_SIM_STATE | MT_INTERACTION_REQUEST | MT_INTERACTION_ACCEPTED
  | MT_INTERACTION_REJECTED | MT_INTERACTION_QUEUED | MT_INTERACTION_STARTED | MT_INTERACTION_FINISHED
  | MT_INTERACTION_CANCEL | MT_INTERACTION_COMMAND | MT_INTERACTION_COMMAND_ACCEPTED | MT_INTERACTION_COMMAND_REJECTED
  | MT_GAME_RAW_MESSAGE

primrec mt_value :: "message_type \<Rightarrow> string" where
  "mt_value MT_HELLO = ''hello''"
| "mt_value MT_WELCOME = ''welcome''"
| "mt_value MT_ERROR = ''error''"
| "mt_value MT_PING = ''ping''"
| "mt_value MT_PONG = ''pong''"
| "mt_value MT_ACK = ''ack''"
| "mt_value MT_COMPATIBILITY = ''compatibility''"
| "mt_value MT_READINESS = ''readiness''"
| "mt_value MT_SAVE_MANIFEST = ''save.manifest''"
| "mt_value MT_SAVE_BEGIN = ''save.begin''"
| "mt_value MT_SAVE_CHUNK = ''save.chunk''"
| "mt_value MT_SAVE_END = ''save.end''"
| "mt_value MT_SAVE_ACK = ''save.ack''"
| "mt_value MT_SAVE_ERROR = ''save.error''"
| "mt_value MT_CLOCK_STATE = ''clock.state''"
| "mt_value MT_CLOCK_REQUEST_SPEED = ''clock.request_speed''"
| "mt_value MT_CLOCK_REQUEST_PAUSE = ''clock.request_pause''"
| "mt_value MT_CLOCK_RESYNC = ''clock.resync''"
| "mt_value MT_COMMAND_REQUEST = ''command.request''"
| "mt_value MT_COMMAND_ACCEPTED = ''command.accepted''"
| "mt_value MT_COMMAND_REJECTED = ''command.rejected''"
| "mt_value MT_COMMAND_RESULT = ''command.result''"
| "mt_value MT_DIALOG_OPEN = ''dialog.open''"
| "mt_value MT_DIALOG_RESPONSE = ''dialog.response''"
| "mt_value MT_DIALOG_CANCEL = ''dialog.cancel''"
| "mt_value MT_TRAVEL_REQUEST = ''travel.request''"
| "mt_value MT_TRAVEL_PROPOSE = ''travel.propose''"
| "mt_value MT_TRAVEL_READY = ''travel.ready''"
| "mt_value MT_TRAVEL_COMMIT = ''travel.commit''"
| "mt_value MT_TRAVEL_ZONE_READY = ''travel.zone_ready''"
| "mt_value MT_TRAVEL_RESUME = ''travel.resume''"
| "mt_value MT_TRAVEL_ABORT = ''travel.abort''"
| "mt_value MT_TRAVEL_VIEW_BATCH = ''travel.view_batch''"
| "mt_value MT_BUILD_LOCK_REQUEST = ''build.lock_request''"
| "mt_value MT_BUILD_LOCK_STATE = ''build.lock_state''"
| "mt_value MT_BUILD_OPERATION = ''build.operation''"
| "mt_value MT_BUILD_APPLY = ''build.apply''"
| "mt_value MT_BUILD_LOCK_RELEASE = ''build.lock_release''"
| "mt_value MT_BUILD_NATIVE_REQUEST = ''build.native.request''"
| "mt_value MT_BUILD_NATIVE_RESULT = ''build.native.result''"
| "mt_value MT_BUILD_NATIVE_REJECT = ''build.native.reject''"
| "mt_value MT_SNAPSHOT_REQUEST = ''snapshot.request''"
| "mt_value MT_SNAPSHOT = ''snapshot''"
| "mt_value MT_SIM_SELECT = ''sim.select''"
| "mt_value MT_SIM_SELECTION_STATE = ''sim.selection_state''"
| "mt_value MT_SIM_STATE = ''sim.state''"
| "mt_value MT_INTERACTION_REQUEST = ''interaction.request''"
| "mt_value MT_INTERACTION_ACCEPTED = ''interaction.accepted''"
| "mt_value MT_INTERACTION_REJECTED = ''interaction.rejected''"
| "mt_value MT_INTERACTION_QUEUED = ''interaction.queued''"
| "mt_value MT_INTERACTION_STARTED = ''interaction.started''"
| "mt_value MT_INTERACTION_FINISHED = ''interaction.finished''"
| "mt_value MT_INTERACTION_CANCEL = ''interaction.cancel''"
| "mt_value MT_INTERACTION_COMMAND = ''interaction.command''"
| "mt_value MT_INTERACTION_COMMAND_ACCEPTED = ''interaction.command_accepted''"
| "mt_value MT_INTERACTION_COMMAND_REJECTED = ''interaction.command_rejected''"
| "mt_value MT_GAME_RAW_MESSAGE = ''game.raw_message''"

definition all_message_types :: "message_type list" where
  "all_message_types =
    [MT_HELLO, MT_WELCOME, MT_ERROR, MT_PING,
     MT_PONG, MT_ACK, MT_COMPATIBILITY, MT_READINESS,
     MT_SAVE_MANIFEST, MT_SAVE_BEGIN, MT_SAVE_CHUNK, MT_SAVE_END,
     MT_SAVE_ACK, MT_SAVE_ERROR, MT_CLOCK_STATE, MT_CLOCK_REQUEST_SPEED,
     MT_CLOCK_REQUEST_PAUSE, MT_CLOCK_RESYNC, MT_COMMAND_REQUEST, MT_COMMAND_ACCEPTED,
     MT_COMMAND_REJECTED, MT_COMMAND_RESULT, MT_DIALOG_OPEN, MT_DIALOG_RESPONSE,
     MT_DIALOG_CANCEL, MT_TRAVEL_REQUEST, MT_TRAVEL_PROPOSE, MT_TRAVEL_READY,
     MT_TRAVEL_COMMIT, MT_TRAVEL_ZONE_READY, MT_TRAVEL_RESUME, MT_TRAVEL_ABORT,
     MT_TRAVEL_VIEW_BATCH, MT_BUILD_LOCK_REQUEST, MT_BUILD_LOCK_STATE, MT_BUILD_OPERATION,
     MT_BUILD_APPLY, MT_BUILD_LOCK_RELEASE, MT_BUILD_NATIVE_REQUEST, MT_BUILD_NATIVE_RESULT,
     MT_BUILD_NATIVE_REJECT, MT_SNAPSHOT_REQUEST, MT_SNAPSHOT, MT_SIM_SELECT,
     MT_SIM_SELECTION_STATE, MT_SIM_STATE, MT_INTERACTION_REQUEST, MT_INTERACTION_ACCEPTED,
     MT_INTERACTION_REJECTED, MT_INTERACTION_QUEUED, MT_INTERACTION_STARTED, MT_INTERACTION_FINISHED,
     MT_INTERACTION_CANCEL, MT_INTERACTION_COMMAND, MT_INTERACTION_COMMAND_ACCEPTED, MT_INTERACTION_COMMAND_REJECTED,
     MT_GAME_RAW_MESSAGE]"

text \<open>
  The code compares \<open>env.type\<close> with one \<open>MessageType\<close> value after the other.
  \<open>mt_of\<close> finds the type a text names; \<open>mt_of_iff\<close> makes the two readings the same.
\<close>

definition mt_of :: "string \<Rightarrow> message_type option" where
  "mt_of s = map_of (map (\<lambda>m. (mt_value m, m)) all_message_types) s"

lemma distinct_values: "distinct (map mt_value all_message_types)"
  by code_simp

lemma mt_of_value [simp]: "mt_of (mt_value m) = Some m"
proof -
  have "m \<in> set all_message_types" by (cases m) (simp_all add: all_message_types_def)
  then have "(mt_value m, m) \<in> set (map (\<lambda>m. (mt_value m, m)) all_message_types)" by auto
  moreover have "distinct (map fst (map (\<lambda>m. (mt_value m, m)) all_message_types))"
    using distinct_values by (simp add: comp_def)
  ultimately show ?thesis unfolding mt_of_def by (rule map_of_is_SomeI [rotated])
qed

lemma mt_value_inj [simp]: "mt_value m = mt_value n \<longleftrightarrow> m = n"
  by (metis mt_of_value option.inject)

lemma mt_of_iff: "mt_of s = Some m \<longleftrightarrow> s = mt_value m"
proof
  assume "mt_of s = Some m"
  then have "(s, m) \<in> set (map (\<lambda>m. (mt_value m, m)) all_message_types)"
    unfolding mt_of_def by (rule map_of_SomeD)
  then show "s = mt_value m" by auto
qed simp

declare mt_value.simps [simp del]

section \<open>The envelope\<close>

record envelope =
  e_type :: string
  e_payload :: pydict
  e_sender :: string
  e_message_id :: string
  e_sent_at :: pyval
  e_seq :: "int option"
  e_version :: int

text \<open>\<open>Envelope.make\<close>; the fresh uuid and the clock reading are arguments.\<close>

definition make_envelope ::
  "string \<Rightarrow> pydict \<Rightarrow> string \<Rightarrow> int option \<Rightarrow> string \<Rightarrow> pyval \<Rightarrow> envelope" where
  "make_envelope ty payload sender seq uuid now =
     \<lparr>e_type = ty, e_payload = payload, e_sender = sender, e_message_id = uuid,
      e_sent_at = now, e_seq = seq, e_version = PROTOCOL_VERSION\<rparr>"

definition seq_val :: "int option \<Rightarrow> pyval" where
  "seq_val q = (case q of None \<Rightarrow> VNone | Some i \<Rightarrow> VInt i)"

text \<open>\<open>asdict(self)\<close>, then the line.\<close>

definition envelope_dict :: "envelope \<Rightarrow> pydict" where
  "envelope_dict e =
     [(''type'', VStr (e_type e)), (''payload'', VDict (e_payload e)),
      (''sender_id'', VStr (e_sender e)), (''message_id'', VStr (e_message_id e)),
      (''sent_at'', e_sent_at e), (''seq'', seq_val (e_seq e)),
      (''protocol_version'', VInt (e_version e))]"

definition to_line :: "(pyval \<Rightarrow> string) \<Rightarrow> envelope \<Rightarrow> string" where
  "to_line dumps e = dumps (VDict (envelope_dict e)) @ [char_of (10::nat)]"

definition required_fields :: "string list" where
  "required_fields =
     [''type'', ''payload'', ''sender_id'', ''message_id'', ''sent_at'', ''protocol_version'']"

definition envelope_fields :: "string list" where
  "envelope_fields =
     [''type'', ''payload'', ''sender_id'', ''message_id'', ''sent_at'', ''seq'', ''protocol_version'']"

text \<open>\<open>cls(**raw)\<close>: an unknown key is a \<open>TypeError\<close>; a missing \<open>seq\<close> is \<open>None\<close>.\<close>

fun text_field :: "pyval \<Rightarrow> string option" where
  "text_field (VStr s) = Some s"
| "text_field _ = None"

fun dict_field :: "pyval \<Rightarrow> pydict option" where
  "dict_field (VDict d) = Some d"
| "dict_field _ = None"

fun int_field :: "pyval \<Rightarrow> int option" where
  "int_field (VInt i) = Some i"
| "int_field _ = None"

fun seq_field :: "pyval \<Rightarrow> int option option" where
  "seq_field VNone = Some None"
| "seq_field (VInt i) = Some (Some i)"
| "seq_field _ = None"

definition typed_envelope :: "pydict \<Rightarrow> envelope option" where
  "typed_envelope raw =
     Option.bind (text_field (pget raw ''type'')) (\<lambda>ty.
     Option.bind (dict_field (pget raw ''payload'')) (\<lambda>p.
     Option.bind (text_field (pget raw ''sender_id'')) (\<lambda>sd.
     Option.bind (text_field (pget raw ''message_id'')) (\<lambda>mid.
     Option.bind (seq_field (pget raw ''seq'')) (\<lambda>q.
     Option.bind (int_field (pget raw ''protocol_version'')) (\<lambda>v.
       Some \<lparr>e_type = ty, e_payload = p, e_sender = sd, e_message_id = mid,
             e_sent_at = pget raw ''sent_at'', e_seq = q, e_version = v\<rparr>))))))"

definition envelope_of :: "pydict \<Rightarrow> py_error + envelope" where
  "envelope_of raw =
     (case filter (\<lambda>k. k \<notin> set envelope_fields) (map fst raw) of
        k # _ \<Rightarrow> Inl (TypeError (''Envelope.__init__() got an unexpected keyword argument '' @ repr_str k))
      | [] \<Rightarrow> (case typed_envelope raw of
                Some e \<Rightarrow> Inr e
              | None \<Rightarrow> Inl (Unmodelled ''envelope field of another type than declared'')))"

definition from_line :: "(string \<Rightarrow> py_error + pyval) \<Rightarrow> string \<Rightarrow> py_error + envelope" where
  "from_line loads line =
     (if MAX_ENVELOPE_BYTES < length line then Inl (ValueError ''envelope_too_large'')
      else case loads line of
        Inl e \<Rightarrow> Inl e
      | Inr v \<Rightarrow>
        (case as_mapping v of
          Inl e \<Rightarrow> Inl e
        | Inr raw \<Rightarrow>
          (if \<not> py_eq (pget raw ''protocol_version'') (VInt PROTOCOL_VERSION)
           then Inl (ValueError (''protocol mismatch: '' @ py_str (pget raw ''protocol_version'') @
                  '' != '' @ int_str PROTOCOL_VERSION))
           else if \<not> set required_fields \<subseteq> dict_keys raw then Inl (ValueError ''malformed envelope'')
           else envelope_of raw)))"

section \<open>Properties\<close>

lemma pget_simps [simp]:
  "pget [] k = VNone" "pget ((j, v) # d) k = (if j = k then v else pget d k)"
  by (auto simp: pget_def)

lemma envelope_of_dict:
  "envelope_of (envelope_dict e) = Inr e"
  by (cases "e_seq e")
    (simp_all add: envelope_of_def typed_envelope_def envelope_dict_def envelope_fields_def seq_val_def)

text \<open>C-protocol: a line written by \<open>to_line\<close> reads back as the envelope it was made from.\<close>

lemma from_line_to_line:
  assumes codec: "loads (to_line dumps e) = Inr (VDict (envelope_dict e))"
    and size: "length (to_line dumps e) \<le> MAX_ENVELOPE_BYTES"
    and version: "e_version e = PROTOCOL_VERSION"
  shows "from_line loads (to_line dumps e) = Inr e"
proof -
  have "set required_fields \<subseteq> dict_keys (envelope_dict e)"
    by (simp add: required_fields_def envelope_dict_def)
  moreover have "py_eq (pget (envelope_dict e) ''protocol_version'') (VInt PROTOCOL_VERSION)"
    by (simp add: envelope_dict_def version)
  ultimately show ?thesis
    using size by (simp add: from_line_def codec envelope_of_dict)
qed

lemma from_line_version:
  "from_line loads line = Inr e \<Longrightarrow> e_version e = PROTOCOL_VERSION"
  by (auto simp: from_line_def envelope_of_def typed_envelope_def py_eq_def bind_eq_Some_conv
      split: if_splits sum.splits list.splits option.splits elim: int_field.elims)

end
