(* ===== verification/Base64.thy ===== *)
theory Base64
  imports KerMP_Prelude "HOL-Library.Word"
begin

text \<open>
  The base64 text of \<open>payload_b64\<close> fields: \<open>b64encode\<close> and
  \<open>b64decode(text, validate=True)\<close> as \<^verbatim>\<open>src/kermp/net.py\<close>,
  \<^verbatim>\<open>src/kermp/runtime.py\<close> and the sims mod use them. A byte is an \<open>8 word\<close>.
  Text outside the alphabet or without complete padding is rejected; bits the padding
  discards are not checked. Every rejection is a \<open>binascii.Error\<close>, a \<open>ValueError\<close>
  whose wording is not told apart.
\<close>

type_synonym byte = "8 word"

definition b64_alphabet :: string where
  "b64_alphabet = ''ABCDEFGHIJKLMNOPQRSTUVWXYZabcdefghijklmnopqrstuvwxyz0123456789+/''"

definition b64_char :: "nat \<Rightarrow> char" where
  "b64_char n = b64_alphabet ! (n mod 64)"

definition b64_val :: "char \<Rightarrow> nat option" where
  "b64_val c = map_of (zip b64_alphabet [0..<64]) c"

definition group_value :: "byte \<Rightarrow> byte \<Rightarrow> byte \<Rightarrow> nat" where
  "group_value a b c = unat a * 65536 + unat b * 256 + unat c"

definition digits :: "nat \<Rightarrow> nat \<Rightarrow> string" where
  "digits k n = take k [b64_char (n div 262144), b64_char (n div 4096), b64_char (n div 64), b64_char n]"

fun b64encode :: "byte list \<Rightarrow> string" where
  "b64encode [] = []"
| "b64encode [a] = digits 2 (group_value a 0 0) @ ''==''"
| "b64encode [a, b] = digits 3 (group_value a b 0) @ ''=''"
| "b64encode (a # b # c # bs) = digits 4 (group_value a b c) @ b64encode bs"

definition bytes_of :: "nat \<Rightarrow> nat \<Rightarrow> byte list" where
  "bytes_of k n = take k [word_of_nat (n div 65536), word_of_nat (n div 256), word_of_nat n]"

definition quad :: "char \<Rightarrow> char \<Rightarrow> char \<Rightarrow> char \<Rightarrow> nat option" where
  "quad p q r s =
     Option.bind (b64_val p) (\<lambda>w. Option.bind (b64_val q) (\<lambda>x.
     Option.bind (b64_val r) (\<lambda>y. Option.bind (b64_val s) (\<lambda>z.
       Some (w * 262144 + x * 4096 + y * 64 + z)))))"

definition pad :: char where "pad = CHR ''=''"

fun b64decode :: "string \<Rightarrow> byte list option" where
  "b64decode [] = Some []"
| "b64decode (p # q # r # s # cs) =
     (if s = pad
      then if cs \<noteq> [] then None
           else if r = pad then map_option (bytes_of 1) (quad p q (CHR ''A'') (CHR ''A''))
           else map_option (bytes_of 2) (quad p q r (CHR ''A''))
      else case quad p q r s of
             None \<Rightarrow> None
           | Some n \<Rightarrow> map_option (\<lambda>bs. bytes_of 3 n @ bs) (b64decode cs))"
| "b64decode _ = None"

definition decode_error :: py_error where
  "decode_error = ValueError ''invalid base64 data''"

section \<open>Round trip\<close>

lemma alphabet_table:
  "list_all (\<lambda>n. b64_val (b64_char n) = Some n \<and> b64_char n \<noteq> pad) [0..<64]"
  by code_simp

lemma b64_val_char [simp]: "b64_val (b64_char n) = Some (n mod 64)"
proof -
  have "b64_val (b64_char (n mod 64)) = Some (n mod 64)"
    using alphabet_table by (simp add: list_all_iff)
  then show ?thesis by (simp add: b64_char_def)
qed

lemma b64_char_not_pad [simp]: "b64_char n \<noteq> pad"
proof -
  have "b64_char (n mod 64) \<noteq> pad" using alphabet_table by (simp add: list_all_iff)
  then show ?thesis by (simp add: b64_char_def)
qed

lemma val_A [simp]: "b64_val (CHR ''A'') = Some 0"
  by code_simp

lemma digits_value:
  assumes "n < 16777216"
  shows "(n div 262144) mod 64 * 262144 + (n div 4096) mod 64 * 4096 + (n div 64) mod 64 * 64 + n mod 64 = (n::nat)"
proof -
  define q1 where "q1 = n div 64"
  define q2 where "q2 = q1 div 64"
  define q3 where "q3 = q2 div 64"
  have d: "n div 4096 = q2" "n div 262144 = q3"
    by (simp_all add: q1_def q2_def q3_def div_mult2_eq [symmetric])
  have "n = q1 * 64 + n mod 64" "q1 = q2 * 64 + q1 mod 64" "q2 = q3 * 64 + q2 mod 64"
    unfolding q1_def q2_def q3_def by (simp_all add: div_mult_mod_eq)
  moreover have "q3 mod 64 = q3" using assms unfolding d(2) [symmetric] by simp
  ultimately show ?thesis unfolding d q1_def [symmetric] by linarith
qed

lemma unat_lt [simp]: "unat (a::byte) < 256"
proof -
  have "unat a < 2 ^ LENGTH(8)" by (rule unsigned_less)
  then show ?thesis by simp
qed

lemma group_lt: "group_value a b c < 16777216"
  using unat_lt [of a] unat_lt [of b] unat_lt [of c] unfolding group_value_def by linarith

lemma bytes_group:
  "word_of_nat (group_value a b c div 65536) = a" "word_of_nat (group_value a b c div 256) = b"
  "word_of_nat (group_value a b c) = c"
proof -
  have "group_value a b c div 65536 = unat a"
  proof -
    define x where "x = unat b * 256 + unat c"
    have "x < 65536" using unat_lt [of b] unat_lt [of c] unfolding x_def by linarith
    moreover have "group_value a b c = x + unat a * 65536" by (simp add: group_value_def x_def)
    ultimately show ?thesis by simp
  qed
  then show "word_of_nat (group_value a b c div 65536) = a" by simp
  have eq: "group_value a b c = unat c + 256 * (unat a * 256 + unat b)" by (simp add: group_value_def)
  have "group_value a b c div 256 = unat a * 256 + unat b"
    unfolding eq by (subst div_mult_self2) simp_all
  then have "word_of_nat (group_value a b c div 256) = a * (256::byte) + b" by simp
  moreover have z: "(256::byte) = 0" by simp
  ultimately show "word_of_nat (group_value a b c div 256) = b" by (simp only: z mult_zero_right add_0)
  have "word_of_nat (group_value a b c) = c + (256::byte) * (a * 256 + b)" unfolding eq by simp
  then show "word_of_nat (group_value a b c) = c" by (simp only: z mult_zero_left add_0_right)
qed

lemma quad_digits:
  assumes "n < 16777216"
  shows "quad (b64_char (n div 262144)) (b64_char (n div 4096)) (b64_char (n div 64)) (b64_char n) = Some n"
  by (simp only: quad_def b64_val_char Option.bind.bind_lunit digits_value [OF assms])

lemma char_zero: "b64_char 0 = CHR ''A''"
  by code_simp

lemma b64_roundtrip [simp]: "b64decode (b64encode bs) = Some bs"
proof (induction bs rule: b64encode.induct)
  case (2 a)
  let ?n = "group_value a 0 0"
  have "?n = 64 * (64 * (unat a * 16))" by (simp add: group_value_def)
  then have "?n div 64 mod 64 = 0" "?n mod 64 = 0" by (simp_all only: nonzero_mult_div_cancel_left mod_mult_self1_is_0)
  then have "b64_char (?n div 64) = CHR ''A''" "b64_char ?n = CHR ''A''"
    using char_zero by (simp_all add: b64_char_def)
  then have "quad (b64_char (?n div 262144)) (b64_char (?n div 4096)) (CHR ''A'') (CHR ''A'') = Some ?n"
    using quad_digits [OF group_lt, of a 0 0] by simp
  then show ?case by (simp add: digits_def pad_def bytes_of_def bytes_group numeral_2_eq_2)
next
  case (3 a b)
  let ?n = "group_value a b 0"
  have "?n = 64 * (unat a * 1024 + unat b * 4)" by (simp add: group_value_def)
  then have "?n mod 64 = 0" by (simp only: mod_mult_self1_is_0)
  then have "b64_char ?n = CHR ''A''"
    using char_zero by (simp add: b64_char_def)
  then have "quad (b64_char (?n div 262144)) (b64_char (?n div 4096)) (b64_char (?n div 64)) (CHR ''A'') = Some ?n"
    using quad_digits [OF group_lt, of a b 0] by simp
  then show ?case
    using b64_char_not_pad by (simp add: digits_def pad_def bytes_of_def bytes_group numeral_3_eq_3 numeral_2_eq_2)
next
  case (4 a b c bs)
  then show ?case
    by (simp add: digits_def quad_digits group_lt bytes_of_def bytes_group)
qed simp

lemma b64encode_inj: "b64encode a = b64encode b \<longleftrightarrow> a = b"
  by (metis b64_roundtrip option.inject)

end
