(* ===== verification/Mod_Travel.thy ===== *)
theory Mod_Travel
  imports Bridge Protocol Base64 KerMP_Interfaces
begin

text \<open>
  \<^verbatim>\<open>src/sims_mod_src/kermp_mod/hooks.py\<close>: the state the mod keeps between bridge events, its
  part in a travel (\<open>_travel_prepare\<close> ... \<open>_after_zone_spin_up\<close>), the delivery of the host's
  raw game messages, the selected Sims and the report of its authority. Module globals are
  the fields of one record; what the game answers during a handler is a record of
  parameters. A handler returns the state and the exception that escapes it.
\<close>

section \<open>State\<close>

record sim_status =
  ss_role :: pyval
  ss_available :: bool
  ss_installed :: bool
  ss_local :: bool
  ss_clock :: string
  ss_bypass :: bool
  ss_lifecycle :: "bool option"
  ss_error :: "string option"

record game_mod =
  gm_bridge :: bridge_client
  gm_role :: pyval
  gm_player :: pyval
  gm_status :: sim_status
  gm_bypass :: bool
  gm_guarded :: bool
  gm_txn :: pyval
  gm_epoch :: int
  gm_buffering :: bool
  gm_buffer :: "pydict list"
  gm_batch_complete :: bool
  gm_zone_reported :: bool
  gm_local_loaded :: bool
  gm_selected :: "string option"
  gm_restored :: bool
  gm_travel_error :: "string option"
  gm_received :: int
  gm_delivered :: "(int \<times> byte list) list"
  gm_sim :: pyval
  gm_controllers :: "(string \<times> pyval list) list"
  gm_last_published :: "string option"
  gm_local_sim :: "string option"

text \<open>
  Whether the socket takes a write; the active Sim; the current zone (\<open>None\<close>: the service
  raises); the roster; whether the selection can be restored; what the native travel command
  raises; whether the client and a send function are there, and what the send raises; why the Timeline
  wrapper cannot be installed, if so; whether the game is in a lifecycle transition.
\<close>

record game_env =
  ge_up :: bool
  ge_active :: "string option"
  ge_zone :: "int option"
  ge_sims :: "(string \<times> string) list"
  ge_restores :: bool
  ge_travel :: "py_error option"
  ge_client :: bool
  ge_send :: "py_error option"
  ge_timeline :: "string option"
  ge_lifecycle :: bool

definition new_mod :: game_mod where
  "new_mod = \<lparr>gm_bridge = new_bridge_client, gm_role = VNone, gm_player = VNone,
     gm_status = \<lparr>ss_role = VStr ''unknown'', ss_available = False, ss_installed = False, ss_local = True,
       ss_clock = ''local'', ss_bypass = False, ss_lifecycle = None, ss_error = Some ''sidecar_not_connected''\<rparr>,
     gm_bypass = False, gm_guarded = False, gm_txn = VNone, gm_epoch = 0, gm_buffering = False, gm_buffer = [],
     gm_batch_complete = False, gm_zone_reported = False, gm_local_loaded = False, gm_selected = None,
     gm_restored = False, gm_travel_error = None, gm_received = 0, gm_delivered = [], gm_sim = VNone,
     gm_controllers = [], gm_last_published = None, gm_local_sim = None\<rparr>"

definition MAX_TRAVEL_BUFFER :: nat where
  "MAX_TRAVEL_BUFFER = 256"

definition MAX_RAW_BYTES :: nat where
  "MAX_RAW_BYTES = 2 * 1024 * 1024"

abbreviation is_client :: "game_mod \<Rightarrow> bool" where
  "is_client m \<equiv> gm_role m = VStr ''client''"

type_synonym mres = "game_mod \<times> py_error option"

definition then_do :: "mres \<Rightarrow> (game_mod \<Rightarrow> mres) \<Rightarrow> mres" where
  "then_do r f = (case r of (m, Some e) \<Rightarrow> (m, Some e) | (m, None) \<Rightarrow> f m)"

definition mod_emit :: "game_env \<Rightarrow> string \<Rightarrow> pydict \<Rightarrow> game_mod \<Rightarrow> mres" where
  "mod_emit g ty d m =
     (case bridge_send (ge_up g) ty d (gm_bridge m) of
        (b, Inl e) \<Rightarrow> (m\<lparr>gm_bridge := b\<rparr>, Some e)
      | (b, Inr sent) \<Rightarrow> (m\<lparr>gm_bridge := b\<rparr>, None))"

definition opt_str :: "string option \<Rightarrow> pyval" where
  "opt_str s = (case s of None \<Rightarrow> VNone | Some x \<Rightarrow> VStr x)"

definition set_bypass :: "bool \<Rightarrow> game_mod \<Rightarrow> game_mod" where
  "set_bypass b m = m\<lparr>gm_bypass := b, gm_status := (gm_status m)\<lparr>ss_bypass := b\<rparr>\<rparr>"

section \<open>Raw game messages\<close>

definition begin_travel_buffer :: "int \<Rightarrow> game_mod \<Rightarrow> game_mod" where
  "begin_travel_buffer epoch m = m\<lparr>gm_epoch := epoch, gm_buffering := True, gm_buffer := []\<rparr>"

text \<open>\<open>_apply_raw_game_message\<close>: every exception inside is logged and means not applied.\<close>

definition apply_raw :: "game_env \<Rightarrow> pydict \<Rightarrow> game_mod \<Rightarrow> game_mod \<times> bool" where
  "apply_raw g d m =
     (if \<not> is_client m then (m, False)
      else case b64decode (py_str (pget_default d ''payload_b64'' (VStr []))) of
        None \<Rightarrow> (m, False)
      | Some raw \<Rightarrow>
         if MAX_RAW_BYTES < length raw \<or> \<not> ge_client g then (m, False)
         else case map_of d ''msg_id'' of
           None \<Rightarrow> (m, False)
         | Some v \<Rightarrow>
            (case py_int v of
               Inl e \<Rightarrow> (m, False)
             | Inr i \<Rightarrow>
                if ge_send g \<noteq> None then (m, False)
                else (m\<lparr>gm_delivered := gm_delivered m @ [(i, raw)]\<rparr>, True)))"

definition count_applied :: "game_mod \<times> bool \<Rightarrow> game_mod" where
  "count_applied r = (if snd r then (fst r)\<lparr>gm_received := gm_received (fst r) + 1\<rparr> else fst r)"

definition receive_raw :: "game_env \<Rightarrow> pydict \<Rightarrow> game_mod \<Rightarrow> mres" where
  "receive_raw g d m =
     (if gm_buffering m
      then (if MAX_TRAVEL_BUFFER \<le> length (gm_buffer m) then (m, None)
            else case py_int (pget_default d ''epoch'' (VInt (gm_epoch m))) of
              Inl e \<Rightarrow> (m, Some e)
            | Inr ep \<Rightarrow>
                if ep \<noteq> gm_epoch m then (m, None)
                else (m\<lparr>gm_buffer := gm_buffer m @ [d]\<rparr>, None))
      else (count_applied (apply_raw g d m), None))"

definition raw_game_message :: "game_env \<Rightarrow> pydict \<Rightarrow> game_mod \<Rightarrow> mres" where
  "raw_game_message g d m = (if is_client m then receive_raw g d m else (m, None))"

definition flush_travel_buffer :: "game_env \<Rightarrow> game_mod \<Rightarrow> game_mod" where
  "flush_travel_buffer g m =
     fold (\<lambda>d m. count_applied (apply_raw g d m)) (gm_buffer m) (m\<lparr>gm_buffer := [], gm_buffering := False\<rparr>)"

section \<open>The local roster\<close>

definition sim_entry :: "string \<times> string \<Rightarrow> pyval" where
  "sim_entry s = VDict [(''sim_id'', VStr (fst s)), (''name'', VStr (snd s)), (''controllers'', VList [])]"

definition publish_active_sim :: "game_env \<Rightarrow> game_mod \<Rightarrow> mres" where
  "publish_active_sim g m =
     (if gm_role m \<notin> {VStr ''host'', VStr ''client''} then (m, None)
      else then_do
        (mod_emit g ''sims.state'' [(''sims'', VList (map sim_entry (ge_sims g))),
            (''active_sim_id'', opt_str (ge_active g))] (m\<lparr>gm_local_sim := ge_active g\<rparr>))
        (\<lambda>m1. case ge_active g of
           None \<Rightarrow> (m1, None)
         | Some a \<Rightarrow>
            if a = [] \<or> a \<notin> fst ` set (ge_sims g) \<or> gm_last_published m1 = Some a then (m1, None)
            else mod_emit g ''sim.select'' [(''sim_id'', VStr a), (''local'', VBool True)]
                   (m1\<lparr>gm_last_published := Some a\<rparr>)))"

definition is_local_player :: "game_mod \<Rightarrow> pyval \<Rightarrow> bool" where
  "is_local_player m v \<longleftrightarrow> py_eq v (VStr ''local'') \<or> py_eq v (gm_role m) \<or> py_eq v (gm_player m)"

definition sim_selection_state :: "pydict \<Rightarrow> game_mod \<Rightarrow> mres" where
  "sim_selection_state d m =
     (let m1 = (if is_local_player m (pget d ''player_id'') then m\<lparr>gm_sim := pget d ''sim_id''\<rparr> else m);
          sid = py_str (py_or (pget d ''sim_id'') (VStr []))
      in if sid = [] then (m1, None)
         else case py_iter (py_or (pget d ''controllers'') (VList [])) of
           Inl e \<Rightarrow> (m1, Some e)
         | Inr cs \<Rightarrow> (m1\<lparr>gm_controllers := AList.update sid cs (gm_controllers m1)\<rparr>, None))"

text \<open>\<open>_sim_state\<close>: the roster of the host replaces the local view of the controllers.\<close>

fun note_sims :: "pyval list \<Rightarrow> game_mod \<Rightarrow> mres" where
  "note_sims [] m = (m, None)"
| "note_sims (v # vs) m =
     (case as_mapping v of
        Inl e \<Rightarrow> (m, Some e)
      | Inr d \<Rightarrow>
         (case py_iter (py_or (pget d ''controllers'') (VList [])) of
            Inl e \<Rightarrow> (m, Some e)
          | Inr cs \<Rightarrow> note_sims vs
              (m\<lparr>gm_controllers := AList.update (py_str (pget d ''sim_id'')) cs (gm_controllers m)\<rparr>)))"

fun note_players :: "pyval list \<Rightarrow> game_mod \<Rightarrow> mres" where
  "note_players [] m = (m, None)"
| "note_players (v # vs) m =
     (case as_mapping v of
        Inl e \<Rightarrow> (m, Some e)
      | Inr d \<Rightarrow> if is_local_player m (pget d ''player_id'')
                 then (m\<lparr>gm_sim := pget d ''active_sim_id''\<rparr>, None)
                 else note_players vs m)"

definition sim_state :: "pydict \<Rightarrow> game_mod \<Rightarrow> mres" where
  "sim_state d m =
     (case py_iter (py_or (pget d ''sims'') (VList [])) of
        Inl e \<Rightarrow> (m\<lparr>gm_controllers := []\<rparr>, Some e)
      | Inr vs \<Rightarrow> then_do (note_sims vs (m\<lparr>gm_controllers := []\<rparr>))
          (\<lambda>m1. case py_iter (py_or (pget d ''players'') (VList [])) of
             Inl e \<Rightarrow> (m1, Some e)
           | Inr ps \<Rightarrow> note_players ps m1))"

section \<open>Travel\<close>

definition travel_ids :: "game_mod \<Rightarrow> pydict" where
  "travel_ids m = [(''txn_id'', gm_txn m), (''epoch'', VInt (gm_epoch m))]"

definition travel_prepare :: "game_env \<Rightarrow> pydict \<Rightarrow> game_mod \<Rightarrow> mres" where
  "travel_prepare g d m =
     (let m1 = m\<lparr>gm_txn := pget d ''txn_id''\<rparr> in
      case py_int (pget_default d ''epoch'' (VInt 0)) of
        Inl e \<Rightarrow> (m1, Some e)
      | Inr ep \<Rightarrow>
         (let m2 = m1\<lparr>gm_epoch := ep, gm_selected := ge_active g, gm_zone_reported := False\<rparr>;
              m3 = (if is_client m2 then begin_travel_buffer ep (set_bypass True m2) else m2)
          in mod_emit g ''travel.ready'' (travel_ids m3) m3))"

text \<open>\<open>_travel_commit\<close>: the native command runs for both roles; its failure is reported.\<close>

definition travel_commit :: "game_env \<Rightarrow> pydict \<Rightarrow> game_mod \<Rightarrow> mres" where
  "travel_commit g d m =
     (let m1 = m\<lparr>gm_txn := pget d ''txn_id''\<rparr> in
      case py_int (pget_default d ''epoch'' (VInt (gm_epoch m))) of
        Inl e \<Rightarrow> (m1, Some e)
      | Inr ep \<Rightarrow>
         (let m2 = m1\<lparr>gm_epoch := ep, gm_batch_complete := False, gm_zone_reported := False, gm_travel_error := None\<rparr>;
              m3 = (if is_client m2 then begin_travel_buffer ep (set_bypass True m2) else m2)
          in if gm_role m3 \<notin> {VStr ''host'', VStr ''client''} then (m3, None)
             else case ge_travel g of
               None \<Rightarrow> (m3, None)
             | Some e \<Rightarrow>
                 (let reason = exc_class e @ '': '' @ exc_text e
                  in mod_emit g ''travel.abort'' (travel_ids m3 @ [(''reason'', VStr reason)])
                       (m3\<lparr>gm_travel_error := Some reason\<rparr>))))"

definition zone_is_loaded :: "game_env \<Rightarrow> pyval \<Rightarrow> bool" where
  "zone_is_loaded g zid =
     (case ge_zone g of None \<Rightarrow> False | Some z \<Rightarrow> \<not> truthy zid \<or> int_str z = py_str zid)"

definition zone_text :: "game_env \<Rightarrow> string" where
  "zone_text g = int_str (case ge_zone g of None \<Rightarrow> 0 | Some z \<Rightarrow> z)"

definition finish_zone_hydration :: "game_env \<Rightarrow> game_mod \<Rightarrow> mres" where
  "finish_zone_hydration g m =
     (if gm_zone_reported m then (m, None)
      else
       (let restored = (gm_selected m \<noteq> None \<and> gm_selected m \<noteq> Some [] \<and> ge_restores g);
            m1 = m\<lparr>gm_restored := restored\<rparr>
        in then_do (mod_emit g ''travel.zone_ready'' (travel_ids m1 @ [(''zone_id'', VStr (zone_text g)),
                      (''selected_sim_restored'', VBool restored)]) m1)
             (\<lambda>m2. (set_bypass False (m2\<lparr>gm_zone_reported := True\<rparr>), None))))"

definition mod_view_batch :: "game_env \<Rightarrow> pydict \<Rightarrow> game_mod \<Rightarrow> mres" where
  "mod_view_batch g d m =
     (case py_int (pget_default d ''epoch'' (VInt (-1))) of
        Inl e \<Rightarrow> (m, Some e)
      | Inr ep \<Rightarrow>
         if ep \<noteq> gm_epoch m then (m, None)
         else
          (let kind = py_lower (py_str (pget_default d ''kind'' (VStr [])))
           in if kind = ''begin''
              then (let m1 = m\<lparr>gm_batch_complete := False\<rparr>
                    in (if is_client m1 then begin_travel_buffer (gm_epoch m1) m1 else m1, None))
              else if kind = ''end''
              then (let m1 = m\<lparr>gm_batch_complete := True\<rparr>
                    in if is_client m1 \<and> zone_is_loaded g (pget d ''zone_id'')
                       then finish_zone_hydration g m1 else (m1, None))
              else (m, None)))"

definition mod_abort :: "pydict \<Rightarrow> game_mod \<Rightarrow> mres" where
  "mod_abort d m =
     (set_bypass False (m\<lparr>gm_travel_error := Some (py_str (py_or (pget d ''reason'') (VStr ''travel_aborted''))),
        gm_txn := VNone\<rparr>), None)"

definition mod_resume :: "game_env \<Rightarrow> pydict \<Rightarrow> game_mod \<Rightarrow> mres" where
  "mod_resume g d m =
     (if \<not> is_client m then (m, None)
      else case py_int (pget_default d ''epoch'' (VInt (gm_epoch m))) of
        Inl e \<Rightarrow> (m, Some e)
      | Inr ep \<Rightarrow>
         if ep = gm_epoch m \<and> gm_batch_complete m \<and> zone_is_loaded g (pget d ''zone_id'')
         then finish_zone_hydration g m else (m, None))"

text \<open>\<open>_after_zone_spin_up\<close>, called when the game has loaded a zone.\<close>

definition after_zone_spin_up :: "game_env \<Rightarrow> game_mod \<Rightarrow> mres" where
  "after_zone_spin_up g m =
     (if \<not> truthy (gm_txn m) then publish_active_sim g m
      else then_do (publish_active_sim g (m\<lparr>gm_local_loaded := True\<rparr>))
        (\<lambda>m1. if is_client m1
               then (if gm_batch_complete m1 then finish_zone_hydration g m1 else (m1, None))
               else
                (let m2 = m1\<lparr>gm_batch_complete := True\<rparr>
                 in then_do (mod_emit g ''travel.view_batch'' (travel_ids m2 @
                        [(''kind'', VStr ''end''), (''zone_id'', VStr (zone_text g))]) m2)
                      (\<lambda>m3. mod_emit g ''travel.zone_ready''
                         (travel_ids m3 @ [(''zone_id'', VStr (zone_text g))]) m3))))"

section \<open>Authority\<close>

text \<open>
  \<open>lifecycle_guard.install\<close> replaces the installer of the Timeline wrapper: nothing happens
  when the wrapper is in place, its failure is noted, its success updates the status.
\<close>

definition install_timeline :: "game_env \<Rightarrow> game_mod \<Rightarrow> game_mod" where
  "install_timeline g m =
     (if gm_guarded m then m
      else case ge_timeline g of
        Some e \<Rightarrow> m\<lparr>gm_status := (gm_status m)\<lparr>ss_error := Some e\<rparr>\<rparr>
      | None \<Rightarrow> m\<lparr>gm_guarded := True, gm_status := (gm_status m)\<lparr>ss_available := True, ss_installed := True,
            ss_local := False, ss_bypass := (ge_lifecycle g \<or> gm_bypass m), ss_lifecycle := Some (ge_lifecycle g),
            ss_error := None\<rparr>\<rparr>)"

text \<open>One call of the wrapped \<open>Timeline.simulate\<close>; the flag says that the game's own code runs.\<close>

definition timeline_call :: "game_env \<Rightarrow> game_mod \<Rightarrow> game_mod \<times> bool" where
  "timeline_call g m =
     (let bypass = (ge_lifecycle g \<or> gm_bypass m)
      in (m\<lparr>gm_status := (gm_status m)\<lparr>ss_bypass := bypass, ss_lifecycle := Some (ge_lifecycle g)\<rparr>\<rparr>,
          \<not> is_client m \<or> bypass))"

definition status_dict :: "sim_status \<Rightarrow> pydict" where
  "status_dict s =
     [(''role'', ss_role s), (''timeline_suppression_available'', VBool (ss_available s)),
      (''installed'', VBool (ss_installed s)), (''local_simulation_enabled'', VBool (ss_local s)),
      (''clock_source'', VStr (ss_clock s)), (''bypass'', VBool (ss_bypass s)),
      (''last_error'', opt_str (ss_error s))] @
     (case ss_lifecycle s of None \<Rightarrow> [] | Some b \<Rightarrow> [(''lifecycle_bypass'', VBool b)])"

definition fresh_status :: "game_mod \<Rightarrow> sim_status" where
  "fresh_status m =
     \<lparr>ss_role = py_or (gm_role m) (VStr ''unknown''), ss_available = False, ss_installed = False,
      ss_local = (\<not> is_client m), ss_clock = (if is_client m then ''host'' else ''local''),
      ss_bypass = gm_bypass m, ss_lifecycle = None, ss_error = None\<rparr>"

definition configure_authority :: "game_env \<Rightarrow> game_mod \<Rightarrow> mres" where
  "configure_authority g m =
     (let m1 = m\<lparr>gm_status := fresh_status m\<rparr>;
          m2 = (if is_client m1 then install_timeline g m1 else m1)
      in mod_emit g ''simulation.authority'' (status_dict (gm_status m2)) m2)"

definition sidecar_welcome :: "game_env \<Rightarrow> pydict \<Rightarrow> game_mod \<Rightarrow> mres" where
  "sidecar_welcome g d m =
     then_do (configure_authority g (m\<lparr>gm_role := pget d ''role'', gm_player := pget d ''player_id''\<rparr>))
       (\<lambda>m1. (fst (publish_active_sim g m1), None))"

section \<open>The events of the mod\<close>

text \<open>What the bridge hands to the travel part of the mod, and what the game calls.\<close>

datatype mod_input =
    FromSidecar game_env string pydict
  | ZoneLoaded game_env
  | ActiveSimSet game_env
  | Simulate game_env

definition mod_message :: "game_env \<Rightarrow> string \<Rightarrow> pydict \<Rightarrow> game_mod \<Rightarrow> mres" where
  "mod_message g ty d m =
     (if ty = ''travel.prepare'' then travel_prepare g d m
      else if ty = ''travel.commit'' then travel_commit g d m
      else if ty = ''travel.view_batch'' then mod_view_batch g d m
      else if ty = ''travel.abort'' then mod_abort d m
      else if ty = ''travel.resume'' then mod_resume g d m
      else if ty = ''sidecar.welcome'' then sidecar_welcome g d m
      else if ty = ''sim.enumerate'' then mod_emit g ''sims.state'' [(''sims'', VList (map sim_entry (ge_sims g)))] m
      else if ty = ''sim.selection_state'' then sim_selection_state d m
      else if ty = ''sim.state'' then sim_state d m
      else if ty = ''game.raw_message'' then raw_game_message g d m
      else (m, None))"

fun mod_step :: "mod_input \<Rightarrow> game_mod \<Rightarrow> game_mod" where
  "mod_step (FromSidecar g ty d) m = fst (mod_message g ty d m)"
| "mod_step (ZoneLoaded g) m = fst (after_zone_spin_up g m)"
| "mod_step (ActiveSimSet g) m = fst (publish_active_sim g m)"
| "mod_step (Simulate g) m = fst (timeline_call g m)"

definition mod_run :: "mod_input list \<Rightarrow> game_mod \<Rightarrow> game_mod" where
  "mod_run is m = fold mod_step is m"

section \<open>Frames\<close>

lemma mod_emit_frame [simp]:
  "gm_role (fst (mod_emit g ty d m)) = gm_role m" "gm_player (fst (mod_emit g ty d m)) = gm_player m"
  "gm_status (fst (mod_emit g ty d m)) = gm_status m" "gm_bypass (fst (mod_emit g ty d m)) = gm_bypass m"
  "gm_guarded (fst (mod_emit g ty d m)) = gm_guarded m" "gm_txn (fst (mod_emit g ty d m)) = gm_txn m"
  "gm_epoch (fst (mod_emit g ty d m)) = gm_epoch m" "gm_buffering (fst (mod_emit g ty d m)) = gm_buffering m"
  "gm_buffer (fst (mod_emit g ty d m)) = gm_buffer m"
  "gm_batch_complete (fst (mod_emit g ty d m)) = gm_batch_complete m"
  "gm_zone_reported (fst (mod_emit g ty d m)) = gm_zone_reported m"
  "gm_delivered (fst (mod_emit g ty d m)) = gm_delivered m" "gm_received (fst (mod_emit g ty d m)) = gm_received m"
  by (simp_all add: mod_emit_def split: prod.split sum.split)

lemma mod_emit_open [simp]: "bc_open (gm_bridge (fst (mod_emit g ty d m))) = bc_open (gm_bridge m)"
  by (simp add: mod_emit_def bridge_send_def)

lemma mod_emit_sent:
  "bc_sent (gm_bridge (fst (mod_emit g ty d m))) =
     bc_sent (gm_bridge m) @ (if bc_open (gm_bridge m) \<and> ge_up g then [(ty, d)] else [])"
  by (simp add: mod_emit_def bridge_send_def)

lemma mod_emit_error: "snd (mod_emit g ty d m) \<noteq> None \<longleftrightarrow> bc_open (gm_bridge m) \<and> \<not> ge_up g"
  by (simp add: mod_emit_def bridge_send_def)

lemma set_bypass_frame [simp]:
  "gm_role (set_bypass b m) = gm_role m" "gm_bridge (set_bypass b m) = gm_bridge m"
  "gm_epoch (set_bypass b m) = gm_epoch m" "gm_txn (set_bypass b m) = gm_txn m"
  "gm_buffering (set_bypass b m) = gm_buffering m" "gm_delivered (set_bypass b m) = gm_delivered m"
  "gm_received (set_bypass b m) = gm_received m" "gm_batch_complete (set_bypass b m) = gm_batch_complete m"
  "gm_zone_reported (set_bypass b m) = gm_zone_reported m" "gm_bypass (set_bypass b m) = b"
  by (simp_all add: set_bypass_def)

lemma begin_buffer_frame [simp]:
  "gm_role (begin_travel_buffer e m) = gm_role m" "gm_bridge (begin_travel_buffer e m) = gm_bridge m"
  "gm_epoch (begin_travel_buffer e m) = e" "gm_txn (begin_travel_buffer e m) = gm_txn m"
  "gm_buffering (begin_travel_buffer e m)" "gm_delivered (begin_travel_buffer e m) = gm_delivered m"
  "gm_received (begin_travel_buffer e m) = gm_received m"
  "gm_batch_complete (begin_travel_buffer e m) = gm_batch_complete m"
  "gm_zone_reported (begin_travel_buffer e m) = gm_zone_reported m" "gm_bypass (begin_travel_buffer e m) = gm_bypass m"
  by (simp_all add: begin_travel_buffer_def)

section \<open>Buffering\<close>

text \<open>Once the mod buffers raw messages, no handler delivers one to the game again.\<close>

definition holds_back :: "(int \<times> byte list) list \<Rightarrow> game_mod \<Rightarrow> bool" where
  "holds_back ds m \<longleftrightarrow> gm_buffering m \<and> gm_delivered m = ds"

lemma emit_holds [simp]: "holds_back ds (fst (mod_emit g ty d m)) \<longleftrightarrow> holds_back ds m"
  by (simp add: holds_back_def)

lemma holds_updates [simp]:
  "holds_back ds (set_bypass b m) \<longleftrightarrow> holds_back ds m"
  "holds_back ds (begin_travel_buffer e m) \<longleftrightarrow> gm_delivered m = ds"
  by (auto simp: holds_back_def)

lemma holds_delivered: "holds_back ds m \<Longrightarrow> gm_delivered m = ds"
  by (simp add: holds_back_def)

lemma then_do_holds:
  assumes "holds_back ds (fst r)" and "\<And>m. holds_back ds m \<Longrightarrow> holds_back ds (fst (f m))"
  shows "holds_back ds (fst (then_do r f))"
  using assms by (cases r; cases "snd r") (auto simp: then_do_def)

lemma holds_fields [simp]:
  "holds_back ds (m\<lparr>gm_last_published := a\<rparr>) \<longleftrightarrow> holds_back ds m"
  "holds_back ds (m\<lparr>gm_local_sim := b\<rparr>) \<longleftrightarrow> holds_back ds m"
  "holds_back ds (m\<lparr>gm_restored := x\<rparr>) \<longleftrightarrow> holds_back ds m"
  "holds_back ds (m\<lparr>gm_zone_reported := x\<rparr>) \<longleftrightarrow> holds_back ds m"
  "holds_back ds (m\<lparr>gm_local_loaded := x\<rparr>) \<longleftrightarrow> holds_back ds m"
  "holds_back ds (m\<lparr>gm_batch_complete := x\<rparr>) \<longleftrightarrow> holds_back ds m"
  "holds_back ds (m\<lparr>gm_controllers := cs\<rparr>) \<longleftrightarrow> holds_back ds m"
  "holds_back ds (m\<lparr>gm_sim := v\<rparr>) \<longleftrightarrow> holds_back ds m"
  "holds_back ds (m\<lparr>gm_status := st\<rparr>) \<longleftrightarrow> holds_back ds m"
  "holds_back ds (m\<lparr>gm_guarded := x\<rparr>) \<longleftrightarrow> holds_back ds m"
  "holds_back ds (m\<lparr>gm_role := v, gm_player := w\<rparr>) \<longleftrightarrow> holds_back ds m"
  by (simp_all add: holds_back_def)

lemma publish_holds: "holds_back ds m \<Longrightarrow> holds_back ds (fst (publish_active_sim g m))"
  by (simp add: publish_active_sim_def then_do_holds split: option.split)

lemma finish_holds: "holds_back ds m \<Longrightarrow> holds_back ds (fst (finish_zone_hydration g m))"
  by (simp add: finish_zone_hydration_def Let_def then_do_holds)

lemma prepare_holds: "holds_back ds m \<Longrightarrow> holds_back ds (fst (travel_prepare g d m))"
  by (auto simp: travel_prepare_def Let_def holds_back_def split: sum.split)

lemma commit_holds: "holds_back ds m \<Longrightarrow> holds_back ds (fst (travel_commit g d m))"
  by (auto simp: travel_commit_def Let_def holds_back_def split: sum.split option.split)

lemma batch_holds: "holds_back ds m \<Longrightarrow> holds_back ds (fst (mod_view_batch g d m))"
  by (simp add: mod_view_batch_def Let_def finish_holds holds_delivered split: sum.split)

lemma resume_holds: "holds_back ds m \<Longrightarrow> holds_back ds (fst (mod_resume g d m))"
  by (simp add: mod_resume_def finish_holds split: sum.split)

lemma spin_up_holds: "holds_back ds m \<Longrightarrow> holds_back ds (fst (after_zone_spin_up g m))"
  by (simp add: after_zone_spin_up_def Let_def then_do_holds publish_holds finish_holds)

lemma note_sims_holds: "holds_back ds m \<Longrightarrow> holds_back ds (fst (note_sims vs m))"
  by (induction vs arbitrary: m) (simp_all split: sum.split)

lemma note_players_holds: "holds_back ds m \<Longrightarrow> holds_back ds (fst (note_players vs m))"
  by (induction vs arbitrary: m) (simp_all split: sum.split)

lemma sim_state_holds: "holds_back ds m \<Longrightarrow> holds_back ds (fst (sim_state d m))"
  by (simp add: sim_state_def then_do_holds note_sims_holds note_players_holds split: sum.split)

lemma selection_holds: "holds_back ds m \<Longrightarrow> holds_back ds (fst (sim_selection_state d m))"
  by (simp add: sim_selection_state_def Let_def split: sum.split)

lemma install_holds: "holds_back ds m \<Longrightarrow> holds_back ds (install_timeline g m)"
  by (simp add: install_timeline_def split: option.split)

lemma welcome_holds: "holds_back ds m \<Longrightarrow> holds_back ds (fst (sidecar_welcome g d m))"
  by (simp add: sidecar_welcome_def configure_authority_def Let_def then_do_holds publish_holds install_holds)

lemma raw_holds: "holds_back ds m \<Longrightarrow> holds_back ds (fst (raw_game_message g d m))"
  by (auto simp: raw_game_message_def receive_raw_def holds_back_def split: sum.split)

lemma message_holds:
  assumes "holds_back ds m"
  shows "holds_back ds (fst (mod_message g ty d m))"
proof -
  have "holds_back ds (fst (mod_abort d m))" using assms by (simp add: mod_abort_def holds_back_def)
  then show ?thesis
    using assms by (simp add: mod_message_def prepare_holds commit_holds batch_holds resume_holds
        welcome_holds sim_state_holds selection_holds raw_holds)
qed

lemma mod_step_holds: "holds_back ds m \<Longrightarrow> holds_back ds (mod_step i m)"
  by (cases i) (simp_all add: message_holds spin_up_holds publish_holds timeline_call_def Let_def)

lemma mod_run_holds: "holds_back ds m \<Longrightarrow> holds_back ds (mod_run is m)"
  unfolding mod_run_def by (induction "is" arbitrary: m) (simp_all add: mod_step_holds)

section \<open>The zone report\<close>

definition zone_reports :: "game_mod \<Rightarrow> nat" where
  "zone_reports m = length (filter (\<lambda>x. fst x = ''travel.zone_ready'') (bc_sent (gm_bridge m)))"

lemma emit_reports [simp]:
  "zone_reports (fst (mod_emit g ty d m)) =
     zone_reports m + (if ty = ''travel.zone_ready'' \<and> bc_open (gm_bridge m) \<and> ge_up g then 1 else 0)"
  by (simp add: zone_reports_def mod_emit_sent)

lemma updates_reports [simp]:
  "zone_reports (set_bypass b m) = zone_reports m" "zone_reports (begin_travel_buffer e m) = zone_reports m"
  by (simp_all add: zone_reports_def)

text \<open>From \<open>m0\<close> on: the role is kept, and the zone is reported once, when it was not before.\<close>

definition once_from :: "game_mod \<Rightarrow> game_mod \<Rightarrow> bool" where
  "once_from m0 m \<longleftrightarrow> gm_role m = gm_role m0 \<and>
     (gm_zone_reported m = gm_zone_reported m0 \<and> zone_reports m = zone_reports m0 \<or>
      \<not> gm_zone_reported m0 \<and> gm_zone_reported m \<and> zone_reports m \<le> zone_reports m0 + 1)"

lemma once_refl [simp]: "once_from m m"
  by (simp add: once_from_def)

lemma once_trans: "once_from m0 m1 \<Longrightarrow> once_from m1 m2 \<Longrightarrow> once_from m0 m2"
  by (auto simp: once_from_def)

lemma once_cong:
  "gm_role m' = gm_role m \<Longrightarrow> gm_zone_reported m' = gm_zone_reported m \<Longrightarrow>
   bc_sent (gm_bridge m') = bc_sent (gm_bridge m) \<Longrightarrow> once_from m0 m' \<longleftrightarrow> once_from m0 m"
  by (simp add: once_from_def zone_reports_def)

lemma once_fields [simp]:
  "once_from m0 (m\<lparr>gm_last_published := a\<rparr>) \<longleftrightarrow> once_from m0 m"
  "once_from m0 (m\<lparr>gm_local_sim := b\<rparr>) \<longleftrightarrow> once_from m0 m"
  "once_from m0 (m\<lparr>gm_restored := x\<rparr>) \<longleftrightarrow> once_from m0 m"
  "once_from m0 (m\<lparr>gm_local_loaded := x\<rparr>) \<longleftrightarrow> once_from m0 m"
  "once_from m0 (m\<lparr>gm_batch_complete := x\<rparr>) \<longleftrightarrow> once_from m0 m"
  "once_from m0 (m\<lparr>gm_controllers := cs\<rparr>) \<longleftrightarrow> once_from m0 m"
  "once_from m0 (m\<lparr>gm_sim := v\<rparr>) \<longleftrightarrow> once_from m0 m"
  "once_from m0 (m\<lparr>gm_status := st\<rparr>) \<longleftrightarrow> once_from m0 m"
  "once_from m0 (m\<lparr>gm_buffer := ds\<rparr>) \<longleftrightarrow> once_from m0 m"
  "once_from m0 (m\<lparr>gm_delivered := rs\<rparr>) \<longleftrightarrow> once_from m0 m"
  "once_from m0 (m\<lparr>gm_received := n\<rparr>) \<longleftrightarrow> once_from m0 m"
  "once_from m0 (m\<lparr>gm_travel_error := a\<rparr>) \<longleftrightarrow> once_from m0 m"
  "once_from m0 (m\<lparr>gm_txn := v\<rparr>) \<longleftrightarrow> once_from m0 m"
  "once_from m0 (set_bypass x m) \<longleftrightarrow> once_from m0 m"
  "once_from m0 (begin_travel_buffer e m) \<longleftrightarrow> once_from m0 m"
  by (simp_all add: once_from_def zone_reports_def set_bypass_def begin_travel_buffer_def)

lemma once_emit [simp]: "ty \<noteq> ''travel.zone_ready'' \<Longrightarrow> once_from m0 (fst (mod_emit g ty d m)) \<longleftrightarrow> once_from m0 m"
  by (simp add: once_from_def)

lemma then_do_once:
  assumes "once_from m0 (fst r)" and "\<And>m. once_from m0 m \<Longrightarrow> once_from m0 (fst (f m))"
  shows "once_from m0 (fst (then_do r f))"
  using assms by (cases r; cases "snd r") (auto simp: then_do_def)

lemma publish_once: "once_from m0 m \<Longrightarrow> once_from m0 (fst (publish_active_sim g m))"
  by (simp add: publish_active_sim_def then_do_once split: option.split)

lemma finish_self: "once_from m (fst (finish_zone_hydration g m))"
  by (auto simp: finish_zone_hydration_def then_do_def mod_emit_def bridge_send_def Let_def once_from_def
      zone_reports_def set_bypass_def travel_ids_def)

lemma finish_once: "once_from m0 m \<Longrightarrow> once_from m0 (fst (finish_zone_hydration g m))"
  using once_trans finish_self by blast

lemma batch_once: "once_from m0 m \<Longrightarrow> once_from m0 (fst (mod_view_batch g d m))"
  by (simp add: mod_view_batch_def Let_def finish_once split: sum.split)

lemma resume_once: "once_from m0 m \<Longrightarrow> once_from m0 (fst (mod_resume g d m))"
  by (simp add: mod_resume_def finish_once split: sum.split)

lemma once_role: "once_from m0 m \<Longrightarrow> gm_role m = gm_role m0"
  by (simp add: once_from_def)

lemma spin_up_once:
  assumes "once_from m0 m" "is_client m0"
  shows "once_from m0 (fst (after_zone_spin_up g m))"
proof (cases "truthy (gm_txn m)")
  case True
  have "once_from m0 (fst (if is_client m1
      then if gm_batch_complete m1 then finish_zone_hydration g m1 else (m1, None) else r))"
    if "once_from m0 m1" for m1 r
    using that once_role [OF that] assms(2) by (simp add: finish_once)
  then show ?thesis
    using True assms(1) unfolding after_zone_spin_up_def by (simp add: then_do_once publish_once)
qed (simp add: after_zone_spin_up_def assms publish_once)

lemma sims_once:
  assumes "once_from m0 m"
  shows "once_from m0 (fst (sim_state d m))" "once_from m0 (fst (sim_selection_state d m))"
proof -
  have s: "once_from m0 m \<Longrightarrow> once_from m0 (fst (note_sims vs m))" for vs m
    by (induction vs arbitrary: m) (simp_all split: sum.split)
  have p: "once_from m0 m \<Longrightarrow> once_from m0 (fst (note_players vs m))" for vs m
    by (induction vs arbitrary: m) (simp_all split: sum.split)
  show "once_from m0 (fst (sim_state d m))"
    using assms by (simp add: sim_state_def then_do_once s p split: sum.split)
  show "once_from m0 (fst (sim_selection_state d m))"
    using assms by (simp add: sim_selection_state_def Let_def split: sum.split)
qed

lemma raw_once: "once_from m0 m \<Longrightarrow> once_from m0 (fst (raw_game_message g d m))"
  by (simp add: raw_game_message_def receive_raw_def count_applied_def apply_raw_def split: sum.split option.split)

text \<open>Events that neither open a travel nor name the role.\<close>

definition within_travel :: "mod_input \<Rightarrow> bool" where
  "within_travel i \<longleftrightarrow> (case i of
     FromSidecar g ty d \<Rightarrow> ty \<notin> {''travel.prepare'', ''travel.commit'', ''sidecar.welcome''}
   | _ \<Rightarrow> True)"

lemma mod_step_once:
  assumes "once_from m0 m" "is_client m0" "within_travel i"
  shows "once_from m0 (mod_step i m)"
proof (cases i)
  case (FromSidecar g ty d)
  then have "ty \<noteq> ''travel.prepare'' \<and> ty \<noteq> ''travel.commit'' \<and> ty \<noteq> ''sidecar.welcome''"
    using assms(3) by (simp add: within_travel_def)
  moreover have "once_from m0 (fst (mod_abort d m))" using assms(1) by (simp add: mod_abort_def)
  ultimately show ?thesis
    using FromSidecar assms(1) by (simp add: mod_message_def batch_once resume_once sims_once raw_once)
qed (use assms in \<open>simp_all add: spin_up_once publish_once timeline_call_def Let_def\<close>)

lemma mod_run_once:
  assumes "is_client m0" "list_all within_travel is"
  shows "once_from m0 (mod_run is m0)"
proof -
  have "once_from m0 m \<Longrightarrow> once_from m0 (mod_run is m)" for m
    using assms unfolding mod_run_def by (induction "is" arbitrary: m) (simp_all add: mod_step_once)
  then show ?thesis by simp
qed

text \<open>The zone is reported only after the host's batch has ended.\<close>

definition reports_after_end :: "nat \<Rightarrow> game_mod \<Rightarrow> bool" where
  "reports_after_end n m \<longleftrightarrow> zone_reports m = n \<or> gm_batch_complete m"

lemma finish_complete: "gm_batch_complete (fst (finish_zone_hydration g m)) = gm_batch_complete m"
  by (simp add: finish_zone_hydration_def then_do_def Let_def mod_emit_def bridge_send_def)

lemma publish_reports: "zone_reports (fst (publish_active_sim g m)) = zone_reports m"
  by (simp add: publish_active_sim_def then_do_def mod_emit_def bridge_send_def zone_reports_def split: option.split)

lemma note_reports:
  "zone_reports (fst (note_sims vs m)) = zone_reports m" "zone_reports (fst (note_players vs m)) = zone_reports m"
proof -
  show "zone_reports (fst (note_sims vs m)) = zone_reports m"
    by (induction vs arbitrary: m) (simp_all add: zone_reports_def split: sum.split)
  show "zone_reports (fst (note_players vs m)) = zone_reports m"
    by (induction vs arbitrary: m) (simp_all add: zone_reports_def split: sum.split)
qed

lemma then_do_reports:
  "zone_reports (fst r) = n \<Longrightarrow> (\<And>m. zone_reports m = n \<Longrightarrow> reports_after_end n (fst (f m))) \<Longrightarrow>
   reports_after_end n (fst (then_do r f))"
  by (cases r; cases "snd r") (auto simp: then_do_def reports_after_end_def)

lemma handlers_report:
  "zone_reports (fst (travel_prepare g d m)) = zone_reports m"
  "zone_reports (fst (travel_commit g d m)) = zone_reports m"
  "zone_reports (fst (mod_abort d m)) = zone_reports m"
  "zone_reports (fst (raw_game_message g d m)) = zone_reports m"
  "zone_reports (fst (sim_selection_state d m)) = zone_reports m"
  by (simp_all add: travel_prepare_def travel_commit_def mod_abort_def raw_game_message_def receive_raw_def
      count_applied_def apply_raw_def sim_selection_state_def Let_def mod_emit_def bridge_send_def zone_reports_def
      set_bypass_def begin_travel_buffer_def split: sum.split option.split)

lemma then_do_same:
  "zone_reports (fst r) = n \<Longrightarrow> (\<And>m. zone_reports (fst (f m)) = zone_reports m) \<Longrightarrow>
   zone_reports (fst (then_do r f)) = n"
  by (cases r; cases "snd r") (simp_all add: then_do_def)

lemma sim_state_report: "zone_reports (fst (sim_state d m)) = zone_reports m"
proof -
  have z: "zone_reports (m\<lparr>gm_controllers := []\<rparr>) = zone_reports m" by (simp add: zone_reports_def)
  show ?thesis by (simp add: sim_state_def note_reports z then_do_same split: sum.split)
qed

lemma welcome_report: "zone_reports (fst (sidecar_welcome g d m)) = zone_reports m"
proof -
  have i: "zone_reports (install_timeline g m1) = zone_reports m1" for m1
    by (simp add: install_timeline_def zone_reports_def split: option.split)
  have s: "zone_reports (m1\<lparr>gm_status := st\<rparr>) = zone_reports m1"
    "zone_reports (m1\<lparr>gm_role := v, gm_player := w\<rparr>) = zone_reports m1" for m1 st v w
    by (simp_all add: zone_reports_def)
  have "zone_reports (fst (configure_authority g m1)) = zone_reports m1" for m1
    by (simp add: configure_authority_def Let_def i s)
  then show ?thesis by (simp add: sidecar_welcome_def then_do_same publish_reports s)
qed

lemma mod_step_after_end: "zone_reports (mod_step i m) \<noteq> zone_reports m \<Longrightarrow> gm_batch_complete (mod_step i m)"
proof (cases i)
  case (FromSidecar g ty d)
  assume n: "zone_reports (mod_step i m) \<noteq> zone_reports m"
  have b: "zone_reports (fst (mod_view_batch g d m)) = zone_reports m \<or> gm_batch_complete (fst (mod_view_batch g d m))"
    by (auto simp: mod_view_batch_def Let_def finish_complete zone_reports_def begin_travel_buffer_def split: sum.split)
  have r: "zone_reports (fst (mod_resume g d m)) = zone_reports m \<or> gm_batch_complete (fst (mod_resume g d m))"
    by (auto simp: mod_resume_def finish_complete split: sum.split)
  show ?thesis
    using n b r unfolding FromSidecar
    by (simp add: mod_message_def handlers_report sim_state_report welcome_report split: if_splits)
next
  case (ZoneLoaded g)
  assume n: "zone_reports (mod_step i m) \<noteq> zone_reports m"
  show ?thesis
  proof (cases "truthy (gm_txn m)")
    case True
    obtain m1 x where p: "publish_active_sim g (m\<lparr>gm_local_loaded := True\<rparr>) = (m1, x)" by fastforce
    have z: "zone_reports m1 = zone_reports m"
      using publish_reports [of g "m\<lparr>gm_local_loaded := True\<rparr>"] p by (simp add: zone_reports_def)
    show ?thesis
      using n True z
      by (auto simp: ZoneLoaded after_zone_spin_up_def p then_do_def finish_complete Let_def mod_emit_def bridge_send_def
          split: option.splits if_splits)
  qed (use n in \<open>simp add: ZoneLoaded after_zone_spin_up_def publish_reports\<close>)
next
  case (Simulate g)
  then show "zone_reports (mod_step i m) \<noteq> zone_reports m \<Longrightarrow> gm_batch_complete (mod_step i m)"
    by (simp add: timeline_call_def Let_def zone_reports_def)
qed (simp add: publish_reports)

section \<open>Answers of the mod\<close>

text \<open>The answer to a proposal names its transaction and epoch.\<close>

lemma prepare_answers:
  assumes "bc_open (gm_bridge m)" "ge_up g" "py_int (pget_default d ''epoch'' (VInt 0)) = Inr ep"
  shows "bc_sent (gm_bridge (fst (travel_prepare g d m))) = bc_sent (gm_bridge m) @
      [(''travel.ready'', [(''txn_id'', pget d ''txn_id''), (''epoch'', VInt ep)])]"
    "snd (travel_prepare g d m) = None"
  using assms by (simp_all add: travel_prepare_def Let_def mod_emit_def bridge_send_def travel_ids_def
      set_bypass_def begin_travel_buffer_def)

text \<open>A client's simulation stands still exactly outside travel and lifecycle transitions.\<close>

lemma timeline_suppressed_iff:
  "\<not> snd (timeline_call g m) \<longleftrightarrow> is_client m \<and> \<not> ge_lifecycle g \<and> \<not> gm_bypass m"
  by (auto simp: timeline_call_def Let_def)

text \<open>A raw message outside a travel reaches the game unchanged.\<close>

lemma raw_delivered:
  assumes "is_client m" "\<not> gm_buffering m" "ge_client g" "ge_send g = None" "length raw \<le> MAX_RAW_BYTES"
    and "map_of d ''msg_id'' = Some v" "py_int v = Inr i" "pget_default d ''payload_b64'' (VStr []) = VStr (b64encode raw)"
  shows "gm_delivered (fst (raw_game_message g d m)) = gm_delivered m @ [(i, raw)]"
  using assms by (simp add: raw_game_message_def receive_raw_def count_applied_def apply_raw_def)

text \<open>A second welcome of a client whose wrapper is in place reports it as not installed.\<close>

lemma emit_keeps_sent: "x \<in> set (bc_sent (gm_bridge m)) \<Longrightarrow> x \<in> set (bc_sent (gm_bridge (fst (mod_emit g ty d m))))"
  by (simp add: mod_emit_sent)

lemma then_do_keeps_sent:
  "x \<in> set (bc_sent (gm_bridge (fst r))) \<Longrightarrow>
   (\<And>m. x \<in> set (bc_sent (gm_bridge m)) \<Longrightarrow> x \<in> set (bc_sent (gm_bridge (fst (f m))))) \<Longrightarrow>
   x \<in> set (bc_sent (gm_bridge (fst (then_do r f))))"
  by (cases r; cases "snd r") (simp_all add: then_do_def)

lemma publish_keeps_sent:
  "x \<in> set (bc_sent (gm_bridge m)) \<Longrightarrow> x \<in> set (bc_sent (gm_bridge (fst (publish_active_sim g m))))"
  by (simp add: publish_active_sim_def then_do_keeps_sent emit_keeps_sent split: option.split)

lemma rewelcome_reports_uninstalled:
  assumes "gm_guarded m" "bc_open (gm_bridge m)" "ge_up g" "pget d ''role'' = VStr ''client''"
  shows "\<exists>st. (''simulation.authority'', status_dict st) \<in> set (bc_sent (gm_bridge (fst (sidecar_welcome g d m)))) \<and>
    \<not> ss_installed st \<and> ss_role st = VStr ''client''"
proof (intro exI conjI)
  let ?m = "m\<lparr>gm_role := pget d ''role'', gm_player := pget d ''player_id''\<rparr>"
  let ?st = "fresh_status ?m"
  have "(''simulation.authority'', status_dict ?st) \<in> set (bc_sent (gm_bridge (fst (configure_authority g ?m))))"
    using assms by (simp add: configure_authority_def install_timeline_def Let_def mod_emit_sent)
  then show "(''simulation.authority'', status_dict ?st) \<in> set (bc_sent (gm_bridge (fst (sidecar_welcome g d m))))"
    unfolding sidecar_welcome_def by (rule then_do_keeps_sent) (simp add: publish_keeps_sent)
  show "\<not> ss_installed ?st" "ss_role ?st = VStr ''client''"
    using assms(4) by (simp_all add: fresh_status_def py_or_def)
qed

end
