(* ===== verification/Mod_Messages.thy ===== *)
theory Mod_Messages
  imports Mod_Travel Mod_Interactions
begin

text \<open>
  \<^verbatim>\<open>src/sims_mod_src/kermp_mod/hooks.py\<close>, what the game says to the LAN besides
  interactions and Build/Buy: the copy of the host's outgoing game messages
  (\<open>_install_game_message_capture\<close>, \<open>_filtered_remote_message\<close>,
  \<open>_forward_remote_client_message\<close>) and the clock (\<open>_install_clock_hooks\<close>,
  \<open>_clock_request\<close>, \<open>_clock_state\<close>). The message numbers and operation types of the installed
  game, and the serialised form of a message, are parameters.
\<close>

section \<open>Game messages\<close>

text \<open>
  A \<open>ViewUpdate\<close> is a list of entries with their operations (\<open>None\<close>: an entry without an
  operation list); of any other message only its serialised bytes matter, if it has any.
\<close>

type_synonym view_op = "int \<times> byte list"

datatype game_message =
    ViewUpdate "view_op list option list"
  | OtherMessage "byte list"
  | NotSerializable

record message_env =
  me_up :: bool
  me_local_ids :: "int set"
  me_local_ops :: "int set"
  me_serialize :: "game_message \<Rightarrow> byte list"

record message_mod =
  mm_role :: pyval
  mm_bridge :: bridge_client
  mm_stats :: counters
  mm_by_id :: "(int \<times> int) list"
  mm_sent :: int
  mm_last_size :: int
  mm_last_id :: "int option"
  mm_failed :: bool

definition new_message_mod :: message_mod where
  "new_message_mod = \<lparr>mm_role = VNone, mm_bridge = new_bridge_client, mm_stats = [], mm_by_id = [], mm_sent = 0,
     mm_last_size = 0, mm_last_id = None, mm_failed = False\<rparr>"

definition LOCAL_ONLY_NAMES :: "string list" where
  "LOCAL_ONLY_NAMES = [''MSG_OBJECT_IS_INTERACTABLE'', ''MSG_PIE_MENU_CREATE'', ''MSG_PHONE_MENU_CREATE'',
     ''MSG_UI_DIALOG_SHOW'', ''MSG_GAME_SAVE_LOCK_UNLOCK'', ''MSG_SHOW_SIM_PROFILE'']"

text \<open>\<open>_local_only_message_ids\<close>: the numbers the installed game gives these names.\<close>

definition local_only_ids :: "(string \<Rightarrow> int option) \<Rightarrow> int set" where
  "local_only_ids consts = set (List.map_filter consts LOCAL_ONLY_NAMES)"

text \<open>The operations of a view update that concern only one screen, and \<open>_local_only_operation_ids\<close>.\<close>

definition LOCAL_OP_NAMES :: "string list" where
  "LOCAL_OP_NAMES =
    [''FOCUS'', ''HOVERTIP_CREATED'', ''SET_SIM_ACTIVE'', ''SET_VFX_MASK'', ''CLIENT_CREATE'', ''CLIENT_DELETE'', ''SET_GAME_TIME'',
     ''LIVE_DRAG_START'', ''LIVE_DRAG_END'', ''LIVE_DRAG_CANCEL'', ''SELECT_CAREER_UI'', ''SHOW_BILLS_DIALOG'', ''SITUATION_CALLBACK_RESPONSE'',
     ''MSG_SIM_PERSONALITY_ASSIGNMENT'', ''TAKE_PHOTO'', ''UI_LIGHT_COLOR_SHOW'', ''OPEN_INVENTORY'', ''NOTEBOOK_VIEW'', ''DYNAMIC_SIGN_VIEW'',
     ''COMMUNITY_POLICY_BOARD'', ''UNIVERSITY_ENROLLMENT_WIZARD'', ''BOOK_VIEW'', ''END_OF_WORKDAY'', ''SHOW_SOCIAL_MEDIA_DIALOG'', ''SEND_UI_MESSAGE'',
     ''RETAIL_BALANCE_TRANSFER_DIALOG'', ''BUSINESS_SUMMARY_DIALOG'', ''SHOW_HORSE_COMPETITION_SELECTOR'', ''SHOW_RENTAL_UNIT_MANAGEMENT'',
     ''SHOW_LIFETIME_MILESTONES_PANEL'', ''CUSTOM_SCHEDULE_SET_CUSTOM_SCHEDULE'', ''CUSTOM_SCHEDULE_SET_CUSTOM_SET_SCHEDULE_LIST'',
     ''CUSTOM_SCHEDULE_SET_CUSTOM_SET_ASSIGNMENT_LIST'', ''MSG_SITUATION_GETAWAY_RULES'', ''SET_RESIDENT_LIST'',
     ''CUSTOM_SCHEDULE_SET_CUSTOM_ASSIGNMENT'']"

definition local_op_ids :: "(string \<Rightarrow> int option) \<Rightarrow> int set" where
  "local_op_ids ops = set (List.map_filter ops LOCAL_OP_NAMES)"

definition local_only :: "message_env \<Rightarrow> int \<Rightarrow> bool" where
  "local_only g mid \<longleftrightarrow> mid \<in> me_local_ids g"

text \<open>
  \<open>_filtered_remote_message\<close>: a copy of a \<open>ViewUpdate\<close> without the operations that concern
  only the host's own screen; an entry left without operations is dropped.
\<close>

definition keep_ops :: "int set \<Rightarrow> view_op list \<Rightarrow> view_op list" where
  "keep_ops loc xs = filter (\<lambda>x. fst x \<notin> loc) xs"

fun filter_entries :: "int set \<Rightarrow> view_op list option list \<Rightarrow> view_op list option list" where
  "filter_entries loc [] = []"
| "filter_entries loc (None # es) = None # filter_entries loc es"
| "filter_entries loc (Some xs # es) =
     (if keep_ops loc xs = [] then filter_entries loc es else Some (keep_ops loc xs) # filter_entries loc es)"

fun removed_ops :: "int set \<Rightarrow> view_op list option list \<Rightarrow> nat" where
  "removed_ops loc [] = 0"
| "removed_ops loc (None # es) = removed_ops loc es"
| "removed_ops loc (Some xs # es) = (length xs - length (keep_ops loc xs)) + removed_ops loc es"

definition count_message :: "string \<Rightarrow> int \<Rightarrow> message_mod \<Rightarrow> message_mod" where
  "count_message k n m = m\<lparr>mm_stats := AList.update k (count_of k (mm_stats m) + n) (mm_stats m)\<rparr>"

definition filtered_message :: "message_env \<Rightarrow> game_message \<Rightarrow> message_mod \<Rightarrow> message_mod \<times> game_message" where
  "filtered_message g msg m =
     (case msg of
        ViewUpdate es \<Rightarrow> (count_message ''dropped_local_ops'' (int (removed_ops (me_local_ops g) es)) m,
                          ViewUpdate (filter_entries (me_local_ops g) es))
      | _ \<Rightarrow> (m, msg))"

definition mm_emit :: "bool \<Rightarrow> string \<Rightarrow> pydict \<Rightarrow> message_mod \<Rightarrow> message_mod \<times> (py_error + bool)" where
  "mm_emit up ty d m = (case bridge_send up ty d (mm_bridge m) of (b, r) \<Rightarrow> (m\<lparr>mm_bridge := b\<rparr>, r))"

definition raw_payload :: "int \<Rightarrow> byte list \<Rightarrow> pydict" where
  "raw_payload mid raw = [(''msg_id'', VInt mid), (''payload_b64'', VStr (b64encode raw))]"

definition note_replicated :: "int \<Rightarrow> byte list \<Rightarrow> message_mod \<Rightarrow> message_mod" where
  "note_replicated mid raw m =
     (count_message ''replicated'' 1 m)\<lparr>mm_sent := mm_sent m + 1,
        mm_by_id := AList.update mid ((case map_of (mm_by_id m) mid of None \<Rightarrow> 0 | Some n \<Rightarrow> n) + 1) (mm_by_id m),
        mm_last_size := int (length raw), mm_last_id := Some mid\<rparr>"

text \<open>
  The wrapper of \<open>Client.send_message\<close>, after the game's own function has returned; nothing
  it does can raise into the game.
\<close>

definition capture_message :: "message_env \<Rightarrow> int \<Rightarrow> game_message \<Rightarrow> message_mod \<Rightarrow> message_mod" where
  "capture_message g mid msg m =
     (if mm_role m \<noteq> VStr ''host'' then m
      else
       (let m1 = count_message ''observed'' 1 m in
        if local_only g mid then count_message ''dropped_local'' 1 m1
        else if msg = NotSerializable then count_message ''dropped_unserializable'' 1 m1
        else case filtered_message g msg m1 of (m2, f) \<Rightarrow>
          (let raw = me_serialize g f in
           if MAX_RAW_BYTES < length raw then count_message ''dropped_oversize'' 1 m2
           else case mm_emit (me_up g) ''game.raw_message'' (raw_payload mid raw) m2 of
             (m3, Inl e) \<Rightarrow> m3\<lparr>mm_failed := True\<rparr>
           | (m3, Inr False) \<Rightarrow> m3
           | (m3, Inr True) \<Rightarrow> note_replicated mid raw m3)))"

text \<open>
  \<open>_forward_remote_client_message\<close>: the output of a remote player's virtual client. The
  text of the failure is returned.
\<close>

definition forward_remote :: "message_env \<Rightarrow> int \<Rightarrow> game_message \<Rightarrow> message_mod \<Rightarrow> message_mod \<times> string option" where
  "forward_remote g mid msg m =
     (if msg = NotSerializable then (m, Some ''remote_send:AttributeError'')
      else case filtered_message g msg m of (m1, f) \<Rightarrow>
        (let raw = me_serialize g f in
         if MAX_RAW_BYTES < length raw then (m1, Some ''remote_send:ValueError:payload_too_large'')
         else case mm_emit (me_up g) ''game.raw_message'' (raw_payload mid raw) m1 of
           (m2, Inl e) \<Rightarrow> (m2, Some (''remote_send:'' @ exc_class e @ '':'' @ exc_text e))
         | (m2, Inr False) \<Rightarrow> (m2, Some ''remote_send:ValueError:bridge_disconnected'')
         | (m2, Inr True) \<Rightarrow> (m2, None)))"

section \<open>The clock\<close>

record clock_mod =
  ck_role :: pyval
  ck_bridge :: bridge_client
  ck_bypass :: bool
  ck_requests :: int
  ck_applied :: int
  ck_error :: "py_error option"
  ck_calls :: "(string \<times> gval) list"

text \<open>
  The value of a speed: its number, else the number of its name, 1 for an unknown one.
\<close>

definition speed_names :: "(string \<times> int) list" where
  "speed_names = [(''PAUSED'', 0), (''NORMAL'', 1), (''SPEED2'', 2), (''SPEED3'', 3)]"

definition clock_speed_value :: "(gval \<Rightarrow> string) \<Rightarrow> gval \<Rightarrow> int" where
  "clock_speed_value text v =
     (case gint (case gattr_opt v ''value'' of None \<Rightarrow> v | Some w \<Rightarrow> w) of
        Some i \<Rightarrow> i
      | None \<Rightarrow>
          (case map_of speed_names (map upper_char (text (case gattr_opt v ''name'' of None \<Rightarrow> v | Some w \<Rightarrow> w))) of
             Some i \<Rightarrow> i
           | None \<Rightarrow> 1))"

record clock_env =
  ce_text :: "gval \<Rightarrow> string"
  ce_clock_up :: bool
  ce_original :: "string \<Rightarrow> gval \<Rightarrow> py_error option"
  ce_service :: "py_error option"

definition ck_emit :: "clock_env \<Rightarrow> string \<Rightarrow> pydict \<Rightarrow> clock_mod \<Rightarrow> clock_mod \<times> (py_error + bool)" where
  "ck_emit g ty d m = (case bridge_send (ce_clock_up g) ty d (ck_bridge m) of (b, r) \<Rightarrow> (m\<lparr>ck_bridge := b\<rparr>, r))"

datatype clock_call = SetSpeed gval | PushSpeed gval | PopSpeed gval

definition call_entry :: "clock_call \<Rightarrow> string \<times> gval" where
  "call_entry c = (case c of
     SetSpeed v \<Rightarrow> (''set_clock_speed'', v) | PushSpeed v \<Rightarrow> (''push_speed'', v) | PopSpeed v \<Rightarrow> (''pop_speed'', v))"

text \<open>\<open>_clock_request\<close>, and what a client asks for instead of each call.\<close>

definition clock_request :: "clock_env \<Rightarrow> clock_call \<Rightarrow> clock_mod \<Rightarrow> clock_mod \<times> py_error option" where
  "clock_request g c m =
     (let m1 = m\<lparr>ck_requests := ck_requests m + 1\<rparr>;
          out = (case c of
             PopSpeed v \<Rightarrow> (''clock.request_pause'', [(''paused'', VBool False)])
           | SetSpeed v \<Rightarrow> (''clock.request_speed'', [(''speed'', VInt (max 0 (min 3 (clock_speed_value (ce_text g) v))))])
           | PushSpeed v \<Rightarrow> (''clock.request_speed'', [(''speed'', VInt (max 0 (min 3 (clock_speed_value (ce_text g) v))))]))
      in case ck_emit g (fst out) (snd out) m1 of
           (m2, Inl e) \<Rightarrow> (m2, Some e)
         | (m2, Inr _) \<Rightarrow> (m2, None))"

text \<open>
  What \<open>pop_speed\<close> reports is the argument it was given, which is the value popped, not the
  speed in force afterwards.
\<close>

definition clock_report :: "clock_env \<Rightarrow> clock_call \<Rightarrow> pydict" where
  "clock_report g c =
     (case c of
        PopSpeed v \<Rightarrow> [(''speed'', VInt (clock_speed_value (ce_text g) v)), (''paused'', VBool False)]
      | SetSpeed v \<Rightarrow> [(''speed'', VInt (clock_speed_value (ce_text g) v)),
                       (''paused'', VBool (clock_speed_value (ce_text g) v = 0))]
      | PushSpeed v \<Rightarrow> [(''speed'', VInt (clock_speed_value (ce_text g) v)),
                        (''paused'', VBool (clock_speed_value (ce_text g) v = 0))])"

text \<open>The wrapped clock functions; the game's own calls are listed.\<close>

definition clock_wrapped :: "clock_env \<Rightarrow> clock_call \<Rightarrow> clock_mod \<Rightarrow> clock_mod \<times> py_error option" where
  "clock_wrapped g c m =
     (let run = (\<lambda>m. (m\<lparr>ck_calls := ck_calls m @ [call_entry c]\<rparr>, ce_original g (fst (call_entry c)) (snd (call_entry c))))
      in if ck_bypass m then run m
         else if ck_role m = VStr ''client'' then clock_request g c m
         else case run m of
           (m1, Some e) \<Rightarrow> (m1, Some e)
         | (m1, None) \<Rightarrow>
             (case ck_emit g ''clock.state'' (clock_report g c) m1 of
                (m2, Inl e) \<Rightarrow> (m2, Some e)
              | (m2, Inr _) \<Rightarrow> (m2, None)))"

text \<open>
  \<open>_clock_state\<close>: the host's decision is applied with the hooks bypassed; a setter that does
  not take the keywords is called again without them.
\<close>

definition state_speed :: "(gval \<Rightarrow> string) \<Rightarrow> pydict \<Rightarrow> int" where
  "state_speed text d =
     (let speed = clock_speed_value text (unwire (pget_default d ''speed'' (VInt (if truthy (pget d ''paused'') then 0 else 1))))
      in if truthy (pget d ''paused'') then 0 else max 1 (min 3 speed))"

definition speed_mode :: "int \<Rightarrow> gval" where
  "speed_mode n = GObj ''clock.ClockSpeedMode'' [(''value'', GInt n)]"

definition clock_state :: "clock_env \<Rightarrow> pydict \<Rightarrow> clock_mod \<Rightarrow> clock_mod" where
  "clock_state g d m =
     (case ce_service g of
        Some e \<Rightarrow> m\<lparr>ck_error := Some e, ck_bypass := False\<rparr>
      | None \<Rightarrow>
         (let call = SetSpeed (speed_mode (state_speed (ce_text g) d));
              m1 = m\<lparr>ck_bypass := True\<rparr>;
              (m2, r) = clock_wrapped g call m1;
              (m3, r1) = (case r of
                 Some (TypeError t) \<Rightarrow> clock_wrapped g call m2
               | _ \<Rightarrow> (m2, r))
          in case r1 of
               None \<Rightarrow> m3\<lparr>ck_applied := ck_applied m3 + 1, ck_error := None, ck_bypass := False\<rparr>
             | Some e \<Rightarrow> m3\<lparr>ck_error := Some e, ck_bypass := False\<rparr>))"

section \<open>Properties of the copy\<close>

definition view_ops :: "view_op list option list \<Rightarrow> view_op list" where
  "view_ops es = concat (map (\<lambda>x. case x of None \<Rightarrow> [] | Some xs \<Rightarrow> xs) es)"

text \<open>The copy holds the operations of the original that are not local, in their order.\<close>

lemma view_ops_filter: "view_ops (filter_entries loc es) = filter (\<lambda>x. fst x \<notin> loc) (view_ops es)"
  by (induction loc es rule: filter_entries.induct) (auto simp: view_ops_def keep_ops_def)

lemma filter_entries_idem: "filter_entries loc (filter_entries loc es) = filter_entries loc es"
  by (induction loc es rule: filter_entries.induct) (auto simp: keep_ops_def)

lemma length_view_ops: "length (view_ops (filter_entries loc es)) + removed_ops loc es = length (view_ops es)"
proof (induction loc es rule: filter_entries.induct)
  case (3 loc xs es)
  have "length (keep_ops loc xs) \<le> length xs"
    by (simp add: keep_ops_def)
  with 3 show ?case
    by (auto simp: view_ops_def)
qed (simp_all add: view_ops_def)

definition mm_out :: "message_mod \<Rightarrow> (string \<times> pydict) list" where
  "mm_out m = bc_sent (mm_bridge m)"

lemma mm_frame [simp]:
  "mm_out (count_message k n m) = mm_out m" "mm_bridge (count_message k n m) = mm_bridge m"
  "mm_role (count_message k n m) = mm_role m"
  by (simp_all add: count_message_def mm_out_def)

text \<open>
  What the copy has to be, said without the code's loop: every entry that has an operation for the
  other screens, or has no list at all, with just those operations.
\<close>

definition for_others :: "int set \<Rightarrow> view_op list option \<Rightarrow> bool" where
  "for_others loc e = (case e of None \<Rightarrow> True | Some xs \<Rightarrow> \<exists>x \<in> set xs. fst x \<notin> loc)"

definition remote_copy :: "int set \<Rightarrow> game_message \<Rightarrow> game_message" where
  "remote_copy loc msg =
     (case msg of
        ViewUpdate es \<Rightarrow> ViewUpdate (map (map_option (filter (\<lambda>x. fst x \<notin> loc))) (filter (for_others loc) es))
      | _ \<Rightarrow> msg)"

definition message_ops :: "game_message \<Rightarrow> view_op list" where
  "message_ops msg = (case msg of ViewUpdate es \<Rightarrow> view_ops es | _ \<Rightarrow> [])"

lemma filter_entries_spec:
  "filter_entries loc es = map (map_option (filter (\<lambda>x. fst x \<notin> loc))) (filter (for_others loc) es)"
  by (induction loc es rule: filter_entries.induct) (auto simp: keep_ops_def for_others_def filter_empty_conv)

lemma copy_ops: "message_ops (remote_copy loc msg) = filter (\<lambda>x. fst x \<notin> loc) (message_ops msg)"
  by (simp add: message_ops_def remote_copy_def filter_entries_spec [symmetric] view_ops_filter split: game_message.split)

definition outgoing :: "message_env \<Rightarrow> game_message \<Rightarrow> byte list" where
  "outgoing g msg = me_serialize g (remote_copy (me_local_ops g) msg)"

lemma filtered_outgoing:
  "filtered_message g msg m = (m1, f) \<Longrightarrow> me_serialize g f = outgoing g msg \<and> mm_bridge m1 = mm_bridge m"
  by (auto simp: filtered_message_def outgoing_def remote_copy_def filter_entries_spec split: game_message.splits)

text \<open>Which messages leave the host, and with what bytes.\<close>

definition leaves :: "message_env \<Rightarrow> int \<Rightarrow> game_message \<Rightarrow> message_mod \<Rightarrow> bool" where
  "leaves g mid msg m \<longleftrightarrow> mm_role m = VStr ''host'' \<and> \<not> local_only g mid \<and> msg \<noteq> NotSerializable \<and>
     length (outgoing g msg) \<le> MAX_RAW_BYTES \<and> bc_open (mm_bridge m) \<and> me_up g"

lemma capture_leaves:
  "mm_out (capture_message g mid msg m) =
     mm_out m @ (if leaves g mid msg m then [(''game.raw_message'', raw_payload mid (outgoing g msg))] else [])"
proof -
  obtain m1 f where f: "filtered_message g msg (count_message ''observed'' 1 m) = (m1, f)"
    by fastforce
  have out: "me_serialize g f = outgoing g msg" "mm_bridge m1 = mm_bridge m"
    using filtered_outgoing [OF f] by simp_all
  have emit: "mm_emit up ty d m1 =
      (if \<not> bc_open (mm_bridge m) then (m1, Inr False)
       else if up then (m1\<lparr>mm_bridge := (mm_bridge m)\<lparr>bc_sent := bc_sent (mm_bridge m) @ [(ty, d)]\<rparr>\<rparr>, Inr True)
       else (m1, Inl (OSError ''sendall failed'')))" for up ty d
    using out(2) by (simp add: mm_emit_def bridge_send_def split: prod.split)
  show ?thesis
    using out
    by (auto simp: capture_message_def Let_def f emit leaves_def note_replicated_def mm_out_def)
qed

section \<open>Properties of the clock\<close>

definition ck_out :: "clock_mod \<Rightarrow> (string \<times> pydict) list" where
  "ck_out m = bc_sent (ck_bridge m)"

text \<open>A client's own clock never runs unless the host's decision is being applied.\<close>

lemma clock_client_asks:
  assumes "ck_role m = VStr ''client''" and "\<not> ck_bypass m" and "bc_open (ck_bridge m)" and "ce_clock_up g"
  shows "ck_calls (fst (clock_wrapped g c m)) = ck_calls m"
    and "\<exists>msg. ck_out (fst (clock_wrapped g c m)) = ck_out m @ [msg] \<and> fst msg \<in> {''clock.request_speed'', ''clock.request_pause''}"
  using assms by (auto simp: clock_wrapped_def clock_request_def ck_emit_def bridge_send_def ck_out_def Let_def
      split: clock_call.split)

lemma clock_client_never_runs:
  assumes "ck_role m = VStr ''client''" and "\<not> ck_bypass m"
  shows "ck_calls (fst (clock_wrapped g c m)) = ck_calls m"
  using assms by (auto simp: clock_wrapped_def clock_request_def ck_emit_def Let_def split: prod.split sum.split)

lemma state_speed_range: "0 \<le> state_speed text d \<and> state_speed text d \<le> 3"
  by (auto simp: state_speed_def Let_def)

lemma state_speed_zero: "state_speed text d = 0 \<longleftrightarrow> truthy (pget d ''paused'')"
  by (auto simp: state_speed_def Let_def)

lemma wrapped_bypass:
  "ck_bypass m \<Longrightarrow> clock_wrapped g c m =
     (m\<lparr>ck_calls := ck_calls m @ [call_entry c]\<rparr>, ce_original g (fst (call_entry c)) (snd (call_entry c)))"
  by (simp add: clock_wrapped_def Let_def)

text \<open>Applying the host's decision sends nothing back, and the bypass ends with it.\<close>

lemma clock_state_quiet:
  "ck_bridge (clock_state g d m) = ck_bridge m \<and> \<not> ck_bypass (clock_state g d m)"
  by (auto simp: clock_state_def Let_def wrapped_bypass split: option.split py_error.split)

lemma clock_state_applies:
  assumes "ce_service g = None" and "ce_original g ''set_clock_speed'' (speed_mode (state_speed (ce_text g) d)) = None"
  shows "ck_calls (clock_state g d m) = ck_calls m @ [(''set_clock_speed'', speed_mode (state_speed (ce_text g) d))] \<and>
    ck_applied (clock_state g d m) = ck_applied m + 1"
  using assms by (simp add: clock_state_def Let_def wrapped_bypass call_entry_def)

end
