(* ===== verification/Readiness.thy ===== *)
theory Readiness
  imports KerMP_Prelude
begin

text \<open>
  \<^verbatim>\<open>src/kermp/readiness.py\<close>: the readiness record of a player and the lifecycle
  state derived from it. The fields a peer writes over the wire hold whatever JSON value
  it sent, so they are payload values; a float the program computes has an empty text,
  its printed form is not modelled.
\<close>

datatype lifecycle =
    CONNECTED | COMPATIBILITY_CHECKED | COMPATIBLE | SAVE_SYNCING | SAVE_SYNCED
  | SIMS_BRIDGE_WAITING | SIMS_BRIDGE_CONNECTED | ZONE_LOADING | ZONE_READY
  | GAME_READY | IN_SESSION | DISCONNECTED | LERROR

primrec lifecycle_value :: "lifecycle \<Rightarrow> string" where
  "lifecycle_value CONNECTED = ''CONNECTED''"
| "lifecycle_value COMPATIBILITY_CHECKED = ''COMPATIBILITY_CHECKED''"
| "lifecycle_value COMPATIBLE = ''COMPATIBLE''"
| "lifecycle_value SAVE_SYNCING = ''SAVE_SYNCING''"
| "lifecycle_value SAVE_SYNCED = ''SAVE_SYNCED''"
| "lifecycle_value SIMS_BRIDGE_WAITING = ''SIMS_BRIDGE_WAITING''"
| "lifecycle_value SIMS_BRIDGE_CONNECTED = ''SIMS_BRIDGE_CONNECTED''"
| "lifecycle_value ZONE_LOADING = ''ZONE_LOADING''"
| "lifecycle_value ZONE_READY = ''ZONE_READY''"
| "lifecycle_value GAME_READY = ''GAME_READY''"
| "lifecycle_value IN_SESSION = ''IN_SESSION''"
| "lifecycle_value DISCONNECTED = ''DISCONNECTED''"
| "lifecycle_value LERROR = ''ERROR''"

record readiness =
  rd_state :: lifecycle
  rd_reasons :: "string list"
  rd_save_received :: pyval
  rd_save_total :: pyval
  rd_save_hash :: pyval
  rd_bridge :: pyval
  rd_zone :: pyval
  rd_authority :: pyval
  rd_native :: pyval
  rd_error :: pyval

definition new_readiness :: readiness where
  "new_readiness = \<lparr>rd_state = CONNECTED, rd_reasons = [], rd_save_received = VInt 0,
     rd_save_total = VInt 0, rd_save_hash = VStr [], rd_bridge = VBool False,
     rd_zone = VBool False, rd_authority = VBool False, rd_native = VBool False,
     rd_error = VStr []\<rparr>"

text \<open>\<open>save_progress\<close>: true division, a \<open>TypeError\<close> for operands that are not numbers.\<close>

fun py_number :: "pyval \<Rightarrow> rat option" where
  "py_number (VBool b) = Some (if b then 1 else 0)"
| "py_number (VInt i) = Some (of_int i)"
| "py_number (VFloat r t) = Some r"
| "py_number _ = None"

definition save_progress :: "readiness \<Rightarrow> py_error + rat" where
  "save_progress r =
     (if truthy (rd_save_total r)
      then case (py_number (rd_save_received r), py_number (rd_save_total r)) of
             (Some a, Some b) \<Rightarrow> Inr (a / b)
           | _ \<Rightarrow> Inl (TypeError (''unsupported operand type(s) for /: '' @
                   repr_str (type_name (rd_save_received r)) @ '' and '' @
                   repr_str (type_name (rd_save_total r))))
      else Inr 0)"

text \<open>The \<open>ready\<close> property: the value of the chain of \<open>and\<close>s.\<close>

definition ready_value :: "readiness \<Rightarrow> pyval" where
  "ready_value r =
     py_and (VBool (rd_reasons r = []))
      (py_and (VBool (\<not> py_eq (rd_save_hash r) (VStr [])))
       (py_and (rd_bridge r)
        (py_and (rd_zone r)
         (py_and (rd_authority r)
          (py_and (rd_native r) (VBool (\<not> truthy (rd_error r))))))))"

definition advance_state :: "readiness \<Rightarrow> lifecycle" where
  "advance_state r =
     (if truthy (rd_error r) then LERROR
      else if truthy (ready_value r) then GAME_READY
      else if truthy (rd_zone r) then ZONE_READY
      else if truthy (rd_bridge r) then SIMS_BRIDGE_CONNECTED
      else if truthy (rd_save_hash r) then SAVE_SYNCED
      else if truthy (rd_save_total r) then SAVE_SYNCING
      else if rd_reasons r \<noteq> [] then COMPATIBILITY_CHECKED
      else COMPATIBLE)"

definition advance :: "readiness \<Rightarrow> readiness" where
  "advance r = r\<lparr>rd_state := advance_state r\<rparr>"

definition readiness_snapshot :: "readiness \<Rightarrow> py_error + pydict" where
  "readiness_snapshot r =
     (case save_progress r of
        Inl e \<Rightarrow> Inl e
      | Inr p \<Rightarrow> Inr
         [(''state'', VStr (lifecycle_value (rd_state r))),
          (''compatibility_reasons'', VList (map VStr (rd_reasons r))),
          (''save_bytes_received'', rd_save_received r),
          (''save_total_bytes'', rd_save_total r),
          (''save_hash'', rd_save_hash r),
          (''bridge_connected'', rd_bridge r),
          (''zone_ready'', rd_zone r),
          (''simulation_authority_ready'', rd_authority r),
          (''native_ready'', rd_native r),
          (''error'', rd_error r),
          (''save_progress'', VFloat p []),
          (''ready'', ready_value r)])"

text \<open>
  \<open>HostSession.update_readiness\<close>'s loop body: \<open>hasattr\<close>, then \<open>setattr\<close>. A method
  or property of the slotted class cannot be assigned; no caller passes \<open>state\<close> or
  \<open>compatibility_reasons\<close>.
\<close>

definition set_readiness_field :: "string \<Rightarrow> pyval \<Rightarrow> readiness \<Rightarrow> py_error + readiness" where
  "set_readiness_field k v r =
     (if k = ''save_bytes_received'' then Inr (r\<lparr>rd_save_received := v\<rparr>)
      else if k = ''save_total_bytes'' then Inr (r\<lparr>rd_save_total := v\<rparr>)
      else if k = ''save_hash'' then Inr (r\<lparr>rd_save_hash := v\<rparr>)
      else if k = ''bridge_connected'' then Inr (r\<lparr>rd_bridge := v\<rparr>)
      else if k = ''zone_ready'' then Inr (r\<lparr>rd_zone := v\<rparr>)
      else if k = ''simulation_authority_ready'' then Inr (r\<lparr>rd_authority := v\<rparr>)
      else if k = ''native_ready'' then Inr (r\<lparr>rd_native := v\<rparr>)
      else if k = ''error'' then Inr (r\<lparr>rd_error := v\<rparr>)
      else if k \<in> {''state'', ''compatibility_reasons''}
        then Inl (Unmodelled ''no caller assigns this field'')
      else if k \<in> {''save_progress'', ''ready'', ''advance'', ''snapshot''}
        then Inl (AttributeError k)
      else Inl (ValueError ''unknown_readiness_field''))"

fun set_readiness_fields :: "pydict \<Rightarrow> readiness \<Rightarrow> readiness \<times> py_error option" where
  "set_readiness_fields [] r = (r, None)"
| "set_readiness_fields ((k, v) # fs) r =
     (case set_readiness_field k v r of
        Inl e \<Rightarrow> (r, Some e)
      | Inr r' \<Rightarrow> set_readiness_fields fs r')"

section \<open>The session-wide summary\<close>

record core_readiness =
  cr_compatibility :: bool
  cr_save :: bool
  cr_bridge :: bool
  cr_zone :: bool
  cr_authority :: bool
  cr_clock :: bool
  cr_interaction_router :: bool
  cr_dialog_router :: bool
  cr_travel :: bool
  cr_native :: bool

definition core_ready :: "core_readiness \<Rightarrow> bool" where
  "core_ready c \<longleftrightarrow> cr_compatibility c \<and> cr_save c \<and> cr_bridge c \<and> cr_zone c \<and> cr_authority c \<and>
     cr_clock c \<and> cr_interaction_router c \<and> cr_dialog_router c \<and> cr_travel c \<and> cr_native c"

section \<open>Properties\<close>

text \<open>Every gate of \<open>ready\<close>, read off the value.\<close>

lemma ready_iff:
  "truthy (ready_value r) \<longleftrightarrow>
     rd_reasons r = [] \<and> \<not> py_eq (rd_save_hash r) (VStr []) \<and> truthy (rd_bridge r) \<and>
     truthy (rd_zone r) \<and> truthy (rd_authority r) \<and> truthy (rd_native r) \<and> \<not> truthy (rd_error r)"
  by (simp add: ready_value_def)

lemma advance_simps [simp]:
  "rd_state (advance r) = advance_state r" "rd_reasons (advance r) = rd_reasons r"
  "rd_save_hash (advance r) = rd_save_hash r" "rd_bridge (advance r) = rd_bridge r"
  "rd_zone (advance r) = rd_zone r" "rd_authority (advance r) = rd_authority r"
  "rd_native (advance r) = rd_native r" "rd_error (advance r) = rd_error r"
  "rd_save_total (advance r) = rd_save_total r" "rd_save_received (advance r) = rd_save_received r"
  by (simp_all add: advance_def)

lemma advance_state_advance [simp]: "advance_state (advance r) = advance_state r"
  by (simp add: advance_state_def ready_value_def)

lemma advance_idem: "advance (advance r) = advance r"
  by (simp add: advance_def advance_state_def ready_value_def)

lemma game_ready_iff: "advance_state r = GAME_READY \<longleftrightarrow> truthy (ready_value r)"
  by (auto simp: advance_state_def ready_iff)

lemma error_iff: "advance_state r = LERROR \<longleftrightarrow> truthy (rd_error r)"
  by (simp add: advance_state_def)

text \<open>A state \<open>advance\<close> never leaves behind.\<close>

lemma advance_state_range:
  "advance_state r \<in> {LERROR, GAME_READY, ZONE_READY, SIMS_BRIDGE_CONNECTED, SAVE_SYNCED,
     SAVE_SYNCING, COMPATIBILITY_CHECKED, COMPATIBLE}"
  by (simp add: advance_state_def)

text \<open>The order the lifecycle is meant to progress in.\<close>

primrec lifecycle_rank :: "lifecycle \<Rightarrow> nat" where
  "lifecycle_rank CONNECTED = 0"
| "lifecycle_rank COMPATIBILITY_CHECKED = 1"
| "lifecycle_rank COMPATIBLE = 2"
| "lifecycle_rank SAVE_SYNCING = 3"
| "lifecycle_rank SAVE_SYNCED = 4"
| "lifecycle_rank SIMS_BRIDGE_WAITING = 5"
| "lifecycle_rank SIMS_BRIDGE_CONNECTED = 6"
| "lifecycle_rank ZONE_LOADING = 7"
| "lifecycle_rank ZONE_READY = 8"
| "lifecycle_rank GAME_READY = 9"
| "lifecycle_rank IN_SESSION = 10"
| "lifecycle_rank DISCONNECTED = 11"
| "lifecycle_rank LERROR = 12"

definition gates_le :: "readiness \<Rightarrow> readiness \<Rightarrow> bool" where
  "gates_le r r' \<longleftrightarrow> (rd_reasons r = [] \<longrightarrow> rd_reasons r' = []) \<and>
     (truthy (rd_save_total r) \<longrightarrow> truthy (rd_save_total r')) \<and>
     (truthy (rd_save_hash r) \<longrightarrow> truthy (rd_save_hash r')) \<and>
     (py_eq (rd_save_hash r') (VStr []) \<longrightarrow> py_eq (rd_save_hash r) (VStr [])) \<and>
     (truthy (rd_bridge r) \<longrightarrow> truthy (rd_bridge r')) \<and>
     (truthy (rd_zone r) \<longrightarrow> truthy (rd_zone r')) \<and>
     (truthy (rd_authority r) \<longrightarrow> truthy (rd_authority r')) \<and>
     (truthy (rd_native r) \<longrightarrow> truthy (rd_native r')) \<and>
     (truthy (rd_error r) \<longrightarrow> truthy (rd_error r'))"

lemma advance_mono:
  assumes "gates_le r r'"
  shows "lifecycle_rank (advance_state r) \<le> lifecycle_rank (advance_state r')"
proof (cases "truthy (rd_error r')")
  case True
  then have "advance_state r' = LERROR" by (simp add: error_iff)
  then show ?thesis
    using advance_state_range [of r] by auto
next
  case False
  then have e: "\<not> truthy (rd_error r)" using assms by (auto simp: gates_le_def)
  show ?thesis
    using assms False e
    by (auto simp: gates_le_def advance_state_def ready_iff)
qed

text \<open>The progress of a player as the order of the lifecycle.\<close>

lemma lifecycle_rank_inj [simp]: "lifecycle_rank a = lifecycle_rank b \<longleftrightarrow> a = b"
  by (cases a; cases b) simp_all

instantiation lifecycle :: linorder
begin

definition less_eq_lifecycle :: "lifecycle \<Rightarrow> lifecycle \<Rightarrow> bool" where
  "less_eq_lifecycle a b \<longleftrightarrow> lifecycle_rank a \<le> lifecycle_rank b"

definition less_lifecycle :: "lifecycle \<Rightarrow> lifecycle \<Rightarrow> bool" where
  "less_lifecycle a b \<longleftrightarrow> lifecycle_rank a < lifecycle_rank b"

instance
  by standard (auto simp: less_eq_lifecycle_def less_lifecycle_def dest: order.antisym)

end

lemma advance_monotone: "gates_le r r' \<Longrightarrow> advance_state r \<le> advance_state r'"
  by (simp add: less_eq_lifecycle_def advance_mono)

lemma set_field_state: "set_readiness_field k v r = Inr r' \<Longrightarrow> rd_state r' = rd_state r \<and> rd_reasons r' = rd_reasons r"
  by (auto simp: set_readiness_field_def split: if_splits)

lemma set_fields_reasons: "rd_reasons (fst (set_readiness_fields fs r)) = rd_reasons r"
  by (induction fs r rule: set_readiness_fields.induct) (auto split: sum.splits dest: set_field_state)

end
