(* ===== verification/Compatibility.thy ===== *)
theory Compatibility
  imports Protocol
begin

text \<open>
  \<^verbatim>\<open>src/kermp/compatibility.py\<close>: the compatibility manifest a peer sends in its
  hello, its decoding, and the comparison with the host's. The decoded fields are not
  checked by the code, so they are payload values, except the pack lists, which
  \<open>from_dict\<close> turns into sorted text. Reading the game version file and hashing the mod
  package are arguments.
\<close>

definition UNKNOWN :: string where "UNKNOWN = ''UNKNOWN''"

record compat_manifest =
  m_player_id :: pyval
  m_display_name :: pyval
  m_protocol :: pyval
  m_sidecar :: pyval
  m_sims_mod :: pyval
  m_sims_mod_protocol :: pyval
  m_native_available :: pyval
  m_native_api :: pyval
  m_native_supported :: pyval
  m_game_version :: pyval
  m_enabled_packs :: "string list"
  m_installed_packs :: "string list"
  m_package_hash :: pyval
  m_fingerprint :: pyval

text \<open>The dataclass defaults.\<close>

definition default_manifest :: "pyval \<Rightarrow> pyval \<Rightarrow> compat_manifest" where
  "default_manifest pid name =
     \<lparr>m_player_id = pid, m_display_name = name, m_protocol = VInt PROTOCOL_VERSION,
      m_sidecar = VStr KERMP_VERSION, m_sims_mod = VStr KERMP_VERSION,
      m_sims_mod_protocol = VInt SIMS_MOD_PROTOCOL_VERSION, m_native_available = VBool False,
      m_native_api = VInt NATIVE_API_VERSION, m_native_supported = VBool False,
      m_game_version = VStr UNKNOWN, m_enabled_packs = [], m_installed_packs = [],
      m_package_hash = VStr UNKNOWN, m_fingerprint = VStr UNKNOWN\<rparr>"

text \<open>\<open>CompatibilityManifest.local\<close>, given what it reads from the machine.\<close>

definition local_manifest ::
  "string \<Rightarrow> string \<Rightarrow> bool \<Rightarrow> bool \<Rightarrow> string \<Rightarrow> string list \<Rightarrow> string list \<Rightarrow> string \<Rightarrow> compat_manifest" where
  "local_manifest pid name native supported version enabled installed pkg =
     (default_manifest (VStr pid) (VStr name))
       \<lparr>m_native_available := VBool native, m_native_supported := VBool supported,
        m_game_version := VStr version, m_enabled_packs := enabled,
        m_installed_packs := installed, m_package_hash := VStr pkg\<rparr>"

text \<open>\<open>package_hash\<close>: no path or an unreadable file is \<open>UNKNOWN\<close>.\<close>

definition package_hash :: "('b \<Rightarrow> string) \<Rightarrow> ('p \<Rightarrow> 'b option) \<Rightarrow> 'p option \<Rightarrow> string" where
  "package_hash sha256 read path =
     (case path of None \<Rightarrow> UNKNOWN
      | Some p \<Rightarrow> (case read p of None \<Rightarrow> UNKNOWN | Some b \<Rightarrow> sha256 b))"

text \<open>\<open>tuple(sorted(map(str, value or ())))\<close>.\<close>

definition packs_of :: "pyval \<Rightarrow> py_error + string list" where
  "packs_of v =
     (case py_iter (py_or v (VList [])) of
        Inl e \<Rightarrow> Inl e
      | Inr xs \<Rightarrow> Inr (sort (map py_str xs)))"

definition packs_field :: "pydict \<Rightarrow> string \<Rightarrow> py_error + string list" where
  "packs_field d k = (case map_of d k of None \<Rightarrow> Inr [] | Some v \<Rightarrow> packs_of v)"

definition missing_arguments :: "pydict \<Rightarrow> py_error option" where
  "missing_arguments d =
     (let f = ''CompatibilityManifest.__init__() missing '' in
      if map_of d ''player_id'' = None \<and> map_of d ''display_name'' = None
      then Some (TypeError (f @ ''2 required positional arguments: '' @ repr_str ''player_id'' @
             '' and '' @ repr_str ''display_name''))
      else if map_of d ''player_id'' = None
      then Some (TypeError (f @ ''1 required positional argument: '' @ repr_str ''player_id''))
      else if map_of d ''display_name'' = None
      then Some (TypeError (f @ ''1 required positional argument: '' @ repr_str ''display_name''))
      else None)"

definition manifest_of :: "pydict \<Rightarrow> py_error + compat_manifest" where
  "manifest_of d =
     (case packs_field d ''enabled_packs'' of
        Inl e \<Rightarrow> Inl e
      | Inr enabled \<Rightarrow>
     (case packs_field d ''installed_packs'' of
        Inl e \<Rightarrow> Inl e
      | Inr installed \<Rightarrow>
     (case missing_arguments d of
        Some e \<Rightarrow> Inl e
      | None \<Rightarrow>
        Inr \<lparr>m_player_id = pget d ''player_id'', m_display_name = pget d ''display_name'',
          m_protocol = pget_default d ''kermp_protocol_version'' (VInt PROTOCOL_VERSION),
          m_sidecar = pget_default d ''kermp_sidecar_version'' (VStr KERMP_VERSION),
          m_sims_mod = pget_default d ''kermp_sims_mod_version'' (VStr KERMP_VERSION),
          m_sims_mod_protocol = pget_default d ''sims_mod_protocol_version'' (VInt SIMS_MOD_PROTOCOL_VERSION),
          m_native_available = pget_default d ''native_available'' (VBool False),
          m_native_api = pget_default d ''native_api_version'' (VInt NATIVE_API_VERSION),
          m_native_supported = pget_default d ''native_game_build_supported'' (VBool False),
          m_game_version = pget_default d ''game_version'' (VStr UNKNOWN),
          m_enabled_packs = enabled, m_installed_packs = installed,
          m_package_hash = pget_default d ''sims_mod_package_hash'' (VStr UNKNOWN),
          m_fingerprint = pget_default d ''native_build_fingerprint'' (VStr UNKNOWN)\<rparr>)))"

definition manifest_dict :: "compat_manifest \<Rightarrow> pydict" where
  "manifest_dict m =
     [(''player_id'', m_player_id m), (''display_name'', m_display_name m),
      (''kermp_protocol_version'', m_protocol m), (''kermp_sidecar_version'', m_sidecar m),
      (''kermp_sims_mod_version'', m_sims_mod m), (''sims_mod_protocol_version'', m_sims_mod_protocol m),
      (''native_available'', m_native_available m), (''native_api_version'', m_native_api m),
      (''native_game_build_supported'', m_native_supported m), (''game_version'', m_game_version m),
      (''enabled_packs'', VList (map VStr (m_enabled_packs m))),
      (''installed_packs'', VList (map VStr (m_installed_packs m))),
      (''sims_mod_package_hash'', m_package_hash m), (''native_build_fingerprint'', m_fingerprint m)]"

definition native_mismatch :: "compat_manifest \<Rightarrow> compat_manifest \<Rightarrow> bool" where
  "native_mismatch h c \<longleftrightarrow> \<not> truthy (m_native_available h) \<or> \<not> truthy (m_native_available c) \<or>
     \<not> truthy (m_native_supported h) \<or> \<not> truthy (m_native_supported c) \<or>
     \<not> py_eq (m_native_api h) (m_native_api c)"

definition compare_manifests :: "compat_manifest \<Rightarrow> compat_manifest \<Rightarrow> bool \<Rightarrow> string list" where
  "compare_manifests h c native_required =
     (if \<not> py_eq (m_protocol h) (m_protocol c) \<or> \<not> py_eq (m_sims_mod_protocol h) (m_sims_mod_protocol c)
      then [''protocol_mismatch''] else []) @
     (if \<not> py_eq (m_sidecar h) (m_sidecar c) then [''sidecar_version_mismatch''] else []) @
     (if \<not> py_eq (m_sims_mod h) (m_sims_mod c) then [''sims_mod_mismatch''] else []) @
     (if py_eq (m_game_version h) (VStr UNKNOWN) \<or> py_eq (m_game_version c) (VStr UNKNOWN) \<or>
         \<not> py_eq (m_game_version h) (m_game_version c)
      then [''game_version_mismatch''] else []) @
     (if m_enabled_packs h \<noteq> m_enabled_packs c then [''pack_mismatch''] else []) @
     (if native_required \<and> native_mismatch h c then [''native_api_mismatch''] else [])"

section \<open>Properties\<close>

lemma py_eq_commute: "py_eq a b \<longleftrightarrow> py_eq b a"
  by (auto simp: py_eq_def)

lemma native_mismatch_sym: "native_mismatch h c \<longleftrightarrow> native_mismatch c h"
  by (auto simp: native_mismatch_def py_eq_def)

text \<open>Host and client come to the same verdict.\<close>

lemma compare_sym: "compare_manifests h c nr = compare_manifests c h nr"
proof -
  let ?gh = "m_game_version h" and ?gc = "m_game_version c" and ?u = "VStr UNKNOWN"
  have 1: "\<And>f. py_eq (f h) (f c) \<longleftrightarrow> py_eq (f c) (f h)" for f :: "compat_manifest \<Rightarrow> pyval"
    by (rule py_eq_commute)
  have 2: "(py_eq ?gh ?u \<or> py_eq ?gc ?u \<or> \<not> py_eq ?gh ?gc) \<longleftrightarrow>
      (py_eq ?gc ?u \<or> py_eq ?gh ?u \<or> \<not> py_eq ?gc ?gh)"
    by (auto simp: py_eq_commute)
  have 3: "(m_enabled_packs h \<noteq> m_enabled_packs c) \<longleftrightarrow> (m_enabled_packs c \<noteq> m_enabled_packs h)"
    by auto
  show ?thesis
    unfolding compare_manifests_def 2 3 native_mismatch_sym [of h c]
      1 [of m_protocol] 1 [of m_sims_mod_protocol] 1 [of m_sidecar] 1 [of m_sims_mod]
    by (rule refl)
qed

lemma compatible_iff:
  "compare_manifests h c nr = [] \<longleftrightarrow>
     py_eq (m_protocol h) (m_protocol c) \<and> py_eq (m_sims_mod_protocol h) (m_sims_mod_protocol c) \<and>
     py_eq (m_sidecar h) (m_sidecar c) \<and> py_eq (m_sims_mod h) (m_sims_mod c) \<and>
     \<not> py_eq (m_game_version h) (VStr UNKNOWN) \<and> py_eq (m_game_version h) (m_game_version c) \<and>
     m_enabled_packs h = m_enabled_packs c \<and> (nr \<longrightarrow> \<not> native_mismatch h c)"
  by (auto simp: compare_manifests_def py_eq_def)

text \<open>Compatibility of clients with the same host is compatibility with each other.\<close>

lemma compatible_trans:
  assumes "compare_manifests h a nr = []" and "compare_manifests h b nr = []"
  shows "compare_manifests a b nr = []"
  using assms by (auto simp: compatible_iff native_mismatch_def py_eq_def)

lemma packs_of_texts [simp]: "packs_of (VList (map VStr xs)) = Inr (sort xs)"
  by (cases xs) (simp_all add: packs_of_def py_or_def comp_def)

text \<open>A manifest survives \<open>to_dict\<close>, the wire and \<open>from_dict\<close>.\<close>

lemma manifest_of_dict:
  assumes "sorted (m_enabled_packs m)" and "sorted (m_installed_packs m)"
  shows "manifest_of (manifest_dict m) = Inr m"
  using assms
  by (simp add: manifest_of_def manifest_dict_def packs_field_def missing_arguments_def
      pget_default_def Let_def sort_key_id_if_sorted)

lemma manifest_of_sorted:
  "manifest_of d = Inr m \<Longrightarrow> sorted (m_enabled_packs m) \<and> sorted (m_installed_packs m)"
  by (auto simp: manifest_of_def packs_field_def packs_of_def split: sum.splits option.splits)

end
