(* ===== verification/Travel.thy ===== *)
theory Travel
  imports KerMP_Interfaces
begin

text \<open>
  \<^verbatim>\<open>src/kermp/travel.py\<close>: the host's travel barrier. A transaction waits until
  every participant acknowledged the proposal, is committed, and completes when every
  participant reports the zone loaded. Sets of players are sets; \<open>sorted(players)\<close> is
  the sorted list of the set. The fresh transaction id is an argument.
\<close>

section \<open>State\<close>

datatype travel_phase = IDLE | WAITING_READY | COMMITTED | WAITING_ZONE_READY | COMPLETE | ABORTED

primrec phase_value :: "travel_phase \<Rightarrow> string" where
  "phase_value IDLE = ''idle''"
| "phase_value WAITING_READY = ''waiting_ready''"
| "phase_value COMMITTED = ''committed''"
| "phase_value WAITING_ZONE_READY = ''waiting_zone_ready''"
| "phase_value COMPLETE = ''complete''"
| "phase_value ABORTED = ''aborted''"

record travel_txn =
  tx_epoch :: int
  tx_id :: string
  tx_zone :: string
  tx_actors :: "string list"
  tx_participants :: "string set"
  tx_phase :: travel_phase
  tx_ready :: "string set"
  tx_zone_ready :: "string set"

record coordinator =
  tc_current :: "travel_txn option"
  tc_epoch :: int

definition new_coordinator :: coordinator where
  "new_coordinator = \<lparr>tc_current = None, tc_epoch = 0\<rparr>"

definition finished :: "travel_phase \<Rightarrow> bool" where
  "finished p \<longleftrightarrow> p \<in> {COMPLETE, ABORTED}"

section \<open>Operations\<close>

definition propose ::
  "string \<Rightarrow> string \<Rightarrow> string list \<Rightarrow> string list \<Rightarrow> coordinator \<Rightarrow> py_error + coordinator \<times> travel_txn" where
  "propose txn_id zone actors participants c =
     (if (case tc_current c of None \<Rightarrow> False | Some t \<Rightarrow> \<not> finished (tx_phase t))
      then Inl (RuntimeError ''travel already in progress'')
      else if set participants = {}
      then Inl (ValueError ''travel requires at least one participant'')
      else let t = \<lparr>tx_epoch = tc_epoch c + 1, tx_id = txn_id, tx_zone = zone, tx_actors = actors,
                    tx_participants = set participants, tx_phase = WAITING_READY,
                    tx_ready = {}, tx_zone_ready = {}\<rparr>
           in Inr (\<lparr>tc_current = Some t, tc_epoch = tc_epoch c + 1\<rparr>, t))"

definition get_txn :: "string \<Rightarrow> coordinator \<Rightarrow> py_error + travel_txn" where
  "get_txn txn_id c =
     (case tc_current c of
        None \<Rightarrow> Inl (KeyError ''unknown travel transaction'')
      | Some t \<Rightarrow> if tx_id t \<noteq> txn_id then Inl (KeyError ''unknown travel transaction'') else Inr t)"

text \<open>
  The bodies of the methods on the transaction they look up: the updated transaction and
  the value the method returns.
\<close>

definition txn_mark_ready :: "string \<Rightarrow> int option \<Rightarrow> travel_txn \<Rightarrow> travel_txn \<times> bool" where
  "txn_mark_ready pid epoch t =
     (if epoch \<noteq> None \<and> epoch \<noteq> Some (tx_epoch t) then (t, False)
      else if tx_phase t \<noteq> WAITING_READY then (t, False)
      else let t1 = (if pid \<in> tx_participants t then t\<lparr>tx_ready := insert pid (tx_ready t)\<rparr> else t)
           in if tx_ready t1 = tx_participants t1
              then (t1\<lparr>tx_phase := COMMITTED\<rparr>, True)
              else (t1, False))"

definition txn_mark_zone_ready :: "string \<Rightarrow> int option \<Rightarrow> travel_txn \<Rightarrow> travel_txn \<times> bool" where
  "txn_mark_zone_ready pid epoch t =
     (if epoch \<noteq> None \<and> epoch \<noteq> Some (tx_epoch t) then (t, False)
      else if tx_phase t \<notin> {COMMITTED, WAITING_ZONE_READY} then (t, False)
      else let t1 = t\<lparr>tx_phase := WAITING_ZONE_READY\<rparr>;
               t2 = (if pid \<in> tx_participants t1
                     then t1\<lparr>tx_zone_ready := insert pid (tx_zone_ready t1)\<rparr> else t1)
           in if tx_zone_ready t2 = tx_participants t2
              then (t2\<lparr>tx_phase := COMPLETE\<rparr>, True)
              else (t2, False))"

definition txn_remove :: "string \<Rightarrow> travel_txn \<Rightarrow> travel_txn \<times> bool" where
  "txn_remove pid t =
     (let t1 = t\<lparr>tx_participants := tx_participants t - {pid}, tx_ready := tx_ready t - {pid},
                 tx_zone_ready := tx_zone_ready t - {pid}\<rparr>
      in if tx_phase t1 = WAITING_READY \<and> tx_ready t1 = tx_participants t1
         then (t1\<lparr>tx_phase := COMMITTED\<rparr>, True)
         else if tx_phase t1 = WAITING_ZONE_READY \<and> tx_zone_ready t1 = tx_participants t1
         then (t1\<lparr>tx_phase := COMPLETE\<rparr>, True)
         else (t1, True))"

definition set_txn :: "travel_txn \<times> bool \<Rightarrow> coordinator \<Rightarrow> coordinator \<times> bool" where
  "set_txn r c = (c\<lparr>tc_current := Some (fst r)\<rparr>, snd r)"

definition mark_ready ::
  "string \<Rightarrow> string \<Rightarrow> int option \<Rightarrow> coordinator \<Rightarrow> py_error + coordinator \<times> bool" where
  "mark_ready pid txn_id epoch c =
     (case get_txn txn_id c of
        Inl e \<Rightarrow> Inl e
      | Inr t \<Rightarrow> Inr (set_txn (txn_mark_ready pid epoch t) c))"

definition begin_zone_wait :: "string \<Rightarrow> coordinator \<Rightarrow> py_error + coordinator" where
  "begin_zone_wait txn_id c =
     (case get_txn txn_id c of
        Inl e \<Rightarrow> Inl e
      | Inr t \<Rightarrow> if tx_phase t \<noteq> COMMITTED
                then Inl (RuntimeError ''cannot wait for zone before commit'')
                else Inr (c\<lparr>tc_current := Some (t\<lparr>tx_phase := WAITING_ZONE_READY\<rparr>)\<rparr>))"

definition mark_zone_ready ::
  "string \<Rightarrow> string \<Rightarrow> int option \<Rightarrow> coordinator \<Rightarrow> py_error + coordinator \<times> bool" where
  "mark_zone_ready pid txn_id epoch c =
     (case get_txn txn_id c of
        Inl e \<Rightarrow> Inl e
      | Inr t \<Rightarrow> Inr (set_txn (txn_mark_zone_ready pid epoch t) c))"

definition abort_travel :: "string \<Rightarrow> coordinator \<Rightarrow> py_error + coordinator" where
  "abort_travel txn_id c =
     (case get_txn txn_id c of
        Inl e \<Rightarrow> Inl e
      | Inr t \<Rightarrow> Inr (c\<lparr>tc_current := Some (t\<lparr>tx_phase := ABORTED\<rparr>)\<rparr>))"

definition remove_participant :: "string \<Rightarrow> coordinator \<Rightarrow> coordinator \<times> bool" where
  "remove_participant pid c =
     (case tc_current c of
        None \<Rightarrow> (c, False)
      | Some t \<Rightarrow> if finished (tx_phase t) then (c, False) else set_txn (txn_remove pid t) c)"

definition travel_snapshot :: "coordinator \<Rightarrow> pyval" where
  "travel_snapshot c =
     (case tc_current c of
        None \<Rightarrow> VNone
      | Some t \<Rightarrow>
          if finished (tx_phase t) then VNone
          else VDict
            [(''txn_id'', VStr (tx_id t)), (''epoch'', VInt (tx_epoch t)), (''zone_id'', VStr (tx_zone t)),
             (''actor_ids'', VList (map VStr (tx_actors t))),
             (''participants'', VList (map VStr (sorted_list_of_set (tx_participants t)))),
             (''ready'', VList (map VStr (sorted_list_of_set (tx_ready t)))),
             (''zone_ready'', VList (map VStr (sorted_list_of_set (tx_zone_ready t)))),
             (''phase'', VStr (phase_value (tx_phase t)))])"

lemmas travel_defs = propose_def get_txn_def mark_ready_def begin_zone_wait_def mark_zone_ready_def
  abort_travel_def remove_participant_def set_txn_def txn_mark_ready_def txn_mark_zone_ready_def
  txn_remove_def

section \<open>Invariant\<close>

text \<open>
  What each phase says about the two barriers. A transaction all of whose participants
  left while it was committed waits for nobody, with both sets empty.
\<close>

definition txn_ok :: "travel_txn \<Rightarrow> bool" where
  "txn_ok t \<longleftrightarrow>
     finite (tx_participants t) \<and> tx_ready t \<subseteq> tx_participants t \<and> tx_zone_ready t \<subseteq> tx_participants t \<and>
     (case tx_phase t of
        IDLE \<Rightarrow> False
      | WAITING_READY \<Rightarrow> tx_ready t \<noteq> tx_participants t \<and> tx_zone_ready t = {}
      | COMMITTED \<Rightarrow> tx_ready t = tx_participants t \<and> tx_zone_ready t = {}
      | WAITING_ZONE_READY \<Rightarrow> tx_ready t = tx_participants t \<and>
          (tx_zone_ready t = tx_participants t \<longrightarrow> tx_participants t = {})
      | COMPLETE \<Rightarrow> tx_ready t = tx_participants t \<and> tx_zone_ready t = tx_participants t
      | ABORTED \<Rightarrow> True)"

definition travel_ok :: "coordinator \<Rightarrow> bool" where
  "travel_ok c \<longleftrightarrow> 0 \<le> tc_epoch c \<and>
     (case tc_current c of None \<Rightarrow> True | Some t \<Rightarrow> txn_ok t \<and> tx_epoch t = tc_epoch c)"

lemma travel_ok_new [simp]: "travel_ok new_coordinator"
  by (simp add: travel_ok_def new_coordinator_def)

lemma txn_mark_ready_ok: "txn_ok t \<Longrightarrow> txn_ok (fst (txn_mark_ready pid epoch t))"
  by (auto simp: txn_ok_def txn_mark_ready_def Let_def split: travel_phase.splits if_splits)

lemma txn_mark_zone_ready_ok: "txn_ok t \<Longrightarrow> txn_ok (fst (txn_mark_zone_ready pid epoch t))"
  by (auto simp: txn_ok_def txn_mark_zone_ready_def Let_def split: travel_phase.splits if_splits)

lemma txn_remove_ok: "txn_ok t \<Longrightarrow> txn_ok (fst (txn_remove pid t))"
  by (auto simp: txn_ok_def txn_remove_def Let_def split: travel_phase.splits if_splits)

lemma txn_epoch [simp]:
  "tx_epoch (fst (txn_mark_ready pid epoch t)) = tx_epoch t"
  "tx_epoch (fst (txn_mark_zone_ready pid epoch t)) = tx_epoch t"
  "tx_epoch (fst (txn_remove pid t)) = tx_epoch t"
  by (simp_all add: txn_mark_ready_def txn_mark_zone_ready_def txn_remove_def Let_def)

lemma travel_ok_set_txn:
  assumes "travel_ok c" and "tc_current c = Some t" and "txn_ok t'" and "tx_epoch t' = tx_epoch t"
  shows "travel_ok (c\<lparr>tc_current := Some t'\<rparr>)"
  using assms by (simp add: travel_ok_def)

lemma get_txn_Inr: "get_txn txn_id c = Inr t \<longleftrightarrow> tc_current c = Some t \<and> tx_id t = txn_id"
  by (auto simp: get_txn_def split: option.splits)

lemma propose_ok [kermp_inv]: "travel_ok c \<Longrightarrow> propose i z as ps c = Inr (c', t) \<Longrightarrow> travel_ok c'"
  by (auto simp: propose_def travel_ok_def txn_ok_def Let_def split: if_splits)

lemma mark_ready_ok [kermp_inv]: "travel_ok c \<Longrightarrow> mark_ready pid i ep c = Inr (c', b) \<Longrightarrow> travel_ok c'"
  by (auto simp: mark_ready_def set_txn_def get_txn_Inr travel_ok_def txn_mark_ready_ok split: sum.splits)

lemma begin_zone_wait_ok [kermp_inv]: "travel_ok c \<Longrightarrow> begin_zone_wait i c = Inr c' \<Longrightarrow> travel_ok c'"
  by (auto simp: begin_zone_wait_def get_txn_Inr travel_ok_def txn_ok_def split: sum.splits if_splits)

lemma mark_zone_ready_ok [kermp_inv]:
  "travel_ok c \<Longrightarrow> mark_zone_ready pid i ep c = Inr (c', b) \<Longrightarrow> travel_ok c'"
  by (auto simp: mark_zone_ready_def set_txn_def get_txn_Inr travel_ok_def txn_mark_zone_ready_ok
      split: sum.splits)

lemma abort_travel_ok [kermp_inv]: "travel_ok c \<Longrightarrow> abort_travel i c = Inr c' \<Longrightarrow> travel_ok c'"
  by (auto simp: abort_travel_def get_txn_Inr travel_ok_def txn_ok_def split: sum.splits travel_phase.splits)

lemma remove_participant_ok [kermp_inv]: "travel_ok c \<Longrightarrow> travel_ok (fst (remove_participant pid c))"
  by (auto simp: remove_participant_def set_txn_def travel_ok_def txn_remove_ok split: option.splits)

section \<open>The two barriers of a transaction\<close>

definition arrive_ready :: "string \<Rightarrow> travel_txn \<Rightarrow> travel_txn" where
  "arrive_ready pid t = fst (txn_mark_ready pid (Some (tx_epoch t)) t)"

definition arrive_zone :: "string \<Rightarrow> travel_txn \<Rightarrow> travel_txn" where
  "arrive_zone pid t = fst (txn_mark_zone_ready pid (Some (tx_epoch t)) t)"

interpretation ready_barrier: barrier tx_participants tx_ready "\<lambda>t. tx_phase t = WAITING_READY"
  "\<lambda>t. tx_phase t = COMMITTED" arrive_ready
  by unfold_locales (auto simp: arrive_ready_def txn_mark_ready_def Let_def)

interpretation zone_barrier: barrier tx_participants tx_zone_ready
  "\<lambda>t. tx_phase t \<in> {COMMITTED, WAITING_ZONE_READY}" "\<lambda>t. tx_phase t = COMPLETE" arrive_zone
  by unfold_locales (auto simp: arrive_zone_def txn_mark_zone_ready_def Let_def)

lemma arrive_ready_frame [kermp_frame]:
  "tx_id (arrive_ready p t) = tx_id t" "tx_epoch (arrive_ready p t) = tx_epoch t"
  "tx_zone_ready (arrive_ready p t) = tx_zone_ready t"
  by (simp_all add: arrive_ready_def txn_mark_ready_def Let_def)

lemma arrive_zone_frame [kermp_frame]:
  "tx_id (arrive_zone p t) = tx_id t" "tx_epoch (arrive_zone p t) = tx_epoch t"
  "tx_ready (arrive_zone p t) = tx_ready t"
  by (simp_all add: arrive_zone_def txn_mark_zone_ready_def Let_def)

lemma arrive_ready_fold [kermp_frame]:
  "tx_id (fold arrive_ready ps t) = tx_id t" "tx_epoch (fold arrive_ready ps t) = tx_epoch t"
  "tx_zone_ready (fold arrive_ready ps t) = tx_zone_ready t"
  by (induction ps arbitrary: t) (simp_all add: kermp_frame)

section \<open>Runs\<close>

datatype travel_event =
    EvPropose string string "string list" "string list"
  | EvReady string string "int option"
  | EvZoneWait string
  | EvZoneReady string string "int option"
  | EvAbort string
  | EvRemove string

text \<open>A call that raises leaves the coordinator as it was.\<close>

fun travel_step :: "travel_event \<Rightarrow> coordinator \<Rightarrow> coordinator" where
  "travel_step (EvPropose i z as ps) c = (case propose i z as ps c of Inl e \<Rightarrow> c | Inr (c', t) \<Rightarrow> c')"
| "travel_step (EvReady p i ep) c = (case mark_ready p i ep c of Inl e \<Rightarrow> c | Inr (c', b) \<Rightarrow> c')"
| "travel_step (EvZoneWait i) c = (case begin_zone_wait i c of Inl e \<Rightarrow> c | Inr c' \<Rightarrow> c')"
| "travel_step (EvZoneReady p i ep) c = (case mark_zone_ready p i ep c of Inl e \<Rightarrow> c | Inr (c', b) \<Rightarrow> c')"
| "travel_step (EvAbort i) c = (case abort_travel i c of Inl e \<Rightarrow> c | Inr c' \<Rightarrow> c')"
| "travel_step (EvRemove p) c = fst (remove_participant p c)"

definition travel_run :: "travel_event list \<Rightarrow> coordinator \<Rightarrow> coordinator" where
  "travel_run evs c = fold travel_step evs c"

lemma travel_run_simps [simp]:
  "travel_run [] c = c" "travel_run (e # es) c = travel_run es (travel_step e c)"
  "travel_run (es @ fs) c = travel_run fs (travel_run es c)"
  by (simp_all add: travel_run_def)

lemma travel_step_ok: "travel_ok c \<Longrightarrow> travel_ok (travel_step e c)"
  by (cases e) (auto split: sum.splits intro: kermp_inv)

lemma travel_run_ok: "travel_ok c \<Longrightarrow> travel_ok (travel_run evs c)"
  by (induction evs arbitrary: c) (simp_all add: travel_step_ok)

text \<open>The epoch never goes back, and an accepted proposal takes the next one.\<close>

lemma travel_step_epoch:
  "tc_epoch (travel_step e c) = tc_epoch c \<or>
   (\<exists>t. tc_current (travel_step e c) = Some t \<and> tx_epoch t = tc_epoch c + 1
      \<and> tc_epoch (travel_step e c) = tc_epoch c + 1)"
  by (cases e) (auto simp: travel_defs Let_def split: sum.splits option.splits if_splits)

lemma travel_run_epoch_mono: "tc_epoch c \<le> tc_epoch (travel_run evs c)"
proof (induction evs arbitrary: c)
  case (Cons e evs)
  have "tc_epoch c \<le> tc_epoch (travel_step e c)" using travel_step_epoch [of e c] by auto
  with Cons.IH [of "travel_step e c"] show ?case by simp
qed simp

text \<open>
  Who acknowledged: a player is in \<open>ready\<close> or \<open>zone_ready\<close> of the current transaction only
  through an acknowledgement in the run that named the transaction. The freshness of the
  transaction ids is what separates a transaction from the ones before it.
\<close>

definition acked :: "travel_event list \<Rightarrow> travel_txn \<Rightarrow> bool" where
  "acked evs t \<longleftrightarrow>
     (\<forall>p \<in> tx_ready t. \<exists>ep. EvReady p (tx_id t) ep \<in> set evs) \<and>
     (\<forall>p \<in> tx_zone_ready t. \<exists>ep. EvZoneReady p (tx_id t) ep \<in> set evs)"

lemma acked_snoc: "acked evs t \<Longrightarrow> acked (evs @ [e]) t"
  by (fastforce simp: acked_def)

lemma mark_ready_adds:
  "tx_ready (fst (txn_mark_ready p ep t)) \<subseteq> insert p (tx_ready t)"
  "tx_zone_ready (fst (txn_mark_ready p ep t)) = tx_zone_ready t"
  "tx_id (fst (txn_mark_ready p ep t)) = tx_id t"
  by (auto simp: txn_mark_ready_def Let_def)

lemma mark_zone_ready_adds:
  "tx_zone_ready (fst (txn_mark_zone_ready p ep t)) \<subseteq> insert p (tx_zone_ready t)"
  "tx_ready (fst (txn_mark_zone_ready p ep t)) = tx_ready t"
  "tx_id (fst (txn_mark_zone_ready p ep t)) = tx_id t"
  by (auto simp: txn_mark_zone_ready_def Let_def)

lemma remove_adds:
  "tx_ready (fst (txn_remove p t)) \<subseteq> tx_ready t"
  "tx_zone_ready (fst (txn_remove p t)) \<subseteq> tx_zone_ready t"
  "tx_id (fst (txn_remove p t)) = tx_id t"
  by (auto simp: txn_remove_def Let_def)

text \<open>The current transaction after a step, in terms of the one before.\<close>

inductive txn_from :: "travel_event \<Rightarrow> travel_txn option \<Rightarrow> travel_txn \<Rightarrow> bool" where
  same: "txn_from e (Some t) t"
| proposed: "tx_ready t = {} \<Longrightarrow> tx_zone_ready t = {} \<Longrightarrow> txn_from e cur t"
| readied: "tx_id t = i \<Longrightarrow> txn_from (EvReady p i ep) (Some t) (fst (txn_mark_ready p ep t))"
| zoned: "tx_id t = i \<Longrightarrow> txn_from (EvZoneReady p i ep) (Some t) (fst (txn_mark_zone_ready p ep t))"
| phased: "txn_from e (Some t) (t\<lparr>tx_phase := ph\<rparr>)"
| removed: "txn_from e (Some t) (fst (txn_remove p t))"

lemma step_txn_from:
  "tc_current (travel_step e c) = Some t' \<Longrightarrow> txn_from e (tc_current c) t'"
  by (cases e)
    (auto simp: propose_def mark_ready_def mark_zone_ready_def begin_zone_wait_def abort_travel_def
      remove_participant_def set_txn_def get_txn_Inr Let_def txn_from.proposed
      split: sum.splits option.splits if_splits intro: txn_from.intros)

lemma acked_step:
  assumes "txn_from e cur t'" and "\<And>t. cur = Some t \<Longrightarrow> acked evs t"
  shows "acked (evs @ [e]) t'"
  using assms
proof cases
  case (readied t i p ep)
  then have "acked evs t" using assms(2) by simp
  with readied show ?thesis
    using mark_ready_adds [of p ep t] by (fastforce simp: acked_def)
next
  case (zoned t i p ep)
  then have "acked evs t" using assms(2) by simp
  with zoned show ?thesis
    using mark_zone_ready_adds [of p ep t] by (fastforce simp: acked_def)
next
  case (removed t p)
  then have "acked evs t" using assms(2) by simp
  with removed show ?thesis
    using remove_adds [of p t] by (fastforce simp: acked_def)
qed (use assms(2) in \<open>auto simp: acked_def\<close>)

lemma acked_run: "tc_current (travel_run evs new_coordinator) = Some t \<Longrightarrow> acked evs t"
proof (induction evs arbitrary: t rule: rev_induct)
  case Nil
  then show ?case by (simp add: new_coordinator_def)
next
  case (snoc e evs)
  show ?case
    by (rule acked_step [OF step_txn_from]) (use snoc in auto)
qed

section \<open>Progress of a whole journey\<close>

lemma run_ready:
  assumes "tc_current c = Some t"
  shows "tc_current (travel_run (map (\<lambda>p. EvReady p (tx_id t) (Some (tx_epoch t))) ps) c)
    = Some (fold arrive_ready ps t)"
  using assms
proof (induction ps arbitrary: c t)
  case (Cons p ps)
  let ?c = "travel_step (EvReady p (tx_id t) (Some (tx_epoch t))) c"
  have "tc_current ?c = Some (arrive_ready p t)"
    using Cons.prems by (simp add: mark_ready_def get_txn_def set_txn_def arrive_ready_def)
  from Cons.IH [OF this] show ?case by (simp add: kermp_frame)
qed simp

lemma run_zone:
  assumes "tc_current c = Some t"
  shows "tc_current (travel_run (map (\<lambda>p. EvZoneReady p (tx_id t) (Some (tx_epoch t))) ps) c)
    = Some (fold arrive_zone ps t)"
  using assms
proof (induction ps arbitrary: c t)
  case (Cons p ps)
  let ?c = "travel_step (EvZoneReady p (tx_id t) (Some (tx_epoch t))) c"
  have "tc_current ?c = Some (arrive_zone p t)"
    using Cons.prems by (simp add: mark_zone_ready_def get_txn_def set_txn_def arrive_zone_def)
  from Cons.IH [OF this] show ?case by (simp add: kermp_frame)
qed simp

text \<open>The events of a journey to the end, whatever order the acknowledgements come in.\<close>

definition journey ::
  "string \<Rightarrow> int \<Rightarrow> string \<Rightarrow> string list \<Rightarrow> string list \<Rightarrow> string list \<Rightarrow> string list \<Rightarrow> travel_event list" where
  "journey i ep zone actors ps acks loads =
     [EvPropose i zone actors ps] @ map (\<lambda>p. EvReady p i (Some ep)) acks @
     [EvZoneWait i] @ map (\<lambda>p. EvZoneReady p i (Some ep)) loads"

lemma journey_complete:
  assumes idle: "case tc_current c of None \<Rightarrow> True | Some t \<Rightarrow> finished (tx_phase t)"
    and ps: "ps \<noteq> []" and acks: "set acks = set ps" and loads: "set loads = set ps"
  shows "map_option tx_phase
    (tc_current (travel_run (journey i (tc_epoch c + 1) zone actors ps acks loads) c)) = Some COMPLETE"
proof -
  define t where "t = \<lparr>tx_epoch = tc_epoch c + 1, tx_id = i, tx_zone = zone, tx_actors = actors,
    tx_participants = set ps, tx_phase = WAITING_READY, tx_ready = {}, tx_zone_ready = {}\<rparr>"
  define c1 where "c1 = travel_step (EvPropose i zone actors ps) c"
  have c1: "tc_current c1 = Some t"
    using idle ps by (auto simp: c1_def propose_def t_def Let_def split: option.splits)
  define t2 where "t2 = fold arrive_ready acks t"
  define c2 where "c2 = travel_run (map (\<lambda>p. EvReady p i (Some (tc_epoch c + 1))) acks) c1"
  have c2: "tc_current c2 = Some t2"
    using run_ready [OF c1, of acks] by (simp add: c2_def t2_def t_def)
  have p2: "tx_phase t2 = COMMITTED"
    unfolding t2_def using ps acks by (intro ready_barrier.fires_in_any_order) (auto simp: t_def)
  have id2: "tx_id t2 = i" "tx_epoch t2 = tc_epoch c + 1" "tx_zone_ready t2 = {}"
    "tx_participants t2 = set ps"
    by (simp_all add: t2_def kermp_frame ready_barrier.expected_fold) (simp_all add: t_def)
  define t3 where "t3 = t2\<lparr>tx_phase := WAITING_ZONE_READY\<rparr>"
  define c3 where "c3 = travel_step (EvZoneWait i) c2"
  have c3: "tc_current c3 = Some t3"
    using c2 p2 id2 by (simp add: c3_def begin_zone_wait_def get_txn_def t3_def)
  have "tc_current (travel_run (map (\<lambda>p. EvZoneReady p i (Some (tc_epoch c + 1))) loads) c3)
      = Some (fold arrive_zone loads t3)"
    using run_zone [OF c3, of loads] id2 by (simp add: t3_def)
  moreover have "tx_phase (fold arrive_zone loads t3) = COMPLETE"
    using ps loads id2 by (intro zone_barrier.fires_in_any_order) (auto simp: t3_def)
  ultimately show ?thesis
    by (simp add: journey_def c3_def c2_def c1_def del: travel_step.simps)
qed

end
