(* ===== verification/Routing.thy ===== *)
theory Routing
  imports KerMP_Interfaces
begin

text \<open>
  \<^verbatim>\<open>src/kermp/routing.py\<close>: who receives a message, the whitelist command router
  that accepts each request id once, and the dialogs owned by a player. A registered
  handler is a function of the player and the payload; uuids and clock readings are
  arguments.
\<close>

section \<open>Audiences\<close>

datatype audience_kind = ALL_PLAYERS | HOST_ONLY | PLAYER | ALL_EXCEPT

record player_audience =
  pa_kind :: audience_kind
  pa_player :: "string option"

definition recipients :: "player_audience \<Rightarrow> string set \<Rightarrow> string \<Rightarrow> string set" where
  "recipients pa player_ids host_id =
     (case pa_kind pa of
        HOST_ONLY \<Rightarrow> {host_id}
      | PLAYER \<Rightarrow> set_option (pa_player pa) \<inter> player_ids
      | ALL_EXCEPT \<Rightarrow> player_ids - set_option (pa_player pa)
      | ALL_PLAYERS \<Rightarrow> player_ids)"

section \<open>The command router\<close>

record correlation =
  rc_request :: string
  rc_player :: string
  rc_family :: string
  rc_created :: rat
  rc_completed :: bool

type_synonym command_handler = "string \<Rightarrow> pydict \<Rightarrow> py_error + pydict"

record command_router =
  cm_handlers :: "(string \<times> command_handler) list"
  cm_pending :: "(string \<times> correlation) list"

definition new_router :: command_router where
  "new_router = \<lparr>cm_handlers = [], cm_pending = []\<rparr>"

definition register_handler :: "string \<Rightarrow> command_handler \<Rightarrow> command_router \<Rightarrow> command_router" where
  "register_handler family h r = r\<lparr>cm_handlers := AList.update family h (cm_handlers r)\<rparr>"

text \<open>\<open>request_id or uuid.uuid4().hex\<close>.\<close>

definition effective_id :: "string option \<Rightarrow> string \<Rightarrow> string" where
  "effective_id rid uuid = (case rid of None \<Rightarrow> uuid | Some s \<Rightarrow> if s = [] then uuid else s)"

definition set_completed :: "string \<Rightarrow> (string \<times> correlation) list \<Rightarrow> (string \<times> correlation) list" where
  "set_completed rid ps =
     (case map_of ps rid of None \<Rightarrow> ps | Some c \<Rightarrow> AList.update rid (c\<lparr>rc_completed := True\<rparr>) ps)"

definition dispatch_command ::
  "rat \<Rightarrow> string \<Rightarrow> string \<Rightarrow> string \<Rightarrow> pydict \<Rightarrow> string option \<Rightarrow> command_router \<Rightarrow>
   command_router \<times> (py_error + pydict)" where
  "dispatch_command now uuid pid family payload rid r =
     (let i = effective_id rid uuid in
      if map_of (cm_pending r) i \<noteq> None then (r, Inl (ValueError ''duplicate_request_id''))
      else case map_of (cm_handlers r) family of
        None \<Rightarrow> (r, Inl (ValueError ''command_not_allowed''))
      | Some h \<Rightarrow>
        (let c = \<lparr>rc_request = i, rc_player = pid, rc_family = family, rc_created = now,
                  rc_completed = False\<rparr>;
             r1 = r\<lparr>cm_pending := AList.update i c (cm_pending r)\<rparr>
         in case h pid payload of
              Inl e \<Rightarrow> (r1, Inl e)
            | Inr result \<Rightarrow>
                (r1\<lparr>cm_pending := set_completed i (cm_pending r1)\<rparr>,
                 Inr [(''request_id'', VStr i), (''family'', VStr family), (''result'', VDict result)])))"

section \<open>Dialogs\<close>

record dialog =
  dl_id :: string
  dl_owner :: string
  dl_type :: string
  dl_payload :: pydict

record dialog_router =
  dr_pending :: "(string \<times> dialog) list"

definition new_dialogs :: dialog_router where
  "new_dialogs = \<lparr>dr_pending = []\<rparr>"

definition open_dialog ::
  "string \<Rightarrow> string \<Rightarrow> string \<Rightarrow> pydict \<Rightarrow> dialog_router \<Rightarrow> dialog_router \<times> (py_error + dialog)" where
  "open_dialog uuid owner ty payload r =
     (if 64 * 1024 < length (py_str (VDict payload))
      then (r, Inl (ValueError ''dialog_payload_too_large''))
      else let d = \<lparr>dl_id = uuid, dl_owner = owner, dl_type = ty, dl_payload = payload\<rparr>
           in (r\<lparr>dr_pending := AList.update uuid d (dr_pending r)\<rparr>, Inr d))"

text \<open>A response from another player puts the dialog back, at the end of the dictionary.\<close>

definition respond_dialog ::
  "string \<Rightarrow> string \<Rightarrow> pydict \<Rightarrow> dialog_router \<Rightarrow> dialog_router \<times> (py_error + dialog \<times> pydict)" where
  "respond_dialog pid did response r =
     (case map_of (dr_pending r) did of
        None \<Rightarrow> (r, Inl (ValueError ''unknown_or_completed_dialog''))
      | Some d \<Rightarrow>
        (let rest = AList.delete did (dr_pending r) in
         if dl_owner d \<noteq> pid
         then (r\<lparr>dr_pending := AList.update did d rest\<rparr>, Inl (ValueError ''dialog_not_owned''))
         else (r\<lparr>dr_pending := rest\<rparr>, Inr (d, response))))"

definition response_dict :: "dialog \<times> pydict \<Rightarrow> pydict" where
  "response_dict dr = (case dr of (d, response) \<Rightarrow>
     [(''dialog_id'', VStr (dl_id d)), (''owner_player_id'', VStr (dl_owner d)),
      (''dialog_type'', VStr (dl_type d)), (''payload'', VDict (dl_payload d)),
      (''response'', VDict response)])"

definition disconnect_dialogs :: "string \<Rightarrow> dialog_router \<Rightarrow> dialog_router \<times> string list" where
  "disconnect_dialogs pid r =
     (let stale = map fst (filter (\<lambda>kv. dl_owner (snd kv) = pid) (dr_pending r))
      in (r\<lparr>dr_pending := fold AList.delete stale (dr_pending r)\<rparr>, stale))"

section \<open>Properties\<close>

lemma recipients_are_players:
  assumes "host_id \<in> player_ids"
  shows "recipients pa player_ids host_id \<subseteq> player_ids"
  using assms by (auto simp: recipients_def split: audience_kind.splits)

definition router_ok :: "command_router \<Rightarrow> bool" where
  "router_ok r \<longleftrightarrow> dict_ok (cm_handlers r) \<and> dict_ok (cm_pending r) \<and>
     (\<forall>(i, c) \<in> set (cm_pending r). rc_request c = i)"

lemma router_ok_new [simp]: "router_ok new_router"
  by (simp add: router_ok_def new_router_def)

lemma set_completed_ok:
  assumes "dict_ok ps" and "\<forall>(i, c) \<in> set ps. rc_request c = i"
  shows "dict_ok (set_completed rid ps) \<and> (\<forall>(i, c) \<in> set (set_completed rid ps). rc_request c = i)"
proof (cases "map_of ps rid")
  case (Some c)
  have c: "rc_request c = rid" using map_of_SomeD [OF Some] assms(2) by auto
  have "\<forall>(i, d) \<in> set (AList.update rid (c\<lparr>rc_completed := True\<rparr>) ps). rc_request d = i"
    using assms(2) c by (induction ps) auto
  then show ?thesis using assms(1) Some by (simp add: set_completed_def)
qed (use assms in \<open>simp add: set_completed_def\<close>)

lemma update_requests_ok:
  "\<forall>(i, c) \<in> set ps. rc_request c = i \<Longrightarrow> rc_request c0 = j \<Longrightarrow>
   \<forall>(i, c) \<in> set (AList.update j c0 ps). rc_request c = i"
  by (induction ps) auto

lemma dispatch_command_ok [kermp_inv]:
  assumes "router_ok r"
  shows "router_ok (fst (dispatch_command now uuid pid family payload rid r))"
proof -
  let ?i = "effective_id rid uuid"
  let ?c = "\<lparr>rc_request = ?i, rc_player = pid, rc_family = family, rc_created = now,
      rc_completed = False\<rparr>"
  let ?ps = "AList.update ?i ?c (cm_pending r)"
  have ps: "dict_ok ?ps" "\<forall>(i, c) \<in> set ?ps. rc_request c = i"
    using assms update_requests_ok [of "cm_pending r" ?c ?i] by (auto simp: router_ok_def)
  have "dict_ok (cm_handlers r)" using assms by (simp add: router_ok_def)
  then show ?thesis
    using assms ps set_completed_ok [OF ps]
    by (auto simp: dispatch_command_def router_ok_def Let_def split: option.splits sum.splits)
qed

lemma dispatch_seen:
  "dict_keys (cm_pending r) \<subseteq>
     dict_keys (cm_pending (fst (dispatch_command now uuid pid family payload rid r)))"
  "snd (dispatch_command now uuid pid family payload rid r) = Inr res \<Longrightarrow>
     effective_id rid uuid \<notin> dict_keys (cm_pending r) \<and>
     effective_id rid uuid \<in>
       dict_keys (cm_pending (fst (dispatch_command now uuid pid family payload rid r)))"
  by (auto simp: dispatch_command_def set_completed_def Let_def dom_map_of_conv_image_fst [symmetric]
      split: option.splits sum.splits if_splits)

text \<open>A request of the router: \<open>(now, uuid, player, family, payload, request id)\<close>.\<close>

type_synonym command_request = "rat \<times> string \<times> string \<times> string \<times> pydict \<times> string option"

fun request_key :: "command_request \<Rightarrow> string" where
  "request_key (now, uuid, pid, family, payload, rid) = effective_id rid uuid"

fun run_request :: "command_request \<Rightarrow> command_router \<Rightarrow> command_router \<times> (py_error + pydict)" where
  "run_request (now, uuid, pid, family, payload, rid) r = dispatch_command now uuid pid family payload rid r"

definition request_accepted :: "command_request \<Rightarrow> command_router \<Rightarrow> bool" where
  "request_accepted q r \<longleftrightarrow> (case snd (run_request q r) of Inl e \<Rightarrow> False | Inr d \<Rightarrow> True)"

interpretation command_once: once_only "\<lambda>r. dict_keys (cm_pending r)" request_key request_accepted
  "\<lambda>q r. fst (run_request q r)"
proof unfold_locales
  fix op :: command_request and s :: command_router
  obtain now uuid pid family payload rid where op: "op = (now, uuid, pid, family, payload, rid)"
    by (cases op)
  show "request_accepted op s \<Longrightarrow> request_key op \<notin> dict_keys (cm_pending s)"
    using dispatch_seen(2) by (auto simp: op request_accepted_def split: sum.splits)
  show "request_accepted op s \<Longrightarrow> request_key op \<in> dict_keys (cm_pending (fst (run_request op s)))"
    using dispatch_seen(2) by (auto simp: op request_accepted_def split: sum.splits)
  show "dict_keys (cm_pending s) \<subseteq> dict_keys (cm_pending (fst (run_request op s)))"
    using dispatch_seen(1) by (auto simp: op)
qed

lemma dispatch_whitelist:
  "snd (dispatch_command now uuid pid family payload rid r) = Inr res \<Longrightarrow>
   \<exists>h d. map_of (cm_handlers r) family = Some h \<and> h pid payload = Inr d"
  by (auto simp: dispatch_command_def Let_def split: option.splits sum.splits if_splits)

text \<open>Whatever the router is called for, no id is forgotten.\<close>

datatype router_call = Registers string command_handler | Dispatches command_request

definition router_do :: "router_call \<Rightarrow> command_router \<Rightarrow> command_router" where
  "router_do c r = (case c of Registers family h \<Rightarrow> register_handler family h r | Dispatches q \<Rightarrow> fst (run_request q r))"

lemma router_do_seen: "dict_keys (cm_pending r) \<subseteq> dict_keys (cm_pending (router_do c r))"
  using command_once.seen_mono by (auto simp: router_do_def register_handler_def split: router_call.split)

lemma router_run_seen: "dict_keys (cm_pending r) \<subseteq> dict_keys (cm_pending (fold router_do cs r))"
proof (induction cs arbitrary: r)
  case (Cons c cs)
  show ?case using subset_trans [OF router_do_seen Cons.IH] by simp
qed simp

lemma seen_refused:
  "effective_id rid uuid \<in> dict_keys (cm_pending r) \<Longrightarrow>
     dispatch_command now uuid pid family payload rid r = (r, Inl (ValueError ''duplicate_request_id''))"
  by (simp add: dispatch_command_def map_of_eq_None_iff Let_def)

lemma dispatch_handlers [simp]:
  "cm_handlers (fst (dispatch_command now uuid pid family payload rid r)) = cm_handlers r"
  by (auto simp: dispatch_command_def Let_def split: option.splits sum.splits)

subsection \<open>Dialogs\<close>

definition dialogs_ok :: "dialog_router \<Rightarrow> bool" where
  "dialogs_ok r \<longleftrightarrow> dict_ok (dr_pending r) \<and>
     (\<forall>i d. map_of (dr_pending r) i = Some d \<longrightarrow> dl_id d = i)"

lemma dialogs_ok_new [simp]: "dialogs_ok new_dialogs"
  by (simp add: dialogs_ok_def new_dialogs_def)

lemma open_dialog_ok [kermp_inv]: "dialogs_ok r \<Longrightarrow> dialogs_ok (fst (open_dialog uuid owner ty payload r))"
  by (simp add: dialogs_ok_def open_dialog_def Let_def)

lemma respond_dialog_ok [kermp_inv]: "dialogs_ok r \<Longrightarrow> dialogs_ok (fst (respond_dialog pid did resp r))"
  by (auto simp: dialogs_ok_def respond_dialog_def Let_def split: option.splits)

lemma map_of_fold_delete:
  "map_of (fold AList.delete ks d) k = (if k \<in> set ks then None else map_of d k)"
  by (induction ks arbitrary: d) auto

lemma dict_ok_fold_delete [simp]: "dict_ok d \<Longrightarrow> dict_ok (fold AList.delete ks d)"
  by (induction ks arbitrary: d) simp_all

lemma stale_iff:
  assumes "dict_ok d"
  shows "k \<in> set (map fst (filter (\<lambda>kv. P (snd kv)) d)) \<longleftrightarrow> (\<exists>v. map_of d k = Some v \<and> P v)"
  using assms by (force simp: map_of_eq_Some_iff)

lemma disconnect_lookup:
  assumes "dialogs_ok r"
  shows "map_of (dr_pending (fst (disconnect_dialogs pid r))) i =
    (case map_of (dr_pending r) i of
       None \<Rightarrow> None | Some d \<Rightarrow> if dl_owner d = pid then None else Some d)"
proof -
  let ?stale = "map fst (filter (\<lambda>kv. dl_owner (snd kv) = pid) (dr_pending r))"
  have s: "i \<in> set ?stale \<longleftrightarrow> (\<exists>d. map_of (dr_pending r) i = Some d \<and> dl_owner d = pid)"
    using assms unfolding dialogs_ok_def by (intro stale_iff) blast
  have "map_of (dr_pending (fst (disconnect_dialogs pid r))) i =
      (if i \<in> set ?stale then None else map_of (dr_pending r) i)"
    by (simp add: disconnect_dialogs_def Let_def map_of_fold_delete del: set_map set_filter)
  then show ?thesis by (simp only: s) (auto split: option.splits)
qed

lemma disconnect_dialogs_ok [kermp_inv]:
  assumes "dialogs_ok r"
  shows "dialogs_ok (fst (disconnect_dialogs pid r))"
proof -
  have "dict_ok (dr_pending (fst (disconnect_dialogs pid r)))"
    using assms by (simp add: disconnect_dialogs_def dialogs_ok_def Let_def)
  then show ?thesis
    using assms disconnect_lookup [OF assms, of pid]
    by (auto simp: dialogs_ok_def split: option.splits if_splits)
qed

text \<open>Only the owner's response closes a dialog, and it closes it for good.\<close>

lemma respond_dialog_lookup:
  "map_of (dr_pending (fst (respond_dialog pid did resp r))) i =
     (if i = did \<and> (\<exists>d. map_of (dr_pending r) did = Some d \<and> dl_owner d = pid) then None
      else map_of (dr_pending r) i)"
  by (auto simp: respond_dialog_def Let_def split: option.splits)

lemma respond_accepted_iff:
  "(\<exists>x. snd (respond_dialog pid did resp r) = Inr x) \<longleftrightarrow>
     (\<exists>d. map_of (dr_pending r) did = Some d \<and> dl_owner d = pid)"
  by (auto simp: respond_dialog_def Let_def split: option.splits)

end
