(* ===== verification/Session.thy ===== *)
theory Session
  imports Readiness Compatibility Travel Build_Sync Routing
begin

text \<open>
  \<^verbatim>\<open>src/kermp/session.py\<close>: the host's authoritative state, players, sims, accepted
  interaction requests, the clock, and the travel, build, command and dialog components.
  An operation returns the session it leaves behind, also when it raises. The clock's
  \<open>game_time\<close> is never assigned and always prints \<open>None\<close>.
\<close>

section \<open>State\<close>

record player =
  pl_id :: string
  pl_name :: string
  pl_sim :: "string option"
  pl_manifest :: "compat_manifest option"
  pl_readiness :: readiness

definition new_player :: "string \<Rightarrow> string \<Rightarrow> player" where
  "new_player pid name = \<lparr>pl_id = pid, pl_name = name, pl_sim = None, pl_manifest = None,
     pl_readiness = new_readiness\<rparr>"

record sim =
  si_id :: string
  si_name :: string
  si_controllers :: "string list"

record game_clock =
  ck_sequence :: int
  ck_speed :: int
  ck_paused :: bool

record host_session =
  hs_id :: string
  hs_name :: string
  hs_players :: "(string \<times> player) list"
  hs_travel :: coordinator
  hs_build :: build_authority
  hs_sims :: "(string \<times> sim) list"
  hs_requests :: "(string \<times> pydict) list"
  hs_reconnect :: "(string \<times> string) list"
  hs_manifest :: "compat_manifest option"
  hs_native_required :: bool
  hs_clock :: game_clock
  hs_commands :: command_router
  hs_dialogs :: dialog_router

definition new_session :: "string \<Rightarrow> compat_manifest option \<Rightarrow> bool \<Rightarrow> host_session" where
  "new_session sid manifest native =
     \<lparr>hs_id = sid, hs_name = ''KerMP LAN'', hs_players = [], hs_travel = new_coordinator,
      hs_build = default_authority, hs_sims = [], hs_requests = [], hs_reconnect = [],
      hs_manifest = manifest, hs_native_required = native,
      hs_clock = \<lparr>ck_sequence = 0, ck_speed = 1, ck_paused = False\<rparr>,
      hs_commands = new_router, hs_dialogs = new_dialogs\<rparr>"

definition sim_dict :: "sim \<Rightarrow> pydict" where
  "sim_dict s = [(''sim_id'', VStr (si_id s)), (''name'', VStr (si_name s)),
     (''controllers'', VList (map VStr (si_controllers s)))]"

definition clock_dict :: "game_clock \<Rightarrow> pydict" where
  "clock_dict c = [(''sequence'', VInt (ck_sequence c)), (''game_time'', VNone),
     (''speed'', VInt (ck_speed c)), (''paused'', VBool (ck_paused c))]"

section \<open>Players\<close>

definition get_player :: "string \<Rightarrow> host_session \<Rightarrow> player option" where
  "get_player pid s = map_of (hs_players s) pid"

definition put_player :: "player \<Rightarrow> host_session \<Rightarrow> host_session" where
  "put_player p s = s\<lparr>hs_players := AList.update (pl_id p) p (hs_players s)\<rparr>"

text \<open>The players whose active sim is \<open>sid\<close>, in the order they joined.\<close>

definition sim_players :: "string \<Rightarrow> host_session \<Rightarrow> string list" where
  "sim_players sid s =
     map (\<lambda>kv. pl_id (snd kv)) (filter (\<lambda>kv. pl_sim (snd kv) = Some sid) (hs_players s))"

definition set_controllers :: "string \<Rightarrow> host_session \<Rightarrow> host_session" where
  "set_controllers sid s =
     (case map_of (hs_sims s) sid of
        None \<Rightarrow> s
      | Some m \<Rightarrow> s\<lparr>hs_sims := AList.update sid (m\<lparr>si_controllers := sim_players sid s\<rparr>) (hs_sims s)\<rparr>)"

definition set_all_controllers :: "host_session \<Rightarrow> host_session" where
  "set_all_controllers s = fold set_controllers (map fst (hs_sims s)) s"

definition manifest_reasons :: "string \<Rightarrow> compat_manifest \<Rightarrow> host_session \<Rightarrow> string list" where
  "manifest_reasons pid m s =
     (case hs_manifest s of
        None \<Rightarrow> []
      | Some h \<Rightarrow> if py_eq (VStr pid) (m_player_id h) then []
                else compare_manifests h m (hs_native_required s))"

definition set_manifest ::
  "string \<Rightarrow> compat_manifest \<Rightarrow> host_session \<Rightarrow> host_session \<times> (py_error + string list)" where
  "set_manifest pid m s =
     (case get_player pid s of
        None \<Rightarrow> (s, Inl (KeyError pid))
      | Some p \<Rightarrow>
        (let reasons = manifest_reasons pid m s;
             native = (if hs_native_required s
                       then truthy (m_native_available m) \<and> truthy (m_native_supported m) else True);
             r = (pl_readiness p)\<lparr>rd_reasons := reasons, rd_native := VBool native\<rparr>
         in (put_player (p\<lparr>pl_manifest := Some m, pl_readiness := advance r\<rparr>) s, Inr reasons)))"

text \<open>\<open>add_player\<close>: a returning player gets back the sim it had, when that still exists.\<close>

definition restore_sim :: "string \<Rightarrow> host_session \<Rightarrow> host_session" where
  "restore_sim pid s =
     (case map_of (hs_reconnect s) pid of
        None \<Rightarrow> s
      | Some saved \<Rightarrow>
         (if map_of (hs_sims s) saved = None then s
          else case get_player pid s of
            None \<Rightarrow> s
          | Some p \<Rightarrow> set_controllers saved (put_player (p\<lparr>pl_sim := Some saved\<rparr>) s)))"

definition add_player :: "string \<Rightarrow> string \<Rightarrow> compat_manifest option \<Rightarrow> host_session \<Rightarrow> host_session" where
  "add_player pid name manifest s =
     (let s1 = put_player (new_player pid name) s;
          s2 = (case manifest of None \<Rightarrow> s1 | Some m \<Rightarrow> fst (set_manifest pid m s1))
      in restore_sim pid s2)"

definition remember_sim :: "string \<Rightarrow> host_session \<Rightarrow> host_session" where
  "remember_sim pid s =
     (case Option.bind (get_player pid s) pl_sim of
        None \<Rightarrow> s
      | Some sid \<Rightarrow> if sid = [] then s
                  else s\<lparr>hs_reconnect := AList.update pid sid (hs_reconnect s)\<rparr>)"

definition drop_lock :: "string \<Rightarrow> build_authority \<Rightarrow> build_authority" where
  "drop_lock pid a = (if owns pid a then a\<lparr>ba_lock := None, ba_lease_id := None\<rparr> else a)"

text \<open>The values \<open>remove_participant\<close> and \<open>disconnect\<close> return are not used.\<close>

definition remove_player :: "string \<Rightarrow> host_session \<Rightarrow> host_session" where
  "remove_player pid s =
     (let s1 = remember_sim pid s;
          s2 = s1\<lparr>hs_players := AList.delete pid (hs_players s1)\<rparr>;
          s3 = set_all_controllers s2
      in s3\<lparr>hs_build := drop_lock pid (hs_build s3),
            hs_travel := fst (remove_participant pid (hs_travel s3)),
            hs_dialogs := fst (disconnect_dialogs pid (hs_dialogs s3))\<rparr>)"

definition update_readiness ::
  "string \<Rightarrow> pydict \<Rightarrow> host_session \<Rightarrow> host_session \<times> (py_error + readiness)" where
  "update_readiness pid fs s =
     (case get_player pid s of
        None \<Rightarrow> (s, Inl (KeyError pid))
      | Some p \<Rightarrow>
        (case set_readiness_fields fs (pl_readiness p) of
           (r, Some e) \<Rightarrow> (put_player (p\<lparr>pl_readiness := r\<rparr>) s, Inl e)
         | (r, None) \<Rightarrow> (put_player (p\<lparr>pl_readiness := advance r\<rparr>) s, Inr (advance r))))"

definition all_players :: "(readiness \<Rightarrow> bool) \<Rightarrow> host_session \<Rightarrow> bool" where
  "all_players P s \<longleftrightarrow> hs_players s \<noteq> [] \<and> list_all (\<lambda>kv. P (pl_readiness (snd kv))) (hs_players s)"

definition session_readiness :: "host_session \<Rightarrow> core_readiness" where
  "session_readiness s =
     \<lparr>cr_compatibility = all_players (\<lambda>r. rd_reasons r = []) s,
      cr_save = all_players (\<lambda>r. truthy (rd_save_hash r)) s,
      cr_bridge = all_players (\<lambda>r. truthy (rd_bridge r)) s,
      cr_zone = all_players (\<lambda>r. truthy (rd_zone r)) s,
      cr_authority = all_players (\<lambda>r. truthy (rd_authority r)) s,
      cr_clock = True, cr_interaction_router = True, cr_dialog_router = True, cr_travel = True,
      cr_native = (\<not> hs_native_required s \<or>
         list_all (\<lambda>kv. truthy (rd_native (pl_readiness (snd kv)))) (hs_players s))\<rparr>"

definition core_dict :: "core_readiness \<Rightarrow> pydict" where
  "core_dict c =
     [(''compatibility_ready'', VBool (cr_compatibility c)), (''save_ready'', VBool (cr_save c)),
      (''bridge_ready'', VBool (cr_bridge c)), (''zone_ready'', VBool (cr_zone c)),
      (''simulation_authority_ready'', VBool (cr_authority c)), (''clock_ready'', VBool (cr_clock c)),
      (''interaction_router_ready'', VBool (cr_interaction_router c)),
      (''dialog_router_ready'', VBool (cr_dialog_router c)), (''travel_ready'', VBool (cr_travel c)),
      (''native_build_buy_ready'', VBool (cr_native c)), (''core_ready'', VBool (core_ready c))]"

fun readiness_map :: "(string \<times> player) list \<Rightarrow> py_error + pydict" where
  "readiness_map [] = Inr []"
| "readiness_map ((pid, p) # ps) =
     (case readiness_snapshot (pl_readiness p) of
        Inl e \<Rightarrow> Inl e
      | Inr d \<Rightarrow> (case readiness_map ps of Inl e \<Rightarrow> Inl e | Inr ds \<Rightarrow> Inr ((pid, VDict d) # ds)))"

definition player_dict :: "player \<Rightarrow> pydict" where
  "player_dict p = [(''player_id'', VStr (pl_id p)), (''display_name'', VStr (pl_name p)),
     (''active_sim_id'', opt_text (pl_sim p))]"

definition session_snapshot :: "rat \<Rightarrow> host_session \<Rightarrow> py_error + pydict" where
  "session_snapshot now s =
     (case readiness_map (hs_players s) of
        Inl e \<Rightarrow> Inl e
      | Inr rs \<Rightarrow> Inr
         [(''session_id'', VStr (hs_id s)), (''session_name'', VStr (hs_name s)),
          (''players'', VList (map (\<lambda>kv. VDict (player_dict (snd kv))) (hs_players s))),
          (''sims'', VList (map (\<lambda>kv. VDict (sim_dict (snd kv))) (hs_sims s))),
          (''travel'', travel_snapshot (hs_travel s)),
          (''build'', VDict (build_snapshot now (hs_build s))),
          (''clock'', VDict (clock_dict (hs_clock s))), (''readiness'', VDict rs),
          (''core_readiness'', VDict (core_dict (session_readiness s)))])"

section \<open>Sims\<close>

text \<open>The dictionary comprehension of \<open>update_sims\<close>; \<open>prev\<close> are the sims before the call.\<close>

fun sim_entries :: "(string \<times> sim) list \<Rightarrow> pyval list \<Rightarrow> (string \<times> sim) list \<Rightarrow> py_error + (string \<times> sim) list" where
  "sim_entries prev [] acc = Inr acc"
| "sim_entries prev (v # vs) acc =
     (case as_mapping v of
        Inl e \<Rightarrow> Inl e
      | Inr d \<Rightarrow>
        (let sid = py_str (pget d ''sim_id'') in
         if pget d ''sim_id'' = VNone \<or> sid = [] then sim_entries prev vs acc
         else sim_entries prev vs (AList.update sid
           \<lparr>si_id = sid, si_name = py_str (pget_default d ''name'' (VStr [])),
            si_controllers = (case map_of prev sid of None \<Rightarrow> [] | Some m \<Rightarrow> si_controllers m)\<rparr> acc)))"

definition update_sims :: "pyval list \<Rightarrow> host_session \<Rightarrow> host_session \<times> py_error option" where
  "update_sims vs s =
     (case sim_entries (hs_sims s) vs [] of
        Inl e \<Rightarrow> (s, Some e)
      | Inr sims \<Rightarrow> (set_all_controllers (s\<lparr>hs_sims := sims\<rparr>), None))"

definition sim_owner :: "string \<Rightarrow> host_session \<Rightarrow> string option" where
  "sim_owner sid s = (case sim_players sid s of [] \<Rightarrow> None | p # _ \<Rightarrow> Some p)"

definition select_sim :: "string \<Rightarrow> string \<Rightarrow> host_session \<Rightarrow> host_session \<times> (py_error + pydict)" where
  "select_sim pid sid s =
     (case get_player pid s of
        None \<Rightarrow> (s, Inl (ValueError ''unknown_player''))
      | Some p \<Rightarrow>
         (case map_of (hs_sims s) sid of
            None \<Rightarrow> (s, Inl (ValueError ''invalid_sim_id''))
          | Some m \<Rightarrow>
            (let s1 = set_controllers sid (put_player (p\<lparr>pl_sim := Some sid\<rparr>) s)
             in (s1, Inr [(''player_id'', VStr pid), (''sim_id'', VStr sid), (''name'', VStr (si_name m)),
                          (''controllers'', VList (map VStr (sim_players sid s1)))]))))"

section \<open>Interactions\<close>

definition request_dict :: "string \<Rightarrow> string \<Rightarrow> string \<Rightarrow> string \<Rightarrow> pydict \<Rightarrow> pydict \<Rightarrow> pydict" where
  "request_dict rid pid sid aff payload kwargs =
     [(''request_id'', VStr rid), (''player_id'', VStr pid), (''sim_id'', VStr sid),
      (''affordance_id'', VStr aff), (''target_id'', pget payload ''target_id''),
      (''target_kind'', VStr (py_str (py_or (pget payload ''target_kind'') (VStr ''object'')))),
      (''target_sim_id'', pget payload ''target_sim_id''),
      (''target_type'', pget payload ''target_type''), (''position'', pget payload ''position''),
      (''pick'', pget payload ''pick''), (''interaction_kwargs'', VDict kwargs),
      (''status'', VStr ''accepted'')]"

text \<open>\<open>str(payload.get("sim_id") or (player.active_sim_id if player else ""))\<close>.\<close>

definition claimed_sim :: "pydict \<Rightarrow> player option \<Rightarrow> string" where
  "claimed_sim payload p =
     py_str (py_or (pget payload ''sim_id'') (case p of None \<Rightarrow> VStr [] | Some q \<Rightarrow> opt_text (pl_sim q)))"

definition interaction_error :: "string \<Rightarrow> string \<Rightarrow> pydict \<Rightarrow> host_session \<Rightarrow> py_error option" where
  "interaction_error rid pid payload s =
     (let p = get_player pid s; sid = claimed_sim payload p in
      if rid = [] then Some (ValueError ''missing_request_id'')
      else if map_of (hs_requests s) rid \<noteq> None then Some (ValueError ''duplicate_request_id'')
      else if Option.bind p pl_sim \<noteq> Some sid then Some (ValueError ''sim_not_owned'')
      else if map_of (hs_sims s) sid = None then Some (ValueError ''invalid_sim_id'')
      else if py_str (py_or (pget payload ''affordance_id'') (VStr [])) = []
      then Some (ValueError ''missing_affordance_id'')
      else None)"

definition validate_interaction ::
  "pyval \<Rightarrow> string \<Rightarrow> pydict \<Rightarrow> host_session \<Rightarrow> host_session \<times> (py_error + pydict)" where
  "validate_interaction request_id pid payload s =
     (let rid = py_str (py_or request_id (VStr []));
          sid = claimed_sim payload (get_player pid s);
          aff = py_str (py_or (pget payload ''affordance_id'') (VStr []))
      in case interaction_error rid pid payload s of
           Some e \<Rightarrow> (s, Inl e)
         | None \<Rightarrow>
           (case py_dict (py_or (pget payload ''interaction_kwargs'') (VDict [])) of
              Inl e \<Rightarrow> (s, Inl e)
            | Inr kwargs \<Rightarrow>
              (let result = request_dict rid pid sid aff payload kwargs
               in (s\<lparr>hs_requests := AList.update rid result (hs_requests s)\<rparr>, Inr result))))"

definition cancel_interaction ::
  "pyval \<Rightarrow> string \<Rightarrow> pydict \<Rightarrow> host_session \<Rightarrow> host_session \<times> (py_error + pydict)" where
  "cancel_interaction request_id pid payload s =
     (let sid = py_str (py_or (pget payload ''sim_id'') (VStr []));
          iid = pget payload ''interaction_id'';
          rid0 = py_str (py_or request_id (VStr []));
          rid = (if rid0 = [] then ''cancel-'' @ pid @ ''-'' @ py_str iid else rid0)
      in if Option.bind (get_player pid s) pl_sim \<noteq> Some sid
         then (s, Inl (ValueError ''sim_not_owned''))
         else if blank_id iid then (s, Inl (ValueError ''missing_interaction_id''))
         else
           (let old = (case map_of (hs_requests s) rid of
                         Some r \<Rightarrow> r
                       | None \<Rightarrow> [(''request_id'', VStr rid), (''player_id'', VStr pid),
                                 (''sim_id'', VStr sid), (''affordance_id'', VNone),
                                 (''target_id'', VNone), (''position'', VNone)]);
                r1 = AList.update ''status'' (VStr ''cancel_requested'') old
            in (s\<lparr>hs_requests := AList.update rid r1 (hs_requests s)\<rparr>,
                Inr [(''request_id'', VStr rid), (''player_id'', VStr pid), (''sim_id'', VStr sid),
                     (''interaction_id'', iid), (''context_handle'', pget payload ''context_handle''),
                     (''status'', VStr ''cancel_requested'')])))"

text \<open>
  The host keeps the request dictionary and its callers assign more keys to it
  (\<open>command\<close>, \<open>status\<close>, \<open>interaction_id\<close>).
\<close>

definition put_request_field :: "string \<Rightarrow> string \<Rightarrow> pyval \<Rightarrow> host_session \<Rightarrow> host_session" where
  "put_request_field rid k v s =
     (case map_of (hs_requests s) rid of
        None \<Rightarrow> s
      | Some r \<Rightarrow> s\<lparr>hs_requests := AList.update rid (AList.update k v r) (hs_requests s)\<rparr>)"

section \<open>Invariant\<close>

text \<open>Participants of a travel that is still running are players.\<close>

definition travellers_ok :: "string set \<Rightarrow> coordinator \<Rightarrow> bool" where
  "travellers_ok P c \<longleftrightarrow> (case tc_current c of
     None \<Rightarrow> True | Some t \<Rightarrow> finished (tx_phase t) \<or> tx_participants t \<subseteq> P)"

definition players_ok :: "(string \<times> player) list \<Rightarrow> bool" where
  "players_ok ps \<longleftrightarrow> dict_ok ps \<and> (\<forall>pid p. map_of ps pid = Some p \<longrightarrow> pl_id p = pid)"

definition sims_ok :: "(string \<times> sim) list \<Rightarrow> bool" where
  "sims_ok sims \<longleftrightarrow> dict_ok sims \<and> (\<forall>sid m. map_of sims sid = Some m \<longrightarrow> si_id m = sid)"

definition session_ok :: "host_session \<Rightarrow> bool" where
  "session_ok s \<longleftrightarrow> players_ok (hs_players s) \<and> sims_ok (hs_sims s) \<and> dict_ok (hs_requests s) \<and>
     travel_ok (hs_travel s) \<and> travellers_ok (dict_keys (hs_players s)) (hs_travel s) \<and>
     authority_ok (hs_build s) \<and> router_ok (hs_commands s) \<and> dialogs_ok (hs_dialogs s)"

lemma session_ok_new [simp]: "session_ok (new_session sid m native)"
  by (simp add: session_ok_def new_session_def players_ok_def sims_ok_def travellers_ok_def
      new_coordinator_def default_authority_def travel_ok_new [unfolded new_coordinator_def])

text \<open>Every player whose active sim exists is among that sim's controllers.\<close>

definition controllers_ok :: "host_session \<Rightarrow> bool" where
  "controllers_ok s \<longleftrightarrow> (\<forall>sid m. map_of (hs_sims s) sid = Some m \<longrightarrow>
     set (sim_players sid s) \<subseteq> set (si_controllers m))"

text \<open>The stronger state right after the controllers of every sim were derived.\<close>

definition controllers_exact :: "host_session \<Rightarrow> bool" where
  "controllers_exact s \<longleftrightarrow> (\<forall>sid m. map_of (hs_sims s) sid = Some m \<longrightarrow>
     si_controllers m = sim_players sid s)"

lemma players_ok_update [simp]:
  "players_ok ps \<Longrightarrow> pl_id p = pid \<Longrightarrow> players_ok (AList.update pid p ps)"
  by (simp add: players_ok_def)

lemma players_ok_delete [simp]: "players_ok ps \<Longrightarrow> players_ok (AList.delete pid ps)"
  by (simp add: players_ok_def)

lemma get_player_id: "players_ok (hs_players s) \<Longrightarrow> get_player pid s = Some p \<Longrightarrow> pl_id p = pid"
  by (simp add: players_ok_def get_player_def)

lemma put_player_frame [simp]:
  "hs_id (put_player p s) = hs_id s" "hs_sims (put_player p s) = hs_sims s"
  "hs_travel (put_player p s) = hs_travel s" "hs_build (put_player p s) = hs_build s"
  "hs_requests (put_player p s) = hs_requests s" "hs_reconnect (put_player p s) = hs_reconnect s"
  "hs_manifest (put_player p s) = hs_manifest s" "hs_clock (put_player p s) = hs_clock s"
  "hs_native_required (put_player p s) = hs_native_required s"
  "hs_commands (put_player p s) = hs_commands s" "hs_dialogs (put_player p s) = hs_dialogs s"
  "hs_players (put_player p s) = AList.update (pl_id p) p (hs_players s)"
  by (simp_all add: put_player_def)

lemma get_put_player [simp]:
  "get_player pid (put_player p s) = (if pid = pl_id p then Some p else get_player pid s)"
  by (simp add: get_player_def)

lemma set_controllers_frame [simp]:
  "hs_players (set_controllers sid s) = hs_players s" "hs_travel (set_controllers sid s) = hs_travel s"
  "hs_build (set_controllers sid s) = hs_build s" "hs_requests (set_controllers sid s) = hs_requests s"
  "hs_reconnect (set_controllers sid s) = hs_reconnect s"
  "hs_commands (set_controllers sid s) = hs_commands s" "hs_dialogs (set_controllers sid s) = hs_dialogs s"
  "hs_clock (set_controllers sid s) = hs_clock s" "hs_id (set_controllers sid s) = hs_id s"
  "hs_manifest (set_controllers sid s) = hs_manifest s"
  "dict_keys (hs_sims (set_controllers sid s)) = dict_keys (hs_sims s)"
  by (auto simp: set_controllers_def dom_map_of_conv_image_fst [symmetric] split: option.splits)

lemma sim_players_cong: "hs_players s = hs_players t \<Longrightarrow> sim_players sid s = sim_players sid t"
  by (simp add: sim_players_def)

lemma sim_players_set_controllers [simp]: "sim_players x (set_controllers sid s) = sim_players x s"
  by (simp add: sim_players_def)

lemma set_controllers_lookup:
  "map_of (hs_sims (set_controllers sid s)) x =
     (if x = sid then map_option (\<lambda>m. m\<lparr>si_controllers := sim_players sid s\<rparr>) (map_of (hs_sims s) sid)
      else map_of (hs_sims s) x)"
  by (auto simp: set_controllers_def split: option.splits)

lemma set_controllers_sims_ok [simp]: "sims_ok (hs_sims s) \<Longrightarrow> sims_ok (hs_sims (set_controllers sid s))"
  by (auto simp: sims_ok_def set_controllers_def split: option.splits)

lemma fold_controllers_frame [simp]:
  "hs_players (fold set_controllers ks s) = hs_players s" "hs_travel (fold set_controllers ks s) = hs_travel s"
  "hs_build (fold set_controllers ks s) = hs_build s" "hs_requests (fold set_controllers ks s) = hs_requests s"
  "hs_reconnect (fold set_controllers ks s) = hs_reconnect s"
  "hs_commands (fold set_controllers ks s) = hs_commands s" "hs_dialogs (fold set_controllers ks s) = hs_dialogs s"
  "hs_clock (fold set_controllers ks s) = hs_clock s" "hs_id (fold set_controllers ks s) = hs_id s"
  "dict_keys (hs_sims (fold set_controllers ks s)) = dict_keys (hs_sims s)"
  by (induction ks arbitrary: s) simp_all

lemma fold_controllers_sims_ok: "sims_ok (hs_sims s) \<Longrightarrow> sims_ok (hs_sims (fold set_controllers ks s))"
  by (induction ks arbitrary: s) simp_all

lemma fold_controllers_lookup:
  "map_of (hs_sims (fold set_controllers ks s)) x =
     (if x \<in> set ks then map_option (\<lambda>m. m\<lparr>si_controllers := sim_players x s\<rparr>) (map_of (hs_sims s) x)
      else map_of (hs_sims s) x)"
  by (induction ks arbitrary: s) (auto simp: set_controllers_lookup option.map_comp comp_def)

lemma set_all_controllers_exact: "controllers_exact (set_all_controllers s)"
proof -
  have "sim_players x (fold set_controllers ks s) = sim_players x s" for x ks
    by (rule sim_players_cong) simp
  then show ?thesis
    by (auto simp: controllers_exact_def set_all_controllers_def fold_controllers_lookup
        dom_map_of_conv_image_fst [symmetric] split: if_splits)
qed

lemma exact_ok: "controllers_exact s \<Longrightarrow> controllers_ok s"
  by (simp add: controllers_exact_def controllers_ok_def)

lemma sim_players_iff:
  assumes "players_ok (hs_players s)"
  shows "pid \<in> set (sim_players sid s) \<longleftrightarrow> (\<exists>p. get_player pid s = Some p \<and> pl_sim p = Some sid)"
proof
  assume "pid \<in> set (sim_players sid s)"
  then obtain k p where kp: "(k, p) \<in> set (hs_players s)" "pl_sim p = Some sid" "pid = pl_id p"
    by (auto simp: sim_players_def)
  then have "map_of (hs_players s) k = Some p"
    using assms by (simp add: players_ok_def)
  then show "\<exists>p. get_player pid s = Some p \<and> pl_sim p = Some sid"
    using assms kp by (auto simp: players_ok_def get_player_def)
next
  assume "\<exists>p. get_player pid s = Some p \<and> pl_sim p = Some sid"
  then obtain p where p: "map_of (hs_players s) pid = Some p" "pl_sim p = Some sid"
    by (auto simp: get_player_def)
  moreover have "pl_id p = pid" using assms p(1) by (simp add: players_ok_def)
  ultimately show "pid \<in> set (sim_players sid s)"
    using map_of_SomeD [OF p(1)] by (force simp: sim_players_def)
qed

lemma controllers_ok_iff:
  assumes "players_ok (hs_players s)"
  shows "controllers_ok s \<longleftrightarrow> (\<forall>pid p sid m. get_player pid s = Some p \<longrightarrow> pl_sim p = Some sid \<longrightarrow>
     map_of (hs_sims s) sid = Some m \<longrightarrow> pid \<in> set (si_controllers m))"
  using sim_players_iff [OF assms] by (auto simp: controllers_ok_def subset_iff)

lemma travellers_mono: "travellers_ok P c \<Longrightarrow> P \<subseteq> Q \<Longrightarrow> travellers_ok Q c"
  by (auto simp: travellers_ok_def split: option.splits)

lemma put_player_session_ok: "session_ok s \<Longrightarrow> session_ok (put_player p s)"
  using travellers_mono [of "dict_keys (hs_players s)" "hs_travel s" "insert (pl_id p) (dict_keys (hs_players s))"]
  by (auto simp: session_ok_def)

text \<open>A player record changes without a new sim: every controller list stays complete.\<close>

lemma put_player_controllers_ok:
  assumes "session_ok s" "controllers_ok s"
    and "\<And>sid. pl_sim p = Some sid \<Longrightarrow> Option.bind (get_player (pl_id p) s) pl_sim = Some sid"
  shows "controllers_ok (put_player p s)"
proof -
  have ok: "players_ok (hs_players s)" "players_ok (hs_players (put_player p s))"
    using assms(1) by (simp_all add: session_ok_def)
  show ?thesis
    using assms(2,3) unfolding controllers_ok_iff [OF ok(1)] controllers_ok_iff [OF ok(2)]
    by (auto simp: bind_eq_Some_conv)
qed

text \<open>A player takes a sim and the sim's controllers are derived again.\<close>

lemma take_sim_ok:
  fixes p :: player and sid :: string
  assumes "session_ok s" "controllers_ok s"
  defines "s1 \<equiv> set_controllers sid (put_player (p\<lparr>pl_sim := Some sid\<rparr>) s)"
  shows "session_ok s1" "controllers_ok s1"
proof -
  have s: "session_ok (put_player (p\<lparr>pl_sim := Some sid\<rparr>) s)"
    by (rule put_player_session_ok [OF assms(1)])
  then show ok: "session_ok s1" by (simp add: s1_def session_ok_def)
  have pl: "players_ok (hs_players s)" using assms(1) by (simp add: session_ok_def)
  have "pid' \<in> set (si_controllers m)"
    if g: "get_player pid' s1 = Some q" "pl_sim q = Some x" and m: "map_of (hs_sims s1) x = Some m"
    for pid' q x m
  proof (cases "x = sid")
    case True
    have "pid' \<in> set (sim_players sid (put_player (p\<lparr>pl_sim := Some sid\<rparr>) s))"
      using g True sim_players_iff [of "put_player (p\<lparr>pl_sim := Some sid\<rparr>) s" pid' sid] s
      by (auto simp: session_ok_def s1_def get_player_def)
    then show ?thesis using m True by (auto simp: s1_def set_controllers_lookup)
  next
    case False
    then have "get_player pid' s = Some q" "map_of (hs_sims s) x = Some m"
      using g m by (auto simp: s1_def get_player_def set_controllers_lookup split: if_splits)
    then show ?thesis using assms(2) g(2) by (auto simp: controllers_ok_iff [OF pl])
  qed
  then show "controllers_ok s1"
    using ok by (auto simp: session_ok_def controllers_ok_iff)
qed

lemma update_player_ok:
  assumes "session_ok s" "controllers_ok s" and "get_player pid s = Some q"
    and "pl_id p = pl_id q" "pl_sim p = pl_sim q"
  shows "session_ok (put_player p s)" "controllers_ok (put_player p s)"
proof -
  have "pl_id q = pid"
    using assms(1) get_player_id [OF _ assms(3)] by (simp add: session_ok_def)
  then show "controllers_ok (put_player p s)"
    using assms by (intro put_player_controllers_ok) simp_all
qed (rule put_player_session_ok [OF assms(1)])

lemma set_manifest_ok [kermp_inv]:
  assumes "session_ok s" "controllers_ok s"
  shows "session_ok (fst (set_manifest pid m s))" "controllers_ok (fst (set_manifest pid m s))"
  using assms by (simp_all add: set_manifest_def Let_def update_player_ok split: option.splits)

lemma update_readiness_ok [kermp_inv]:
  assumes "session_ok s" "controllers_ok s"
  shows "session_ok (fst (update_readiness pid fs s))" "controllers_ok (fst (update_readiness pid fs s))"
  using assms by (simp_all add: update_readiness_def update_player_ok split: option.splits prod.splits)

lemma restore_sim_ok:
  assumes "session_ok s" "controllers_ok s"
  shows "session_ok (restore_sim pid s)" "controllers_ok (restore_sim pid s)"
  using assms take_sim_ok [OF assms] by (auto simp: restore_sim_def split: option.splits)

lemma add_player_ok [kermp_inv]:
  assumes "session_ok s" "controllers_ok s"
  shows "session_ok (add_player pid name m s)" "controllers_ok (add_player pid name m s)"
proof -
  have "session_ok (put_player (new_player pid name) s)" "controllers_ok (put_player (new_player pid name) s)"
    using put_player_session_ok [OF assms(1)] put_player_controllers_ok [OF assms, of "new_player pid name"]
    by (simp_all add: new_player_def)
  then show "session_ok (add_player pid name m s)" "controllers_ok (add_player pid name m s)"
    by (auto simp: add_player_def Let_def intro!: restore_sim_ok set_manifest_ok split: option.splits)
qed

lemma select_sim_ok [kermp_inv]:
  assumes "session_ok s" "controllers_ok s"
  shows "session_ok (fst (select_sim pid sid s))" "controllers_ok (fst (select_sim pid sid s))"
  using assms take_sim_ok [OF assms] by (auto simp: select_sim_def Let_def split: option.splits)

lemma sims_ok_update: "sims_ok sims \<Longrightarrow> si_id m = sid \<Longrightarrow> sims_ok (AList.update sid m sims)"
  by (simp add: sims_ok_def)

lemma sim_entries_ok: "sim_entries prev vs acc = Inr sims \<Longrightarrow> sims_ok acc \<Longrightarrow> sims_ok sims"
proof (induction vs arbitrary: acc)
  case (Cons v vs)
  show ?case
  proof (cases "as_mapping v")
    case (Inr d)
    let ?sid = "py_str (pget d ''sim_id'')"
    define m where "m = \<lparr>si_id = ?sid, si_name = py_str (pget_default d ''name'' (VStr [])),
        si_controllers = (case map_of prev ?sid of None \<Rightarrow> [] | Some m \<Rightarrow> si_controllers m)\<rparr>"
    have "sims_ok (AList.update ?sid m acc)"
      by (rule sims_ok_update [OF Cons.prems(2)]) (simp add: m_def)
    moreover have "sim_entries prev (v # vs) acc =
        (if pget d ''sim_id'' = VNone \<or> ?sid = [] then sim_entries prev vs acc
         else sim_entries prev vs (AList.update ?sid m acc))"
      by (simp add: Inr Let_def m_def)
    ultimately show ?thesis
      using Cons.prems Cons.IH [of acc] Cons.IH [of "AList.update ?sid m acc"]
      by (auto split: if_splits)
  qed (use Cons.prems in simp)
qed simp

lemma update_sims_ok [kermp_inv]:
  assumes "session_ok s" "controllers_ok s"
  shows "session_ok (fst (update_sims vs s))" "controllers_ok (fst (update_sims vs s))"
proof -
  show "session_ok (fst (update_sims vs s))"
  proof (cases "sim_entries (hs_sims s) vs []")
    case (Inr sims)
    have "sims_ok sims" by (rule sim_entries_ok [OF Inr]) (simp add: sims_ok_def)
    then have "sims_ok (hs_sims (set_all_controllers (s\<lparr>hs_sims := sims\<rparr>)))"
      unfolding set_all_controllers_def by (intro fold_controllers_sims_ok) simp
    then show ?thesis
      using assms(1) Inr by (simp add: update_sims_def session_ok_def set_all_controllers_def)
  qed (use assms in \<open>simp add: update_sims_def\<close>)
  show "controllers_ok (fst (update_sims vs s))"
    using assms by (simp add: update_sims_def exact_ok set_all_controllers_exact split: sum.splits)
qed

text \<open>A player leaves: nothing of the session refers to it afterwards.\<close>

lemma remove_travellers:
  assumes "travellers_ok P c"
  shows "travellers_ok (P - {pid}) (fst (remove_participant pid c))"
proof (cases "tc_current c")
  case (Some t)
  have "tx_participants (fst (txn_remove pid t)) = tx_participants t - {pid}"
    by (simp add: txn_remove_def Let_def)
  then show ?thesis
    using assms Some by (auto simp: travellers_ok_def remove_participant_def set_txn_def)
qed (simp add: travellers_ok_def remove_participant_def)

lemma drop_lock_ok: "authority_ok a \<Longrightarrow> authority_ok (drop_lock pid a)"
  by (simp add: drop_lock_def authority_ok_def)

lemma remove_player_fields:
  "hs_players (remove_player pid s) = AList.delete pid (hs_players s)"
  "hs_travel (remove_player pid s) = fst (remove_participant pid (hs_travel s))"
  "hs_build (remove_player pid s) = drop_lock pid (hs_build s)"
  "hs_dialogs (remove_player pid s) = fst (disconnect_dialogs pid (hs_dialogs s))"
  "hs_requests (remove_player pid s) = hs_requests s"
  "hs_commands (remove_player pid s) = hs_commands s"
  by (simp_all add: remove_player_def remember_sim_def set_all_controllers_def Let_def split: option.splits)

lemma remove_player_exact: "controllers_exact (remove_player pid s)"
  using set_all_controllers_exact [of "(remember_sim pid s)\<lparr>hs_players :=
    AList.delete pid (hs_players (remember_sim pid s))\<rparr>"]
  by (simp add: remove_player_def controllers_exact_def sim_players_def Let_def)

lemma remove_player_ok [kermp_inv]:
  assumes "session_ok s"
  shows "session_ok (remove_player pid s)" "controllers_ok (remove_player pid s)"
proof -
  have r: "hs_sims (remember_sim pid s) = hs_sims s"
    by (simp add: remember_sim_def split: option.splits)
  have "sims_ok (hs_sims (set_all_controllers ((remember_sim pid s)\<lparr>hs_players := ps\<rparr>)))" for ps
    unfolding set_all_controllers_def
    using assms by (intro fold_controllers_sims_ok) (simp add: r session_ok_def)
  then have "sims_ok (hs_sims (remove_player pid s))" by (simp add: remove_player_def Let_def)
  then show "session_ok (remove_player pid s)"
    using assms remove_travellers [of "dict_keys (hs_players s)" "hs_travel s" pid]
    by (simp add: session_ok_def remove_player_fields drop_lock_ok remove_participant_ok disconnect_dialogs_ok)
qed (rule exact_ok [OF remove_player_exact])

lemma requests_ok [kermp_inv]:
  assumes "session_ok s" "controllers_ok s"
  shows "session_ok (fst (validate_interaction rid pid payload s))"
    "controllers_ok (fst (validate_interaction rid pid payload s))"
    "session_ok (fst (cancel_interaction rid pid payload s))"
    "controllers_ok (fst (cancel_interaction rid pid payload s))"
    "session_ok (put_request_field r k v s)" "controllers_ok (put_request_field r k v s)"
proof -
  have "session_ok (s\<lparr>hs_requests := AList.update r d (hs_requests s)\<rparr>)"
    "controllers_ok (s\<lparr>hs_requests := AList.update r d (hs_requests s)\<rparr>)" for r d
    using assms by (simp_all add: session_ok_def controllers_ok_def sim_players_def)
  then show "session_ok (fst (validate_interaction rid pid payload s))"
    "controllers_ok (fst (validate_interaction rid pid payload s))"
    "session_ok (fst (cancel_interaction rid pid payload s))"
    "controllers_ok (fst (cancel_interaction rid pid payload s))"
    "session_ok (put_request_field r k v s)" "controllers_ok (put_request_field r k v s)"
    using assms by (simp_all add: validate_interaction_def cancel_interaction_def put_request_field_def
        Let_def split: option.splits sum.splits)
qed

section \<open>Interaction requests\<close>

lemma interaction_accepted:
  assumes "validate_interaction rid pid payload s = (s', Inr d)"
  obtains p sid kwargs where "get_player pid s = Some p" "pl_sim p = Some sid" "map_of (hs_sims s) sid \<noteq> None"
    "claimed_sim payload (Some p) = sid" "py_str (py_or rid (VStr [])) \<notin> dict_keys (hs_requests s)"
    "d = request_dict (py_str (py_or rid (VStr []))) pid sid
       (py_str (py_or (pget payload ''affordance_id'') (VStr []))) payload kwargs"
    "s' = s\<lparr>hs_requests := AList.update (py_str (py_or rid (VStr []))) d (hs_requests s)\<rparr>"
proof -
  let ?rid = "py_str (py_or rid (VStr []))"
  have none: "interaction_error ?rid pid payload s = None"
    using assms by (auto simp: validate_interaction_def Let_def split: option.splits sum.splits)
  then obtain p where "get_player pid s = Some p" "pl_sim p = Some (claimed_sim payload (Some p))"
    "map_of (hs_sims s) (claimed_sim payload (Some p)) \<noteq> None" "map_of (hs_requests s) ?rid = None"
    by (auto simp: interaction_error_def Let_def bind_eq_Some_conv split: if_splits)
  moreover obtain kwargs where "d = request_dict ?rid pid (claimed_sim payload (get_player pid s))
       (py_str (py_or (pget payload ''affordance_id'') (VStr []))) payload kwargs"
    "s' = s\<lparr>hs_requests := AList.update ?rid d (hs_requests s)\<rparr>"
    using assms none by (auto simp: validate_interaction_def Let_def split: sum.splits)
  ultimately show thesis
    using that by (auto simp: dom_map_of_conv_image_fst [symmetric])
qed

datatype interaction_act =
    Interact pyval string pydict
  | CancelInteraction pyval string pydict
  | AssignField string string pyval

fun interaction_exec :: "interaction_act \<Rightarrow> host_session \<Rightarrow> host_session" where
  "interaction_exec (Interact rid pid payload) s = fst (validate_interaction rid pid payload s)"
| "interaction_exec (CancelInteraction rid pid payload) s = fst (cancel_interaction rid pid payload s)"
| "interaction_exec (AssignField rid k v) s = put_request_field rid k v s"

fun interaction_key :: "interaction_act \<Rightarrow> string" where
  "interaction_key (Interact rid pid payload) = py_str (py_or rid (VStr []))"
| "interaction_key (CancelInteraction rid pid payload) = []"
| "interaction_key (AssignField rid k v) = []"

fun interaction_accepts :: "interaction_act \<Rightarrow> host_session \<Rightarrow> bool" where
  "interaction_accepts (Interact rid pid payload) s =
     (case snd (validate_interaction rid pid payload s) of Inl e \<Rightarrow> False | Inr d \<Rightarrow> True)"
| "interaction_accepts (CancelInteraction rid pid payload) s = False"
| "interaction_accepts (AssignField rid k v) s = False"

lemma interaction_exec_seen: "dict_keys (hs_requests s) \<subseteq> dict_keys (hs_requests (interaction_exec a s))"
  by (cases a) (auto simp: validate_interaction_def cancel_interaction_def put_request_field_def Let_def
      split: option.splits sum.splits)

interpretation interaction_once: once_only "\<lambda>s. dict_keys (hs_requests s)" interaction_key
  interaction_accepts interaction_exec
proof unfold_locales
  fix a :: interaction_act and s :: host_session
  show "interaction_accepts a s \<Longrightarrow> interaction_key a \<notin> dict_keys (hs_requests s)"
  proof (cases a)
    case (Interact rid pid payload)
    assume "interaction_accepts a s"
    then obtain s' d where "validate_interaction rid pid payload s = (s', Inr d)"
      using Interact by (cases "validate_interaction rid pid payload s") (auto split: sum.splits)
    then show ?thesis using Interact by (auto elim: interaction_accepted)
  qed simp_all
  show "interaction_accepts a s \<Longrightarrow> interaction_key a \<in> dict_keys (hs_requests (interaction_exec a s))"
  proof (cases a)
    case (Interact rid pid payload)
    assume "interaction_accepts a s"
    then obtain s' d where v: "validate_interaction rid pid payload s = (s', Inr d)"
      using Interact by (cases "validate_interaction rid pid payload s") (auto split: sum.splits)
    show ?thesis by (rule interaction_accepted [OF v]) (simp add: Interact v)
  qed simp_all
  show "dict_keys (hs_requests s) \<subseteq> dict_keys (hs_requests (interaction_exec a s))"
    by (rule interaction_exec_seen)
qed

section \<open>Leaving and coming back\<close>

lemma remove_player_forgets:
  assumes "session_ok s"
  shows "get_player pid (remove_player pid s) = None"
    "map_of (hs_sims (remove_player pid s)) sid = Some m \<Longrightarrow> pid \<notin> set (si_controllers m)"
    "\<not> owns pid (hs_build (remove_player pid s))"
    "tc_current (hs_travel (remove_player pid s)) = Some t \<Longrightarrow> finished (tx_phase t) \<or> pid \<notin> tx_participants t"
    "map_of (dr_pending (hs_dialogs (remove_player pid s))) i = Some d \<Longrightarrow> dl_owner d \<noteq> pid"
proof -
  note ok = remove_player_ok(1) [OF assms, of pid]
  show none: "get_player pid (remove_player pid s) = None"
    by (simp add: get_player_def remove_player_fields)
  show "pid \<notin> set (si_controllers m)" if "map_of (hs_sims (remove_player pid s)) sid = Some m"
    using remove_player_exact [of pid s] that none sim_players_iff [of "remove_player pid s" pid sid] ok
    by (auto simp: controllers_exact_def session_ok_def)
  show "\<not> owns pid (hs_build (remove_player pid s))"
    by (simp add: remove_player_fields drop_lock_def owns_def split: option.splits)
  show "finished (tx_phase t) \<or> pid \<notin> tx_participants t"
    if "tc_current (hs_travel (remove_player pid s)) = Some t"
    using ok that by (auto simp: session_ok_def travellers_ok_def remove_player_fields)
  have "dialogs_ok (hs_dialogs s)" using assms by (simp add: session_ok_def)
  then show "dl_owner d \<noteq> pid" if "map_of (dr_pending (hs_dialogs (remove_player pid s))) i = Some d"
    using that by (auto simp: remove_player_fields disconnect_lookup split: option.splits if_splits)
qed

lemma remove_player_reconnect:
  "hs_reconnect (remove_player pid s) =
     (case Option.bind (get_player pid s) pl_sim of
        None \<Rightarrow> hs_reconnect s
      | Some sid \<Rightarrow> if sid = [] then hs_reconnect s else AList.update pid sid (hs_reconnect s))"
  by (simp add: remove_player_def remember_sim_def set_all_controllers_def Let_def split: option.splits)

lemma remove_player_sims: "dict_keys (hs_sims (remove_player pid s)) = dict_keys (hs_sims s)"
  by (simp add: remove_player_def remember_sim_def set_all_controllers_def Let_def split: option.splits)

lemma add_player_sim:
  "Option.bind (get_player pid (add_player pid name m s)) pl_sim =
     (case map_of (hs_reconnect s) pid of
        None \<Rightarrow> None
      | Some sid \<Rightarrow> if map_of (hs_sims s) sid = None then None else Some sid)"
proof -
  let ?s1 = "put_player (new_player pid name) s"
  let ?s2 = "case m of None \<Rightarrow> ?s1 | Some m \<Rightarrow> fst (set_manifest pid m ?s1)"
  have "\<exists>p. get_player pid ?s2 = Some p \<and> pl_id p = pid \<and> pl_sim p = None"
    by (auto simp: set_manifest_def new_player_def Let_def split: option.splits)
  then obtain p where p: "get_player pid ?s2 = Some p" "pl_id p = pid" "pl_sim p = None" by blast
  have "hs_reconnect ?s2 = hs_reconnect s" "hs_sims ?s2 = hs_sims s"
    by (auto simp: set_manifest_def new_player_def Let_def split: option.splits)
  then show ?thesis
    using p unfolding add_player_def Let_def
    by (auto simp: restore_sim_def get_player_def split: option.splits)
qed

lemma reconnect_restores:
  assumes "get_player pid s = Some p" "pl_sim p = Some sid" "sid \<noteq> []" "map_of (hs_sims s) sid \<noteq> None"
  shows "Option.bind (get_player pid (add_player pid name m (remove_player pid s))) pl_sim = Some sid"
proof -
  have "map_of (hs_sims (remove_player pid s)) sid \<noteq> None"
    using assms(4) remove_player_sims [of pid s] by (simp add: map_of_eq_None_iff)
  then show ?thesis using assms by (simp add: add_player_sim remove_player_reconnect)
qed

lemma core_ready_iff:
  "core_ready (session_readiness s) \<longleftrightarrow> hs_players s \<noteq> [] \<and>
     (\<forall>(pid, p) \<in> set (hs_players s). rd_reasons (pl_readiness p) = [] \<and>
        truthy (rd_save_hash (pl_readiness p)) \<and> truthy (rd_bridge (pl_readiness p)) \<and>
        truthy (rd_zone (pl_readiness p)) \<and> truthy (rd_authority (pl_readiness p)) \<and>
        (hs_native_required s \<longrightarrow> truthy (rd_native (pl_readiness p))))"
  by (auto simp: core_ready_def session_readiness_def all_players_def list_all_iff)

end
