(* ===== verification/Save_Sync.thy ===== *)
theory Save_Sync
  imports KerMP_Prelude
begin

text \<open>
  \<^verbatim>\<open>src/kermp/save_sync.py\<close>: the manifest of a save slot, the slots of a
  directory, and the receiver that writes numbered chunks to a partial file and installs
  it after the hash matched. Bytes are a list of \<open>'b\<close>; the digest function \<open>sha256\<close>
  is a parameter. The destination directory is a map from file names to contents, the
  backups a list of (name, contents); the time stamp of a backup is an argument.
\<close>

definition CHUNK_SIZE :: int where "CHUNK_SIZE = 64 * 1024"
definition MAX_CHUNK_SIZE :: int where "MAX_CHUNK_SIZE = 256 * 1024"

definition is_hex :: "char \<Rightarrow> bool" where
  "is_hex c \<longleftrightarrow> (let n = (of_char c :: nat) in
     (48 \<le> n \<and> n \<le> 57) \<or> (65 \<le> n \<and> n \<le> 70) \<or> (97 \<le> n \<and> n \<le> 102))"

text \<open>
  \<open>_SLOT.match(name)\<close>, the pattern \<open>^(Slot_[0-9A-Fa-f]+)\.save$\<close>: the slot id it
  captures. \<open>$\<close> also matches before one final newline.
\<close>

definition slot_match :: "string \<Rightarrow> string option" where
  "slot_match name =
     (let nm = (if name \<noteq> [] \<and> last name = char_of (10::nat) then butlast name else name);
          stem = take (length nm - 5) nm;
          hex = drop 5 stem
      in if 5 \<le> length nm \<and> drop (length nm - 5) nm = ''.save'' \<and> take 5 stem = ''Slot_'' \<and>
            hex \<noteq> [] \<and> list_all is_hex hex
         then Some stem else None)"

section \<open>Slots\<close>

record save_slot =
  ss_id :: string
  ss_size :: int
  ss_modified :: rat
  ss_sha256 :: string

text \<open>\<open>SaveSlot.from_path\<close> on a file's name, contents and modification time.\<close>

definition slot_of_file :: "('b list \<Rightarrow> string) \<Rightarrow> string \<Rightarrow> 'b list \<Rightarrow> rat \<Rightarrow> py_error + save_slot" where
  "slot_of_file sha256 name bytes mtime =
     (case slot_match name of
        None \<Rightarrow> Inl (ValueError ''not_a_sims_save_slot'')
      | Some i \<Rightarrow> Inr \<lparr>ss_id = i, ss_size = int (length bytes), ss_modified = mtime,
                      ss_sha256 = sha256 bytes\<rparr>)"

definition save_manifest :: "save_slot \<Rightarrow> string \<Rightarrow> int \<Rightarrow> py_error + pydict" where
  "save_manifest s session_id chunk_size =
     (if \<not> (1 \<le> chunk_size \<and> chunk_size \<le> MAX_CHUNK_SIZE)
      then Inl (ValueError ''invalid_chunk_size'')
      else Inr
       [(''session_id'', VStr session_id), (''slot_id'', VStr (ss_id s)),
        (''total_bytes'', VInt (ss_size s)), (''chunk_size'', VInt chunk_size),
        (''chunk_count'', VInt ((ss_size s + chunk_size - 1) div chunk_size)),
        (''sha256'', VStr (ss_sha256 s)), (''modified_at'', VFloat (ss_modified s) [])])"

text \<open>
  \<open>discover_slots\<close> over the regular files of the directory, newest first; \<open>sorted\<close> with
  \<open>reverse=True\<close> keeps equal keys in their order.
\<close>

definition discover_slots :: "('b list \<Rightarrow> string) \<Rightarrow> (string \<times> 'b list \<times> rat) list \<Rightarrow> save_slot list" where
  "discover_slots sha256 files =
     sort_key (\<lambda>s. - ss_modified s)
       (concat (map (\<lambda>(name, bytes, mtime).
          case slot_of_file sha256 name bytes mtime of Inl e \<Rightarrow> [] | Inr s \<Rightarrow> [s]) files))"

section \<open>The receiver\<close>

record save_receiver =
  sr_slot :: string
  sr_total :: int
  sr_chunk_size :: int
  sr_chunk_count :: int
  sr_hash :: string
  sr_next :: int
  sr_received :: int

record 'b save_dir =
  sd_files :: "(string \<times> 'b list) list"
  sd_backups :: "(string \<times> 'b list) list"

definition partial_name :: "save_receiver \<Rightarrow> string" where
  "partial_name r = sr_slot r @ ''.kermp.partial''"

definition final_name :: "save_receiver \<Rightarrow> string" where
  "final_name r = sr_slot r @ ''.save''"

definition remove_file :: "string \<Rightarrow> 'b save_dir \<Rightarrow> 'b save_dir" where
  "remove_file n d = d\<lparr>sd_files := AList.delete n (sd_files d)\<rparr>"

text \<open>\<open>SaveReceiver.__init__\<close>: the manifest is checked, a stale partial file is removed.\<close>

definition new_receiver :: "pydict \<Rightarrow> 'b save_dir \<Rightarrow> 'b save_dir \<times> (py_error + save_receiver)" where
  "new_receiver manifest d =
     (let slot = py_str (py_or (pget manifest ''slot_id'') (VStr []));
          hash = py_str (py_or (pget manifest ''sha256'') (VStr []))
      in case py_int (pget_default manifest ''total_bytes'' (VInt (-1))) of
        Inl e \<Rightarrow> (d, Inl e)
      | Inr tot \<Rightarrow>
      (case py_int (pget_default manifest ''chunk_size'' (VInt 0)) of
        Inl e \<Rightarrow> (d, Inl e)
      | Inr sz \<Rightarrow>
      (case py_int (pget_default manifest ''chunk_count'' (VInt (-1))) of
        Inl e \<Rightarrow> (d, Inl e)
      | Inr count \<Rightarrow>
        if slot_match (slot @ ''.save'') = None \<or> tot < 0 \<or> \<not> (1 \<le> sz \<and> sz \<le> MAX_CHUNK_SIZE)
           \<or> count < 0 \<or> length hash \<noteq> 64
        then (d, Inl (ValueError ''invalid_save_manifest''))
        else let r = \<lparr>sr_slot = slot, sr_total = tot, sr_chunk_size = sz, sr_chunk_count = count,
                      sr_hash = hash, sr_next = 0, sr_received = 0\<rparr>
             in (remove_file (partial_name r) d, Inr r))))"

definition append_partial :: "save_receiver \<Rightarrow> 'b list \<Rightarrow> 'b save_dir \<Rightarrow> 'b save_dir" where
  "append_partial r bytes d =
     d\<lparr>sd_files := AList.update (partial_name r)
        ((case map_of (sd_files d) (partial_name r) of None \<Rightarrow> [] | Some old \<Rightarrow> old) @ bytes)
        (sd_files d)\<rparr>"

definition chunk_error :: "int \<Rightarrow> 'b list \<Rightarrow> save_receiver \<Rightarrow> py_error option" where
  "chunk_error index bytes r =
     (if index \<noteq> sr_next r then Some (ValueError ''save_chunk_out_of_order'')
      else if sr_chunk_size r < int (length bytes) \<or> sr_total r < sr_received r + int (length bytes)
      then Some (ValueError ''save_chunk_oversized'')
      else if index \<noteq> sr_chunk_count r - 1 \<and> int (length bytes) \<noteq> sr_chunk_size r
      then Some (ValueError ''save_chunk_short'')
      else None)"

definition write_chunk ::
  "int \<Rightarrow> 'b list \<Rightarrow> save_receiver \<times> 'b save_dir \<Rightarrow> (save_receiver \<times> 'b save_dir) \<times> py_error option" where
  "write_chunk index bytes rd =
     (case rd of (r, d) \<Rightarrow>
       (case chunk_error index bytes r of
          Some e \<Rightarrow> ((r, d), Some e)
        | None \<Rightarrow>
           ((r\<lparr>sr_next := sr_next r + 1, sr_received := sr_received r + int (length bytes)\<rparr>,
             append_partial r bytes d), None)))"

definition abort_save :: "save_receiver \<Rightarrow> 'b save_dir \<Rightarrow> 'b save_dir" where
  "abort_save r d = remove_file (partial_name r) d"

text \<open>
  \<open>finalize\<close>: hashing a partial file that does not exist is a \<open>FileNotFoundError\<close> (only
  reached when counters and totals agree); a mismatch removes the partial file; otherwise
  an existing slot is copied to the backups and replaced.
\<close>

definition finalize ::
  "('b list \<Rightarrow> string) \<Rightarrow> string \<Rightarrow> string \<Rightarrow> save_receiver \<Rightarrow> 'b save_dir \<Rightarrow>
   'b save_dir \<times> (py_error + string \<times> string option)" where
  "finalize sha256 session_id stamp r d =
     (if sr_next r \<noteq> sr_chunk_count r \<or> sr_received r \<noteq> sr_total r
      then (abort_save r d, Inl (ValueError ''save_hash_mismatch''))
      else case map_of (sd_files d) (partial_name r) of
        None \<Rightarrow> (d, Inl (Unmodelled ''FileNotFoundError''))
      | Some bytes \<Rightarrow>
          if sha256 bytes \<noteq> sr_hash r
          then (abort_save r d, Inl (ValueError ''save_hash_mismatch''))
          else
            (let backup = session_id @ ''/'' @ sr_slot r @ ''.'' @ stamp @ ''.save'';
                 d1 = (case map_of (sd_files d) (final_name r) of
                         None \<Rightarrow> d
                       | Some old \<Rightarrow> d\<lparr>sd_backups := sd_backups d @ [(backup, old)]\<rparr>)
             in (d1\<lparr>sd_files := AList.update (final_name r) bytes
                      (AList.delete (partial_name r) (sd_files d1))\<rparr>,
                 Inr (final_name r,
                   if map_of (sd_files d) (final_name r) = None then None else Some backup))))"

section \<open>Properties\<close>

lemma names_differ [simp]: "partial_name r \<noteq> final_name r" "final_name r \<noteq> partial_name r"
  by (simp_all add: partial_name_def final_name_def)

definition partial_bytes :: "save_receiver \<Rightarrow> 'b save_dir \<Rightarrow> 'b list" where
  "partial_bytes r d = (case map_of (sd_files d) (partial_name r) of None \<Rightarrow> [] | Some b \<Rightarrow> b)"

text \<open>
  The counters agree with the partial file: as many bytes as received, full chunks up to
  the last one, never more than the announced total.
\<close>

definition receiver_ok :: "save_receiver \<times> 'b save_dir \<Rightarrow> bool" where
  "receiver_ok rd \<longleftrightarrow> (case rd of (r, d) \<Rightarrow>
     1 \<le> sr_chunk_size r \<and> sr_chunk_size r \<le> MAX_CHUNK_SIZE \<and> 0 \<le> sr_next r \<and>
     0 \<le> sr_received r \<and> sr_received r \<le> sr_total r \<and>
     sr_received r = int (length (partial_bytes r d)) \<and>
     sr_received r \<le> sr_next r * sr_chunk_size r \<and>
     (sr_next r < sr_chunk_count r \<longrightarrow> sr_received r = sr_next r * sr_chunk_size r) \<and>
     length (sr_hash r) = 64 \<and> slot_match (final_name r) \<noteq> None)"

lemma new_receiver_ok:
  assumes "new_receiver manifest d = (d', Inr r)"
  shows "receiver_ok (r, d')"
  using assms
  by (auto simp: new_receiver_def receiver_ok_def partial_bytes_def remove_file_def final_name_def
      Let_def split: sum.splits if_splits)

lemma receiver_frame [simp]:
  "partial_name (r\<lparr>sr_next := a, sr_received := b\<rparr>) = partial_name r"
  "final_name (r\<lparr>sr_next := a, sr_received := b\<rparr>) = final_name r"
  "partial_bytes (r\<lparr>sr_next := a, sr_received := b\<rparr>) d = partial_bytes r d"
  by (simp_all add: partial_name_def final_name_def partial_bytes_def)

lemma partial_append [simp]:
  "partial_bytes r (append_partial r bytes d) = partial_bytes r d @ bytes"
  by (simp add: partial_bytes_def append_partial_def split: option.splits)

lemma chunk_accepted:
  assumes "chunk_error index bytes r = None"
  shows "index = sr_next r" "int (length bytes) \<le> sr_chunk_size r"
    "sr_received r + int (length bytes) \<le> sr_total r"
    "index \<noteq> sr_chunk_count r - 1 \<Longrightarrow> int (length bytes) = sr_chunk_size r"
  using assms by (auto simp: chunk_error_def split: if_splits)

lemma write_chunk_ok:
  assumes "receiver_ok rd"
  shows "receiver_ok (fst (write_chunk index bytes rd))"
proof (cases rd)
  case (Pair r d)
  show ?thesis
  proof (cases "chunk_error index bytes r")
    case None
    note c = chunk_accepted [OF None]
    have mult: "(sr_next r + 1) * sr_chunk_size r = sr_next r * sr_chunk_size r + sr_chunk_size r"
      by (simp add: distrib_right)
    show ?thesis
      using assms None c Pair by (auto simp: receiver_ok_def write_chunk_def mult)
  next
    case (Some e)
    then show ?thesis using assms Pair by (simp add: write_chunk_def)
  qed
qed

text \<open>Nothing but the partial file of the slot is touched while chunks arrive.\<close>

lemma write_chunk_other_files:
  "n \<noteq> partial_name r \<Longrightarrow>
   map_of (sd_files (snd (fst (write_chunk index bytes (r, d))))) n = map_of (sd_files d) n"
  by (auto simp: write_chunk_def append_partial_def split: option.splits)

lemma write_chunk_backups [simp]:
  "sd_backups (snd (fst (write_chunk index bytes (r, d)))) = sd_backups d"
  by (auto simp: write_chunk_def append_partial_def split: option.splits)

text \<open>The run of a transfer, and the sender's chunks.\<close>

fun write_chunks ::
  "int \<Rightarrow> 'b list list \<Rightarrow> save_receiver \<times> 'b save_dir \<Rightarrow> (save_receiver \<times> 'b save_dir) \<times> py_error option" where
  "write_chunks i [] rd = (rd, None)"
| "write_chunks i (c # cs) rd =
     (case write_chunk i c rd of
        (rd', Some e) \<Rightarrow> (rd', Some e)
      | (rd', None) \<Rightarrow> write_chunks (i + 1) cs rd')"

lemma write_chunks_frame:
  "write_chunks i cs (r, d) = ((r', d'), x) \<Longrightarrow>
   sr_hash r' = sr_hash r \<and> sr_total r' = sr_total r \<and> sr_slot r' = sr_slot r"
proof (induction cs arbitrary: i r d)
  case (Cons c cs)
  obtain r1 d1 y where w: "write_chunk i c (r, d) = ((r1, d1), y)" by (metis surj_pair)
  then have "sr_hash r1 = sr_hash r \<and> sr_total r1 = sr_total r \<and> sr_slot r1 = sr_slot r"
    by (auto simp: write_chunk_def split: option.splits)
  then show ?case using Cons w by (cases y) auto
qed simp

text \<open>\<open>for index in range(count): raw = stream.read(chunk_size)\<close>.\<close>

fun file_chunks :: "nat \<Rightarrow> nat \<Rightarrow> 'b list \<Rightarrow> 'b list list" where
  "file_chunks sz 0 bytes = []"
| "file_chunks sz (Suc n) bytes = take sz bytes # file_chunks sz n (drop sz bytes)"

lemma chunks_written:
  assumes "receiver_ok (r, d)" and "sr_total r = sr_received r + int (length bytes)"
    and "sr_chunk_size r = int sz" and "sr_chunk_count r = sr_next r + int n"
    and "length bytes \<le> n * sz" and "n = 0 \<or> (n - 1) * sz < length bytes"
  shows "\<exists>r' d'. write_chunks (sr_next r) (file_chunks sz n bytes) (r, d) = ((r', d'), None) \<and>
    receiver_ok (r', d') \<and> partial_bytes r' d' = partial_bytes r d @ bytes \<and>
    sr_next r' = sr_chunk_count r \<and> sr_received r' = sr_total r \<and> sr_slot r' = sr_slot r \<and>
    sr_hash r' = sr_hash r \<and> sr_chunk_count r' = sr_chunk_count r \<and> sr_total r' = sr_total r \<and>
    (n \<noteq> 0 \<longrightarrow> map_of (sd_files d') (partial_name r) = Some (partial_bytes r d @ bytes)) \<and>
    (n = 0 \<longrightarrow> d' = d) \<and>
    (\<forall>m. m \<noteq> partial_name r \<longrightarrow> map_of (sd_files d') m = map_of (sd_files d) m) \<and>
    sd_backups d' = sd_backups d"
  using assms
proof (induction n arbitrary: r d bytes)
  case 0
  then show ?case by simp
next
  case (Suc n)
  let ?c = "take sz bytes" and ?rest = "drop sz bytes"
  have sz: "1 \<le> sz" using Suc.prems(1,3) by (simp add: receiver_ok_def)
  have full: "n \<noteq> 0 \<Longrightarrow> length ?c = sz"
    using Suc.prems(6) by (cases n) auto
  have ce: "chunk_error (sr_next r) ?c r = None"
    using Suc.prems(2,3,4) full by (auto simp: chunk_error_def min_def)
  define r1 where "r1 = r\<lparr>sr_next := sr_next r + 1, sr_received := sr_received r + int (length ?c)\<rparr>"
  define d1 where "d1 = append_partial r ?c d"
  have w: "write_chunk (sr_next r) ?c (r, d) = ((r1, d1), None)"
    using ce by (simp add: write_chunk_def r1_def d1_def)
  have ok: "receiver_ok (r1, d1)"
    using write_chunk_ok [OF Suc.prems(1), of "sr_next r" ?c] w by simp
  have names: "partial_name r1 = partial_name r" by (simp add: r1_def)
  have pb: "partial_bytes r1 d1 = partial_bytes r d @ ?c"
    by (simp add: partial_bytes_def names d1_def append_partial_def split: option.splits)
  have len: "length ?rest \<le> n * sz" using Suc.prems(5) by simp
  have rest: "n = 0 \<or> (n - 1) * sz < length ?rest"
    using Suc.prems(6) by (cases n) (auto simp: less_diff_conv)
  have tot: "sr_total r1 = sr_received r1 + int (length ?rest)"
    using Suc.prems(2) by (simp add: r1_def)
  obtain r' d' where IH: "write_chunks (sr_next r1) (file_chunks sz n ?rest) (r1, d1) = ((r', d'), None)"
    "receiver_ok (r', d')" "partial_bytes r' d' = partial_bytes r1 d1 @ ?rest"
    "sr_next r' = sr_chunk_count r1" "sr_received r' = sr_total r1" "sr_slot r' = sr_slot r1"
    "sr_hash r' = sr_hash r1" "sr_chunk_count r' = sr_chunk_count r1" "sr_total r' = sr_total r1"
    "n \<noteq> 0 \<longrightarrow> map_of (sd_files d') (partial_name r1) = Some (partial_bytes r1 d1 @ ?rest)"
    "n = 0 \<longrightarrow> d' = d1"
    "\<forall>m. m \<noteq> partial_name r1 \<longrightarrow> map_of (sd_files d') m = map_of (sd_files d1) m"
    "sd_backups d' = sd_backups d1"
    using Suc.IH [OF ok tot] len rest Suc.prems(3,4) by (auto simp: r1_def)
  have installed: "map_of (sd_files d') (partial_name r) = Some (partial_bytes r d @ bytes)"
  proof (cases "n = 0")
    case True
    then have "take sz bytes = bytes" using len by simp
    with True IH(11) show ?thesis
      by (simp add: d1_def append_partial_def partial_bytes_def split: option.splits)
  next
    case False
    then show ?thesis using IH(10) pb names by simp
  qed
  have "write_chunks (sr_next r) (file_chunks sz (Suc n) bytes) (r, d) = ((r', d'), None)"
    using IH(1) w by (simp add: r1_def)
  moreover have "\<forall>m. m \<noteq> partial_name r \<longrightarrow> map_of (sd_files d') m = map_of (sd_files d) m"
    using IH(12) names by (simp add: d1_def append_partial_def)
  moreover have "sd_backups d' = sd_backups d" using IH(13) by (simp add: d1_def append_partial_def)
  ultimately show ?case
    using IH(2-9) pb installed by (simp add: r1_def)
qed

text \<open>
  A whole transfer: the receiver is built from the manifest of the sender, gets every chunk
  of \<open>stream_save_to\<close> in order and finalizes.
\<close>

definition transfer ::
  "('b list \<Rightarrow> string) \<Rightarrow> string \<Rightarrow> string \<Rightarrow> pydict \<Rightarrow> 'b list list \<Rightarrow> 'b save_dir \<Rightarrow>
   'b save_dir \<times> (py_error + string \<times> string option)" where
  "transfer sha256 session_id stamp manifest chunks d =
     (case new_receiver manifest d of
        (d0, Inl e) \<Rightarrow> (d0, Inl e)
      | (d0, Inr r) \<Rightarrow>
         (case write_chunks 0 chunks (r, d0) of
            ((r1, d1), Some e) \<Rightarrow> (abort_save r1 d1, Inl e)
          | ((r1, d1), None) \<Rightarrow> finalize sha256 session_id stamp r1 d1))"

definition chunk_count_of :: "nat \<Rightarrow> nat \<Rightarrow> nat" where
  "chunk_count_of sz len = (len + sz - 1) div sz"

lemma chunk_count_bounds:
  assumes "1 \<le> sz" "1 \<le> len"
  shows "len \<le> chunk_count_of sz len * sz"
    "chunk_count_of sz len = 0 \<or> (chunk_count_of sz len - 1) * sz < len" "chunk_count_of sz len \<noteq> 0"
proof -
  let ?q = "(len + sz - 1) div sz"
  have "?q * sz + (len + sz - 1) mod sz = len + sz - 1" by (rule div_mult_mod_eq)
  moreover have "(len + sz - 1) mod sz < sz" using assms by simp
  ultimately have b: "len \<le> ?q * sz" "?q * sz \<le> len + sz - 1" by linarith+
  show "len \<le> chunk_count_of sz len * sz" using b by (simp add: chunk_count_of_def)
  then show nz: "chunk_count_of sz len \<noteq> 0" using assms by (cases "chunk_count_of sz len") auto
  have "(?q - 1) * sz = ?q * sz - sz" by (simp add: diff_mult_distrib)
  then show "chunk_count_of sz len = 0 \<or> (chunk_count_of sz len - 1) * sz < len"
    using b assms unfolding chunk_count_of_def by linarith
qed

lemma slot_match_again:
  assumes "slot_match name = Some i"
  shows "slot_match (i @ ''.save'') = Some i"
proof -
  obtain nm where i: "i = take (length nm - 5) nm" "take 5 i = ''Slot_''" "drop 5 i \<noteq> []"
    "list_all is_hex (drop 5 i)"
    using assms unfolding slot_match_def Let_def by (metis option.distinct(1) option.inject)
  have "last (i @ ''.save'') = CHR ''e''" by simp
  then have "last (i @ ''.save'') \<noteq> char_of (10::nat)" by (simp add: char_of_def)
  then show ?thesis using i(2-4) unfolding slot_match_def Let_def by simp
qed

lemma new_receiver_of_manifest:
  assumes "slot_of_file sha256 name bytes mtime = Inr s" and "save_manifest s sid cs = Inr m"
    and "length (sha256 bytes) = 64"
  shows "new_receiver m d = (remove_file (ss_id s @ ''.kermp.partial'') d,
    Inr \<lparr>sr_slot = ss_id s, sr_total = int (length bytes), sr_chunk_size = cs,
         sr_chunk_count = int (chunk_count_of (nat cs) (length bytes)), sr_hash = sha256 bytes,
         sr_next = 0, sr_received = 0\<rparr>)"
proof -
  from assms(1) have s: "slot_match name = Some (ss_id s)" "ss_size s = int (length bytes)"
    "ss_sha256 s = sha256 bytes"
    by (auto simp: slot_of_file_def split: option.splits)
  from assms(2) have cs: "1 \<le> cs" "cs \<le> MAX_CHUNK_SIZE"
    and m: "m = [(''session_id'', VStr sid), (''slot_id'', VStr (ss_id s)),
        (''total_bytes'', VInt (ss_size s)), (''chunk_size'', VInt cs),
        (''chunk_count'', VInt ((ss_size s + cs - 1) div cs)),
        (''sha256'', VStr (ss_sha256 s)), (''modified_at'', VFloat (ss_modified s) [])]"
    by (auto simp: save_manifest_def split: if_splits)
  have "ss_id s \<noteq> []"
    using s(1) by (auto simp: slot_match_def Let_def split: if_splits)
  moreover have "sha256 bytes \<noteq> []" using assms(3) by auto
  moreover have "(int (length bytes) + cs - 1) div cs = int (chunk_count_of (nat cs) (length bytes))"
    using cs by (simp add: chunk_count_of_def zdiv_int of_nat_diff)
  ultimately show ?thesis
    using slot_match_again [OF s(1)] cs assms(3) s(2,3)
    by (simp add: new_receiver_def m pget_def pget_default_def py_or_def Let_def partial_name_def)
qed

lemma transfer_complete:
  assumes slot: "slot_of_file sha256 name bytes mtime = Inr s" and man: "save_manifest s sid cs = Inr m"
    and hash: "length (sha256 bytes) = 64" and ne: "bytes \<noteq> []"
  defines "chunks \<equiv> file_chunks (nat cs) (chunk_count_of (nat cs) (length bytes)) bytes"
  shows "\<exists>d' backup. transfer sha256 session stamp m chunks d = (d', Inr (ss_id s @ ''.save'', backup)) \<and>
    map_of (sd_files d') (ss_id s @ ''.save'') = Some bytes \<and>
    map_of (sd_files d') (ss_id s @ ''.kermp.partial'') = None \<and>
    (\<forall>n. n \<noteq> ss_id s @ ''.save'' \<and> n \<noteq> ss_id s @ ''.kermp.partial'' \<longrightarrow>
       map_of (sd_files d') n = map_of (sd_files d) n) \<and>
    (case map_of (sd_files d) (ss_id s @ ''.save'') of
       None \<Rightarrow> backup = None \<and> sd_backups d' = sd_backups d
     | Some old \<Rightarrow> (\<exists>b. backup = Some b \<and> sd_backups d' = sd_backups d @ [(b, old)]))"
proof -
  let ?r = "\<lparr>sr_slot = ss_id s, sr_total = int (length bytes), sr_chunk_size = cs,
         sr_chunk_count = int (chunk_count_of (nat cs) (length bytes)), sr_hash = sha256 bytes,
         sr_next = 0, sr_received = 0\<rparr>"
  let ?d0 = "remove_file (ss_id s @ ''.kermp.partial'') d"
  note new = new_receiver_of_manifest [OF slot man hash, of d]
  have ok: "receiver_ok (?r, ?d0)" by (rule new_receiver_ok [OF new])
  have cs: "1 \<le> cs" using man by (auto simp: save_manifest_def split: if_splits)
  have len: "1 \<le> length bytes" using ne by (cases bytes) auto
  have fresh: "partial_bytes ?r ?d0 = []"
    by (simp add: partial_bytes_def partial_name_def remove_file_def)
  have sz: "1 \<le> nat cs" using cs by simp
  note cb = chunk_count_bounds [OF sz len]
  obtain r' d' where w: "write_chunks 0 chunks (?r, ?d0) = ((r', d'), None)"
    "sr_next r' = sr_chunk_count r'" "sr_received r' = sr_total r'" "sr_slot r' = ss_id s"
    "sr_hash r' = sha256 bytes"
    "map_of (sd_files d') (ss_id s @ ''.kermp.partial'') = Some bytes"
    "\<forall>m. m \<noteq> ss_id s @ ''.kermp.partial'' \<longrightarrow> map_of (sd_files d') m = map_of (sd_files d) m"
    "sd_backups d' = sd_backups d"
    using chunks_written [OF ok, of bytes "nat cs" "chunk_count_of (nat cs) (length bytes)"] cs cb fresh
    by (auto simp: chunks_def partial_name_def remove_file_def)
  have names: "partial_name r' = ss_id s @ ''.kermp.partial''" "final_name r' = ss_id s @ ''.save''"
    by (simp_all add: partial_name_def final_name_def w(4))
  have "map_of (sd_files d') (ss_id s @ ''.save'') = map_of (sd_files d) (ss_id s @ ''.save'')"
    using w(7) by simp
  then show ?thesis
    using w by (auto simp: transfer_def new finalize_def names Let_def split: option.splits)
qed

text \<open>\<open>finalize\<close> touches the final file only when the bytes hash to the manifest's digest.\<close>

lemma finalize_installs:
  assumes "finalize sha256 sid stamp r d = (d', res)"
  shows "map_of (sd_files d') (final_name r) = map_of (sd_files d) (final_name r) \<or>
     (\<exists>bytes. map_of (sd_files d') (final_name r) = Some bytes \<and> sha256 bytes = sr_hash r \<and>
        int (length (partial_bytes r d)) = int (length bytes) \<and>
        (\<forall>old. map_of (sd_files d) (final_name r) = Some old \<longrightarrow> old \<in> snd ` set (sd_backups d')))"
  using assms
  by (auto simp: finalize_def abort_save_def remove_file_def partial_bytes_def Let_def
      split: if_splits option.splits)

end
