(* ===== verification/Net.thy ===== *)
theory Net
  imports Protocol Session Save_Sync Base64
begin

text \<open>
  \<^verbatim>\<open>src/kermp/net.py\<close>: the authoritative LAN host, its peers, the dispatch of every
  message type and the life of a connection. A handler runs from one incoming line to the
  end without interleaving; it returns the host it leaves behind and the exception that
  escapes it, if any. What the host writes is appended to a log. The clock, fresh ids and
  which connections accept a write are the environment of a handler; the \<open>on_message\<close>
  callback is an argument.
\<close>

section \<open>State\<close>

record peer =
  pe_id :: string
  pe_name :: string
  pe_last_seq :: int

record msg =
  ms_type :: string
  ms_payload :: pydict
  ms_seq :: "int option"

text \<open>
  Written to a peer, to a connection that has not joined, to the local game bridge; a
  closed peer connection.
\<close>

datatype host_output =
    ToPeer string msg
  | ToNewcomer msg
  | ToGame string pydict
  | Closed string

record host =
  h_id :: string
  h_name :: string
  h_manifest :: compat_manifest
  h_session :: host_session
  h_peers :: "(string \<times> peer) list"
  h_seq :: int
  h_log :: "host_output list"

record env =
  ev_now :: rat
  ev_ns :: int
  ev_uuid :: string
  ev_up :: "string \<Rightarrow> bool"
  ev_game :: bool

type_synonym hres = "host \<times> py_error option"
type_synonym on_message = "envelope \<Rightarrow> host \<Rightarrow> hres"

definition with_session :: "(host_session \<Rightarrow> host_session) \<Rightarrow> host \<Rightarrow> host" where
  "with_session f h = h\<lparr>h_session := f (h_session h)\<rparr>"

definition put_session :: "host_session \<Rightarrow> host \<Rightarrow> host" where
  "put_session s h = h\<lparr>h_session := s\<rparr>"

definition emit :: "host_output \<Rightarrow> host \<Rightarrow> host" where
  "emit o1 h = h\<lparr>h_log := h_log h @ [o1]\<rparr>"

text \<open>Sequencing, and \<open>try ... except <classes> as exc\<close>.\<close>

definition and_then :: "hres \<Rightarrow> (host \<Rightarrow> hres) \<Rightarrow> hres" where
  "and_then r f = (case r of (h, Some e) \<Rightarrow> (h, Some e) | (h, None) \<Rightarrow> f h)"

definition catching :: "string list \<Rightarrow> (py_error \<Rightarrow> host \<Rightarrow> hres) \<Rightarrow> hres \<Rightarrow> hres" where
  "catching classes handler r =
     (case r of
        (h, None) \<Rightarrow> (h, None)
      | (h, Some e) \<Rightarrow> if exc_class e \<in> set classes then handler e h else (h, Some e))"

text \<open>\<open>KerMPHost.__init__\<close>, with the id of the session it creates.\<close>

definition new_host :: "string \<Rightarrow> string \<Rightarrow> compat_manifest \<Rightarrow> bool \<Rightarrow> string \<Rightarrow> host" where
  "new_host pid name manifest native sid =
     (let s1 = add_player pid name (Some manifest) (new_session sid (Some manifest) native);
          s2 = fst (update_readiness pid
                 [(''save_hash'', VStr ''host-local''), (''bridge_connected'', VBool False),
                  (''zone_ready'', VBool False), (''simulation_authority_ready'', VBool True)] s1)
      in \<lparr>h_id = pid, h_name = name, h_manifest = manifest, h_session = s2, h_peers = [], h_seq = 0,
          h_log = []\<rparr>)"

section \<open>Sending\<close>

definition drop_peer :: "string \<Rightarrow> host \<Rightarrow> host" where
  "drop_peer pid h =
     (let h1 = with_session (remove_player pid) (h\<lparr>h_peers := AList.delete pid (h_peers h)\<rparr>)
      in if map_of (h_peers h) pid = None then h1 else emit (Closed pid) h1)"

text \<open>The loop over \<open>self.peers\<close>: a peer whose connection fails goes to the dead.\<close>

definition broadcast_log :: "env \<Rightarrow> msg \<Rightarrow> (string \<times> peer) list \<Rightarrow> host_output list" where
  "broadcast_log ev m peers = map (\<lambda>kv. ToPeer (fst kv) m) (filter (\<lambda>kv. ev_up ev (fst kv)) peers)"

definition dead_peers :: "env \<Rightarrow> (string \<times> peer) list \<Rightarrow> string list" where
  "dead_peers ev peers = map fst (filter (\<lambda>kv. \<not> ev_up ev (fst kv)) peers)"

definition broadcast :: "env \<Rightarrow> string \<Rightarrow> pydict \<Rightarrow> host \<Rightarrow> host" where
  "broadcast ev ty payload h =
     (let h1 = h\<lparr>h_seq := h_seq h + 1\<rparr>;
          m = \<lparr>ms_type = ty, ms_payload = payload, ms_seq = Some (h_seq h1)\<rparr>;
          h2 = h1\<lparr>h_log := h_log h1 @ broadcast_log ev m (h_peers h1)\<rparr>
      in fold drop_peer (dead_peers ev (h_peers h2)) h2)"

text \<open>With \<open>include_host=True\<close> the same envelope goes to \<open>on_message\<close>.\<close>

definition broadcast_host ::
  "on_message option \<Rightarrow> env \<Rightarrow> string \<Rightarrow> pydict \<Rightarrow> host \<Rightarrow> hres" where
  "broadcast_host om ev ty payload h =
     (let h1 = broadcast ev ty payload h
      in case om of
           None \<Rightarrow> (h1, None)
         | Some f \<Rightarrow> f (make_envelope ty payload (h_id h) (Some (h_seq h + 1)) (ev_uuid ev) VNone) h1)"

definition peer_write :: "env \<Rightarrow> string \<Rightarrow> msg \<Rightarrow> host \<Rightarrow> hres" where
  "peer_write ev pid m h =
     (if ev_up ev pid then (emit (ToPeer pid m) h, None) else (h, Some (OSError ''Connection lost'')))"

definition send_to :: "env \<Rightarrow> string \<Rightarrow> string \<Rightarrow> pydict \<Rightarrow> host \<Rightarrow> hres" where
  "send_to ev pid ty payload h =
     (if map_of (h_peers h) pid = None then (h, Some (ValueError ''unknown_player''))
      else peer_write ev pid \<lparr>ms_type = ty, ms_payload = payload, ms_seq = None\<rparr> h)"

text \<open>\<open>peer = self.peers.get(id)\<close>, and a write when there is one.\<close>

definition reply :: "env \<Rightarrow> string \<Rightarrow> message_type \<Rightarrow> pydict \<Rightarrow> int option \<Rightarrow> host \<Rightarrow> hres" where
  "reply ev pid mt payload seq h =
     (if map_of (h_peers h) pid = None then (h, None)
      else peer_write ev pid \<lparr>ms_type = mt_value mt, ms_payload = payload, ms_seq = seq\<rparr> h)"

definition send_error :: "env \<Rightarrow> string \<Rightarrow> string \<Rightarrow> host \<Rightarrow> hres" where
  "send_error ev pid reason h = reply ev pid MT_ERROR [(''reason'', VStr reason)] None h"

text \<open>
  \<open>stream_save_to\<close>: the manifest, the begin marker, the chunks of the file in order, the
  end. A failed write stops the stream.
\<close>

definition chunk_payload :: "string \<Rightarrow> nat \<times> byte list \<Rightarrow> pydict" where
  "chunk_payload sid ic = [(''session_id'', VStr sid), (''index'', VInt (int (fst ic))),
     (''payload_b64'', VStr (b64encode (snd ic)))]"

definition save_messages ::
  "string \<Rightarrow> save_slot \<Rightarrow> byte list \<Rightarrow> int \<Rightarrow> py_error + (string \<times> pydict) list" where
  "save_messages sid slot bytes chunk_size =
     (case save_manifest slot sid chunk_size of
        Inl e \<Rightarrow> Inl e
      | Inr m \<Rightarrow>
        (let n = nat ((ss_size slot + chunk_size - 1) div chunk_size) in
         Inr ((mt_value MT_SAVE_MANIFEST, m) #
           (mt_value MT_SAVE_BEGIN, [(''session_id'', VStr sid), (''slot_id'', VStr (ss_id slot))]) #
           map (\<lambda>ic. (mt_value MT_SAVE_CHUNK, chunk_payload sid ic))
             (zip [0..<n] (file_chunks (nat chunk_size) n bytes)) @
           [(mt_value MT_SAVE_END, [(''session_id'', VStr sid), (''sha256'', VStr (ss_sha256 slot))])])))"

definition send_all :: "env \<Rightarrow> string \<Rightarrow> (string \<times> pydict) list \<Rightarrow> host \<Rightarrow> hres" where
  "send_all ev pid ms h = fold (\<lambda>m r. and_then r (send_to ev pid (fst m) (snd m))) ms (h, None)"

definition stream_save_to :: "env \<Rightarrow> string \<Rightarrow> save_slot \<Rightarrow> byte list \<Rightarrow> int \<Rightarrow> host \<Rightarrow> hres" where
  "stream_save_to ev pid slot bytes chunk_size h =
     (case save_messages (hs_id (h_session h)) slot bytes chunk_size of
        Inl e \<Rightarrow> (h, Some e)
      | Inr ms \<Rightarrow> send_all ev pid ms h)"

section \<open>Dispatch: one definition per message type\<close>

definition handle_ping :: "env \<Rightarrow> envelope \<Rightarrow> host \<Rightarrow> hres" where
  "handle_ping ev e h = reply ev (e_sender e) MT_PONG [(''echo'', VStr (e_message_id e))] None h"

definition readiness_allowed :: "string list" where
  "readiness_allowed =
     [''save_bytes_received'', ''save_total_bytes'', ''save_hash'', ''bridge_connected'', ''zone_ready'',
      ''simulation_authority_ready'', ''error'']"

text \<open>\<open>update_readiness\<close>, then the broadcast of the snapshot to everybody.\<close>

definition publish_readiness ::
  "on_message option \<Rightarrow> env \<Rightarrow> string \<Rightarrow> pydict \<Rightarrow> host \<Rightarrow> hres" where
  "publish_readiness om ev pid fs h =
     (case update_readiness pid fs (h_session h) of
        (s, Inl e) \<Rightarrow> (put_session s h, Some e)
      | (s, Inr r) \<Rightarrow>
         (case readiness_snapshot r of
            Inl e \<Rightarrow> (put_session s h, Some e)
          | Inr d \<Rightarrow> broadcast_host om ev (mt_value MT_READINESS) ((''player_id'', VStr pid) # d)
                      (put_session s h)))"

definition error_reply :: "env \<Rightarrow> string \<Rightarrow> py_error \<Rightarrow> host \<Rightarrow> hres" where
  "error_reply ev pid e h = send_error ev pid (exc_text e) h"

definition handle_readiness :: "on_message option \<Rightarrow> env \<Rightarrow> envelope \<Rightarrow> host \<Rightarrow> hres" where
  "handle_readiness om ev e h =
     catching [''ValueError'', ''KeyError''] (error_reply ev (e_sender e))
       (publish_readiness om ev (e_sender e)
         (filter (\<lambda>kv. fst kv \<in> set readiness_allowed) (e_payload e)) h)"

definition handle_save_ack :: "on_message option \<Rightarrow> env \<Rightarrow> envelope \<Rightarrow> host \<Rightarrow> hres" where
  "handle_save_ack om ev e h =
     catching [''ValueError'', ''KeyError''] (error_reply ev (e_sender e))
       (case py_int (pget_default (e_payload e) ''total_bytes'' (VInt 0)) of
          Inl err \<Rightarrow> (h, Some err)
        | Inr n \<Rightarrow> publish_readiness om ev (e_sender e)
            [(''save_hash'', VStr (py_str (py_or (pget (e_payload e) ''sha256'') (VStr [])))),
             (''save_bytes_received'', VInt n), (''save_total_bytes'', VInt n)] h)"

definition handle_save_error :: "on_message option \<Rightarrow> env \<Rightarrow> envelope \<Rightarrow> host \<Rightarrow> hres" where
  "handle_save_error om ev e h =
     publish_readiness om ev (e_sender e)
       [(''error'', VStr (''save_sync:'' @ py_str (pget_default (e_payload e) ''reason'' (VStr ''unknown''))))] h"

definition set_clock :: "int \<Rightarrow> bool \<Rightarrow> host \<Rightarrow> host" where
  "set_clock speed paused h =
     with_session (\<lambda>s. s\<lparr>hs_clock := \<lparr>ck_sequence = ck_sequence (hs_clock s) + 1, ck_speed = speed,
       ck_paused = paused\<rparr>\<rparr>) h"

definition publish_clock :: "on_message option \<Rightarrow> env \<Rightarrow> host \<Rightarrow> hres" where
  "publish_clock om ev h =
     broadcast_host om ev (mt_value MT_CLOCK_STATE) (clock_dict (hs_clock (h_session h))) h"

definition handle_clock_speed :: "on_message option \<Rightarrow> env \<Rightarrow> envelope \<Rightarrow> host \<Rightarrow> hres" where
  "handle_clock_speed om ev e h =
     (case py_int (pget_default (e_payload e) ''speed'' (VInt 0)) of
        Inl err \<Rightarrow> (h, Some err)
      | Inr speed \<Rightarrow>
          if speed \<notin> {0, 1, 2, 3} then send_error ev (e_sender e) ''invalid_clock_speed'' h
          else publish_clock om ev (set_clock speed (speed = 0) h))"

definition handle_clock_pause :: "on_message option \<Rightarrow> env \<Rightarrow> envelope \<Rightarrow> host \<Rightarrow> hres" where
  "handle_clock_pause om ev e h =
     (let paused = truthy (pget (e_payload e) ''paused'');
          speed = (if paused then 0 else max 1 (ck_speed (hs_clock (h_session h))))
      in publish_clock om ev (set_clock speed paused h))"

definition handle_clock_resync :: "env \<Rightarrow> envelope \<Rightarrow> host \<Rightarrow> hres" where
  "handle_clock_resync ev e h =
     reply ev (e_sender e) MT_CLOCK_STATE (clock_dict (hs_clock (h_session h))) None h"

text \<open>A request id of the router: text, or a false value for a fresh one.\<close>

definition router_id :: "pyval \<Rightarrow> py_error + string option" where
  "router_id v =
     (if \<not> truthy v then Inr None
      else case v of VStr s \<Rightarrow> Inr (Some s) | _ \<Rightarrow> Inl (Unmodelled ''request id is not text''))"

definition handle_command :: "on_message option \<Rightarrow> env \<Rightarrow> envelope \<Rightarrow> host \<Rightarrow> hres" where
  "handle_command om ev e h =
     catching [''ValueError''] (error_reply ev (e_sender e))
       (case py_dict (py_or (pget (e_payload e) ''payload'') (VDict [])) of
          Inl err \<Rightarrow> (h, Some err)
        | Inr payload \<Rightarrow>
       (case router_id (pget (e_payload e) ''request_id'') of
          Inl err \<Rightarrow> (h, Some err)
        | Inr rid \<Rightarrow>
       (case dispatch_command (ev_now ev) (ev_uuid ev) (e_sender e) (py_str (pget (e_payload e) ''family''))
               payload rid (hs_commands (h_session h)) of
          (r, Inl err) \<Rightarrow> (with_session (\<lambda>s. s\<lparr>hs_commands := r\<rparr>) h, Some err)
        | (r, Inr result) \<Rightarrow> broadcast_host om ev (mt_value MT_COMMAND_RESULT) result
             (with_session (\<lambda>s. s\<lparr>hs_commands := r\<rparr>) h))))"

definition handle_dialog_response :: "on_message option \<Rightarrow> env \<Rightarrow> envelope \<Rightarrow> host \<Rightarrow> hres" where
  "handle_dialog_response om ev e h =
     catching [''ValueError''] (error_reply ev (e_sender e))
       (case py_dict (py_or (pget (e_payload e) ''response'') (VDict [])) of
          Inl err \<Rightarrow> (h, Some err)
        | Inr response \<Rightarrow>
       (case respond_dialog (e_sender e) (py_str (pget (e_payload e) ''dialog_id'')) response
               (hs_dialogs (h_session h)) of
          (r, Inl err) \<Rightarrow> (with_session (\<lambda>s. s\<lparr>hs_dialogs := r\<rparr>) h, Some err)
        | (r, Inr result) \<Rightarrow> broadcast_host om ev (mt_value MT_DIALOG_RESPONSE) (response_dict result)
             (with_session (\<lambda>s. s\<lparr>hs_dialogs := r\<rparr>) h)))"

definition handle_snapshot_request :: "env \<Rightarrow> envelope \<Rightarrow> host \<Rightarrow> hres" where
  "handle_snapshot_request ev e h =
     (if map_of (h_peers h) (e_sender e) = None then (h, None)
      else case session_snapshot (ev_now ev) (h_session h) of
        Inl err \<Rightarrow> (h, Some err)
      | Inr d \<Rightarrow> reply ev (e_sender e) MT_SNAPSHOT d (Some (h_seq h)) h)"

definition granted_to :: "string \<Rightarrow> bool \<Rightarrow> pyval" where
  "granted_to pid granted = (if granted then VStr pid else VNone)"

definition handle_lock_request :: "env \<Rightarrow> envelope \<Rightarrow> host \<Rightarrow> hres" where
  "handle_lock_request ev e h =
     (case request_lock (ev_now ev) (ev_ns ev) (e_sender e) (hs_build (h_session h)) of
        (a, granted) \<Rightarrow>
          (broadcast ev (mt_value MT_BUILD_LOCK_STATE)
             [(''owner_id'', lock_owner a), (''granted_to'', granted_to (e_sender e) granted)]
             (with_session (\<lambda>s. s\<lparr>hs_build := a\<rparr>) h), None))"

definition handle_sim_select :: "on_message option \<Rightarrow> env \<Rightarrow> envelope \<Rightarrow> host \<Rightarrow> hres" where
  "handle_sim_select om ev e h =
     (case select_sim (e_sender e) (py_str (pget (e_payload e) ''sim_id'')) (h_session h) of
        (s, Inl err) \<Rightarrow> error_reply ev (e_sender e) err (put_session s h)
      | (s, Inr state) \<Rightarrow> broadcast_host om ev (mt_value MT_SIM_SELECTION_STATE) state (put_session s h))"

definition handle_sim_state :: "on_message option \<Rightarrow> env \<Rightarrow> envelope \<Rightarrow> host \<Rightarrow> hres" where
  "handle_sim_state om ev e h =
     (case py_iter (py_or (pget (e_payload e) ''sims'') (VList [])) of
        Inl err \<Rightarrow> (h, Some err)
      | Inr sims \<Rightarrow>
     (case update_sims sims (h_session h) of
        (s, Some err) \<Rightarrow> (put_session s h, Some err)
      | (s, None) \<Rightarrow>
     (case session_snapshot (ev_now ev) s of
        Inl err \<Rightarrow> (put_session s h, Some err)
      | Inr d \<Rightarrow> broadcast_host om ev (mt_value MT_SIM_STATE) d (put_session s h))))"

definition handle_interaction_request :: "on_message option \<Rightarrow> env \<Rightarrow> envelope \<Rightarrow> host \<Rightarrow> hres" where
  "handle_interaction_request om ev e h =
     (case validate_interaction (pget (e_payload e) ''request_id'') (e_sender e) (e_payload e) (h_session h) of
        (s, Inl err) \<Rightarrow> catching [''ValueError''] (error_reply ev (e_sender e)) (put_session s h, Some err)
      | (s, Inr request) \<Rightarrow> broadcast_host om ev (mt_value MT_INTERACTION_ACCEPTED) request (put_session s h))"

text \<open>
  The request a command was validated as, with the command added to the dictionary the
  session keeps.
\<close>

definition validate_command ::
  "string \<Rightarrow> pydict \<Rightarrow> host_session \<Rightarrow> host_session \<times> (py_error + pydict)" where
  "validate_command pid payload s =
     (case py_dict (py_or (pget payload ''command'') (VDict [])) of
        Inl err \<Rightarrow> (s, Inl err)
      | Inr command \<Rightarrow>
     (case validate_interaction (pget payload ''request_id'') pid
             (AList.update ''affordance_id'' (pget command ''affordance_id'') payload) s of
        (s1, Inl err) \<Rightarrow> (s1, Inl err)
      | (s1, Inr request) \<Rightarrow>
          (put_request_field (py_str (pget request ''request_id'')) ''command'' (VDict command) s1,
           Inr (AList.update ''command'' (VDict command) request))))"

definition handle_interaction_command :: "on_message option \<Rightarrow> env \<Rightarrow> envelope \<Rightarrow> host \<Rightarrow> hres" where
  "handle_interaction_command om ev e h =
     (case validate_command (e_sender e) (e_payload e) (h_session h) of
        (s, Inl err) \<Rightarrow>
          catching [''TypeError'', ''ValueError''] (error_reply ev (e_sender e)) (put_session s h, Some err)
      | (s, Inr request) \<Rightarrow>
          broadcast_host om ev (mt_value MT_INTERACTION_COMMAND_ACCEPTED) request (put_session s h))"

text \<open>The request id of a cancellation: the one given, or the first request that runs the interaction.\<close>

definition cancel_id :: "pydict \<Rightarrow> host_session \<Rightarrow> pyval" where
  "cancel_id payload s =
     (if \<not> truthy (pget payload ''request_id'') \<and> truthy (pget payload ''interaction_id'')
      then (case filter (\<lambda>kv. py_eq (pget (snd kv) ''interaction_id'') (pget payload ''interaction_id''))
                   (hs_requests s) of
              [] \<Rightarrow> VNone
            | kv # _ \<Rightarrow> VStr (fst kv))
      else pget payload ''request_id'')"

definition handle_interaction_cancel :: "on_message option \<Rightarrow> env \<Rightarrow> envelope \<Rightarrow> host \<Rightarrow> hres" where
  "handle_interaction_cancel om ev e h =
     (case cancel_interaction (cancel_id (e_payload e) (h_session h)) (e_sender e) (e_payload e) (h_session h) of
        (s, Inl err) \<Rightarrow> catching [''ValueError''] (error_reply ev (e_sender e)) (put_session s h, Some err)
      | (s, Inr request) \<Rightarrow> broadcast_host om ev (mt_value MT_INTERACTION_CANCEL) request (put_session s h))"

definition handle_lock_release :: "env \<Rightarrow> envelope \<Rightarrow> host \<Rightarrow> hres" where
  "handle_lock_release ev e h =
     (broadcast ev (mt_value MT_BUILD_LOCK_STATE) [(''owner_id'', VNone)]
        (with_session (\<lambda>s. s\<lparr>hs_build := fst (release_lock (e_sender e) (hs_build s))\<rparr>) h), None)"

definition apply_payload :: "build_operation \<Rightarrow> pydict" where
  "apply_payload o1 = [(''op_seq'', VInt (bo_seq o1)), (''player_id'', VStr (bo_player o1)),
     (''op'', VStr (bo_op o1)), (''data'', VDict (bo_data o1))]"

text \<open>The arguments of \<open>submit\<close>: \<open>payload["op"]\<close> must be there, \<open>data\<close> must be a mapping.\<close>

definition submit_arguments :: "pydict \<Rightarrow> py_error + string \<times> pydict" where
  "submit_arguments payload =
     (case map_of payload ''op'' of
        None \<Rightarrow> Inl (KeyError ''op'')
      | Some op \<Rightarrow>
         (case py_dict (pget_default payload ''data'' (VDict [])) of
            Inl e \<Rightarrow> Inl e
          | Inr data \<Rightarrow> Inr (py_str op, data)))"

definition handle_build_operation :: "on_message option \<Rightarrow> env \<Rightarrow> envelope \<Rightarrow> host \<Rightarrow> hres" where
  "handle_build_operation om ev e h =
     (let failed = catching [''PermissionError'', ''KeyError'', ''TypeError''] (error_reply ev (e_sender e))
      in case submit_arguments (e_payload e) of
           Inl err \<Rightarrow> failed (h, Some err)
         | Inr (op, data) \<Rightarrow>
            (case submit (ev_now ev) (e_sender e) op data (hs_build (h_session h)) of
               (a, Inl err) \<Rightarrow> failed (with_session (\<lambda>s. s\<lparr>hs_build := a\<rparr>) h, Some err)
             | (a, Inr o1) \<Rightarrow> broadcast_host om ev (mt_value MT_BUILD_APPLY) (apply_payload o1)
                  (with_session (\<lambda>s. s\<lparr>hs_build := a\<rparr>) h)))"

definition handle_other :: "on_message option \<Rightarrow> envelope \<Rightarrow> host \<Rightarrow> hres" where
  "handle_other om e h = (case om of None \<Rightarrow> (h, None) | Some f \<Rightarrow> f e h)"

definition dispatch :: "on_message option \<Rightarrow> env \<Rightarrow> envelope \<Rightarrow> host \<Rightarrow> hres" where
  "dispatch om ev e h =
     (case mt_of (e_type e) of
        Some MT_PING \<Rightarrow> handle_ping ev e h
      | Some MT_READINESS \<Rightarrow> handle_readiness om ev e h
      | Some MT_SAVE_ACK \<Rightarrow> handle_save_ack om ev e h
      | Some MT_SAVE_ERROR \<Rightarrow> handle_save_error om ev e h
      | Some MT_CLOCK_REQUEST_SPEED \<Rightarrow> handle_clock_speed om ev e h
      | Some MT_CLOCK_REQUEST_PAUSE \<Rightarrow> handle_clock_pause om ev e h
      | Some MT_CLOCK_RESYNC \<Rightarrow> handle_clock_resync ev e h
      | Some MT_COMMAND_REQUEST \<Rightarrow> handle_command om ev e h
      | Some MT_DIALOG_RESPONSE \<Rightarrow> handle_dialog_response om ev e h
      | Some MT_SNAPSHOT_REQUEST \<Rightarrow> handle_snapshot_request ev e h
      | Some MT_BUILD_LOCK_REQUEST \<Rightarrow> handle_lock_request ev e h
      | Some MT_SIM_SELECT \<Rightarrow> handle_sim_select om ev e h
      | Some MT_SIM_STATE \<Rightarrow> handle_sim_state om ev e h
      | Some MT_INTERACTION_REQUEST \<Rightarrow> handle_interaction_request om ev e h
      | Some MT_INTERACTION_COMMAND \<Rightarrow> handle_interaction_command om ev e h
      | Some MT_INTERACTION_CANCEL \<Rightarrow> handle_interaction_cancel om ev e h
      | Some MT_BUILD_LOCK_RELEASE \<Rightarrow> handle_lock_release ev e h
      | Some MT_BUILD_OPERATION \<Rightarrow> handle_build_operation om ev e h
      | _ \<Rightarrow> handle_other om e h)"

section \<open>The life of a connection\<close>

text \<open>
  The first line: the player joins (\<open>None\<close>), or the connection ends with the id the
  \<open>finally\<close> block drops. A snapshot that cannot be built ends the connection as well.
\<close>

definition hello_manifest :: "envelope \<Rightarrow> py_error + compat_manifest" where
  "hello_manifest e =
     (case py_dict (py_or (pget (e_payload e) ''manifest'') (VDict [])) of
        Inl err \<Rightarrow> Inl err
      | Inr d \<Rightarrow>
         (case manifest_of d of
            Inl err \<Rightarrow> Inl err
          | Inr m \<Rightarrow> if py_eq (m_player_id m) (VStr (e_sender e)) then Inr m
                    else Inl (ValueError ''manifest_player_id_mismatch'')))"

definition newcomer_error :: "string \<Rightarrow> host \<Rightarrow> host" where
  "newcomer_error reason h =
     emit (ToNewcomer \<lparr>ms_type = mt_value MT_ERROR, ms_payload = [(''reason'', VStr reason)], ms_seq = None\<rparr>) h"

definition welcome_payload :: "string \<Rightarrow> pydict \<Rightarrow> host \<Rightarrow> pydict" where
  "welcome_payload pid snapshot h =
     (let s = h_session h in
      [(''session_name'', VStr (hs_name s)), (''session_id'', VStr (hs_id s)), (''host_id'', VStr (h_id h)),
       (''players'', VList (map (\<lambda>kv. VStr (pl_name (snd kv))) (hs_players s))),
       (''snapshot'', VDict snapshot), (''host_manifest'', VDict (manifest_dict (h_manifest h))),
       (''compatibility_reasons'', VList (map VStr
          (case get_player pid s of None \<Rightarrow> [] | Some p \<Rightarrow> rd_reasons (pl_readiness p))))])"

definition join_player :: "env \<Rightarrow> envelope \<Rightarrow> compat_manifest \<Rightarrow> host \<Rightarrow> hres" where
  "join_player ev e m h =
     (let pid = e_sender e;
          name = py_str (py_or (pget (e_payload e) ''display_name'') (VStr ''Player''));
          h1 = h\<lparr>h_peers := AList.update pid \<lparr>pe_id = pid, pe_name = name, pe_last_seq = 0\<rparr> (h_peers h)\<rparr>;
          h2 = with_session (add_player pid name (Some m)) h1
      in case session_snapshot (ev_now ev) (h_session h2) of
           Inl err \<Rightarrow> (h2, Some err)
         | Inr snap \<Rightarrow> reply ev pid MT_WELCOME (welcome_payload pid snap h2) None h2)"

text \<open>\<open>finally\<close>: whoever the connection claimed to be is dropped.\<close>

definition finish_conn :: "string option \<Rightarrow> host \<Rightarrow> host" where
  "finish_conn claimed h =
     (case claimed of None \<Rightarrow> h | Some pid \<Rightarrow> if pid = [] then h else drop_peer pid h)"

text \<open>The host after the first line, and the player whose lines are read from then on.\<close>

definition accept_conn :: "env \<Rightarrow> py_error + envelope \<Rightarrow> host \<Rightarrow> host \<times> string option" where
  "accept_conn ev line h =
     (case line of
        Inl err \<Rightarrow> (h, None)
      | Inr e \<Rightarrow>
         if e_type e \<noteq> mt_value MT_HELLO then (h, None)
         else if map_of (h_peers h) (e_sender e) \<noteq> None \<or> e_sender e = h_id h
         then (finish_conn (Some (e_sender e)) (newcomer_error ''duplicate_player_id'' h), None)
         else case hello_manifest e of
           Inl err \<Rightarrow>
             if exc_class err \<in> {''TypeError'', ''ValueError''}
             then (finish_conn (Some (e_sender e)) (newcomer_error (''invalid_manifest:'' @ exc_text err) h), None)
             else (finish_conn (Some (e_sender e)) h, None)
         | Inr m \<Rightarrow>
             (case join_player ev e m h of
                (h1, None) \<Rightarrow> (h1, Some (e_sender e))
              | (h1, Some err) \<Rightarrow> (finish_conn (Some (e_sender e)) h1, None)))"

text \<open>A line of a joined connection; \<open>False\<close> ends the connection.\<close>

definition stale :: "string \<Rightarrow> envelope \<Rightarrow> host \<Rightarrow> bool" where
  "stale pid e h \<longleftrightarrow>
     (case (map_of (h_peers h) pid, e_seq e) of
        (Some p, Some q) \<Rightarrow> q \<le> pe_last_seq p
      | _ \<Rightarrow> False)"

definition note_seq :: "string \<Rightarrow> envelope \<Rightarrow> host \<Rightarrow> host" where
  "note_seq pid e h =
     (case (map_of (h_peers h) pid, e_seq e) of
        (Some p, Some q) \<Rightarrow> h\<lparr>h_peers := AList.update pid (p\<lparr>pe_last_seq := q\<rparr>) (h_peers h)\<rparr>
      | _ \<Rightarrow> h)"

definition process_line :: "on_message option \<Rightarrow> env \<Rightarrow> string \<Rightarrow> envelope \<Rightarrow> host \<Rightarrow> hres" where
  "process_line om ev pid e h =
     (if e_sender e \<noteq> pid then send_error ev pid ''sender_id_mismatch'' h
      else if stale pid e h then (h, None)
      else dispatch om ev e (note_seq pid e h))"

definition receive_line ::
  "on_message option \<Rightarrow> env \<Rightarrow> string \<Rightarrow> py_error + envelope \<Rightarrow> host \<Rightarrow> host \<times> bool" where
  "receive_line om ev pid line h =
     (case line of
        Inl err \<Rightarrow> (finish_conn (Some pid) h, False)
      | Inr e \<Rightarrow>
         (case process_line om ev pid e h of
            (h1, None) \<Rightarrow> (h1, True)
          | (h1, Some err) \<Rightarrow> (finish_conn (Some pid) h1, False)))"

section \<open>The client\<close>

record client =
  cl_id :: string
  cl_name :: string
  cl_manifest :: compat_manifest
  cl_open :: bool
  cl_sent :: "msg list"

definition new_client :: "string \<Rightarrow> string \<Rightarrow> compat_manifest \<Rightarrow> client" where
  "new_client pid name m = \<lparr>cl_id = pid, cl_name = name, cl_manifest = m, cl_open = False, cl_sent = []\<rparr>"

definition client_send :: "bool \<Rightarrow> string \<Rightarrow> pydict \<Rightarrow> client \<Rightarrow> client \<times> py_error option" where
  "client_send up ty payload c =
     (if \<not> cl_open c then (c, Some (RuntimeError ''not connected''))
      else if \<not> up then (c, Some (OSError ''Connection lost''))
      else (c\<lparr>cl_sent := cl_sent c @ [\<lparr>ms_type = ty, ms_payload = payload, ms_seq = None\<rparr>]\<rparr>, None))"

text \<open>\<open>connect\<close>, given the line the host answers with; the streams stay open after a refusal.\<close>

definition client_connect :: "py_error + envelope \<Rightarrow> client \<Rightarrow> client \<times> (py_error + envelope)" where
  "client_connect response c =
     (let c1 = fst (client_send True (mt_value MT_HELLO)
                 [(''display_name'', VStr (cl_name c)), (''manifest'', VDict (manifest_dict (cl_manifest c)))]
                 (c\<lparr>cl_open := True\<rparr>))
      in case response of
           Inl err \<Rightarrow> (c1, Inl err)
         | Inr e \<Rightarrow>
             if e_type e = mt_value MT_ERROR
             then (c1, Inl (RuntimeError (py_str (pget_default (e_payload e) ''reason''
                       (VStr ''host rejected connection'')))))
             else if e_type e \<noteq> mt_value MT_WELCOME
             then (c1, Inl (RuntimeError ''unexpected handshake response''))
             else (c1, Inr e))"

definition client_close :: "client \<Rightarrow> client" where
  "client_close c = c\<lparr>cl_open := False\<rparr>"

text \<open>
  \<open>listen\<close> on the lines that arrive before the end of the stream; \<open>f\<close> is the
  \<open>on_message\<close> callback on the state \<open>'s\<close> of the runtime.
\<close>

fun client_listen ::
  "(envelope \<Rightarrow> 's \<Rightarrow> 's \<times> py_error option) \<Rightarrow> (py_error + envelope) list \<Rightarrow> 's \<Rightarrow> 's \<times> py_error option" where
  "client_listen f [] s = (s, None)"
| "client_listen f (line # lines) s =
     (case line of
        Inl err \<Rightarrow> (s, Some err)
      | Inr e \<Rightarrow>
         (case f e s of
            (s1, Some err) \<Rightarrow> (s1, Some err)
          | (s1, None) \<Rightarrow> client_listen f lines s1))"

section \<open>The invariant of the host\<close>

text \<open>
  The session's invariants; every peer is a player and is not the host; no number was
  written that the host's counter has not reached. The order of the numbers is no part of it:
  broadcasts that wait for a slow connection overtake each other (\<open>Net_Tasks\<close>).
\<close>

definition log_seqs :: "host_output list \<Rightarrow> int list" where
  "log_seqs os = List.map_filter (\<lambda>o1. case o1 of ToPeer p m \<Rightarrow> ms_seq m | _ \<Rightarrow> None) os"

definition host_ok :: "host \<Rightarrow> bool" where
  "host_ok h \<longleftrightarrow> session_ok (h_session h) \<and> controllers_ok (h_session h) \<and> dict_ok (h_peers h) \<and>
     h_id h \<notin> dict_keys (h_peers h) \<and> dict_keys (h_peers h) \<subseteq> dict_keys (hs_players (h_session h)) \<and>
     (\<forall>q \<in> set (log_seqs (h_log h)). q \<le> h_seq h)"

text \<open>A session operation that keeps the invariants and every player.\<close>

definition session_ext :: "host_session \<Rightarrow> host_session \<Rightarrow> bool" where
  "session_ext s s' \<longleftrightarrow> session_ok s' \<and> controllers_ok s' \<and>
     dict_keys (hs_players s) \<subseteq> dict_keys (hs_players s')"

lemma log_seqs_simps [simp]:
  "log_seqs [] = []" "log_seqs (a @ b) = log_seqs a @ log_seqs b"
  "log_seqs [ToPeer p m] = (case ms_seq m of None \<Rightarrow> [] | Some q \<Rightarrow> [q])"
  "log_seqs [ToNewcomer m] = []" "log_seqs [ToGame t d] = []" "log_seqs [Closed p] = []"
  by (simp_all add: log_seqs_def map_filter_def split: option.splits)

lemma log_seqs_broadcast:
  "ms_seq m = Some q \<Longrightarrow> set (log_seqs (broadcast_log ev m ps)) \<subseteq> {q}"
  by (induction ps) (auto simp: broadcast_log_def log_seqs_def map_filter_def)

lemma put_session_frame [simp]:
  "h_session (put_session s h) = s" "h_peers (put_session s h) = h_peers h" "h_id (put_session s h) = h_id h"
  "h_log (put_session s h) = h_log h" "h_seq (put_session s h) = h_seq h"
  "h_session (with_session f h) = f (h_session h)" "h_peers (with_session f h) = h_peers h"
  "h_id (with_session f h) = h_id h" "h_log (with_session f h) = h_log h" "h_seq (with_session f h) = h_seq h"
  "h_session (emit o1 h) = h_session h" "h_peers (emit o1 h) = h_peers h" "h_id (emit o1 h) = h_id h"
  "h_log (emit o1 h) = h_log h @ [o1]" "h_seq (emit o1 h) = h_seq h"
  by (simp_all add: put_session_def with_session_def emit_def)

lemma host_sessionD: "host_ok h \<Longrightarrow> session_ok (h_session h) \<and> controllers_ok (h_session h)"
  by (simp add: host_ok_def)

lemma put_session_ok: "host_ok h \<Longrightarrow> session_ext (h_session h) s \<Longrightarrow> host_ok (put_session s h)"
  by (simp add: host_ok_def session_ext_def) (meson subset_trans)

lemma with_session_ok: "host_ok h \<Longrightarrow> session_ext (h_session h) (f (h_session h)) \<Longrightarrow> host_ok (with_session f h)"
  by (simp add: host_ok_def session_ext_def) (meson subset_trans)

lemma emit_ok [simp]:
  "host_ok h \<Longrightarrow> host_ok (emit (ToNewcomer m) h)" "host_ok h \<Longrightarrow> host_ok (emit (ToGame t d) h)"
  "host_ok h \<Longrightarrow> host_ok (emit (Closed p) h)"
  by (simp_all add: host_ok_def)

lemma emit_peer_ok:
  assumes "host_ok h" "ms_seq m = None \<or> ms_seq m = Some (h_seq h)"
  shows "host_ok (emit (ToPeer p m) h)"
  using assms by (auto simp: host_ok_def)

lemma drop_peer_ok [simp]:
  assumes "host_ok h"
  shows "host_ok (drop_peer pid h)"
proof -
  have s: "session_ok (remove_player pid (h_session h))" "controllers_ok (remove_player pid (h_session h))"
    using assms remove_player_ok by (auto simp: host_ok_def)
  have "host_ok (with_session (remove_player pid) (h\<lparr>h_peers := AList.delete pid (h_peers h)\<rparr>))"
    using assms s by (auto simp: host_ok_def remove_player_fields)
  then show ?thesis by (simp add: drop_peer_def Let_def)
qed

lemma fold_drop_ok: "host_ok h \<Longrightarrow> host_ok (fold drop_peer ps h)"
  by (induction ps arbitrary: h) simp_all

lemma broadcast_ok [simp]:
  assumes "host_ok h"
  shows "host_ok (broadcast ev ty payload h)"
proof -
  let ?m = "\<lparr>ms_type = ty, ms_payload = payload, ms_seq = Some (h_seq h + 1)\<rparr>"
  have "set (log_seqs (broadcast_log ev ?m (h_peers h))) \<subseteq> {h_seq h + 1}"
    by (rule log_seqs_broadcast) simp
  then have "host_ok (h\<lparr>h_seq := h_seq h + 1, h_log := h_log h @ broadcast_log ev ?m (h_peers h)\<rparr>)"
    using assms by (force simp: host_ok_def)
  then show ?thesis unfolding broadcast_def Let_def by (intro fold_drop_ok) simp
qed

text \<open>The session operations of the handlers.\<close>

lemma session_ext_player_ops:
  assumes "session_ok s" "controllers_ok s"
  shows "session_ext s (add_player pid name m s)" "session_ext s (fst (update_readiness pid fs s))"
    "session_ext s (fst (select_sim pid sid s))" "session_ext s (fst (update_sims vs s))"
    "session_ext s (fst (validate_interaction rid pid payload s))"
    "session_ext s (fst (cancel_interaction rid pid payload s))" "session_ext s (put_request_field r k v s)"
proof -
  have "dict_keys (hs_players s) \<subseteq> dict_keys (hs_players (add_player pid name m s))"
    by (auto simp: add_player_def restore_sim_def set_manifest_def Let_def split: option.splits)
  then show "session_ext s (add_player pid name m s)"
    using add_player_ok [OF assms] by (simp add: session_ext_def)
  have "dict_keys (hs_players s) \<subseteq> dict_keys (hs_players (fst (update_readiness pid fs s)))"
    by (auto simp: update_readiness_def split: option.splits prod.splits)
  then show "session_ext s (fst (update_readiness pid fs s))"
    using update_readiness_ok [OF assms] by (simp add: session_ext_def)
  have "dict_keys (hs_players s) \<subseteq> dict_keys (hs_players (fst (select_sim pid sid s)))"
    by (auto simp: select_sim_def Let_def split: option.splits)
  then show "session_ext s (fst (select_sim pid sid s))"
    using select_sim_ok [OF assms] by (simp add: session_ext_def)
  have "dict_keys (hs_players s) \<subseteq> dict_keys (hs_players (fst (update_sims vs s)))"
    by (auto simp: update_sims_def set_all_controllers_def split: sum.splits)
  then show "session_ext s (fst (update_sims vs s))"
    using update_sims_ok [OF assms] by (simp add: session_ext_def)
  have "hs_players (fst (validate_interaction rid pid payload s)) = hs_players s"
    "hs_players (fst (cancel_interaction rid pid payload s)) = hs_players s"
    "hs_players (put_request_field r k v s) = hs_players s"
    by (auto simp: validate_interaction_def cancel_interaction_def put_request_field_def Let_def
        split: option.splits sum.splits)
  then show "session_ext s (fst (validate_interaction rid pid payload s))"
    "session_ext s (fst (cancel_interaction rid pid payload s))" "session_ext s (put_request_field r k v s)"
    using requests_ok [OF assms] by (simp_all add: session_ext_def)
qed

lemma session_ext_fields:
  assumes "session_ok s" "controllers_ok s"
  shows "session_ext s (s\<lparr>hs_clock := c\<rparr>)"
    "authority_ok a \<Longrightarrow> session_ext s (s\<lparr>hs_build := a\<rparr>)"
    "router_ok r \<Longrightarrow> session_ext s (s\<lparr>hs_commands := r\<rparr>)"
    "dialogs_ok d \<Longrightarrow> session_ext s (s\<lparr>hs_dialogs := d\<rparr>)"
    "travel_ok t \<Longrightarrow> travellers_ok (dict_keys (hs_players s)) t \<Longrightarrow> session_ext s (s\<lparr>hs_travel := t\<rparr>)"
  using assms by (simp_all add: session_ext_def session_ok_def controllers_ok_def sim_players_def)

lemma session_ext_trans: "session_ext s t \<Longrightarrow> session_ext t u \<Longrightarrow> session_ext s u"
  by (auto simp: session_ext_def)

lemma session_ext_command:
  assumes "session_ok s" "controllers_ok s"
  shows "session_ext s (fst (validate_command pid payload s))"
proof (cases "py_dict (py_or (pget payload ''command'') (VDict []))")
  case (Inl err)
  then show ?thesis using assms by (simp add: validate_command_def session_ext_def)
next
  case (Inr command)
  let ?v = "validate_interaction (pget payload ''request_id'') pid
             (AList.update ''affordance_id'' (pget command ''affordance_id'') payload) s"
  have v: "session_ext s (fst ?v)" by (rule session_ext_player_ops [OF assms])
  then have "session_ext (fst ?v) (put_request_field r k x (fst ?v))" for r k x
    by (intro session_ext_player_ops) (simp_all add: session_ext_def)
  then have "session_ext s (put_request_field r k x (fst ?v))" for r k x
    using session_ext_trans [OF v] by blast
  then show ?thesis
    using v Inr by (auto simp: validate_command_def split: prod.splits sum.splits)
qed

lemma host_parts:
  assumes "host_ok h"
  shows "authority_ok (hs_build (h_session h))" "router_ok (hs_commands (h_session h))"
    "dialogs_ok (hs_dialogs (h_session h))" "travel_ok (hs_travel (h_session h))"
  using assms by (simp_all add: host_ok_def session_ok_def)

section \<open>What every handler preserves\<close>

text \<open>
  A property of hosts that follows the invariant and survives the steps every handler is
  made of survives every handler. The invariant itself is one such property, what
  happens to the peers another, what a handler may do between two \<open>await\<close> points a third. The only
  number a handler writes itself is the current one, with a snapshot; all others are a broadcast's.
\<close>

definition plain_output :: "int \<Rightarrow> host_output \<Rightarrow> bool" where
  "plain_output q out \<longleftrightarrow>
     (case out of ToPeer p m \<Rightarrow> ms_seq m = None \<or> ms_seq m = Some q \<and> ms_type m = mt_value MT_SNAPSHOT | _ \<Rightarrow> True)"

locale host_writes =
  fixes P :: "host \<Rightarrow> bool"
  assumes P_host_ok: "P h \<Longrightarrow> host_ok h"
    and P_put: "P h \<Longrightarrow> session_ext (h_session h) s \<Longrightarrow> P (put_session s h)"
    and P_emit_peer: "P h \<Longrightarrow> plain_output (h_seq h) (ToPeer p m) \<Longrightarrow> P (emit (ToPeer p m) h)"
    and P_emit_game [simp]: "P h \<Longrightarrow> P (emit (ToGame t d) h)"
begin

lemma P_with: "P h \<Longrightarrow> session_ext (h_session h) (f (h_session h)) \<Longrightarrow> P (with_session f h)"
  using P_put [of h "f (h_session h)"] by (simp add: put_session_def with_session_def)

lemma peer_write_ok:
  "P h \<Longrightarrow> plain_output (h_seq h) (ToPeer pid m) \<Longrightarrow> P (fst (peer_write ev pid m h))"
  by (simp add: peer_write_def P_emit_peer)

lemma reply_ok [simp]: "P h \<Longrightarrow> P (fst (reply ev pid mt d None h))"
  by (simp add: reply_def peer_write_ok plain_output_def)

lemma reply_seq_ok [simp]: "P h \<Longrightarrow> P (fst (reply ev pid MT_SNAPSHOT d (Some (h_seq h)) h))"
  by (simp add: reply_def peer_write_ok plain_output_def)

lemma error_reply_ok [simp]:
  "P h \<Longrightarrow> P (fst (send_error ev pid reason h))" "P h \<Longrightarrow> P (fst (error_reply ev pid e h))"
  by (simp_all add: send_error_def error_reply_def)

lemma send_to_ok: "P h \<Longrightarrow> P (fst (send_to ev pid ty d h))"
  by (simp add: send_to_def peer_write_ok plain_output_def)

lemma catching_ok:
  "P (fst r) \<Longrightarrow> (\<And>e h. P h \<Longrightarrow> P (fst (f e h))) \<Longrightarrow> P (fst (catching cs f r))"
  by (auto simp: catching_def split: prod.splits option.splits)

lemma and_then_ok:
  "P (fst r) \<Longrightarrow> (\<And>h. P h \<Longrightarrow> P (fst (f h))) \<Longrightarrow> P (fst (and_then r f))"
  by (auto simp: and_then_def split: prod.splits option.splits)

lemma put_build_ok:
  "P h \<Longrightarrow> authority_ok a \<Longrightarrow> P (with_session (\<lambda>s. s\<lparr>hs_build := a\<rparr>) h)"
  using host_sessionD [OF P_host_ok, of h] session_ext_fields(2) by (intro P_with) blast+

lemma put_commands_ok:
  "P h \<Longrightarrow> router_ok r \<Longrightarrow> P (with_session (\<lambda>s. s\<lparr>hs_commands := r\<rparr>) h)"
  using host_sessionD [OF P_host_ok, of h] session_ext_fields(3) by (intro P_with) blast+

lemma put_dialogs_ok:
  "P h \<Longrightarrow> dialogs_ok d \<Longrightarrow> P (with_session (\<lambda>s. s\<lparr>hs_dialogs := d\<rparr>) h)"
  using host_sessionD [OF P_host_ok, of h] session_ext_fields(4) by (intro P_with) blast+

lemma put_session_of:
  assumes "P h" "f (h_session h) = (s, x)"
    and "\<And>s. session_ok s \<Longrightarrow> controllers_ok s \<Longrightarrow> session_ext s (fst (f s))"
  shows "P (put_session s h)"
  using assms host_sessionD [OF P_host_ok [OF assms(1)]] assms(3) [of "h_session h"] by (auto intro: P_put)

lemma P_set_clock [simp]: "P h \<Longrightarrow> P (set_clock speed paused h)"
  unfolding set_clock_def using host_sessionD [OF P_host_ok, of h] session_ext_fields(1)
  by (intro P_with) blast+

lemma P_put_readiness:
  assumes "P h" "update_readiness pid fs (h_session h) = (s, x)"
  shows "P (put_session s h)"
  by (rule put_session_of [of h "update_readiness pid fs" s x, OF assms]) (rule session_ext_player_ops)

end

text \<open>A property that also survives a whole broadcast.\<close>

locale host_property = host_writes P for P :: "host \<Rightarrow> bool" +
  assumes P_broadcast [simp]: "P h \<Longrightarrow> P (broadcast ev t d h)"

text \<open>
  The law of the \<open>on_message\<close> callback: it keeps the property. Under it every handler
  of \<open>_dispatch\<close> keeps it.
\<close>

locale message_callback = host_property P for P :: "host \<Rightarrow> bool" +
  fixes om :: "on_message option"
  assumes callback_keeps: "om = Some f \<Longrightarrow> P h \<Longrightarrow> P (fst (f e h))"
begin

lemma broadcast_host_ok [simp]: "P h \<Longrightarrow> P (fst (broadcast_host om ev ty d h))"
  by (auto simp: broadcast_host_def Let_def split: option.splits intro: callback_keeps)

lemma publish_readiness_ok [simp]: "P h \<Longrightarrow> P (fst (publish_readiness om ev pid fs h))"
  by (auto simp: publish_readiness_def P_put_readiness split: prod.splits sum.splits)

lemma readiness_handlers_ok:
  assumes "P h"
  shows "P (fst (handle_readiness om ev e h))" "P (fst (handle_save_ack om ev e h))"
    "P (fst (handle_save_error om ev e h))"
  using assms by (auto simp: handle_readiness_def handle_save_ack_def handle_save_error_def
      intro!: catching_ok split: sum.splits)

lemma clock_handlers_ok:
  assumes "P h"
  shows "P (fst (handle_clock_speed om ev e h))" "P (fst (handle_clock_pause om ev e h))"
    "P (fst (handle_clock_resync ev e h))"
proof -
  show "P (fst (handle_clock_speed om ev e h))" "P (fst (handle_clock_pause om ev e h))"
    "P (fst (handle_clock_resync ev e h))"
    using assms by (auto simp: handle_clock_speed_def handle_clock_pause_def handle_clock_resync_def
        publish_clock_def Let_def split: sum.splits)
qed

lemma router_handlers_ok:
  assumes "P h"
  shows "P (fst (handle_command om ev e h))" "P (fst (handle_dialog_response om ev e h))"
proof -
  have "router_ok r" if "dispatch_command now uuid pid fam p rid (hs_commands (h_session h)) = (r, x)"
    for now uuid pid fam p rid r x
    using dispatch_command_ok [OF host_parts(2) [OF P_host_ok [OF assms]], of now uuid pid fam p rid] that by simp
  then show "P (fst (handle_command om ev e h))"
    using assms by (auto simp: handle_command_def intro!: catching_ok broadcast_host_ok put_commands_ok
        split: sum.splits prod.splits)
  have "dialogs_ok r" if "respond_dialog pid did resp (hs_dialogs (h_session h)) = (r, x)" for pid did resp r x
    using respond_dialog_ok [OF host_parts(3) [OF P_host_ok [OF assms]], of pid did resp] that by simp
  then show "P (fst (handle_dialog_response om ev e h))"
    using assms by (auto simp: handle_dialog_response_def intro!: catching_ok broadcast_host_ok put_dialogs_ok
        split: sum.splits prod.splits)
qed

lemma build_handlers_ok:
  assumes "P h"
  shows "P (fst (handle_lock_request ev e h))" "P (fst (handle_lock_release ev e h))"
    "P (fst (handle_build_operation om ev e h))"
proof -
  note a = host_parts(1) [OF P_host_ok [OF assms]]
  have "authority_ok b" if "request_lock now ns pid (hs_build (h_session h)) = (b, g)" for now ns pid b g
    using request_lock_ok [OF a, of now ns pid] that by simp
  then show "P (fst (handle_lock_request ev e h))"
    using assms by (auto simp: handle_lock_request_def intro!: P_broadcast put_build_ok split: prod.splits)
  have "P (with_session (\<lambda>s. s\<lparr>hs_build := fst (release_lock (e_sender e) (hs_build s))\<rparr>) h)"
    using host_sessionD [OF P_host_ok [OF assms]] session_ext_fields(2) release_lock_ok [OF a]
    by (intro P_with [OF assms]) blast
  then show "P (fst (handle_lock_release ev e h))" by (simp add: handle_lock_release_def)
  have "authority_ok b" if "submit now pid op data (hs_build (h_session h)) = (b, x)" for now pid op data b x
    using submit_ok [OF a, of now pid op data] that by simp
  then show "P (fst (handle_build_operation om ev e h))"
    using assms by (auto simp: handle_build_operation_def Let_def
        intro!: catching_ok broadcast_host_ok put_build_ok split: sum.splits prod.splits)
qed

lemma sim_handlers_ok:
  assumes "P h"
  shows "P (fst (handle_sim_select om ev e h))" "P (fst (handle_sim_state om ev e h))"
proof -
  note of_session = put_session_of [OF assms]
  have "P (put_session s h)" if "select_sim pid sid (h_session h) = (s, x)" for pid sid s x
    by (rule of_session [of "select_sim pid sid" s x, OF that]) (rule session_ext_player_ops)
  then show "P (fst (handle_sim_select om ev e h))"
    by (auto simp: handle_sim_select_def split: sum.splits prod.splits)
  have "P (put_session s h)" if "update_sims vs (h_session h) = (s, x)" for vs s x
    by (rule of_session [of "update_sims vs" s x, OF that]) (rule session_ext_player_ops)
  then show "P (fst (handle_sim_state om ev e h))"
    using assms by (auto simp: handle_sim_state_def split: sum.splits prod.splits option.splits)
qed

lemma interaction_handlers_ok:
  assumes "P h"
  shows "P (fst (handle_interaction_request om ev e h))"
    "P (fst (handle_interaction_command om ev e h))"
    "P (fst (handle_interaction_cancel om ev e h))"
proof -
  note of_session = put_session_of [OF assms]
  have "P (put_session s h)" if "validate_interaction rid pid p (h_session h) = (s, x)" for rid pid p s x
    by (rule of_session [of "validate_interaction rid pid p" s x, OF that]) (rule session_ext_player_ops)
  then show "P (fst (handle_interaction_request om ev e h))"
    by (auto simp: handle_interaction_request_def intro!: catching_ok split: sum.splits prod.splits)
  have "P (put_session s h)" if "validate_command pid p (h_session h) = (s, x)" for pid p s x
    by (rule of_session [of "validate_command pid p" s x, OF that]) (rule session_ext_command)
  then show "P (fst (handle_interaction_command om ev e h))"
    by (auto simp: handle_interaction_command_def intro!: catching_ok split: sum.splits prod.splits)
  have "P (put_session s h)" if "cancel_interaction rid pid p (h_session h) = (s, x)" for rid pid p s x
    by (rule of_session [of "cancel_interaction rid pid p" s x, OF that]) (rule session_ext_player_ops)
  then show "P (fst (handle_interaction_cancel om ev e h))"
    by (auto simp: handle_interaction_cancel_def intro!: catching_ok split: sum.splits prod.splits)
qed

lemma handle_other_ok: "P h \<Longrightarrow> P (fst (handle_other om e h))"
  by (auto simp: handle_other_def callback_keeps split: option.splits)

lemma dispatch_ok: "P h \<Longrightarrow> P (fst (dispatch om ev e h))"
  by (simp add: dispatch_def handle_ping_def handle_snapshot_request_def handle_other_ok readiness_handlers_ok
      clock_handlers_ok router_handlers_ok build_handlers_ok sim_handlers_ok interaction_handlers_ok
      split: option.split message_type.split sum.split)

end

text \<open>
  What a handler does to the host besides its session: peers can only leave, what was
  written stays written, the counter never goes down.
\<close>

definition host_le :: "host \<Rightarrow> host \<Rightarrow> bool" where
  "host_le h h' \<longleftrightarrow> h_id h' = h_id h \<and> h_manifest h' = h_manifest h \<and> h_seq h \<le> h_seq h' \<and>
     map_of (h_peers h') \<subseteq>\<^sub>m map_of (h_peers h) \<and> (\<exists>xs. h_log h' = h_log h @ xs)"

lemma host_le_refl [simp]: "host_le h h"
  by (simp add: host_le_def)

lemma host_le_trans: "host_le h h' \<Longrightarrow> host_le h' h'' \<Longrightarrow> host_le h h''"
  unfolding host_le_def by (auto intro: map_le_trans)

lemma host_le_put: "host_le h (put_session s h)" "host_le h (emit o1 h)"
  by (simp_all add: host_le_def put_session_def emit_def)

lemma host_le_drop: "host_le h (drop_peer pid h)"
  by (auto simp: host_le_def drop_peer_def with_session_def emit_def Let_def map_le_def)

lemma host_le_fold: "host_le h (fold drop_peer ps h)"
proof (induction ps arbitrary: h)
  case (Cons p ps)
  show ?case using host_le_trans [OF host_le_drop Cons.IH] by simp
qed simp

lemma host_le_broadcast: "host_le h (broadcast ev t d h)"
  unfolding broadcast_def Let_def
  by (rule host_le_trans [OF _ host_le_fold]) (simp add: host_le_def)

interpretation host_invariant: host_property host_ok
  by unfold_locales (auto simp: put_session_ok plain_output_def intro: emit_peer_ok)

interpretation host_progress: host_property "\<lambda>h'. host_ok h' \<and> host_le h h'" for h
proof unfold_locales
  fix h' s m p t d ev
  assume h': "host_ok h' \<and> host_le h h'"
  show "host_ok h'" using h' by simp
  show "session_ext (h_session h') s \<Longrightarrow> host_ok (put_session s h') \<and> host_le h (put_session s h')"
    using h' host_le_trans [OF _ host_le_put(1)] by (auto intro: put_session_ok)
  show "plain_output (h_seq h') (ToPeer p m) \<Longrightarrow>
      host_ok (emit (ToPeer p m) h') \<and> host_le h (emit (ToPeer p m) h')"
    using h' host_le_trans [OF _ host_le_put(2)] by (auto simp: plain_output_def intro: emit_peer_ok)
  show "host_ok (emit (ToGame t d) h') \<and> host_le h (emit (ToGame t d) h')"
    using h' host_le_trans [OF _ host_le_put(2)] by auto
  show "host_ok (broadcast ev t d h') \<and> host_le h (broadcast ev t d h')"
    using h' host_le_trans [OF _ host_le_broadcast] by auto
qed

text \<open>
  The law the host relies on along the life of a connection; it gives the callback law
  for the invariant and for the progress from any host.
\<close>

locale host_callback =
  fixes om :: "on_message option"
  assumes keeps: "om = Some f \<Longrightarrow> host_ok h \<Longrightarrow> host_ok (fst (f e h)) \<and> host_le h (fst (f e h))"

sublocale host_callback \<subseteq> message_callback host_ok om
  by unfold_locales (use keeps in blast)

context host_callback begin

lemma dispatch_progress:
  assumes "host_ok h"
  shows "host_le h (fst (dispatch om ev e h))"
proof -
  have "message_callback (\<lambda>h'. host_ok h' \<and> host_le h h') om"
    by unfold_locales (use keeps host_le_trans in blast)
  from message_callback.dispatch_ok [OF this, of h ev e] show ?thesis using assms by simp
qed

lemma note_seq_ok: "host_ok h \<Longrightarrow> host_ok (note_seq pid e h)"
proof -
  assume h: "host_ok h"
  have "host_ok (h\<lparr>h_peers := AList.update pid p (h_peers h)\<rparr>)" if "map_of (h_peers h) pid = Some q" for p q
  proof -
    have "insert pid (dict_keys (h_peers h)) = dict_keys (h_peers h)"
      using that map_of_iff_keys [of "h_peers h" pid] by (intro insert_absorb) blast
    then show ?thesis using h by (simp add: host_ok_def)
  qed
  then show ?thesis using h by (simp add: note_seq_def split: option.splits)
qed

lemma finish_conn_ok [simp]: "host_ok h \<Longrightarrow> host_ok (finish_conn claimed h)"
  by (simp add: finish_conn_def split: option.splits)

lemma join_player_ok:
  assumes "host_ok h" "e_sender e \<noteq> h_id h"
  shows "host_ok (fst (join_player ev e m h))"
proof -
  let ?h = "\<lambda>n q. with_session (add_player (e_sender e) n (Some m))
      (h\<lparr>h_peers := AList.update (e_sender e) q (h_peers h)\<rparr>)"
  have "e_sender e \<in> dict_keys (hs_players (add_player (e_sender e) n (Some m) (h_session h)))" for n
    by (auto simp: add_player_def restore_sim_def set_manifest_def new_player_def Let_def split: option.splits)
  moreover have "session_ext (h_session h) (add_player (e_sender e) n (Some m) (h_session h))" for n
    using assms(1) by (intro session_ext_player_ops) (simp_all add: host_ok_def)
  ultimately have "host_ok (?h n q)" for n q
    using assms by (simp add: host_ok_def session_ext_def) (meson subset_trans)
  then show ?thesis by (auto simp: join_player_def Let_def split: sum.splits)
qed

lemma accept_conn_ok: "host_ok h \<Longrightarrow> host_ok (fst (accept_conn ev line h))"
proof -
  assume h: "host_ok h"
  have "host_ok h1" if "join_player ev e m h = (h1, x)" "e_sender e \<noteq> h_id h" for e m h1 x
    using join_player_ok [OF h that(2), of ev m] that(1) by simp
  then show ?thesis
    using h by (auto simp: accept_conn_def newcomer_error_def split: sum.splits prod.splits option.splits)
qed

lemma process_line_ok: "host_ok h \<Longrightarrow> host_ok (fst (process_line om ev pid e h))"
  by (simp add: process_line_def dispatch_ok note_seq_ok)

lemma receive_line_ok:
  assumes "host_ok h"
  shows "host_ok (fst (receive_line om ev pid line h))"
proof (cases line)
  case (Inr e)
  obtain h1 x where p: "process_line om ev pid e h = (h1, x)" by (cases "process_line om ev pid e h")
  then have "host_ok h1" using process_line_ok [OF assms, of ev pid e] by simp
  then show ?thesis using Inr p by (simp add: receive_line_def split: option.split)
qed (use assms in \<open>simp add: receive_line_def\<close>)

text \<open>
  A peer's sequence numbers only go up: what a peer sends again, or sends with an older
  number, leaves the host as it is.
\<close>

lemma replay_stale:
  assumes "host_ok h" "process_line om ev pid e h = (h1, None)" "e_sender e = pid" "e_seq e = Some q"
    and "map_of (h_peers h) pid = Some p" "map_of (h_peers h1) pid = Some p1" "e_seq e' = Some q'" "q' \<le> q"
  shows "stale pid e' h1"
proof (cases "stale pid e h")
  case True
  then have "h1 = h" "q \<le> pe_last_seq p" using assms(2-5) by (simp_all add: process_line_def stale_def)
  then show ?thesis using assms(5,7,8) by (simp add: stale_def)
next
  case False
  let ?h = "note_seq pid e h"
  have "dispatch om ev e ?h = (h1, None)" using assms(2,3) False by (simp add: process_line_def)
  then have "host_le ?h h1"
    using dispatch_progress [OF note_seq_ok [OF assms(1), of pid e], of ev e] by simp
  moreover have "map_of (h_peers ?h) pid = Some (p\<lparr>pe_last_seq := q\<rparr>)"
    using assms(4,5) by (simp add: note_seq_def)
  ultimately have "p1 = p\<lparr>pe_last_seq := q\<rparr>"
    using assms(6) by (auto simp: host_le_def map_le_def dom_def)
  then show ?thesis using assms(6-8) by (simp add: stale_def)
qed

lemma replay_ignored:
  assumes "host_ok h" "process_line om ev pid e h = (h1, None)" "e_sender e = pid" "e_seq e = Some q"
    and "map_of (h_peers h) pid = Some p" "map_of (h_peers h1) pid = Some p1"
    and "e_sender e' = pid" "e_seq e' = Some q'" "q' \<le> q"
  shows "process_line om ev' pid e' h1 = (h1, None)"
  using replay_stale [OF assms(1-6) assms(8,9)] assms(7) by (simp add: process_line_def)

end

text \<open>A host whose \<open>on_message\<close> was not set.\<close>

interpretation plain_host: host_callback None
  by unfold_locales simp

lemma new_host_ok: "host_ok (new_host pid name m native sid)"
proof -
  have c: "controllers_ok (new_session sid (Some m) native)"
    by (simp add: controllers_ok_def new_session_def)
  let ?s1 = "add_player pid name (Some m) (new_session sid (Some m) native)"
  have "session_ok ?s1" "controllers_ok ?s1" using add_player_ok [OF session_ok_new c] by blast+
  then have "session_ext ?s1 (fst (update_readiness pid fs ?s1))" for fs
    by (rule session_ext_player_ops)
  then show ?thesis by (simp add: new_host_def Let_def host_ok_def session_ext_def)
qed

end
