(* ===== verification/Host_Runtime.thy ===== *)
theory Host_Runtime
  imports Net
begin

text \<open>
  The host half of \<^verbatim>\<open>src/kermp/runtime.py\<close>: \<open>HostRuntime\<close> joins the host's own game,
  behind the local bridge, with the LAN host. \<open>network_message\<close> is the
  \<open>on_message\<close> callback, \<open>game_event\<close> handles what the game reports. An exception
  of a game event is lost in the future nobody reads; the model returns it.
\<close>

section \<open>The bridge and texts\<close>

text \<open>\<open>self.bridge.send(...)\<close>: whether it was delivered.\<close>

definition game_send :: "env \<Rightarrow> string \<Rightarrow> pydict \<Rightarrow> host \<Rightarrow> host \<times> bool" where
  "game_send ev ty payload h = (if ev_game ev then (emit (ToGame ty payload) h, True) else (h, False))"

definition tell_game :: "env \<Rightarrow> string \<Rightarrow> pydict \<Rightarrow> host \<Rightarrow> host" where
  "tell_game ev ty payload h = fst (game_send ev ty payload h)"

text \<open>\<open>text.rsplit('.', 1)[-1]\<close>.\<close>

definition last_part :: "string \<Rightarrow> string" where
  "last_part s = rev (takeWhile (\<lambda>c. c \<noteq> CHR ''.'') (rev s))"

section \<open>Travel\<close>

fun str_list :: "pyval list \<Rightarrow> string list" where
  "str_list [] = []"
| "str_list (v # vs) = py_str v # str_list vs"

definition travel_dict :: "travel_txn \<Rightarrow> pydict" where
  "travel_dict t = [(''txn_id'', VStr (tx_id t)), (''epoch'', VInt (tx_epoch t)), (''zone_id'', VStr (tx_zone t)),
     (''actor_ids'', VList (map VStr (tx_actors t)))]"

definition put_travel :: "coordinator \<Rightarrow> host \<Rightarrow> host" where
  "put_travel c h = with_session (\<lambda>s. s\<lparr>hs_travel := c\<rparr>) h"

abbreviation host_travel :: "host \<Rightarrow> coordinator" where
  "host_travel h \<equiv> hs_travel (h_session h)"

definition start_travel :: "env \<Rightarrow> pydict \<Rightarrow> string \<Rightarrow> host \<Rightarrow> hres" where
  "start_travel ev payload requested_by h =
     (let zone = py_str (py_or (pget payload ''zone_id'') (VStr [])) in
      case py_iter (pget_default payload ''actor_ids'' (VList [])) of
        Inl err \<Rightarrow> (h, Some err)
      | Inr actors \<Rightarrow>
         if zone = [] then (h, None)
         else case propose (ev_uuid ev) zone (str_list actors) (map fst (hs_players (h_session h))) (host_travel h) of
           Inl err \<Rightarrow> (h, Some err)
         | Inr (c, t) \<Rightarrow>
            (let out = travel_dict t @ [(''requested_by'', VStr requested_by)]
             in (broadcast ev (mt_value MT_TRAVEL_PROPOSE) out
                   (tell_game ev ''travel.prepare'' out (put_travel c h)), None)))"

definition batch_dict :: "string \<Rightarrow> int \<Rightarrow> string \<Rightarrow> pydict" where
  "batch_dict txn epoch kind =
     [(''txn_id'', VStr txn), (''epoch'', VInt epoch), (''kind'', VStr kind)]"

text \<open>
  The commit: the view batch is opened for the peers and the game, then the commit is
  announced to the game and the peers, then the coordinator waits for the zone.
\<close>

definition commit_travel :: "env \<Rightarrow> travel_txn \<Rightarrow> string \<Rightarrow> host \<Rightarrow> hres" where
  "commit_travel ev t txn_id h =
     (let begin_batch = batch_dict (tx_id t) (tx_epoch t) ''begin'';
          h1 = broadcast ev (mt_value MT_TRAVEL_VIEW_BATCH) begin_batch h;
          h2 = tell_game ev (mt_value MT_TRAVEL_VIEW_BATCH) begin_batch h1;
          h3 = tell_game ev (mt_value MT_TRAVEL_COMMIT) (travel_dict t) h2;
          h4 = broadcast ev (mt_value MT_TRAVEL_COMMIT) (travel_dict t) h3
      in case begin_zone_wait txn_id (host_travel h4) of
           Inl err \<Rightarrow> (h4, Some err)
         | Inr c \<Rightarrow> (put_travel c h4, None))"

definition travel_ready :: "env \<Rightarrow> string \<Rightarrow> pydict \<Rightarrow> host \<Rightarrow> hres" where
  "travel_ready ev pid payload h =
     (let txn_id = py_str (py_or (pget payload ''txn_id'') (VStr [])) in
      if txn_id = [] then (h, None)
      else case py_int (pget_default payload ''epoch'' (VInt (-1))) of
        Inl err \<Rightarrow> (h, Some err)
      | Inr epoch \<Rightarrow>
      (case mark_ready pid txn_id (Some epoch) (host_travel h) of
         Inl err \<Rightarrow> (h, None)
       | Inr (c, commit) \<Rightarrow>
          (case (commit, tc_current c) of
             (True, Some t) \<Rightarrow> commit_travel ev t txn_id (put_travel c h)
           | _ \<Rightarrow> (put_travel c h, None))))"

definition travel_zone_ready :: "env \<Rightarrow> string \<Rightarrow> pydict \<Rightarrow> host \<Rightarrow> hres" where
  "travel_zone_ready ev pid payload h =
     (let txn_id = py_str (py_or (pget payload ''txn_id'') (VStr [])) in
      if txn_id = [] then (h, None)
      else case tc_current (host_travel h) of
        None \<Rightarrow> (h, None)
      | Some expected \<Rightarrow>
      (case py_int (pget_default payload ''epoch'' (VInt (-1))) of
         Inl err \<Rightarrow> (h, Some err)
       | Inr epoch \<Rightarrow>
          if epoch \<noteq> tx_epoch expected then (h, None)
          else case mark_zone_ready pid txn_id (Some epoch) (host_travel h) of
            Inl err \<Rightarrow> (h, None)
          | Inr (c, resume) \<Rightarrow>
             (if resume
              then (let out = [(''txn_id'', VStr txn_id), (''epoch'', VInt (tx_epoch expected))]
                    in (broadcast ev (mt_value MT_TRAVEL_RESUME) out
                          (tell_game ev (mt_value MT_TRAVEL_RESUME) out (put_travel c h)), None))
              else (put_travel c h, None))))"

definition abort_current :: "env \<Rightarrow> string \<Rightarrow> pydict \<Rightarrow> host \<Rightarrow> hres" where
  "abort_current ev reason payload h =
     (case tc_current (host_travel h) of
        None \<Rightarrow> (h, None)
      | Some t \<Rightarrow>
      (case py_int (pget_default payload ''epoch'' (VInt (-1))) of
         Inl err \<Rightarrow> (h, Some err)
       | Inr epoch \<Rightarrow>
          if epoch \<noteq> tx_epoch t then (h, None)
          else case abort_travel (tx_id t) (host_travel h) of
            Inl err \<Rightarrow> (h, Some err)
          | Inr c \<Rightarrow>
             (broadcast ev (mt_value MT_TRAVEL_ABORT)
                [(''txn_id'', VStr (tx_id t)), (''epoch'', VInt (tx_epoch t)),
                 (''reason'', pget_default payload ''reason'' (VStr reason))] (put_travel c h), None)))"

section \<open>Messages from the network\<close>

definition undelivered :: "pydict \<Rightarrow> pydict" where
  "undelivered request =
     AList.update ''reason'' (VStr ''host_game_bridge_disconnected'')
       (AList.update ''resolve_stage'' (VStr ''host_game_bridge'')
         (AList.update ''status'' (VStr ''rejected'') request))"

text \<open>An accepted interaction goes to the game, or is rejected to the peers when no game is connected.\<close>

definition deliver_or_reject ::
  "env \<Rightarrow> message_type \<Rightarrow> message_type \<Rightarrow> pydict \<Rightarrow> host \<Rightarrow> host \<times> bool" where
  "deliver_or_reject ev mt rejected request h =
     (case game_send ev (mt_value mt) request h of
        (h1, True) \<Rightarrow> (h1, True)
      | (h1, False) \<Rightarrow> (broadcast ev (mt_value rejected) (undelivered request) h1, False))"

definition network_message :: "env \<Rightarrow> envelope \<Rightarrow> host \<Rightarrow> hres" where
  "network_message ev e h =
     (case mt_of (e_type e) of
        Some MT_TRAVEL_REQUEST \<Rightarrow> start_travel ev (e_payload e) (e_sender e) h
      | Some MT_TRAVEL_READY \<Rightarrow> travel_ready ev (e_sender e) (e_payload e) h
      | Some MT_TRAVEL_ZONE_READY \<Rightarrow> travel_zone_ready ev (e_sender e) (e_payload e) h
      | Some MT_TRAVEL_ABORT \<Rightarrow> abort_current ev ''participant_abort'' (e_payload e) h
      | Some MT_INTERACTION_ACCEPTED \<Rightarrow>
          (fst (deliver_or_reject ev MT_INTERACTION_REQUEST MT_INTERACTION_REJECTED (e_payload e) h), None)
      | Some MT_INTERACTION_COMMAND_ACCEPTED \<Rightarrow>
          (fst (deliver_or_reject ev MT_INTERACTION_COMMAND MT_INTERACTION_COMMAND_REJECTED (e_payload e) h), None)
      | Some t \<Rightarrow>
          (if t \<in> {MT_CLOCK_STATE, MT_BUILD_APPLY, MT_SIM_SELECTION_STATE, MT_SIM_STATE, MT_INTERACTION_CANCEL,
                   MT_INTERACTION_REJECTED, MT_INTERACTION_QUEUED, MT_INTERACTION_STARTED,
                   MT_INTERACTION_FINISHED, MT_INTERACTION_COMMAND_REJECTED, MT_ERROR}
           then tell_game ev (e_type e) (e_payload e) h else h, None)
      | None \<Rightarrow> (h, None))"

text \<open>The callback of one handler runs in that handler's environment.\<close>

definition runtime_callback :: "env \<Rightarrow> on_message option" where
  "runtime_callback ev = Some (network_message ev)"

section \<open>Events of the host's game\<close>

record host_runtime =
  hr_host :: host
  hr_sent :: int
  hr_last_size :: int
  hr_last_id :: "int option"
  hr_game_seq :: int
  hr_batch_open :: bool

definition new_runtime :: "host \<Rightarrow> host_runtime" where
  "new_runtime h = \<lparr>hr_host = h, hr_sent = 0, hr_last_size = 0, hr_last_id = None, hr_game_seq = 0,
     hr_batch_open = False\<rparr>"

type_synonym rres = "host_runtime \<times> py_error option"

definition on_host :: "(host \<Rightarrow> hres) \<Rightarrow> host_runtime \<Rightarrow> rres" where
  "on_host f r = (case f (hr_host r) of (h, x) \<Rightarrow> (r\<lparr>hr_host := h\<rparr>, x))"

definition broadcast_readiness :: "env \<Rightarrow> string \<Rightarrow> readiness \<Rightarrow> host \<Rightarrow> hres" where
  "broadcast_readiness ev pid r h =
     (case readiness_snapshot r of
        Inl e \<Rightarrow> (h, Some e)
      | Inr d \<Rightarrow> (broadcast ev (mt_value MT_READINESS) ((''player_id'', VStr pid) # d) h, None))"

definition game_hello :: "env \<Rightarrow> host \<Rightarrow> hres" where
  "game_hello ev h =
     (case update_readiness (h_id h) [(''bridge_connected'', VBool True)] (h_session h) of
        (s, Inl e) \<Rightarrow> (put_session s h, Some e)
      | (s, Inr r) \<Rightarrow> broadcast_readiness ev (h_id h) r
          (tell_game ev ''sidecar.welcome''
             [(''role'', VStr ''host''), (''player_id'', VStr (h_id h)), (''protocol_version'', VInt 1)]
             (put_session s h)))"

definition game_authority :: "env \<Rightarrow> host \<Rightarrow> hres" where
  "game_authority ev h =
     (case update_readiness (h_id h)
             [(''bridge_connected'', VBool True), (''simulation_authority_ready'', VBool True)] (h_session h) of
        (s, Inl e) \<Rightarrow> (put_session s h, Some e)
      | (s, Inr r) \<Rightarrow> broadcast_readiness ev (h_id h) r (put_session s h))"

definition game_clock_state :: "env \<Rightarrow> pydict \<Rightarrow> host \<Rightarrow> hres" where
  "game_clock_state ev payload h =
     (case py_int (pget_default payload ''speed'' (VInt (ck_speed (hs_clock (h_session h))))) of
        Inl e \<Rightarrow> (h, Some e)
      | Inr speed \<Rightarrow>
          if speed \<notin> {0, 1, 2, 3} then (h, None)
          else (let h1 = set_clock speed (speed = 0) h
                in (broadcast ev (mt_value MT_CLOCK_STATE) (clock_dict (hs_clock (h_session h1))) h1, None)))"

text \<open>\<open>msg_id\<close> and the bytes of a raw message; every failure is an exception with a text.\<close>

definition raw_bytes :: "pydict \<Rightarrow> py_error + byte list" where
  "raw_bytes payload =
     (case map_of payload ''payload_b64'' of
        None \<Rightarrow> Inl (KeyError ''payload_b64'')
      | Some v \<Rightarrow>
         (case b64decode (py_str v) of
            None \<Rightarrow> Inl decode_error
          | Some bytes \<Rightarrow> if MAX_GAME_MESSAGE_BYTES < length bytes
                         then Inl (ValueError ''payload_too_large'') else Inr bytes))"

definition raw_message :: "pydict \<Rightarrow> py_error + int \<times> byte list" where
  "raw_message payload =
     (case map_of payload ''msg_id'' of
        None \<Rightarrow> Inl (KeyError ''msg_id'')
      | Some v \<Rightarrow>
         (case py_int v of
            Inl e \<Rightarrow> Inl e
          | Inr i \<Rightarrow> (case raw_bytes payload of Inl e \<Rightarrow> Inl e | Inr bytes \<Rightarrow> Inr (i, bytes))))"

definition raw_error :: "py_error \<Rightarrow> pydict" where
  "raw_error e = [(''reason'', VStr (''raw_message_invalid:'' @ exc_text e))]"

definition active_epoch :: "coordinator \<Rightarrow> int option" where
  "active_epoch c = (case tc_current c of
     None \<Rightarrow> None | Some t \<Rightarrow> if finished (tx_phase t) then None else Some (tx_epoch t))"

definition game_raw_message :: "env \<Rightarrow> pydict \<Rightarrow> host_runtime \<Rightarrow> rres" where
  "game_raw_message ev payload r =
     (case raw_message payload of
        Inl e \<Rightarrow> (r\<lparr>hr_host := tell_game ev (mt_value MT_ERROR) (raw_error e) (hr_host r)\<rparr>, None)
      | Inr (msg_id, raw) \<Rightarrow>
        (let seq = hr_game_seq r + 1;
             out = [(''msg_id'', VInt msg_id), (''sequence'', VInt seq), (''payload_b64'', VStr (b64encode raw))] @
               (case active_epoch (host_travel (hr_host r)) of None \<Rightarrow> [] | Some ep \<Rightarrow> [(''epoch'', VInt ep)])
         in (r\<lparr>hr_host := broadcast ev (mt_value MT_GAME_RAW_MESSAGE) out (hr_host r),
               hr_sent := hr_sent r + 1, hr_last_size := int (length raw), hr_last_id := Some msg_id,
               hr_game_seq := seq\<rparr>, None)))"

definition game_view_batch :: "env \<Rightarrow> pydict \<Rightarrow> host_runtime \<Rightarrow> rres" where
  "game_view_batch ev payload r =
     (case py_int (pget_default payload ''epoch'' (VInt 0)) of
        Inl e \<Rightarrow> (r, Some e)
      | Inr epoch \<Rightarrow>
      (case tc_current (host_travel (hr_host r)) of
         None \<Rightarrow> (r, None)
       | Some t \<Rightarrow>
          if tx_epoch t \<noteq> epoch then (r, None)
          else (let kind = py_lower (py_str (pget_default payload ''kind'' (VStr [])));
                    out = batch_dict (tx_id t) epoch kind;
                    ty = mt_value MT_TRAVEL_VIEW_BATCH;
                    h1 = (if kind = ''begin'' then tell_game ev ty out (hr_host r) else hr_host r);
                    h2 = broadcast ev ty out h1;
                    h3 = (if kind = ''end'' then tell_game ev ty out h2 else h2)
                in (r\<lparr>hr_host := h3, hr_batch_open := (kind = ''begin'')\<rparr>, None))))"

definition game_sim_select :: "env \<Rightarrow> pydict \<Rightarrow> host \<Rightarrow> hres" where
  "game_sim_select ev payload h =
     (case select_sim (h_id h) (py_str (pget payload ''sim_id'')) (h_session h) of
        (s, Inl e) \<Rightarrow>
          (tell_game ev (mt_value MT_ERROR) [(''reason'', VStr (exc_text e))] (put_session s h), None)
      | (s, Inr state) \<Rightarrow>
          broadcast_host (runtime_callback ev) ev (mt_value MT_SIM_SELECTION_STATE) state (put_session s h))"

text \<open>\<open>payload.setdefault('player_id', host.player_id)\<close>.\<close>

definition with_player :: "string \<Rightarrow> pydict \<Rightarrow> pydict" where
  "with_player pid payload =
     (if map_of payload ''player_id'' = None then AList.update ''player_id'' (VStr pid) payload else payload)"

definition reject_local ::
  "env \<Rightarrow> string list \<Rightarrow> message_type \<Rightarrow> pydict \<Rightarrow> py_error \<Rightarrow> host \<Rightarrow> hres" where
  "reject_local ev classes mt payload e h =
     (if exc_class e \<in> set classes
      then (tell_game ev (mt_value mt)
              [(''request_id'', pget payload ''request_id''), (''reason'', VStr (exc_text e))] h, None)
      else (h, Some e))"

text \<open>A validated local request: to the game first; the peers learn that it was accepted or rejected.\<close>

definition publish_local :: "env \<Rightarrow> message_type \<Rightarrow> message_type \<Rightarrow> message_type \<Rightarrow> pydict \<Rightarrow> host \<Rightarrow> hres" where
  "publish_local ev mt accepted rejected request h =
     (case deliver_or_reject ev mt rejected request h of
        (h1, False) \<Rightarrow> (h1, None)
      | (h1, True) \<Rightarrow> (broadcast ev (mt_value accepted) request h1, None))"

definition game_interaction :: "env \<Rightarrow> pydict \<Rightarrow> host \<Rightarrow> hres" where
  "game_interaction ev payload0 h =
     (let payload = with_player (h_id h) payload0 in
      case validate_interaction (pget payload ''request_id'') (h_id h) payload (h_session h) of
        (s, Inl e) \<Rightarrow> reject_local ev [''ValueError''] MT_INTERACTION_REJECTED payload e (put_session s h)
      | (s, Inr request) \<Rightarrow>
          publish_local ev MT_INTERACTION_REQUEST MT_INTERACTION_ACCEPTED MT_INTERACTION_REJECTED request
            (put_session s h))"

definition game_interaction_command :: "env \<Rightarrow> pydict \<Rightarrow> host \<Rightarrow> hres" where
  "game_interaction_command ev payload0 h =
     (let payload = with_player (h_id h) payload0 in
      case validate_command (h_id h) payload (h_session h) of
        (s, Inl e) \<Rightarrow> reject_local ev [''TypeError'', ''ValueError''] MT_INTERACTION_COMMAND_REJECTED payload e
                       (put_session s h)
      | (s, Inr request) \<Rightarrow>
          publish_local ev MT_INTERACTION_COMMAND MT_INTERACTION_COMMAND_ACCEPTED MT_INTERACTION_COMMAND_REJECTED
            request (put_session s h))"

definition game_interaction_cancel :: "env \<Rightarrow> pydict \<Rightarrow> host \<Rightarrow> hres" where
  "game_interaction_cancel ev payload h =
     (case cancel_interaction (cancel_id payload (h_session h)) (h_id h) payload (h_session h) of
        (s, Inl e) \<Rightarrow> reject_local ev [''ValueError''] MT_INTERACTION_REJECTED payload e (put_session s h)
      | (s, Inr request) \<Rightarrow>
          (broadcast ev (mt_value MT_INTERACTION_CANCEL) request
             (tell_game ev (mt_value MT_INTERACTION_CANCEL) request (put_session s h)), None))"

definition put_build :: "build_authority \<Rightarrow> host \<Rightarrow> host" where
  "put_build a h = with_session (\<lambda>s. s\<lparr>hs_build := a\<rparr>) h"

definition host_apply_payload :: "build_operation \<Rightarrow> pydict" where
  "host_apply_payload o1 = [(''op_seq'', VInt (bo_seq o1)), (''op_id'', pget (bo_data o1) ''op_id''),
     (''player_id'', VStr (bo_player o1)), (''op'', VStr (bo_op o1)), (''data'', VDict (bo_data o1))]"

definition game_build_operation :: "env \<Rightarrow> pydict \<Rightarrow> host \<Rightarrow> hres" where
  "game_build_operation ev payload h =
     (let failed = (\<lambda>e h1. if exc_class e \<in> {''PermissionError'', ''ValueError'', ''TypeError''}
             then (tell_game ev (mt_value MT_ERROR) [(''reason'', VStr (exc_text e))] h1, None)
             else (h1, Some e))
      in case request_lock (ev_now ev) (ev_ns ev) (h_id h) (hs_build (h_session h)) of
           (a, False) \<Rightarrow>
             (tell_game ev ''build.lock_state'' [(''owner_id'', lock_owner a)] (put_build a h), None)
         | (a, True) \<Rightarrow>
            (case py_dict (py_or (pget payload ''data'') (VDict [])) of
               Inl e \<Rightarrow> failed e (put_build a h)
             | Inr data \<Rightarrow>
            (case submit (ev_now ev) (h_id h) (py_str (pget payload ''op'')) data a of
               (b, Inl e) \<Rightarrow> failed e (put_build b h)
             | (b, Inr o1) \<Rightarrow>
                 (broadcast ev (mt_value MT_BUILD_APPLY) (host_apply_payload o1) (put_build b h), None))))"

definition game_lock_request :: "env \<Rightarrow> host \<Rightarrow> hres" where
  "game_lock_request ev h =
     (case request_lock (ev_now ev) (ev_ns ev) (h_id h) (hs_build (h_session h)) of
        (a, granted) \<Rightarrow>
          (let out = [(''owner_id'', lock_owner a), (''granted_to'', granted_to (h_id h) granted)];
               ty = mt_value MT_BUILD_LOCK_STATE
           in (broadcast ev ty out (tell_game ev ty out (put_build a h)), None)))"

definition game_lock_release :: "env \<Rightarrow> host \<Rightarrow> hres" where
  "game_lock_release ev h =
     (let a = fst (release_lock (h_id h) (hs_build (h_session h)));
          out = [(''owner_id'', lock_owner a)];
          ty = mt_value MT_BUILD_LOCK_STATE
      in (broadcast ev ty out (tell_game ev ty out (put_build a h)), None))"

definition game_sims :: "env \<Rightarrow> pydict \<Rightarrow> host \<Rightarrow> hres" where
  "game_sims ev payload h =
     (case py_iter (pget_default payload ''sims'' (VList [])) of
        Inl e \<Rightarrow> (h, Some e)
      | Inr sims \<Rightarrow>
      (case update_sims sims (h_session h) of
         (s, Some e) \<Rightarrow> (put_session s h, Some e)
       | (s, None) \<Rightarrow>
      (case session_snapshot (ev_now ev) s of
         Inl e \<Rightarrow> (put_session s h, Some e)
       | Inr d \<Rightarrow> (broadcast ev (mt_value MT_SIM_STATE) d (put_session s h), None))))"

definition game_interaction_result :: "env \<Rightarrow> string \<Rightarrow> pydict \<Rightarrow> host \<Rightarrow> hres" where
  "game_interaction_result ev ty payload h =
     (let rid = py_str (py_or (pget payload ''request_id'') (VStr []));
          s1 = put_request_field rid ''status'' (VStr (last_part ty)) (h_session h);
          s2 = (if pget payload ''interaction_id'' = VNone then s1
                else put_request_field rid ''interaction_id'' (VStr (py_str (pget payload ''interaction_id''))) s1)
      in (broadcast ev ty payload (put_session s2 h), None))"

definition game_event :: "env \<Rightarrow> string \<Rightarrow> pydict \<Rightarrow> host_runtime \<Rightarrow> rres" where
  "game_event ev ty payload r =
     (if ty = ''game.hello'' then on_host (game_hello ev) r
      else if ty = ''simulation.authority'' then on_host (game_authority ev) r
      else if ty = ''sims.state'' then on_host (game_sims ev payload) r
      else case mt_of ty of
        Some MT_CLOCK_STATE \<Rightarrow> on_host (game_clock_state ev payload) r
      | Some MT_GAME_RAW_MESSAGE \<Rightarrow> game_raw_message ev payload r
      | Some MT_TRAVEL_VIEW_BATCH \<Rightarrow> game_view_batch ev payload r
      | Some MT_SIM_SELECT \<Rightarrow> on_host (game_sim_select ev payload) r
      | Some MT_INTERACTION_REQUEST \<Rightarrow> on_host (game_interaction ev payload) r
      | Some MT_INTERACTION_COMMAND \<Rightarrow> on_host (game_interaction_command ev payload) r
      | Some MT_INTERACTION_CANCEL \<Rightarrow> on_host (game_interaction_cancel ev payload) r
      | Some MT_TRAVEL_REQUEST \<Rightarrow> on_host (\<lambda>h. start_travel ev payload (h_id h) h) r
      | Some MT_TRAVEL_READY \<Rightarrow> on_host (\<lambda>h. travel_ready ev (h_id h) payload h) r
      | Some MT_TRAVEL_ZONE_READY \<Rightarrow> on_host (\<lambda>h. travel_zone_ready ev (h_id h) payload h) r
      | Some MT_TRAVEL_ABORT \<Rightarrow> on_host (abort_current ev ''game_abort'' payload) r
      | Some MT_BUILD_OPERATION \<Rightarrow> on_host (game_build_operation ev payload) r
      | Some MT_BUILD_LOCK_REQUEST \<Rightarrow> on_host (game_lock_request ev) r
      | Some MT_BUILD_LOCK_RELEASE \<Rightarrow> on_host (game_lock_release ev) r
      | Some MT_SIM_STATE \<Rightarrow> on_host (game_sims ev payload) r
      | Some t \<Rightarrow>
          if t \<in> {MT_INTERACTION_ACCEPTED, MT_INTERACTION_REJECTED, MT_INTERACTION_COMMAND_ACCEPTED,
                  MT_INTERACTION_COMMAND_REJECTED, MT_INTERACTION_QUEUED, MT_INTERACTION_STARTED,
                  MT_INTERACTION_FINISHED}
          then on_host (game_interaction_result ev ty payload) r else (r, None)
      | None \<Rightarrow> (r, None))"

section \<open>What the handlers preserve\<close>

lemma travellers_set:
  assumes "travellers_ok P c" "tc_current c = Some t" "tx_participants t' = tx_participants t"
    and "finished (tx_phase t) \<Longrightarrow> finished (tx_phase t')"
  shows "travellers_ok P (c\<lparr>tc_current := Some t'\<rparr>)"
  using assms by (auto simp: travellers_ok_def)

lemma marks_participants:
  "tx_participants (fst (txn_mark_ready pid ep t)) = tx_participants t"
  "tx_participants (fst (txn_mark_zone_ready pid ep t)) = tx_participants t"
  by (simp_all add: txn_mark_ready_def txn_mark_zone_ready_def Let_def)

lemma marks_finished:
  assumes "finished (tx_phase t)"
  shows "fst (txn_mark_ready pid ep t) = t" "fst (txn_mark_zone_ready pid ep t) = t"
proof -
  have "tx_phase t \<noteq> WAITING_READY" "tx_phase t \<notin> {COMMITTED, WAITING_ZONE_READY}"
    using assms by (auto simp: finished_def)
  then show "fst (txn_mark_ready pid ep t) = t" "fst (txn_mark_zone_ready pid ep t) = t"
    by (simp_all add: txn_mark_ready_def txn_mark_zone_ready_def)
qed

lemma travellers_ops:
  assumes "travellers_ok P c"
  shows "mark_ready pid i ep c = Inr (c', b) \<Longrightarrow> travellers_ok P c'"
    "mark_zone_ready pid i ep c = Inr (c', b) \<Longrightarrow> travellers_ok P c'"
    "begin_zone_wait i c = Inr c' \<Longrightarrow> travellers_ok P c'"
    "abort_travel i c = Inr c' \<Longrightarrow> travellers_ok P c'"
proof -
  note step = travellers_set [OF assms]
  show "travellers_ok P c'" if m: "mark_ready pid i ep c = Inr (c', b)"
  proof -
    obtain t where t: "tc_current c = Some t" "c' = c\<lparr>tc_current := Some (fst (txn_mark_ready pid ep t))\<rparr>"
      using m by (cases "get_txn i c") (auto simp: mark_ready_def set_txn_def get_txn_Inr)
    then show ?thesis by (simp add: step marks_participants marks_finished)
  qed
  show "travellers_ok P c'" if m: "mark_zone_ready pid i ep c = Inr (c', b)"
  proof -
    obtain t where t: "tc_current c = Some t" "c' = c\<lparr>tc_current := Some (fst (txn_mark_zone_ready pid ep t))\<rparr>"
      using m by (cases "get_txn i c") (auto simp: mark_zone_ready_def set_txn_def get_txn_Inr)
    then show ?thesis by (simp add: step marks_participants marks_finished)
  qed
  show "travellers_ok P c'" if m: "begin_zone_wait i c = Inr c'"
  proof -
    obtain t where t: "tc_current c = Some t" "tx_phase t = COMMITTED"
      "c' = c\<lparr>tc_current := Some (t\<lparr>tx_phase := WAITING_ZONE_READY\<rparr>)\<rparr>"
      using m by (cases "get_txn i c") (auto simp: begin_zone_wait_def get_txn_Inr split: if_splits)
    show ?thesis
      unfolding t(3) by (rule step [OF t(1)]) (use t(2) in \<open>simp_all add: finished_def\<close>)
  qed
  show "travellers_ok P c'" if m: "abort_travel i c = Inr c'"
  proof -
    obtain t where t: "tc_current c = Some t" "c' = c\<lparr>tc_current := Some (t\<lparr>tx_phase := ABORTED\<rparr>)\<rparr>"
      using m by (cases "get_txn i c") (auto simp: abort_travel_def get_txn_Inr)
    then show ?thesis by (simp add: step finished_def)
  qed
qed

lemma travellers_propose: "propose i z as ps c = Inr (c', t) \<Longrightarrow> set ps \<subseteq> P \<Longrightarrow> travellers_ok P c'"
  by (auto simp: propose_def travellers_ok_def Let_def split: if_splits)

lemma host_travel_parts:
  "host_ok h \<Longrightarrow> travel_ok (host_travel h) \<and> travellers_ok (dict_keys (hs_players (h_session h))) (host_travel h)"
  by (simp add: host_ok_def session_ok_def)

lemma tell_game_frame [simp]:
  "h_session (tell_game ev t d h) = h_session h" "h_peers (tell_game ev t d h) = h_peers h"
  "h_id (tell_game ev t d h) = h_id h"
  by (simp_all add: tell_game_def game_send_def)

lemma put_travel_frame [simp]:
  "host_travel (put_travel c h) = c" "h_peers (put_travel c h) = h_peers h"
  "hs_players (h_session (put_travel c h)) = hs_players (h_session h)"
  by (simp_all add: put_travel_def)

context host_writes begin

lemma P_tell [simp]: "P h \<Longrightarrow> P (tell_game ev t d h)"
  by (simp add: tell_game_def game_send_def)

lemma P_put_travel:
  assumes "P h" "travel_ok c" "travellers_ok (dict_keys (hs_players (h_session h))) c"
  shows "P (put_travel c h)"
proof -
  have "session_ext (h_session h) ((h_session h)\<lparr>hs_travel := c\<rparr>)"
    using host_sessionD [OF P_host_ok [OF assms(1)]] assms(2,3) session_ext_fields(5) by blast
  then show ?thesis unfolding put_travel_def by (rule P_with [OF assms(1)])
qed

lemma P_reject_local: "P h \<Longrightarrow> P (fst (reject_local ev cs mt payload e h))"
  by (simp add: reject_local_def)

lemma P_put_validated:
  assumes "P h"
  shows "validate_interaction rid pid d (h_session h) = (s, x) \<Longrightarrow> P (put_session s h)"
    "validate_command pid d (h_session h) = (s, x) \<Longrightarrow> P (put_session s h)"
    "cancel_interaction rid pid d (h_session h) = (s, x) \<Longrightarrow> P (put_session s h)"
    "select_sim pid sid (h_session h) = (s, x) \<Longrightarrow> P (put_session s h)"
    "update_sims vs (h_session h) = (s, y) \<Longrightarrow> P (put_session s h)"
proof -
  show "P (put_session s h)" if "validate_interaction rid pid d (h_session h) = (s, x)"
    by (rule put_session_of [of h "validate_interaction rid pid d" s x, OF assms that])
      (rule session_ext_player_ops)
  show "P (put_session s h)" if "validate_command pid d (h_session h) = (s, x)"
    by (rule put_session_of [of h "validate_command pid d" s x, OF assms that]) (rule session_ext_command)
  show "P (put_session s h)" if "cancel_interaction rid pid d (h_session h) = (s, x)"
    by (rule put_session_of [of h "cancel_interaction rid pid d" s x, OF assms that])
      (rule session_ext_player_ops)
  show "P (put_session s h)" if "select_sim pid sid (h_session h) = (s, x)"
    by (rule put_session_of [of h "select_sim pid sid" s x, OF assms that]) (rule session_ext_player_ops)
  show "P (put_session s h)" if "update_sims vs (h_session h) = (s, y)"
    by (rule put_session_of [of h "update_sims vs" s y, OF assms that]) (rule session_ext_player_ops)
qed

lemma P_put_build: "P h \<Longrightarrow> authority_ok a \<Longrightarrow> P (put_build a h)"
  unfolding put_build_def by (rule put_build_ok)

end

context host_property begin

lemma P_deliver [simp]: "P h \<Longrightarrow> P (fst (deliver_or_reject ev mt rej d h))"
  by (simp add: deliver_or_reject_def game_send_def)

lemma P_start_travel: "P h \<Longrightarrow> P (fst (start_travel ev payload q h))"
proof -
  assume h: "P h"
  note t = host_travel_parts [OF P_host_ok [OF h]]
  have "P (put_travel c h)"
    if "propose i z as (map fst (hs_players (h_session h))) (host_travel h) = Inr (c, x)" for i z as c x
    using t propose_ok [OF _ that] travellers_propose [OF that] by (intro P_put_travel [OF h]) simp_all
  then show ?thesis using h by (auto simp: start_travel_def Let_def split: sum.splits prod.splits)
qed

lemma P_commit_travel: "P h \<Longrightarrow> P (fst (commit_travel ev t i h))"
proof -
  assume h: "P h"
  have "P (put_travel c h')" if "P h'" "begin_zone_wait j (host_travel h') = Inr c" for h' j c
    using host_travel_parts [OF P_host_ok [OF that(1)]] begin_zone_wait_ok [OF _ that(2)]
      travellers_ops(3) [OF _ that(2)] by (intro P_put_travel [OF that(1)]) blast+
  then show ?thesis using h by (simp add: commit_travel_def Let_def split: sum.splits)
qed

lemma P_travel_ready: "P h \<Longrightarrow> P (fst (travel_ready ev pid payload h))"
proof -
  assume h: "P h"
  note t = host_travel_parts [OF P_host_ok [OF h]]
  have "P (put_travel c h)" if "mark_ready pid i ep (host_travel h) = Inr (c, b)" for i ep c b
    using t mark_ready_ok [OF _ that] travellers_ops(1) [OF _ that] by (intro P_put_travel [OF h]) blast+
  then have c: "P (fst (case (commit, tc_current c) of
             (True, Some t) \<Rightarrow> commit_travel ev t i (put_travel c h) | _ \<Rightarrow> (put_travel c h, None)))"
    if "mark_ready pid i ep (host_travel h) = Inr (c, commit)" for i ep c commit
    using P_commit_travel that by (simp split: bool.split option.split)
  show ?thesis
  proof (cases "py_int (pget_default payload ''epoch'' (VInt (-1)))")
    case (Inr ep)
    let ?i = "py_str (py_or (pget payload ''txn_id'') (VStr []))"
    show ?thesis
      using h c [of ?i "Some ep"]
      by (cases "mark_ready pid ?i (Some ep) (host_travel h)") (auto simp: travel_ready_def Let_def Inr)
  qed (use h in \<open>simp add: travel_ready_def Let_def\<close>)
qed

lemma P_travel_zone_ready: "P h \<Longrightarrow> P (fst (travel_zone_ready ev pid payload h))"
proof -
  assume h: "P h"
  note t = host_travel_parts [OF P_host_ok [OF h]]
  have "P (put_travel c h)" if "mark_zone_ready pid i ep (host_travel h) = Inr (c, b)" for i ep c b
    using t mark_zone_ready_ok [OF _ that] travellers_ops(2) [OF _ that] by (intro P_put_travel [OF h]) blast+
  then have c: "P (put_travel c h)" "P (broadcast ev ty d (tell_game ev ty d (put_travel c h)))"
    if "mark_zone_ready pid i ep (host_travel h) = Inr (c, b)" for i ep c b ty d
    using that by (simp_all del: put_travel_frame)
  show ?thesis
  proof (cases "py_int (pget_default payload ''epoch'' (VInt (-1)))")
    case (Inr ep)
    let ?i = "py_str (py_or (pget payload ''txn_id'') (VStr []))"
    show ?thesis
      using h c [of ?i "Some ep"]
      by (cases "mark_zone_ready pid ?i (Some ep) (host_travel h)")
        (auto simp: travel_zone_ready_def Let_def Inr split: option.split)
  qed (use h in \<open>simp add: travel_zone_ready_def Let_def split: option.split\<close>)
qed

lemma P_abort_current: "P h \<Longrightarrow> P (fst (abort_current ev reason payload h))"
proof -
  assume h: "P h"
  note t = host_travel_parts [OF P_host_ok [OF h]]
  have "P (put_travel c h)" if "abort_travel i (host_travel h) = Inr c" for i c
    using t abort_travel_ok [OF _ that] travellers_ops(4) [OF _ that] by (intro P_put_travel [OF h]) blast+
  then show ?thesis
    using h by (auto simp: abort_current_def split: sum.splits option.splits)
qed

lemma P_network_message: "P h \<Longrightarrow> P (fst (network_message ev e h))"
  by (simp add: network_message_def P_start_travel P_travel_ready P_travel_zone_ready P_abort_current
      split: option.split message_type.split)

text \<open>The events of the host's game.\<close>

lemma P_broadcast_host: "P h \<Longrightarrow> P (fst (broadcast_host (runtime_callback ev) ev' ty d h))"
  by (simp add: broadcast_host_def runtime_callback_def Let_def P_network_message)

lemma P_game_readiness:
  assumes "P h"
  shows "P (fst (game_hello ev h))" "P (fst (game_authority ev h))"
  using assms by (auto simp: game_hello_def game_authority_def broadcast_readiness_def P_put_readiness
      split: prod.splits sum.splits)

lemma P_game_clock: "P h \<Longrightarrow> P (fst (game_clock_state ev payload h))"
  by (auto simp: game_clock_state_def Let_def split: sum.splits)

lemma P_publish_local: "P h \<Longrightarrow> P (fst (publish_local ev mt acc rej d h))"
  using P_deliver [of h ev mt rej d]
  by (cases "deliver_or_reject ev mt rej d h") (simp add: publish_local_def split: bool.split)

lemma P_game_interactions:
  assumes "P h"
  shows "P (fst (game_interaction ev payload h))" "P (fst (game_interaction_command ev payload h))"
    "P (fst (game_interaction_cancel ev payload h))" "P (fst (game_sim_select ev payload h))"
    "P (fst (game_sims ev payload h))"
  by (simp_all add: game_interaction_def game_interaction_command_def game_interaction_cancel_def
      game_sim_select_def game_sims_def Let_def assms P_put_validated [OF assms] P_reject_local P_publish_local
      P_broadcast_host split: prod.split sum.split option.split)

lemma P_game_build:
  assumes "P h"
  shows "P (fst (game_build_operation ev payload h))" "P (fst (game_lock_request ev h))"
    "P (fst (game_lock_release ev h))"
proof -
  note a = host_parts(1) [OF P_host_ok [OF assms]]
  have req: "authority_ok b" if "request_lock now ns pid (hs_build (h_session h)) = (b, g)" for now ns pid b g
    using request_lock_ok [OF a, of now ns pid] that by simp
  have sub: "authority_ok c" if "authority_ok b" "submit now pid op data b = (c, x)" for now pid op data b c x
    using submit_ok [OF that(1), of now pid op data] that(2) by simp
  show "P (fst (game_lock_request ev h))"
    by (simp add: game_lock_request_def Let_def P_put_build [OF assms] req split: prod.split)
  show "P (fst (game_lock_release ev h))"
    by (simp add: game_lock_release_def Let_def P_put_build [OF assms] release_lock_ok [OF a])
  obtain b g where r: "request_lock (ev_now ev) (ev_ns ev) (h_id h) (hs_build (h_session h)) = (b, g)"
    by (cases "request_lock (ev_now ev) (ev_ns ev) (h_id h) (hs_build (h_session h))")
  have b: "authority_ok b" by (rule req [OF r])
  then have "P (put_build b h)"
    "\<And>now pid op data c x. submit now pid op data b = (c, x) \<Longrightarrow> P (put_build c h)"
    using P_put_build [OF assms] sub by blast+
  then show "P (fst (game_build_operation ev payload h))"
    by (simp add: game_build_operation_def r split: bool.split sum.split prod.split)
qed

lemma P_game_result: "P h \<Longrightarrow> P (fst (game_interaction_result ev ty payload h))"
proof -
  assume h: "P h"
  have s: "session_ok (h_session h)" "controllers_ok (h_session h)"
    using host_sessionD [OF P_host_ok [OF h]] by simp_all
  have e1: "session_ext (h_session h) (put_request_field r k v (h_session h))" for r k v
    by (rule session_ext_player_ops [OF s])
  then have "session_ext (put_request_field r k v (h_session h))
      (put_request_field r' k' v' (put_request_field r k v (h_session h)))" for r k v r' k' v'
    by (intro session_ext_player_ops) (simp_all add: session_ext_def)
  then have "session_ext (h_session h) (put_request_field r' k' v' (put_request_field r k v (h_session h)))"
    for r k v r' k' v' using e1 session_ext_trans by blast
  then show ?thesis using e1 by (simp add: game_interaction_result_def Let_def P_put [OF h])
qed

lemma P_on_host: "(\<And>h. P h \<Longrightarrow> P (fst (f h))) \<Longrightarrow> P (hr_host r) \<Longrightarrow> P (hr_host (fst (on_host f r)))"
  by (simp add: on_host_def split: prod.split) (metis fst_conv)

lemma P_raw_events:
  assumes "P (hr_host r)"
  shows "P (hr_host (fst (game_raw_message ev payload r)))" "P (hr_host (fst (game_view_batch ev payload r)))"
  using assms by (auto simp: game_raw_message_def game_view_batch_def Let_def split: sum.split option.split)

lemma P_game_event: "P (hr_host r) \<Longrightarrow> P (hr_host (fst (game_event ev ty payload r)))"
  by (simp add: game_event_def P_on_host P_raw_events P_game_readiness P_game_clock P_game_interactions
      P_game_build P_game_result P_start_travel P_travel_ready P_travel_zone_ready P_abort_current
      split: option.split message_type.split)

end

text \<open>The runtime's callback satisfies the law the LAN host relies on.\<close>

interpretation runtime_host: host_callback "runtime_callback ev" for ev
proof unfold_locales
  fix f e h
  assume f: "runtime_callback ev = Some f" and h: "host_ok h"
  show "host_ok (fst (f e h)) \<and> host_le h (fst (f e h))"
    using f h host_progress.P_network_message [of h h ev e] by (simp add: runtime_callback_def)
qed

section \<open>A departure during travel\<close>

lemma drop_peer_travel:
  "host_travel (drop_peer pid h) = fst (remove_participant pid (host_travel h))"
  by (simp add: drop_peer_def Let_def remove_player_fields)

lemma drop_peer_output: "\<exists>xs. h_log (drop_peer pid h) = h_log h @ xs \<and> set xs \<subseteq> {Closed pid}"
  by (simp add: drop_peer_def Let_def with_session_def)

text \<open>
  When the last player the barrier waits for leaves, the transaction is committed in the
  coordinator, but nothing is written to anybody.
\<close>

lemma departure_commits_silently:
  assumes "tc_current (host_travel h) = Some t" "tx_phase t = WAITING_READY"
    and "tx_ready t - {pid} = tx_participants t - {pid}"
  shows "map_option tx_phase (tc_current (host_travel (drop_peer pid h))) = Some COMMITTED"
  using assms
  by (simp add: drop_peer_travel remove_participant_def set_txn_def txn_remove_def finished_def Let_def)

lemma committed_blocks_travel:
  assumes "tc_current (host_travel h) = Some t" "\<not> finished (tx_phase t)" "zone \<noteq> []"
  shows "start_travel ev [(''zone_id'', VStr zone)] q h = (h, Some (RuntimeError ''travel already in progress''))"
  using assms by (simp add: start_travel_def propose_def pget_def pget_default_def py_or_def Let_def)

section \<open>A whole journey\<close>

definition all_up :: "env \<Rightarrow> bool" where
  "all_up ev \<longleftrightarrow> (\<forall>p. ev_up ev p)"

lemma broadcast_up:
  assumes "\<And>p. ev_up ev p"
  shows "h_session (broadcast ev ty d h) = h_session h" "h_peers (broadcast ev ty d h) = h_peers h"
    "h_log (broadcast ev ty d h) = h_log h @ map (\<lambda>kv. ToPeer (fst kv)
        \<lparr>ms_type = ty, ms_payload = d, ms_seq = Some (h_seq h + 1)\<rparr>) (h_peers h)"
  using assms by (simp_all add: broadcast_def Let_def dead_peers_def broadcast_log_def filter_True)

definition ack_payload :: "string \<Rightarrow> int \<Rightarrow> pydict" where
  "ack_payload i ep = [(''txn_id'', VStr i), (''epoch'', VInt ep)]"

lemma ack_fields [simp]:
  "pget (ack_payload i ep) ''txn_id'' = VStr i" "pget_default (ack_payload i ep) ''epoch'' v = VInt ep"
  by (simp_all add: ack_payload_def pget_def pget_default_def)

definition wait_zone :: "travel_txn \<Rightarrow> travel_txn" where
  "wait_zone t = (if tx_phase t = COMMITTED then t\<lparr>tx_phase := WAITING_ZONE_READY\<rparr> else t)"

definition ready_step :: "string \<Rightarrow> travel_txn \<Rightarrow> travel_txn" where
  "ready_step p t = (if tx_phase t = WAITING_READY then wait_zone (arrive_ready p t) else t)"

lemma arrive_ready_phase:
  "tx_phase t = WAITING_READY \<Longrightarrow> tx_phase (arrive_ready p t) = WAITING_READY \<or> tx_phase (arrive_ready p t) = COMMITTED"
  "tx_phase t \<noteq> WAITING_READY \<Longrightarrow> arrive_ready p t = t"
  by (simp_all add: arrive_ready_def txn_mark_ready_def Let_def)

lemma fold_ready_step:
  "tx_phase t = WAITING_READY \<Longrightarrow> fold ready_step ps t = wait_zone (fold arrive_ready ps t)"
proof (induction ps arbitrary: t)
  case Nil
  then show ?case by (simp add: wait_zone_def)
next
  case (Cons p ps)
  show ?case
  proof (cases "tx_phase (arrive_ready p t) = WAITING_READY")
    case True
    then show ?thesis using Cons by (simp add: ready_step_def wait_zone_def)
  next
    case False
    then have c: "tx_phase (arrive_ready p t) = COMMITTED"
      using arrive_ready_phase(1) [OF Cons.prems, of p] by simp
    have "fold arrive_ready ps u = u" if "tx_phase u \<noteq> WAITING_READY" for u
      using that by (induction ps) (simp_all add: arrive_ready_phase(2))
    moreover have "fold ready_step ps u = u" if "tx_phase u \<noteq> WAITING_READY" for u
      using that by (induction ps) (simp_all add: ready_step_def)
    moreover have "tx_phase (wait_zone (arrive_ready p t)) \<noteq> WAITING_READY" using c by (simp add: wait_zone_def)
    moreover have "ready_step p t = wait_zone (arrive_ready p t)" using Cons.prems by (simp add: ready_step_def)
    ultimately show ?thesis using c by simp
  qed
qed

lemma commit_travel_up:
  assumes "\<And>p. ev_up ev p" "tc_current (host_travel h) = Some u" "tx_phase u = COMMITTED" "tx_id u = i"
  shows "tc_current (host_travel (fst (commit_travel ev t i h))) = Some (u\<lparr>tx_phase := WAITING_ZONE_READY\<rparr>)"
    "h_peers (fst (commit_travel ev t i h)) = h_peers h" "snd (commit_travel ev t i h) = None"
  using assms by (simp_all add: commit_travel_def Let_def broadcast_up begin_zone_wait_def get_txn_def)

lemma travel_ready_step:
  assumes "\<And>p. ev_up ev p" "tc_current (host_travel h) = Some t" "tx_id t = i" "i \<noteq> []" "tx_epoch t = ep"
  shows "tc_current (host_travel (fst (travel_ready ev p (ack_payload i ep) h))) = Some (ready_step p t)"
    "h_peers (fst (travel_ready ev p (ack_payload i ep) h)) = h_peers h"
    "snd (travel_ready ev p (ack_payload i ep) h) = None"
proof -
  define u b where "u = fst (txn_mark_ready p (Some ep) t)" and "b = snd (txn_mark_ready p (Some ep) t)"
  let ?c = "(host_travel h)\<lparr>tc_current := Some u\<rparr>"
  have m: "mark_ready p i (Some ep) (host_travel h) = Inr (?c, b)"
    using assms(2,3) by (simp add: mark_ready_def get_txn_def set_txn_def u_def b_def)
  have r: "b \<longleftrightarrow> tx_phase t = WAITING_READY \<and> tx_phase u = COMMITTED" "tx_phase t \<noteq> WAITING_READY \<Longrightarrow> u = t"
    "arrive_ready p t = u" "tx_id u = i"
    using assms(3,5) by (auto simp: txn_mark_ready_def arrive_ready_def u_def b_def Let_def)
  have tr: "travel_ready ev p (ack_payload i ep) h =
      (if b then commit_travel ev u i (put_travel ?c h) else (put_travel ?c h, None))"
    using assms(4) m by (simp add: travel_ready_def Let_def py_or_def split: bool.split)
  have step: "ready_step p t = (if b then u\<lparr>tx_phase := WAITING_ZONE_READY\<rparr> else u)"
    using r by (auto simp: ready_step_def wait_zone_def)
  note up = commit_travel_up [of ev "put_travel ?c h" u i u, OF assms(1)]
  show "tc_current (host_travel (fst (travel_ready ev p (ack_payload i ep) h))) = Some (ready_step p t)"
    "h_peers (fst (travel_ready ev p (ack_payload i ep) h)) = h_peers h"
    "snd (travel_ready ev p (ack_payload i ep) h) = None"
    using up r(1,4) by (simp_all add: tr step)
qed

lemma fold_travel_ready:
  assumes "\<And>p. ev_up ev p" "tc_current (host_travel h) = Some t" "tx_id t = i" "i \<noteq> []" "tx_epoch t = ep"
  shows "tc_current (host_travel (fold (\<lambda>p h. fst (travel_ready ev p (ack_payload i ep) h)) ps h))
      = Some (fold ready_step ps t) \<and>
    h_peers (fold (\<lambda>p h. fst (travel_ready ev p (ack_payload i ep) h)) ps h) = h_peers h"
  using assms(2-)
proof (induction ps arbitrary: h t)
  case (Cons p ps)
  note s = travel_ready_step [OF assms(1) Cons.prems, of p]
  have "tx_id (ready_step p t) = i" "tx_epoch (ready_step p t) = ep"
    using Cons.prems by (simp_all add: ready_step_def wait_zone_def kermp_frame)
  from Cons.IH [OF s(1) this(1) Cons.prems(3) this(2)] show ?case using s(2) by simp
qed simp

definition resume_sent :: "string \<Rightarrow> int \<Rightarrow> host \<Rightarrow> bool" where
  "resume_sent i ep h \<longleftrightarrow> (\<forall>p \<in> dict_keys (h_peers h). \<exists>q.
     ToPeer p \<lparr>ms_type = mt_value MT_TRAVEL_RESUME, ms_payload = ack_payload i ep, ms_seq = Some q\<rparr>
       \<in> set (h_log h))"

lemma arrive_zone_complete: "tx_phase t = COMPLETE \<Longrightarrow> arrive_zone p t = t"
  by (simp add: arrive_zone_def txn_mark_zone_ready_def)

lemma travel_zone_step:
  fixes p :: string
  assumes "\<And>p. ev_up ev p" "tc_current (host_travel h) = Some t" "tx_id t = i" "i \<noteq> []" "tx_epoch t = ep"
    and "tx_phase t = COMPLETE \<longrightarrow> resume_sent i ep h"
  defines "h' \<equiv> fst (travel_zone_ready ev p (ack_payload i ep) h)"
  shows "tc_current (host_travel h') = Some (arrive_zone p t)" "h_peers h' = h_peers h"
    "tx_phase (arrive_zone p t) = COMPLETE \<longrightarrow> resume_sent i ep h'"
proof -
  let ?r = "txn_mark_zone_ready p (Some ep) t"
  have m: "mark_zone_ready p i (Some ep) (host_travel h) =
      Inr ((host_travel h)\<lparr>tc_current := Some (fst ?r)\<rparr>, snd ?r)"
    using assms(2,3) by (simp add: mark_zone_ready_def get_txn_def set_txn_def)
  have r: "arrive_zone p t = fst ?r" "snd ?r \<longleftrightarrow> tx_phase t \<noteq> COMPLETE \<and> tx_phase (fst ?r) = COMPLETE"
    "tx_phase t = COMPLETE \<Longrightarrow> fst ?r = t"
    using assms(5) by (auto simp: txn_mark_zone_ready_def arrive_zone_def Let_def)
  show "tc_current (host_travel h') = Some (arrive_zone p t)" "h_peers h' = h_peers h"
    using assms(1-5) m r(1)
    by (auto simp: h'_def travel_zone_ready_def Let_def py_or_def broadcast_up)
  show "tx_phase (arrive_zone p t) = COMPLETE \<longrightarrow> resume_sent i ep h'"
  proof (cases "snd ?r")
    case True
    let ?h = "tell_game ev (mt_value MT_TRAVEL_RESUME) (ack_payload i ep)
        (put_travel ((host_travel h)\<lparr>tc_current := Some (fst ?r)\<rparr>) h)"
    have "h' = broadcast ev (mt_value MT_TRAVEL_RESUME) (ack_payload i ep) ?h"
      using assms(2-5) m True by (simp add: h'_def travel_zone_ready_def Let_def py_or_def ack_payload_def pget_def
          pget_default_def)
    then show ?thesis
      using assms(1) by (auto simp: resume_sent_def broadcast_up)
  next
    case False
    then have "tx_phase (fst ?r) = COMPLETE \<Longrightarrow> tx_phase t = COMPLETE" using r by auto
    moreover have "h_log h' = h_log h" "h_peers h' = h_peers h"
      using assms(2-5) m False by (simp_all add: h'_def travel_zone_ready_def Let_def py_or_def put_travel_def)
    ultimately show ?thesis using assms(6) r(1) by (auto simp: resume_sent_def)
  qed
qed

lemma fold_travel_zone:
  fixes ps :: "string list"
  assumes "\<And>p. ev_up ev p" "tc_current (host_travel h) = Some t" "tx_id t = i" "i \<noteq> []" "tx_epoch t = ep"
    and "tx_phase t = COMPLETE \<longrightarrow> resume_sent i ep h"
  defines "h' \<equiv> fold (\<lambda>p h. fst (travel_zone_ready ev p (ack_payload i ep) h)) ps h"
  shows "tc_current (host_travel h') = Some (fold arrive_zone ps t) \<and> h_peers h' = h_peers h \<and>
    (tx_phase (fold arrive_zone ps t) = COMPLETE \<longrightarrow> resume_sent i ep h')"
  unfolding h'_def using assms(2-6)
proof (induction ps arbitrary: h t)
  case (Cons p ps)
  note s = travel_zone_step [OF assms(1) Cons.prems, of p]
  have "tx_id (arrive_zone p t) = i" "tx_epoch (arrive_zone p t) = ep"
    using Cons.prems by (simp_all add: kermp_frame)
  from Cons.IH [OF s(1) this(1) Cons.prems(3) this(2) s(3)] show ?case using s(2) by simp
qed simp

text \<open>
  A proposal, an acknowledgement from every player and a loaded zone from every player,
  each in any order and any number of times, with every connection up.
\<close>

definition host_journey ::
  "env \<Rightarrow> string \<Rightarrow> string \<Rightarrow> string list \<Rightarrow> string list \<Rightarrow> host \<Rightarrow> host" where
  "host_journey ev zone q acks loads h =
     (let i = ev_uuid ev; ep = tc_epoch (host_travel h) + 1;
          h1 = fst (start_travel ev [(''zone_id'', VStr zone)] q h);
          h2 = fold (\<lambda>p h. fst (travel_ready ev p (ack_payload i ep) h)) acks h1
      in fold (\<lambda>p h. fst (travel_zone_ready ev p (ack_payload i ep) h)) loads h2)"

lemma host_journey_complete:
  fixes q :: string
  assumes up: "\<And>p. ev_up ev p" and i: "ev_uuid ev \<noteq> []" and zone: "zone \<noteq> []"
    and idle: "case tc_current (host_travel h) of None \<Rightarrow> True | Some t \<Rightarrow> finished (tx_phase t)"
    and players: "hs_players (h_session h) \<noteq> []"
    and acks: "set acks = dict_keys (hs_players (h_session h))"
    and loads: "set loads = dict_keys (hs_players (h_session h))"
  defines "h' \<equiv> host_journey ev zone q acks loads h"
  shows "map_option tx_phase (tc_current (host_travel h')) = Some COMPLETE"
    "resume_sent (ev_uuid ev) (tc_epoch (host_travel h) + 1) h'" "h_peers h' = h_peers h"
proof -
  let ?i = "ev_uuid ev" and ?ep = "tc_epoch (host_travel h) + 1"
  let ?ps = "map fst (hs_players (h_session h))"
  define t where "t = \<lparr>tx_epoch = ?ep, tx_id = ?i, tx_zone = zone, tx_actors = [],
    tx_participants = set ?ps, tx_phase = WAITING_READY, tx_ready = {}, tx_zone_ready = {}\<rparr>"
  define h1 where "h1 = fst (start_travel ev [(''zone_id'', VStr zone)] q h)"
  have h1: "tc_current (host_travel h1) = Some t" "h_peers h1 = h_peers h"
    using idle players zone up
    by (auto simp: h1_def start_travel_def propose_def t_def Let_def pget_def pget_default_def py_or_def
        broadcast_up split: option.splits)
  define h2 where "h2 = fold (\<lambda>p h. fst (travel_ready ev p (ack_payload ?i ?ep) h)) acks h1"
  define u where "u = fold arrive_ready acks t"
  have h2: "tc_current (host_travel h2) = Some (wait_zone u)" "h_peers h2 = h_peers h"
    using fold_travel_ready [OF up h1(1), of ?i ?ep acks] fold_ready_step [of t acks] i h1(2)
    by (simp_all add: h2_def u_def t_def)
  have pu: "tx_phase u = COMMITTED"
    unfolding u_def using players acks by (intro ready_barrier.fires_in_any_order) (auto simp: t_def)
  have u: "tx_id u = ?i" "tx_epoch u = ?ep" "tx_zone_ready u = {}" "tx_participants u = set ?ps"
    by (simp_all add: u_def kermp_frame ready_barrier.expected_fold) (simp_all add: t_def)
  define h3 where "h3 = fold (\<lambda>p h. fst (travel_zone_ready ev p (ack_payload ?i ?ep) h)) loads h2"
  have h3: "tc_current (host_travel h3) = Some (fold arrive_zone loads (wait_zone u))" "h_peers h3 = h_peers h2"
    "tx_phase (fold arrive_zone loads (wait_zone u)) = COMPLETE \<longrightarrow> resume_sent ?i ?ep h3"
    using fold_travel_zone [OF up h2(1), of ?i ?ep loads] u i pu by (simp_all add: h3_def wait_zone_def)
  have c: "tx_phase (fold arrive_zone loads (wait_zone u)) = COMPLETE"
    using players loads u pu by (intro zone_barrier.fires_in_any_order) (auto simp: wait_zone_def)
  have "h' = h3" by (simp add: h'_def host_journey_def h3_def h2_def h1_def Let_def)
  then show "map_option tx_phase (tc_current (host_travel h')) = Some COMPLETE"
    "resume_sent ?i ?ep h'" "h_peers h' = h_peers h"
    using h3 h2(2) c by simp_all
qed

end
