(* ===== verification/Client_Runtime.thy ===== *)
theory Client_Runtime
  imports Host_Runtime
begin

text \<open>
  The client half of \<^verbatim>\<open>src/kermp/runtime.py\<close>: \<open>ClientRuntime\<close> joins a guest's game,
  behind its local bridge, with the remote host. It forwards local input upstream, holds
  back the host's game messages while a travel is under way, queues build operations
  until the lock is granted, and receives saves. What it sends to its game is appended to
  a log; what it sends to the host is in the client's log. The digest, the time stamp of
  a backup, the path of a slot and which writes succeed are the environment of a handler.
\<close>

section \<open>State\<close>

record client_runtime =
  cr_client :: client
  cr_game :: "(string \<times> pydict) list"
  cr_pending :: "pydict list"
  cr_owns :: bool
  cr_received :: int
  cr_last_size :: int
  cr_last_id :: "int option"
  cr_last_seq :: int
  cr_epoch :: int
  cr_buffering :: bool
  cr_buffer :: "pydict list"
  cr_batch_complete :: bool
  cr_zone_loaded :: bool
  cr_saver :: "save_receiver option"
  cr_dir :: "byte save_dir"

definition max_buffered :: nat where "max_buffered = 256"

definition new_client_runtime :: "client \<Rightarrow> byte save_dir \<Rightarrow> client_runtime" where
  "new_client_runtime c d =
     \<lparr>cr_client = c, cr_game = [], cr_pending = [], cr_owns = False, cr_received = 0, cr_last_size = 0,
      cr_last_id = None, cr_last_seq = 0, cr_epoch = 0, cr_buffering = False, cr_buffer = [],
      cr_batch_complete = False, cr_zone_loaded = False, cr_saver = None, cr_dir = d\<rparr>"

record client_env =
  cv_up :: bool
  cv_game :: bool
  cv_sha256 :: "byte list \<Rightarrow> string"
  cv_stamp :: string
  cv_path :: "string \<Rightarrow> string"

type_synonym cres = "client_runtime \<times> py_error option"

definition to_host :: "client_env \<Rightarrow> string \<Rightarrow> pydict \<Rightarrow> client_runtime \<Rightarrow> cres" where
  "to_host ev ty payload r =
     (case client_send (cv_up ev) ty payload (cr_client r) of (c, x) \<Rightarrow> (r\<lparr>cr_client := c\<rparr>, x))"

definition to_game :: "client_env \<Rightarrow> string \<Rightarrow> pydict \<Rightarrow> client_runtime \<Rightarrow> client_runtime" where
  "to_game ev ty payload r = (if cv_game ev then r\<lparr>cr_game := cr_game r @ [(ty, payload)]\<rparr> else r)"

definition game_error :: "client_env \<Rightarrow> string \<Rightarrow> client_runtime \<Rightarrow> client_runtime" where
  "game_error ev reason r = to_game ev ''sidecar.error'' [(''reason'', VStr reason)] r"

text \<open>\<open>connect\<close> through the runtime's \<open>start\<close>.\<close>

definition start_client :: "py_error + envelope \<Rightarrow> client_runtime \<Rightarrow> client_runtime \<times> (py_error + envelope)" where
  "start_client response r =
     (case client_connect response (cr_client r) of (c, x) \<Rightarrow> (r\<lparr>cr_client := c\<rparr>, x))"

section \<open>Receiving a save\<close>

definition save_error :: "client_env \<Rightarrow> py_error \<Rightarrow> client_runtime \<Rightarrow> cres" where
  "save_error ev e r = to_host ev (mt_value MT_SAVE_ERROR) [(''reason'', VStr (exc_text e))] r"

definition net_save_manifest :: "client_env \<Rightarrow> pydict \<Rightarrow> client_runtime \<Rightarrow> cres" where
  "net_save_manifest ev payload r =
     (case new_receiver payload (cr_dir r) of
        (d, Inl e) \<Rightarrow> if exc_class e = ''ValueError'' then save_error ev e (r\<lparr>cr_dir := d\<rparr>)
                     else (r\<lparr>cr_dir := d\<rparr>, Some e)
      | (d, Inr s) \<Rightarrow>
          to_host ev (mt_value MT_READINESS)
            [(''save_total_bytes'', VInt (sr_total s)), (''save_bytes_received'', VInt 0)]
            (r\<lparr>cr_dir := d, cr_saver := Some s\<rparr>))"

text \<open>The \<open>try\<close> block of a chunk: the receiver and the directory after it, or the exception.\<close>

definition chunk_bytes :: "pydict \<Rightarrow> py_error + int \<times> byte list" where
  "chunk_bytes payload =
     (case b64decode (py_str (pget_default payload ''payload_b64'' (VStr []))) of
        None \<Rightarrow> Inl decode_error
      | Some bytes \<Rightarrow>
         (case py_int (pget_default payload ''index'' (VInt (-1))) of
            Inl e \<Rightarrow> Inl e
          | Inr i \<Rightarrow> Inr (i, bytes)))"

definition store_chunk :: "pydict \<Rightarrow> client_runtime \<Rightarrow> client_runtime \<times> py_error option" where
  "store_chunk payload r =
     (case cr_saver r of
        None \<Rightarrow> (r, Some (ValueError ''save_transfer_not_started''))
      | Some s \<Rightarrow>
         (case chunk_bytes payload of
            Inl e \<Rightarrow> (r, Some e)
          | Inr (i, bytes) \<Rightarrow>
             (case write_chunk i bytes (s, cr_dir r) of
                ((s1, d1), x) \<Rightarrow> (r\<lparr>cr_saver := Some s1, cr_dir := d1\<rparr>, x))))"

definition report_progress :: "client_env \<Rightarrow> client_runtime \<Rightarrow> cres" where
  "report_progress ev r =
     (case cr_saver r of
        None \<Rightarrow> (r, None)
      | Some s \<Rightarrow> to_host ev (mt_value MT_READINESS)
          [(''save_total_bytes'', VInt (sr_total s)), (''save_bytes_received'', VInt (sr_received s))] r)"

definition abort_saver :: "client_runtime \<Rightarrow> client_runtime" where
  "abort_saver r =
     (case cr_saver r of None \<Rightarrow> r | Some s \<Rightarrow> r\<lparr>cr_dir := abort_save s (cr_dir r)\<rparr>)"

definition net_save_chunk :: "client_env \<Rightarrow> pydict \<Rightarrow> client_runtime \<Rightarrow> cres" where
  "net_save_chunk ev payload r =
     (case store_chunk payload r of
        (r1, Some e) \<Rightarrow> save_error ev e (abort_saver r1)
      | (r1, None) \<Rightarrow>
         (case report_progress ev r1 of
            (r2, None) \<Rightarrow> (r2, None)
          | (r2, Some e) \<Rightarrow> save_error ev e (abort_saver r2)))"

text \<open>\<open>finally: self.save_receiver = None\<close>, whatever the sends did.\<close>

definition forget_saver :: "cres \<Rightarrow> cres" where
  "forget_saver res = (case res of (r, x) \<Rightarrow> (r\<lparr>cr_saver := None\<rparr>, x))"

definition ack_save :: "client_env \<Rightarrow> save_receiver \<Rightarrow> string \<times> string option \<Rightarrow> client_runtime \<Rightarrow> cres" where
  "ack_save ev s pb r =
     to_host ev (mt_value MT_SAVE_ACK)
       [(''slot_id'', VStr (sr_slot s)), (''sha256'', VStr (sr_hash s)), (''total_bytes'', VInt (sr_total s)),
        (''path'', VStr (cv_path ev (fst pb))), (''backup_created'', VBool (snd pb \<noteq> None))] r"

definition net_save_end :: "client_env \<Rightarrow> pydict \<Rightarrow> client_runtime \<Rightarrow> cres" where
  "net_save_end ev payload r =
     forget_saver
       (case cr_saver r of
          None \<Rightarrow> save_error ev (ValueError ''save_transfer_not_started'') r
        | Some s \<Rightarrow>
           (case finalize (cv_sha256 ev) (py_str (py_or (pget payload ''session_id'') (VStr ''unknown'')))
                   (cv_stamp ev) s (cr_dir r) of
              (d, Inl e) \<Rightarrow> save_error ev e (r\<lparr>cr_dir := d\<rparr>)
            | (d, Inr pb) \<Rightarrow>
               (case ack_save ev s pb (r\<lparr>cr_dir := d\<rparr>) of
                  (r1, None) \<Rightarrow> (r1, None)
                | (r1, Some e) \<Rightarrow> save_error ev e r1)))"

section \<open>The host's game messages\<close>

text \<open>The sequence number of a payload: \<open>int(item.get('sequence', 0))\<close>.\<close>

definition seq_of :: "pydict \<Rightarrow> int" where
  "seq_of d = (case py_int (pget_default d ''sequence'' (VInt 0)) of Inl e \<Rightarrow> 0 | Inr i \<Rightarrow> i)"

definition apply_game_message :: "client_env \<Rightarrow> pydict \<Rightarrow> client_runtime \<Rightarrow> cres" where
  "apply_game_message ev payload r =
     (let bytes = (case b64decode (py_str (pget payload ''payload_b64'')) of None \<Rightarrow> [] | Some b \<Rightarrow> b);
          r1 = r\<lparr>cr_received := cr_received r + 1, cr_last_size := int (length bytes)\<rparr>
      in case map_of payload ''msg_id'' of
           None \<Rightarrow> (r1, Some (KeyError ''msg_id''))
         | Some v \<Rightarrow>
            (case py_int v of
               Inl e \<Rightarrow> (r1, Some e)
             | Inr i \<Rightarrow> (to_game ev (mt_value MT_GAME_RAW_MESSAGE) payload (r1\<lparr>cr_last_id := Some i\<rparr>), None)))"

fun apply_all :: "client_env \<Rightarrow> pydict list \<Rightarrow> client_runtime \<Rightarrow> cres" where
  "apply_all ev [] r = (r, None)"
| "apply_all ev (d # ds) r =
     (case apply_game_message ev d r of
        (r1, Some e) \<Rightarrow> (r1, Some e)
      | (r1, None) \<Rightarrow> apply_all ev ds r1)"

text \<open>\<open>_finish_local_travel\<close>, and the same lines of the resume branch.\<close>

definition flush_buffer :: "client_env \<Rightarrow> client_runtime \<Rightarrow> cres" where
  "flush_buffer ev r =
     (case apply_all ev (sort_key seq_of (cr_buffer r)) r of
        (r1, Some e) \<Rightarrow> (r1, Some e)
      | (r1, None) \<Rightarrow> (r1\<lparr>cr_buffer := [], cr_buffering := False\<rparr>, None))"

text \<open>The epoch a raw message carries must be that of the travel under way, when there was one.\<close>

definition epoch_error :: "pydict \<Rightarrow> int \<Rightarrow> py_error + string option" where
  "epoch_error payload travel_epoch =
     (let ep = pget payload ''epoch'' in
      if travel_epoch \<noteq> 0 \<and> ep = VNone then Inr (Some ''missing_travel_epoch'')
      else if ep \<noteq> VNone \<and> travel_epoch \<noteq> 0
      then (case py_int ep of
              Inl e \<Rightarrow> Inl e
            | Inr i \<Rightarrow> Inr (if i \<noteq> travel_epoch then Some ''stale_travel_epoch'' else None))
      else Inr None)"

definition accept_raw :: "client_env \<Rightarrow> pydict \<Rightarrow> client_runtime \<Rightarrow> cres" where
  "accept_raw ev payload r =
     (let r1 = r\<lparr>cr_last_seq := seq_of payload\<rparr> in
      if cr_buffering r1
      then if max_buffered \<le> length (cr_buffer r1) then (game_error ev ''view_update_buffer_full'' r1, None)
           else (r1\<lparr>cr_buffer := sort_key seq_of (cr_buffer r1 @ [payload])\<rparr>, None)
      else apply_game_message ev payload r1)"

definition net_raw_message :: "client_env \<Rightarrow> pydict \<Rightarrow> client_runtime \<Rightarrow> cres" where
  "net_raw_message ev payload r =
     (case py_int (pget_default payload ''sequence'' (VInt 0)) of
        Inl e \<Rightarrow> (r, Some e)
      | Inr seq \<Rightarrow>
          if seq \<le> cr_last_seq r then (r, None)
          else case raw_bytes payload of
            Inl e \<Rightarrow> (game_error ev (''raw_message_invalid:'' @ exc_text e) r, None)
          | Inr bytes \<Rightarrow>
            (case epoch_error payload (cr_epoch r) of
               Inl e \<Rightarrow> (r, Some e)
             | Inr (Some reason) \<Rightarrow> (game_error ev reason r, None)
             | Inr None \<Rightarrow> accept_raw ev payload r))"

definition forward :: "client_env \<Rightarrow> string \<Rightarrow> pydict \<Rightarrow> cres \<Rightarrow> cres" where
  "forward ev ty payload res =
     (case res of (r, Some e) \<Rightarrow> (r, Some e) | (r, None) \<Rightarrow> (to_game ev ty payload r, None))"

definition net_view_batch :: "client_env \<Rightarrow> pydict \<Rightarrow> client_runtime \<Rightarrow> cres" where
  "net_view_batch ev payload r =
     (case py_int (pget_default payload ''epoch'' (VInt (-1))) of
        Inl e \<Rightarrow> (r, Some e)
      | Inr epoch \<Rightarrow>
          if epoch \<noteq> cr_epoch r then (game_error ev ''stale_travel_epoch'' r, None)
          else (let kind = py_lower (py_str (pget_default payload ''kind'' (VStr []))) in
            forward ev (mt_value MT_TRAVEL_VIEW_BATCH) payload
              (if kind = ''begin''
               then (r\<lparr>cr_buffering := True, cr_batch_complete := False, cr_buffer := []\<rparr>, None)
               else if kind = ''end''
               then (let r1 = r\<lparr>cr_batch_complete := True\<rparr>
                     in if cr_zone_loaded r1 then flush_buffer ev r1 else (r1, None))
               else (r, None))))"

definition net_propose :: "client_env \<Rightarrow> pydict \<Rightarrow> client_runtime \<Rightarrow> cres" where
  "net_propose ev payload r =
     (case py_int (pget_default payload ''epoch'' (VInt 0)) of
        Inl e \<Rightarrow> (r, Some e)
      | Inr incoming \<Rightarrow>
          if incoming \<le> cr_epoch r then (r, None)
          else (to_game ev ''travel.prepare'' payload
                  (r\<lparr>cr_epoch := incoming, cr_zone_loaded := False, cr_batch_complete := False,
                     cr_buffering := True, cr_buffer := []\<rparr>), None))"

definition net_resume :: "client_env \<Rightarrow> pydict \<Rightarrow> client_runtime \<Rightarrow> cres" where
  "net_resume ev payload r =
     (case py_int (pget_default payload ''epoch'' (VInt (-1))) of
        Inl e \<Rightarrow> (r, Some e)
      | Inr epoch \<Rightarrow>
          forward ev (mt_value MT_TRAVEL_RESUME) payload
            (if epoch = cr_epoch r \<and> cr_batch_complete r then flush_buffer ev r else (r, None)))"

text \<open>\<open>mark_local_zone_loaded\<close>, with the value it returns.\<close>

definition mark_local_zone_loaded :: "client_env \<Rightarrow> int \<Rightarrow> client_runtime \<Rightarrow> cres \<times> bool" where
  "mark_local_zone_loaded ev epoch r =
     (if epoch \<noteq> cr_epoch r then ((r, None), False)
      else (let r1 = r\<lparr>cr_zone_loaded := True\<rparr>
            in if cr_batch_complete r1 then (flush_buffer ev r1, True) else ((r1, None), False)))"

section \<open>Build operations\<close>

text \<open>\<open>_flush_build\<close>: an operation leaves the queue before it is sent.\<close>

fun flush_ops :: "client_env \<Rightarrow> pydict list \<Rightarrow> client_runtime \<Rightarrow> cres" where
  "flush_ops ev [] r = (r\<lparr>cr_pending := []\<rparr>, None)"
| "flush_ops ev (d # ds) r =
     (case to_host ev (mt_value MT_BUILD_OPERATION) d (r\<lparr>cr_pending := ds\<rparr>) of
        (r1, Some e) \<Rightarrow> (r1, Some e)
      | (r1, None) \<Rightarrow> flush_ops ev ds r1)"

definition flush_build :: "client_env \<Rightarrow> client_runtime \<Rightarrow> cres" where
  "flush_build ev r = (if cr_owns r then flush_ops ev (cr_pending r) r else (r, None))"

definition net_lock_state :: "client_env \<Rightarrow> pydict \<Rightarrow> client_runtime \<Rightarrow> cres" where
  "net_lock_state ev payload r =
     (let owns = py_eq (pget payload ''owner_id'') (VStr (cl_id (cr_client r)));
          r1 = to_game ev (mt_value MT_BUILD_LOCK_STATE) payload (r\<lparr>cr_owns := owns\<rparr>)
      in if owns then flush_build ev r1 else (r1, None))"

section \<open>Messages from the host\<close>

definition client_message :: "client_env \<Rightarrow> envelope \<Rightarrow> client_runtime \<Rightarrow> cres" where
  "client_message ev e r =
     (case mt_of (e_type e) of
        Some MT_SAVE_MANIFEST \<Rightarrow> net_save_manifest ev (e_payload e) r
      | Some MT_SAVE_CHUNK \<Rightarrow> net_save_chunk ev (e_payload e) r
      | Some MT_SAVE_END \<Rightarrow> net_save_end ev (e_payload e) r
      | Some MT_GAME_RAW_MESSAGE \<Rightarrow> net_raw_message ev (e_payload e) r
      | Some MT_TRAVEL_VIEW_BATCH \<Rightarrow> net_view_batch ev (e_payload e) r
      | Some MT_TRAVEL_PROPOSE \<Rightarrow> net_propose ev (e_payload e) r
      | Some MT_TRAVEL_RESUME \<Rightarrow> net_resume ev (e_payload e) r
      | Some MT_BUILD_LOCK_STATE \<Rightarrow> net_lock_state ev (e_payload e) r
      | Some MT_ERROR \<Rightarrow> (to_game ev ''sidecar.error'' (e_payload e) r, None)
      | Some t \<Rightarrow>
          (if t \<in> {MT_TRAVEL_COMMIT, MT_TRAVEL_ABORT, MT_BUILD_APPLY, MT_CLOCK_STATE, MT_SIM_STATE,
                   MT_SIM_SELECTION_STATE, MT_INTERACTION_ACCEPTED, MT_INTERACTION_REJECTED,
                   MT_INTERACTION_COMMAND_ACCEPTED, MT_INTERACTION_COMMAND_REJECTED, MT_INTERACTION_QUEUED,
                   MT_INTERACTION_STARTED, MT_INTERACTION_FINISHED, MT_INTERACTION_CANCEL}
           then to_game ev (e_type e) (e_payload e) r else r, None)
      | None \<Rightarrow> (r, None))"

section \<open>Events of the guest's game\<close>

definition client_hello :: "client_env \<Rightarrow> client_runtime \<Rightarrow> cres" where
  "client_hello ev r =
     to_host ev (mt_value MT_READINESS)
       [(''bridge_connected'', VBool True), (''simulation_authority_ready'', VBool False)]
       (to_game ev ''sidecar.welcome''
         [(''role'', VStr ''client''), (''player_id'', VStr (cl_id (cr_client r))), (''protocol_version'', VInt 1)] r)"

definition client_authority :: "client_env \<Rightarrow> pydict \<Rightarrow> client_runtime \<Rightarrow> cres" where
  "client_authority ev payload r =
     to_host ev (mt_value MT_READINESS)
       [(''bridge_connected'', VBool True),
        (''simulation_authority_ready'',
          VBool (py_eq (pget payload ''role'') (VStr ''client'') \<and> truthy (pget payload ''installed'')))] r"

definition client_sims :: "client_env \<Rightarrow> pydict \<Rightarrow> client_runtime \<Rightarrow> cres" where
  "client_sims ev payload r =
     (case py_iter (py_or (pget payload ''sims'') (VList [])) of
        Inl e \<Rightarrow> (r, Some e)
      | Inr sims \<Rightarrow>
         (case to_host ev (mt_value MT_SIM_STATE) [(''sims'', VList sims)] r of
            (r1, Some e) \<Rightarrow> (r1, Some e)
          | (r1, None) \<Rightarrow>
              if blank_id (pget payload ''active_sim_id'') then (r1, None)
              else to_host ev (mt_value MT_SIM_SELECT)
                [(''sim_id'', VStr (py_str (pget payload ''active_sim_id''))), (''local'', VBool True)] r1))"

definition client_build_operation :: "client_env \<Rightarrow> pydict \<Rightarrow> client_runtime \<Rightarrow> cres" where
  "client_build_operation ev payload r =
     (let r1 = r\<lparr>cr_pending := cr_pending r @ [payload]\<rparr>
      in if cr_owns r1 then flush_build ev r1 else to_host ev (mt_value MT_BUILD_LOCK_REQUEST) [] r1)"

definition client_event :: "client_env \<Rightarrow> string \<Rightarrow> pydict \<Rightarrow> client_runtime \<Rightarrow> cres" where
  "client_event ev ty payload r =
     (if ty = ''game.hello'' then client_hello ev r
      else if ty = ''simulation.authority'' then client_authority ev payload r
      else if ty = ''sims.state'' then client_sims ev payload r
      else case mt_of ty of
        Some MT_SIM_STATE \<Rightarrow> client_sims ev payload r
      | Some MT_BUILD_OPERATION \<Rightarrow> client_build_operation ev payload r
      | Some MT_BUILD_LOCK_REQUEST \<Rightarrow> to_host ev ty [] r
      | Some MT_BUILD_LOCK_RELEASE \<Rightarrow> to_host ev ty [] (r\<lparr>cr_owns := False\<rparr>)
      | Some t \<Rightarrow>
          if t \<in> {MT_CLOCK_REQUEST_SPEED, MT_CLOCK_REQUEST_PAUSE, MT_TRAVEL_REQUEST, MT_SIM_SELECT,
                  MT_INTERACTION_REQUEST, MT_INTERACTION_COMMAND, MT_INTERACTION_CANCEL, MT_TRAVEL_READY,
                  MT_TRAVEL_ZONE_READY}
          then to_host ev ty payload r else (r, None)
      | None \<Rightarrow> (r, None))"

section \<open>Ordering of the game messages\<close>

definition raw_seqs :: "(string \<times> pydict) list \<Rightarrow> int list" where
  "raw_seqs out = map (\<lambda>td. seq_of (snd td)) (filter (\<lambda>td. fst td = mt_value MT_GAME_RAW_MESSAGE) out)"

definition has_id :: "pydict \<Rightarrow> bool" where
  "has_id d \<longleftrightarrow> (case map_of d ''msg_id'' of None \<Rightarrow> False | Some v \<Rightarrow> (case py_int v of Inl e \<Rightarrow> False | Inr i \<Rightarrow> True))"

text \<open>
  What reached the game, then what is held back, has strictly growing numbers up to the
  last one taken; nothing is held back outside a travel; the buffer is bounded.
\<close>

definition client_ok :: "client_runtime \<Rightarrow> bool" where
  "client_ok r \<longleftrightarrow> sorted_wrt (<) (raw_seqs (cr_game r) @ map seq_of (cr_buffer r)) \<and>
     (\<forall>q \<in> set (raw_seqs (cr_game r) @ map seq_of (cr_buffer r)). q \<le> cr_last_seq r) \<and>
     list_all has_id (cr_buffer r) \<and> length (cr_buffer r) \<le> max_buffered \<and>
     (cr_buffer r \<noteq> [] \<longrightarrow> cr_buffering r)"

lemma raw_seqs_simps [simp]:
  "raw_seqs [] = []" "raw_seqs (a @ b) = raw_seqs a @ raw_seqs b"
  "raw_seqs [(t, d)] = (if t = mt_value MT_GAME_RAW_MESSAGE then [seq_of d] else [])"
  "raw_seqs (map (Pair (mt_value MT_GAME_RAW_MESSAGE)) ds) = map seq_of ds"
  by (simp_all add: raw_seqs_def filter_map comp_def)

text \<open>The fields the invariant speaks of.\<close>

definition same_view :: "client_runtime \<Rightarrow> client_runtime \<Rightarrow> bool" where
  "same_view r r' \<longleftrightarrow> raw_seqs (cr_game r') = raw_seqs (cr_game r) \<and> cr_buffer r' = cr_buffer r \<and>
     cr_last_seq r' = cr_last_seq r \<and> cr_buffering r' = cr_buffering r \<and> cr_epoch r' = cr_epoch r"

lemma same_view_refl [simp]: "same_view r r"
  by (simp add: same_view_def)

lemma same_view_trans: "same_view r r' \<Longrightarrow> same_view r' r'' \<Longrightarrow> same_view r r''"
  by (simp add: same_view_def)

lemma same_view_ok: "same_view r r' \<Longrightarrow> client_ok r \<Longrightarrow> client_ok r'"
  by (simp add: same_view_def client_ok_def)

lemma to_host_view [simp]: "same_view r (fst (to_host ev ty d r))"
  by (simp add: to_host_def same_view_def split: prod.split)

lemma to_game_view [simp]: "ty \<noteq> mt_value MT_GAME_RAW_MESSAGE \<Longrightarrow> same_view r (to_game ev ty d r)"
  by (simp add: to_game_def same_view_def)

lemma sidecar_not_raw [simp]:
  "''sidecar.error'' \<noteq> mt_value MT_GAME_RAW_MESSAGE" "''sidecar.welcome'' \<noteq> mt_value MT_GAME_RAW_MESSAGE"
  "''travel.prepare'' \<noteq> mt_value MT_GAME_RAW_MESSAGE"
  by (simp_all add: mt_value.simps)

lemma game_error_view [simp]: "same_view r (game_error ev reason r)"
  by (simp add: game_error_def)

lemma saver_view [simp]:
  "same_view r (r\<lparr>cr_dir := d\<rparr>)" "same_view r (r\<lparr>cr_dir := d, cr_saver := s\<rparr>)" "same_view r (r\<lparr>cr_saver := s\<rparr>)"
  "same_view r (r\<lparr>cr_saver := s, cr_dir := d\<rparr>)" "same_view r (r\<lparr>cr_pending := p\<rparr>)" "same_view r (r\<lparr>cr_owns := b\<rparr>)"
  "same_view r (abort_saver r)"
  by (simp_all add: same_view_def abort_saver_def split: option.split)

lemma save_error_view: "same_view r r1 \<Longrightarrow> same_view r (fst (save_error ev e r1))"
  unfolding save_error_def by (erule same_view_trans) simp

lemma store_chunk_view: "same_view r (fst (store_chunk payload r))"
  by (simp add: store_chunk_def split: option.split sum.split prod.split)

lemma report_view: "same_view r (fst (report_progress ev r))"
  by (simp add: report_progress_def split: option.split)

lemma save_handlers_view:
  "same_view r (fst (net_save_manifest ev payload r))" "same_view r (fst (net_save_chunk ev payload r))"
  "same_view r (fst (net_save_end ev payload r))"
proof -
  show "same_view r (fst (net_save_manifest ev payload r))"
    by (auto simp: net_save_manifest_def save_error_view same_view_trans [OF _ to_host_view]
        split: prod.split sum.split)
  obtain r1 x where s: "store_chunk payload r = (r1, x)" by (cases "store_chunk payload r")
  obtain r2 y where p: "report_progress ev r1 = (r2, y)" by (cases "report_progress ev r1")
  have r1: "same_view r r1" using store_chunk_view [of r payload] s by simp
  have r2: "same_view r r2" using same_view_trans [OF r1] report_view [of r1 ev] p by simp
  have "same_view r (abort_saver r1)" "same_view r (abort_saver r2)"
    using same_view_trans r1 r2 saver_view(7) by blast+
  then show "same_view r (fst (net_save_chunk ev payload r))"
    using r2 by (simp add: net_save_chunk_def s p save_error_view split: option.split)
  have f: "same_view r (fst res) \<Longrightarrow> same_view r (fst (forget_saver res))" for res
    using same_view_trans [OF _ saver_view(3)] by (cases res) (simp add: forget_saver_def)
  have a: "same_view r (fst (ack_save ev s pb (r\<lparr>cr_dir := d\<rparr>)))" for s pb d
    unfolding ack_save_def using same_view_trans [OF saver_view(1) to_host_view] .
  have "same_view r (fst (case ack_save ev s pb (r\<lparr>cr_dir := d\<rparr>) of
      (r1, None) \<Rightarrow> (r1, None) | (r1, Some e) \<Rightarrow> save_error ev e r1))" for s pb d
    using a [of s pb d] by (cases "ack_save ev s pb (r\<lparr>cr_dir := d\<rparr>)") (auto simp: save_error_view split: option.split)
  then show "same_view r (fst (net_save_end ev payload r))"
    unfolding net_save_end_def
    by (intro f) (simp add: save_error_view split: option.split prod.split sum.split)
qed

lemma flush_ops_view: "same_view r (fst (flush_ops ev ds r))"
proof (induction ds arbitrary: r)
  case (Cons d ds)
  obtain r1 x where t: "to_host ev (mt_value MT_BUILD_OPERATION) d (r\<lparr>cr_pending := ds\<rparr>) = (r1, x)"
    by (cases "to_host ev (mt_value MT_BUILD_OPERATION) d (r\<lparr>cr_pending := ds\<rparr>)")
  have "same_view r r1"
    using same_view_trans [OF saver_view(5) [of r ds] to_host_view [of _ ev "mt_value MT_BUILD_OPERATION" d]] t
    by simp
  then show ?case using same_view_trans [OF _ Cons.IH] t by (simp split: option.split)
qed simp

lemma flush_build_view [simp]: "same_view r (fst (flush_build ev r))"
  by (simp add: flush_build_def flush_ops_view)

lemma net_lock_state_view: "same_view r (fst (net_lock_state ev payload r))"
proof -
  have "same_view r (to_game ev (mt_value MT_BUILD_LOCK_STATE) payload (r\<lparr>cr_owns := b\<rparr>))" for b
    by (rule same_view_trans [OF saver_view(6) to_game_view]) simp
  then show ?thesis
    using same_view_trans [OF _ flush_build_view] by (simp add: net_lock_state_def Let_def)
qed

lemma client_event_view: "same_view r (fst (client_event ev ty payload r))"
proof -
  have h: "same_view r (fst (client_hello ev r))"
    unfolding client_hello_def by (rule same_view_trans [OF to_game_view to_host_view]) simp
  have s: "same_view r (fst (client_sims ev payload r))"
  proof (cases "py_iter (py_or (pget payload ''sims'') (VList []))")
    case (Inr sims)
    obtain r1 x where t: "to_host ev (mt_value MT_SIM_STATE) [(''sims'', VList sims)] r = (r1, x)"
      by (cases "to_host ev (mt_value MT_SIM_STATE) [(''sims'', VList sims)] r")
    have "same_view r r1" using to_host_view [of r ev "mt_value MT_SIM_STATE" "[(''sims'', VList sims)]"] t by simp
    then show ?thesis
      using same_view_trans [OF _ to_host_view] by (simp add: client_sims_def Inr t split: option.split)
  qed (simp add: client_sims_def)
  have b: "same_view r (fst (client_build_operation ev payload r))"
    unfolding client_build_operation_def Let_def
    using same_view_trans [OF saver_view(5) flush_build_view] same_view_trans [OF saver_view(5) to_host_view]
    by simp
  have o1: "same_view r (fst (to_host ev ty [] (r\<lparr>cr_owns := False\<rparr>)))"
    by (rule same_view_trans [OF saver_view(6) to_host_view])
  show ?thesis
    by (simp add: client_event_def h s b o1 client_authority_def split: option.split message_type.split)
qed

lemma apply_one:
  assumes "has_id d"
  obtains r' where "apply_game_message ev d r = (r', None)"
    "raw_seqs (cr_game r') = raw_seqs (cr_game r) @ (if cv_game ev then [seq_of d] else [])"
    "cr_buffer r' = cr_buffer r" "cr_last_seq r' = cr_last_seq r" "cr_buffering r' = cr_buffering r"
    "cr_epoch r' = cr_epoch r"
  using assms that by (auto simp: apply_game_message_def has_id_def to_game_def Let_def
      split: option.splits sum.splits)

lemma apply_all_ok:
  assumes "list_all has_id ds"
  obtains r' where "apply_all ev ds r = (r', None)"
    "raw_seqs (cr_game r') = raw_seqs (cr_game r) @ (if cv_game ev then map seq_of ds else [])"
    "cr_buffer r' = cr_buffer r" "cr_last_seq r' = cr_last_seq r" "cr_buffering r' = cr_buffering r"
    "cr_epoch r' = cr_epoch r"
  using assms
proof (induction ds arbitrary: r thesis)
  case (Cons d ds)
  obtain r1 where r1: "apply_game_message ev d r = (r1, None)"
    "raw_seqs (cr_game r1) = raw_seqs (cr_game r) @ (if cv_game ev then [seq_of d] else [])"
    "cr_buffer r1 = cr_buffer r" "cr_last_seq r1 = cr_last_seq r" "cr_buffering r1 = cr_buffering r"
    "cr_epoch r1 = cr_epoch r"
    using apply_one [of d ev r] Cons.prems(2) by auto
  obtain r2 where r2: "apply_all ev ds r1 = (r2, None)"
    "raw_seqs (cr_game r2) = raw_seqs (cr_game r1) @ (if cv_game ev then map seq_of ds else [])"
    "cr_buffer r2 = cr_buffer r1" "cr_last_seq r2 = cr_last_seq r1" "cr_buffering r2 = cr_buffering r1"
    "cr_epoch r2 = cr_epoch r1"
    using Cons.IH [of r1] Cons.prems(2) by auto
  show ?case by (rule Cons.prems(1) [of r2]) (use r1 r2 in auto)
qed auto

lemma buffer_sorted: "client_ok r \<Longrightarrow> sort_key seq_of (cr_buffer r) = cr_buffer r"
proof -
  assume "client_ok r"
  then have "sorted_wrt (<) (map seq_of (cr_buffer r))" by (simp add: client_ok_def sorted_wrt_append)
  then show ?thesis by (simp add: sort_key_id_if_sorted strict_sorted_imp_sorted)
qed

lemma flush_buffer_ok:
  assumes "client_ok r"
  obtains r' where "flush_buffer ev r = (r', None)" "client_ok r'" "cr_buffer r' = []" "\<not> cr_buffering r'"
    "raw_seqs (cr_game r') = raw_seqs (cr_game r) @ (if cv_game ev then map seq_of (cr_buffer r) else [])"
    "cr_epoch r' = cr_epoch r" "cr_last_seq r' = cr_last_seq r"
proof -
  have "list_all has_id (cr_buffer r)" using assms by (simp add: client_ok_def)
  then obtain r1 where r1: "apply_all ev (cr_buffer r) r = (r1, None)"
    "raw_seqs (cr_game r1) = raw_seqs (cr_game r) @ (if cv_game ev then map seq_of (cr_buffer r) else [])"
    "cr_last_seq r1 = cr_last_seq r" "cr_epoch r1 = cr_epoch r"
    using apply_all_ok [of "cr_buffer r" ev r] by auto
  have "client_ok (r1\<lparr>cr_buffer := [], cr_buffering := False\<rparr>)"
    using assms r1 by (auto simp: client_ok_def sorted_wrt_append)
  then show thesis
    using r1 by (intro that [of "r1\<lparr>cr_buffer := [], cr_buffering := False\<rparr>"])
      (simp_all add: flush_buffer_def buffer_sorted [OF assms])
qed

lemma forward_ok:
  assumes "client_ok (fst res)" "ty \<noteq> mt_value MT_GAME_RAW_MESSAGE"
  shows "client_ok (fst (forward ev ty d res))"
  using assms same_view_ok [OF to_game_view]
  by (cases res) (auto simp: forward_def split: option.split)

lemma batch_reset_ok:
  "client_ok r \<Longrightarrow> client_ok (r\<lparr>cr_buffering := True, cr_batch_complete := False, cr_buffer := []\<rparr>)"
  "client_ok r \<Longrightarrow> client_ok (r\<lparr>cr_epoch := ep, cr_zone_loaded := False, cr_batch_complete := False,
     cr_buffering := True, cr_buffer := []\<rparr>)"
  "client_ok (r\<lparr>cr_batch_complete := b\<rparr>) \<longleftrightarrow> client_ok r" "client_ok (r\<lparr>cr_zone_loaded := b\<rparr>) \<longleftrightarrow> client_ok r"
  by (simp_all add: client_ok_def sorted_wrt_append)

lemma flush_fst_ok: "client_ok r \<Longrightarrow> client_ok (fst (flush_buffer ev r))"
  using flush_buffer_ok [of r ev] by (metis fst_conv)

lemma net_view_batch_ok: "client_ok r \<Longrightarrow> client_ok (fst (net_view_batch ev payload r))"
  by (auto simp: net_view_batch_def Let_def batch_reset_ok flush_fst_ok
      intro!: forward_ok same_view_ok [OF game_error_view] split: sum.split)

lemma net_propose_ok: "client_ok r \<Longrightarrow> client_ok (fst (net_propose ev payload r))"
  by (auto simp: net_propose_def batch_reset_ok intro!: same_view_ok [OF to_game_view] split: sum.split)

lemma net_resume_ok: "client_ok r \<Longrightarrow> client_ok (fst (net_resume ev payload r))"
  by (auto simp: net_resume_def flush_fst_ok intro!: forward_ok split: sum.split)

lemma accept_raw_ok:
  assumes r: "client_ok r" and d: "has_id d" "cr_last_seq r < seq_of d"
  shows "client_ok (fst (accept_raw ev d r))"
proof -
  let ?r = "r\<lparr>cr_last_seq := seq_of d\<rparr>"
  have below: "\<forall>q \<in> set (raw_seqs (cr_game r) @ map seq_of (cr_buffer r)). q < seq_of d"
    using r d(2) unfolding client_ok_def by (meson le_less_trans)
  then have "\<forall>q \<in> set (raw_seqs (cr_game r) @ map seq_of (cr_buffer r)). q \<le> seq_of d"
    using less_imp_le by blast
  then have r1: "client_ok ?r" using r unfolding client_ok_def by simp
  show ?thesis
  proof (cases "cr_buffering r")
    case True
    show ?thesis
    proof (cases "max_buffered \<le> length (cr_buffer r)")
      case True
      then show ?thesis using \<open>cr_buffering r\<close> same_view_ok [OF game_error_view r1]
        by (simp add: accept_raw_def Let_def)
    next
      case False
      have "sorted_wrt (<) (map seq_of (cr_buffer r @ [d]))"
        using r below by (auto simp: client_ok_def sorted_wrt_append)
      then have "sort_key seq_of (cr_buffer r @ [d]) = cr_buffer r @ [d]"
        by (simp add: sort_key_id_if_sorted strict_sorted_imp_sorted del: map_append)
      then have acc: "fst (accept_raw ev d r) = ?r\<lparr>cr_buffer := cr_buffer r @ [d]\<rparr>"
        using True False by (simp add: accept_raw_def Let_def)
      have "sorted_wrt (<) ((raw_seqs (cr_game r) @ map seq_of (cr_buffer r)) @ [seq_of d])"
        using r below unfolding client_ok_def by (subst sorted_wrt_append) simp
      then show ?thesis
        using True False r1 d(1) unfolding acc by (simp add: client_ok_def)
    qed
  next
    case False
    then have empty: "cr_buffer r = []" using r by (auto simp: client_ok_def)
    obtain r' where r': "apply_game_message ev d ?r = (r', None)"
      "raw_seqs (cr_game r') = raw_seqs (cr_game r) @ (if cv_game ev then [seq_of d] else [])"
      "cr_buffer r' = cr_buffer r" "cr_last_seq r' = seq_of d" "cr_buffering r' = cr_buffering r"
      using apply_one [OF d(1), of ev ?r] by auto
    then show ?thesis
      using False empty r1 below by (simp add: accept_raw_def Let_def client_ok_def sorted_wrt_append)
  qed
qed

lemma net_raw_message_ok:
  assumes "client_ok r" "has_id d"
  shows "client_ok (fst (net_raw_message ev d r))"
proof (cases "py_int (pget_default d ''sequence'' (VInt 0))")
  case (Inr q)
  then have "seq_of d = q" by (simp add: seq_of_def)
  then show ?thesis
    using assms Inr accept_raw_ok [OF assms] same_view_ok [OF game_error_view assms(1)]
    by (simp add: net_raw_message_def split: sum.split option.split)
qed (use assms in \<open>simp add: net_raw_message_def\<close>)

lemma client_message_ok:
  assumes "client_ok r" "e_type e = mt_value MT_GAME_RAW_MESSAGE \<longrightarrow> has_id (e_payload e)"
  shows "client_ok (fst (client_message ev e r))"
proof -
  note v = save_handlers_view [THEN same_view_ok, OF assms(1)]
    net_lock_state_view [THEN same_view_ok, OF assms(1)]
  have g: "client_ok (to_game ev ty d r)" if "ty \<noteq> mt_value MT_GAME_RAW_MESSAGE" for ty d
    by (rule same_view_ok [OF to_game_view [OF that] assms(1)])
  have ty: "mt_of (e_type e) = Some t \<Longrightarrow> e_type e = mt_value t" for t by (simp add: mt_of_iff)
  show ?thesis
  proof (cases "mt_of (e_type e)")
    case (Some t)
    have t: "e_type e = mt_value t" by (rule ty [OF Some])
    show ?thesis
      using assms(2) unfolding t
      by (simp add: client_message_def v g assms(1) net_raw_message_ok net_view_batch_ok net_propose_ok
          net_resume_ok t split: message_type.split)
  qed (simp add: client_message_def assms(1))
qed

section \<open>Runs of the client\<close>

datatype client_input =
    FromHost client_env envelope
  | FromGame client_env string pydict
  | LocalZoneLoaded client_env int

fun client_step :: "client_input \<Rightarrow> client_runtime \<Rightarrow> client_runtime" where
  "client_step (FromHost ev e) r = fst (client_message ev e r)"
| "client_step (FromGame ev ty payload) r = fst (client_event ev ty payload r)"
| "client_step (LocalZoneLoaded ev epoch) r = fst (fst (mark_local_zone_loaded ev epoch r))"

definition client_run :: "client_input list \<Rightarrow> client_runtime \<Rightarrow> client_runtime" where
  "client_run is r = fold client_step is r"

text \<open>Raw messages of the host carry a message id (its sender always writes one).\<close>

definition raw_has_id :: "client_input \<Rightarrow> bool" where
  "raw_has_id i \<longleftrightarrow> (case i of
     FromHost ev e \<Rightarrow> e_type e = mt_value MT_GAME_RAW_MESSAGE \<longrightarrow> has_id (e_payload e) | _ \<Rightarrow> True)"

lemma client_step_ok: "client_ok r \<Longrightarrow> raw_has_id i \<Longrightarrow> client_ok (client_step i r)"
proof (cases i)
  case (FromHost ev e)
  assume "client_ok r" "raw_has_id i"
  then show ?thesis using FromHost client_message_ok by (simp add: raw_has_id_def)
next
  case (FromGame ev ty payload)
  assume "client_ok r"
  then show ?thesis using FromGame same_view_ok [OF client_event_view] by simp
next
  case (LocalZoneLoaded ev epoch)
  assume "client_ok r"
  then show ?thesis
    using LocalZoneLoaded by (simp add: mark_local_zone_loaded_def Let_def batch_reset_ok flush_fst_ok)
qed

lemma client_run_ok: "client_ok r \<Longrightarrow> list_all raw_has_id is \<Longrightarrow> client_ok (client_run is r)"
  unfolding client_run_def by (induction "is" arbitrary: r) (simp_all add: client_step_ok)

lemma client_ok_new [simp]: "client_ok (new_client_runtime c d)"
  by (simp add: client_ok_def new_client_runtime_def)

section \<open>Epochs and the end of a travel\<close>

lemma flush_epoch: "client_ok r \<Longrightarrow> cr_epoch (fst (flush_buffer ev r)) = cr_epoch r"
  using flush_buffer_ok [of r ev] by (metis fst_conv)

text \<open>A resume of the current travel whose batch is complete releases everything that was held back.\<close>

lemma resume_releases:
  assumes "client_ok r" "cr_batch_complete r" "cv_game ev"
    and "py_int (pget_default (e_payload e) ''epoch'' (VInt (-1))) = Inr (cr_epoch r)"
    and "e_type e = mt_value MT_TRAVEL_RESUME"
  shows "raw_seqs (cr_game (fst (client_message ev e r))) = raw_seqs (cr_game r) @ map seq_of (cr_buffer r)"
    "cr_buffer (fst (client_message ev e r)) = []" "\<not> cr_buffering (fst (client_message ev e r))"
proof -
  obtain r' where r': "flush_buffer ev r = (r', None)" "cr_buffer r' = []" "\<not> cr_buffering r'"
    "raw_seqs (cr_game r') = raw_seqs (cr_game r) @ map seq_of (cr_buffer r)"
    using flush_buffer_ok [OF assms(1), of ev] assms(3) by auto
  have m: "client_message ev e r = (to_game ev (mt_value MT_TRAVEL_RESUME) (e_payload e) r', None)"
    using assms r' by (simp add: client_message_def net_resume_def forward_def)
  have "same_view r' (to_game ev (mt_value MT_TRAVEL_RESUME) (e_payload e) r')" by simp
  then show "raw_seqs (cr_game (fst (client_message ev e r))) = raw_seqs (cr_game r) @ map seq_of (cr_buffer r)"
    "cr_buffer (fst (client_message ev e r)) = []" "\<not> cr_buffering (fst (client_message ev e r))"
    using r' by (simp_all add: m same_view_def)
qed

text \<open>An aborted travel changes nothing but the game's log: the client goes on holding messages back.\<close>

lemma abort_keeps_view:
  assumes "e_type e = mt_value MT_TRAVEL_ABORT"
  shows "same_view r (fst (client_message ev e r))"
  using assms by (simp add: client_message_def)

lemma buffered_not_applied:
  assumes "cr_buffering r" "e_type e = mt_value MT_GAME_RAW_MESSAGE"
  shows "raw_seqs (cr_game (fst (client_message ev e r))) = raw_seqs (cr_game r)"
    "cr_buffering (fst (client_message ev e r))"
  using assms
  by (auto simp: client_message_def net_raw_message_def accept_raw_def game_error_def to_game_def Let_def
      split: sum.split option.split)

section \<open>Build operations\<close>

lemma flush_ops_sent:
  assumes "cv_up ev" "cl_open (cr_client r)"
  shows "flush_ops ev ds r =
    (r\<lparr>cr_pending := [], cr_client := (cr_client r)\<lparr>cl_sent := cl_sent (cr_client r) @
       map (\<lambda>d. \<lparr>ms_type = mt_value MT_BUILD_OPERATION, ms_payload = d, ms_seq = None\<rparr>) ds\<rparr>\<rparr>, None)"
  using assms(2)
proof (induction ds arbitrary: r)
  case (Cons d ds)
  show ?case using Cons.prems by (simp add: to_host_def client_send_def assms(1) Cons.IH)
qed simp

section \<open>A save from the host to the guest's directory\<close>

definition host_message :: "string \<Rightarrow> string \<times> pydict \<Rightarrow> envelope" where
  "host_message hid m = make_envelope (fst m) (snd m) hid None [] VNone"

lemma host_message_simps [simp]:
  "e_type (host_message hid m) = fst m" "e_payload (host_message hid m) = snd m"
  by (simp_all add: host_message_def make_envelope_def)

lemma client_listen_append:
  "client_listen f (xs @ ys) s =
     (case client_listen f xs s of (s1, Some e) \<Rightarrow> (s1, Some e) | (s1, None) \<Rightarrow> client_listen f ys s1)"
  by (induction xs arbitrary: s) (auto split: sum.splits prod.splits option.splits)

text \<open>The lines of the host's messages, read one by one.\<close>

abbreviation host_lines :: "string \<Rightarrow> (string \<times> pydict) list \<Rightarrow> (py_error + envelope) list" where
  "host_lines hid ms \<equiv> map (\<lambda>m. Inr (host_message hid m)) ms"

lemma chunk_bytes_payload [simp]: "chunk_bytes (chunk_payload sid (i, c)) = Inr (int i, c)"
  by (simp add: chunk_bytes_def chunk_payload_def pget_default_def)

lemma one_chunk:
  assumes "cv_up ev" "cl_open (cr_client r)" "cr_saver r = Some s"
    and "write_chunk (int i) c (s, cr_dir r) = ((s1, d1), None)"
  obtains c' where "client_message ev (host_message hid (mt_value MT_SAVE_CHUNK, chunk_payload sid (i, c))) r =
      (r\<lparr>cr_saver := Some s1, cr_dir := d1, cr_client := c'\<rparr>, None)" "cl_open c'"
  using assms that by (simp add: client_message_def net_save_chunk_def store_chunk_def report_progress_def
      to_host_def client_send_def)

lemma all_chunks:
  assumes "cv_up ev" "cl_open (cr_client r)" "cr_saver r = Some s"
    and "write_chunks (int i) cs (s, cr_dir r) = ((s1, d1), None)"
  shows "\<exists>c'. client_listen (client_message ev) (host_lines hid (map (\<lambda>ic. (mt_value MT_SAVE_CHUNK, chunk_payload sid ic))
      (zip [i..<i + length cs] cs))) r = (r\<lparr>cr_saver := Some s1, cr_dir := d1, cr_client := c'\<rparr>, None) \<and> cl_open c'"
  using assms(2-)
proof (induction cs arbitrary: i r s)
  case Nil
  then show ?case by (intro exI [of _ "cr_client r"]) auto
next
  case (Cons c cs)
  obtain s0 d0 where w: "write_chunk (int i) c (s, cr_dir r) = ((s0, d0), None)"
    "write_chunks (int (Suc i)) cs (s0, d0) = ((s1, d1), None)"
    using Cons.prems(3)
    by (cases "write_chunk (int i) c (s, cr_dir r)") (auto simp: add.commute split: option.splits)
  obtain c0 where c0: "client_message ev (host_message hid (mt_value MT_SAVE_CHUNK, chunk_payload sid (i, c))) r =
      (r\<lparr>cr_saver := Some s0, cr_dir := d0, cr_client := c0\<rparr>, None)" "cl_open c0"
    by (rule one_chunk [OF assms(1) Cons.prems(1,2) w(1)])
  let ?r = "r\<lparr>cr_saver := Some s0, cr_dir := d0, cr_client := c0\<rparr>"
  have "\<exists>c'. client_listen (client_message ev) (host_lines hid (map (\<lambda>ic. (mt_value MT_SAVE_CHUNK, chunk_payload sid ic))
      (zip [Suc i..<Suc i + length cs] cs))) ?r = (?r\<lparr>cr_saver := Some s1, cr_dir := d1, cr_client := c'\<rparr>, None) \<and> cl_open c'"
    by (rule Cons.IH) (use w(2) c0(2) in simp_all)
  moreover have "[i..<i + length (c # cs)] = i # [Suc i..<Suc i + length cs]"
    by (simp add: upt_conv_Cons del: upt_Suc)
  ultimately show ?case using c0(1) by (simp del: upt_Suc)
qed

lemma length_file_chunks [simp]: "length (file_chunks sz n bytes) = n"
  by (induction n arbitrary: bytes) simp_all

lemma transfer_parts:
  assumes "transfer sha256 sid stamp m chunks d = (d', Inr pb)"
  obtains s d0 s1 d1 where "new_receiver m d = (d0, Inr s)"
    "write_chunks 0 chunks (s, d0) = ((s1, d1), None)" "finalize sha256 sid stamp s1 d1 = (d', Inr pb)"
  using assms that
  by (cases "new_receiver m d"; cases "snd (new_receiver m d)";
      cases "write_chunks 0 chunks (projr (snd (new_receiver m d)), fst (new_receiver m d))")
    (auto simp: transfer_def split: option.splits prod.splits)

text \<open>The messages of a save and what a receiver makes of them one by one.\<close>

lemma save_stream:
  fixes d :: "byte save_dir"
  assumes slot: "slot_of_file sha256 name bytes mtime = Inr s" and ms: "save_messages sid s bytes cs = Inr ms"
    and hash: "length (sha256 bytes) = 64" and ne: "bytes \<noteq> []"
  obtains m chunks r0 d0 r1 d1 d' b where
    "ms = (mt_value MT_SAVE_MANIFEST, m) #
      (mt_value MT_SAVE_BEGIN, [(''session_id'', VStr sid), (''slot_id'', VStr (ss_id s))]) #
      map (\<lambda>ic. (mt_value MT_SAVE_CHUNK, chunk_payload sid ic)) (zip [0..<0 + length chunks] chunks) @
      [(mt_value MT_SAVE_END, [(''session_id'', VStr sid), (''sha256'', VStr (ss_sha256 s))])]"
    "new_receiver m d = (d0, Inr r0)" "write_chunks 0 chunks (r0, d0) = ((r1, d1), None)"
    "finalize sha256 sid stamp r1 d1 = (d', Inr (ss_id s @ ''.save'', b))"
    "map_of (sd_files d') (ss_id s @ ''.save'') = Some bytes"
    "sr_hash r1 = sha256 bytes" "sr_total r1 = int (length bytes)"
proof -
  obtain m where man: "save_manifest s sid cs = Inr m"
    using ms by (auto simp: save_messages_def split: sum.splits)
  let ?n = "chunk_count_of (nat cs) (length bytes)"
  let ?chunks = "file_chunks (nat cs) ?n bytes"
  have size: "ss_size s = int (length bytes)"
    using slot by (auto simp: slot_of_file_def split: option.splits)
  have cs: "1 \<le> cs" using man by (auto simp: save_manifest_def split: if_splits)
  have n: "nat ((ss_size s + cs - 1) div cs) = ?n"
    using cs size by (simp add: chunk_count_of_def nat_div_distrib nat_diff_distrib' nat_add_distrib)
  have msgs: "ms = (mt_value MT_SAVE_MANIFEST, m) #
      (mt_value MT_SAVE_BEGIN, [(''session_id'', VStr sid), (''slot_id'', VStr (ss_id s))]) #
      map (\<lambda>ic. (mt_value MT_SAVE_CHUNK, chunk_payload sid ic)) (zip [0..<0 + length ?chunks] ?chunks) @
      [(mt_value MT_SAVE_END, [(''session_id'', VStr sid), (''sha256'', VStr (ss_sha256 s))])]"
    using ms man n by (simp add: save_messages_def Let_def)
  obtain d' b where t: "transfer sha256 sid stamp m ?chunks d = (d', Inr (ss_id s @ ''.save'', b))"
    and installed: "map_of (sd_files d') (ss_id s @ ''.save'') = Some bytes"
    using transfer_complete [OF slot man hash ne] by blast
  obtain r0 d0 r1 d1 where tr: "new_receiver m d = (d0, Inr r0)"
    "write_chunks 0 ?chunks (r0, d0) = ((r1, d1), None)"
    "finalize sha256 sid stamp r1 d1 = (d', Inr (ss_id s @ ''.save'', b))"
    by (rule transfer_parts [OF t])
  have "sr_hash r0 = sha256 bytes" "sr_total r0 = int (length bytes)"
    using tr(1) new_receiver_of_manifest [OF slot man hash, of d] by auto
  then have "sr_hash r1 = sha256 bytes" "sr_total r1 = int (length bytes)"
    using write_chunks_frame [OF tr(2)] by simp_all
  with that [OF msgs tr installed] show thesis by blast
qed

lemma save_delivered:
  fixes hid :: string and r :: client_runtime
  assumes slot: "slot_of_file (cv_sha256 ev) name bytes mtime = Inr s"
    and ms: "save_messages sid s bytes cs = Inr ms"
    and hash: "length (cv_sha256 ev bytes) = 64" and ne: "bytes \<noteq> []" and sid: "sid \<noteq> []"
    and up: "cv_up ev" "cl_open (cr_client r)"
  shows "\<exists>r'. client_listen (client_message ev) (host_lines hid ms) r = (r', None) \<and>
    map_of (sd_files (cr_dir r')) (ss_id s @ ''.save'') = Some bytes \<and> cr_saver r' = None \<and>
    (\<exists>d. last (cl_sent (cr_client r')) = \<lparr>ms_type = mt_value MT_SAVE_ACK, ms_payload = d, ms_seq = None\<rparr> \<and>
         pget d ''sha256'' = VStr (cv_sha256 ev bytes) \<and> pget d ''total_bytes'' = VInt (int (length bytes)))"
proof -
  obtain m chunks r0 d0 r1 d1 d' b where msgs: "ms = (mt_value MT_SAVE_MANIFEST, m) #
      (mt_value MT_SAVE_BEGIN, [(''session_id'', VStr sid), (''slot_id'', VStr (ss_id s))]) #
      map (\<lambda>ic. (mt_value MT_SAVE_CHUNK, chunk_payload sid ic)) (zip [0..<0 + length chunks] chunks) @
      [(mt_value MT_SAVE_END, [(''session_id'', VStr sid), (''sha256'', VStr (ss_sha256 s))])]"
    and tr: "new_receiver m (cr_dir r) = (d0, Inr r0)" "write_chunks 0 chunks (r0, d0) = ((r1, d1), None)"
      "finalize (cv_sha256 ev) sid (cv_stamp ev) r1 d1 = (d', Inr (ss_id s @ ''.save'', b))"
    and installed: "map_of (sd_files d') (ss_id s @ ''.save'') = Some bytes"
    and r1: "sr_hash r1 = cv_sha256 ev bytes" "sr_total r1 = int (length bytes)"
    by (rule save_stream [OF slot ms hash ne])
  obtain c0 where c0: "client_message ev (host_message hid (mt_value MT_SAVE_MANIFEST, m)) r =
      (r\<lparr>cr_dir := d0, cr_saver := Some r0, cr_client := c0\<rparr>, None)" "cl_open c0"
    using up tr(1) by (simp add: client_message_def net_save_manifest_def to_host_def client_send_def)
  let ?r0 = "r\<lparr>cr_dir := d0, cr_saver := Some r0, cr_client := c0\<rparr>"
  obtain c1 where c1: "client_listen (client_message ev) (host_lines hid (map (\<lambda>ic. (mt_value MT_SAVE_CHUNK, chunk_payload sid ic))
      (zip [0..<0 + length chunks] chunks))) ?r0 = (?r0\<lparr>cr_saver := Some r1, cr_dir := d1, cr_client := c1\<rparr>, None)"
    "cl_open c1"
    using all_chunks [OF up(1), where r = ?r0 and s = r0 and i = 0 and cs = chunks and hid = hid and sid = sid]
      tr(2) c0(2) by auto
  have marker: "client_message ev (host_message hid (mt_value MT_SAVE_BEGIN, d)) x = (x, None)" for d x
    by (simp add: client_message_def)
  let ?e = "host_message hid (mt_value MT_SAVE_END, [(''session_id'', VStr sid), (''sha256'', VStr (ss_sha256 s))])"
  let ?r1 = "?r0\<lparr>cr_saver := Some r1, cr_dir := d1, cr_client := c1\<rparr>"
  obtain r' where last: "client_message ev ?e ?r1 = (r', None)"
    and saved: "map_of (sd_files (cr_dir r')) (ss_id s @ ''.save'') = Some bytes" "cr_saver r' = None"
      "\<exists>d. last (cl_sent (cr_client r')) = \<lparr>ms_type = mt_value MT_SAVE_ACK, ms_payload = d, ms_seq = None\<rparr> \<and>
         pget d ''sha256'' = VStr (cv_sha256 ev bytes) \<and> pget d ''total_bytes'' = VInt (int (length bytes))"
    using tr(3) installed sid up c1(2) r1
    by (simp add: client_message_def net_save_end_def forget_saver_def ack_save_def to_host_def
        client_send_def pget_def py_or_def)
  have "client_listen (client_message ev) (host_lines hid ms) r = (r', None)"
    using c1(1) last by (simp only: msgs map_append list.map client_listen.simps client_listen_append c0(1) marker
        sum.case prod.case option.case)
  then show ?thesis using saved by blast
qed

end
