(* ===== verification/Wire_Lines.thy ===== *)
theory Wire_Lines
  imports Client_Runtime
begin

text \<open>
  The LAN stream as both ends read it: \<^verbatim>\<open>src/kermp/net.py\<close> opens its connections with
  \<open>asyncio.start_server\<close> and \<open>asyncio.open_connection\<close> without a \<open>limit\<close>, so
  \<open>readline\<close> raises \<open>ValueError\<close> for a line longer than the default limit of 64 KiB.
  The outcome of reading one line is what \<open>receive_line\<close>, \<open>client_connect\<close> and
  \<open>client_listen\<close> take; here it is computed from the text. The last section follows a save
  of at least one full chunk over such a stream.
\<close>

section \<open>Reading a line\<close>

definition newline :: char where
  "newline = char_of (10::nat)"

definition STREAM_LIMIT :: nat where
  "STREAM_LIMIT = 65536"

definition limit_error :: py_error where
  "limit_error = ValueError ''Separator is found, but chunk is longer than limit''"

definition line_body :: "string \<Rightarrow> string" where
  "line_body line = takeWhile (\<lambda>c. c \<noteq> newline) line"

definition read_line :: "string \<Rightarrow> py_error + string" where
  "read_line line = (if STREAM_LIMIT < length (line_body line) then Inl limit_error else Inr line)"

definition read_envelope :: "(string \<Rightarrow> py_error + pyval) \<Rightarrow> string \<Rightarrow> py_error + envelope" where
  "read_envelope loads line = (case read_line line of Inl e \<Rightarrow> Inl e | Inr l \<Rightarrow> from_line loads l)"

text \<open>The line the host writes for a message; \<open>dumps\<close> is the JSON writer.\<close>

definition host_line :: "(pyval \<Rightarrow> string) \<Rightarrow> string \<Rightarrow> string \<times> pydict \<Rightarrow> string" where
  "host_line dumps hid m = to_line dumps (host_message hid m)"

text \<open>
  What the JSON writer is relied on for: a text of the payload is not shortened, and its bytes
  come before the end of the line.
\<close>

definition texts_kept :: "(pyval \<Rightarrow> string) \<Rightarrow> string \<Rightarrow> string \<times> pydict \<Rightarrow> bool" where
  "texts_kept dumps hid m \<longleftrightarrow>
     list_all (\<lambda>kv. case snd kv of VStr s \<Rightarrow> length s \<le> length (line_body (host_line dumps hid m)) | _ \<Rightarrow> True) (snd m)"

section \<open>Lines that fit\<close>

lemma read_envelope_fits:
  assumes "length (line_body (to_line dumps e)) \<le> STREAM_LIMIT" and "e_version e = PROTOCOL_VERSION"
    and "length (to_line dumps e) \<le> MAX_ENVELOPE_BYTES"
    and "loads (to_line dumps e) = Inr (VDict (envelope_dict e))"
  shows "read_envelope loads (to_line dumps e) = Inr e"
  using assms by (simp add: read_envelope_def read_line_def from_line_to_line)

text \<open>
  A message on its way: the envelope the host makes of it, with a fresh id and the time; its line is
  JSON text without a newline that reads back; the reader takes it.
\<close>

definition sent_as :: "string \<Rightarrow> msg \<Rightarrow> envelope \<Rightarrow> bool" where
  "sent_as hid m e \<longleftrightarrow> (\<exists>uuid now. e = make_envelope (ms_type m) (ms_payload m) hid (ms_seq m) uuid now)"

definition json_line :: "(pyval \<Rightarrow> string) \<Rightarrow> (string \<Rightarrow> py_error + pyval) \<Rightarrow> envelope \<Rightarrow> bool" where
  "json_line dumps loads e \<longleftrightarrow> newline \<notin> set (dumps (VDict (envelope_dict e))) \<and>
     loads (to_line dumps e) = Inr (VDict (envelope_dict e))"

definition line_fits :: "(pyval \<Rightarrow> string) \<Rightarrow> envelope \<Rightarrow> bool" where
  "line_fits dumps e \<longleftrightarrow> length (dumps (VDict (envelope_dict e))) \<le> STREAM_LIMIT"

lemma json_body: "newline \<notin> set t \<Longrightarrow> line_body (t @ [newline]) = t"
  unfolding line_body_def by (subst takeWhile_append2) auto

lemma read_sent:
  assumes "json_line dumps loads e" "e_version e = PROTOCOL_VERSION"
  shows "read_envelope loads (to_line dumps e) = (if line_fits dumps e then Inr e else Inl limit_error)"
proof -
  have "line_body (to_line dumps e) = dumps (VDict (envelope_dict e))"
    using assms(1) json_body by (simp add: json_line_def to_line_def newline_def)
  moreover have "length (to_line dumps e) \<le> MAX_ENVELOPE_BYTES" if "line_fits dumps e"
    using that by (simp add: line_fits_def to_line_def STREAM_LIMIT_def MAX_ENVELOPE_BYTES_def MAX_GAME_MESSAGE_BYTES_def)
  ultimately show ?thesis
    using assms by (simp add: read_envelope_def read_line_def line_fits_def json_line_def from_line_to_line)
qed

lemma sent_as_fields:
  "sent_as hid m e \<Longrightarrow> e_type e = ms_type m \<and> e_payload e = ms_payload m \<and> e_version e = PROTOCOL_VERSION"
  by (auto simp: sent_as_def make_envelope_def)

text \<open>A guest's reaction depends on the type and the payload of an envelope only.\<close>

lemma client_message_fields:
  "e_type e = e_type e' \<Longrightarrow> e_payload e = e_payload e' \<Longrightarrow> client_message ev e r = client_message ev e' r"
  by (simp only: client_message_def)

lemma listen_sent:
  assumes "list_all2 (\<lambda>m e. sent_as hid \<lparr>ms_type = fst m, ms_payload = snd m, ms_seq = None\<rparr> e \<and> json_line dumps loads e \<and>
    line_fits dumps e) ms es"
  shows "client_listen (client_message ev) (map (\<lambda>e. read_envelope loads (to_line dumps e)) es) r =
    client_listen (client_message ev) (host_lines hid ms) r"
  using assms
proof (induction ms es arbitrary: r rule: list_all2_induct)
  case (Cons m ms e es)
  then have f: "e_type e = fst m \<and> e_payload e = snd m \<and> e_version e = PROTOCOL_VERSION"
    using sent_as_fields by fastforce
  then have "read_envelope loads (to_line dumps e) = Inr e" using Cons.hyps(1) by (simp add: read_sent)
  moreover have "client_message ev e r = client_message ev (host_message hid m) r" for r
    using f by (intro client_message_fields) simp_all
  ultimately show ?case using Cons.IH by (simp split: prod.split option.split)
qed simp

text \<open>A save whose lines the guest can read arrives.\<close>

lemma save_over_lines:
  assumes slot: "slot_of_file (cv_sha256 ev) name bytes mtime = Inr s"
    and ms: "save_messages sid s bytes cs = Inr ms"
    and hash: "length (cv_sha256 ev bytes) = 64" and ne: "bytes \<noteq> []" and sid: "sid \<noteq> []"
    and up: "cv_up ev" "cl_open (cr_client r)"
    and sent: "list_all2 (\<lambda>m e. sent_as hid \<lparr>ms_type = fst m, ms_payload = snd m, ms_seq = None\<rparr> e) ms es"
    and wire: "list_all (json_line dumps loads) es" "list_all (line_fits dumps) es"
  shows "\<exists>r'. client_listen (client_message ev) (map (\<lambda>e. read_envelope loads (to_line dumps e)) es) r = (r', None) \<and>
    map_of (sd_files (cr_dir r')) (ss_id s @ ''.save'') = Some bytes \<and> cr_saver r' = None \<and>
    (\<exists>d. last (cl_sent (cr_client r')) = \<lparr>ms_type = mt_value MT_SAVE_ACK, ms_payload = d, ms_seq = None\<rparr> \<and>
       pget d ''sha256'' = VStr (cv_sha256 ev bytes) \<and> pget d ''total_bytes'' = VInt (int (length bytes)))"
proof -
  have "list_all2 (\<lambda>m e. sent_as hid \<lparr>ms_type = fst m, ms_payload = snd m, ms_seq = None\<rparr> e \<and> json_line dumps loads e \<and>
      line_fits dumps e) ms es"
    using sent wire by (auto simp: list_all2_conv_all_nth list_all_length)
  from listen_sent [OF this, of ev r] show ?thesis
    using save_delivered [OF slot ms hash ne sid up, of hid] by simp
qed

lemma read_envelope_error: "read_line line = Inl e \<Longrightarrow> read_envelope loads line = Inl e"
  by (simp add: read_envelope_def)

text \<open>Listening stops at the first line that cannot be read.\<close>

lemma listen_stops:
  "client_listen f (xs @ Inl e # ys) s =
     (case client_listen f xs s of (s1, None) \<Rightarrow> (s1, Some e) | (s1, Some x) \<Rightarrow> (s1, Some x))"
  by (induction xs arbitrary: s) (auto split: sum.splits prod.splits option.splits)

section \<open>A full chunk\<close>

lemma length_digits: "k \<le> 4 \<Longrightarrow> length (digits k n) = k"
  by (simp add: digits_def)

lemma length_groups:
  "length (b64encode []) = 0" "length (b64encode [a]) = 4" "length (b64encode [a, b]) = 4"
  "length (b64encode (a # b # c # bs)) = 4 + length (b64encode bs)"
  unfolding b64encode.simps length_append by (simp_all add: length_digits)

lemma length_b64encode: "length (b64encode bs) = 4 * ((length bs + 2) div 3)"
proof (induction bs rule: b64encode.induct)
  case (4 a b c bs)
  have "(length (a # b # c # bs) + 2) div 3 = Suc ((length bs + 2) div 3)"
    by simp
  then show ?case unfolding length_groups 4 by simp
qed (simp_all add: length_groups del: b64encode.simps)

lemma full_chunk_text: "49152 < length bytes \<Longrightarrow> STREAM_LIMIT < length (b64encode bytes)"
proof -
  assume "49152 < length bytes"
  then have "49155 div 3 \<le> (length bytes + 2) div 3"
    by (intro div_le_mono) simp
  then show ?thesis
    unfolding length_b64encode STREAM_LIMIT_def by simp
qed

lemma full_chunk_unreadable:
  assumes "49152 < length c" and "texts_kept dumps hid (mt_value MT_SAVE_CHUNK, chunk_payload sid (i, c))"
  shows "read_envelope loads (host_line dumps hid (mt_value MT_SAVE_CHUNK, chunk_payload sid (i, c))) = Inl limit_error"
proof -
  have "length (b64encode c) \<le> length (line_body (host_line dumps hid (mt_value MT_SAVE_CHUNK, chunk_payload sid (i, c))))"
    using assms(2) by (simp add: texts_kept_def chunk_payload_def)
  then show ?thesis
    using full_chunk_text [OF assms(1)] by (simp add: read_envelope_def read_line_def)
qed

text \<open>The messages before the first chunk leave every save file of the directory alone.\<close>

definition chunk_size_default :: int where
  "chunk_size_default = 65536"

lemma manifest_keeps_saves:
  assumes "\<And>i. n \<noteq> i @ ''.kermp.partial''"
  shows "map_of (sd_files (cr_dir (fst (net_save_manifest ev payload r)))) n = map_of (sd_files (cr_dir r)) n"
proof -
  have keep: "map_of (sd_files d) n = map_of (sd_files (cr_dir r)) n" if "new_receiver payload (cr_dir r) = (d, x)" for d x
    using that assms
    by (auto simp: new_receiver_def remove_file_def partial_name_def delete_conv' Let_def split: sum.splits if_splits)
  have dir: "cr_dir (fst (to_host ev ty d q)) = cr_dir q" for ty d and q :: client_runtime
    by (simp add: to_host_def split: prod.split)
  show ?thesis
    using keep by (auto simp: net_save_manifest_def save_error_def dir split: prod.split sum.split)
qed

lemma begin_ignored: "client_message ev e r = (r, None)" if "e_type e = mt_value MT_SAVE_BEGIN"
  using that by (simp add: client_message_def)

lemma save_not_partial: "a @ ''.save'' \<noteq> b @ ''.kermp.partial''"
proof
  assume "a @ ''.save'' = b @ ''.kermp.partial''"
  then have "last (a @ ''.save'') = last (b @ ''.kermp.partial'')"
    by simp
  then show False by simp
qed

text \<open>
  With the default chunk size the first chunk of a larger save does not fit: the guest's
  listening ends there, and the save it holds is the one it had before.
\<close>

lemma large_save_messages:
  assumes "save_messages sid s bytes chunk_size_default = Inr ms" and "ss_size s = int (length bytes)"
    and "65536 \<le> length bytes"
  obtains m rest where "ms = (mt_value MT_SAVE_MANIFEST, m) #
      (mt_value MT_SAVE_BEGIN, [(''session_id'', VStr sid), (''slot_id'', VStr (ss_id s))]) #
      (mt_value MT_SAVE_CHUNK, chunk_payload sid (0, take 65536 bytes)) # rest"
proof -
  obtain m where man: "save_manifest s sid chunk_size_default = Inr m"
    using assms(1) by (auto simp: save_messages_def split: sum.splits)
  define n where "n = nat ((ss_size s + chunk_size_default - 1) div chunk_size_default)"
  have "1 \<le> (ss_size s + chunk_size_default - 1) div chunk_size_default"
    using assms(2,3) by (simp add: chunk_size_default_def)
  then obtain k where k: "n = Suc k"
    by (metis n_def nat_0_iff not0_implies_Suc not_one_le_zero zero_less_one_class.zero_le_one order.trans nat_le_0)
  have "zip [0..<n] (file_chunks 65536 n bytes) =
      (0, take 65536 bytes) # zip [Suc 0..<n] (file_chunks 65536 k (drop 65536 bytes))"
    by (simp add: k upt_conv_Cons del: upt_Suc)
  moreover have "ms = (mt_value MT_SAVE_MANIFEST, m) #
      (mt_value MT_SAVE_BEGIN, [(''session_id'', VStr sid), (''slot_id'', VStr (ss_id s))]) #
      map (\<lambda>ic. (mt_value MT_SAVE_CHUNK, chunk_payload sid ic)) (zip [0..<n] (file_chunks (nat chunk_size_default) n bytes)) @
      [(mt_value MT_SAVE_END, [(''session_id'', VStr sid), (''sha256'', VStr (ss_sha256 s))])]"
    using assms(1) man by (simp add: save_messages_def n_def Let_def)
  ultimately have "ms = (mt_value MT_SAVE_MANIFEST, m) #
      (mt_value MT_SAVE_BEGIN, [(''session_id'', VStr sid), (''slot_id'', VStr (ss_id s))]) #
      (mt_value MT_SAVE_CHUNK, chunk_payload sid (0, take 65536 bytes)) #
      (map (\<lambda>ic. (mt_value MT_SAVE_CHUNK, chunk_payload sid ic)) (zip [Suc 0..<n] (file_chunks 65536 k (drop 65536 bytes))) @
      [(mt_value MT_SAVE_END, [(''session_id'', VStr sid), (''sha256'', VStr (ss_sha256 s))])])"
    by (simp add: chunk_size_default_def del: upt_Suc)
  then show thesis by (rule that)
qed

lemma listen_two:
  assumes "client_listen f (a # b # Inl e # xs) s = (s', x)"
  shows "x \<noteq> None" and "s' = s \<or> (\<exists>ea. a = Inr ea \<and> s' = fst (f ea s)) \<or>
    (\<exists>ea eb. a = Inr ea \<and> b = Inr eb \<and> s' = fst (f eb (fst (f ea s))))"
  using assms by (cases a; cases b; auto split: prod.splits option.splits)+

lemma large_save_stops:
  assumes ms: "save_messages sid s bytes chunk_size_default = Inr ms" and size: "ss_size s = int (length bytes)"
    and large: "65536 \<le> length bytes"
    and kept: "list_all (texts_kept dumps hid) ms"
    and codec: "\<And>m e. m \<in> set ms \<Longrightarrow> read_envelope loads (host_line dumps hid m) = Inr e \<Longrightarrow> e = host_message hid m"
    and listen: "client_listen (client_message ev) (map (\<lambda>m. read_envelope loads (host_line dumps hid m)) ms) r = (r', x)"
  shows "x \<noteq> None \<and> map_of (sd_files (cr_dir r')) (i @ ''.save'') = map_of (sd_files (cr_dir r)) (i @ ''.save'')"
proof -
  obtain m rest where split: "ms = (mt_value MT_SAVE_MANIFEST, m) #
      (mt_value MT_SAVE_BEGIN, [(''session_id'', VStr sid), (''slot_id'', VStr (ss_id s))]) #
      (mt_value MT_SAVE_CHUNK, chunk_payload sid (0, take 65536 bytes)) # rest"
    by (rule large_save_messages [OF ms size large])
  let ?read = "\<lambda>m. read_envelope loads (host_line dumps hid m)"
  let ?a = "(mt_value MT_SAVE_MANIFEST, m)"
  let ?b = "(mt_value MT_SAVE_BEGIN, [(''session_id'', VStr sid), (''slot_id'', VStr (ss_id s))])"
  have "?read (mt_value MT_SAVE_CHUNK, chunk_payload sid (0, take 65536 bytes)) = Inl limit_error"
    using kept large by (intro full_chunk_unreadable) (simp_all add: split)
  then have l: "client_listen (client_message ev) (?read ?a # ?read ?b # Inl limit_error # map ?read rest) r = (r', x)"
    using listen by (simp add: split)
  have a: "e = host_message hid ?a" if "?read ?a = Inr e" for e
    using codec [of ?a e] that by (simp add: split)
  have b: "e = host_message hid ?b" if "?read ?b = Inr e" for e
    using codec [of ?b e] that by (simp add: split)
  have keep: "map_of (sd_files (cr_dir (fst (client_message ev (host_message hid ?a) r)))) (i @ ''.save'') =
      map_of (sd_files (cr_dir r)) (i @ ''.save'')"
    using manifest_keeps_saves [of "i @ ''.save''" ev m r] save_not_partial by (simp add: client_message_def)
  have "r' = r \<or> r' = fst (client_message ev (host_message hid ?a) r)"
    using listen_two(2) [OF l] a b begin_ignored [of "host_message hid ?b"] by auto
  then show ?thesis
    using listen_two(1) [OF l] keep by auto
qed

end
