(* ===== verification/Object_Capture.thy ===== *)
theory Object_Capture
  imports Object_Apply Bridge
begin

text \<open>
  \<^verbatim>\<open>src/sims_mod_src/kermp_mod/hooks.py\<close>, the sending side of Build/Buy: the wrappers around
  the game's object functions (\<open>_wrap_move\<close>, ..., \<open>_wrap_scale\<close>), the capture boundary they
  share and its depth counter. A call of a wrapped function is a tree: what the game's own
  function does inside may call wrapped functions again.
\<close>

section \<open>State\<close>

record build_mod =
  bm_adapter :: adapter
  bm_depth :: int
  bm_bridge :: bridge_client

text \<open>\<open>repr\<close>, reading a number, the text of a float, and whether the socket takes a write.\<close>

record capture_env =
  cx_repr :: "gval \<Rightarrow> string"
  cx_float :: "string \<Rightarrow> rat option"
  cx_text :: "rat \<Rightarrow> string"
  cx_up :: bool

section \<open>The capture boundary\<close>

text \<open>
  What both entry points do with a payload. A value \<open>json\<close> cannot carry is outside the
  model.
\<close>

definition publish_operation :: "bool \<Rightarrow> pyval \<Rightarrow> build_mod \<Rightarrow> build_mod \<times> (py_error + bool)" where
  "publish_operation up payload m =
     (case capture_local payload (bm_adapter m) of
        (a, None) \<Rightarrow> (m\<lparr>bm_adapter := a\<rparr>, Inr False)
      | (a, Some o1) \<Rightarrow>
         (case bridge_send up ''build.operation'' (game_op_dict o1) (bm_bridge m) of
            (b, Inl e) \<Rightarrow> (m\<lparr>bm_adapter := a, bm_bridge := b\<rparr>, Inl e)
          | (b, Inr sent) \<Rightarrow> (m\<lparr>bm_adapter := a, bm_bridge := b\<rparr>, Inr True)))"

definition capture_build_operation :: "bool \<Rightarrow> pyval \<Rightarrow> build_mod \<Rightarrow> build_mod \<times> (py_error + bool)" where
  "capture_build_operation up payload m = publish_operation up payload m"

definition capture_object ::
  "capture_env \<Rightarrow> string \<Rightarrow> (string \<times> gval) list \<Rightarrow> build_mod \<Rightarrow> build_mod \<times> (py_error + bool)" where
  "capture_object cx op data m =
     (if bm_depth m \<noteq> 0 then (m, Inr False)
      else if \<not> list_all (\<lambda>kv. plain (snd kv)) data
      then (m, Inl (Unmodelled ''a value json cannot carry''))
      else publish_operation (cx_up cx)
             (VDict [(''op'', VStr op), (''data'', wire (cx_text cx) (GMap data))]) m)"

section \<open>Arguments of a call\<close>

definition update_all :: "('k \<times> 'v) list \<Rightarrow> ('k \<times> 'v) list \<Rightarrow> ('k \<times> 'v) list" where
  "update_all kvs d = fold (\<lambda>kv. AList.update (fst kv) (snd kv)) kvs d"

text \<open>
  \<open>bind_call\<close>: \<open>bound\<close> is what binding against the real signature gives, \<open>None\<close> when
  that fails.
\<close>

definition bind_call ::
  "(string \<times> gval) list option \<Rightarrow> gval list \<Rightarrow> (string \<times> gval) list \<Rightarrow> string list \<Rightarrow> (string \<times> gval) list" where
  "bind_call bound args kwargs names =
     (let fallback = update_all kwargs (update_all (zip names args) [])
      in case bound of
           None \<Rightarrow> fallback
         | Some b \<Rightarrow>
            (let b1 = (case map_of b ''args'' of
                   None \<Rightarrow> Some b
                 | Some (GSeq xs) \<Rightarrow> Some (update_all (zip names xs) (AList.delete ''args'' b))
                 | Some v \<Rightarrow> None)
             in case b1 of
                  None \<Rightarrow> fallback
                | Some c \<Rightarrow>
                   (case map_of c ''kwargs'' of
                      None \<Rightarrow> c
                    | Some (GMap d) \<Rightarrow> update_all d (AList.delete ''kwargs'' c)
                    | Some v \<Rightarrow> fallback)))"

definition vget :: "(string \<times> gval) list \<Rightarrow> string \<Rightarrow> gval" where
  "vget vs k = (case map_of vs k of None \<Rightarrow> GNone | Some v \<Rightarrow> v)"

definition vget2 :: "(string \<times> gval) list \<Rightarrow> string \<Rightarrow> string \<Rightarrow> gval" where
  "vget2 vs k l = (case map_of vs k of None \<Rightarrow> vget vs l | Some v \<Rightarrow> v)"

section \<open>The wrappers\<close>

datatype hook =
    MoveHook
  | FundsHook
  | CreateHook
  | DestroyHook
  | ParentHook
  | ClearParentHook
  | DefinitionHook
  | ScaleHook

fun hook_names :: "hook \<Rightarrow> string list" where
  "hook_names MoveHook = [''zone_id'', ''obj_id'', ''routing_surface'', ''transform'', ''parent_id'',
     ''parent_type_info'', ''slot_hash'']"
| "hook_names FundsHook = [''amount'', ''household_id'', ''reason'', ''zone_id'']"
| "hook_names CreateHook = [''zone_id'', ''def_id'', ''obj_id'', ''obj_state'', ''loc_type'', ''content_source'']"
| "hook_names DestroyHook = [''zone_id'', ''obj_or_id'']"
| "hook_names ParentHook = [''obj_id'', ''parent_id'', ''transform'', ''joint_name'', ''slot_hash'', ''zone_id'']"
| "hook_names ClearParentHook = [''obj_id'', ''transform'', ''zone_id'', ''surface'']"
| "hook_names DefinitionHook = []"
| "hook_names ScaleHook = []"

text \<open>\<open>self\<close> before and after the game's function, its arguments and its result.\<close>

record call_site =
  cs_bound :: "(string \<times> gval) list option"
  cs_args :: "gval list"
  cs_kwargs :: "(string \<times> gval) list"
  cs_before :: gval
  cs_after :: gval

definition with_transform ::
  "capture_env \<Rightarrow> gval \<Rightarrow> (gval \<Rightarrow> string \<times> (string \<times> gval) list) \<Rightarrow>
     py_error + (string \<times> (string \<times> gval) list) option" where
  "with_transform cx t f =
     (case serialize_transform (cx_repr cx) (cx_float cx) t of Inl e \<Rightarrow> Inl e | Inr v \<Rightarrow> Inr (Some (f v)))"

definition move_data :: "capture_env \<Rightarrow> (string \<times> gval) list \<Rightarrow> py_error + (string \<times> (string \<times> gval) list) option" where
  "move_data cx vs = with_transform cx (vget vs ''transform'') (\<lambda>t. (''object.move'',
     [(''zone_id'', vget vs ''zone_id''), (''object_id'', vget2 vs ''obj_id'' ''object_id''),
      (''routing_surface'', hook_json (cx_repr cx) 0 (vget vs ''routing_surface'')), (''transform'', t),
      (''parent_id'', vget vs ''parent_id''),
      (''parent_type_info'', hook_json (cx_repr cx) 0 (vget vs ''parent_type_info'')),
      (''slot_hash'', vget vs ''slot_hash'')]))"

definition funds_data :: "(string \<times> gval) list \<Rightarrow> string \<times> (string \<times> gval) list" where
  "funds_data vs = (''funds.modify'',
     [(''amount'', vget vs ''amount''), (''household_id'', vget vs ''household_id''),
      (''reason'', vget vs ''reason''), (''zone_id'', vget vs ''zone_id'')])"

definition create_data ::
  "capture_env \<Rightarrow> (string \<times> gval) list \<Rightarrow> gval \<Rightarrow> py_error + (string \<times> (string \<times> gval) list) option" where
  "create_data cx vs result =
     (let obj = (if gattr_opt result ''id'' = None then GNone else result);
          named = vget2 vs ''obj_id'' ''object_id'';
          oid = (if named \<noteq> GNone then named else gattr obj ''id'')
      in with_transform cx (gattr obj ''location'') (\<lambda>t. (''object.create'',
        [(''zone_id'', vget vs ''zone_id''), (''object_id'', oid),
         (''definition_id'', vget2 vs ''def_id'' ''definition_id''),
         (''object_state'', hook_json (cx_repr cx) 0 (vget2 vs ''obj_state'' ''object_state'')),
         (''location_type'', hook_json (cx_repr cx) 0 (vget2 vs ''loc_type'' ''location_type'')),
         (''content_source'', hook_json (cx_repr cx) 0 (vget vs ''content_source'')), (''transform'', t)])))"

definition destroy_data :: "(string \<times> gval) list \<Rightarrow> string \<times> (string \<times> gval) list" where
  "destroy_data vs =
     (let t = vget2 vs ''obj_or_id'' ''object_or_id''
      in (''object.destroy'', [(''zone_id'', vget vs ''zone_id''),
            (''object_id'', case gattr_opt t ''id'' of None \<Rightarrow> t | Some i \<Rightarrow> i)]))"

definition parent_data :: "capture_env \<Rightarrow> (string \<times> gval) list \<Rightarrow> py_error + (string \<times> (string \<times> gval) list) option" where
  "parent_data cx vs = with_transform cx (vget vs ''transform'') (\<lambda>t. (''object.set_parent'',
     [(''object_id'', vget2 vs ''obj_id'' ''object_id''), (''parent_id'', vget vs ''parent_id''), (''transform'', t),
      (''joint_name'', vget vs ''joint_name''), (''slot_hash'', vget vs ''slot_hash''),
      (''zone_id'', vget vs ''zone_id'')]))"

definition clear_parent_data ::
  "capture_env \<Rightarrow> (string \<times> gval) list \<Rightarrow> py_error + (string \<times> (string \<times> gval) list) option" where
  "clear_parent_data cx vs = with_transform cx (vget vs ''transform'') (\<lambda>t. (''object.clear_parent'',
     [(''object_id'', vget2 vs ''obj_id'' ''object_id''), (''transform'', t), (''zone_id'', vget vs ''zone_id''),
      (''routing_surface'', hook_json (cx_repr cx) 0 (vget vs ''surface''))]))"

text \<open>A new definition is reported only when it differs from the one before the call.\<close>

definition definition_data :: "call_site \<Rightarrow> (string \<times> (string \<times> gval) list) option" where
  "definition_data c =
     (let d = (case cs_args c of [] \<Rightarrow> vget (cs_kwargs c) ''definition_id'' | x # xs \<Rightarrow> x)
      in if gattr (gattr (cs_before c) ''definition'') ''id'' = d then None
         else Some (''object.definition'', [(''object_id'', gattr (cs_after c) ''id''), (''definition_id'', d)]))"

definition scale_data :: "call_site \<Rightarrow> string \<times> (string \<times> gval) list" where
  "scale_data c = (''object.scale'', [(''object_id'', gattr (cs_after c) ''id''), (''scale'', gattr (cs_after c) ''scale'')])"

definition hook_data ::
  "capture_env \<Rightarrow> hook \<Rightarrow> call_site \<Rightarrow> gval \<Rightarrow> py_error + (string \<times> (string \<times> gval) list) option" where
  "hook_data cx h c result =
     (let vs = bind_call (cs_bound c) (cs_args c) (cs_kwargs c) (hook_names h)
      in case h of
           MoveHook \<Rightarrow> move_data cx vs
         | FundsHook \<Rightarrow> Inr (Some (funds_data vs))
         | CreateHook \<Rightarrow> create_data cx vs result
         | DestroyHook \<Rightarrow> Inr (Some (destroy_data vs))
         | ParentHook \<Rightarrow> parent_data cx vs
         | ClearParentHook \<Rightarrow> clear_parent_data cx vs
         | DefinitionHook \<Rightarrow> Inr (definition_data c)
         | ScaleHook \<Rightarrow> Inr (Some (scale_data c)))"

section \<open>Calls of wrapped functions\<close>

text \<open>A wrapped call: the wrapped calls inside it in their order, and how it ends.\<close>

datatype hooked_call = Hooked hook call_site "hooked_call list" "py_error + gval"

definition nests :: "hook \<Rightarrow> bool" where
  "nests h \<longleftrightarrow> h = ParentHook \<or> h = ClearParentHook"

definition enter :: "hook \<Rightarrow> int \<Rightarrow> build_mod \<Rightarrow> build_mod" where
  "enter h n m = (if nests h then m\<lparr>bm_depth := bm_depth m + n\<rparr> else m)"

definition report :: "capture_env \<Rightarrow> hook \<Rightarrow> call_site \<Rightarrow> gval \<Rightarrow> build_mod \<Rightarrow> build_mod \<times> (py_error + gval)" where
  "report cx h c v m =
     (case hook_data cx h c v of
        Inl e \<Rightarrow> (m, Inl e)
      | Inr None \<Rightarrow> (m, Inr v)
      | Inr (Some (op, data)) \<Rightarrow>
         (case capture_object cx op data m of
            (m1, Inl e) \<Rightarrow> (m1, Inl e)
          | (m1, Inr _) \<Rightarrow> (m1, Inr v)))"

fun run_hooked :: "capture_env \<Rightarrow> hooked_call \<Rightarrow> build_mod \<Rightarrow> build_mod \<times> (py_error + gval)"
  and run_inner :: "capture_env \<Rightarrow> hooked_call list \<Rightarrow> build_mod \<Rightarrow> build_mod \<times> py_error option" where
  "run_hooked cx (Hooked h c inner out) m =
     (case run_inner cx inner (enter h 1 m) of
        (m1, Some e) \<Rightarrow> (enter h (-1) m1, Inl e)
      | (m1, None) \<Rightarrow>
         (case out of
            Inl e \<Rightarrow> (enter h (-1) m1, Inl e)
          | Inr v \<Rightarrow> report cx h c v (enter h (-1) m1)))"
| "run_inner cx [] m = (m, None)"
| "run_inner cx (x # xs) m =
     (case run_hooked cx x m of
        (m1, Inl e) \<Rightarrow> (m1, Some e)
      | (m1, Inr v) \<Rightarrow> run_inner cx xs m1)"

section \<open>Properties\<close>

definition published :: "build_mod \<Rightarrow> (string \<times> pydict) list" where
  "published m = bc_sent (bm_bridge m)"

lemma bridge_send_sent:
  "bc_sent (fst (bridge_send up ty d b)) = bc_sent b \<or> bc_sent (fst (bridge_send up ty d b)) = bc_sent b @ [(ty, d)]"
  by (simp add: bridge_send_def)

lemma publish_depth [simp]: "bm_depth (fst (publish_operation up payload m)) = bm_depth m"
  by (auto simp: publish_operation_def split: prod.splits option.splits sum.splits)

lemma capture_depth [simp]: "bm_depth (fst (capture_object cx op data m)) = bm_depth m"
  by (simp add: capture_object_def)

lemma capture_nested: "bm_depth m \<noteq> 0 \<Longrightarrow> capture_object cx op data m = (m, Inr False)"
  by (simp add: capture_object_def)

lemma publish_one:
  "published (fst (publish_operation up payload m)) = published m \<or>
   (\<exists>o1. published (fst (publish_operation up payload m)) = published m @ [(''build.operation'', game_op_dict o1)] \<and>
      go_op o1 \<in> set OBJECT_OPERATIONS)"
proof (cases "capture_local payload (bm_adapter m)")
  case (Pair a r)
  show ?thesis
  proof (cases r)
    case (Some o1)
    have "go_op o1 \<in> set OBJECT_OPERATIONS"
    proof -
      obtain o0 where "normalize_operation payload = Inr o0" "o1 = o0\<lparr>go_id := go_id o1\<rparr>"
        using capture_result [OF Pair [unfolded Some]] by blast
      then show ?thesis using normalize_result(1) by (metis game_op.select_convs(1) game_op.surjective game_op.update_convs(3))
    qed
    moreover have "published (fst (publish_operation up payload m)) \<in>
        {published m, published m @ [(''build.operation'', game_op_dict o1)]}"
      using bridge_send_sent [of up "''build.operation''" "game_op_dict o1" "bm_bridge m"]
      by (auto simp: publish_operation_def published_def Pair Some split: prod.split sum.split)
    ultimately show ?thesis by blast
  qed (simp add: publish_operation_def published_def Pair)
qed

lemma enter_published [simp]: "published (enter h n m) = published m" "bm_adapter (enter h n m) = bm_adapter m"
  by (simp_all add: enter_def published_def)

lemma enter_depth: "bm_depth (enter h n m) = (if nests h then bm_depth m + n else bm_depth m)"
  by (simp add: enter_def)

lemma report_depth [simp]: "bm_depth (fst (report cx h c v m)) = bm_depth m"
proof -
  have "bm_depth m1 = bm_depth m" if "capture_object cx op data m = (m1, r)" for m1 r op data
    using that capture_depth [of cx op data m] by simp
  then show ?thesis by (auto simp: report_def split: sum.splits option.splits prod.splits)
qed

text \<open>However a call ends, the depth counter is what it was.\<close>

lemma depth_restored:
  "bm_depth (fst (run_hooked cx c m)) = bm_depth m"
  "bm_depth (fst (run_inner cx cs m)) = bm_depth m"
  by (induction cx c m and cx cs m rule: run_hooked_run_inner.induct)
    (auto simp: enter_depth split: prod.splits option.splits sum.splits)

text \<open>Inside a parent change nothing is captured: neither the adapter nor the wire sees it.\<close>

lemma enter_frame [simp]: "bm_bridge (enter h n m) = bm_bridge m"
  by (simp add: enter_def)

lemma report_nested: "bm_depth m \<noteq> 0 \<Longrightarrow> fst (report cx h c v m) = m"
  by (auto simp: report_def capture_nested split: sum.split option.split)

lemma nested_silent:
  "0 < bm_depth m \<Longrightarrow> bm_adapter (fst (run_hooked cx c m)) = bm_adapter m \<and>
     bm_bridge (fst (run_hooked cx c m)) = bm_bridge m"
  "0 < bm_depth m \<Longrightarrow> bm_adapter (fst (run_inner cx cs m)) = bm_adapter m \<and>
     bm_bridge (fst (run_inner cx cs m)) = bm_bridge m"
proof (induction cx c m and cx cs m rule: run_hooked_run_inner.induct)
  case (1 cx h c inner out m)
  obtain m1 x where r: "run_inner cx inner (enter h 1 m) = (m1, x)" by fastforce
  have d: "bm_depth m1 = bm_depth (enter h 1 m)"
    using depth_restored(2) [of cx inner "enter h 1 m"] r by simp
  have s: "bm_adapter m1 = bm_adapter m" "bm_bridge m1 = bm_bridge m"
    using 1 r by (simp_all add: enter_depth split: if_splits)
  have n: "bm_depth (enter h (- 1) m1) \<noteq> 0"
    using d 1(2) by (simp add: enter_depth)
  show ?case using s report_nested [OF n] by (simp add: r split: option.split sum.split)
next
  case (3 cx x xs m)
  obtain m1 r where r: "run_hooked cx x m = (m1, r)" by fastforce
  have d: "bm_depth m1 = bm_depth m" using depth_restored(1) [of cx x m] r by simp
  show ?case using 3 r d by (cases r) auto
qed simp

text \<open>A parent change is reported as one operation at most, whatever happens inside it.\<close>

lemma publish_capture:
  "published (fst (capture_object cx op data m)) = published m \<or>
   (\<exists>o1. published (fst (capture_object cx op data m)) = published m @ [(''build.operation'', game_op_dict o1)] \<and>
      go_op o1 \<in> set OBJECT_OPERATIONS)"
  unfolding capture_object_def using publish_one by auto

lemma report_one:
  "published (fst (report cx h c v m)) = published m \<or>
   (\<exists>o1. published (fst (report cx h c v m)) = published m @ [(''build.operation'', game_op_dict o1)] \<and>
      go_op o1 \<in> set OBJECT_OPERATIONS)"
proof (cases "hook_data cx h c v")
  case (Inr r)
  show ?thesis
  proof (cases r)
    case (Some od)
    obtain op data where od: "od = (op, data)" by (cases od)
    have "fst (report cx h c v m) = fst (capture_object cx op data m)"
      by (simp add: report_def Inr Some od split: prod.split sum.split)
    then show ?thesis using publish_capture by simp
  qed (simp add: report_def Inr)
qed (simp add: report_def)

lemma parent_change_once:
  assumes "bm_depth m = 0" and "nests h"
  shows "published (fst (run_hooked cx (Hooked h c inner out) m)) = published m \<or>
    (\<exists>o1. published (fst (run_hooked cx (Hooked h c inner out) m)) =
        published m @ [(''build.operation'', game_op_dict o1)] \<and> go_op o1 \<in> set OBJECT_OPERATIONS)"
proof -
  obtain m1 x where r: "run_inner cx inner (enter h 1 m) = (m1, x)" by fastforce
  have "0 < bm_depth (enter h 1 m)" using assms by (simp add: enter_depth)
  then have "bm_bridge m1 = bm_bridge m" using nested_silent(2) [of "enter h 1 m" cx inner] r by simp
  then have s: "published (enter h (- 1) m1) = published m" by (simp add: published_def)
  show ?thesis
    using s report_one [of cx h c _ "enter h (- 1) m1"] by (simp add: r split: option.split sum.split)
qed

text \<open>
  While a remote operation is applied, the game's calls publish nothing: only the
  adapter's counter of suppressed echoes moves.
\<close>

lemma capture_applying:
  "ad_applying (bm_adapter m) \<Longrightarrow> bm_bridge (fst (capture_object cx op data m)) = bm_bridge m \<and>
     ad_applying (bm_adapter (fst (capture_object cx op data m))) \<and>
     ad_captured (bm_adapter (fst (capture_object cx op data m))) = ad_captured (bm_adapter m)"
  by (simp add: capture_object_def publish_operation_def capture_local_def)

lemma report_applying:
  assumes "ad_applying (bm_adapter m)"
  shows "bm_bridge (fst (report cx h c v m)) = bm_bridge m \<and>
     ad_applying (bm_adapter (fst (report cx h c v m))) \<and>
     ad_captured (bm_adapter (fst (report cx h c v m))) = ad_captured (bm_adapter m)"
proof (cases "hook_data cx h c v")
  case (Inr r)
  show ?thesis
  proof (cases r)
    case (Some od)
    obtain op data where od: "od = (op, data)" by (cases od)
    have "fst (report cx h c v m) = fst (capture_object cx op data m)"
      by (simp add: report_def Inr Some od split: prod.split sum.split)
    then show ?thesis using capture_applying [OF assms] by simp
  qed (simp add: report_def Inr assms)
qed (simp add: report_def assms)

lemma applying_silent:
  "ad_applying (bm_adapter m) \<Longrightarrow> bm_bridge (fst (run_hooked cx c m)) = bm_bridge m \<and>
     ad_applying (bm_adapter (fst (run_hooked cx c m))) \<and>
     ad_captured (bm_adapter (fst (run_hooked cx c m))) = ad_captured (bm_adapter m)"
  "ad_applying (bm_adapter m) \<Longrightarrow> bm_bridge (fst (run_inner cx cs m)) = bm_bridge m \<and>
     ad_applying (bm_adapter (fst (run_inner cx cs m))) \<and>
     ad_captured (bm_adapter (fst (run_inner cx cs m))) = ad_captured (bm_adapter m)"
proof (induction cx c m and cx cs m rule: run_hooked_run_inner.induct)
  case (1 cx h c inner out m)
  obtain m1 x where r: "run_inner cx inner (enter h 1 m) = (m1, x)" by fastforce
  have s: "bm_bridge m1 = bm_bridge m" "ad_applying (bm_adapter m1)"
      "ad_captured (bm_adapter m1) = ad_captured (bm_adapter m)"
    using 1 r by simp_all
  have "ad_applying (bm_adapter (enter h (- 1) m1))" using s(2) by simp
  from report_applying [OF this] show ?case
    using s by (simp add: r split: option.split sum.split)
next
  case (3 cx x xs m)
  obtain m1 r where r: "run_hooked cx x m = (m1, r)" by fastforce
  show ?case using 3 r by (cases r) auto
qed simp

end
