(* ===== verification/Composition.thy ===== *)
theory Composition
  imports Mod_Replay Mod_Messages Wire_Lines Object_Capture Host_Runtime
begin

text \<open>
  The parts together: a game message from the host's game through both sidecars into the
  guest's game, a guest's answer to a travel on its way to the host's transaction, a clock
  change, and a Build/Buy operation from the game that made it to a game that repeats it. Each
  section composes the models of the processes involved; the messages between them are the
  payloads the code builds.
\<close>

section \<open>Game messages\<close>

definition relay_payload :: "int \<Rightarrow> int \<Rightarrow> byte list \<Rightarrow> int option \<Rightarrow> pydict" where
  "relay_payload mid q raw ep =
     [(''msg_id'', VInt mid), (''sequence'', VInt q), (''payload_b64'', VStr (b64encode raw))] @
     (case ep of None \<Rightarrow> [] | Some e \<Rightarrow> [(''epoch'', VInt e)])"

lemma relay_fields [simp]:
  "pget (relay_payload mid q raw ep) ''sequence'' = VInt q"
  "map_of (relay_payload mid q raw ep) ''msg_id'' = Some (VInt mid)"
  "map_of (relay_payload mid q raw ep) ''payload_b64'' = Some (VStr (b64encode raw))"
  "pget_default (relay_payload mid q raw ep) ''payload_b64'' v = VStr (b64encode raw)"
  "pget_default (relay_payload mid q raw ep) ''sequence'' v = VInt q"
  "pget (relay_payload mid q raw ep) ''epoch'' = (case ep of None \<Rightarrow> VNone | Some e \<Rightarrow> VInt e)"
  by (simp_all add: relay_payload_def pget_def pget_default_def split: option.split)

text \<open>The host's sidecar sends the bytes it was given to every peer, numbered.\<close>

lemma host_relays:
  assumes "\<And>p. ev_up ev p" and "length raw \<le> MAX_GAME_MESSAGE_BYTES"
  shows "h_log (hr_host (fst (game_raw_message ev (raw_payload mid raw) r))) = h_log (hr_host r) @
    map (\<lambda>kv. ToPeer (fst kv) \<lparr>ms_type = mt_value MT_GAME_RAW_MESSAGE,
          ms_payload = relay_payload mid (hr_game_seq r + 1) raw (active_epoch (host_travel (hr_host r))),
          ms_seq = Some (h_seq (hr_host r) + 1)\<rparr>) (h_peers (hr_host r))"
    and "hr_game_seq (fst (game_raw_message ev (raw_payload mid raw) r)) = hr_game_seq r + 1"
proof -
  have "raw_message (raw_payload mid raw) = Inr (mid, raw)"
    using assms(2) by (simp add: raw_message_def raw_bytes_def raw_payload_def)
  then show "h_log (hr_host (fst (game_raw_message ev (raw_payload mid raw) r))) = h_log (hr_host r) @
    map (\<lambda>kv. ToPeer (fst kv) \<lparr>ms_type = mt_value MT_GAME_RAW_MESSAGE,
          ms_payload = relay_payload mid (hr_game_seq r + 1) raw (active_epoch (host_travel (hr_host r))),
          ms_seq = Some (h_seq (hr_host r) + 1)\<rparr>) (h_peers (hr_host r))"
    and "hr_game_seq (fst (game_raw_message ev (raw_payload mid raw) r)) = hr_game_seq r + 1"
    using broadcast_up(3) [OF assms(1)]
    by (simp_all add: game_raw_message_def relay_payload_def Let_def)
qed

text \<open>The guest's sidecar hands it to its game when no travel holds it back.\<close>

definition epoch_fits :: "int \<Rightarrow> int option \<Rightarrow> bool" where
  "epoch_fits e ep \<longleftrightarrow> e = 0 \<or> ep = Some e"

lemma client_relays:
  assumes "e_type e = mt_value MT_GAME_RAW_MESSAGE" "e_payload e = relay_payload mid q raw ep"
    and "cr_last_seq c < q" and "\<not> cr_buffering c" and "cv_game cev" and "epoch_fits (cr_epoch c) ep"
    and "length raw \<le> MAX_GAME_MESSAGE_BYTES"
  shows "\<exists>c'. client_message cev e c = (c', None) \<and>
    cr_game c' = cr_game c @ [(mt_value MT_GAME_RAW_MESSAGE, relay_payload mid q raw ep)]"
proof -
  have "epoch_error (relay_payload mid q raw ep) (cr_epoch c) = Inr None"
    using assms(6) by (auto simp: epoch_error_def epoch_fits_def Let_def split: option.splits)
  moreover have "raw_bytes (relay_payload mid q raw ep) = Inr raw"
    using assms(7) by (simp add: raw_bytes_def)
  moreover have "seq_of (relay_payload mid q raw ep) = q"
    by (simp add: seq_of_def)
  ultimately show ?thesis
    using assms(1-5)
    by (simp add: client_message_def net_raw_message_def accept_raw_def Let_def
        apply_game_message_def to_game_def)
qed

text \<open>
  End to end: what the host's game sends, less the operations of its own screen, is what the
  guest's game is given - when the line of its envelope fits into the guest's reader. When it does not,
  the reader raises and the guest's listening is over.
\<close>

lemma game_message_end_to_end:
  fixes ev :: env and r :: host_runtime
  assumes leaves: "leaves g mid msg m"
    and host: "\<And>p. ev_up ev p" "pid \<in> dict_keys (h_peers (hr_host r))"
    and guest: "cr_last_seq c \<le> hr_game_seq r" "\<not> cr_buffering c" "cv_game cev"
      "epoch_fits (cr_epoch c) (active_epoch (host_travel (hr_host r)))"
    and game: "is_client m'" "\<not> gm_buffering m'" "ge_client g'" "ge_send g' = None"
  defines "raw \<equiv> outgoing g msg"
  defines "out \<equiv> \<lparr>ms_type = mt_value MT_GAME_RAW_MESSAGE,
      ms_payload = relay_payload mid (hr_game_seq r + 1) raw (active_epoch (host_travel (hr_host r))),
      ms_seq = Some (h_seq (hr_host r) + 1)\<rparr>"
  assumes wire: "sent_as hid out e" "json_line dumps loads e"
  shows "mm_out (capture_message g mid msg m) = mm_out m @ [(''game.raw_message'', raw_payload mid raw)]"
    and "ToPeer pid out \<in> set (h_log (hr_host (fst (game_raw_message ev (raw_payload mid raw) r))))"
    and "line_fits dumps e \<Longrightarrow>
      \<exists>c'. client_listen (client_message cev) [read_envelope loads (to_line dumps e)] c = (c', None) \<and>
        cr_game c' = cr_game c @ [(mt_value MT_GAME_RAW_MESSAGE, ms_payload out)]"
    and "gm_delivered (fst (raw_game_message g' (ms_payload out) m')) = gm_delivered m' @ [(mid, raw)]"
    and "\<not> line_fits dumps e \<Longrightarrow>
      client_listen (client_message cev) [read_envelope loads (to_line dumps e)] c = (c, Some limit_error)"
proof -
  have size: "length raw \<le> MAX_GAME_MESSAGE_BYTES" "length raw \<le> MAX_RAW_BYTES"
    using leaves by (simp_all add: leaves_def raw_def MAX_RAW_BYTES_def MAX_GAME_MESSAGE_BYTES_def)
  note e = sent_as_fields [OF wire(1)]
  show "mm_out (capture_message g mid msg m) = mm_out m @ [(''game.raw_message'', raw_payload mid raw)]"
    using leaves by (simp add: capture_leaves raw_def)
  show "ToPeer pid out \<in> set (h_log (hr_host (fst (game_raw_message ev (raw_payload mid raw) r))))"
    using host(2) by (auto simp: host_relays(1) [OF host(1) size(1)] out_def)
  show "gm_delivered (fst (raw_game_message g' (ms_payload out) m')) = gm_delivered m' @ [(mid, raw)]"
    using game size(2) by (intro raw_delivered [where v = "VInt mid"]) (simp_all add: out_def)
  have read: "read_envelope loads (to_line dumps e) = (if line_fits dumps e then Inr e else Inl limit_error)"
    using read_sent [OF wire(2)] e by simp
  show "client_listen (client_message cev) [read_envelope loads (to_line dumps e)] c = (c, Some limit_error)"
    if "\<not> line_fits dumps e" using that by (simp add: read)
  have "\<exists>c'. client_message cev e c = (c', None) \<and> cr_game c' = cr_game c @ [(mt_value MT_GAME_RAW_MESSAGE, ms_payload out)]"
    unfolding out_def msg.simps using guest e size(1) by (intro client_relays) (simp_all add: out_def)
  then show "\<exists>c'. client_listen (client_message cev) [read_envelope loads (to_line dumps e)] c = (c', None) \<and>
      cr_game c' = cr_game c @ [(mt_value MT_GAME_RAW_MESSAGE, ms_payload out)]" if "line_fits dumps e"
    using that by (auto simp: read)
qed

text \<open>
  Once a travel is over the host leaves the epoch out, and a guest that has travelled takes no
  message without one: from then on nothing the host's game sends reaches the guest's game.
\<close>

lemma silent_after_travel:
  assumes "tc_current (host_travel (hr_host r)) = Some t" and "finished (tx_phase t)" and "cr_epoch c \<noteq> 0"
    and "length raw \<le> MAX_GAME_MESSAGE_BYTES" and "e_type e = mt_value MT_GAME_RAW_MESSAGE"
    and "e_payload e = relay_payload mid q raw (active_epoch (host_travel (hr_host r)))"
  shows "raw_seqs (cr_game (fst (client_message cev e c))) = raw_seqs (cr_game c)"
    and "cr_last_seq c < q \<Longrightarrow> cv_game cev \<Longrightarrow>
      cr_game (fst (client_message cev e c)) =
      cr_game c @ [(''sidecar.error'', [(''reason'', VStr ''missing_travel_epoch'')])]"
proof -
  have ep: "active_epoch (host_travel (hr_host r)) = None"
    using assms(1,2) by (simp add: active_epoch_def)
  have raw: "raw_bytes (relay_payload mid q raw None) = Inr raw"
    using assms(4) by (simp add: raw_bytes_def)
  have err: "epoch_error (relay_payload mid q raw None) (cr_epoch c) = Inr (Some ''missing_travel_epoch'')"
    using assms(3) by (simp add: epoch_error_def Let_def)
  show "raw_seqs (cr_game (fst (client_message cev e c))) = raw_seqs (cr_game c)"
    by (simp add: assms(5,6) ep raw err client_message_def net_raw_message_def game_error_def to_game_def)
  show "cr_game (fst (client_message cev e c)) =
      cr_game c @ [(''sidecar.error'', [(''reason'', VStr ''missing_travel_epoch'')])]"
    if "cr_last_seq c < q" "cv_game cev"
    using that by (simp add: assms(5,6) ep raw err client_message_def net_raw_message_def game_error_def to_game_def)
qed

section \<open>A guest's answer to a travel\<close>

text \<open>
  The game's answer to the preparation carries the transaction and the epoch it was asked for;
  the guest's sidecar passes it on as it is, and the host's transaction counts the guest.
\<close>

lemma prepare_to_ready:
  assumes game: "bc_open (gm_bridge m)" "ge_up g" and guest: "cl_open (cr_client c)" "cv_up cev"
    and host: "\<And>p. ev_up ev p" "tc_current (host_travel h) = Some t" "tx_id t \<noteq> []"
  shows "bc_sent (gm_bridge (fst (travel_prepare g (travel_dict t @ extra) m))) =
      bc_sent (gm_bridge m) @ [(''travel.ready'', ack_payload (tx_id t) (tx_epoch t))]"
    and "cl_sent (cr_client (fst (client_event cev ''travel.ready'' (ack_payload (tx_id t) (tx_epoch t)) c))) =
      cl_sent (cr_client c) @ [\<lparr>ms_type = ''travel.ready'', ms_payload = ack_payload (tx_id t) (tx_epoch t), ms_seq = None\<rparr>]"
    and "tc_current (host_travel (fst (travel_ready ev p (ack_payload (tx_id t) (tx_epoch t)) h))) = Some (ready_step p t)"
proof -
  have "py_int (pget_default (travel_dict t @ extra) ''epoch'' (VInt 0)) = Inr (tx_epoch t)"
    "pget (travel_dict t @ extra) ''txn_id'' = VStr (tx_id t)"
    by (simp_all add: travel_dict_def pget_default_def pget_def)
  then show "bc_sent (gm_bridge (fst (travel_prepare g (travel_dict t @ extra) m))) =
      bc_sent (gm_bridge m) @ [(''travel.ready'', ack_payload (tx_id t) (tx_epoch t))]"
    using prepare_answers(1) [OF game, of "travel_dict t @ extra" "tx_epoch t"] by (simp add: ack_payload_def)
  have "mt_of ''travel.ready'' = Some MT_TRAVEL_READY"
    using mt_of_value [of MT_TRAVEL_READY] by (simp add: mt_value.simps)
  then show "cl_sent (cr_client (fst (client_event cev ''travel.ready'' (ack_payload (tx_id t) (tx_epoch t)) c))) =
      cl_sent (cr_client c) @ [\<lparr>ms_type = ''travel.ready'', ms_payload = ack_payload (tx_id t) (tx_epoch t), ms_seq = None\<rparr>]"
    using guest by (simp add: client_event_def to_host_def client_send_def)
  show "tc_current (host_travel (fst (travel_ready ev p (ack_payload (tx_id t) (tx_epoch t)) h))) = Some (ready_step p t)"
    by (rule travel_ready_step(1)) (use host in simp_all)
qed

section \<open>The clock\<close>

text \<open>A speed a guest asks for becomes the session's, and every game is set to it.\<close>

lemma clock_dict_fields [simp]:
  "pget (clock_dict c) ''paused'' = VBool (ck_paused c)" "pget_default (clock_dict c) ''speed'' v = VInt (ck_speed c)"
  by (simp_all add: clock_dict_def pget_def pget_default_def)

lemma session_speed_applied:
  "0 \<le> ck_speed c \<Longrightarrow> ck_speed c \<le> 3 \<Longrightarrow> ck_paused c = (ck_speed c = 0) \<Longrightarrow> state_speed text (clock_dict c) = ck_speed c"
  by (auto simp: state_speed_def clock_speed_value_def Let_def)

definition wanted_speed :: "clock_env \<Rightarrow> gval \<Rightarrow> int" where
  "wanted_speed g v = max 0 (min 3 (clock_speed_value (ce_text g) v))"

lemma clock_end_to_end:
  assumes guest: "ck_role m = VStr ''client''" "\<not> ck_bypass m" "bc_open (ck_bridge m)" "ce_clock_up g"
    and host: "\<And>p. ev_up ev p"
    and game: "ce_service g' = None" "\<And>v. ce_original g' ''set_clock_speed'' v = None"
  shows "\<exists>d. ck_out (fst (clock_wrapped g (SetSpeed v) m)) = ck_out m @ [(''clock.request_speed'', d)] \<and>
    ck_calls (fst (clock_wrapped g (SetSpeed v) m)) = ck_calls m \<and>
    (\<exists>h' out. handle_clock_speed None ev (host_message pid (''clock.request_speed'', d)) h = (h', None) \<and>
       ck_speed (hs_clock (h_session h')) = wanted_speed g v \<and>
       h_log h' = h_log h @ map (\<lambda>kv. ToPeer (fst kv) \<lparr>ms_type = mt_value MT_CLOCK_STATE, ms_payload = out,
         ms_seq = Some (h_seq h + 1)\<rparr>) (h_peers h) \<and>
       ck_calls (clock_state g' out m') = ck_calls m' @ [(''set_clock_speed'', speed_mode (wanted_speed g v))])"
proof -
  let ?k = "wanted_speed g v"
  let ?d = "[(''speed'', VInt ?k)]"
  let ?h1 = "set_clock ?k (?k = 0) h"
  let ?c = "hs_clock (h_session ?h1)"
  have k: "0 \<le> ?k" "?k \<le> 3" "?k \<in> {0, 1, 2, 3}"
    by (auto simp: wanted_speed_def)
  have c: "ck_speed ?c = ?k" "ck_paused ?c = (?k = 0)"
    by (simp_all add: set_clock_def)
  have sent: "ck_out (fst (clock_wrapped g (SetSpeed v) m)) = ck_out m @ [(''clock.request_speed'', ?d)]"
    "ck_calls (fst (clock_wrapped g (SetSpeed v) m)) = ck_calls m"
    using guest by (simp_all add: clock_wrapped_def clock_request_def ck_emit_def bridge_send_def ck_out_def
        Let_def wanted_speed_def)
  let ?h' = "broadcast ev (mt_value MT_CLOCK_STATE) (clock_dict ?c) ?h1"
  have handled: "handle_clock_speed None ev (host_message pid (''clock.request_speed'', ?d)) h = (?h', None)"
    using k(3) by (simp add: handle_clock_speed_def publish_clock_def broadcast_host_def pget_default_def Let_def)
  have "ck_speed (hs_clock (h_session ?h')) = ?k"
    using c by (simp add: broadcast_up(1) [OF host])
  moreover have "h_log ?h' = h_log h @ map (\<lambda>kv. ToPeer (fst kv) \<lparr>ms_type = mt_value MT_CLOCK_STATE,
      ms_payload = clock_dict ?c, ms_seq = Some (h_seq h + 1)\<rparr>) (h_peers h)"
    by (simp add: broadcast_up(3) [OF host]) (simp add: set_clock_def)
  moreover have "state_speed (ce_text g') (clock_dict ?c) = ?k"
    using session_speed_applied [of ?c] k c by simp
  then have "ck_calls (clock_state g' (clock_dict ?c) m') = ck_calls m' @ [(''set_clock_speed'', speed_mode ?k)]"
    using clock_state_applies [of g' "clock_dict ?c" m'] game by simp
  ultimately show ?thesis
    using sent handled by blast
qed

text \<open>
  A pause the host's game pops is announced with the speed that was popped, which is 0: the
  session, and with it every guest, is paused while the host's game goes on.
\<close>

lemma popped_pause_pauses:
  assumes "clock_speed_value (ce_text g) v = 0" and "\<And>p. ev_up ev p"
  shows "ck_paused (hs_clock (h_session (fst (game_clock_state ev (clock_report g (PopSpeed v)) h)))) = True"
    and "pget (clock_report g (PopSpeed v)) ''paused'' = VBool False"
proof -
  have "pget_default (clock_report g (PopSpeed v)) ''speed'' w = VInt 0" for w
    using assms(1) by (simp add: clock_report_def pget_default_def)
  then show "ck_paused (hs_clock (h_session (fst (game_clock_state ev (clock_report g (PopSpeed v)) h)))) = True"
    using broadcast_up(1) [OF assms(2)] by (simp add: game_clock_state_def Let_def set_clock_def)
  show "pget (clock_report g (PopSpeed v)) ''paused'' = VBool False"
    by (simp add: clock_report_def)
qed

section \<open>Build/Buy operations\<close>

lemma update_same: "map_of d k = Some v \<Longrightarrow> AList.update k v d = d"
  by (induction d) auto

lemma stringify_text: "map_of d k \<in> {None, Some VNone} \<union> range (\<lambda>s. Some (VStr s)) \<Longrightarrow> stringify_key k d = d"
  by (auto simp: stringify_key_def update_same)

lemma stringify_again:
  assumes "set js \<subseteq> set ks"
  shows "stringify_keys js (stringify_keys ks d) = stringify_keys ks d"
  using assms
proof (induction js)
  case (Cons j js)
  have "map_of (stringify_keys ks d) j \<in> {None, Some VNone} \<union> range (\<lambda>s. Some (VStr s))"
    using Cons.prems stringify_keys_text [of j ks d] by (cases "map_of (stringify_keys ks d) j") auto
  then show ?case
    using Cons by (simp add: stringify_keys_def stringify_text [unfolded stringify_keys_def])
qed (simp add: stringify_keys_def)

lemma adapter_keys_known: "set adapter_id_keys \<subseteq> set id_keys"
  by (auto simp: adapter_id_keys_def id_keys_def)

lemma missing_stringified: "missing_field op (stringify_keys ks d) = missing_field op d"
  by (simp add: missing_field_def blank_stringified)

text \<open>
  What the host accepted and announces is read by a receiving game as the operation that was
  made: the same kind and the same data, with the ids as texts.
\<close>

definition announced :: "pydict \<Rightarrow> build_operation \<Rightarrow> bool" where
  "announced p o1 \<longleftrightarrow> pget p ''op'' = VStr (bo_op o1) \<and> pget p ''data'' = VDict (bo_data o1) \<and> p \<noteq> []"

lemma announced_payloads [simp]: "announced (apply_payload o1) o1" "announced (host_apply_payload o1) o1"
  by (simp_all add: announced_def apply_payload_def host_apply_payload_def)

lemma normalize_announced:
  assumes "validate_build_data op data = Inr (bo_data o1)" and "bo_op o1 = op" and "missing_field op data = None"
    and "announced p o1"
  shows "normalize_operation (VDict p) = Inr \<lparr>go_op = op, go_data = bo_data o1, go_id = operation_id p\<rparr>"
proof -
  have op: "op \<in> set OBJECT_OPERATIONS" "op \<noteq> []"
    using validate_accepts_known [OF assms(1)] by (auto simp: OBJECT_OPERATIONS_def)
  have d: "bo_data o1 = stringify_keys id_keys data"
    using validate_result [OF assms(1)] .
  have "py_dict (py_or (VDict (bo_data o1)) (VDict [])) = Inr (bo_data o1)"
    by (simp add: py_or_def)
  then show ?thesis
    using assms op by (simp add: normalize_operation_def announced_def py_or_def Let_def d missing_stringified
        stringify_again [OF adapter_keys_known])
qed

lemma build_end_to_end:
  assumes captured: "capture_local payload a = (a', Some o1)"
    and limits: "length (go_data o1) \<le> MAX_BUILD_DATA_KEYS" "entry_error (go_data o1) = None"
      "go_op o1 = ''funds.modify'' \<Longrightarrow> is_number (pget (stringify_keys id_keys (go_data o1)) ''amount'')"
    and lease: "live_owner now auth = Some pid"
  shows "\<exists>o2. snd (submit now pid (go_op o1) (go_data o1) auth) = Inr o2 \<and> bo_seq o2 = ba_seq auth + 1 \<and>
    normalize_operation (VDict (apply_payload o2)) =
      Inr \<lparr>go_op = go_op o1, go_data = stringify_keys id_keys (go_data o1), go_id = Some (int_str (ba_seq auth + 1))\<rparr>"
proof -
  obtain d where d: "validate_build_data (go_op o1) (go_data o1) = Inr d"
    using captured_validates [OF captured limits] by blast
  then obtain o2 where o2: "snd (submit now pid (go_op o1) (go_data o1) auth) = Inr o2"
    using submit_accepted_iff [of now pid "go_op o1" "go_data o1" auth] lease by blast
  have bo: "bo_op o2 = go_op o1" "bo_data o2 = d" "bo_seq o2 = ba_seq auth + 1"
    using o2 d by (auto simp: submit_def Let_def touch_lock_def split: if_splits option.splits)
  obtain o0 where n: "normalize_operation payload = Inr o0" "o1 = o0\<lparr>go_id := go_id o1\<rparr>"
    using capture_result [OF captured] by blast
  have eq: "go_op o1 = go_op o0" "go_data o1 = go_data o0"
    by (subst n(2), simp)+
  have "missing_field (go_op o1) (go_data o1) = None"
    using normalize_result [OF n(1)] unfolding eq by (auto simp: missing_stringified)
  then have "normalize_operation (VDict (apply_payload o2)) =
      Inr \<lparr>go_op = go_op o1, go_data = bo_data o2, go_id = operation_id (apply_payload o2)\<rparr>"
    using d bo by (intro normalize_announced) simp_all
  moreover have "operation_id (apply_payload o2) = Some (int_str (ba_seq auth + 1))"
    by (simp add: operation_id_def apply_payload_def pget_default_def bo(3))
  ultimately show ?thesis
    using o2 bo validate_result [OF d] by auto
qed

text \<open>
  The host's own operations carry no id on the wire: a receiving game tells two of them apart by
  their content only, and drops the second of two equal ones.
\<close>

lemma host_repeat_dropped:
  assumes "validate_build_data op data = Inr d" and "missing_field op data = None" and "pget d ''op_id'' = VNone"
    and "bo_op o1 = op" "bo_data o1 = d" "bo_op o2 = op" "bo_data o2 = d"
    and "a1 = fst (apply_remote dumps (echo_apply echoes err) (VDict (host_apply_payload o1)) a)"
  shows "apply_remote dumps (echo_apply echoes err) (VDict (host_apply_payload o2)) a1 = (a1, Inr False)"
proof -
  have "operation_id (host_apply_payload o3) = None" if "bo_data o3 = d" for o3
    using assms(3) that by (simp add: operation_id_def host_apply_payload_def pget_default_def)
  then have n: "normalize_operation (VDict (host_apply_payload o3)) = Inr \<lparr>go_op = op, go_data = d, go_id = None\<rparr>"
    if "bo_op o3 = op" "bo_data o3 = d" for o3
    using normalize_announced [of op data o3 "host_apply_payload o3"] assms(1,2) that by simp
  have "remote_key dumps \<lparr>go_op = op, go_data = d, go_id = None\<rparr> \<in> ad_seen a1"
    unfolding assms(8) apply_remote_seen n [OF assms(4,5)] by simp
  then show ?thesis
    by (simp add: apply_remote_def n [OF assms(6,7)])
qed

end
