(* ===== verification/Mod_Patches.thy ===== *)
theory Mod_Patches
  imports KerMP_Prelude KerMP_Interfaces
begin

text \<open>
  How the mod hangs itself into the game and comes off again: the patches of
  \<^verbatim>\<open>src/sims_mod_src/kermp_mod/hooks.py\<close> (\<open>_record_patch\<close>, the \<open>_install_*\<close>
  functions, the command registry, \<open>teardown\<close>). An attribute of the game is a key; a function is the
  game's own, or a wrapper with the function it delegates to.
\<close>

section \<open>Functions of the game\<close>

datatype impl = GameFn string | HookFn string impl | TraceFn string impl

text \<open>
  \<open>_kermp_wrapped\<close> and \<open>_kermp_trace_wrapper\<close>: the tracer's wrapper copies the attributes of
  the function it wraps, the hooks' wrappers do not.
\<close>

fun kermp_wrapped :: "impl \<Rightarrow> bool" where
  "kermp_wrapped (GameFn f) = False"
| "kermp_wrapped (HookFn k i) = True"
| "kermp_wrapped (TraceFn l i) = kermp_wrapped i"

fun trace_wrapped :: "impl \<Rightarrow> bool" where
  "trace_wrapped (TraceFn l i) = True"
| "trace_wrapped _ = False"

text \<open>The game's function at the end of the chain.\<close>

fun game_fn :: "impl \<Rightarrow> string" where
  "game_fn (GameFn f) = f"
| "game_fn (HookFn k i) = game_fn i"
| "game_fn (TraceFn l i) = game_fn i"

type_synonym attrs = "(string \<times> impl) list"

section \<open>Hooks\<close>

record patch_mod =
  pm_attrs :: attrs
  pm_registry :: attrs
  pm_patches :: attrs
  pm_commands :: attrs
  pm_flags :: "string list"

definition unpatched :: "attrs \<Rightarrow> attrs \<Rightarrow> patch_mod" where
  "unpatched as rs = \<lparr>pm_attrs = as, pm_registry = rs, pm_patches = [], pm_commands = [], pm_flags = []\<rparr>"

definition record_patch :: "string \<Rightarrow> impl \<Rightarrow> patch_mod \<Rightarrow> patch_mod" where
  "record_patch k i m = m\<lparr>pm_patches := pm_patches m @ [(k, i)]\<rparr>"

text \<open>
  One hook: nothing when its flag is set; a function that is wrapped already only sets the
  flag.
\<close>

definition install_hook :: "string \<Rightarrow> string \<Rightarrow> patch_mod \<Rightarrow> patch_mod \<times> bool" where
  "install_hook flag k m =
     (if flag \<in> set (pm_flags m) then (m, True)
      else case map_of (pm_attrs m) k of
        None \<Rightarrow> (m, False)
      | Some i \<Rightarrow>
          if kermp_wrapped i then (m\<lparr>pm_flags := flag # pm_flags m\<rparr>, True)
          else ((record_patch k i (m\<lparr>pm_attrs := AList.update k (HookFn k i) (pm_attrs m)\<rparr>))
                  \<lparr>pm_flags := flag # pm_flags m\<rparr>, True))"

text \<open>A command of the game's registry gets a wrapper around the module's current function.\<close>

definition register_command :: "string \<times> string \<Rightarrow> patch_mod \<Rightarrow> patch_mod" where
  "register_command nk m =
     (case map_of (pm_attrs m) (snd nk) of
        None \<Rightarrow> m
      | Some i \<Rightarrow> m\<lparr>pm_registry := AList.update (fst nk) (HookFn (fst nk) i) (pm_registry m),
                      pm_commands := pm_commands m @ [(fst nk, i)]\<rparr>)"

definition PROXY_COMMANDS :: "(string \<times> string) list" where
  "PROXY_COMMANDS =
     [(''interactions.push'', ''interaction_commands.push_interaction''),
      (''interactions.push_targeting_sim_info'', ''interaction_commands.push_targeting_sim_info''),
      (''interactions.cancel_si'', ''interaction_commands.cancel_super_interaction''),
      (''interactions.cancel'', ''interaction_commands.cancel_mixer_interaction''),
      (''interactions.has_choices'', ''interaction_commands.has_choices''),
      (''interactions.choices'', ''interaction_commands.generate_choices''),
      (''interactions.select'', ''interaction_commands.select_choice'')]"

definition PROXY_FLAG :: string where
  "PROXY_FLAG = ''command_proxy''"

definition install_proxy :: "patch_mod \<Rightarrow> patch_mod" where
  "install_proxy m =
     (if PROXY_FLAG \<in> set (pm_flags m) then m
      else (fold register_command PROXY_COMMANDS m)\<lparr>pm_flags := PROXY_FLAG # pm_flags m\<rparr>)"

text \<open>
  \<open>teardown\<close>: the commands in the reverse of their order, then the attributes in the order
  they were patched; \<open>fails\<close> are the attributes the game does not let go of.
\<close>

definition restore_command :: "string \<times> impl \<Rightarrow> patch_mod \<Rightarrow> patch_mod" where
  "restore_command ki m = m\<lparr>pm_registry := AList.update (fst ki) (snd ki) (pm_registry m)\<rparr>"

definition teardown_commands :: "patch_mod \<Rightarrow> patch_mod" where
  "teardown_commands m = (fold restore_command (rev (pm_commands m)) m)\<lparr>pm_commands := []\<rparr>"

definition restore_attr :: "(string \<Rightarrow> bool) \<Rightarrow> string \<times> impl \<Rightarrow> attrs \<Rightarrow> attrs" where
  "restore_attr fails ki as = (if fails (fst ki) then as else AList.update (fst ki) (snd ki) as)"

definition teardown :: "(string \<Rightarrow> bool) \<Rightarrow> patch_mod \<Rightarrow> patch_mod \<times> string list" where
  "teardown fails m =
     (let m1 = teardown_commands m
      in (m1\<lparr>pm_attrs := fold (restore_attr fails) (pm_patches m1) (pm_attrs m1), pm_patches := [], pm_flags := []\<rparr>,
          filter fails (map fst (pm_patches m1))))"

section \<open>Hooks: properties\<close>

text \<open>
  Every patched attribute holds the hook around the function it had, each attribute is patched
  once, and no other one has changed.
\<close>

definition patches_ok :: "attrs \<Rightarrow> patch_mod \<Rightarrow> bool" where
  "patches_ok as0 m \<longleftrightarrow> distinct (map fst (pm_patches m)) \<and>
     (\<forall>(k, i) \<in> set (pm_patches m). map_of as0 k = Some i \<and> \<not> kermp_wrapped i) \<and>
     (\<forall>k. map_of (pm_attrs m) k =
        (case map_of (pm_patches m) k of None \<Rightarrow> map_of as0 k | Some i \<Rightarrow> Some (HookFn k i)))"

lemma patches_ok_unpatched: "patches_ok as (unpatched as rs)"
  by (simp add: patches_ok_def unpatched_def)

lemma install_hook_ok:
  assumes "patches_ok as0 m"
  shows "patches_ok as0 (fst (install_hook flag k m))"
proof (cases "flag \<in> set (pm_flags m) \<or> map_of (pm_attrs m) k = None")
  case True
  then show ?thesis
    using assms by (auto simp: install_hook_def)
next
  case False
  then obtain i where i: "map_of (pm_attrs m) k = Some i"
    by auto
  show ?thesis
  proof (cases "kermp_wrapped i")
    case True
    then show ?thesis
      using assms False i by (simp add: install_hook_def patches_ok_def)
  next
    case unwrapped: False
    have new: "map_of (pm_patches m) k = None"
    proof (cases "map_of (pm_patches m) k")
      case (Some j)
      then have "i = HookFn k j"
        using assms i by (simp add: patches_ok_def)
      then show ?thesis using unwrapped by simp
    qed
    moreover have "map_of as0 k = Some i"
      using assms i new unfolding patches_ok_def by (metis option.case(1))
    moreover have "k \<notin> fst ` set (pm_patches m)"
      using new by (simp add: map_of_eq_None_iff)
    ultimately show ?thesis
      using assms False i unwrapped
      by (auto simp: install_hook_def patches_ok_def record_patch_def update_conv' map_add_def split: option.splits)
  qed
qed

lemma register_frame [simp]:
  "pm_attrs (register_command nk m) = pm_attrs m" "pm_patches (register_command nk m) = pm_patches m"
  "pm_flags (register_command nk m) = pm_flags m"
  by (simp_all add: register_command_def split: option.split)

lemma register_all_frame [simp]:
  "pm_attrs (fold register_command nks m) = pm_attrs m" "pm_patches (fold register_command nks m) = pm_patches m"
  "pm_flags (fold register_command nks m) = pm_flags m"
  by (induction nks arbitrary: m) simp_all

lemma install_proxy_ok: "patches_ok as0 m \<Longrightarrow> patches_ok as0 (install_proxy m)"
  by (simp add: install_proxy_def patches_ok_def)

lemma restore_command_frame [simp]:
  "pm_attrs (restore_command ki m) = pm_attrs m" "pm_patches (restore_command ki m) = pm_patches m"
  by (simp_all add: restore_command_def)

lemma restore_commands_frame [simp]:
  "pm_attrs (fold restore_command kis m) = pm_attrs m" "pm_patches (fold restore_command kis m) = pm_patches m"
  by (induction kis arbitrary: m) simp_all

lemma map_of_restore_attrs:
  "distinct (map fst ps) \<Longrightarrow> map_of (fold (restore_attr fails) ps as) k =
     (case map_of ps k of Some i \<Rightarrow> if fails k then map_of as k else Some i | None \<Rightarrow> map_of as k)"
proof (induction ps arbitrary: as)
  case (Cons p ps)
  have "map_of ps (fst p) = None"
    using Cons.prems by (simp add: map_of_eq_None_iff)
  then show ?case
    using Cons by (cases p) (auto simp: restore_attr_def update_conv' split: option.split)
qed simp

text \<open>
  After the teardown every attribute the game lets go of is what it was before the mod was
  installed; the order in which the patches are undone does not matter.
\<close>

lemma teardown_restores_attrs:
  assumes "patches_ok as0 m"
  shows "map_of (pm_attrs (fst (teardown fails m))) k =
      (if k \<in> set (snd (teardown fails m)) then map_of (pm_attrs m) k else map_of as0 k)"
    and "pm_flags (fst (teardown fails m)) = []" and "pm_patches (fst (teardown fails m)) = []"
proof -
  have d: "distinct (map fst (pm_patches m))"
    using assms by (simp add: patches_ok_def)
  have known: "map_of as0 k = Some i" if "map_of (pm_patches m) k = Some i" for i
    using assms map_of_SomeD [OF that] by (auto simp: patches_ok_def)
  have other: "map_of (pm_attrs m) k = map_of as0 k" if "map_of (pm_patches m) k = None"
    using assms that by (simp add: patches_ok_def)
  have failed: "k \<in> set (filter fails (map fst (pm_patches m))) \<longleftrightarrow> fails k \<and> map_of (pm_patches m) k \<noteq> None"
    by (auto simp: map_of_eq_None_iff)
  show "map_of (pm_attrs (fst (teardown fails m))) k =
      (if k \<in> set (snd (teardown fails m)) then map_of (pm_attrs m) k else map_of as0 k)"
    using known other failed
    by (auto simp: teardown_def teardown_commands_def Let_def map_of_restore_attrs [OF d] split: option.split)
  show "pm_flags (fst (teardown fails m)) = []" "pm_patches (fst (teardown fails m)) = []"
    by (simp_all add: teardown_def Let_def)
qed

text \<open>
  The registry is given back the functions the module held when the proxy was installed. The
  cancel command is already hooked by then, so its wrapper stays behind after the teardown.
\<close>

definition cancel_key :: string where
  "cancel_key = ''interaction_commands.cancel_super_interaction''"

definition proxied_after_cancel_hook :: "attrs \<Rightarrow> attrs \<Rightarrow> patch_mod" where
  "proxied_after_cancel_hook as rs =
     install_proxy (fst (install_hook ''cancel_interception'' cancel_key (unpatched as rs)))"

lemma register_commands:
  "list_all (\<lambda>nk. map_of (pm_attrs m) (snd nk) \<noteq> None) nks \<Longrightarrow>
     pm_commands (fold register_command nks m) =
       pm_commands m @ map (\<lambda>nk. (fst nk, the (map_of (pm_attrs m) (snd nk)))) nks"
proof (induction nks arbitrary: m)
  case (Cons nk nks)
  then have "pm_commands (register_command nk m) = pm_commands m @ [(fst nk, the (map_of (pm_attrs m) (snd nk)))]"
    by (auto simp: register_command_def)
  then show ?case
    using Cons by simp
qed simp

lemma map_of_restore_commands:
  "distinct (map fst kis) \<Longrightarrow> map_of (pm_registry (fold restore_command kis m)) n =
     (case map_of kis n of Some i \<Rightarrow> Some i | None \<Rightarrow> map_of (pm_registry m) n)"
proof (induction kis arbitrary: m)
  case (Cons ki kis)
  have "map_of kis (fst ki) = None"
    using Cons.prems by (simp add: map_of_eq_None_iff)
  then show ?case
    using Cons by (cases ki) (auto simp: restore_command_def update_conv' split: option.split)
qed simp

lemma map_of_distinct_rev: "distinct (map fst xs) \<Longrightarrow> map_of (rev xs) = map_of xs"
  by (rule map_of_eqI) (auto simp: rev_map [symmetric] intro: map_of_is_SomeI)

lemma proxy_names: "distinct (map fst PROXY_COMMANDS)"
  by code_simp

lemma cancel_wrapper_left:
  assumes "list_all (\<lambda>nk. \<exists>f. map_of as (snd nk) = Some (GameFn f)) PROXY_COMMANDS"
    and "map_of as cancel_key = Some (GameFn f)"
  shows "map_of (pm_registry (fst (teardown (\<lambda>k. False) (proxied_after_cancel_hook as rs)))) ''interactions.cancel_si'' =
      Some (HookFn cancel_key (GameFn f))"
    and "map_of (pm_attrs (fst (teardown (\<lambda>k. False) (proxied_after_cancel_hook as rs)))) cancel_key = Some (GameFn f)"
proof -
  define m1 where "m1 = fst (install_hook ''cancel_interception'' cancel_key (unpatched as rs))"
  have m1: "pm_attrs m1 = AList.update cancel_key (HookFn cancel_key (GameFn f)) as" "pm_commands m1 = []"
    "PROXY_FLAG \<notin> set (pm_flags m1)"
    using assms(2) by (simp_all add: m1_def install_hook_def unpatched_def record_patch_def PROXY_FLAG_def)
  have all: "list_all (\<lambda>nk. map_of (pm_attrs m1) (snd nk) \<noteq> None) PROXY_COMMANDS"
    using assms(1) by (auto simp: m1 update_conv' list_all_iff)
  define m2 where "m2 = proxied_after_cancel_hook as rs"
  have m2: "pm_commands m2 = map (\<lambda>nk. (fst nk, the (map_of (pm_attrs m1) (snd nk)))) PROXY_COMMANDS"
    using register_commands [OF all] m1 by (simp add: m2_def proxied_after_cancel_hook_def m1_def [symmetric] install_proxy_def)
  have "distinct (map fst (pm_commands m2))"
    using proxy_names by (simp add: m2 comp_def)
  then have d: "distinct (map fst (rev (pm_commands m2)))"
    by (simp add: rev_map [symmetric])
  have "map_of (pm_commands m2) ''interactions.cancel_si'' = Some (HookFn cancel_key (GameFn f))"
    by (simp add: m2 PROXY_COMMANDS_def m1 update_conv' cancel_key_def)
  moreover have "map_of (rev (pm_commands m2)) = map_of (pm_commands m2)"
    using map_of_distinct_rev \<open>distinct (map fst (pm_commands m2))\<close> by blast
  ultimately show "map_of (pm_registry (fst (teardown (\<lambda>k. False) (proxied_after_cancel_hook as rs)))) ''interactions.cancel_si'' =
      Some (HookFn cancel_key (GameFn f))"
    using map_of_restore_commands [OF d, of m2 "''interactions.cancel_si''"]
    by (simp add: teardown_def teardown_commands_def Let_def m2_def [symmetric])
  have "patches_ok as m2"
    by (simp add: m2_def proxied_after_cancel_hook_def install_proxy_ok install_hook_ok patches_ok_unpatched)
  moreover have "snd (teardown (\<lambda>k. False) m2) = []"
    by (simp add: teardown_def Let_def)
  ultimately show "map_of (pm_attrs (fst (teardown (\<lambda>k. False) (proxied_after_cancel_hook as rs)))) cancel_key = Some (GameFn f)"
    using teardown_restores_attrs(1) [of as m2 "\<lambda>k. False" cancel_key] assms(2)
    by (simp add: m2_def [symmetric])
qed

end
