(* ===== verification/Mod_Trace.thy ===== *)
theory Mod_Trace
  imports Mod_Patches
begin

text \<open>
  The development tracer, \<^verbatim>\<open>src/sims_mod_src/kermp_mod/interaction_trace.py\<close>: which functions
  it wraps, its counters and bounded log, and how it lets go again; and the bounded queue
  \<open>CaptureQueue\<close> of \<^verbatim>\<open>src/kermp/native_capture.py\<close>. The laws of the two logs are the locale
  \<open>bounded_log\<close>.
\<close>

section \<open>The tracer\<close>

definition MAX_EVENTS :: nat where
  "MAX_EVENTS = 512"

definition MAX_PER_FUNCTION :: int where
  "MAX_PER_FUNCTION = 96"

definition SIMULATE_LABEL :: string where
  "SIMULATE_LABEL = ''scheduling.Timeline.simulate''"

definition trace_limit :: "string \<Rightarrow> int" where
  "trace_limit label = (if label = SIMULATE_LABEL then 12 else MAX_PER_FUNCTION)"

text \<open>The functions to wrap: module, owner and attributes.\<close>

type_synonym trace_spec = "string \<times> string option \<times> string list"

definition TRACE_SPECS :: "trace_spec list" where
  "TRACE_SPECS =
     [(''server_commands.interaction_commands'', None,
       [''has_choices'', ''generate_choices'', ''select_choice'', ''push_interaction'',
        ''push_targeting_sim_info'', ''cancel_super_interaction'', ''cancel_mixer_interaction'']),
      (''server.client'', Some ''Client'',
       [''create_interaction_context'', ''set_choices'', ''select_interaction'', ''send_message'']),
      (''interactions.choices'', Some ''ChoiceMenu'',
       [''__init__'', ''add_potential_aops'', ''add_aop'', ''_add_menu_item'', ''select'', ''clear'']),
      (''interactions.aop'', Some ''AffordanceObjectPair'',
       [''test'', ''interaction_factory'', ''execute_interaction'', ''execute'', ''test_and_execute'']),
      (''sims.sim'', Some ''Sim'', [''push_super_affordance'']),
      (''interactions.interaction_queue'', Some ''InteractionQueue'',
       [''append'', ''remove_for_perform'', ''process_one_interaction_gen'',
        ''run_interaction_gen'', ''on_interaction_canceled'']),
      (''interactions.interaction_queue'', Some ''BucketBase'', [''append'', ''insert_next'']),
      (''sims4.commands'', None, [''execute'']),
      (''omega'', None, [''send'']),
      (''distributor.system'', Some ''Distributor'',
       [''add_event'', ''add_op'', ''add_op_with_no_owner'', ''process'']),
      (''server_commands.ui_commands'', None,
       [''ui_dialog_respond'', ''ui_dialog_pick_result'', ''ui_dialog_text_input'']),
      (''scheduling'', Some ''Timeline'', [''simulate''])]"

type_synonym trace_target = "string \<times> string option \<times> string"

definition trace_targets :: "trace_spec list \<Rightarrow> trace_target list" where
  "trace_targets specs = concat (map (\<lambda>(md, ow, as). map (\<lambda>a. (md, ow, a)) as) specs)"

definition trace_label :: "trace_target \<Rightarrow> string" where
  "trace_label tg = (case tg of (md, ow, a) \<Rightarrow>
     md @ ''.'' @ (case ow of None \<Rightarrow> [] | Some w \<Rightarrow> w @ ''.'') @ a)"

text \<open>
  The tracer's state; an event is its number, phase and label, the rest is what the game
  shows. The attributes of the game are known by their label.
\<close>

type_synonym trace_event = "int \<times> string \<times> string"

record trace_mod =
  tm_events :: "trace_event list"
  tm_counts :: "(string \<times> int) list"
  tm_seq :: int
  tm_session :: int
  tm_enabled :: bool
  tm_patches :: attrs
  tm_errors :: "string list"
  tm_attrs :: attrs

definition new_trace :: "attrs \<Rightarrow> trace_mod" where
  "new_trace as = \<lparr>tm_events = [], tm_counts = [], tm_seq = 0, tm_session = 0, tm_enabled = False,
     tm_patches = [], tm_errors = [], tm_attrs = as\<rparr>"

definition trace_count :: "string \<Rightarrow> trace_mod \<Rightarrow> int" where
  "trace_count label m = (case map_of (tm_counts m) label of None \<Rightarrow> 0 | Some n \<Rightarrow> n)"

text \<open>\<open>if len(_events) >= _MAX_EVENTS: del _events[0]\<close>, then the append.\<close>

definition push_event :: "trace_event \<Rightarrow> trace_event list \<Rightarrow> trace_event list" where
  "push_event e es = (if MAX_EVENTS \<le> length es then tl es else es) @ [e]"

definition trace_record :: "string \<Rightarrow> string \<Rightarrow> trace_mod \<Rightarrow> trace_mod" where
  "trace_record phase label m =
     (if \<not> tm_enabled m then m
      else
       (let n = trace_count label m + 1; m1 = m\<lparr>tm_counts := AList.update label n (tm_counts m)\<rparr>
        in if trace_limit label < n then m1
           else m1\<lparr>tm_seq := tm_seq m + 1, tm_events := push_event (tm_seq m + 1, phase, label) (tm_events m)\<rparr>))"

text \<open>The wrapper: the call itself is the game's, whatever the tracer does around it.\<close>

definition traced_call :: "string \<Rightarrow> (trace_mod \<Rightarrow> trace_mod \<times> (py_error + 'a)) \<Rightarrow> trace_mod \<Rightarrow> trace_mod \<times> (py_error + 'a)" where
  "traced_call label original m =
     (case original (trace_record ''enter'' label m) of
        (m1, Inl e) \<Rightarrow> (trace_record ''error'' label m1, Inl e)
      | (m1, Inr v) \<Rightarrow> (trace_record ''exit'' label m1, Inr v))"

definition trace_mark :: "string \<Rightarrow> trace_mod \<Rightarrow> trace_mod" where
  "trace_mark label m = trace_record ''mark'' (''kermp.trace.'' @ take 80 label) m"

text \<open>\<open>_patch\<close> inside the \<open>try\<close> of \<open>start\<close>: an attribute that is not there is an error entry.\<close>

definition patch_error :: "trace_target \<Rightarrow> string" where
  "patch_error tg = (case tg of (md, ow, a) \<Rightarrow>
     md @ ''.'' @ (case ow of None \<Rightarrow> [] | Some w \<Rightarrow> w) @ ''.'' @ a @ '':AttributeError:'' @
     (case ow of None \<Rightarrow> md | Some w \<Rightarrow> w) @ ''.'' @ a @ '' missing'')"

definition trace_patch :: "trace_target \<Rightarrow> trace_mod \<Rightarrow> trace_mod" where
  "trace_patch tg m =
     (case map_of (tm_attrs m) (trace_label tg) of
        None \<Rightarrow> m\<lparr>tm_errors := tm_errors m @ [patch_error tg]\<rparr>
      | Some i \<Rightarrow>
          if trace_wrapped i then m
          else m\<lparr>tm_attrs := AList.update (trace_label tg) (TraceFn (trace_label tg) i) (tm_attrs m),
                 tm_patches := tm_patches m @ [(trace_label tg, i)]\<rparr>)"

definition trace_restore :: "string \<times> impl \<Rightarrow> trace_mod \<Rightarrow> trace_mod" where
  "trace_restore li m =
     (case map_of (tm_attrs m) (fst li) of
        Some j \<Rightarrow> if trace_wrapped j then m\<lparr>tm_attrs := AList.update (fst li) (snd li) (tm_attrs m)\<rparr> else m
      | None \<Rightarrow> m)"

definition trace_stop :: "trace_mod \<Rightarrow> trace_mod" where
  "trace_stop m =
     (let m1 = (trace_record ''mark'' ''kermp.trace.stopped'' m)\<lparr>tm_enabled := False\<rparr>
      in (fold trace_restore (rev (tm_patches m1)) m1)\<lparr>tm_patches := []\<rparr>)"

definition trace_start :: "trace_spec list \<Rightarrow> trace_mod \<Rightarrow> trace_mod" where
  "trace_start specs m =
     (if tm_enabled m then m
      else
       (let m1 = (trace_stop m)\<lparr>tm_events := [], tm_errors := [], tm_counts := [], tm_seq := 0, tm_session := tm_session m + 1\<rparr>
        in trace_record ''mark'' ''kermp.trace.started'' ((fold trace_patch (trace_targets specs) m1)\<lparr>tm_enabled := True\<rparr>)))"

text \<open>\<open>values[-max(0, int(limit)):]\<close>; the slice from \<open>-0\<close> is the whole list.\<close>

definition trace_events :: "int option \<Rightarrow> trace_mod \<Rightarrow> trace_event list" where
  "trace_events limit m =
     (case limit of
        None \<Rightarrow> tm_events m
      | Some n \<Rightarrow> if n \<le> 0 then tm_events m else last_n (nat n) (tm_events m))"

section \<open>The capture queue\<close>

text \<open>The hash of the bytes is a parameter; an item is its number, thread, size and hash.\<close>

type_synonym capture_entry = "int \<times> int \<times> nat \<times> string"

record capture_queue =
  cq_items :: "capture_entry list"
  cq_capacity :: nat
  cq_dropped :: int
  cq_next :: int

definition new_capture_queue :: "int \<Rightarrow> py_error + capture_queue" where
  "new_capture_queue capacity =
     (if capacity < 1 then Inl (ValueError ''capacity must be positive'')
      else Inr \<lparr>cq_items = [], cq_capacity = nat capacity, cq_dropped = 0, cq_next = 1\<rparr>)"

definition capture_item :: "('b list \<Rightarrow> string) \<Rightarrow> 'b list \<Rightarrow> int \<Rightarrow> capture_queue \<Rightarrow> capture_entry" where
  "capture_item sha raw thread q = (cq_next q, thread, length raw, sha raw)"

text \<open>The append to \<open>deque(maxlen=capacity)\<close>, which drops the oldest item when it is full.\<close>

definition deque_append :: "capture_entry \<Rightarrow> capture_queue \<Rightarrow> capture_queue" where
  "deque_append x q = q\<lparr>cq_items := last_n (cq_capacity q) (cq_items q @ [x])\<rparr>"

definition capture_push_item :: "('b list \<Rightarrow> string) \<Rightarrow> 'b list \<Rightarrow> int \<Rightarrow> capture_queue \<Rightarrow> capture_queue \<times> capture_entry" where
  "capture_push_item sha raw thread q =
     (let q1 = (if length (cq_items q) = cq_capacity q then q\<lparr>cq_dropped := cq_dropped q + 1\<rparr> else q);
          x = capture_item sha raw thread q1
      in (deque_append x (q1\<lparr>cq_next := cq_next q1 + 1\<rparr>), x))"

definition capture_take :: "capture_queue \<Rightarrow> capture_queue \<times> capture_entry option" where
  "capture_take q = (case cq_items q of [] \<Rightarrow> (q, None) | i # rest \<Rightarrow> (q\<lparr>cq_items := rest\<rparr>, Some i))"

section \<open>Properties\<close>

lemma length_push_event: "length es \<le> MAX_EVENTS \<Longrightarrow> push_event e es = last_n MAX_EVENTS (es @ [e])"
proof (cases "MAX_EVENTS \<le> length es")
  case True
  moreover assume "length es \<le> MAX_EVENTS"
  ultimately have "length es = MAX_EVENTS" by simp
  then show ?thesis
    by (cases es) (auto simp: push_event_def last_n_def MAX_EVENTS_def)
next
  case False
  then show ?thesis
    by (simp add: push_event_def last_n_def)
qed

text \<open>The log of the recordings that were not suppressed, over a run.\<close>

definition trace_ok :: "trace_mod \<Rightarrow> bool" where
  "trace_ok m \<longleftrightarrow> length (tm_events m) \<le> MAX_EVENTS \<and>
     map fst (tm_events m) = [tm_seq m - int (length (tm_events m)) + 1..tm_seq m] \<and>
     (\<forall>label. int (length (filter (\<lambda>e. snd (snd e) = label) (tm_events m))) \<le> min (trace_limit label) (trace_count label m))"

lemma trace_frame [simp]:
  "tm_attrs (trace_record p l m) = tm_attrs m" "tm_patches (trace_record p l m) = tm_patches m"
  "tm_enabled (trace_record p l m) = tm_enabled m" "tm_errors (trace_record p l m) = tm_errors m"
  by (simp_all add: trace_record_def Let_def)

lemma trace_limit_pos: "0 < trace_limit l"
  by (simp add: trace_limit_def MAX_PER_FUNCTION_def)

lemma seq_numbers_snoc:
  assumes "map fst es = [s - int (length es) + 1..s]"
  shows "map fst es @ [s + 1] = [s - int (length es) + 1..s + 1]"
  using assms upto_rec2 [of "s - int (length es) + 1" "s + 1"] by simp

lemma trace_count_record:
  "trace_count l' (trace_record p l m) = trace_count l' m + (if tm_enabled m \<and> l' = l then 1 else 0)"
  by (simp add: trace_record_def Let_def trace_count_def update_conv')

lemma trace_ok_record:
  assumes "trace_ok m"
  shows "trace_ok (trace_record p l m)"
proof (cases "tm_enabled m \<and> trace_count l m + 1 \<le> trace_limit l")
  case False
  then have same: "tm_events (trace_record p l m) = tm_events m" "tm_seq (trace_record p l m) = tm_seq m"
    by (auto simp: trace_record_def Let_def)
  have "min (trace_limit l') (trace_count l' m) \<le> min (trace_limit l') (trace_count l' (trace_record p l m))" for l'
    unfolding trace_count_record by auto
  then show ?thesis
    using assms unfolding trace_ok_def same by (meson order_trans)
next
  case True
  let ?e = "(tm_seq m + 1, p, l)" and ?es = "tm_events m"
  have new: "tm_events (trace_record p l m) = push_event ?e ?es" "tm_seq (trace_record p l m) = tm_seq m + 1"
    using True by (auto simp: trace_record_def Let_def)
  have counts: "trace_count l' (trace_record p l m) = (if l' = l then trace_count l m + 1 else trace_count l' m)" for l'
    using True by (auto simp: trace_count_record)
  have len: "length ?es \<le> MAX_EVENTS" and nums: "map fst ?es = [tm_seq m - int (length ?es) + 1..tm_seq m]"
    and lab: "int (length (filter (\<lambda>e. snd (snd e) = l') ?es)) \<le> min (trace_limit l') (trace_count l' m)" for l'
    using assms by (auto simp: trace_ok_def)
  have tail: "length (filter P (tl xs)) \<le> length (filter P xs)" for P and xs :: "trace_event list"
    by (cases xs) auto
  show ?thesis
    unfolding trace_ok_def new counts
  proof (intro conjI allI)
    show "length (push_event ?e ?es) \<le> MAX_EVENTS"
      using len by (simp add: length_push_event length_last_n)
    show "map fst (push_event ?e ?es) = [tm_seq m + 1 - int (length (push_event ?e ?es)) + 1..tm_seq m + 1]"
    proof (cases "MAX_EVENTS \<le> length ?es")
      case True
      then obtain x xs where es: "?es = x # xs"
        by (cases ?es) (auto simp: MAX_EVENTS_def)
      have "map fst xs = [tm_seq m - int (length xs) + 1..tm_seq m]"
        using nums upto_rec1 [of "tm_seq m - int (length xs)" "tm_seq m"] by (simp add: es)
      then show ?thesis
        using True seq_numbers_snoc [of xs "tm_seq m"] by (simp add: push_event_def es)
    next
      case False
      then show ?thesis
        using seq_numbers_snoc [OF nums] by (simp add: push_event_def)
    qed
    fix l'
    show "int (length (filter (\<lambda>e. snd (snd e) = l') (push_event ?e ?es)))
        \<le> min (trace_limit l') (if l' = l then trace_count l m + 1 else trace_count l' m)"
      using lab [of l'] tail [of "\<lambda>e. snd (snd e) = l'" ?es] True
      by (auto simp: push_event_def)
  qed
qed

text \<open>Wrapping and restoring: every patched attribute holds the tracer around the function it had.\<close>

definition traced_ok :: "attrs \<Rightarrow> trace_mod \<Rightarrow> bool" where
  "traced_ok as0 m \<longleftrightarrow> distinct (map fst (tm_patches m)) \<and>
     (\<forall>(l, i) \<in> set (tm_patches m). map_of as0 l = Some i) \<and>
     (\<forall>l. map_of (tm_attrs m) l =
        (case map_of (tm_patches m) l of None \<Rightarrow> map_of as0 l | Some i \<Rightarrow> Some (TraceFn l i)))"

lemma traced_ok_record [simp]: "traced_ok as0 (trace_record p l m) \<longleftrightarrow> traced_ok as0 m"
  by (simp add: traced_ok_def)

lemma traced_ok_enabled [simp]: "traced_ok as0 (m\<lparr>tm_enabled := b\<rparr>) \<longleftrightarrow> traced_ok as0 m"
  by (simp add: traced_ok_def)

lemma traced_ok_start_state: "tm_patches m = [] \<Longrightarrow> traced_ok (tm_attrs m) m"
  by (simp add: traced_ok_def)

lemma traced_ok_patch:
  assumes "traced_ok as0 m"
  shows "traced_ok as0 (trace_patch tg m)"
proof (cases "map_of (tm_attrs m) (trace_label tg)")
  case None
  then show ?thesis
    using assms by (simp add: trace_patch_def traced_ok_def)
next
  case (Some i)
  show ?thesis
  proof (cases "trace_wrapped i")
    case True
    then show ?thesis
      using assms Some by (simp add: trace_patch_def)
  next
    case False
    have new: "map_of (tm_patches m) (trace_label tg) = None"
    proof (cases "map_of (tm_patches m) (trace_label tg)")
      case (Some j)
      then have "i = TraceFn (trace_label tg) j"
        using assms \<open>map_of (tm_attrs m) (trace_label tg) = Some i\<close> by (simp add: traced_ok_def)
      then show ?thesis using False by simp
    qed
    moreover have "map_of as0 (trace_label tg) = Some i"
      using assms Some new unfolding traced_ok_def by (metis option.case(1))
    moreover have "trace_label tg \<notin> fst ` set (tm_patches m)"
      using new by (simp add: map_of_eq_None_iff)
    ultimately show ?thesis
      using assms Some False
      by (auto simp: trace_patch_def traced_ok_def update_conv' map_add_def split: option.splits)
  qed
qed

lemma traced_ok_patches: "traced_ok as0 m \<Longrightarrow> traced_ok as0 (fold trace_patch tgs m)"
  by (induction tgs arbitrary: m) (simp_all add: traced_ok_patch)

lemma patch_seq [simp]:
  "tm_seq (trace_patch tg m) = tm_seq m" "tm_events (trace_patch tg m) = tm_events m"
  "tm_counts (trace_patch tg m) = tm_counts m" "tm_enabled (trace_patch tg m) = tm_enabled m"
  by (simp_all add: trace_patch_def split: option.split)

lemma patches_seq [simp]:
  "tm_seq (fold trace_patch tgs m) = tm_seq m" "tm_events (fold trace_patch tgs m) = tm_events m"
  "tm_counts (fold trace_patch tgs m) = tm_counts m" "tm_enabled (fold trace_patch tgs m) = tm_enabled m"
  by (induction tgs arbitrary: m) simp_all

lemma restore_frame [simp]:
  "tm_events (trace_restore li m) = tm_events m" "tm_counts (trace_restore li m) = tm_counts m"
  "tm_seq (trace_restore li m) = tm_seq m" "tm_enabled (trace_restore li m) = tm_enabled m"
  "tm_patches (trace_restore li m) = tm_patches m"
  by (simp_all add: trace_restore_def split: option.split)

lemma restores_frame [simp]:
  "tm_events (fold trace_restore lis m) = tm_events m" "tm_counts (fold trace_restore lis m) = tm_counts m"
  "tm_seq (fold trace_restore lis m) = tm_seq m" "tm_enabled (fold trace_restore lis m) = tm_enabled m"
  by (induction lis arbitrary: m) simp_all

lemma map_of_trace_restores:
  "distinct (map fst lis) \<Longrightarrow> (\<And>l i. (l, i) \<in> set lis \<Longrightarrow> \<exists>j. map_of (tm_attrs m) l = Some j \<and> trace_wrapped j) \<Longrightarrow>
     map_of (tm_attrs (fold trace_restore lis m)) l =
       (case map_of lis l of Some i \<Rightarrow> Some i | None \<Rightarrow> map_of (tm_attrs m) l)"
proof (induction lis arbitrary: m)
  case (Cons li lis)
  obtain l' i where li: "li = (l', i)" by (cases li)
  obtain j where j: "map_of (tm_attrs m) l' = Some j" "trace_wrapped j"
    using Cons.prems(2) [of l' i] li by auto
  have attrs: "tm_attrs (trace_restore li m) = AList.update l' i (tm_attrs m)"
    using j by (simp add: trace_restore_def li)
  have none: "map_of lis l' = None"
    using Cons.prems(1) li by (simp add: map_of_eq_None_iff)
  have "\<exists>j. map_of (tm_attrs (trace_restore li m)) l2 = Some j \<and> trace_wrapped j" if "(l2, i2) \<in> set lis" for l2 i2
  proof -
    have "l2 \<noteq> l'"
      using that Cons.prems(1) li by (auto simp: image_iff)
    then show ?thesis
      using Cons.prems(2) [of l2 i2] that attrs by (auto simp: update_conv')
  qed
  then have "map_of (tm_attrs (fold trace_restore lis (trace_restore li m))) l =
      (case map_of lis l of Some i \<Rightarrow> Some i | None \<Rightarrow> map_of (tm_attrs (trace_restore li m)) l)"
    using Cons.prems(1) by (intro Cons.IH) auto
  then show ?case
    using none attrs by (auto simp: li update_conv' split: option.split)
qed simp

text \<open>After \<open>stop\<close> the game's attributes are what they were.\<close>

lemma stop_restores:
  assumes "traced_ok as0 m"
  shows "map_of (tm_attrs (trace_stop m)) = map_of as0" and "tm_patches (trace_stop m) = []"
    and "\<not> tm_enabled (trace_stop m)"
proof -
  have d: "distinct (map fst (rev (tm_patches m)))" and rev: "map_of (rev (tm_patches m)) = map_of (tm_patches m)"
    using assms map_of_distinct_rev by (auto simp: traced_ok_def rev_map [symmetric])
  have wrapped: "\<exists>j. map_of (tm_attrs m) l = Some j \<and> trace_wrapped j" if "(l, i) \<in> set (rev (tm_patches m))" for l i
    using assms that by (auto simp: traced_ok_def split: option.splits)
  have "map_of (tm_attrs (trace_stop m)) l = map_of as0 l" for l
  proof (cases "map_of (tm_patches m) l")
    case None
    then show ?thesis
      using assms wrapped
      by (simp add: trace_stop_def Let_def map_of_trace_restores [OF d] rev traced_ok_def del: set_rev)
  next
    case (Some i)
    then have "map_of as0 l = Some i"
      using assms map_of_SomeD [OF Some] by (auto simp: traced_ok_def)
    then show ?thesis
      using Some wrapped by (simp add: trace_stop_def Let_def map_of_trace_restores [OF d] rev del: set_rev)
  qed
  then show "map_of (tm_attrs (trace_stop m)) = map_of as0" by blast
  show "tm_patches (trace_stop m) = []" "\<not> tm_enabled (trace_stop m)"
    by (simp_all add: trace_stop_def Let_def)
qed

lemma trace_ok_stop: "trace_ok m \<Longrightarrow> trace_ok (trace_stop m)"
  using trace_ok_record [of m "''mark''" "''kermp.trace.stopped''"]
  by (simp add: trace_stop_def Let_def trace_ok_def trace_count_def)

lemma trace_ok_start: "trace_ok m \<Longrightarrow> trace_ok (trace_start specs m)"
proof (cases "tm_enabled m")
  case False
  have "trace_ok m0" if "tm_events m0 = []" "tm_counts m0 = []" for m0
    using that trace_limit_pos by (simp add: trace_ok_def trace_count_def less_imp_le)
  then show ?thesis
    using False by (simp add: trace_start_def Let_def trace_ok_record)
qed (simp add: trace_start_def)

lemma restores_no_patches: "tm_patches m = [] \<Longrightarrow> tm_attrs (trace_stop m) = tm_attrs m"
  by (simp add: trace_stop_def Let_def)

text \<open>A started and stopped tracer leaves no trace in the game.\<close>

lemma start_stop_restores:
  assumes "\<not> tm_enabled m" and "tm_patches m = []"
  shows "map_of (tm_attrs (trace_stop (trace_start specs m))) = map_of (tm_attrs m)"
proof -
  have "traced_ok (tm_attrs m) (trace_stop m\<lparr>tm_events := [], tm_errors := [], tm_counts := [], tm_seq := 0, tm_session := tm_session m + 1\<rparr>)"
    using assms by (simp add: traced_ok_def restores_no_patches) (simp add: trace_stop_def Let_def)
  then have "traced_ok (tm_attrs m) (trace_start specs m)"
    using traced_ok_patches assms(1) by (simp add: trace_start_def Let_def)
  then show ?thesis by (rule stop_restores(1))
qed

text \<open>The tracer never changes what a call gives.\<close>

lemma traced_call_transparent:
  "snd (traced_call l original m) = snd (original (trace_record ''enter'' l m))"
  by (simp add: traced_call_def split: prod.split sum.split)

lemma zero_limit_is_everything: "trace_events (Some 0) m = trace_events None m"
  by (simp add: trace_events_def)

lemma trace_specs_labels: "distinct (map trace_label (trace_targets TRACE_SPECS)) \<and> length (trace_targets TRACE_SPECS) = 40"
  by code_simp

interpretation trace_log: bounded_log "\<lambda>es. last_n MAX_EVENTS es" "\<lambda>es. MAX_EVENTS" push_event
proof unfold_locales
  fix e :: trace_event and es
  have "push_event e (last_n MAX_EVENTS es) = last_n MAX_EVENTS (last_n MAX_EVENTS es @ [e])"
    by (rule length_push_event) (simp add: length_last_n)
  show "last_n MAX_EVENTS (push_event e es) = last_n MAX_EVENTS (last_n MAX_EVENTS es @ [e])"
    by (auto simp: push_event_def last_n_def MAX_EVENTS_def drop_Suc [symmetric] tl_drop)
qed simp

section \<open>The capture queue: properties\<close>

interpretation captured: bounded_log cq_items cq_capacity deque_append
  by unfold_locales (simp_all add: deque_append_def)

text \<open>A run of the queue: the bytes pushed by a thread, or the consumer taking one item.\<close>

datatype 'b queue_event = QPush "'b list" int | QTake

fun queue_step :: "('b list \<Rightarrow> string) \<Rightarrow> 'b queue_event \<Rightarrow> capture_queue \<times> capture_entry list \<Rightarrow> capture_queue \<times> capture_entry list" where
  "queue_step sha (QPush raw t) (q, out) = (fst (capture_push_item sha raw t q), out)"
| "queue_step sha QTake (q, out) =
     (case capture_take q of (q1, None) \<Rightarrow> (q1, out) | (q1, Some x) \<Rightarrow> (q1, out @ [x]))"

text \<open>The numbers of the queued items are consecutive, every number is queued, taken or counted as
  dropped, and the taken ones come in order, before the queued ones.\<close>

definition queue_ok :: "capture_queue \<times> capture_entry list \<Rightarrow> bool" where
  "queue_ok qo \<longleftrightarrow> (case qo of (q, out) \<Rightarrow>
     0 < cq_capacity q \<and> length (cq_items q) \<le> cq_capacity q \<and>
     map fst (cq_items q) = [cq_next q - int (length (cq_items q))..cq_next q - 1] \<and>
     cq_next q - 1 = cq_dropped q + int (length out) + int (length (cq_items q)) \<and>
     sorted_wrt (<) (map fst out) \<and> (\<forall>x \<in> set out. fst x < cq_next q - int (length (cq_items q))))"

lemma queue_ok_new: "new_capture_queue c = Inr q \<Longrightarrow> queue_ok (q, [])"
  by (auto simp: new_capture_queue_def queue_ok_def split: if_splits)

lemma queue_ok_push:
  assumes "queue_ok (q, out)"
  shows "queue_ok (fst (capture_push_item sha raw t q), out)"
proof -
  define n where "n = int (length (cq_items q))"
  define x where "x = capture_item sha raw t q"
  define r where "r = fst (capture_push_item sha raw t q)"
  have ok: "0 < cq_capacity q" "length (cq_items q) \<le> cq_capacity q" "map fst (cq_items q) = [cq_next q - n..cq_next q - 1]"
    "cq_next q - 1 = cq_dropped q + int (length out) + n" "sorted_wrt (<) (map fst out)"
    "\<And>y. y \<in> set out \<Longrightarrow> fst y < cq_next q - n"
    using assms by (auto simp: queue_ok_def n_def)
  have x: "fst x = cq_next q" "capture_item sha raw t (q\<lparr>cq_dropped := d\<rparr>) = x" for d
    by (simp_all add: x_def capture_item_def)
  have r: "cq_capacity r = cq_capacity q" "cq_next r = cq_next q + 1"
    "cq_items r = last_n (cq_capacity q) (cq_items q @ [x])"
    "cq_dropped r = (if length (cq_items q) = cq_capacity q then cq_dropped q + 1 else cq_dropped q)"
    using x(2) by (simp_all add: r_def capture_push_item_def deque_append_def Let_def x_def)
  have "queue_ok (r, out)"
  proof (cases "length (cq_items q) = cq_capacity q")
    case True
    then obtain y ys where items: "cq_items q = y # ys"
      using ok(1) by (cases "cq_items q") auto
    have len: "int (length ys) = n - 1"
      by (simp add: n_def items)
    have "map fst ys = [cq_next q - n + 1..cq_next q - 1]"
      using ok(3) len upto_rec1 [of "cq_next q - n" "cq_next q - 1"] by (simp add: items)
    moreover have "[cq_next q - n + 1..cq_next q - 1] @ [cq_next q] = [cq_next q - n + 1..cq_next q]"
      using upto_rec2 [of "cq_next q - n + 1" "cq_next q"] len by simp
    moreover have "cq_items r = ys @ [x]"
      using True by (simp add: r last_n_def items)
    moreover have "cq_next q - n + 1 = cq_next q + 1 - n" by simp
    ultimately have rr: "map fst (cq_items r) = [cq_next q + 1 - n..cq_next q]" "int (length (cq_items r)) = n"
      "length (cq_items r) = cq_capacity r"
      using x(1) len True by (simp_all add: r(1) items)
    have "fst z < cq_next q + 1 - n" if "z \<in> set out" for z
      using ok(6) [OF that] by simp
    moreover have "int (cq_capacity q) = n"
      using True by (simp add: n_def)
    ultimately show ?thesis
      using True ok(1,4,5) rr r(1,2,4) by (simp add: queue_ok_def)
  next
    case False
    then have lt: "length (cq_items q) < cq_capacity q" using ok(2) by simp
    then have items: "cq_items r = cq_items q @ [x]"
      by (simp add: r last_n_def)
    have "[cq_next q - n..cq_next q - 1] @ [cq_next q] = [cq_next q - n..cq_next q]"
      using upto_rec2 [of "cq_next q - n" "cq_next q"] by (simp add: n_def)
    then have "map fst (cq_items r) = [cq_next q - n..cq_next q]"
      using ok(3) x(1) by (simp add: items)
    then show ?thesis
      using False lt ok(1,4,5,6) r by (simp add: queue_ok_def items n_def)
  qed
  then show ?thesis by (simp add: r_def)
qed

lemma queue_ok_take:
  assumes "queue_ok (q, out)"
  shows "queue_ok (queue_step sha QTake (q, out))"
proof (cases "cq_items q")
  case Nil
  then show ?thesis using assms by (simp add: capture_take_def)
next
  case (Cons x xs)
  then have "fst x = cq_next q - int (length (cq_items q))" "map fst xs = [cq_next q - int (length xs)..cq_next q - 1]"
    using assms upto_rec1 [of "cq_next q - int (length (cq_items q))" "cq_next q - 1"] by (auto simp: queue_ok_def)
  then show ?thesis
    using assms Cons by (auto simp: capture_take_def queue_ok_def sorted_wrt_append)
qed

lemma queue_ok_run: "queue_ok qo \<Longrightarrow> queue_ok (fold (queue_step sha) evs qo)"
proof (induction evs arbitrary: qo)
  case (Cons ev evs)
  have "queue_ok (queue_step sha ev qo)"
    using Cons.prems queue_ok_push queue_ok_take by (cases ev; cases qo) auto
  then show ?case
    using Cons.IH by simp
qed simp

end
