(* ===== verification/Mod_Native.thy ===== *)
theory Mod_Native
  imports Mod_Replay Mod_Travel Mod_Patches
begin

text \<open>
  \<^verbatim>\<open>src/sims_mod_src/kermp_mod/hooks.py\<close>, calls of the game the mod takes over as a whole: the
  wrapper of \<open>Sim.push_super_affordance\<close>, the native travel command in both directions, the
  active Sim and the zone start. The \<open>last_*\<close> fields of the statistics, which only the
  console shows, are left out.
\<close>

section \<open>\<open>Sim.push_super_affordance\<close>\<close>

text \<open>\<open>kwargs.get(name)\<close>, with a positional argument in its place when that is \<open>None\<close>.\<close>

definition named_arg :: "string \<Rightarrow> nat \<Rightarrow> gval list \<Rightarrow> (string \<times> gval) list \<Rightarrow> gval" where
  "named_arg name i args kwargs =
     (let v = gget (GMap kwargs) name in
      if v = GNone \<and> i < length args then args ! i else v)"

definition with_translation :: "gval \<Rightarrow> gval" where
  "with_translation c = (if is_gmap c \<and> gget c ''translation'' \<noteq> GNone then c else GNone)"

text \<open>Only a target without an id can give its own position, else the pick does.\<close>

definition push_position ::
  "(gval \<Rightarrow> string) \<Rightarrow> (string \<Rightarrow> rat option) \<Rightarrow> gval \<Rightarrow> gval \<Rightarrow> py_error + gval" where
  "push_position rep flt tgt pick =
     (case (if coerce_id tgt = None then serialize_transform rep flt tgt else Inr GNone) of
        Inl e \<Rightarrow> Inl e
      | Inr c \<Rightarrow>
          if with_translation c \<noteq> GNone then Inr c
          else map_sum id with_translation (serialize_transform rep flt pick))"

definition json_kind :: "gval \<Rightarrow> bool" where
  "json_kind v \<longleftrightarrow> gscalar v \<or> (case v of GSeq xs \<Rightarrow> True | GMap d \<Rightarrow> True | _ \<Rightarrow> False)"

definition push_kwargs :: "(gval \<Rightarrow> string) \<Rightarrow> (string \<times> gval) list \<Rightarrow> (string \<times> gval) list" where
  "push_kwargs rep kwargs =
     filter (\<lambda>kv. json_kind (snd kv))
       (map (\<lambda>kv. (fst kv, hook_json rep 0 (snd kv)))
         (filter (\<lambda>kv. fst kv \<notin> {''target'', ''context''}) kwargs))"

definition opt_id :: "string \<Rightarrow> int option \<Rightarrow> string" where
  "opt_id none i = (case i of None \<Rightarrow> none | Some n \<Rightarrow> int_str n)"

definition push_request ::
  "(rat \<Rightarrow> string) \<Rightarrow> string \<Rightarrow> int \<Rightarrow> int option \<Rightarrow> int option \<Rightarrow> gval \<Rightarrow> (string \<times> gval) list \<Rightarrow> pydict" where
  "push_request ft rid aid tid sid position kwargs =
     [(''request_id'', VStr rid), (''affordance_id'', VStr (int_str aid)),
      (''target_id'', VStr (opt_id ''0'' tid)), (''sim_id'', VStr (opt_id [] sid)),
      (''position'', wire ft position), (''interaction_kwargs'', wire ft (GMap kwargs))]"

text \<open>What the wrapper returns on a client in every case: nothing, without calling the game.\<close>

definition swallowed :: capture_outcome where
  "swallowed = \<lparr>co_forwarded = False, co_local = 0, co_raised = None\<rparr>"

text \<open>\<open>trace\<close> is the text of a traceback. The request is remembered before it is sent.\<close>

definition push_wrapper ::
  "player_env \<Rightarrow> (py_error \<Rightarrow> string) \<Rightarrow> gval \<Rightarrow> gval \<Rightarrow> gval list \<Rightarrow> (string \<times> gval) list \<Rightarrow> inter_mod \<Rightarrow>
     inter_mod \<times> capture_outcome" where
  "push_wrapper g trace sim affordance args kwargs m =
     (if \<not> client_role m then (m, delegated g)
      else
       (let tgt = named_arg ''target'' 0 args kwargs; context = named_arg ''context'' 1 args kwargs;
            tid = coerce_id tgt; sid = sim_id_of sim;
            failed = (\<lambda>e m. (m\<lparr>im_error := Some (trace e)\<rparr>, swallowed))
        in case coerce_id affordance of
             None \<Rightarrow> ((stat ''dropped'' m)\<lparr>im_error := Some ''affordance_id_unresolved''\<rparr>, swallowed)
           | Some aid \<Rightarrow>
              (let m1 = stat ''forwarded'' m;
                   pick = (case gget (GMap kwargs) ''pick'' of GNone \<Rightarrow> gattr context ''pick'' | p \<Rightarrow> p)
               in case push_position (pe_repr g) (pe_float g) tgt pick of
                    Inl e \<Rightarrow> failed e m1
                  | Inr position \<Rightarrow>
                     (let kw = push_kwargs (pe_repr g) kwargs; rid = ''local-'' @ pe_uuid g;
                          m2 = remember rid [(''sim_id'', VStr (opt_id [] sid))] m1
                      in if \<not> plain position \<or> \<not> plain (GMap kw)
                         then failed (TypeError ''Object is not JSON serializable'') m2
                         else case im_emit (pe_up g) ''interaction.request''
                                     (push_request (pe_text g) rid aid tid sid position kw) m2 of
                           (m3, Inl e) \<Rightarrow> failed e m3
                         | (m3, Inr False) \<Rightarrow> (m3\<lparr>im_error := Some ''bridge_disconnected''\<rparr>, swallowed)
                         | (m3, Inr True) \<Rightarrow> (stat ''sent'' m3, forwarded)))))"

text \<open>A client never runs the push itself, and says so truthfully: the message is on the wire or not.\<close>

lemma push_wrapper_never_local:
  assumes "client_role m" and "push_wrapper g trace sim aff args kwargs m = (m1, r)"
  shows "co_local r = 0" and "co_raised r = None"
    and "(if co_forwarded r then \<exists>d. im_sent m1 = im_sent m @ [(''interaction.request'', d)] else im_sent m1 = im_sent m)"
  using assms
  by (auto simp: push_wrapper_def Let_def swallowed_def forwarded_def
      split: option.splits sum.splits if_splits prod.splits bool.splits dest: im_emit_sent)

lemma pget_push_request [simp]:
  "pget (push_request ft rid aid tid sid p kw) ''request_id'' = VStr rid"
  "pget (push_request ft rid aid tid sid p kw) ''affordance_id'' = VStr (int_str aid)"
  "pget (push_request ft rid aid tid sid p kw) ''target_id'' = VStr (opt_id ''0'' tid)"
  "pget (push_request ft rid aid tid sid p kw) ''sim_id'' = VStr (opt_id [] sid)"
  "pget (push_request ft rid aid tid sid p kw) ''interaction_kwargs'' = wire ft (GMap kw)"
  "pget (push_request ft rid aid tid sid p kw) ''target_kind'' = VNone"
  "pget (push_request ft rid aid tid sid p kw) ''pick'' = VNone"
  by (simp_all add: push_request_def pget_def)

lemma pindex_push_request [simp]:
  "pindex (push_request ft rid aid tid sid p kw) ''sim_id'' = Inr (VStr (opt_id [] sid))"
  "pindex (push_request ft rid aid tid sid p kw) ''affordance_id'' = Inr (VStr (int_str aid))"
  by (simp_all add: push_request_def pindex_def)

lemma int_text_opt_id: "int_text (VStr (opt_id ''0'' tid)) = Inr (case tid of None \<Rightarrow> 0 | Some i \<Rightarrow> i)"
proof (cases tid)
  case None
  have "int_text (VStr ''0'') = Inr 0" by code_simp
  then show ?thesis using None by (simp add: opt_id_def)
qed (simp add: opt_id_def)

lemma py_dict_wire_kwargs: "py_dict (py_or (wire ft (GMap kw)) (VDict [])) = Inr (map (\<lambda>kv. (fst kv, wire ft (snd kv))) kw)"
  by (cases kw) (simp_all add: py_or_def)

text \<open>
  The message carries no kind, so the host takes every push for one at an object: with an id
  the same object is pushed, without one object 0 is looked up, whatever the position says.
\<close>

lemma push_request_target:
  "resolve_target g (push_request ft rid aid tid sid p kw) =
     (let i = (case tid of None \<Rightarrow> 0 | Some i \<Rightarrow> i) in
      if ve_object g i then Inr (ObjectTarget i) else Inl (StageError ''resolve_object_target'' ''target_not_found''))"
  by (simp add: resolve_target_def lookup_id_def int_text_opt_id Let_def py_or_def)

lemma push_request_resolves:
  assumes "ve_sim g s" and "ve_affordance g aid" and "ve_object g i" and "ve_context g = None"
  shows "resolve_interaction g (push_request ft rid aid (Some i) (Some s) p kw) =
      Inr (s, aid, ObjectTarget i, map (\<lambda>kv. (fst kv, wire ft (snd kv))) kw)"
  using assms push_request_target [of g ft rid aid "Some i" "Some s" p kw] int_text_int_str [of s]
  by (simp add: resolve_interaction_def lookup_id_def opt_id_def Let_def resolve_context_def py_dict_wire_kwargs py_or_def)

lemma ground_push_refused:
  assumes "\<not> ve_object g 0" and "ve_sim g s" and "ve_affordance g aid"
  shows "resolve_interaction g (push_request ft rid aid None (Some s) p kw) =
      Inl (StageError ''resolve_object_target'' ''target_not_found'')"
  using assms push_request_target [of g ft rid aid None "Some s" p kw] int_text_int_str [of s]
  by (simp add: resolve_interaction_def lookup_id_def opt_id_def Let_def)

section \<open>The native travel command\<close>

definition has_text :: "string \<Rightarrow> string \<Rightarrow> bool" where
  "has_text p s \<longleftrightarrow> list_ex (\<lambda>i. take (length p) (drop i s) = p) [0..<Suc (length s)]"

definition zone_arg :: "string \<Rightarrow> bool" where
  "zone_arg n \<longleftrightarrow> has_text ''zone'' (py_lower n) \<and> (has_text ''id'' (py_lower n) \<or> py_lower n = ''zone'')"

definition actors_arg :: "string \<Rightarrow> bool" where
  "actors_arg n \<longleftrightarrow> has_text ''sim'' (py_lower n) \<and> (has_text ''id'' (py_lower n) \<or> has_text ''ids'' (py_lower n))"

text \<open>The loop over the bound arguments: the last zone and the last actors win.\<close>

fun travel_args :: "(string \<times> gval) list \<Rightarrow> gval \<Rightarrow> gval list \<Rightarrow> gval \<times> gval list" where
  "travel_args [] zone actors = (zone, actors)"
| "travel_args ((n, v) # vs) zone actors =
     (if zone_arg n then travel_args vs v actors
      else if actors_arg n then travel_args vs zone (case v of GSeq xs \<Rightarrow> xs | _ \<Rightarrow> [v])
      else travel_args vs zone actors)"

text \<open>\<open>str(value)\<close>; \<open>txt\<close> is the one of a float or an object.\<close>

fun gstr :: "(gval \<Rightarrow> string) \<Rightarrow> gval \<Rightarrow> string" where
  "gstr txt GNone = ''None''"
| "gstr txt (GBool b) = (if b then ''True'' else ''False'')"
| "gstr txt (GInt i) = int_str i"
| "gstr txt (GStr s) = s"
| "gstr txt v = txt v"

definition attr_or_self :: "string \<Rightarrow> gval \<Rightarrow> gval" where
  "attr_or_self n v = (case gattr_opt v n of None \<Rightarrow> v | Some w \<Rightarrow> w)"

definition travel_payload :: "(gval \<Rightarrow> string) \<Rightarrow> gval \<Rightarrow> gval list \<Rightarrow> pydict" where
  "travel_payload txt zone actors =
     [(''zone_id'', VStr (gstr txt (attr_or_self ''zone_id'' zone))),
      (''actor_ids'', VList (map (\<lambda>a. VStr (gstr txt (attr_or_self ''id'' a))) actors))]"

text \<open>
  The wrapper of \<open>travel_sims_to_zone\<close>; the flag of the result says that the game's command
  runs. Unless the mod itself calls it, a travel becomes a request to the sidecar, on the host too.
\<close>

definition natural_travel ::
  "(gval \<Rightarrow> string) \<Rightarrow> game_env \<Rightarrow> bool \<Rightarrow> (string \<times> gval) list \<Rightarrow> game_mod \<Rightarrow> mres \<times> bool" where
  "natural_travel txt g bypass bound m =
     (if bypass then ((m, ge_travel g), True)
      else case travel_args bound GNone [] of (zone, actors) \<Rightarrow>
        if zone = GNone then ((m, Some (RuntimeError ''natural_travel_zone_id_unresolved'')), False)
        else (mod_emit g ''travel.request'' (travel_payload txt zone actors) m, False))"

text \<open>
  What the game gives the command: whether it is there, whether the persistence service
  knows a zone (\<open>None\<close>: there is no such service), the active Sim, and what a call raises.
\<close>

record native_env =
  ne_command :: bool
  ne_zone :: "(int \<Rightarrow> bool) option"
  ne_active :: "int option"
  ne_call :: "int \<Rightarrow> int \<Rightarrow> int list \<Rightarrow> py_error option"

fun int_texts :: "pyval list \<Rightarrow> py_error + int list" where
  "int_texts [] = Inr []"
| "int_texts (v # vs) =
     (case int_text v of
        Inl e \<Rightarrow> Inl e
      | Inr i \<Rightarrow> (case int_texts vs of Inl e \<Rightarrow> Inl e | Inr ks \<Rightarrow> Inr (i # ks)))"

text \<open>\<open>_invoke_native_travel\<close> up to the call: the active Sim, the zone and who travels with it.\<close>

definition native_travel_args :: "native_env \<Rightarrow> pydict \<Rightarrow> py_error + int \<times> int \<times> int list" where
  "native_travel_args g payload =
     (if \<not> ne_command g then Inl (RuntimeError ''travel_sims_to_zone_not_found'')
      else case int_text (pget payload ''zone_id'') of
        Inl e \<Rightarrow> Inl e
      | Inr z \<Rightarrow>
         (case py_iter (py_or (pget payload ''actor_ids'') (VList [])) of
            Inl e \<Rightarrow> Inl e
          | Inr vs \<Rightarrow>
             (case int_texts vs of
                Inl e \<Rightarrow> Inl e
              | Inr ids \<Rightarrow>
                 (let actors = (if ids = [] then (case ne_active g of None \<Rightarrow> [] | Some a \<Rightarrow> [a]) else ids) in
                  if (case ne_zone g of None \<Rightarrow> False | Some known \<Rightarrow> \<not> known z)
                  then Inl (ValueError ''destination_zone_not_found'')
                  else if actors = [] then Inl (ValueError ''travel_actor_not_found'')
                  else case ne_active g of
                    None \<Rightarrow> Inl (ValueError ''travel_actor_not_found'')
                  | Some a \<Rightarrow> Inr (a, z, filter (\<lambda>i. i \<noteq> a) actors)))))"

text \<open>The calls made with the flag of the wrapper they meet, the flag afterwards, the exception.\<close>

type_synonym native_call = "(int \<times> int \<times> int list) \<times> bool"

definition invoke_native_travel ::
  "native_env \<Rightarrow> pydict \<Rightarrow> bool \<Rightarrow> native_call list \<times> bool \<times> py_error option" where
  "invoke_native_travel g payload bypass =
     (case native_travel_args g payload of
        Inl e \<Rightarrow> ([], bypass, Some e)
      | Inr (a, z, ts) \<Rightarrow> ([((a, z, ts), True)], False, ne_call g a z ts))"

lemma int_texts_int_str: "int_texts (map (\<lambda>i. VStr (int_str i)) ids) = Inr ids"
  by (induction ids) simp_all

text \<open>
  A natural travel of one computer reaches the game's command of every computer with the same
  zone and Sims, the active Sim of that game as the leader instead of an actor.
\<close>

lemma travel_request_invokes:
  assumes "pget payload ''zone_id'' = VStr (int_str z)"
    and "pget payload ''actor_ids'' = VList (map (\<lambda>i. VStr (int_str i)) ids)"
    and "ne_command g" and "ne_zone g = None \<or> (\<exists>known. ne_zone g = Some known \<and> known z)" and "ne_active g = Some a"
  shows "invoke_native_travel g payload bypass =
      ([((a, z, filter (\<lambda>i. i \<noteq> a) ids), True)], False, ne_call g a z (filter (\<lambda>i. i \<noteq> a) ids))"
  using assms int_texts_int_str [of ids]
  by (cases ids) (auto simp: invoke_native_travel_def native_travel_args_def py_or_def)

lemma natural_travel_payload:
  "pget (travel_payload txt (GInt z) (map GInt ids)) ''zone_id'' = VStr (int_str z)"
  "pget (travel_payload txt (GInt z) (map GInt ids)) ''actor_ids'' = VList (map (\<lambda>i. VStr (int_str i)) ids)"
  by (simp_all add: travel_payload_def pget_def attr_or_self_def comp_def)

text \<open>The replayed command does not come back as a request: no loop between games.\<close>

lemma replayed_travel_not_requested:
  assumes "invoke_native_travel n payload b = (calls, b1, e)" and "(c, flag) \<in> set calls"
  shows "natural_travel txt g flag bound m = ((m, ge_travel g), True)" and "\<not> b1"
  using assms by (auto simp: invoke_native_travel_def natural_travel_def split: sum.splits)

section \<open>The active Sim\<close>

text \<open>
  A setter of the game's client: not there, or what it raises for an id; \<open>ae_original\<close> are
  the ones the mod has wrapped.
\<close>

record active_env =
  ae_client :: bool
  ae_by_id :: "(int \<Rightarrow> py_error option) option"
  ae_by_sim :: "(int \<Rightarrow> py_error option) option"
  ae_hooked_id :: bool
  ae_hooked_sim :: bool
  ae_sim :: "int \<Rightarrow> bool"

datatype select_call = SelectById int | SelectSim int

text \<open>\<open>_restore_active_sim\<close> after a travel: the setters called and whether it was restored.\<close>

definition restore_active_sim :: "active_env \<Rightarrow> string option \<Rightarrow> select_call list \<times> bool" where
  "restore_active_sim g selected =
     (case selected of
        None \<Rightarrow> ([], False)
      | Some s \<Rightarrow>
         if s = [] then ([], False)
         else case parse_int s of
           None \<Rightarrow> ([], False)
         | Some i \<Rightarrow>
            (case (if ae_client g then ae_by_id g else None) of
               Some f \<Rightarrow> ([SelectById i], f i = None)
             | None \<Rightarrow>
                if \<not> ae_sim g i \<or> \<not> ae_client g then ([], False)
                else case ae_by_sim g of
                  None \<Rightarrow> ([], False)
                | Some f \<Rightarrow> ([SelectSim i], f i = None)))"

text \<open>
  \<open>_restore_local_active_sim\<close>: the first of the two setters the mod has wrapped is called
  unwrapped; when the Sim is not there nothing is called and it still says yes.
\<close>

definition restore_local_active_sim :: "active_env \<Rightarrow> string option \<Rightarrow> select_call list \<times> bool" where
  "restore_local_active_sim g own =
     (case own of
        None \<Rightarrow> ([], False)
      | Some s \<Rightarrow>
         if s = [] \<or> \<not> ae_client g then ([], False)
         else
          (let fails = (\<lambda>f i. (case f of None \<Rightarrow> False | Some h \<Rightarrow> h i \<noteq> None)) in
           case parse_int s of
             None \<Rightarrow> ([], False)
           | Some i \<Rightarrow>
              if ae_hooked_id g then ([SelectById i], \<not> fails (ae_by_id g) i)
              else if \<not> ae_hooked_sim g then ([], False)
              else if \<not> ae_sim g i then ([], True)
              else ([SelectSim i], \<not> fails (ae_by_sim g) i)))"

definition called_id :: "select_call \<Rightarrow> int" where
  "called_id c = (case c of SelectById i \<Rightarrow> i | SelectSim i \<Rightarrow> i)"

text \<open>At most one setter is called, and only with the Sim that was selected.\<close>

lemma restore_only_selected:
  "restore_active_sim g (Some s) = (cs, ok) \<Longrightarrow> c \<in> set cs \<Longrightarrow> parse_int s = Some (called_id c) \<and> length cs = 1"
  "restore_local_active_sim g (Some s) = (cs, ok) \<Longrightarrow> c \<in> set cs \<Longrightarrow> parse_int s = Some (called_id c) \<and> length cs = 1"
  by (auto simp: restore_active_sim_def restore_local_active_sim_def called_id_def Let_def
      split: option.splits if_splits)

lemma restored_was_called: "restore_active_sim g sel = (cs, True) \<Longrightarrow> cs \<noteq> []"
  by (auto simp: restore_active_sim_def split: option.splits if_splits)

lemma local_restore_claims:
  assumes "ae_client g" and "\<not> ae_hooked_id g" and "ae_hooked_sim g" and "\<not> ae_sim g i"
  shows "restore_local_active_sim g (Some (int_str i)) = ([], True)"
proof -
  have "parse_int (int_str i) = Some i"
    using py_int_int_str [of i] by (auto split: option.splits)
  moreover have "int_str i \<noteq> []"
    by (simp add: int_str_def)
  ultimately show ?thesis
    using assms by (simp add: restore_local_active_sim_def)
qed

text \<open>
  The wrappers of the two setters and of \<open>do_zone_spin_up\<close>: the game's function first, then
  the mod's report, whose exceptions are kept. \<open>raised\<close> is what the game's function raises.
\<close>

definition after_original :: "py_error option \<Rightarrow> (game_mod \<Rightarrow> mres) \<Rightarrow> game_mod \<Rightarrow> mres" where
  "after_original raised f m = (case raised of Some e \<Rightarrow> (m, Some e) | None \<Rightarrow> (fst (f m), None))"

definition active_sim_wrapped :: "game_env \<Rightarrow> py_error option \<Rightarrow> game_mod \<Rightarrow> mres" where
  "active_sim_wrapped g raised m = after_original raised (publish_active_sim g) m"

definition zone_wrapped :: "game_env \<Rightarrow> py_error option \<Rightarrow> game_mod \<Rightarrow> mres" where
  "zone_wrapped g raised m = after_original raised (after_zone_spin_up g) m"

text \<open>The game sees exactly the exceptions of its own functions.\<close>

lemma wrappers_transparent:
  "snd (active_sim_wrapped g raised m) = raised" "snd (zone_wrapped g raised m) = raised"
  by (simp_all add: active_sim_wrapped_def zone_wrapped_def after_original_def split: option.split)

text \<open>
  \<open>_install_active_sim_hooks\<close> patches whichever setters are there and not wrapped yet, and
  keeps its flag only when it patched one.
\<close>

definition hook_attr :: "string \<Rightarrow> patch_mod \<times> bool \<Rightarrow> patch_mod \<times> bool" where
  "hook_attr k r =
     (case map_of (pm_attrs (fst r)) k of
        None \<Rightarrow> r
      | Some i \<Rightarrow>
          if kermp_wrapped i then r
          else (record_patch k i ((fst r)\<lparr>pm_attrs := AList.update k (HookFn k i) (pm_attrs (fst r))\<rparr>), True))"

definition ACTIVE_SIM_KEYS :: "string list" where
  "ACTIVE_SIM_KEYS = [''client.set_active_sim_by_id'', ''client.set_active_sim'']"

definition install_active_sim_hooks :: "patch_mod \<Rightarrow> patch_mod \<times> bool" where
  "install_active_sim_hooks m =
     (if ''active_sim'' \<in> set (pm_flags m) then (m, True)
      else case fold hook_attr ACTIVE_SIM_KEYS (m, False) of
        (m1, done_any) \<Rightarrow> (if done_any then m1\<lparr>pm_flags := ''active_sim'' # pm_flags m1\<rparr> else m1, done_any))"

section \<open>The object hooks\<close>

text \<open>
  \<open>_install_object_build_hooks\<close>: what is callable is wrapped, in this order; a function wrapped
  already counts as installed.
\<close>

definition OBJECT_HOOKS :: "(string \<times> string) list" where
  "OBJECT_HOOKS =
     [(''move_hook'', ''build_buy.c_api_set_object_location_ex''), (''funds_hook'', ''build_buy.c_api_modify_household_funds''),
      (''create_hook'', ''objects.system.c_api_create_object''), (''destroy_hook'', ''objects.system.c_api_destroy_object''),
      (''parent_hook'', ''objects.system.c_api_set_parent_object''),
      (''clear_parent_hook'', ''objects.system.c_api_clear_parent_object''),
      (''definition_hook'', ''ClientObjectMixin.set_definition''), (''scale_hook'', ''ClientObjectMixin._resend_client_scale'')]"

definition install_wrapper :: "string \<times> string \<Rightarrow> patch_mod \<Rightarrow> patch_mod \<times> bool" where
  "install_wrapper lk m =
     (case map_of (pm_attrs m) (snd lk) of
        None \<Rightarrow> (m, False)
      | Some i \<Rightarrow> if kermp_wrapped i then (m, True) else hook_attr (snd lk) (m, False))"

definition install_object_hooks :: "patch_mod \<Rightarrow> patch_mod" where
  "install_object_hooks m = fold (\<lambda>lk m. fst (install_wrapper lk m)) OBJECT_HOOKS m"

lemma hook_attr_ok:
  assumes "patches_ok as0 (fst r)"
  shows "patches_ok as0 (fst (hook_attr k r))"
proof -
  have "patches_ok as0 ((fst r)\<lparr>pm_flags := []\<rparr>)"
    using assms by (simp add: patches_ok_def)
  from install_hook_ok [OF this, of "''f''" k] show ?thesis
    using assms by (auto simp: install_hook_def hook_attr_def patches_ok_def record_patch_def split: option.splits if_splits)
qed

lemma hook_attrs_ok: "patches_ok as0 (fst r) \<Longrightarrow> patches_ok as0 (fst (fold hook_attr ks r))"
  by (induction ks arbitrary: r) (simp_all add: hook_attr_ok)

lemma install_active_sim_ok:
  assumes "patches_ok as0 m"
  shows "patches_ok as0 (fst (install_active_sim_hooks m))"
proof -
  have "patches_ok as0 (fst (fold hook_attr ACTIVE_SIM_KEYS (m, False)))"
    using assms by (intro hook_attrs_ok) simp
  then show ?thesis
    using assms by (auto simp: install_active_sim_hooks_def patches_ok_def split: prod.split)
qed

lemma install_wrapper_ok: "patches_ok as0 m \<Longrightarrow> patches_ok as0 (fst (install_wrapper lk m))"
  using hook_attr_ok [of as0 "(m, False)"] by (auto simp: install_wrapper_def split: option.split)

lemma install_object_hooks_ok: "patches_ok as0 m \<Longrightarrow> patches_ok as0 (install_object_hooks m)"
proof -
  have "patches_ok as0 (fold (\<lambda>lk m. fst (install_wrapper lk m)) lks m)" if "patches_ok as0 m" for lks m
    using that by (induction lks arbitrary: m) (simp_all add: install_wrapper_ok)
  then show "patches_ok as0 m \<Longrightarrow> patches_ok as0 (install_object_hooks m)"
    by (simp add: install_object_hooks_def)
qed

end
