(* ===== verification/Mod_Environment.thy ===== *)
theory Mod_Environment
  imports Mod_Native
begin

text \<open>
  \<^verbatim>\<open>src/sims_mod_src/kermp_mod/hooks.py\<close>, the mod's dealings with the managers of the game: the
  life of a remote player's client outside the game's own distributor, the listings of Sims,
  objects and affordances, the value and owner of an object, the Build/Buy notifications
  and the callback on a zone's wall contours.
\<close>

section \<open>Clients outside the distributor\<close>

text \<open>
  A client of the game as the lifecycle wrappers see it, and what its account, the skewers and
  the watchers hold. \<open>_selectable_sims\<close> is \<open>None\<close> after a removal.
\<close>

record native_client =
  nc_id :: int
  nc_account :: bool
  nc_sims :: "int list option"
  nc_watchable :: bool
  nc_setter :: bool
  nc_sim :: "int option"
  nc_enabled :: bool

record client_life =
  lc_headless :: "int list"
  lc_accounts :: "int list"
  lc_skewer :: "(int \<times> int) list"
  lc_watchers :: "int list"
  lc_stock :: "(string \<times> int) list"
  lc_stage :: string

definition stage :: "string \<Rightarrow> client_life \<Rightarrow> client_life" where
  "stage t l = l\<lparr>lc_stage := t\<rparr>"

definition not_iterable :: py_error where
  "not_iterable = TypeError (repr_str ''NoneType'' @ '' object is not iterable'')"

text \<open>The wrapper of \<open>Client.on_add\<close>; other clients go to the game's own method.\<close>

definition client_on_add :: "native_client \<Rightarrow> client_life \<Rightarrow> client_life \<times> py_error option" where
  "client_on_add c l =
     (if nc_id c \<notin> set (lc_headless l) then (l\<lparr>lc_stock := lc_stock l @ [(''on_add'', nc_id c)]\<rparr>, None)
      else
       (let l1 = stage ''on_add_headless'' l;
            l2 = (if nc_account c then l1\<lparr>lc_accounts := nc_id c # lc_accounts l1\<rparr> else l1)
        in case nc_sims c of
             None \<Rightarrow> (l2, Some not_iterable)
           | Some sims \<Rightarrow>
              (let l3 = l2\<lparr>lc_skewer := rev (map (Pair (nc_id c)) sims) @ lc_skewer l2\<rparr>;
                   l4 = (if nc_watchable c then l3\<lparr>lc_watchers := nc_id c # lc_watchers l3\<rparr> else l3)
               in (stage ''on_add_headless_complete'' l4, None))))"

text \<open>The wrapper of \<open>Client.on_remove\<close>: in the order of the additions.\<close>

definition client_on_remove :: "native_client \<Rightarrow> client_life \<Rightarrow> native_client \<times> client_life \<times> py_error option" where
  "client_on_remove c l =
     (if nc_id c \<notin> set (lc_headless l) then (c, l\<lparr>lc_stock := lc_stock l @ [(''on_remove'', nc_id c)]\<rparr>, None)
      else
       (let l1 = stage ''on_remove_headless'' l;
            c1 = (if nc_setter c then c\<lparr>nc_sim := None\<rparr> else c);
            l2 = (if nc_account c then l1\<lparr>lc_accounts := remove1 (nc_id c) (lc_accounts l1)\<rparr> else l1)
        in case nc_sims c of
             None \<Rightarrow> (c1, l2, Some not_iterable)
           | Some sims \<Rightarrow>
              (let l3 = l2\<lparr>lc_skewer := fold (\<lambda>s. remove1 (nc_id c, s)) sims (lc_skewer l2)\<rparr>;
                   l4 = (if nc_watchable c then l3\<lparr>lc_watchers := remove1 (nc_id c) (lc_watchers l3)\<rparr> else l3)
               in (c1\<lparr>nc_sims := None, nc_enabled := False\<rparr>, stage ''on_remove_headless_complete'' l4, None))))"

text \<open>The game's own methods run for its own clients only, and always for them.\<close>

lemma stock_only_own:
  "lc_stock (fst (client_on_add c l)) =
     lc_stock l @ (if nc_id c \<in> set (lc_headless l) then [] else [(''on_add'', nc_id c)])"
  "lc_stock (fst (snd (client_on_remove c l))) =
     lc_stock l @ (if nc_id c \<in> set (lc_headless l) then [] else [(''on_remove'', nc_id c)])"
  by (auto simp: client_on_add_def client_on_remove_def stage_def Let_def split: option.split)

lemma remove_pairs: "fold (\<lambda>s. remove1 (i, s)) sims (map (Pair i) sims @ xs) = xs"
  by (induction sims) simp_all

lemma fold_remove1_commute:
  "fold (\<lambda>s. remove1 (i, s)) sims (remove1 p xs) = remove1 p (fold (\<lambda>s. remove1 (i, s)) sims xs)"
  by (induction sims arbitrary: xs) (simp_all add: remove1_commute)

lemma remove_pairs_rev: "fold (\<lambda>s. remove1 (i, s)) sims (rev (map (Pair i) sims) @ xs) = xs"
proof (induction sims arbitrary: xs)
  case (Cons s sims)
  have "fold (\<lambda>s. remove1 (i, s)) (s # sims) (rev (map (Pair i) (s # sims)) @ xs) =
      remove1 (i, s) (fold (\<lambda>s. remove1 (i, s)) sims (rev (map (Pair i) sims) @ (i, s) # xs))"
    by (simp add: fold_remove1_commute)
  also have "\<dots> = xs"
    using Cons.IH [of "(i, s) # xs"] by simp
  finally show ?case .
qed simp

text \<open>A client that comes and goes leaves nothing behind in the game.\<close>

lemma headless_add_remove:
  assumes "nc_id c \<in> set (lc_headless l)" and "nc_sims c = Some sims"
    and "client_on_add c l = (l1, e1)" and "client_on_remove c l1 = (c2, l2, e2)"
  shows "e1 = None \<and> e2 = None \<and> lc_accounts l2 = lc_accounts l \<and> lc_skewer l2 = lc_skewer l \<and>
      lc_watchers l2 = lc_watchers l \<and> lc_stock l2 = lc_stock l \<and> nc_sims c2 = None \<and> \<not> nc_enabled c2"
  using assms
  by (cases "nc_account c"; cases "nc_watchable c")
    (auto simp: client_on_add_def client_on_remove_def stage_def Let_def remove_pairs_rev)

text \<open>A second removal of the same client fails after its account was given up a second time.\<close>

lemma second_remove_fails:
  assumes "nc_id c \<in> set (lc_headless l)" and "client_on_remove c l = (c1, l1, None)"
  shows "snd (snd (client_on_remove c1 l1)) = Some not_iterable"
  using assms by (auto simp: client_on_remove_def stage_def Let_def split: option.splits if_splits)

section \<open>Listings\<close>

text \<open>\<open>a or b\<close> on values of the game.\<close>

definition gor :: "gval \<Rightarrow> gval \<Rightarrow> gval" where
  "gor a b = (if gtruthy a then a else b)"

definition gattr_or :: "gval \<Rightarrow> string \<Rightarrow> gval \<Rightarrow> gval" where
  "gattr_or v n d = (case gattr_opt v n of None \<Rightarrow> d | Some w \<Rightarrow> w)"

text \<open>
  \<open>enumerate_sims\<close>: \<open>loaded\<close> asks a Sim's record for its instance; an exception ends the listing
  where it is.
\<close>

definition sim_name :: "(gval \<Rightarrow> string) \<Rightarrow> gval \<Rightarrow> string" where
  "sim_name tx info =
     (let full = gattr info ''full_name'';
          split_name = py_strip (gstr tx (gattr_or info ''first_name'' (GStr [])) @ '' '' @
                    gstr tx (gattr_or info ''last_name'' (GStr [])));
          name = (if gtruthy full then gstr tx full else split_name)
      in if name = [] then gstr tx (gattr info ''id'') else name)"

fun enumerate_sims :: "(gval \<Rightarrow> string) \<Rightarrow> (gval \<Rightarrow> py_error + bool) \<Rightarrow> gval list \<Rightarrow> (string \<times> string) list" where
  "enumerate_sims tx loaded [] = []"
| "enumerate_sims tx loaded (info # infos) =
     (if gattr info ''id'' = GNone then enumerate_sims tx loaded infos
      else case loaded info of
        Inl e \<Rightarrow> []
      | Inr False \<Rightarrow> enumerate_sims tx loaded infos
      | Inr True \<Rightarrow> (gstr tx (gattr info ''id''), sim_name tx info) # enumerate_sims tx loaded infos)"

text \<open>\<open>enumerate_objects\<close>; \<open>cls\<close> is \<open>type(obj).__name__\<close>.\<close>

definition object_name :: "(gval \<Rightarrow> string) \<Rightarrow> (gval \<Rightarrow> string) \<Rightarrow> gval \<Rightarrow> string" where
  "object_name tx cls obj =
     gstr tx (gor (gattr (gattr obj ''definition'') ''name'') (gor (gattr obj ''full_name'') (GStr (cls obj))))"

fun list_objects ::
  "(gval \<Rightarrow> string) \<Rightarrow> (gval \<Rightarrow> string) \<Rightarrow> int \<Rightarrow> gval list \<Rightarrow> (string \<times> string \<times> string) list \<Rightarrow>
     (string \<times> string \<times> string) list" where
  "list_objects tx cls limit [] acc = acc"
| "list_objects tx cls limit (obj # objs) acc =
     (if limit \<le> int (length acc) then acc
      else if gattr obj ''id'' = GNone then list_objects tx cls limit objs acc
      else list_objects tx cls limit objs
             (acc @ [(gstr tx (gattr obj ''id''), object_name tx cls obj, cls obj)]))"

definition enumerate_objects ::
  "(gval \<Rightarrow> string) \<Rightarrow> (gval \<Rightarrow> string) \<Rightarrow> int \<Rightarrow> gval list \<Rightarrow> (string \<times> string \<times> string) list" where
  "enumerate_objects tx cls limit objs = list_objects tx cls limit objs []"

text \<open>
  \<open>enumerate_affordances\<close>: the first collection with something in it; a source is an object, its
  definition, its class. \<open>values\<close> is \<open>list(value)\<close>, called first when it is callable, and
  \<open>None\<close> when that raises.
\<close>

definition AFFORDANCE_ATTRS :: "string list" where
  "AFFORDANCE_ATTRS = [''_super_affordances'', ''super_affordances'', ''affordances'', ''available_affordances'']"

fun first_nonempty :: "(gval \<Rightarrow> gval list option) \<Rightarrow> gval list \<Rightarrow> gval list" where
  "first_nonempty values [] = []"
| "first_nonempty values (v # vs) =
     (if v = GNone then first_nonempty values vs
      else case values v of
        None \<Rightarrow> first_nonempty values vs
      | Some xs \<Rightarrow> if xs = [] then first_nonempty values vs else xs)"

definition affordance_candidates :: "(gval \<Rightarrow> gval list option) \<Rightarrow> gval \<Rightarrow> gval \<Rightarrow> gval list" where
  "affordance_candidates values obj cls =
     first_nonempty values (concat (map (\<lambda>src. map (gattr src) AFFORDANCE_ATTRS) [obj, gattr obj ''definition'', cls]))"

definition affordance_id :: "gval \<Rightarrow> gval" where
  "affordance_id a = gor (gattr a ''guid64'') (gor (gattr a ''guid'') (gattr a ''id''))"

definition affordance_name :: "(gval \<Rightarrow> string) \<Rightarrow> (gval \<Rightarrow> string) \<Rightarrow> gval \<Rightarrow> string" where
  "affordance_name tx cls a =
     gstr tx (gor (gattr a ''__name__'') (gor (gattr a ''display_name'') (GStr (cls a))))"

text \<open>The bound is tested after an entry was added.\<close>

fun list_affordances ::
  "(gval \<Rightarrow> string) \<Rightarrow> (gval \<Rightarrow> string) \<Rightarrow> int \<Rightarrow> gval list \<Rightarrow> (string \<times> string) list \<Rightarrow> (string \<times> string) list" where
  "list_affordances tx cls limit [] acc = acc"
| "list_affordances tx cls limit (a # as) acc =
     (let aid = affordance_id a; s = gstr tx aid in
      if aid = GNone \<or> s \<in> set (map fst acc) then list_affordances tx cls limit as acc
      else (let acc1 = acc @ [(s, affordance_name tx cls a)] in
            if limit \<le> int (length acc1) then acc1 else list_affordances tx cls limit as acc1))"

definition enumerate_affordances ::
  "(gval \<Rightarrow> string) \<Rightarrow> (gval \<Rightarrow> string) \<Rightarrow> (gval \<Rightarrow> gval list option) \<Rightarrow> int \<Rightarrow> gval option \<Rightarrow> gval \<Rightarrow>
     py_error + (string \<times> string) list" where
  "enumerate_affordances tx cls values limit obj klass =
     (case obj of
        None \<Rightarrow> Inl (ValueError ''object_not_found'')
      | Some v \<Rightarrow> Inr (list_affordances tx cls limit (affordance_candidates values v klass) []))"

lemma list_objects_bounded:
  "length acc \<le> nat limit \<Longrightarrow> length (list_objects tx cls limit objs acc) \<le> nat limit"
  by (induction tx cls limit objs acc rule: list_objects.induct) auto

lemma enumerate_objects_bounded: "length (enumerate_objects tx cls limit objs) \<le> nat limit"
  by (simp add: enumerate_objects_def list_objects_bounded)

text \<open>The listing is the first objects with an id, in the manager's order.\<close>

lemma list_objects_prefix:
  "length acc \<le> nat limit \<Longrightarrow> list_objects tx cls limit objs acc =
     acc @ take (nat limit - length acc)
       (map (\<lambda>ob. (gstr tx (gattr ob ''id''), object_name tx cls ob, cls ob)) (filter (\<lambda>ob. gattr ob ''id'' \<noteq> GNone) objs))"
proof (induction tx cls limit objs acc rule: list_objects.induct)
  case (2 tx cls limit obj objs acc)
  show ?case
  proof (cases "limit \<le> int (length acc)")
    case True
    then show ?thesis by simp
  next
    case False
    moreover from this have "nat limit - length acc = Suc (nat limit - Suc (length acc))"
      by linarith
    ultimately show ?thesis using 2 by auto
  qed
qed simp

lemma enumerate_objects_prefix:
  "enumerate_objects tx cls limit objs =
     take (nat limit) (map (\<lambda>ob. (gstr tx (gattr ob ''id''), object_name tx cls ob, cls ob))
       (filter (\<lambda>ob. gattr ob ''id'' \<noteq> GNone) objs))"
  by (simp add: enumerate_objects_def list_objects_prefix)

lemma list_affordances_ok:
  "distinct (map fst acc) \<Longrightarrow> length acc < max 1 (nat limit) \<Longrightarrow>
     distinct (map fst (list_affordances tx cls limit as acc)) \<and>
     length (list_affordances tx cls limit as acc) \<le> max 1 (nat limit)"
  by (induction tx cls limit as acc rule: list_affordances.induct) (auto simp: Let_def)

text \<open>No affordance is listed twice; a bound below one still lets one through.\<close>

lemma enumerate_affordances_ok:
  assumes "enumerate_affordances tx cls values limit obj klass = Inr as"
  shows "distinct (map fst as)" and "length as \<le> max 1 (nat limit)"
  using assms list_affordances_ok [of "[]" limit tx cls]
  by (auto simp: enumerate_affordances_def split: option.splits)

lemma zero_bound_lists_one:
  assumes "affordance_id a \<noteq> GNone"
  shows "length (list_affordances tx cls 0 (a # as) []) = 1"
  using assms by (simp add: Let_def)

text \<open>Every listed Sim has an instance in the zone.\<close>

lemma enumerate_sims_loaded:
  "s \<in> set (enumerate_sims tx loaded infos) \<Longrightarrow>
     \<exists>info \<in> set infos. loaded info = Inr True \<and> fst s = gstr tx (gattr info ''id'') \<and> gattr info ''id'' \<noteq> GNone"
  by (induction infos) (auto split: sum.splits bool.splits if_splits)

text \<open>\<open>_queue_entries\<close>: the queue of a Sim under the text of each interaction's id.\<close>

definition queue_entries :: "(gval \<Rightarrow> string) \<Rightarrow> gval list \<Rightarrow> (string \<times> gval) list" where
  "queue_entries tx queue =
     fold (\<lambda>i d. if gattr i ''id'' = GNone then d else AList.update (gstr tx (gattr i ''id'')) i d) queue []"

section \<open>Value and owner of an object\<close>

definition VALUE_ATTRS :: "string list" where
  "VALUE_ATTRS = [''current_value'', ''catalog_value'', ''price'']"

fun amount :: "gval \<Rightarrow> int option" where
  "amount (GBool b) = Some (if b then 1 else 0)"
| "amount (GInt i) = (if 0 \<le> i then Some i else None)"
| "amount (GFloat r) = (if 0 \<le> r then Some (rat_trunc r) else None)"
| "amount v = None"

text \<open>\<open>_object_value\<close>; \<open>get\<close> is \<open>getattr\<close>, which may raise, and \<open>call\<close> the call of a method.\<close>

fun first_amount :: "(string \<Rightarrow> py_error + gval) \<Rightarrow> (gval \<Rightarrow> py_error + gval) \<Rightarrow> string list \<Rightarrow> int option" where
  "first_amount get call [] = None"
| "first_amount get call (n # ns) =
     (case (case get n of Inl e \<Rightarrow> Inl e | Inr v \<Rightarrow> if gcallable v then call v else Inr v) of
        Inl e \<Rightarrow> first_amount get call ns
      | Inr v \<Rightarrow> (case amount v of Some i \<Rightarrow> Some i | None \<Rightarrow> first_amount get call ns))"

definition object_value :: "gval \<Rightarrow> (string \<Rightarrow> py_error + gval) \<Rightarrow> (gval \<Rightarrow> py_error + gval) \<Rightarrow> int option" where
  "object_value obj get call = (if obj = GNone then None else first_amount get call VALUE_ATTRS)"

definition is_absent :: "gval \<Rightarrow> bool" where
  "is_absent v \<longleftrightarrow> v = GNone \<or> v = GInt 0 \<or> v = GBool False \<or> v = GFloat 0"

text \<open>
  \<open>_object_household_id\<close>: the getter first, then the attribute; an owner from the getter that is
  no number raises.
\<close>

definition object_household_id :: "(gval \<Rightarrow> py_error + gval) \<Rightarrow> gval \<Rightarrow> py_error + int option" where
  "object_household_id call obj =
     (let getter = gattr obj ''get_household_owner_id'';
          got = (if gcallable getter then (case call getter of Inl e \<Rightarrow> GNone | Inr v \<Rightarrow> v) else GNone);
          attr = gattr obj ''household_owner_id''
      in if obj = GNone then Inr None
         else if \<not> is_absent got
         then (case gint got of None \<Rightarrow> Inl (ValueError ''invalid literal for int()'') | Some i \<Rightarrow> Inr (Some i))
         else if is_absent attr then Inr None else Inr (gint attr))"

lemma rat_trunc_nonneg: "0 \<le> r \<Longrightarrow> 0 \<le> rat_trunc r"
  by (simp add: rat_trunc_def)

lemma amount_nonneg: "amount v = Some i \<Longrightarrow> 0 \<le> i"
  by (induction v rule: amount.induct) (auto simp: rat_trunc_nonneg split: if_splits)

text \<open>A value is never negative, whatever the object answers.\<close>

lemma object_value_nonneg: "object_value obj get call = Some i \<Longrightarrow> 0 \<le> i"
proof -
  have "first_amount get call ns = Some i \<Longrightarrow> 0 \<le> i" for ns
    by (induction ns) (auto simp: amount_nonneg split: sum.splits option.splits if_splits)
  then show "object_value obj get call = Some i \<Longrightarrow> 0 \<le> i"
    by (auto simp: object_value_def split: if_splits)
qed

section \<open>Build/Buy mode\<close>

text \<open>Entering and leaving Build mode ask the host for the lease and give it back.\<close>

definition on_build_buy_enter :: "bool \<Rightarrow> bridge_client \<Rightarrow> bridge_client \<times> (py_error + bool)" where
  "on_build_buy_enter up b = bridge_send up ''build.lock_request'' [] b"

definition on_build_buy_exit :: "bool \<Rightarrow> bridge_client \<Rightarrow> bridge_client \<times> (py_error + bool)" where
  "on_build_buy_exit up b = bridge_send up ''build.lock_release'' [] b"

text \<open>
  The registrations of the game: whether each function is there. Both are looked up before
  the first is called; in the teardown each is tried on its own.
\<close>

record build_callbacks =
  bb_enter_api :: bool
  bb_exit_api :: bool
  bb_unregister_enter :: bool
  bb_unregister_exit :: bool
  bb_enter :: nat
  bb_exit :: nat

definition install_build_buy :: "build_callbacks \<Rightarrow> build_callbacks" where
  "install_build_buy b =
     (if bb_enter_api b \<and> bb_exit_api b then b\<lparr>bb_enter := bb_enter b + 1, bb_exit := bb_exit b + 1\<rparr> else b)"

definition teardown_build_buy :: "build_callbacks \<Rightarrow> build_callbacks" where
  "teardown_build_buy b =
     b\<lparr>bb_enter := (if bb_unregister_enter b then bb_enter b - 1 else bb_enter b),
        bb_exit := (if bb_unregister_exit b then bb_exit b - 1 else bb_exit b)\<rparr>"

lemma build_buy_restored:
  assumes "bb_unregister_enter b" and "bb_unregister_exit b" and "bb_enter_api b" and "bb_exit_api b"
  shows "teardown_build_buy (install_build_buy b) = b"
  using assms by (simp add: teardown_build_buy_def install_build_buy_def)

section \<open>The wall contour callback\<close>

text \<open>
  The callbacks of a zone are an object with methods: each is absent, no function, or a
  function that works or raises. \<open>wc_count\<close> is how often the mod's callback is in it. The zone
  in play names its collection, so the registration of an earlier zone stays visible.
\<close>

datatype attr_kind = Missing | NotCallable | Works | Raises

record wall_callbacks =
  wc_append :: attr_kind
  wc_register :: attr_kind
  wc_removers :: "(string \<times> attr_kind) list"
  wc_count :: nat

record wall_mod =
  wm_zone :: "string option"
  wm_collections :: "(string \<times> wall_callbacks) list"
  wm_registered :: bool
  wm_registration :: "(string \<times> string) option"
  wm_events :: nat

definition wall_collection :: "wall_mod \<Rightarrow> (string \<times> wall_callbacks) option" where
  "wall_collection m =
     (case wm_zone m of None \<Rightarrow> None | Some z \<Rightarrow> map_option (Pair z) (map_of (wm_collections m) z))"

definition collection_semantics :: "bool \<Rightarrow> wall_callbacks \<Rightarrow> string" where
  "collection_semantics is_callable c =
     (let fn = (\<lambda>k. k = Works \<or> k = Raises) in
      if fn (wc_append c) then ''appendable''
      else if fn (wc_register c) then ''registerable''
      else if is_callable then ''callable-only'' else ''opaque'')"

text \<open>\<open>_install_wall_contour_callback\<close>: \<open>append\<close> before \<open>register\<close>, once and for all zones.\<close>

definition add_callback :: "string \<Rightarrow> string \<Rightarrow> attr_kind \<Rightarrow> wall_callbacks \<Rightarrow> wall_mod \<Rightarrow> wall_mod" where
  "add_callback z name k c m =
     (if k = Works
      then m\<lparr>wm_collections := AList.update z (c\<lparr>wc_count := wc_count c + 1\<rparr>) (wm_collections m),
              wm_registered := True, wm_registration := Some (z, name)\<rparr>
      else m)"

definition install_wall_callback :: "wall_mod \<Rightarrow> wall_mod" where
  "install_wall_callback m =
     (case wall_collection m of
        None \<Rightarrow> m
      | Some (z, c) \<Rightarrow>
          if wm_registered m then m
          else if wc_append c = Works \<or> wc_append c = Raises then add_callback z ''append'' (wc_append c) c m
          else add_callback z ''register'' (wc_register c) c m)"

definition wall_event :: "wall_mod \<Rightarrow> wall_mod" where
  "wall_event m = m\<lparr>wm_events := wm_events m + 1\<rparr>"

text \<open>\<open>_teardown_wall_contour_callback\<close>: the first remover that works.\<close>

definition remover_names :: "string \<Rightarrow> string list" where
  "remover_names how = (if how = ''register'' then [''unregister'', ''remove'', ''discard''] else [''remove'', ''discard''])"

definition remover_works :: "wall_callbacks \<Rightarrow> string \<Rightarrow> bool" where
  "remover_works c name \<longleftrightarrow> map_of (wc_removers c) name = Some Works"

definition teardown_wall_callback :: "wall_mod \<Rightarrow> wall_mod" where
  "teardown_wall_callback m =
     (let m1 = m\<lparr>wm_registration := None, wm_registered := False\<rparr> in
      case wm_registration m of
        None \<Rightarrow> m1
      | Some (z, how) \<Rightarrow>
         (case map_of (wm_collections m) z of
            None \<Rightarrow> m1
          | Some c \<Rightarrow>
              if list_ex (remover_works c) (remover_names how)
              then m1\<lparr>wm_collections := AList.update z (c\<lparr>wc_count := wc_count c - 1\<rparr>) (wm_collections m1)\<rparr>
              else m1))"

text \<open>
  The invariant: registered means that exactly the collection of the registration holds the
  callback, once; otherwise none does.
\<close>

definition wall_ok :: "wall_mod \<Rightarrow> bool" where
  "wall_ok m \<longleftrightarrow> wm_registered m = (wm_registration m \<noteq> None) \<and>
     (\<forall>z how. wm_registration m = Some (z, how) \<longrightarrow> map_of (wm_collections m) z \<noteq> None) \<and>
     (\<forall>z c. map_of (wm_collections m) z = Some c \<longrightarrow>
        wc_count c = (if map_option fst (wm_registration m) = Some z then 1 else 0))"

lemma wall_ok_install: "wall_ok m \<Longrightarrow> wall_ok (install_wall_callback m)"
  by (auto simp: wall_ok_def install_wall_callback_def add_callback_def wall_collection_def update_conv'
      split: option.splits)

lemma wall_ok_event: "wall_ok m \<Longrightarrow> wall_ok (wall_event m)"
  by (simp add: wall_ok_def wall_event_def)

text \<open>The installation is idempotent: however often it runs, the callback is there once.\<close>

lemma install_wall_idem: "install_wall_callback (install_wall_callback m) = install_wall_callback m"
  by (auto simp: install_wall_callback_def add_callback_def wall_collection_def split: option.splits)

lemma install_wall_events [simp]: "wm_zone (install_wall_callback m) = wm_zone m"
  by (auto simp: install_wall_callback_def add_callback_def split: option.splits)

text \<open>A teardown leaves the callback nowhere, if the collection can remove it.\<close>

lemma wall_ok_teardown:
  assumes "wall_ok m"
    and "\<forall>z how c. wm_registration m = Some (z, how) \<longrightarrow> map_of (wm_collections m) z = Some c \<longrightarrow>
        list_ex (remover_works c) (remover_names how)"
  shows "wall_ok (teardown_wall_callback m)"
  using assms
  by (auto simp: wall_ok_def teardown_wall_callback_def Let_def update_conv' split: option.splits if_splits)

lemma teardown_wall_forgets:
  "wm_registration (teardown_wall_callback m) = None" "\<not> wm_registered (teardown_wall_callback m)"
  by (simp_all add: teardown_wall_callback_def Let_def split: option.split)

lemma torn_down_nowhere:
  assumes "wall_ok (teardown_wall_callback m)"
    and "map_of (wm_collections (teardown_wall_callback m)) z = Some c"
  shows "wc_count c = 0"
  using assms teardown_wall_forgets(1) [of m] by (auto simp: wall_ok_def)

text \<open>
  After the zone has changed the callback is registered with the old zone only, and installing
  again does not help: the flag is still set.
\<close>

lemma wall_callback_stays_behind:
  assumes "wall_ok m" and "wm_registered m" and "wm_registration m = Some (z, how)" and "z' \<noteq> z"
    and "map_of (wm_collections m) z' = Some c"
  shows "map_of (wm_collections (install_wall_callback (m\<lparr>wm_zone := Some z'\<rparr>))) z' = Some c" and "wc_count c = 0"
  using assms by (auto simp: wall_ok_def install_wall_callback_def wall_collection_def split: option.splits)

end
