(* ===== verification/Mod_Console.thy ===== *)
theory Mod_Console
  imports Mod_Environment Mod_Trace Build_Adapter
begin

text \<open>
  \<^verbatim>\<open>src/sims_mod_src/kermp_mod/commands.py\<close>: the console commands of the mod that send a message
  or inspect the game, with the lines they print. \<open>txt\<close> is \<open>str\<close> of an object or float of the
  game, \<open>dumps\<close> the JSON text of a value.
\<close>

section \<open>Output\<close>

text \<open>The bridge afterwards, the lines printed, the exception that escapes the command.\<close>

type_synonym console = "bridge_client \<times> string list \<times> py_error option"

definition bool_text :: "bool \<Rightarrow> string" where
  "bool_text b = (if b then ''True'' else ''False'')"

definition or_none :: "string \<Rightarrow> string" where
  "or_none s = (if s = [] then ''none'' else s)"

definition emit_line :: "bool \<Rightarrow> string \<Rightarrow> pydict \<Rightarrow> (bool \<Rightarrow> string list) \<Rightarrow> bridge_client \<Rightarrow> console" where
  "emit_line up ty d lines b =
     (case bridge_send up ty d b of
        (b1, Inl e) \<Rightarrow> (b1, [], Some e)
      | (b1, Inr sent) \<Rightarrow> (b1, lines sent, None))"

section \<open>Commands that send\<close>

definition sim_line :: "(string \<times> string list) list \<Rightarrow> string \<times> string \<Rightarrow> string" where
  "sim_line controllers s =
     ''sim_id='' @ fst s @ '' name='' @ snd s @ '' controllers='' @
     or_none (join '','' (case map_of controllers (fst s) of None \<Rightarrow> [] | Some cs \<Rightarrow> cs))"

definition kermp_sims ::
  "bool \<Rightarrow> (string \<times> string) list \<Rightarrow> string option \<Rightarrow> (string \<times> string list) list \<Rightarrow> bridge_client \<Rightarrow> console" where
  "kermp_sims up sims active controllers b =
     emit_line up ''sims.state'' [(''sims'', VList (map sim_entry sims)), (''active_sim_id'', opt_str active)]
       (\<lambda>sent. if sims = [] then [''no loaded Sims found''] else map (sim_line controllers) sims) b"

definition kermp_sim_select :: "bool \<Rightarrow> string \<Rightarrow> bridge_client \<Rightarrow> console" where
  "kermp_sim_select up sid b =
     emit_line up ''sim.select'' [(''sim_id'', VStr sid), (''local'', VBool True)]
       (\<lambda>sent. [''KerMP sim selection requested sim_id='' @ sid @ '' sent='' @ bool_text sent]) b"

definition interact_request :: "string \<Rightarrow> string \<Rightarrow> string \<Rightarrow> string \<Rightarrow> pydict" where
  "interact_request uuid sid aid tid =
     [(''request_id'', VStr (''local-'' @ uuid)), (''player_id'', VStr ''local''), (''sim_id'', VStr sid),
      (''affordance_id'', VStr aid), (''target_id'', VStr tid)]"

definition kermp_interact :: "bool \<Rightarrow> string \<Rightarrow> string \<Rightarrow> string \<Rightarrow> string \<Rightarrow> bridge_client \<Rightarrow> console" where
  "kermp_interact up uuid sid aid tid b =
     emit_line up ''interaction.request'' (interact_request uuid sid aid tid)
       (\<lambda>sent. [''KerMP interaction requested sim='' @ sid @ '' affordance='' @ aid @ '' target='' @ tid @
                '' sent='' @ bool_text sent]) b"

definition kermp_ping :: "bool \<Rightarrow> int \<Rightarrow> bridge_client \<Rightarrow> console" where
  "kermp_ping up zone b =
     emit_line up ''game.ping'' [(''zone_id'', VInt zone)] (\<lambda>sent. [''KerMP bridge ping sent='' @ bool_text sent]) b"

definition kermp_travel_request :: "bool \<Rightarrow> int \<Rightarrow> bridge_client \<Rightarrow> console" where
  "kermp_travel_request up zone b =
     emit_line up ''travel.request'' [(''zone_id'', VStr (int_str zone)), (''actor_ids'', VList [])]
       (\<lambda>sent. [''KerMP travel request sent='' @ bool_text sent @ '' zone='' @ int_str zone]) b"

text \<open>\<open>kermp.wall.test\<close>; the coordinates are floats with their text.\<close>

definition wall_data :: "(rat \<Rightarrow> string) \<Rightarrow> rat \<Rightarrow> rat \<Rightarrow> rat \<Rightarrow> rat \<Rightarrow> int \<Rightarrow> pydict" where
  "wall_data ft x1 y1 x2 y2 level =
     [(''x1'', VFloat x1 (ft x1)), (''y1'', VFloat y1 (ft y1)), (''x2'', VFloat x2 (ft x2)), (''y2'', VFloat y2 (ft y2)),
      (''level'', VInt level)]"

definition kermp_wall_test ::
  "bool \<Rightarrow> (rat \<Rightarrow> string) \<Rightarrow> rat \<Rightarrow> rat \<Rightarrow> rat \<Rightarrow> rat \<Rightarrow> int \<Rightarrow> bridge_client \<Rightarrow> console" where
  "kermp_wall_test up ft x1 y1 x2 y2 level b =
     emit_line up ''build.operation'' [(''op'', VStr ''wall.create''), (''data'', VDict (wall_data ft x1 y1 x2 y2 level))]
       (\<lambda>sent. [''KerMP synthetic wall event sent='' @ bool_text sent]) b"

text \<open>A command sends at most one message, prints that it did, and fails only with the socket.\<close>

lemma emit_line_cases:
  "emit_line up ty d lines b = (b1, ls, e) \<Longrightarrow>
     (e = None \<longrightarrow> (\<exists>sent. ls = lines sent \<and> bc_sent b1 = bc_sent b @ (if sent then [(ty, d)] else []) \<and> sent = bc_open b)) \<and>
     (e \<noteq> None \<longrightarrow> bc_open b \<and> \<not> up \<and> ls = [] \<and> bc_sent b1 = bc_sent b)"
  by (auto simp: emit_line_def bridge_send_def split: if_splits)

text \<open>What \<open>kermp.travel.request\<close> asks for is what the host's start of a travel reads.\<close>

lemma travel_request_invokes_zone:
  assumes "ne_command g" and "ne_zone g = None \<or> (\<exists>known. ne_zone g = Some known \<and> known z)" and "ne_active g = Some a"
  shows "invoke_native_travel g [(''zone_id'', VStr (int_str z)), (''actor_ids'', VList [])] bypass =
      ([((a, z, []), True)], False, ne_call g a z [])"
  using travel_request_invokes [of "[(''zone_id'', VStr (int_str z)), (''actor_ids'', VList [])]" z "[]" g a bypass] assms
  by (simp add: pget_def)

text \<open>An interaction typed on the console reaches an object and nothing else: there is no kind in it.\<close>

lemma interact_request_target:
  "resolve_target g (interact_request uuid sid aid (int_str i)) =
     (if ve_object g i then Inr (ObjectTarget i) else Inl (StageError ''resolve_object_target'' ''target_not_found''))"
proof -
  have f: "pget (interact_request uuid sid aid (int_str i)) ''target_kind'' = VNone"
    "pget (interact_request uuid sid aid (int_str i)) ''target_id'' = VStr (int_str i)"
    by (simp_all add: interact_request_def pget_def)
  show ?thesis by (simp add: resolve_target_def f lookup_id_def py_or_def Let_def)
qed

section \<open>Listings\<close>

definition kermp_objects :: "(string \<times> string \<times> string) list \<Rightarrow> string list" where
  "kermp_objects obs =
     (if obs = [] then [''no loaded objects found'']
      else map (\<lambda>(i, n, t). ''object_id='' @ i @ '' name='' @ n @ '' type='' @ t) obs)"

definition kermp_affordances :: "string \<Rightarrow> py_error + (string \<times> string) list \<Rightarrow> string list" where
  "kermp_affordances oid r =
     (case r of
        Inl e \<Rightarrow> [''affordance lookup failed reason='' @ exc_text e]
      | Inr as \<Rightarrow> if as = [] then [''no exposed affordances found object_id='' @ oid]
                  else map (\<lambda>(i, n). ''affordance_id='' @ i @ '' name='' @ n) as)"

text \<open>Nothing the console asks for comes back empty.\<close>

lemma listings_answer: "kermp_objects obs \<noteq> []" "kermp_affordances oid r \<noteq> []"
  by (auto simp: kermp_objects_def kermp_affordances_def split: sum.split)

section \<open>Inspection of an object\<close>

text \<open>\<open>_inspect_value\<close> and \<open>_inspect_attr\<close>; \<open>call\<close> is the call of a method of the game.\<close>

definition inspect_value :: "(gval \<Rightarrow> py_error + gval) \<Rightarrow> gval \<Rightarrow> gval \<Rightarrow> gval" where
  "inspect_value call v fallback =
     (case (if gcallable v then call v else Inr v) of
        Inl e \<Rightarrow> fallback
      | Inr w \<Rightarrow> if w = GNone then fallback else w)"

definition inspect_attr :: "(gval \<Rightarrow> py_error + gval) \<Rightarrow> gval \<Rightarrow> string \<Rightarrow> gval \<Rightarrow> gval" where
  "inspect_attr call v n fallback =
     (case gattr_opt v n of None \<Rightarrow> fallback | Some w \<Rightarrow> inspect_value call w fallback)"

definition inspect_components :: "(gval \<Rightarrow> py_error + gval) \<Rightarrow> gval \<Rightarrow> string list \<Rightarrow> gval" where
  "inspect_components call v names =
     (let read = (\<lambda>f. let xs = map f names in if GNone \<in> set xs then GNone else GSeq xs) in
      case v of
        GNone \<Rightarrow> GNone
      | GSeq xs \<Rightarrow> if length names \<le> length xs then GSeq (take (length names) xs)
                   else read (\<lambda>n. inspect_attr call v n GNone)
      | GMap d \<Rightarrow> read (gget v)
      | _ \<Rightarrow> read (\<lambda>n. inspect_attr call v n GNone))"

definition unknown :: gval where
  "unknown = GStr ''unknown''"

text \<open>\<open>_inspect_transform\<close>: the serialised location first, then the attributes of the object.\<close>

definition inspect_transform ::
  "(gval \<Rightarrow> py_error + gval) \<Rightarrow> (gval \<Rightarrow> string) \<Rightarrow> (string \<Rightarrow> rat option) \<Rightarrow> gval \<Rightarrow> gval \<times> gval \<times> gval" where
  "inspect_transform call rep flt obj =
     (let serialized = (case serialize_transform rep flt (inspect_attr call obj ''location'' GNone) of
            Inl e \<Rightarrow> GMap [] | Inr v \<Rightarrow> if is_gmap v then v else GMap []);
          part = (\<lambda>key alt. if gget serialized key = GNone then alt else gget serialized key);
          position = part ''translation'' (inspect_components call (inspect_attr call obj ''position'' GNone) [''x'', ''y'', ''z'']);
          orientation = part ''orientation''
            (inspect_components call (inspect_attr call obj ''orientation'' GNone) [''x'', ''y'', ''z'', ''w'']);
          surface = part ''routing_surface'' (inspect_attr call obj ''routing_surface'' unknown)
      in (gor position (GSeq [unknown, unknown, unknown]), gor orientation (GSeq [unknown, unknown, unknown, unknown]), surface))"

fun seq_items :: "gval \<Rightarrow> gval list" where
  "seq_items (GSeq xs) = xs"
| "seq_items v = [v]"

definition or_attr :: "(gval \<Rightarrow> py_error + gval) \<Rightarrow> gval \<Rightarrow> gval \<Rightarrow> string \<Rightarrow> gval \<Rightarrow> gval" where
  "or_attr call v obj n fallback = (if v = GNone then inspect_attr call obj n fallback else v)"

definition inspected_definition :: "(gval \<Rightarrow> py_error + gval) \<Rightarrow> gval \<Rightarrow> gval" where
  "inspected_definition call obj =
     or_attr call (inspect_attr call (inspect_attr call obj ''definition'' GNone) ''id'' GNone) obj ''definition_id'' unknown"

definition inspected_name :: "(gval \<Rightarrow> py_error + gval) \<Rightarrow> gval \<Rightarrow> gval" where
  "inspected_name call obj =
     (let d = inspect_attr call obj ''definition'' GNone; own = inspect_attr call obj ''name'' GNone in
      inspect_value call
        (if d = GNone then own else or_attr call (or_attr call own d ''name'' GNone) d ''display_name'' unknown) unknown)"

definition inspected_parent :: "(gval \<Rightarrow> py_error + gval) \<Rightarrow> gval \<Rightarrow> gval" where
  "inspected_parent call obj =
     (let parent = inspect_attr call obj ''parent'' GNone in
      or_attr call (if parent = GNone then GNone else inspect_attr call parent ''id'' GNone) obj ''parent_id'' (GStr ''none''))"

definition number_text :: "int option \<Rightarrow> string" where
  "number_text i = (case i of None \<Rightarrow> ''unknown'' | Some n \<Rightarrow> int_str n)"

definition items_text :: "(gval \<Rightarrow> string) \<Rightarrow> gval \<Rightarrow> string" where
  "items_text tx v = join '','' (map (gstr tx) (seq_items v))"

definition surface_text :: "(gval \<Rightarrow> string) \<Rightarrow> (gval \<Rightarrow> string) \<Rightarrow> gval \<Rightarrow> string" where
  "surface_text tx dumps v = (case v of GSeq xs \<Rightarrow> dumps v | GMap d \<Rightarrow> dumps v | _ \<Rightarrow> gstr tx v)"

text \<open>
  \<open>_inspect_object_lines\<close>: the lines, or the exception of the owner. \<open>cls\<close> is the name of the
  class, \<open>get\<close> an attribute access that may raise.
\<close>

definition inspect_object_lines ::
  "(gval \<Rightarrow> py_error + gval) \<Rightarrow> (gval \<Rightarrow> string) \<Rightarrow> (gval \<Rightarrow> string) \<Rightarrow> (gval \<Rightarrow> string) \<Rightarrow> (string \<Rightarrow> rat option) \<Rightarrow>
     (string \<Rightarrow> py_error + gval) \<Rightarrow> string \<Rightarrow> gval \<Rightarrow> py_error + string list" where
  "inspect_object_lines call tx rep dumps flt get cls obj =
     (case (inspect_transform call rep flt obj, object_household_id call obj) of
        (t, Inl e) \<Rightarrow> Inl e
      | ((position, orientation, surface), Inr owner) \<Rightarrow>
          Inr [''object_id='' @ gstr tx (inspect_attr call obj ''id'' unknown),
            ''definition_id='' @ gstr tx (inspected_definition call obj),
            ''name='' @ gstr tx (inspected_name call obj), ''type='' @ cls,
            ''scale='' @ gstr tx (inspect_attr call obj ''scale'' unknown),
            ''value='' @ number_text (object_value obj get call), ''household_id='' @ number_text owner,
            ''position='' @ items_text tx position, ''orientation='' @ items_text tx orientation,
            ''parent_id='' @ gstr tx (inspected_parent call obj),
            ''routing_surface='' @ surface_text tx dumps surface])"

definition kermp_object_inspect ::
  "(gval \<Rightarrow> py_error + string list) \<Rightarrow> (int \<Rightarrow> gval option) \<Rightarrow> string \<Rightarrow> string list" where
  "kermp_object_inspect lines manager oid =
     (case py_int (VStr oid) of
        Inl e \<Rightarrow> [''object_inspect_failed='' @ exc_text e]
      | Inr i \<Rightarrow>
         (case manager i of
            None \<Rightarrow> [''object_not_found='' @ oid]
          | Some obj \<Rightarrow>
             (case lines obj of
                Inl e \<Rightarrow> [''object_inspect_failed='' @ exc_text e]
              | Inr ls \<Rightarrow> ls)))"

lemma inspect_value_present: "fallback \<noteq> GNone \<Longrightarrow> inspect_value call v fallback \<noteq> GNone"
  by (auto simp: inspect_value_def split: sum.split)

lemma inspect_attr_present: "fallback \<noteq> GNone \<Longrightarrow> inspect_attr call v n fallback \<noteq> GNone"
  by (simp add: inspect_attr_def inspect_value_present split: option.split)

text \<open>An inspection prints its eleven lines or one line that says why not, whatever the object is.\<close>

lemma inspect_lines_count:
  assumes "inspect_object_lines call tx rep dumps flt get cls obj = Inr ls"
  shows "length ls = 11"
proof -
  obtain p q r where t: "inspect_transform call rep flt obj = (p, q, r)" by (cases "inspect_transform call rep flt obj")
  show ?thesis
  proof (cases "object_household_id call obj")
    case (Inr owner)
    have "\<exists>a b c d e f g h i j k. ls = [a, b, c, d, e, f, g, h, i, j, k]"
      using assms unfolding inspect_object_lines_def t Inr prod.case sum.case sum.inject by blast
    then show ?thesis by auto
  qed (use assms in \<open>simp add: inspect_object_lines_def t\<close>)
qed

lemma object_inspect_lines:
  "kermp_object_inspect lines manager oid = ls \<Longrightarrow> length ls = 1 \<or> (\<exists>obj. lines obj = Inr ls)"
  by (auto simp: kermp_object_inspect_def split: sum.splits option.splits)

lemma object_inspect_total:
  "length (kermp_object_inspect (inspect_object_lines call tx rep dumps flt get cls) manager oid) \<in> {1, 11}"
  using object_inspect_lines [OF refl, of "inspect_object_lines call tx rep dumps flt get cls" manager oid]
    inspect_lines_count by fast

text \<open>Three coordinates are printed when the object has a position, three unknowns otherwise.\<close>

definition sized_seq :: "nat \<Rightarrow> gval \<Rightarrow> bool" where
  "sized_seq n v \<longleftrightarrow> v = GNone \<or> (\<exists>xs. v = GSeq xs \<and> length xs = n)"

lemma sized_seq_simps [simp]: "sized_seq n GNone" "sized_seq n (GSeq xs) \<longleftrightarrow> length xs = n"
  by (simp_all add: sized_seq_def)

lemma inspect_components_sized: "sized_seq (length names) (inspect_components call v names)"
  unfolding inspect_components_def Let_def by (simp split: gval.split)

section \<open>Status lines\<close>

text \<open>
  \<open>kermp.travel.status\<close>. \<open>api\<close> is \<open>_travel_api_info\<close>: empty, or what
  \<open>_invoke_native_travel\<close> leaves there.
\<close>

definition travel_api :: "string \<Rightarrow> pydict" where
  "travel_api signature = [(''module'', VStr ''world.travel_commands''), (''signature'', VStr signature)]"

definition role_text :: "pyval \<Rightarrow> string" where
  "role_text r = py_str (py_or r (VStr ''unknown''))"

definition opt_none :: "string option \<Rightarrow> string" where
  "opt_none s = (case s of None \<Rightarrow> ''none'' | Some t \<Rightarrow> or_none t)"

definition kermp_travel_status :: "game_env \<Rightarrow> pydict \<Rightarrow> game_mod \<Rightarrow> string list" where
  "kermp_travel_status g api m =
     [''role='' @ role_text (gm_role m) @ '' txn_id='' @ py_str (py_or (gm_txn m) (VStr ''none'')) @
        '' epoch='' @ int_str (gm_epoch m) @ '' phase='' @ (if truthy (gm_txn m) then ''waiting_zone_ready'' else ''idle'') @
        '' current_zone='' @ zone_text g @ '' target_zone='' @ py_str (pget_default api ''zone_id'' (VStr ''unknown'')),
      ''local_zone_loaded='' @ bool_text (gm_local_loaded m) @ '' batch_open='' @ bool_text (gm_buffering m) @
        '' batch_complete='' @ bool_text (gm_batch_complete m) @ '' buffered_updates='' @ nat_str (length (gm_buffer m)) @
        '' selected_sim_snapshot='' @ opt_none (gm_selected m) @ '' selected_sim_restored='' @ bool_text (gm_restored m) @
        '' last_error='' @ opt_none (gm_travel_error m),
      ''travel_api_found='' @ bool_text (api \<noteq> []) @ '' travel_function_signature='' @
        py_str (pget_default api ''signature'' (VStr ''unknown''))]"

text \<open>Nothing ever writes a zone into that dictionary: the target zone is always reported unknown.\<close>

lemma target_zone_never_known:
  assumes "api = [] \<or> (\<exists>sig. api = travel_api sig)"
  shows "pget_default api ''zone_id'' (VStr ''unknown'') = VStr ''unknown''"
  using assms by (auto simp: travel_api_def pget_default_def)

text \<open>\<open>kermp.simulation.status\<close>: the report a \<open>simulation.authority\<close> message carries.\<close>

definition kermp_simulation_status :: "game_mod \<Rightarrow> string" where
  "kermp_simulation_status m =
     (let f = (\<lambda>k. py_str (pget (status_dict (gm_status m)) k)) in
      ''role='' @ f ''role'' @ '' timeline_suppression_available='' @ f ''timeline_suppression_available'' @
      '' installed='' @ f ''installed'' @ '' local_simulation_enabled='' @ f ''local_simulation_enabled'' @
      '' clock_source='' @ f ''clock_source'' @ '' last_error='' @
      py_str (py_or (pget (status_dict (gm_status m)) ''last_error'') (VStr ''none'')))"

text \<open>
  \<open>kermp.zones\<close>: the first of three attributes of the persistence service that is a dictionary, at most
  40 entries (id, name, world); without entries the current zone, whose lookup may raise.
\<close>

definition ZONE_ATTRS :: "string list" where
  "ZONE_ATTRS = [''zone_proto_buffs'', ''_zone_proto_buffs'', ''zones'']"

fun first_zones :: "(string \<Rightarrow> py_error + (string \<times> string \<times> string) list option) \<Rightarrow> string list \<Rightarrow> (string \<times> string \<times> string) list" where
  "first_zones attr [] = []"
| "first_zones attr (n # ns) =
     (case attr n of Inl e \<Rightarrow> [] | Inr None \<Rightarrow> first_zones attr ns | Inr (Some zs) \<Rightarrow> take 40 zs)"

definition kermp_zones ::
  "(string \<Rightarrow> py_error + (string \<times> string \<times> string) list option) \<Rightarrow> py_error + string \<Rightarrow> py_error + string list" where
  "kermp_zones attr current =
     (let found = first_zones attr ZONE_ATTRS in
      if found = [] then
        (case current of
           Inl e \<Rightarrow> Inl e
         | Inr z \<Rightarrow> Inr [''zone_id='' @ z @ '' name=current (persistence enumeration unavailable)''])
      else Inr (map (\<lambda>(z, n, w). ''zone_id='' @ z @ '' name='' @ n @ '' world='' @ w) found))"

lemma first_zones_bounded: "length (first_zones attr ns) \<le> 40"
  by (induction attr ns rule: first_zones.induct) (auto split: sum.split option.split)

lemma kermp_zones_size: "kermp_zones attr current = Inr ls \<Longrightarrow> ls \<noteq> [] \<and> length ls \<le> 40"
  using first_zones_bounded [of attr ZONE_ATTRS] by (auto simp: kermp_zones_def Let_def split: if_splits sum.splits)

text \<open>\<open>kermp.core.status\<close>: with one loaded Sim it is taken for the active one.\<close>

definition core_active :: "(string \<times> string) list \<Rightarrow> string" where
  "core_active sims = (case sims of [s] \<Rightarrow> fst s | _ \<Rightarrow> ''unknown'')"

definition kermp_status :: "game_env \<Rightarrow> bridge_client \<Rightarrow> string" where
  "kermp_status g b = ''KerMP loaded. zone_id='' @ zone_text g @ '' bridge_connected='' @ bool_text (bc_open b)"

section \<open>The tracer and the native module\<close>

definition clamp_limit :: "int \<Rightarrow> int" where
  "clamp_limit limit = max 1 (min limit 512)"

text \<open>The events \<open>kermp.trace.dump\<close> prints.\<close>

definition trace_dump :: "int \<Rightarrow> trace_mod \<Rightarrow> trace_event list" where
  "trace_dump limit m = trace_events (Some (clamp_limit limit)) m"

text \<open>The console's bound keeps it away from the slice from zero: at most as many as asked for, the newest.\<close>

lemma trace_dump_bounded:
  "trace_dump limit m = last_n (nat (clamp_limit limit)) (tm_events m)"
  "length (trace_dump limit m) \<le> nat (max 1 (min limit 512))"
  by (simp_all add: trace_dump_def trace_events_def clamp_limit_def length_last_n)

text \<open>The lines of \<open>kermp.trace.start\<close>, \<open>kermp.trace.stop\<close> and \<open>kermp.trace.status\<close>.\<close>

definition trace_head :: "trace_mod \<Rightarrow> string" where
  "trace_head m = ''trace session='' @ int_str (tm_session m) @ '' enabled='' @ bool_text (tm_enabled m)"

definition trace_started_line :: "trace_mod \<Rightarrow> string" where
  "trace_started_line m =
     trace_head m @ '' patched='' @ nat_str (length (tm_patches m)) @ '' errors='' @ nat_str (length (tm_errors m))"

definition trace_stopped_line :: "string \<Rightarrow> trace_mod \<Rightarrow> string" where
  "trace_stopped_line file1 m =
     trace_head m @ '' events='' @ nat_str (length (tm_events m)) @ '' errors='' @ nat_str (length (tm_errors m)) @ '' file='' @ file1"

definition kermp_trace_start :: "trace_mod \<Rightarrow> trace_mod \<times> string" where
  "kermp_trace_start m = (let m1 = trace_start TRACE_SPECS m in (m1, trace_started_line m1))"

definition kermp_trace_stop :: "string \<Rightarrow> trace_mod \<Rightarrow> trace_mod \<times> string" where
  "kermp_trace_stop file1 m = (let m1 = trace_stop m in (m1, trace_stopped_line file1 m1))"

definition trace_status_lines :: "(pyval \<Rightarrow> string) \<Rightarrow> trace_mod \<Rightarrow> string list" where
  "trace_status_lines dumps m =
     [trace_head m @ '' events='' @ nat_str (length (tm_events m)) @ ''/'' @ nat_str MAX_EVENTS @ '' patched='' @
        nat_str (length (tm_patches m)) @ '' errors='' @ nat_str (length (tm_errors m)),
      ''trace counts='' @ dumps (VDict (map (\<lambda>(l, n). (l, VInt n)) (tm_counts m)))] @
     map (\<lambda>e. ''trace error='' @ e) (take 12 (tm_errors m))"

text \<open>A second start while tracing starts nothing: neither the log nor the session changes.\<close>

lemma second_trace_start: "kermp_trace_start (fst (kermp_trace_start m)) = kermp_trace_start m"
proof -
  have "tm_enabled (trace_start TRACE_SPECS m)" by (simp add: trace_start_def Let_def)
  then have "trace_start TRACE_SPECS (trace_start TRACE_SPECS m) = trace_start TRACE_SPECS m"
    by (subst trace_start_def) simp
  then show ?thesis by (simp add: kermp_trace_start_def Let_def)
qed

text \<open>What the native module answers: it is absent, a call raises, or gives a value.\<close>

definition status_line :: "string \<Rightarrow> string \<Rightarrow> string \<Rightarrow> string \<Rightarrow> string \<Rightarrow> string" where
  "status_line loaded supported hook captures err =
     ''native_loaded='' @ loaded @ '' game_build_supported='' @ supported @ '' hook_installed='' @ hook @
     '' captures='' @ captures @ '' last_error='' @ err"

definition kermp_native_status :: "(py_error + pydict) option \<Rightarrow> string" where
  "kermp_native_status native =
     (let f = (\<lambda>d k. py_str (pget d k)) in
      case native of
        None \<Rightarrow> status_line ''False'' ''False'' ''False'' ''0'' ''module_unavailable''
      | Some (Inl e) \<Rightarrow> status_line ''False'' ''False'' ''False'' ''0'' (exc_text e)
      | Some (Inr d) \<Rightarrow> status_line (f d ''native_loaded'') (f d ''game_build_supported'') (f d ''hook_installed'')
          (f d ''capture_count'') (f d ''last_error''))"

definition kermp_native_take :: "(py_error + pydict option) option \<Rightarrow> string" where
  "kermp_native_take native =
     (case native of
        None \<Rightarrow> ''native capture unavailable: module_unavailable''
      | Some (Inl e) \<Rightarrow> ''native capture unavailable: '' @ exc_text e
      | Some (Inr None) \<Rightarrow> ''native capture queue empty''
      | Some (Inr (Some d)) \<Rightarrow> ''capture_id='' @ py_str (pget d ''capture_id'') @ '' payload_size='' @ py_str (pget d ''payload_size'')
          @ '' payload_hash='' @ py_str (pget d ''payload_hash'') @ '' thread_id='' @ py_str (pget d ''thread_id''))"

section \<open>Build diagnostics\<close>

definition last_create :: "(pyval \<Rightarrow> string) \<Rightarrow> adapter \<Rightarrow> string" where
  "last_create dumps a =
     ''last_create='' @ (case map_of (ad_by_type a) ''object.create'' of
        None \<Rightarrow> ''none'' | Some o1 \<Rightarrow> dumps (VDict (game_op_dict o1)))"

text \<open>
  \<open>kermp.build.status\<close>: \<open>surface\<close> is whether the module of build mode is there and its candidates, \<open>event\<close> what
  is known of the wall callback, \<open>hooks1\<close> the report of the hooks.
\<close>

definition HOOK_NAMES :: "string list" where
  "HOOK_NAMES = [''move_hook'', ''create_hook'', ''destroy_hook'', ''definition_hook'',
     ''scale_hook'', ''funds_hook'', ''parent_hook'', ''clear_parent_hook'']"

definition COUNTED_OPERATIONS :: "string list" where
  "COUNTED_OPERATIONS = [''object.move'', ''object.definition'', ''object.destroy'', ''object.create'',
     ''object.scale'', ''object.set_parent'', ''object.clear_parent'', ''funds.modify'']"

definition hook_line :: "(string \<times> pydict) list \<Rightarrow> string \<Rightarrow> string" where
  "hook_line hooks1 name =
     (let item = (case map_of hooks1 name of None \<Rightarrow> [] | Some d \<Rightarrow> d) in
      name @ '' available='' @ py_str (pget_default item ''available'' (VBool False)) @ '' installed='' @
      py_str (pget_default item ''installed'' (VBool False)) @ '' signature='' @
      py_str (py_or (pget item ''signature'') (VStr ''unavailable'')))"

definition count_line :: "adapter \<Rightarrow> string \<Rightarrow> string" where
  "count_line a op = op @ ''='' @ int_str (case map_of (ad_counts a) op of None \<Rightarrow> 0 | Some n \<Rightarrow> n)"

definition last_lines :: "adapter \<Rightarrow> string list" where
  "last_lines a =
     (let local = (case ad_last_local a of None \<Rightarrow> [] | Some p \<Rightarrow> game_op_dict p);
          data = (case ad_last_local a of None \<Rightarrow> [] | Some p \<Rightarrow> go_data p);
          remote = (case ad_last_remote a of None \<Rightarrow> [] | Some p \<Rightarrow> game_op_dict p);
          f = (\<lambda>d k. py_str (pget_default d k (VStr ''none''))) in
      [''last_local_type='' @ f local ''op'' @ '' last_local_object_id='' @ f data ''object_id'' @ '' last_local_op_id='' @ f local ''op_id'',
       ''last_remote_type='' @ f remote ''op'' @ '' last_error='' @ opt_none (ad_last_error a)])"

definition kermp_build_status ::
  "bool \<times> string list \<Rightarrow> bool \<times> bool \<times> nat \<Rightarrow> (string \<times> pydict) list \<Rightarrow> adapter \<Rightarrow> string list" where
  "kermp_build_status surface event hooks1 a =
     [''capture_available='' @ bool_text (''capture'' \<in> capabilities a) @ '' apply_available='' @
        bool_text (''apply'' \<in> capabilities a) @ '' suppression_active='' @ bool_text (ad_applying a),
      ''last_local_operation='' @ py_str (opt_op (ad_last_local a)),
      ''last_remote_operation='' @ py_str (opt_op (ad_last_remote a)),
      ''build_buy_module='' @ bool_text (fst surface) @ '' candidates='' @ join '','' (snd surface),
      ''wall_callback_available='' @ bool_text (fst event) @ '' registered='' @ bool_text (fst (snd event)) @ '' events='' @
        nat_str (snd (snd event))] @
     map (hook_line hooks1) HOOK_NAMES @ map (count_line a) COUNTED_OPERATIONS @
     [''captured_total='' @ int_str (ad_captured a) @ '' suppressed_remote_echo='' @ int_str (ad_suppressed a) @
        '' capture_errors='' @ int_str (ad_errors a)] @ last_lines a"

text \<open>
  After \<open>kermp.build.object.reset\<close> every count is zero and no local operation is shown; the last remote
  operation still is.
\<close>

lemma reset_status:
  "map (count_line (reset_diagnostics a)) COUNTED_OPERATIONS = map (\<lambda>op. op @ ''=0'') COUNTED_OPERATIONS"
  "last_lines (reset_diagnostics a) =
     [''last_local_type=none last_local_object_id=none last_local_op_id=none'',
      ''last_remote_type='' @ (case ad_last_remote a of None \<Rightarrow> ''none'' | Some p \<Rightarrow> go_op p) @ '' last_error=none'']"
proof -
  have "int_str 0 = ''0''" by code_simp
  then show "map (count_line (reset_diagnostics a)) COUNTED_OPERATIONS = map (\<lambda>op. op @ ''=0'') COUNTED_OPERATIONS"
    by (simp add: count_line_def reset_diagnostics_def)
  show "last_lines (reset_diagnostics a) =
     [''last_local_type=none last_local_object_id=none last_local_op_id=none'',
      ''last_remote_type='' @ (case ad_last_remote a of None \<Rightarrow> ''none'' | Some p \<Rightarrow> go_op p) @ '' last_error=none'']"
    by (simp add: last_lines_def reset_diagnostics_def pget_default_def opt_none_def game_op_dict_def split: option.split)
qed

text \<open>\<open>kermp.build.probe\<close>; \<open>shot\<close> is what the probe of the game's module says besides the contours.\<close>

definition probe_head :: "string \<Rightarrow> pydict \<Rightarrow> nat \<Rightarrow> string" where
  "probe_head phase shot n =
     ''KerMP probe phase='' @ phase @ '' callable='' @ py_str (pget shot ''callable'') @ '' type='' @ py_str (pget shot ''type'')
     @ '' signature='' @ py_str (pget shot ''signature'') @ '' count='' @ nat_str n"

definition kermp_build_probe :: "(pyval \<Rightarrow> string) \<Rightarrow> pydict \<Rightarrow> pyval list \<Rightarrow> adapter \<Rightarrow> adapter \<times> string list" where
  "kermp_build_probe dumps shot contours a =
     (case probe dumps contours a of
        (a1, None) \<Rightarrow>
          (a1, [probe_head ''baseline'' shot (length contours),
             ''Baseline stored. Draw one wall, then run kermp.build.probe again.''])
      | (a1, Some d) \<Rightarrow>
          (a1, [probe_head ''delta'' shot (length contours),
             ''before='' @ nat_str (dt_before d) @ '' after='' @ nat_str (dt_after d) @ '' added='' @ nat_str (length (dt_added d))
             @ '' removed='' @ nat_str (length (dt_removed d)) @ '' changed='' @ nat_str (length (dt_changed d))]))"

text \<open>\<open>kermp.build.replay_last\<close>: an exception of the application escapes the command.\<close>

definition kermp_replay_last ::
  "(pyval \<Rightarrow> string) \<Rightarrow> apply_fn \<Rightarrow> adapter \<Rightarrow> adapter \<times> (py_error + string)" where
  "kermp_replay_last dumps apply a =
     (case replay_last dumps apply a of
        (a1, Inl e) \<Rightarrow> (a1, Inl e)
      | (a1, Inr ok) \<Rightarrow> (a1, Inr (''KerMP remote build replay applied='' @ bool_text ok)))"

text \<open>
  The reset starts the numbers of local operations again, but not the set of keys already applied: an
  operation captured and replayed after it can be taken for the one replayed before.
\<close>

lemma replay_after_reset_dropped:
  assumes captured: "capture_local payload (reset_diagnostics a) = (a1, Some o1)"
    and key: "go_id o1 = Some i" "i \<noteq> []" "i \<in> ad_seen a"
  shows "snd (replay_last dumps apply a1) = Inr False"
proof -
  have seen: "ad_seen a1 = ad_seen a"
    using captured by (auto simp: capture_local_def note_definition_def count_op_def reset_diagnostics_def Let_def split: if_splits sum.splits)
  have last: "ad_last_local a1 = Some o1" using captured by (rule capture_result)
  have m: "as_mapping (py_or (VDict (game_op_dict o1)) (VDict [])) = Inr (game_op_dict o1)"
    by (simp add: py_or_def game_op_dict_def)
  have "operation_id (game_op_dict o1) = Some i"
    using key(1) by (simp add: operation_id_def game_op_dict_def pget_default_def)
  then have "remote_key dumps o2 = i" if "normalize_operation (VDict (game_op_dict o1)) = Inr o2" for o2
    using that key(2) by (auto simp: normalize_operation_def m remote_key_def Let_def split: sum.splits if_splits option.splits)
  then show ?thesis by (simp add: replay_last_def last apply_remote_def seen key(3) split: sum.split)
qed

end
