(* ===== verification/Fake_Player.thy ===== *)
theory Fake_Player
  imports Composition
begin

text \<open>
  \<^verbatim>\<open>src/tools/fake_player.py\<close>: a second player without a game. It keeps what the host tells it
  (\<open>FakePlayerState\<close>), answers travels, build locks and save transfers by itself, and turns
  lines of a console into messages. What it prints is left out; the socket is the list of what was
  sent on it. The end of the theory meets the host's own operations.
\<close>

section \<open>State\<close>

record fake_state =
  fk_id :: string
  fk_connection :: string
  fk_session :: string
  fk_compat :: pyval
  fk_ready :: pydict
  fk_zone :: pyval
  fk_clock :: pydict
  fk_owner :: pyval
  fk_sim :: pyval
  fk_dialogs :: "(string \<times> pyval) list"
  fk_travel :: pydict
  fk_raw :: int
  fk_msg :: pyval
  fk_size :: "int option"
  fk_command :: string
  fk_request :: pyval
  fk_result :: pyval
  fk_error :: string
  fk_pending :: "(string \<times> pydict) list"
  fk_watch :: bool
  fk_saver :: "save_receiver option"
  fk_dir :: "byte save_dir"
  fk_sent :: "(string \<times> pydict) list"

definition new_fake :: "string \<Rightarrow> byte save_dir \<Rightarrow> fake_state" where
  "new_fake pid d =
     \<lparr>fk_id = pid, fk_connection = ''disconnected'', fk_session = [], fk_compat = VStr ''unknown'', fk_ready = [],
       fk_zone = VNone,
       fk_clock = [], fk_owner = VNone, fk_sim = VNone, fk_dialogs = [],
       fk_travel = [(''phase'', VStr ''idle''), (''txn_id'', VNone), (''epoch'', VNone), (''zone_id'', VNone),
         (''batch_open'', VBool False), (''last_error'', VStr [])],
       fk_raw = 0, fk_msg = VNone, fk_size = None, fk_command = [], fk_request = VNone, fk_result = VNone,
       fk_error = [], fk_pending = [], fk_watch = False, fk_saver = None, fk_dir = d, fk_sent = []\<rparr>"

text \<open>
  The options of the command line, whether the socket takes a write, a fresh id, \<open>float\<close> of a
  text and its \<open>repr\<close>, the digest and the stamp of a backup.
\<close>

record fake_env =
  fx_up :: bool
  fx_auto :: bool
  fx_save :: bool
  fx_uuid :: string
  fx_float :: "string \<Rightarrow> rat option"
  fx_text :: "rat \<Rightarrow> string"
  fx_sha :: "byte list \<Rightarrow> string"
  fx_stamp :: string

type_synonym fres = "fake_state \<times> py_error option"

definition f_then :: "fres \<Rightarrow> (fake_state \<Rightarrow> fres) \<Rightarrow> fres" where
  "f_then r f = (case r of (s, Some e) \<Rightarrow> (s, Some e) | (s, None) \<Rightarrow> f s)"

text \<open>A sub-expression that may raise, and what is done with its value.\<close>

definition f_with :: "py_error + 'a \<Rightarrow> ('a \<Rightarrow> fake_state \<Rightarrow> fres) \<Rightarrow> fake_state \<Rightarrow> fres" where
  "f_with v f s = (case v of Inl e \<Rightarrow> (s, Some e) | Inr x \<Rightarrow> f x s)"

lemma f_then_simps [simp]: "f_then (s, None) f = f s" "f_then (s, Some e) f = (s, Some e)"
  by (simp_all add: f_then_def)

lemma f_with_simps [simp]: "f_with (Inr x) f s = f x s" "f_with (Inl e) f s = (s, Some e)"
  by (simp_all add: f_with_def)

definition fake_send :: "fake_env \<Rightarrow> string \<Rightarrow> pydict \<Rightarrow> fake_state \<Rightarrow> fres" where
  "fake_send g ty d s =
     (if \<not> fx_up g then (s, Some (OSError ''sendall failed''))
      else (s\<lparr>fk_sent := fk_sent s @ [(ty, d)],
              fk_request := (if truthy (pget d ''request_id'') then pget d ''request_id'' else fk_request s)\<rparr>, None))"

section \<open>What the host tells\<close>

definition fake_phase :: "string \<Rightarrow> string option" where
  "fake_phase ty = map_of [(''travel.propose'', ''propose''), (''travel.commit'', ''commit''),
     (''travel.resume'', ''resume''), (''travel.abort'', ''abort'')] ty"

definition copy_keys :: "string list \<Rightarrow> pydict \<Rightarrow> pydict \<Rightarrow> pydict" where
  "copy_keys ks p d = fold (\<lambda>k d. case map_of p k of None \<Rightarrow> d | Some v \<Rightarrow> AList.update k v d) ks d"

definition travel_note :: "string \<Rightarrow> pydict \<Rightarrow> pydict \<Rightarrow> pydict" where
  "travel_note ty p t =
     (let kind = py_lower (py_str (pget_default p ''kind'' (VStr [])));
          batch = (ty = mt_value MT_TRAVEL_VIEW_BATCH);
          t1 = (if batch then AList.update ''batch_open'' (VBool (kind = ''begin'')) t else t);
          phase = (if batch then Some (''view_batch_'' @ kind) else fake_phase ty);
          t2 = (case phase of None \<Rightarrow> t1 | Some ph \<Rightarrow> AList.update ''phase'' (VStr ph) t1);
          t3 = copy_keys [''txn_id'', ''epoch'', ''zone_id''] p t2
      in if ty = mt_value MT_TRAVEL_ABORT
         then AList.update ''last_error'' (VStr (py_str (py_or (pget p ''reason'') (VStr ''travel aborted'')))) t3 else t3)"

definition update_travel :: "string \<Rightarrow> pydict \<Rightarrow> fake_state \<Rightarrow> fake_state" where
  "update_travel ty p s = s\<lparr>fk_travel := travel_note ty p (fk_travel s)\<rparr>"

fun note_own_sim :: "pyval list \<Rightarrow> fake_state \<Rightarrow> fres" where
  "note_own_sim [] s = (s, None)"
| "note_own_sim (v # vs) s =
     (case as_mapping v of
        Inl e \<Rightarrow> (s, Some e)
      | Inr d \<Rightarrow> note_own_sim vs
          (if py_eq (pget d ''player_id'') (VStr (fk_id s)) then s\<lparr>fk_sim := pget d ''active_sim_id''\<rparr> else s))"

definition sub_dict :: "pydict \<Rightarrow> string \<Rightarrow> py_error + pydict" where
  "sub_dict d k = as_mapping (py_or (pget d k) (VDict []))"

text \<open>\<open>apply_snapshot\<close>, in its order; a travel that is no object is outside the model.\<close>

definition note_own_readiness :: "pydict \<Rightarrow> fake_state \<Rightarrow> fres" where
  "note_own_readiness r s =
     (let own = pget r (fk_id s) in
      if truthy own then f_with (py_dict own) (\<lambda>d s. (s\<lparr>fk_ready := d\<rparr>, None)) s else (s, None))"

definition snapshot_travel :: "pydict \<Rightarrow> fake_state \<Rightarrow> fres" where
  "snapshot_travel d s =
     (let t = pget d ''travel'' in
      if \<not> truthy t then (s, None)
      else case t of
        VDict p \<Rightarrow> (update_travel ''travel.propose'' p s, None)
      | _ \<Rightarrow> (s, Some (Unmodelled ''travel of a snapshot'')))"

definition apply_snapshot :: "pydict \<Rightarrow> fake_state \<Rightarrow> fres" where
  "apply_snapshot d s =
     f_then (f_then (f_then (f_then
       (f_with (py_dict (py_or (pget d ''clock'') (VDict (fk_clock s)))) (\<lambda>c s. (s\<lparr>fk_clock := c\<rparr>, None))
          (s\<lparr>fk_session := py_str (py_or (pget d ''session_id'') (VStr (fk_session s)))\<rparr>))
       (f_with (sub_dict d ''build'') (\<lambda>b s. (s\<lparr>fk_owner := pget b ''owner_id''\<rparr>, None))))
       (f_with (sub_dict d ''readiness'') note_own_readiness))
       (f_with (py_iter (py_or (pget d ''players'') (VList []))) note_own_sim))
       (snapshot_travel d)"

definition reasons_or_ok :: "pyval \<Rightarrow> pyval" where
  "reasons_or_ok v = py_or v (VStr ''compatible'')"

definition on_welcome :: "pydict \<Rightarrow> fake_state \<Rightarrow> fres" where
  "on_welcome p s =
     f_with (sub_dict p ''snapshot'') apply_snapshot
       (s\<lparr>fk_connection := ''connected'', fk_session := py_str (py_or (pget p ''session_id'') (VStr [])),
          fk_compat := reasons_or_ok (pget p ''compatibility_reasons'')\<rparr>)"

definition on_readiness :: "pydict \<Rightarrow> fake_state \<Rightarrow> fres" where
  "on_readiness p s =
     (let s1 = (if py_eq (pget_default p ''player_id'' (VStr (fk_id s))) (VStr (fk_id s)) then s\<lparr>fk_ready := p\<rparr> else s)
      in (case map_of p ''compatibility_reasons'' of
            None \<Rightarrow> s1
          | Some v \<Rightarrow> s1\<lparr>fk_compat := reasons_or_ok v\<rparr>, None))"

text \<open>A lock that is granted sends the queue; it is emptied before the first message leaves.\<close>

fun send_operations :: "fake_env \<Rightarrow> (string \<times> pydict) list \<Rightarrow> fake_state \<Rightarrow> fres" where
  "send_operations g [] s = (s, None)"
| "send_operations g (o1 # os) s =
     f_then (fake_send g (mt_value MT_BUILD_OPERATION) [(''op'', VStr (fst o1)), (''data'', VDict (snd o1))] s)
       (send_operations g os)"

definition on_lock_state :: "fake_env \<Rightarrow> pydict \<Rightarrow> fake_state \<Rightarrow> fres" where
  "on_lock_state g p s =
     (let s1 = s\<lparr>fk_owner := pget p ''owner_id''\<rparr> in
      if py_eq (fk_owner s1) (VStr (fk_id s)) then send_operations g (fk_pending s1) (s1\<lparr>fk_pending := []\<rparr>)
      else (s1, None))"

definition travel_answer :: "pydict \<Rightarrow> pydict" where
  "travel_answer p = [(''txn_id'', pget p ''txn_id''), (''epoch'', pget p ''epoch'')]"

definition on_travel :: "fake_env \<Rightarrow> string \<Rightarrow> pydict \<Rightarrow> fake_state \<Rightarrow> fres" where
  "on_travel g ty p s =
     (let s1 = update_travel ty p s in
      if ty = mt_value MT_TRAVEL_PROPOSE \<and> fx_auto g
      then fake_send g (mt_value MT_TRAVEL_READY) (travel_answer p) s1
      else if ty = mt_value MT_TRAVEL_COMMIT \<and> fx_auto g
      then fake_send g (mt_value MT_TRAVEL_ZONE_READY) (travel_answer p @ [(''zone_id'', pget p ''zone_id'')]) s1
      else (s1, None))"

text \<open>The message is counted before its payload is decoded.\<close>

definition on_raw :: "pydict \<Rightarrow> fake_state \<Rightarrow> fres" where
  "on_raw p s =
     (let s1 = s\<lparr>fk_raw := fk_raw s + 1, fk_msg := pget p ''msg_id''\<rparr> in
      case b64decode (py_str (pget_default p ''payload_b64'' (VStr []))) of
        None \<Rightarrow> (s1, Some decode_error)
      | Some raw \<Rightarrow> (s1\<lparr>fk_size := Some (int (length raw))\<rparr>, None))"

definition on_dialog :: "pydict \<Rightarrow> fake_state \<Rightarrow> fres" where
  "on_dialog p s =
     (let did = py_str (py_or (pget p ''dialog_id'') (VStr [])) in
      (if did = [] then s
       else s\<lparr>fk_dialogs := AList.update did
               (VDict [(''dialog_id'', VStr did), (''dialog_type'', pget p ''dialog_type'')]) (fk_dialogs s)\<rparr>, None))"

definition on_result :: "pydict \<Rightarrow> fake_state \<Rightarrow> fres" where
  "on_result p s = (s\<lparr>fk_result := VDict p, fk_request := pget_default p ''request_id'' (fk_request s)\<rparr>, None)"

section \<open>Save transfer\<close>

definition on_save_manifest :: "fake_env \<Rightarrow> pydict \<Rightarrow> fake_state \<Rightarrow> fres" where
  "on_save_manifest g p s =
     (if \<not> fx_save g then (s, None)
      else case new_receiver p (fk_dir s) of
        (d, Inl e) \<Rightarrow> (s\<lparr>fk_dir := d\<rparr>, Some e)
      | (d, Inr r) \<Rightarrow> (s\<lparr>fk_dir := d, fk_saver := Some r\<rparr>, None))"

text \<open>The \<open>except\<close> clause of both handlers: the transfer is aborted, reported and raised again.\<close>

definition save_failed :: "fake_env \<Rightarrow> py_error \<Rightarrow> fake_state \<Rightarrow> fres" where
  "save_failed g e s =
     (let s1 = (case fk_saver s of None \<Rightarrow> s | Some r \<Rightarrow> s\<lparr>fk_dir := abort_save r (fk_dir s)\<rparr>)
      in f_then (fake_send g (mt_value MT_SAVE_ERROR) [(''reason'', VStr (exc_text e))] s1) (\<lambda>s2. (s2, Some e)))"

definition save_body_chunk :: "pydict \<Rightarrow> fake_state \<Rightarrow> fres" where
  "save_body_chunk p s =
     (case fk_saver s of
        None \<Rightarrow> (s, Some (ValueError ''save_transfer_not_started''))
      | Some r \<Rightarrow>
         f_with (py_int (pget_default p ''index'' (VInt (-1))))
           (\<lambda>i s. case b64decode (py_str (pget_default p ''payload_b64'' (VStr []))) of
              None \<Rightarrow> (s, Some decode_error)
            | Some raw \<Rightarrow>
               (case write_chunk i raw (r, fk_dir s) of
                  ((r1, d1), e) \<Rightarrow> (s\<lparr>fk_saver := Some r1, fk_dir := d1\<rparr>, e))) s)"

definition on_save_chunk :: "fake_env \<Rightarrow> pydict \<Rightarrow> fake_state \<Rightarrow> fres" where
  "on_save_chunk g p s =
     (if \<not> fx_save g then (s, None)
      else case save_body_chunk p s of (s1, None) \<Rightarrow> (s1, None) | (s1, Some e) \<Rightarrow> save_failed g e s1)"

definition save_body_end :: "fake_env \<Rightarrow> pydict \<Rightarrow> fake_state \<Rightarrow> fres" where
  "save_body_end g p s =
     (case fk_saver s of
        None \<Rightarrow> (s, Some (ValueError ''save_transfer_not_started''))
      | Some r \<Rightarrow>
         (case finalize (fx_sha g) (py_str (py_or (pget p ''session_id'') (VStr ''unknown''))) (fx_stamp g) r (fk_dir s) of
            (d, Inl e) \<Rightarrow> (s\<lparr>fk_dir := d\<rparr>, Some e)
          | (d, Inr pb) \<Rightarrow>
             f_then (fake_send g (mt_value MT_SAVE_ACK)
                 [(''slot_id'', VStr (sr_slot r)), (''sha256'', VStr (sr_hash r)), (''total_bytes'', VInt (sr_total r))]
                 (s\<lparr>fk_dir := d\<rparr>))
               (\<lambda>s1. (s1\<lparr>fk_saver := None\<rparr>, None))))"

definition on_save_end :: "fake_env \<Rightarrow> pydict \<Rightarrow> fake_state \<Rightarrow> fres" where
  "on_save_end g p s =
     (if \<not> fx_save g then (s, None)
      else case save_body_end g p s of (s1, None) \<Rightarrow> (s1, None) | (s1, Some e) \<Rightarrow> save_failed g e s1)"

section \<open>The receiver\<close>

definition TRAVEL_TYPES :: "string list" where
  "TRAVEL_TYPES = map mt_value [MT_TRAVEL_PROPOSE, MT_TRAVEL_COMMIT, MT_TRAVEL_RESUME, MT_TRAVEL_ABORT, MT_TRAVEL_VIEW_BATCH]"

definition fake_handle :: "fake_env \<Rightarrow> envelope \<Rightarrow> fake_state \<Rightarrow> fres" where
  "fake_handle g e s =
     (let ty = e_type e; p = e_payload e in
      if ty = mt_value MT_WELCOME then on_welcome p s
      else if ty \<in> {mt_value MT_READINESS, mt_value MT_COMPATIBILITY} then on_readiness p s
      else if ty = mt_value MT_SNAPSHOT then apply_snapshot p s
      else if ty = mt_value MT_CLOCK_STATE then (s\<lparr>fk_clock := p\<rparr>, None)
      else if ty = mt_value MT_BUILD_LOCK_STATE then on_lock_state g p s
      else if ty \<in> set TRAVEL_TYPES then on_travel g ty p s
      else if ty = mt_value MT_GAME_RAW_MESSAGE then on_raw p s
      else if ty = mt_value MT_DIALOG_OPEN then on_dialog p s
      else if ty = mt_value MT_ERROR
        then (s\<lparr>fk_error := py_str (py_or (pget p ''reason'') (VStr ''unknown error''))\<rparr>, None)
      else if ty = mt_value MT_SAVE_MANIFEST then on_save_manifest g p s
      else if ty = mt_value MT_SAVE_CHUNK then on_save_chunk g p s
      else if ty = mt_value MT_SAVE_END then on_save_end g p s
      else if ty \<in> {mt_value MT_COMMAND_RESULT, mt_value MT_INTERACTION_ACCEPTED, mt_value MT_INTERACTION_REJECTED}
        then on_result p s
      else (s, None))"

text \<open>A line that cannot be read or handled is noted; the receiver goes on to the next.\<close>

definition fake_receive :: "fake_env \<Rightarrow> py_error + envelope \<Rightarrow> fake_state \<Rightarrow> fake_state" where
  "fake_receive g line s =
     (case f_with line (fake_handle g) s of
        (s1, None) \<Rightarrow> s1
      | (s1, Some e) \<Rightarrow> s1\<lparr>fk_error := exc_text e\<rparr>)"

definition fake_receiver :: "fake_env \<Rightarrow> (py_error + envelope) list \<Rightarrow> fake_state \<Rightarrow> fake_state" where
  "fake_receiver g lines s = (fold (fake_receive g) lines s)\<lparr>fk_connection := ''disconnected''\<rparr>"

section \<open>Console lines\<close>

text \<open>\<open>line.strip().split()\<close>\<close>

definition parse_line :: "string \<Rightarrow> string \<times> string list" where
  "parse_line line =
     (case split_words [] (py_strip line) of [] \<Rightarrow> ([], []) | w # ws \<Rightarrow> (py_lower w, ws))"

fun float_list :: "fake_env \<Rightarrow> string list \<Rightarrow> py_error + pyval list" where
  "float_list g [] = Inr []"
| "float_list g (v # vs) =
     (case fx_float g v of
        None \<Rightarrow> Inl (ValueError (''could not convert string to float: '' @ repr_str v))
      | Some r \<Rightarrow>
         (case float_list g vs of Inl e \<Rightarrow> Inl e | Inr fs \<Rightarrow> Inr (VFloat r (fx_text g r) # fs)))"

definition move_usage :: string where
  "move_usage = ''usage: move <object_id> <x> <y> <z> <qx> <qy> <qz> <qw>''"

definition fake_transform :: "fake_env \<Rightarrow> string list \<Rightarrow> py_error + pyval" where
  "fake_transform g vs =
     (if length vs \<noteq> 7 then Inl (ValueError move_usage)
      else case float_list g vs of
        Inl e \<Rightarrow> Inl e
      | Inr fs \<Rightarrow> Inr (VDict [(''translation'', VList (take 3 fs)), (''orientation'', VList (drop 3 fs))]))"

definition move_payload :: "fake_env \<Rightarrow> string \<Rightarrow> string list \<Rightarrow> py_error + pydict" where
  "move_payload g oid vs =
     (case fake_transform g vs of
        Inl e \<Rightarrow> Inl e
      | Inr t \<Rightarrow> Inr [(''object_id'', VStr oid), (''transform'', t), (''parent_id'', VStr ''0''),
                     (''parent_type_info'', VList [VInt 0, VInt 0]), (''slot_hash'', VInt 0)])"

definition buy_payload :: "fake_env \<Rightarrow> string \<Rightarrow> string \<Rightarrow> string list \<Rightarrow> py_error + pydict" where
  "buy_payload g oid def vs =
     (let d = [(''object_id'', VStr oid), (''definition_id'', VStr def), (''object_state'', VInt 0),
               (''location_type'', VInt 1), (''content_source'', VInt 0)]
      in if vs = [] then Inr d
         else case fake_transform g vs of Inl e \<Rightarrow> Inl e | Inr t \<Rightarrow> Inr (d @ [(''transform'', t)]))"

definition buy_usage :: string where
  "buy_usage = ''usage: buy <object_id> <definition_id> [<x> <y> <z> <qx> <qy> <qz> <qw>]''"

definition require :: "string list \<Rightarrow> nat \<Rightarrow> py_error + 'a \<Rightarrow> py_error + 'a" where
  "require a n r = (if length a < n then Inl (ValueError ''missing arguments'') else r)"

text \<open>The operation a build command stands for.\<close>

definition build_message :: "fake_env \<Rightarrow> string \<Rightarrow> string list \<Rightarrow> py_error + string \<times> pydict" where
  "build_message g command a =
     require a 1
      (let oid = hd a; named = (\<lambda>op r. case r of Inl e \<Rightarrow> Inl e | Inr d \<Rightarrow> Inr (op, d)) in
       if command = ''move'' then named ''object.move'' (move_payload g oid (tl a))
       else if command = ''buy'' then
         (if length a \<notin> {2, 9} then Inl (ValueError buy_usage)
          else named ''object.create'' (buy_payload g oid (a ! 1) (drop 2 a)))
       else if command = ''recolor'' then
         require a 2 (Inr (''object.definition'', [(''object_id'', VStr oid), (''definition_id'', VStr (a ! 1))]))
       else if command = ''scale'' then
         require a 2 (case float_list g [a ! 1] of
            Inl e \<Rightarrow> Inl e
          | Inr fs \<Rightarrow> Inr (''object.scale'', [(''object_id'', VStr oid), (''scale'', hd fs)]))
       else if command = ''parent'' then
         require a 2 (Inr (''object.set_parent'', [(''object_id'', VStr oid), (''parent_id'', VStr (a ! 1))]))
       else if command = ''clear-parent'' then Inr (''object.clear_parent'', [(''object_id'', VStr oid)])
       else Inr (''object.destroy'', [(''object_id'', VStr oid)]))"

definition send_build :: "fake_env \<Rightarrow> string \<times> pydict \<Rightarrow> fake_state \<Rightarrow> fres" where
  "send_build g o1 s = fake_send g (mt_value MT_BUILD_LOCK_REQUEST) [] (s\<lparr>fk_pending := fk_pending s @ [o1]\<rparr>)"

text \<open>\<open>dialog_command\<close>: an answered dialog is forgotten, so it is answered once.\<close>

definition dialog_answer :: "string list \<Rightarrow> py_error + pydict" where
  "dialog_answer a =
     (let choice = py_lower (a ! 1) in
      if choice \<in> {''yes'', ''no''} then Inr [(''accepted'', VBool (choice = ''yes''))]
      else if choice = ''select'' \<and> 3 \<le> length a then Inr [(''value'', VStr (join '' '' (drop 2 a)))]
      else Inl (ValueError ''usage: dialog <dialog_id> yes|no|select <value>''))"

definition dialog_command :: "fake_env \<Rightarrow> string list \<Rightarrow> fake_state \<Rightarrow> fres" where
  "dialog_command g a s =
     f_with (require a 2
        (if map_of (fk_dialogs s) (hd a) = None then Inl (ValueError ''unknown_or_completed_dialog'') else dialog_answer a))
       (\<lambda>r s. f_then (fake_send g (mt_value MT_DIALOG_RESPONSE) [(''dialog_id'', VStr (hd a)), (''response'', VDict r)] s)
          (\<lambda>s1. (s1\<lparr>fk_dialogs := AList.delete (hd a) (fk_dialogs s1)\<rparr>, None))) s"

definition interact_command :: "fake_env \<Rightarrow> string list \<Rightarrow> fake_state \<Rightarrow> fres" where
  "interact_command g a s =
     (if length a \<notin> {1, 2} then (s, Some (ValueError ''usage: interact <affordance_id> [target_id]''))
      else fake_send g (mt_value MT_INTERACTION_REQUEST)
        [(''request_id'', VStr (fx_uuid g)), (''sim_id'', fk_sim s), (''affordance_id'', VStr (hd a)),
         (''target_id'', if length a = 2 then VStr (a ! 1) else VNone)] s)"

definition speed_command :: "fake_env \<Rightarrow> string list \<Rightarrow> fake_state \<Rightarrow> fres" where
  "speed_command g a s =
     f_with (require a 1 (py_int (VStr (hd a))))
       (\<lambda>v s. if v \<notin> {0, 1, 2, 3} then (s, Some (ValueError ''speed must be 0, 1, 2, or 3''))
              else fake_send g (mt_value MT_CLOCK_REQUEST_SPEED) [(''speed'', VInt v)] s) s"

definition BUILD_COMMANDS :: "string list" where
  "BUILD_COMMANDS = [''buy'', ''recolor'', ''scale'', ''sell'', ''move'', ''clear-parent'', ''parent'']"

text \<open>The commands with an effect, other than \<open>scenario\<close> and \<open>quit\<close>; all others only print.\<close>

definition basic_command :: "fake_env \<Rightarrow> string \<Rightarrow> string list \<Rightarrow> fake_state \<Rightarrow> fres" where
  "basic_command g command a s =
     (let needs = (\<lambda>n f. f_with (require a n (Inr ())) (\<lambda>u. f) s) in
      if command = ''travel'' then needs 1
        (fake_send g (mt_value MT_TRAVEL_REQUEST) [(''zone_id'', VStr (hd a)), (''actor_ids'', VList [])])
      else if command = ''build-lock'' then fake_send g (mt_value MT_BUILD_LOCK_REQUEST) [] s
      else if command = ''build-release'' then fake_send g (mt_value MT_BUILD_LOCK_RELEASE) [] (s\<lparr>fk_owner := VNone\<rparr>)
      else if command \<in> set BUILD_COMMANDS then f_with (build_message g command a) (send_build g) s
      else if command = ''select'' then needs 1
        (\<lambda>s. fake_send g (mt_value MT_SIM_SELECT) [(''sim_id'', VStr (hd a))] (s\<lparr>fk_sim := VStr (hd a)\<rparr>))
      else if command = ''interact'' then interact_command g a s
      else if command = ''cancel'' then needs 1
        (fake_send g (mt_value MT_INTERACTION_CANCEL) [(''interaction_id'', VStr (hd a)), (''request_id'', VStr (hd a))])
      else if command \<in> {''pause'', ''resume''} then
        fake_send g (mt_value MT_CLOCK_REQUEST_PAUSE) [(''paused'', VBool (command = ''pause''))] s
      else if command = ''speed'' then speed_command g a s
      else if command = ''dialog'' then dialog_command g a s
      else if command = ''raw-watch'' then needs 1 (\<lambda>s. (s\<lparr>fk_watch := (py_lower (hd a) = ''on'')\<rparr>, None))
      else if command = ''snapshot'' then fake_send g (mt_value MT_SNAPSHOT_REQUEST) [] s
      else (s, None))"

text \<open>\<open>except (ValueError, TypeError)\<close>: the error is kept and the console goes on.\<close>

definition end_of_command :: "fres \<Rightarrow> fres" where
  "end_of_command r =
     (case r of
        (s, None) \<Rightarrow> (s, None)
      | (s, Some e) \<Rightarrow>
          if exc_class e \<in> {''ValueError'', ''TypeError''} then (s\<lparr>fk_error := exc_text e\<rparr>, None) else (s, Some e))"

definition note_line :: "string \<Rightarrow> fake_state \<Rightarrow> fake_state" where
  "note_line line s = s\<lparr>fk_command := py_strip line\<rparr>"

definition nested_line :: "fake_env \<Rightarrow> string \<Rightarrow> fake_state \<Rightarrow> fres" where
  "nested_line g line s =
     (case parse_line line of (command, a) \<Rightarrow> end_of_command (basic_command g command a (note_line line s)))"

fun nested_lines :: "fake_env \<Rightarrow> string list \<Rightarrow> fake_state \<Rightarrow> fres" where
  "nested_lines g [] s = (s, None)"
| "nested_lines g (l # ls) s = f_then (nested_line g l s) (nested_lines g ls)"

text \<open>The lines a scenario runs; none of them is a scenario or \<open>quit\<close>.\<close>

definition scenario_lines :: "string list \<Rightarrow> py_error + string list" where
  "scenario_lines a =
     require a 1
      (if hd a = ''travel'' then require a 2 (Inr [''travel '' @ a ! 1])
       else if hd a \<in> {''build-smoke'', ''build-destructive''} then
         require a 3 (Inr ([''recolor '' @ a ! 1 @ '' '' @ a ! 2, ''move '' @ a ! 1 @ '' 0 0 0 0 0 0 1'', ''scale '' @ a ! 1 @ '' 1'']
           @ (if hd a = ''build-destructive'' then [''buy '' @ a ! 1 @ '' '' @ a ! 2, ''sell '' @ a ! 1] else [])))
       else Inl (ValueError ''unknown scenario''))"

text \<open>\<open>run_command\<close>; the flag says that the console goes on.\<close>

definition run_command :: "fake_env \<Rightarrow> string \<Rightarrow> fake_state \<Rightarrow> fres \<times> bool" where
  "run_command g line s =
     (case parse_line line of (command, a) \<Rightarrow>
        if command = ''quit'' then ((note_line line s, None), False)
        else if command = ''scenario''
        then (end_of_command (f_with (scenario_lines a) (nested_lines g) (note_line line s)), True)
        else (end_of_command (basic_command g command a (note_line line s)), True))"

text \<open>
  \<open>main\<close>: the greeting, the first answer of the host, which is not guarded, and the console
  until \<open>quit\<close>, the end of the input or an error of the socket.
\<close>

fun fake_console :: "fake_env \<Rightarrow> string list \<Rightarrow> fake_state \<Rightarrow> fres" where
  "fake_console g [] s = (s, None)"
| "fake_console g (l # ls) s =
     (case run_command g l s of (r, True) \<Rightarrow> f_then r (fake_console g ls) | (r, False) \<Rightarrow> r)"

definition fake_start ::
  "fake_env \<Rightarrow> string \<Rightarrow> pydict \<Rightarrow> (py_error + envelope) option \<Rightarrow> fake_state \<Rightarrow> fres" where
  "fake_start g name manifest first s =
     f_then (fake_send g (mt_value MT_HELLO) [(''display_name'', VStr name), (''manifest'', VDict manifest)] s)
       (\<lambda>s1. case first of None \<Rightarrow> (s1, None) | Some line \<Rightarrow> f_with line (fake_handle g) s1)"

section \<open>The shape of the travel note\<close>

definition TRAVEL_KEYS :: "string set" where
  "TRAVEL_KEYS = {''phase'', ''txn_id'', ''epoch'', ''zone_id'', ''batch_open'', ''last_error''}"

text \<open>The note of the travel always has its six entries, and every dialog is listed once.\<close>

definition fake_ok :: "fake_state \<Rightarrow> bool" where
  "fake_ok s \<longleftrightarrow> dict_ok (fk_travel s) \<and> dict_keys (fk_travel s) = TRAVEL_KEYS \<and> dict_ok (fk_dialogs s)"

lemma fake_ok_cong:
  "fk_travel s = fk_travel s' \<Longrightarrow> fk_dialogs s = fk_dialogs s' \<Longrightarrow> fake_ok s \<longleftrightarrow> fake_ok s'"
  by (simp add: fake_ok_def)

lemma fake_ok_new: "fake_ok (new_fake pid d)"
  by (auto simp: fake_ok_def new_fake_def TRAVEL_KEYS_def)

lemma copy_keys_ok:
  "dict_ok d \<Longrightarrow> dict_keys d = TRAVEL_KEYS \<Longrightarrow> set ks \<subseteq> TRAVEL_KEYS \<Longrightarrow>
     dict_ok (copy_keys ks p d) \<and> dict_keys (copy_keys ks p d) = TRAVEL_KEYS"
proof (induction ks arbitrary: d)
  case (Cons k ks)
  let ?d = "case map_of p k of None \<Rightarrow> d | Some v \<Rightarrow> AList.update k v d"
  have "dict_ok ?d \<and> dict_keys ?d = TRAVEL_KEYS"
    using Cons.prems by (auto simp: insert_absorb split: option.split)
  then show ?case using Cons by (simp add: copy_keys_def)
qed (simp add: copy_keys_def)

lemma travel_note_ok:
  assumes "dict_ok d" and "dict_keys d = TRAVEL_KEYS"
  shows "dict_ok (travel_note ty p d) \<and> dict_keys (travel_note ty p d) = TRAVEL_KEYS"
proof -
  have keys: "''batch_open'' \<in> TRAVEL_KEYS" "''phase'' \<in> TRAVEL_KEYS" "''last_error'' \<in> TRAVEL_KEYS"
    "set [''txn_id'', ''epoch'', ''zone_id''] \<subseteq> TRAVEL_KEYS"
    by (simp_all add: TRAVEL_KEYS_def)
  have upd: "dict_ok (AList.update k v d) \<and> dict_keys (AList.update k v d) = TRAVEL_KEYS"
    if "dict_ok d" "dict_keys d = TRAVEL_KEYS" "k \<in> TRAVEL_KEYS" for k v and d :: pydict
    using that by (simp add: insert_absorb)
  define t1 where "t1 = (if ty = mt_value MT_TRAVEL_VIEW_BATCH
    then AList.update ''batch_open'' (VBool (py_lower (py_str (pget_default p ''kind'' (VStr []))) = ''begin'')) d else d)"
  define t2 where "t2 = (case if ty = mt_value MT_TRAVEL_VIEW_BATCH
      then Some (''view_batch_'' @ py_lower (py_str (pget_default p ''kind'' (VStr [])))) else fake_phase ty of
    None \<Rightarrow> t1 | Some ph \<Rightarrow> AList.update ''phase'' (VStr ph) t1)"
  define t3 where "t3 = copy_keys [''txn_id'', ''epoch'', ''zone_id''] p t2"
  have "dict_ok t1 \<and> dict_keys t1 = TRAVEL_KEYS"
    using assms upd keys unfolding t1_def by auto
  then have "dict_ok t2 \<and> dict_keys t2 = TRAVEL_KEYS"
    using upd keys unfolding t2_def by (auto split: option.split)
  then have t3: "dict_ok t3 \<and> dict_keys t3 = TRAVEL_KEYS"
    using copy_keys_ok keys unfolding t3_def by blast
  have "travel_note ty p d = (if ty = mt_value MT_TRAVEL_ABORT then AList.update ''last_error''
      (VStr (py_str (py_or (pget p ''reason'') (VStr ''travel aborted'')))) t3 else t3)"
    by (simp only: travel_note_def t1_def t2_def t3_def Let_def)
  then show ?thesis using t3 upd keys by auto
qed

lemma update_travel_ok: "fake_ok s \<Longrightarrow> fake_ok (update_travel ty p s)"
  using travel_note_ok by (simp add: fake_ok_def update_travel_def)

lemma f_then_ok: "fake_ok (fst r) \<Longrightarrow> (\<And>s. fake_ok s \<Longrightarrow> fake_ok (fst (f s))) \<Longrightarrow> fake_ok (fst (f_then r f))"
  by (auto simp: f_then_def split: prod.split option.split)

lemma f_with_ok: "fake_ok s \<Longrightarrow> (\<And>x s. fake_ok s \<Longrightarrow> fake_ok (fst (f x s))) \<Longrightarrow> fake_ok (fst (f_with v f s))"
  by (simp add: f_with_def split: sum.split)

lemma fake_send_frame [simp]:
  "fk_travel (fst (fake_send g ty d s)) = fk_travel s" "fk_dialogs (fst (fake_send g ty d s)) = fk_dialogs s"
  "fk_pending (fst (fake_send g ty d s)) = fk_pending s" "fk_raw (fst (fake_send g ty d s)) = fk_raw s"
  "fk_saver (fst (fake_send g ty d s)) = fk_saver s" "fk_dir (fst (fake_send g ty d s)) = fk_dir s"
  "fk_id (fst (fake_send g ty d s)) = fk_id s"
  by (simp_all add: fake_send_def)

lemma fake_send_ok: "fake_ok s \<Longrightarrow> fake_ok (fst (fake_send g ty d s))"
  by (simp add: fake_ok_def)

lemma note_own_sim_frame [simp]:
  "fk_travel (fst (note_own_sim vs s)) = fk_travel s" "fk_dialogs (fst (note_own_sim vs s)) = fk_dialogs s"
  by (induction vs arbitrary: s) (auto split: sum.split)

lemma apply_snapshot_ok:
  assumes "fake_ok s"
  shows "fake_ok (fst (apply_snapshot d s))"
proof -
  have "fake_ok (fst (note_own_readiness r s))" if "fake_ok s" for r s
    using that by (auto simp: note_own_readiness_def f_with_def fake_ok_def Let_def split: sum.split)
  moreover have "fake_ok (fst (snapshot_travel d s))" if "fake_ok s" for s
    using that by (auto simp: snapshot_travel_def Let_def update_travel_ok split: pyval.split)
  moreover have "fake_ok (fst (note_own_sim vs s))" if "fake_ok s" for vs s
    using that by (simp add: fake_ok_def)
  ultimately show ?thesis
    using assms unfolding apply_snapshot_def by (intro f_then_ok f_with_ok) (simp_all add: fake_ok_def)
qed

lemma send_operations_frame [simp]:
  "fk_travel (fst (send_operations g os s)) = fk_travel s" "fk_dialogs (fst (send_operations g os s)) = fk_dialogs s"
  "fk_raw (fst (send_operations g os s)) = fk_raw s"
proof -
  have "fk_travel (fst (send_operations g os s)) = fk_travel s \<and> fk_dialogs (fst (send_operations g os s)) = fk_dialogs s
      \<and> fk_raw (fst (send_operations g os s)) = fk_raw s"
    by (induction os arbitrary: s) (auto simp: f_then_def fake_send_def)
  then show "fk_travel (fst (send_operations g os s)) = fk_travel s" "fk_dialogs (fst (send_operations g os s)) = fk_dialogs s"
    "fk_raw (fst (send_operations g os s)) = fk_raw s" by simp_all
qed

definition save_handlers :: "fake_env \<Rightarrow> (pydict \<Rightarrow> fake_state \<Rightarrow> fres) list" where
  "save_handlers g = [on_save_manifest g, on_save_chunk g, on_save_end g]"

lemma save_failed_frame [simp]:
  "fk_travel (fst (save_failed g e s)) = fk_travel s" "fk_dialogs (fst (save_failed g e s)) = fk_dialogs s"
  "fk_raw (fst (save_failed g e s)) = fk_raw s"
  by (auto simp: save_failed_def f_then_def fake_send_def Let_def split: option.split)

lemma save_bodies_frame:
  "fk_travel (fst (save_body_chunk p s)) = fk_travel s \<and> fk_dialogs (fst (save_body_chunk p s)) = fk_dialogs s \<and>
     fk_raw (fst (save_body_chunk p s)) = fk_raw s"
  "fk_travel (fst (save_body_end g p s)) = fk_travel s \<and> fk_dialogs (fst (save_body_end g p s)) = fk_dialogs s \<and>
     fk_raw (fst (save_body_end g p s)) = fk_raw s"
  by (auto simp: save_body_chunk_def save_body_end_def f_with_def f_then_def fake_send_def
      split: option.split sum.split prod.split)

lemma save_frame [simp]:
  assumes "f \<in> set (save_handlers g)"
  shows "fk_travel (fst (f p s)) = fk_travel s" "fk_dialogs (fst (f p s)) = fk_dialogs s" "fk_raw (fst (f p s)) = fk_raw s"
proof -
  have "fk_travel (fst (f p s)) = fk_travel s \<and> fk_dialogs (fst (f p s)) = fk_dialogs s \<and> fk_raw (fst (f p s)) = fk_raw s"
    using assms save_bodies_frame(1) [of p s] save_bodies_frame(2) [of g p s]
    by (auto simp: save_handlers_def on_save_manifest_def on_save_chunk_def on_save_end_def
        split: prod.split sum.split option.split)
  then show "fk_travel (fst (f p s)) = fk_travel s" "fk_dialogs (fst (f p s)) = fk_dialogs s" "fk_raw (fst (f p s)) = fk_raw s"
    by simp_all
qed

lemma save_ok: "f \<in> set (save_handlers g) \<Longrightarrow> fake_ok s \<Longrightarrow> fake_ok (fst (f p s))"
  by (simp add: fake_ok_def)

lemma on_travel_ok: "fake_ok s \<Longrightarrow> fake_ok (fst (on_travel g ty p s))"
  by (auto simp: on_travel_def Let_def intro!: fake_send_ok update_travel_ok)

lemma small_handlers_ok:
  assumes "fake_ok s"
  shows "fake_ok (fst (on_readiness p s))" "fake_ok (fst (on_lock_state g p s))" "fake_ok (fst (on_raw p s))"
    "fake_ok (fst (on_dialog p s))" "fake_ok (fst (on_result p s))" "fake_ok (fst (on_welcome p s))"
proof -
  show "fake_ok (fst (on_readiness p s))" "fake_ok (fst (on_lock_state g p s))" "fake_ok (fst (on_raw p s))"
    "fake_ok (fst (on_dialog p s))" "fake_ok (fst (on_result p s))"
    using assms
    by (auto simp: on_readiness_def on_lock_state_def on_raw_def on_dialog_def on_result_def fake_ok_def Let_def
        split: option.split)
  show "fake_ok (fst (on_welcome p s))"
    unfolding on_welcome_def by (intro f_with_ok apply_snapshot_ok) (use assms in \<open>simp_all add: fake_ok_def\<close>)
qed

lemma fake_handle_ok:
  assumes "fake_ok s"
  shows "fake_ok (fst (fake_handle g e s))"
proof -
  have "fake_ok (fst (on_save_manifest g p s))" "fake_ok (fst (on_save_chunk g p s))" "fake_ok (fst (on_save_end g p s))" for p
    using assms by (auto intro!: save_ok [where g = g] simp: save_handlers_def)
  moreover have "fake_ok (s\<lparr>fk_clock := p\<rparr>)" "fake_ok (s\<lparr>fk_error := t\<rparr>)" for p t
    using assms by (simp_all add: fake_ok_def)
  ultimately show ?thesis
    using assms apply_snapshot_ok [OF assms] on_travel_ok [OF assms] small_handlers_ok [OF assms]
    by (simp only: fake_handle_def Let_def split: if_split) simp
qed

lemma fake_receive_ok: "fake_ok s \<Longrightarrow> fake_ok (fake_receive g line s)"
proof -
  assume "fake_ok s"
  then have "fake_ok (fst (f_with line (fake_handle g) s))"
    by (intro f_with_ok fake_handle_ok)
  then show ?thesis
    by (cases "f_with line (fake_handle g) s") (simp add: fake_receive_def fake_ok_def split: option.split)
qed

lemma fake_receiver_ok: "fake_ok s \<Longrightarrow> fake_ok (fake_receiver g lines s)"
proof -
  assume "fake_ok s"
  then have "fake_ok (fold (fake_receive g) lines s)"
    by (induction lines arbitrary: s) (simp_all add: fake_receive_ok)
  then show ?thesis by (simp add: fake_receiver_def fake_ok_def)
qed

section \<open>Messages of the game\<close>

text \<open>Every game message is counted once, readable or not, and nothing else is.\<close>

definition raw_line :: "py_error + envelope \<Rightarrow> bool" where
  "raw_line line \<longleftrightarrow> (case line of Inl e \<Rightarrow> False | Inr e \<Rightarrow> e_type e = mt_value MT_GAME_RAW_MESSAGE)"

lemma apply_snapshot_raw [simp]: "fk_raw (fst (apply_snapshot d s)) = fk_raw s"
proof -
  have own: "fk_raw (fst (note_own_sim vs s)) = fk_raw s" for vs s
    by (induction vs arbitrary: s) (auto split: sum.split)
  have own2: "fk_raw (fst (note_own_readiness r s)) = fk_raw s" for r s
    by (auto simp: note_own_readiness_def f_with_def Let_def split: sum.split)
  have travel: "fk_raw (fst (snapshot_travel d s)) = fk_raw s" for s
    by (auto simp: snapshot_travel_def update_travel_def Let_def split: pyval.split)
  have bind: "fk_raw (fst (f_then r f)) = fk_raw (fst r)" if "\<And>s. fk_raw (fst (f s)) = fk_raw s" for r f
    using that by (cases r) (auto simp: f_then_def split: option.split)
  show ?thesis
    unfolding apply_snapshot_def
    by (simp add: bind travel own own2 f_with_def split: sum.split)
qed

lemma fake_handle_raw:
  "fk_raw (fst (fake_handle g e s)) = fk_raw s + (if e_type e = mt_value MT_GAME_RAW_MESSAGE then 1 else 0)"
proof (cases "e_type e = mt_value MT_GAME_RAW_MESSAGE")
  case True
  then show ?thesis
    by (simp add: fake_handle_def TRAVEL_TYPES_def on_raw_def Let_def split: option.split)
next
  case False
  have "fk_raw (fst (on_save_manifest g p s)) = fk_raw s" "fk_raw (fst (on_save_chunk g p s)) = fk_raw s"
    "fk_raw (fst (on_save_end g p s)) = fk_raw s" for p
    by (auto intro!: save_frame(3) [where g = g] simp: save_handlers_def)
  moreover have "fk_raw (fst (on_welcome p s)) = fk_raw s" "fk_raw (fst (on_readiness p s)) = fk_raw s"
    "fk_raw (fst (on_lock_state g p s)) = fk_raw s" "fk_raw (fst (on_travel g ty p s)) = fk_raw s"
    "fk_raw (fst (on_dialog p s)) = fk_raw s" "fk_raw (fst (on_result p s)) = fk_raw s" for p ty
    by (auto simp: on_welcome_def on_readiness_def on_lock_state_def on_travel_def on_dialog_def on_result_def
        update_travel_def f_with_def Let_def split: option.split sum.split)
  ultimately show ?thesis
    using False by (simp only: fake_handle_def Let_def split: if_split) simp
qed

lemma fake_receive_raw: "fk_raw (fake_receive g line s) = fk_raw s + (if raw_line line then 1 else 0)"
  by (cases line; cases "snd (f_with line (fake_handle g) s)"; cases "f_with line (fake_handle g) s")
    (auto simp: fake_receive_def raw_line_def dest: arg_cong [where f = "\<lambda>r. fk_raw (fst r)"] simp: fake_handle_raw)

lemma raw_messages_counted:
  "fk_raw (fake_receiver g lines s) = fk_raw s + int (length (filter raw_line lines))"
proof -
  have "fk_raw (fold (fake_receive g) lines s) = fk_raw s + int (length (filter raw_line lines))"
    by (induction lines arbitrary: s) (simp_all add: fake_receive_raw)
  then show ?thesis by (simp add: fake_receiver_def)
qed

section \<open>Travel\<close>

lemma travel_answer_ack: "pget p ''txn_id'' = VStr i \<Longrightarrow> pget p ''epoch'' = VInt ep \<Longrightarrow> travel_answer p = ack_payload i ep"
  by (simp add: travel_answer_def ack_payload_def)

lemma zone_answer_same:
  "travel_zone_ready ev q (ack_payload i ep @ d) h = travel_zone_ready ev q (ack_payload i ep) h"
proof -
  have "pget (ack_payload i ep @ d) ''txn_id'' = VStr i" "pget_default (ack_payload i ep @ d) ''epoch'' v = VInt ep" for v
    by (simp_all add: ack_payload_def pget_def pget_default_def)
  then show ?thesis by (simp only: travel_zone_ready_def ack_fields)
qed

text \<open>
  With \<open>--auto-travel-ack\<close> each proposal and each commit is answered by one message, and that
  message is the step of the transaction the host waits for.
\<close>

lemma auto_answers:
  assumes "fx_auto g" and "fx_up g" and "pget p ''txn_id'' = VStr i" and "pget p ''epoch'' = VInt ep"
  shows "fk_sent (fst (on_travel g (mt_value MT_TRAVEL_PROPOSE) p s)) =
      fk_sent s @ [(mt_value MT_TRAVEL_READY, ack_payload i ep)]"
    and "fk_sent (fst (on_travel g (mt_value MT_TRAVEL_COMMIT) p s)) =
      fk_sent s @ [(mt_value MT_TRAVEL_ZONE_READY, ack_payload i ep @ [(''zone_id'', pget p ''zone_id'')])]"
  using assms travel_answer_ack [OF assms(3,4)]
  by (simp_all add: on_travel_def fake_send_def update_travel_def Let_def)

lemma fake_keeps_travel_going:
  assumes auto_ack: "fx_auto g" "fx_up g" and p: "pget p ''txn_id'' = VStr i" "pget p ''epoch'' = VInt ep"
    and host: "\<And>q. ev_up ev q" "tc_current (host_travel h) = Some t" "tx_id t = i" "i \<noteq> []" "tx_epoch t = ep"
  shows "\<exists>d. fk_sent (fst (on_travel g (mt_value MT_TRAVEL_PROPOSE) p s)) = fk_sent s @ [(mt_value MT_TRAVEL_READY, d)] \<and>
      tc_current (host_travel (fst (travel_ready ev q d h))) = Some (ready_step q t)"
    and "tx_phase t \<noteq> COMPLETE \<Longrightarrow>
      \<exists>d. fk_sent (fst (on_travel g (mt_value MT_TRAVEL_COMMIT) p s)) = fk_sent s @ [(mt_value MT_TRAVEL_ZONE_READY, d)] \<and>
        tc_current (host_travel (fst (travel_zone_ready ev q d h))) = Some (arrive_zone q t)"
proof -
  show "\<exists>d. fk_sent (fst (on_travel g (mt_value MT_TRAVEL_PROPOSE) p s)) = fk_sent s @ [(mt_value MT_TRAVEL_READY, d)] \<and>
      tc_current (host_travel (fst (travel_ready ev q d h))) = Some (ready_step q t)"
    using auto_answers(1) [OF auto_ack p] travel_ready_step(1) [OF host] by blast
  assume "tx_phase t \<noteq> COMPLETE"
  then have "tc_current (host_travel (fst (travel_zone_ready ev q (ack_payload i ep) h))) = Some (arrive_zone q t)"
    using travel_zone_step(1) [OF host] by blast
  then show "\<exists>d. fk_sent (fst (on_travel g (mt_value MT_TRAVEL_COMMIT) p s)) = fk_sent s @ [(mt_value MT_TRAVEL_ZONE_READY, d)] \<and>
      tc_current (host_travel (fst (travel_zone_ready ev q d h))) = Some (arrive_zone q t)"
    using auto_answers(2) [OF auto_ack p] zone_answer_same by metis
qed

section \<open>Dialogs\<close>

text \<open>A dialog answered with success cannot be answered again.\<close>

lemma dialog_answered_once:
  assumes "dialog_command g a s = (s1, None)"
  shows "\<exists>r. fk_sent s1 = fk_sent s @ [(mt_value MT_DIALOG_RESPONSE, [(''dialog_id'', VStr (hd a)), (''response'', VDict r)])]"
    and "dialog_command g' a s1 = (s1, Some (ValueError ''unknown_or_completed_dialog''))"
  using assms
  by (auto simp: dialog_command_def f_with_def f_then_def require_def fake_send_def
      split: sum.splits if_splits option.splits)

section \<open>Build commands\<close>

lemma float_list_length: "float_list g vs = Inr fs \<Longrightarrow> length fs = length vs"
  by (induction vs arbitrary: fs) (auto split: option.splits sum.splits)

text \<open>
  What a build command makes of its words passes the host's validation, whatever they are, as
  long as no word is empty or longer than a value may be; the line's words never are empty.
\<close>

lemma hd_or_second [simp]: "a \<noteq> [] \<Longrightarrow> hd a \<in> set a" "\<not> length a < 2 \<Longrightarrow> a ! Suc 0 \<in> set a"
  "length a = 2 \<Longrightarrow> a ! Suc 0 \<in> set a" "length a = 9 \<Longrightarrow> a ! Suc 0 \<in> set a"
  by simp_all

lemma build_message_shape:
  assumes "build_message g command a = Inr (op, d)"
  shows "op \<in> set OBJECT_OPERATIONS" and "length d \<le> MAX_BUILD_DATA_KEYS" and "op \<noteq> ''funds.modify''"
    and "map_of d ''object_id'' = Some (VStr (hd a))" and "a \<noteq> []"
    and "op = ''object.create'' \<Longrightarrow> map_of d ''definition_id'' = Some (VStr (a ! 1)) \<and> 2 \<le> length a"
    and "\<forall>(k, v) \<in> set d. length k \<le> 128 \<and> (\<forall>t. v = VStr t \<longrightarrow> t \<in> set a \<or> t = ''0'')"
  using assms
  by (auto simp: build_message_def require_def move_payload_def buy_payload_def fake_transform_def OBJECT_OPERATIONS_def
      MAX_BUILD_DATA_KEYS_def Let_def split: if_splits sum.splits option.splits)

lemma entry_error_none:
  "\<forall>(k, v) \<in> set d. length k \<le> 128 \<and> (\<forall>t. v = VStr t \<longrightarrow> length t \<le> MAX_BUILD_VALUE_LENGTH) \<Longrightarrow> entry_error d = None"
  by (induction d rule: entry_error.induct) (auto split: pyval.split)

lemma stringified_text:
  "map_of d k = Some (VStr t) \<Longrightarrow> pget_default (stringify_keys ks d) k v = VStr t"
proof (induction ks arbitrary: d)
  case (Cons j ks)
  have "map_of (stringify_key j d) k = Some (VStr t)"
    using Cons.prems by (cases "k = j") (auto simp: stringify_key_lookup intro!: exI [of _ "VStr t"])
  then show ?case using Cons.IH by (simp add: stringify_keys_def)
qed (simp add: stringify_keys_def pget_default_def)

definition words_ok :: "string list \<Rightarrow> bool" where
  "words_ok a \<longleftrightarrow> (\<forall>w \<in> set a. w \<noteq> [] \<and> length w \<le> MAX_BUILD_VALUE_LENGTH)"

lemma build_message_valid:
  assumes b: "build_message g command a = Inr (op, d)" and w: "words_ok a"
  shows "\<exists>d'. validate_build_data op d = Inr d'"
proof -
  note shape = build_message_shape [OF b]
  have bounded: "length t \<le> MAX_BUILD_VALUE_LENGTH" if "t \<in> set a \<or> t = ''0''" for t
    using w that by (auto simp: words_ok_def MAX_BUILD_VALUE_LENGTH_def)
  have "length k \<le> 128 \<and> (\<forall>t. v = VStr t \<longrightarrow> length t \<le> MAX_BUILD_VALUE_LENGTH)" if kv: "(k, v) \<in> set d" for k v
    using bspec [OF shape(7) kv] bounded by simp
  then have "entry_error d = None"
    by (intro entry_error_none) blast
  moreover have "\<not> blank_field ''object_id'' (stringify_keys id_keys d)"
    using shape(4,5) w by (simp add: blank_field_def stringified_text words_ok_def)
  moreover have "\<not> blank_field ''definition_id'' (stringify_keys id_keys d)" if "op = ''object.create''"
  proof -
    have "a ! 1 \<in> set a" using shape(6) [OF that] by (intro nth_mem) simp
    then show ?thesis
      using shape(6) [OF that] w by (auto simp: blank_field_def stringified_text words_ok_def)
  qed
  ultimately have "required_error op (stringify_keys id_keys d) = None"
    using shape(3) by (auto simp: required_error_def)
  then show ?thesis
    using shape(1,2) \<open>entry_error d = None\<close> by (simp add: validate_build_data_def Let_def)
qed

text \<open>The words of a line are never empty.\<close>

lemma lower_nonempty: "py_lower w = [] \<longleftrightarrow> w = []"
  by (simp add: py_lower_def)

lemma parse_line_nonempty: "parse_line line = (c, a) \<Longrightarrow> w \<in> set a \<Longrightarrow> w \<noteq> []"
  using split_words_nonempty [of w "[]" "py_strip line"] by (auto simp: parse_line_def split: list.splits)

text \<open>
  What the host makes of the queue of a tool that holds the live lease: every operation is
  accepted, in the order of the commands, with consecutive numbers.
\<close>

definition buildable :: "string \<times> pydict \<Rightarrow> bool" where
  "buildable o1 \<longleftrightarrow> (\<exists>d. validate_build_data (fst o1) (snd o1) = Inr d)"

fun submit_all ::
  "rat \<Rightarrow> string \<Rightarrow> (string \<times> pydict) list \<Rightarrow> build_authority \<Rightarrow> build_authority \<times> (py_error + build_operation) list" where
  "submit_all now pid [] a = (a, [])"
| "submit_all now pid (o1 # os) a =
     (case submit now pid (fst o1) (snd o1) a of (a1, r) \<Rightarrow>
        (case submit_all now pid os a1 of (a2, rs) \<Rightarrow> (a2, r # rs)))"

definition holds_lease :: "rat \<Rightarrow> string \<Rightarrow> build_authority \<Rightarrow> bool" where
  "holds_lease now pid a \<longleftrightarrow>
     (case ba_lock a of None \<Rightarrow> False | Some l \<Rightarrow> bl_owner l = pid \<and> \<not> lock_expired now l \<and> 0 \<le> bl_lease l)"

lemma holds_lease_live: "holds_lease now pid a \<Longrightarrow> live_owner now a = Some pid"
  by (auto simp: holds_lease_def live_owner_def split: option.splits)

text \<open>A request that is granted gives a lease of this kind.\<close>

lemma granted_holds_lease:
  "snd (request_lock now ns pid a) \<Longrightarrow> 0 \<le> ba_lease a \<Longrightarrow> holds_lease now pid (fst (request_lock now ns pid a))"
  by (auto simp: request_lock_def holds_lease_def lock_expired_def Let_def drop_expired_def split: if_splits option.splits)

lemma submit_keeps_lease:
  "holds_lease now pid a \<Longrightarrow> holds_lease now pid (fst (submit now pid op d a))"
  by (auto simp: submit_def holds_lease_def drop_expired_def owns_def touch_lock_def lock_expired_def
      record_operation_def Let_def split: option.splits sum.splits if_splits)

lemma queue_accepted:
  assumes "holds_lease now pid a" and "list_all buildable os"
  shows "\<exists>bs. snd (submit_all now pid os a) = map Inr bs \<and> map bo_op bs = map fst os \<and>
      map bo_seq bs = map (\<lambda>n. ba_seq a + 1 + int n) [0..<length os] \<and>
      ba_seq (fst (submit_all now pid os a)) = ba_seq a + int (length os)"
  using assms
proof (induction os arbitrary: a)
  case (Cons o1 os)
  obtain b where b: "snd (submit now pid (fst o1) (snd o1) a) = Inr b"
    using Cons.prems holds_lease_live [of now pid a] submit_accepted_iff [of now pid "fst o1" "snd o1" a]
    by (auto simp: buildable_def)
  let ?a = "fst (submit now pid (fst o1) (snd o1) a)"
  have b1: "bo_seq b = ba_seq a + 1 \<and> bo_op b = fst o1 \<and> ba_seq ?a = ba_seq a + 1"
    using b by (auto simp: submit_def Let_def split: if_splits sum.splits)
  have "holds_lease now pid ?a"
    using Cons.prems(1) by (rule submit_keeps_lease)
  from Cons.IH [OF this] obtain bs where bs: "snd (submit_all now pid os ?a) = map Inr bs" "map bo_op bs = map fst os"
    "map bo_seq bs = map (\<lambda>n. ba_seq ?a + 1 + int n) [0..<length os]"
    "ba_seq (fst (submit_all now pid os ?a)) = ba_seq ?a + int (length os)"
    using Cons.prems(2) by auto
  have "[0..<length (o1 # os)] = 0 # map Suc [0..<length os]"
    by (simp add: upt_conv_Cons map_Suc_upt del: upt_Suc)
  then have "map bo_seq (b # bs) = map (\<lambda>n. ba_seq a + 1 + int n) [0..<length (o1 # os)]"
    using b1 bs(3) by (simp del: upt_Suc)
  moreover have "snd (submit_all now pid (o1 # os) a) = map Inr (b # bs)"
    "ba_seq (fst (submit_all now pid (o1 # os) a)) = ba_seq a + int (length (o1 # os))"
    using b b1 bs(1,4) by (simp_all add: prod.case_eq_if)
  ultimately show ?case
    using b1 bs(2) by (intro exI [of _ "b # bs"]) simp
qed simp

lemma send_operations_up:
  "fx_up g \<Longrightarrow> snd (send_operations g os s) = None \<and> fk_sent (fst (send_operations g os s)) = fk_sent s @
     map (\<lambda>o1. (mt_value MT_BUILD_OPERATION, [(''op'', VStr (fst o1)), (''data'', VDict (snd o1))])) os \<and>
     fk_pending (fst (send_operations g os s)) = fk_pending s"
proof (induction os arbitrary: s)
  case (Cons o1 os)
  then show ?case by (simp add: fake_send_def pget_def)
qed simp

lemma submit_arguments_sent:
  "submit_arguments [(''op'', VStr op), (''data'', VDict d)] = Inr (op, d)"
  by (simp add: submit_arguments_def pget_default_def)

text \<open>
  The lock state of the host names the tool: everything queued is sent, in order, and nothing stays
  queued; for another owner nothing is sent.
\<close>

lemma lock_state_flushes:
  assumes "fx_up g"
  shows "fk_pending (fst (on_lock_state g [(''owner_id'', VStr (fk_id s))] s)) = []"
    and "fk_sent (fst (on_lock_state g [(''owner_id'', VStr (fk_id s))] s)) = fk_sent s @
      map (\<lambda>o1. (mt_value MT_BUILD_OPERATION, [(''op'', VStr (fst o1)), (''data'', VDict (snd o1))])) (fk_pending s)"
    and "\<not> py_eq (pget p ''owner_id'') (VStr (fk_id s)) \<Longrightarrow>
      fk_pending (fst (on_lock_state g p s)) = fk_pending s \<and> fk_sent (fst (on_lock_state g p s)) = fk_sent s"
  using send_operations_up [OF assms] by (simp_all add: on_lock_state_def pget_def Let_def)

text \<open>A socket that fails on the way loses the rest of the queue: it is cleared before the first message.\<close>

lemma failed_flush_loses_queue:
  assumes "\<not> fx_up g" and "fk_pending s \<noteq> []"
  shows "fk_pending (fst (on_lock_state g [(''owner_id'', VStr (fk_id s))] s)) = []"
    and "fk_sent (fst (on_lock_state g [(''owner_id'', VStr (fk_id s))] s)) = fk_sent s"
  using assms by (cases "fk_pending s"; simp add: on_lock_state_def pget_def Let_def fake_send_def)+

section \<open>The queue holds only valid operations\<close>

definition queue_valid :: "fake_state \<Rightarrow> bool" where
  "queue_valid s \<longleftrightarrow> list_all buildable (fk_pending s)"

lemma queue_valid_new: "queue_valid (new_fake pid d)"
  by (simp add: queue_valid_def new_fake_def)

lemma queue_valid_cong: "fk_pending s = fk_pending s' \<Longrightarrow> queue_valid s \<longleftrightarrow> queue_valid s'"
  by (simp add: queue_valid_def)

lemma f_then_queue:
  "queue_valid (fst r) \<Longrightarrow> (\<And>s. queue_valid s \<Longrightarrow> queue_valid (fst (f s))) \<Longrightarrow> queue_valid (fst (f_then r f))"
  by (auto simp: f_then_def split: prod.split option.split)

lemma f_with_queue:
  "queue_valid s \<Longrightarrow> (\<And>x. v = Inr x \<Longrightarrow> queue_valid (fst (f x s))) \<Longrightarrow> queue_valid (fst (f_with v f s))"
  by (simp add: f_with_def split: sum.split)

lemma fake_send_queue [simp]: "queue_valid (fst (fake_send g ty d s)) \<longleftrightarrow> queue_valid s"
  by (simp add: queue_valid_def)

lemma length_py_strip: "length (py_strip s) \<le> length s"
  unfolding py_strip_def by (metis length_dropWhile_le length_rev order_trans)

lemma parse_line_words:
  assumes "parse_line line = (c, a)" and "length line \<le> MAX_BUILD_VALUE_LENGTH"
  shows "words_ok a" and "w \<in> set a \<Longrightarrow> length w \<le> length line"
proof -
  have bound: "length w \<le> length line" if "w \<in> set a" for w
  proof -
    have "w \<in> set (split_words [] (py_strip line))"
      using assms(1) that by (auto simp: parse_line_def split: list.splits)
    from split_words_bounded [OF this] show ?thesis
      using length_py_strip [of line] by simp
  qed
  then show "w \<in> set a \<Longrightarrow> length w \<le> length line" by simp
  show "words_ok a"
    using bound parse_line_nonempty [OF assms(1)] assms(2) by (auto simp: words_ok_def intro: order_trans)
qed

lemma send_build_queue:
  assumes "queue_valid s" and "words_ok a" and "build_message g command a = Inr o1"
  shows "queue_valid (fst (send_build g o1 s))"
proof -
  have "buildable o1"
    using build_message_valid [of g command a "fst o1" "snd o1"] assms(2,3) by (simp add: buildable_def)
  then show ?thesis
    using assms(1) by (simp add: send_build_def queue_valid_def)
qed

lemma dialog_command_queue: "queue_valid s \<Longrightarrow> queue_valid (fst (dialog_command g a s))"
  unfolding dialog_command_def by (intro f_with_queue f_then_queue) (simp_all add: queue_valid_def)

lemma interact_command_queue: "queue_valid s \<Longrightarrow> queue_valid (fst (interact_command g a s))"
  by (simp add: interact_command_def)

lemma speed_command_queue: "queue_valid s \<Longrightarrow> queue_valid (fst (speed_command g a s))"
  unfolding speed_command_def by (intro f_with_queue) simp_all

lemma if_queue: "queue_valid (fst x) \<Longrightarrow> queue_valid (fst y) \<Longrightarrow> queue_valid (fst (if c then x else y))"
  by simp

lemma basic_command_queue:
  assumes "queue_valid s" and "words_ok a"
  shows "queue_valid (fst (basic_command g command a s))"
proof -
  have needs: "queue_valid (fst (f_with (require a n (Inr ())) (\<lambda>u. f) s))" if "queue_valid (fst (f s))" for n f
    using assms(1) that by (intro f_with_queue) auto
  have build: "queue_valid (fst (f_with (build_message g command a) (send_build g) s))"
    using assms by (intro f_with_queue send_build_queue)
  have "queue_valid (s\<lparr>fk_owner := v\<rparr>)" "queue_valid (s\<lparr>fk_sim := w\<rparr>)" "queue_valid (s\<lparr>fk_watch := b\<rparr>)" for v w b
    using assms(1) by (simp_all add: queue_valid_def)
  moreover have "queue_valid (fst (s\<lparr>fk_watch := b\<rparr>, None :: py_error option))" for b
    using assms(1) by (simp add: queue_valid_def)
  ultimately show ?thesis
    unfolding basic_command_def Let_def
    by (intro if_queue needs build dialog_command_queue interact_command_queue speed_command_queue) (simp_all add: assms(1))
qed

lemma end_of_command_queue: "queue_valid (fst r) \<Longrightarrow> queue_valid (fst (end_of_command r))"
  by (auto simp: end_of_command_def queue_valid_def split: prod.split option.split)

lemma note_line_queue: "queue_valid s \<Longrightarrow> queue_valid (note_line line s)"
  by (simp add: note_line_def queue_valid_def)

lemma nested_line_queue:
  assumes "queue_valid s" and "length line \<le> MAX_BUILD_VALUE_LENGTH"
  shows "queue_valid (fst (nested_line g line s))"
  using assms parse_line_words(1) [of line]
  by (auto simp: nested_line_def split: prod.split intro!: end_of_command_queue basic_command_queue note_line_queue)

lemma nested_lines_queue:
  "queue_valid s \<Longrightarrow> \<forall>l \<in> set ls. length l \<le> MAX_BUILD_VALUE_LENGTH \<Longrightarrow> queue_valid (fst (nested_lines g ls s))"
proof (induction ls arbitrary: s)
  case (Cons l ls)
  then show ?case by (auto intro!: f_then_queue nested_line_queue)
qed simp

lemma scenario_lines_bounded:
  assumes "scenario_lines a = Inr ls" and "\<forall>w \<in> set a. length w \<le> n" and "l \<in> set ls"
  shows "length l \<le> 2 * n + 25"
proof -
  have "length (a ! i) \<le> n" if "i < length a" for i
    using assms(2) that by simp
  then have "length (a ! 1) \<le> n" "length a \<ge> 3 \<Longrightarrow> length (a ! 2) \<le> n" if "length a \<ge> 2"
    using that by simp_all
  then show ?thesis
    using assms(1,3) by (auto simp: scenario_lines_def require_def split: if_splits)
qed

text \<open>The longest line the console is given; a scenario repeats two of its words.\<close>

definition MAX_LINE :: nat where
  "MAX_LINE = 2000"

lemma run_command_queue:
  assumes "queue_valid s" and "length line \<le> MAX_LINE"
  shows "queue_valid (fst (fst (run_command g line s)))"
proof -
  obtain c a where ca: "parse_line line = (c, a)" by fastforce
  have short: "length line \<le> MAX_BUILD_VALUE_LENGTH"
    using assms(2) by (simp add: MAX_LINE_def MAX_BUILD_VALUE_LENGTH_def)
  note words = parse_line_words [OF ca short]
  have noted: "queue_valid (note_line line s)"
    using assms(1) by (rule note_line_queue)
  have bound: "\<forall>w \<in> set a. length w \<le> MAX_LINE"
    using words(2) assms(2) by (meson order_trans)
  have "length l \<le> MAX_BUILD_VALUE_LENGTH" if "scenario_lines a = Inr ls" "l \<in> set ls" for ls l
    using scenario_lines_bounded [OF that(1) bound that(2)] by (simp add: MAX_LINE_def MAX_BUILD_VALUE_LENGTH_def)
  then have "queue_valid (fst (f_with (scenario_lines a) (nested_lines g) (note_line line s)))"
    using noted by (intro f_with_queue nested_lines_queue) auto
  then show ?thesis
    using noted words(1) by (auto simp: run_command_def ca intro!: end_of_command_queue basic_command_queue)
qed

lemma fake_console_queue:
  "queue_valid s \<Longrightarrow> list_all (\<lambda>l. length l \<le> MAX_LINE) ls \<Longrightarrow> queue_valid (fst (fake_console g ls s))"
proof (induction ls arbitrary: s)
  case (Cons l ls)
  have "queue_valid (fst (fst (run_command g l s)))"
    using Cons.prems by (intro run_command_queue) simp_all
  then show ?case
    using Cons by (auto intro!: f_then_queue split: prod.split bool.split)
qed simp

text \<open>The messages of the host leave the queue as it is or empty it.\<close>

lemma note_own_pending: "fk_pending (fst (note_own_sim vs s)) = fk_pending s"
  by (induction vs arbitrary: s) (auto split: sum.split)

lemma apply_snapshot_queue:
  assumes "queue_valid s"
  shows "queue_valid (fst (apply_snapshot d s))"
proof -
  have "queue_valid (fst (note_own_readiness r s))" if "queue_valid s" for r s
    using that by (auto simp: note_own_readiness_def f_with_def queue_valid_def Let_def split: sum.split)
  moreover have "queue_valid (fst (snapshot_travel d s))" if "queue_valid s" for s
    using that by (auto simp: snapshot_travel_def update_travel_def queue_valid_def Let_def split: pyval.split)
  moreover have "queue_valid (fst (note_own_sim vs s))" if "queue_valid s" for vs s
    using that by (simp add: queue_valid_def note_own_pending)
  ultimately show ?thesis
    using assms unfolding apply_snapshot_def by (intro f_then_queue f_with_queue) (simp_all add: queue_valid_def)
qed

lemma send_operations_pending: "fk_pending (fst (send_operations g os s)) = fk_pending s"
  by (induction os arbitrary: s) (auto simp: f_then_def fake_send_def)

lemma save_bodies_pending:
  "fk_pending (fst (save_body_chunk p s)) = fk_pending s" "fk_pending (fst (save_body_end g p s)) = fk_pending s"
  "fk_pending (fst (save_failed g e s)) = fk_pending s"
  by (auto simp: save_body_chunk_def save_body_end_def save_failed_def f_with_def f_then_def fake_send_def Let_def
      split: option.split sum.split prod.split)

lemma save_pending:
  "fk_pending (fst (on_save_manifest g p s)) = fk_pending s" "fk_pending (fst (on_save_chunk g p s)) = fk_pending s"
  "fk_pending (fst (on_save_end g p s)) = fk_pending s"
  using save_bodies_pending(1) [of p s] save_bodies_pending(2) [of g p s]
  by (auto simp: on_save_manifest_def on_save_chunk_def on_save_end_def save_bodies_pending(3)
      split: prod.split sum.split option.split)

lemma fake_handle_queue:
  assumes "queue_valid s"
  shows "queue_valid (fst (fake_handle g e s))"
proof -
  have "queue_valid (fst (on_lock_state g p s))" for p
    using assms by (simp add: on_lock_state_def queue_valid_def send_operations_pending Let_def)
  moreover have "queue_valid (fst (on_welcome p s))" for p
    unfolding on_welcome_def by (intro f_with_queue apply_snapshot_queue) (use assms in \<open>simp_all add: queue_valid_def\<close>)
  moreover have "queue_valid (fst (on_readiness p s))" "queue_valid (fst (on_travel g ty p s))" "queue_valid (fst (on_raw p s))"
    "queue_valid (fst (on_dialog p s))" "queue_valid (fst (on_result p s))" for p ty
    using assms by (auto simp: on_readiness_def on_travel_def on_raw_def on_dialog_def on_result_def update_travel_def
        queue_valid_def Let_def split: option.split)
  moreover have "queue_valid (fst (on_save_manifest g p s))" "queue_valid (fst (on_save_chunk g p s))"
    "queue_valid (fst (on_save_end g p s))" for p
    using assms by (simp_all add: queue_valid_def save_pending)
  moreover have "queue_valid (s\<lparr>fk_clock := p\<rparr>)" "queue_valid (s\<lparr>fk_error := t\<rparr>)" for p t
    using assms by (simp_all add: queue_valid_def)
  ultimately show ?thesis
    using assms apply_snapshot_queue [OF assms]
    by (simp only: fake_handle_def Let_def split: if_split) simp
qed

lemma fake_receive_queue:
  assumes "queue_valid s"
  shows "queue_valid (fake_receive g line s)"
proof -
  have "queue_valid (fst (f_with line (fake_handle g) s))"
    using assms by (intro f_with_queue fake_handle_queue)
  then show ?thesis
    by (cases "f_with line (fake_handle g) s") (simp add: fake_receive_def queue_valid_def split: option.split)
qed

text \<open>The tool as it runs: console lines and messages of the host in any order.\<close>

inductive fake_reachable :: "fake_env \<Rightarrow> fake_state \<Rightarrow> bool" for g where
  start: "fake_reachable g (new_fake pid d)"
| message: "fake_reachable g s \<Longrightarrow> fake_reachable g (fake_receive g line s)"
| typed: "fake_reachable g s \<Longrightarrow> length line \<le> MAX_LINE \<Longrightarrow> fake_reachable g (fst (fst (run_command g line s)))"

lemma fake_reachable_queue: "fake_reachable g s \<Longrightarrow> queue_valid s"
  by (induction rule: fake_reachable.induct) (simp_all add: queue_valid_new fake_receive_queue run_command_queue)

text \<open>
  In every state the tool can reach, what it sends when the host grants it the lock is accepted by
  the host, completely and in order.
\<close>

lemma fake_builds_accepted:
  assumes "fake_reachable g s" and "snd (request_lock now ns (fk_id s) a)" and "0 \<le> ba_lease a"
  shows "\<exists>bs. snd (submit_all now (fk_id s) (fk_pending s) (fst (request_lock now ns (fk_id s) a))) = map Inr bs \<and>
      map bo_op bs = map fst (fk_pending s) \<and>
      map bo_seq bs = map (\<lambda>n. ba_seq a + 1 + int n) [0..<length (fk_pending s)]"
proof -
  have "list_all buildable (fk_pending s)"
    using fake_reachable_queue [OF assms(1)] by (simp add: queue_valid_def)
  from queue_accepted [OF granted_holds_lease [OF assms(2,3)] this]
  show ?thesis by auto
qed

section \<open>A save from the host\<close>

definition fake_receive_all :: "fake_env \<Rightarrow> string \<Rightarrow> (string \<times> pydict) list \<Rightarrow> fake_state \<Rightarrow> fake_state" where
  "fake_receive_all g hid ms s = fold (\<lambda>m. fake_receive g (Inr (host_message hid m))) ms s"

lemma fake_receive_all_simps [simp]:
  "fake_receive_all g hid [] s = s"
  "fake_receive_all g hid (m # ms) s = fake_receive_all g hid ms (fake_receive g (Inr (host_message hid m)) s)"
  "fake_receive_all g hid (ms @ ns) s = fake_receive_all g hid ns (fake_receive_all g hid ms s)"
  by (simp_all add: fake_receive_all_def)

lemma fake_chunk:
  assumes "fx_save g" and "fk_saver s = Some r" and "write_chunk (int i) c (r, fk_dir s) = ((r1, d1), None)"
  shows "fake_receive g (Inr (host_message hid (mt_value MT_SAVE_CHUNK, chunk_payload sid (i, c)))) s =
      s\<lparr>fk_saver := Some r1, fk_dir := d1\<rparr>"
  using assms by (simp add: fake_receive_def fake_handle_def TRAVEL_TYPES_def on_save_chunk_def save_body_chunk_def
      chunk_payload_def pget_default_def Let_def)

lemma fake_chunks:
  "fx_save g \<Longrightarrow> fk_saver s = Some r \<Longrightarrow> write_chunks (int i) cs (r, fk_dir s) = ((r1, d1), None) \<Longrightarrow>
     fake_receive_all g hid (map (\<lambda>ic. (mt_value MT_SAVE_CHUNK, chunk_payload sid ic)) (zip [i..<i + length cs] cs)) s =
       s\<lparr>fk_saver := Some r1, fk_dir := d1\<rparr>"
proof (induction cs arbitrary: i s r)
  case (Cons c cs)
  obtain r0 d0 where w: "write_chunk (int i) c (r, fk_dir s) = ((r0, d0), None)"
    "write_chunks (int (Suc i)) cs (r0, d0) = ((r1, d1), None)"
    using Cons.prems(3)
    by (cases "write_chunk (int i) c (r, fk_dir s)") (auto simp: add.commute split: option.splits)
  have "[i..<i + length (c # cs)] = i # [Suc i..<Suc i + length cs]"
    by (simp add: upt_conv_Cons del: upt_Suc)
  then show ?case
    using fake_chunk [OF Cons.prems(1,2) w(1)] w(2)
      Cons.IH [of "s\<lparr>fk_saver := Some r0, fk_dir := d0\<rparr>" r0 "Suc i"] Cons.prems(1) by (simp del: upt_Suc)
qed auto

lemma fake_save_delivered:
  assumes slot: "slot_of_file (fx_sha g) name bytes mtime = Inr sl" and ms: "save_messages sid sl bytes cs = Inr ms"
    and hash: "length (fx_sha g bytes) = 64" and ne: "bytes \<noteq> []" and sid: "sid \<noteq> []" and g: "fx_save g" "fx_up g"
  shows "map_of (sd_files (fk_dir (fake_receive_all g hid ms s))) (ss_id sl @ ''.save'') = Some bytes"
    and "fk_saver (fake_receive_all g hid ms s) = None"
    and "\<exists>d. fk_sent (fake_receive_all g hid ms s) = fk_sent s @ [(mt_value MT_SAVE_ACK, d)] \<and>
      pget d ''sha256'' = VStr (fx_sha g bytes) \<and> pget d ''total_bytes'' = VInt (int (length bytes))"
proof -
  obtain m chunks r0 d0 r1 d1 d' b where msgs: "ms = (mt_value MT_SAVE_MANIFEST, m) #
      (mt_value MT_SAVE_BEGIN, [(''session_id'', VStr sid), (''slot_id'', VStr (ss_id sl))]) #
      map (\<lambda>ic. (mt_value MT_SAVE_CHUNK, chunk_payload sid ic)) (zip [0..<0 + length chunks] chunks) @
      [(mt_value MT_SAVE_END, [(''session_id'', VStr sid), (''sha256'', VStr (ss_sha256 sl))])]"
    and tr: "new_receiver m (fk_dir s) = (d0, Inr r0)" "write_chunks 0 chunks (r0, d0) = ((r1, d1), None)"
      "finalize (fx_sha g) sid (fx_stamp g) r1 d1 = (d', Inr (ss_id sl @ ''.save'', b))"
    and installed: "map_of (sd_files d') (ss_id sl @ ''.save'') = Some bytes"
    and r1: "sr_hash r1 = fx_sha g bytes" "sr_total r1 = int (length bytes)"
    by (rule save_stream [OF slot ms hash ne])
  let ?s0 = "s\<lparr>fk_dir := d0, fk_saver := Some r0\<rparr>" and ?s1 = "s\<lparr>fk_dir := d1, fk_saver := Some r1\<rparr>"
  have a: "fake_receive g (Inr (host_message hid (mt_value MT_SAVE_MANIFEST, m))) s = ?s0"
    using tr(1) g by (simp add: fake_receive_def fake_handle_def TRAVEL_TYPES_def on_save_manifest_def Let_def)
  have b: "fake_receive g (Inr (host_message hid (mt_value MT_SAVE_BEGIN, d))) x = x" for d x
    by (simp add: fake_receive_def fake_handle_def TRAVEL_TYPES_def Let_def)
  have c: "fake_receive_all g hid (map (\<lambda>ic. (mt_value MT_SAVE_CHUNK, chunk_payload sid ic))
      (zip [0..<0 + length chunks] chunks)) ?s0 = ?s1"
    using fake_chunks [OF g(1), of ?s0 r0 0 chunks r1 d1] tr(2) by simp
  have all: "fake_receive_all g hid ms s = fake_receive g (Inr (host_message hid (mt_value MT_SAVE_END,
      [(''session_id'', VStr sid), (''sha256'', VStr (ss_sha256 sl))]))) ?s1"
    by (simp only: msgs fake_receive_all_simps a b c)
  show "map_of (sd_files (fk_dir (fake_receive_all g hid ms s))) (ss_id sl @ ''.save'') = Some bytes"
    "fk_saver (fake_receive_all g hid ms s) = None"
    "\<exists>d. fk_sent (fake_receive_all g hid ms s) = fk_sent s @ [(mt_value MT_SAVE_ACK, d)] \<and>
      pget d ''sha256'' = VStr (fx_sha g bytes) \<and> pget d ''total_bytes'' = VInt (int (length bytes))"
    using tr(3) installed r1 g sid
    by (simp_all add: all fake_receive_def fake_handle_def TRAVEL_TYPES_def on_save_end_def save_body_end_def
        fake_send_def pget_def py_or_def Let_def)
qed

end
