(* ===== verification/Fake_Game.thy ===== *)
theory Fake_Game
  imports Fake_Player
begin

text \<open>
  \<^verbatim>\<open>src/tools/fake_game.py\<close>: a game without a game, at the local socket of a sidecar. A thread answers
  the travels the sidecar announces; the console starts travels and edits walls.
\<close>

section \<open>The reader\<close>

text \<open>\<open>v[k]\<close> with a text key.\<close>

fun item :: "string \<Rightarrow> pyval \<Rightarrow> py_error + pyval" where
  "item k (VDict d) = pindex d k"
| "item k (VStr s) = Inl (TypeError (''string indices must be integers, not '' @ repr_str ''str''))"
| "item k (VList xs) = Inl (TypeError ''list indices must be integers or slices, not str'')"
| "item k v = Inl (TypeError (repr_str (type_name v) @ '' object is not subscriptable''))"

definition bind_item :: "py_error + 'a \<Rightarrow> ('a \<Rightarrow> py_error + 'b) \<Rightarrow> py_error + 'b" where
  "bind_item r f = (case r of Inl e \<Rightarrow> Inl e | Inr v \<Rightarrow> f v)"

lemma bind_item_simps [simp]: "bind_item (Inr v) f = f v" "bind_item (Inl e) f = Inl e"
  by (simp_all add: bind_item_def)

text \<open>
  The answer to one line: a message, nothing, or the exception that ends the thread. After
  \<open>["txn_id"]\<close> has worked the payload is a dictionary, and \<open>.get\<close> works too.
\<close>

definition epoch_of :: "pyval \<Rightarrow> pyval" where
  "epoch_of p = (case p of VDict d \<Rightarrow> pget_default d ''epoch'' (VInt 0) | _ \<Rightarrow> VNone)"

definition fake_game_reply :: "pyval \<Rightarrow> py_error + (string \<times> pydict) option" where
  "fake_game_reply msg =
     bind_item (as_mapping msg) (\<lambda>d.
       if pget d ''type'' = VStr ''travel.prepare'' then
         bind_item (pindex d ''payload'') (\<lambda>p. bind_item (item ''txn_id'' p) (\<lambda>txn.
           Inr (Some (''travel.ready'', [(''txn_id'', txn), (''epoch'', epoch_of p)]))))
       else if pget d ''type'' = VStr ''travel.commit'' then
         bind_item (pindex d ''payload'') (\<lambda>p. bind_item (item ''txn_id'' p) (\<lambda>txn. bind_item (item ''zone_id'' p) (\<lambda>zone.
           Inr (Some (''travel.zone_ready'', [(''txn_id'', txn), (''epoch'', epoch_of p), (''zone_id'', zone)])))))
       else Inr None)"

text \<open>The thread: the lines parsed or their errors; what it sent, and what ended it.\<close>

fun fake_game_reader :: "bool \<Rightarrow> (py_error + pyval) list \<Rightarrow> (string \<times> pydict) list \<times> py_error option" where
  "fake_game_reader up [] = ([], None)"
| "fake_game_reader up (l # ls) =
     (case bind_item l fake_game_reply of
        Inl e \<Rightarrow> ([], Some e)
      | Inr None \<Rightarrow> fake_game_reader up ls
      | Inr (Some m) \<Rightarrow>
          if up then (case fake_game_reader up ls of (ms, r) \<Rightarrow> (m # ms, r))
          else ([], Some (OSError ''socket closed'')))"

section \<open>The console\<close>

definition wall_payload :: "pyval list \<Rightarrow> int \<Rightarrow> pydict" where
  "wall_payload fs level =
     [(''op'', VStr ''wall.create''),
      (''data'', VDict [(''x1'', fs ! 0), (''y1'', fs ! 1), (''x2'', fs ! 2), (''y2'', fs ! 3), (''level'', VInt level)])]"

text \<open>One line that is not empty and not \<open>quit\<close>: the message, nothing for a bad command, or a \<open>ValueError\<close>.\<close>

definition fake_game_command :: "fake_env \<Rightarrow> string list \<Rightarrow> py_error + (string \<times> pydict) option" where
  "fake_game_command g a =
     (if hd a = ''travel'' \<and> length a = 2 then
        Inr (Some (''travel.request'', [(''zone_id'', VStr (a ! 1)), (''actor_ids'', VList [])]))
      else if hd a = ''wall'' \<and> length a = 6 then
        bind_item (float_list g (take 4 (tl a))) (\<lambda>fs. bind_item (py_int (VStr (a ! 5))) (\<lambda>level.
          Inr (Some (''build.operation'', wall_payload fs level))))
      else if hd a = ''del'' \<and> length a = 2 then
        Inr (Some (''build.operation'', [(''op'', VStr ''wall.delete''), (''data'', VDict [(''wall_id'', VStr (a ! 1))])]))
      else if hd a = ''release'' then Inr (Some (''build.lock_release'', []))
      else Inr None)"

fun fake_game_console :: "fake_env \<Rightarrow> string list \<Rightarrow> (string \<times> pydict) list \<times> py_error option" where
  "fake_game_console g [] = ([], None)"
| "fake_game_console g (l # ls) =
     (let a = split_words [] l in
      if a = [] then fake_game_console g ls
      else if hd a = ''quit'' then ([], None)
      else case fake_game_command g a of
        Inl e \<Rightarrow> ([], Some e)
      | Inr None \<Rightarrow> fake_game_console g ls
      | Inr (Some m) \<Rightarrow> (case fake_game_console g ls of (ms, r) \<Rightarrow> (m # ms, r)))"

section \<open>Travels\<close>

definition game_line :: "string \<Rightarrow> pydict \<Rightarrow> pyval" where
  "game_line ty p = VDict [(''type'', VStr ty), (''payload'', VDict p)]"

text \<open>The tool answers what a sidecar tells its game with the acknowledgements the host waits for.\<close>

lemma fake_game_answers:
  "fake_game_reply (game_line ''travel.prepare'' (travel_dict t @ extra)) =
     Inr (Some (''travel.ready'', ack_payload (tx_id t) (tx_epoch t)))"
  "fake_game_reply (game_line ''travel.commit'' (travel_dict t)) =
     Inr (Some (''travel.zone_ready'', ack_payload (tx_id t) (tx_epoch t) @ [(''zone_id'', VStr (tx_zone t))]))"
  by (simp_all add: fake_game_reply_def game_line_def pget_def pindex_def travel_dict_def epoch_of_def pget_default_def ack_payload_def)

lemma fake_game_travels:
  assumes host: "\<And>q. ev_up ev q" "tc_current (host_travel h) = Some t" "tx_id t \<noteq> []"
  shows "\<exists>d. fake_game_reply (game_line ''travel.prepare'' (travel_dict t @ extra)) = Inr (Some (mt_value MT_TRAVEL_READY, d)) \<and>
      tc_current (host_travel (fst (travel_ready ev q d h))) = Some (ready_step q t)"
    and "tx_phase t \<noteq> COMPLETE \<Longrightarrow>
      \<exists>d. fake_game_reply (game_line ''travel.commit'' (travel_dict t)) = Inr (Some (mt_value MT_TRAVEL_ZONE_READY, d)) \<and>
        tc_current (host_travel (fst (travel_zone_ready ev q d h))) = Some (arrive_zone q t)"
proof -
  show "\<exists>d. fake_game_reply (game_line ''travel.prepare'' (travel_dict t @ extra)) = Inr (Some (mt_value MT_TRAVEL_READY, d)) \<and>
      tc_current (host_travel (fst (travel_ready ev q d h))) = Some (ready_step q t)"
    using travel_ready_step(1) [OF host(1,2) refl host(3) refl] by (simp add: fake_game_answers mt_value_def)
  assume "tx_phase t \<noteq> COMPLETE"
  then have "tc_current (host_travel (fst (travel_zone_ready ev q (ack_payload (tx_id t) (tx_epoch t)) h))) = Some (arrive_zone q t)"
    using travel_zone_step(1) [OF host(1,2) refl host(3) refl] by blast
  then show "\<exists>d. fake_game_reply (game_line ''travel.commit'' (travel_dict t)) = Inr (Some (mt_value MT_TRAVEL_ZONE_READY, d)) \<and>
      tc_current (host_travel (fst (travel_zone_ready ev q d h))) = Some (arrive_zone q t)"
    by (simp add: fake_game_answers zone_answer_same mt_value_def)
qed

text \<open>One line the thread cannot read ends it: nothing after it is answered, while the console goes on.\<close>

lemma bad_line_ends_reader:
  "bind_item l fake_game_reply = Inl e \<Longrightarrow>
     fake_game_reader True (ls @ l # rest) = fake_game_reader True (ls @ [l])"
proof (induction ls)
  case (Cons l1 ls)
  then show ?case by (simp split: sum.split option.split prod.split)
qed simp

section \<open>Walls\<close>

text \<open>Every build message the console sends passes the host's validation.\<close>

lemma float_list_floats: "float_list g vs = Inr fs \<Longrightarrow> v \<in> set fs \<Longrightarrow> v \<noteq> VStr t"
  by (induction vs arbitrary: fs) (auto split: option.splits sum.splits)

lemma fake_game_build_valid:
  assumes c: "fake_game_command g a = Inr (Some (''build.operation'', [(''op'', VStr op), (''data'', VDict d)]))"
    and w: "words_ok a"
  shows "\<exists>d'. validate_build_data op d = Inr d'"
proof -
  have valid: "\<exists>d'. validate_build_data op d = Inr d'"
    if op: "op = ''wall.create'' \<or> op = ''wall.delete''" and n: "length d \<le> 5"
      and d: "\<forall>(k, v) \<in> set d. length k \<le> 128 \<and> (\<forall>t. v = VStr t \<longrightarrow> length t \<le> MAX_BUILD_VALUE_LENGTH)"
  proof -
    have "op \<in> set OBJECT_OPERATIONS" using op by (rule disjE) (simp_all add: OBJECT_OPERATIONS_def)
    moreover have "required_error op r = None" for r
      using op by (rule disjE) (simp_all add: required_error_def startswith_def)
    ultimately show ?thesis using n entry_error_none [OF d] by (simp add: validate_build_data_def Let_def MAX_BUILD_DATA_KEYS_def)
  qed
  consider (wall) fs level where "float_list g (take 4 (tl a)) = Inr fs" "length a = 6" "op = ''wall.create''"
      "d = [(''x1'', fs ! 0), (''y1'', fs ! 1), (''x2'', fs ! 2), (''y2'', fs ! 3), (''level'', VInt level)]"
    | (del) "length a = 2" "op = ''wall.delete''" "d = [(''wall_id'', VStr (a ! 1))]"
    using c by (auto simp: fake_game_command_def bind_item_def wall_payload_def split: if_splits sum.splits)
  then show ?thesis
  proof cases
    case wall
    then have "length fs = 4" by (simp add: float_list_length)
    then have "fs ! i \<noteq> VStr t" if "i < 4" for i t
      using float_list_floats [OF wall(1)] that by (metis nth_mem)
    then show ?thesis by (intro valid) (simp_all add: wall)
  next
    case del
    then have "a ! 1 \<in> set a" by simp
    then show ?thesis using w by (intro valid) (simp_all add: del words_ok_def)
  qed
qed

end
