(* ===== verification/End_To_End.thy ===== *)
theory End_To_End
  imports Composition Mod_Environment
begin

text \<open>
  A travel that starts inside a game (\<^verbatim>\<open>hooks._install_travel_hook\<close>) on its way through the host to the
  travel command of every other game (\<open>_invoke_native_travel\<close>).
\<close>

text \<open>\<open>bound\<close> are the arguments the game's command was called with, by name.\<close>

lemma natural_travel_sends:
  assumes "bc_open (gm_bridge m)" and "ge_up g" and "travel_args bound GNone [] = (GInt z, map GInt ids)"
  shows "bc_sent (gm_bridge (fst (fst (natural_travel tx g False bound m)))) =
      bc_sent (gm_bridge m) @ [(''travel.request'', travel_payload tx (GInt z) (map GInt ids))]"
    and "snd (natural_travel tx g False bound m) = False"
  using assms by (simp_all add: natural_travel_def mod_emit_def bridge_send_def)

lemma int_str_nonempty: "int_str i \<noteq> []"
proof -
  have "nat_str n \<noteq> []" for n by (subst nat_str.simps) (simp add: Let_def)
  then show ?thesis by (simp add: int_str_def)
qed

text \<open>The host proposes exactly that zone and these Sims.\<close>

lemma request_proposed:
  assumes up: "\<And>p. ev_up ev p"
    and "tc_current (host_travel h) = None \<or> (\<exists>t. tc_current (host_travel h) = Some t \<and> finished (tx_phase t))"
    and "hs_players (h_session h) \<noteq> []"
  shows "\<exists>t. tc_current (host_travel (fst (start_travel ev (travel_payload tx (GInt z) (map GInt ids)) by1 h))) = Some t \<and>
      tx_zone t = int_str z \<and> tx_actors t = map int_str ids \<and>
      (\<forall>pid \<in> dict_keys (h_peers h). \<exists>q. ToPeer pid \<lparr>ms_type = mt_value MT_TRAVEL_PROPOSE,
          ms_payload = travel_dict t @ [(''requested_by'', VStr by1)], ms_seq = q\<rparr>
        \<in> set (h_log (fst (start_travel ev (travel_payload tx (GInt z) (map GInt ids)) by1 h))))"
proof -
  have z: "int_str z \<noteq> []" by (rule int_str_nonempty)
  have l: "str_list (map (\<lambda>i. VStr (int_str i)) ids) = map int_str ids" for ids by (induction ids) simp_all
  show ?thesis
    using assms z
    by (auto simp: start_travel_def travel_payload_def attr_or_self_def pget_def pget_default_def py_or_def propose_def
        comp_def l Let_def broadcast_up [OF up] image_iff)
qed

lemma proposed_invokes:
  assumes "tx_zone t = int_str z" and "tx_actors t = map int_str ids"
    and "ne_command g" and "ne_zone g = None \<or> (\<exists>known. ne_zone g = Some known \<and> known z)" and "ne_active g = Some a"
  shows "invoke_native_travel g (travel_dict t @ extra) bypass =
      ([((a, z, filter (\<lambda>i. i \<noteq> a) ids), True)], False, ne_call g a z (filter (\<lambda>i. i \<noteq> a) ids))"
proof -
  have "pget (travel_dict t @ extra) ''zone_id'' = VStr (int_str z)"
    "pget (travel_dict t @ extra) ''actor_ids'' = VList (map (\<lambda>i. VStr (int_str i)) ids)"
    using assms(1,2) by (simp_all add: travel_dict_def pget_def comp_def)
  then show ?thesis using travel_request_invokes assms(3-5) by blast
qed

lemma proposed_unknown_zone:
  assumes "tx_zone t = int_str z" and "tx_actors t = map int_str ids"
    and "ne_command g" and "ne_zone g = Some known" "\<not> known z"
  shows "invoke_native_travel g (travel_dict t @ extra) bypass = ([], bypass, Some (ValueError ''destination_zone_not_found''))"
proof -
  have "pget (travel_dict t @ extra) ''zone_id'' = VStr (int_str z)"
    "pget (travel_dict t @ extra) ''actor_ids'' = VList (map (\<lambda>i. VStr (int_str i)) ids)"
    using assms(1,2) by (simp_all add: travel_dict_def pget_def comp_def)
  then show ?thesis
    using assms(3-5) int_texts_int_str [of ids]
    by (cases ids) (auto simp: invoke_native_travel_def native_travel_args_def py_or_def)
qed

end
