(* ===== verification/Local_Files.thy ===== *)
theory Local_Files
  imports Compatibility
begin

text \<open>
  What the sidecar reads from the machine before a session: the folder of the game
  (\<^verbatim>\<open>save_sync.resolve_sims_user_dir\<close>, \<^verbatim>\<open>preflight.py\<close>), its version and the installed packs
  (\<^verbatim>\<open>compatibility.py\<close>), the identity file (\<^verbatim>\<open>identity.py\<close>), the checklist of
  \<^verbatim>\<open>preflight.py\<close>; and the build script of the mod (\<^verbatim>\<open>sims_mod_src/build.py\<close>).
\<close>

section \<open>The machine\<close>

text \<open>
  A path is the list of its components, root first. Reading a text gives one of: the file is
  missing or unreadable (\<open>OSError\<close>), it is not UTF-8 (the error of the strict decoder and the
  text of the replacing one), its text. \<open>mc_run\<close> is the output of a command that ended with code 0.
\<close>

type_synonym path = "string list"

datatype file_text = NoText | Garbled string string | Clean string

record machine =
  mc_text :: "path \<Rightarrow> file_text"
  mc_exists :: "path \<Rightarrow> bool"
  mc_env :: "string \<Rightarrow> string option"
  mc_path :: "string \<Rightarrow> path"
  mc_str :: "path \<Rightarrow> string"
  mc_home :: path
  mc_which :: "string \<Rightarrow> string option"
  mc_run :: "string list \<Rightarrow> string option"
  mc_port_free :: "int \<Rightarrow> bool"
  mc_lan_ip :: "string option"
  mc_python :: "nat \<times> nat"
  mc_python_text :: string
  mc_kermp :: "string option"

text \<open>\<open>if os.environ.get(name)\<close>.\<close>

definition env_text :: "machine \<Rightarrow> string \<Rightarrow> string option" where
  "env_text m name = (case mc_env m name of None \<Rightarrow> None | Some t \<Rightarrow> if t = [] then None else Some t)"

definition game_folder :: path where
  "game_folder = [''Electronic Arts'', ''The Sims 4'']"

section \<open>The folder of the game\<close>

definition home_folder :: "machine \<Rightarrow> path" where
  "home_folder m = mc_home m @ [''Documents''] @ game_folder"

text \<open>\<open>preflight.sims_user_dir\<close> and the folders under it.\<close>

definition sims_user_dir :: "machine \<Rightarrow> path" where
  "sims_user_dir m =
     (case env_text m ''KERMP_SIM_USER_DIR'' of Some t \<Rightarrow> mc_path m t | None \<Rightarrow> home_folder m)"

definition mods_dir :: "machine \<Rightarrow> path" where
  "mods_dir m = sims_user_dir m @ [''Mods'']"

definition saves_dir :: "machine \<Rightarrow> path" where
  "saves_dir m = sims_user_dir m @ [''saves'']"

definition packaged_mod :: "machine \<Rightarrow> path" where
  "packaged_mod m = mods_dir m @ [''KerMP'', ''KerMP.ts4script'']"

definition dev_mod_tree :: "machine \<Rightarrow> path" where
  "dev_mod_tree m = mods_dir m @ [''KerMP'', ''Scripts'', ''kermp_mod'']"

text \<open>
  \<open>save_sync.resolve_sims_user_dir\<close>; \<open>expand\<close> is \<open>Path.expanduser\<close>. The folder under OneDrive
  comes first.
\<close>

definition first_existing :: "machine \<Rightarrow> path list \<Rightarrow> path" where
  "first_existing m ps = (case find (mc_exists m) ps of None \<Rightarrow> hd ps | Some p \<Rightarrow> p)"

definition resolve_sims_user_dir :: "(path \<Rightarrow> path) \<Rightarrow> string option \<Rightarrow> machine \<Rightarrow> path" where
  "resolve_sims_user_dir expand configured m =
     (case configured of
        Some (c # cs) \<Rightarrow> expand (mc_path m (c # cs))
      | _ \<Rightarrow>
         (case env_text m ''KERMP_SIM_USER_DIR'' of
            Some t \<Rightarrow> expand (mc_path m t)
          | None \<Rightarrow> first_existing m
              ((case env_text m ''OneDrive'' of
                  None \<Rightarrow> [] | Some t \<Rightarrow> [mc_path m t @ [''Documents''] @ game_folder]) @ [home_folder m])))"

text \<open>
  The checklist looks where the saves are, except that it does not know OneDrive: with the game
  under OneDrive it reports on another folder.
\<close>

lemma folders_agree:
  assumes "expand (sims_user_dir m) = sims_user_dir m" and "env_text m ''OneDrive'' = None"
  shows "resolve_sims_user_dir expand None m = sims_user_dir m"
  using assms by (simp add: resolve_sims_user_dir_def sims_user_dir_def first_existing_def split: option.splits)

lemma preflight_misses_onedrive:
  assumes "env_text m ''KERMP_SIM_USER_DIR'' = None" and "env_text m ''OneDrive'' = Some t"
    and "mc_exists m (mc_path m t @ [''Documents''] @ game_folder)" and "mc_path m t \<noteq> mc_home m"
  shows "resolve_sims_user_dir expand None m \<noteq> sims_user_dir m"
  using assms by (simp add: resolve_sims_user_dir_def sims_user_dir_def first_existing_def home_folder_def)

section \<open>The version of the game\<close>

definition version_names :: "path \<Rightarrow> path list" where
  "version_names p = [p @ [''GameVersion.txt''], p @ [''gameversion.txt'']]"

text \<open>\<open>compatibility.detect_game_version\<close>: only an \<open>OSError\<close> is caught.\<close>

fun read_version :: "machine \<Rightarrow> path list \<Rightarrow> py_error + string" where
  "read_version m [] = Inr UNKNOWN"
| "read_version m (p # ps) =
     (case mc_text m p of
        NoText \<Rightarrow> read_version m ps
      | Garbled e t \<Rightarrow> Inl (ValueError e)
      | Clean t \<Rightarrow> if py_strip t = [] then read_version m ps else Inr (py_strip t))"

definition version_roots :: "machine \<Rightarrow> path option \<Rightarrow> path list" where
  "version_roots m configured =
     (case configured of None \<Rightarrow> [] | Some p \<Rightarrow> [p]) @
     (case env_text m ''KERMP_SIM_USER_DIR'' of None \<Rightarrow> [] | Some t \<Rightarrow> [mc_path m t]) @ [home_folder m]"

definition detect_game_version :: "machine \<Rightarrow> path option \<Rightarrow> py_error + string" where
  "detect_game_version m configured = read_version m (concat (map version_names (version_roots m configured)))"

text \<open>\<open>preflight._game_version\<close>: the first file there is decides.\<close>

definition line_end :: "char \<Rightarrow> bool" where
  "line_end c \<longleftrightarrow> of_char c \<in> {10::nat, 11, 12, 13, 28, 29, 30, 133}"

definition version_line :: "string \<Rightarrow> string" where
  "version_line t =
     (let s = py_strip (filter (\<lambda>c. of_char c \<noteq> (0::nat)) (py_strip t)) in
      if s = [] then ''unknown'' else take 80 (takeWhile (\<lambda>c. \<not> line_end c) s))"

fun shown_version :: "machine \<Rightarrow> path list \<Rightarrow> string" where
  "shown_version m [] = ''unknown''"
| "shown_version m (p # ps) =
     (if mc_exists m p then
        (case mc_text m p of
           NoText \<Rightarrow> shown_version m ps | Garbled e t \<Rightarrow> version_line t | Clean t \<Rightarrow> version_line t)
      else shown_version m ps)"

definition preflight_version :: "machine \<Rightarrow> string" where
  "preflight_version m = shown_version m (version_names (sims_user_dir m))"

lemma strip_ends:
  assumes "py_strip s \<noteq> []"
  shows "\<not> py_space (hd (py_strip s))" and "\<not> py_space (last (py_strip s))"
proof -
  define u where "u = dropWhile py_space s"
  define v where "v = dropWhile py_space (rev u)"
  have r: "py_strip s = rev v" by (simp add: py_strip_def u_def v_def)
  then have v: "v \<noteq> []" using assms by simp
  then have "\<not> py_space (hd v)" unfolding v_def by (rule hd_dropWhile)
  then show "\<not> py_space (last (py_strip s))" using v by (simp add: r last_rev)
  have "u = rev v @ rev (takeWhile py_space (rev u))"
    unfolding v_def by (metis rev_append rev_rev_ident takeWhile_dropWhile_id)
  then have "hd u = hd (rev v)" and u: "u \<noteq> []" using v by (metis hd_append2 rev_is_Nil_conv, auto)
  moreover have "\<not> py_space (hd u)" using u unfolding u_def by (rule hd_dropWhile)
  ultimately show "\<not> py_space (hd (py_strip s))" by (simp add: r)
qed

lemma strip_id:
  assumes "s = [] \<or> (\<not> py_space (hd s) \<and> \<not> py_space (last s))"
  shows "py_strip s = s"
proof (cases "s = []")
  case False
  then have "dropWhile py_space s = s" "dropWhile py_space (rev s) = rev s"
    using assms by (simp_all add: dropWhile_eq_self_iff hd_rev)
  then show ?thesis by (simp add: py_strip_def)
qed (simp add: py_strip_def)

lemma strip_strip [simp]: "py_strip (py_strip s) = py_strip s"
  using strip_id strip_ends by blast

lemma line_end_space: "line_end c \<Longrightarrow> py_space c"
  by (auto simp: line_end_def py_space_def)

text \<open>The checklist prints one line of at most 80 characters, never an empty one.\<close>

lemma version_line_shape:
  "version_line t \<noteq> []" "length (version_line t) \<le> 80" "\<forall>c \<in> set (version_line t). \<not> line_end c"
proof -
  define s where "s = py_strip (filter (\<lambda>c. of_char c \<noteq> (0::nat)) (py_strip t))"
  have v: "version_line t = (if s = [] then ''unknown'' else take 80 (takeWhile (\<lambda>c. \<not> line_end c) s))"
    by (simp add: version_line_def s_def)
  show "version_line t \<noteq> []"
  proof (cases s)
    case (Cons c cs)
    then have "\<not> line_end c" using strip_ends(1) line_end_space unfolding s_def by (metis list.distinct(1) list.sel(1))
    then show ?thesis by (simp add: v Cons)
  qed (simp add: v)
  show "length (version_line t) \<le> 80" by (simp add: v)
  show "\<forall>c \<in> set (version_line t). \<not> line_end c"
  proof (cases "s = []")
    case True
    then have "version_line t = ''unknown''" by (simp add: v)
    then show ?thesis by (simp add: line_end_def)
  next
    case False
    then have "version_line t = take 80 (takeWhile (\<lambda>c. \<not> line_end c) s)" by (simp add: v)
    then show ?thesis by (metis in_set_takeD set_takeWhileD)
  qed
qed

lemma shown_version_shape: "shown_version m ps \<noteq> []" "length (shown_version m ps) \<le> 80"
  by (induction m ps rule: shown_version.induct) (auto simp: version_line_shape split: file_text.split)

text \<open>
  On a plain text of one line the sidecar and the checklist see the same version. A file that is not
  UTF-8 passes the checklist, and every start of the sidecar fails on it.
\<close>

lemma versions_agree:
  assumes "env_text m ''KERMP_SIM_USER_DIR'' = None" and "mc_exists m (hd (version_names (home_folder m)))"
    and "mc_text m (hd (version_names (home_folder m))) = Clean v"
    and "py_strip v = v" and "v \<noteq> []" and "length v \<le> 80" and "\<forall>c \<in> set v. \<not> line_end c \<and> of_char c \<noteq> (0::nat)"
  shows "detect_game_version m None = Inr v" and "preflight_version m = v"
proof -
  have f: "filter (\<lambda>c. 0 < (of_char c :: nat)) v = v" and w: "takeWhile (\<lambda>c. \<not> line_end c) v = v"
    using assms(7) by (simp_all add: filter_id_conv takeWhile_eq_all_conv)
  show "detect_game_version m None = Inr v"
    using assms by (simp add: detect_game_version_def version_roots_def version_names_def)
  show "preflight_version m = v"
    using assms(1-6) by (simp add: f w preflight_version_def sims_user_dir_def version_names_def version_line_def)
qed

lemma undecodable_version_passes:
  assumes "env_text m ''KERMP_SIM_USER_DIR'' = None" and "mc_exists m (hd (version_names (home_folder m)))"
    and "mc_text m (hd (version_names (home_folder m))) = Garbled e t" and "version_line t \<noteq> ''unknown''"
  shows "preflight_version m \<noteq> ''unknown''" and "detect_game_version m None = Inl (ValueError e)"
  using assms
  by (simp_all add: preflight_version_def sims_user_dir_def version_names_def detect_game_version_def version_roots_def)

section \<open>The packs\<close>

text \<open>
  \<open>upper()\<close>; the capitals of two Latin-1 letters (181, 255) are outside the characters of the model and
  left alone.
\<close>

definition upper_text :: "char \<Rightarrow> string" where
  "upper_text c =
     (let n = (of_char c :: nat) in
      if (97 \<le> n \<and> n \<le> 122) \<or> (224 \<le> n \<and> n \<le> 254 \<and> n \<noteq> 247) then [char_of (n - 32)]
      else if n = 223 then ''SS'' else [c])"

definition py_upper :: "string \<Rightarrow> string" where
  "py_upper s = concat (map upper_text s)"

fun split_commas :: "string \<Rightarrow> string \<Rightarrow> string list" where
  "split_commas acc [] = [rev acc]"
| "split_commas acc (c # cs) = (if c = CHR '','' then rev acc # split_commas [] cs else split_commas (c # acc) cs)"

definition csv :: "string option \<Rightarrow> string list" where
  "csv v =
     sort (remdups (map (\<lambda>p. py_upper (py_strip p))
       (filter (\<lambda>p. py_strip p \<noteq> []) (split_commas [] (case v of None \<Rightarrow> [] | Some t \<Rightarrow> t)))))"

lemma split_commas_concat:
  "CHR '','' \<notin> set p \<Longrightarrow> split_commas acc (p @ CHR '','' # s) = (rev acc @ p) # split_commas [] s"
  "CHR '','' \<notin> set p \<Longrightarrow> split_commas acc p = [rev acc @ p]"
  by (induction p arbitrary: acc) auto

lemma split_join:
  "(\<forall>p \<in> set ps. CHR '','' \<notin> set p) \<Longrightarrow> ps \<noteq> [] \<Longrightarrow> split_commas [] (join '','' ps) = ps"
proof (induction ps rule: induct_list012)
  case (3 x y ys)
  then show ?case by (simp add: split_commas_concat(1) [where acc = "[]", simplified])
qed (auto simp: split_commas_concat(2) [where acc = "[]", simplified])

lemma csv_sorted: "sorted (csv v)" "distinct (csv v)"
  by (simp_all add: csv_def)

lemma csv_set:
  "set (csv (Some t)) = {py_upper (py_strip p) | p. p \<in> set (split_commas [] t) \<and> py_strip p \<noteq> []}"
  by (auto simp: csv_def)

definition upper_fixed :: "char \<Rightarrow> bool" where
  "upper_fixed c \<longleftrightarrow> upper_text c = [c]"

lemma upper_letter:
  fixes c :: char
  assumes "d \<in> set (upper_text c)"
  shows "upper_fixed d" and "d = CHR '','' \<longleftrightarrow> c = CHR '',''" and "py_space d \<longleftrightarrow> py_space c"
proof -
  define n where "n = (of_char c :: nat)"
  have n: "n < 256" by (simp add: n_def)
  have "of_char (CHR '','') = (44::nat)" by simp
  then have comma: "x = CHR '','' \<longleftrightarrow> of_char x = (44::nat)" for x :: char
    using of_char_eq_iff [where 'a = nat, of x "CHR '',''"] by simp
  have solid: "\<not> py_space x" if "((33::nat) \<le> of_char x \<and> of_char x \<le> (132::nat)) \<or> (161::nat) \<le> of_char x" for x :: char
    using that by (auto simp: py_space_def)
  consider "(97 \<le> n \<and> n \<le> 122) \<or> (224 \<le> n \<and> n \<le> 254 \<and> n \<noteq> 247)" "d = char_of (n - 32)"
    | "n = 223" "d = CHR ''S''" | "d = c" "upper_text c = [c]"
    using assms by (auto simp: upper_text_def n_def Let_def split: if_splits)
  then have "upper_fixed d \<and> (d = CHR '','' \<longleftrightarrow> c = CHR '','') \<and> (py_space d \<longleftrightarrow> py_space c)"
  proof cases
    case 1
    then have d: "of_char d = n - 32" using n by (simp add: of_char_of)
    with 1(1) have "upper_fixed d" by (auto simp: Let_def upper_fixed_def upper_text_def)
    moreover have "\<not> py_space d" "\<not> py_space c" using 1(1) d n_def by (auto intro!: solid)
    moreover have "d \<noteq> CHR '',''" "c \<noteq> CHR '',''" using 1(1) d n_def by (auto simp: comma)
    ultimately show ?thesis by simp
  next
    case 2
    then show ?thesis by (simp add: upper_fixed_def upper_text_def comma py_space_def n_def [symmetric])
  qed (simp add: upper_fixed_def)
  then show "upper_fixed d" and "d = CHR '','' \<longleftrightarrow> c = CHR '',''" and "py_space d \<longleftrightarrow> py_space c"
    by blast+
qed

lemma set_py_upper: "set (py_upper s) = (\<Union>c \<in> set s. set (upper_text c))"
  by (simp add: py_upper_def)

lemma upper_nonempty: "upper_text c \<noteq> []"
  by (simp add: upper_text_def Let_def)

lemma upper_ends:
  assumes "s \<noteq> []"
  shows "py_upper s \<noteq> []" and "hd (py_upper s) \<in> set (upper_text (hd s))" and "last (py_upper s) \<in> set (upper_text (last s))"
proof -
  obtain c cs where c: "s = c # cs" using assms by (cases s) auto
  obtain ds d where d: "s = ds @ [d]" using assms by (cases s rule: rev_cases) auto
  show "py_upper s \<noteq> []" by (simp add: c py_upper_def upper_nonempty)
  show "hd (py_upper s) \<in> set (upper_text (hd s))" by (simp add: c py_upper_def upper_nonempty)
  show "last (py_upper s) \<in> set (upper_text (last s))" by (simp add: d py_upper_def upper_nonempty)
qed

lemma upper_strip:
  assumes "py_strip s \<noteq> []"
  shows "py_strip (py_upper (py_strip s)) = py_upper (py_strip s)" and "py_upper (py_strip s) \<noteq> []"
  using upper_ends [OF assms] strip_ends [OF assms] upper_letter(3) by (blast intro: strip_id)+

lemma upper_upper: "py_upper (py_upper s) = py_upper s"
proof -
  have "upper_text d = [d]" if "d \<in> set (py_upper s)" for d
    using that upper_letter(1) by (auto simp: set_py_upper upper_fixed_def)
  then have "concat (map upper_text (py_upper s)) = concat (map (\<lambda>d. [d]) (py_upper s))"
    by (metis (mono_tags, lifting) map_cong)
  then show ?thesis by (simp add: py_upper_def [of "py_upper s"] concat_map_singleton)
qed

lemma split_commas_free: "p \<in> set (split_commas acc s) \<Longrightarrow> CHR '','' \<notin> set acc \<Longrightarrow> CHR '','' \<notin> set p"
  by (induction acc s rule: split_commas.induct) (auto split: if_splits)

lemma set_strip: "set (py_strip s) \<subseteq> set s"
  by (metis py_strip_def set_dropWhileD set_rev subsetI)

lemma csv_parts:
  assumes "p \<in> set (csv v)"
  shows "CHR '','' \<notin> set p" and "py_strip p = p" and "p \<noteq> []" and "py_upper p = p"
proof -
  obtain q t where q: "q \<in> set (split_commas [] t)" "py_strip q \<noteq> []" "p = py_upper (py_strip q)"
    using assms by (auto simp: csv_def)
  have "CHR '','' \<notin> set (py_strip q)" using q(1) split_commas_free set_strip by fastforce
  then show "CHR '','' \<notin> set p" using upper_letter(2) unfolding q(3) set_py_upper by blast
  show "py_strip p = p" "p \<noteq> []" "py_upper p = p" using upper_strip [OF q(2)] upper_upper by (simp_all add: q(3))
qed

text \<open>
  The packs a manifest carries are a set: sorted, without repetition, whatever the order, case and
  spacing of the variable; written back into it they are read as the same packs.
\<close>

lemma csv_round_trip: "csv (Some (join '','' (csv v))) = csv v"
proof (cases "csv v = []")
  case False
  define ps where "ps = csv v"
  have ps: "\<forall>p \<in> set ps. CHR '','' \<notin> set p \<and> py_strip p = p \<and> p \<noteq> [] \<and> py_upper p = p"
    using csv_parts unfolding ps_def by blast
  have s: "split_commas [] (join '','' ps) = ps" using split_join ps False unfolding ps_def by blast
  have f: "filter (\<lambda>p. py_strip p \<noteq> []) ps = ps" using ps by (simp add: filter_id_conv)
  have m: "map (\<lambda>p. py_upper (py_strip p)) ps = ps" using ps by (simp add: map_idI)
  have "csv (Some (join '','' ps)) = sort (remdups ps)" by (simp add: csv_def s f m)
  then show ?thesis using csv_sorted [of v] by (simp add: ps_def sorted_sort_id distinct_remdups_id)
qed (simp add: csv_def py_strip_def)

section \<open>The identity file\<close>

text \<open>
  \<open>Identity(**data)\<close>: the keys must be exactly the two fields; \<open>loads\<close> is \<open>json.loads\<close> of the text and
  \<open>dumps\<close> is \<open>json.dumps\<close> with an indentation. The file is \<open>None\<close> while it does not exist.
\<close>

record identity =
  id_player :: pyval
  id_name :: pyval

definition unexpected_key :: "pydict \<Rightarrow> string option" where
  "unexpected_key d = find (\<lambda>k. k \<notin> {''player_id'', ''display_name''}) (map fst d)"

definition identity_of :: "pyval \<Rightarrow> py_error + identity" where
  "identity_of v =
     (case v of
        VDict d \<Rightarrow>
          (case (unexpected_key d, map_of d ''player_id'', map_of d ''display_name'') of
             (Some k, _, _) \<Rightarrow> Inl (TypeError (''Identity.__init__() got an unexpected keyword argument '' @ repr_str k))
           | (None, Some p, Some n) \<Rightarrow> Inr \<lparr>id_player = p, id_name = n\<rparr>
           | (None, None, Some n) \<Rightarrow>
               Inl (TypeError (''Identity.__init__() missing 1 required positional argument: '' @ repr_str ''player_id''))
           | (None, Some p, None) \<Rightarrow>
               Inl (TypeError (''Identity.__init__() missing 1 required positional argument: '' @ repr_str ''display_name''))
           | (None, None, None) \<Rightarrow>
               Inl (TypeError (''Identity.__init__() missing 2 required positional arguments: '' @
                 repr_str ''player_id'' @ '' and '' @ repr_str ''display_name'')))
      | _ \<Rightarrow> Inl (TypeError (''kermp.identity.Identity() argument after ** must be a mapping, not '' @ type_name v)))"

definition identity_dict :: "identity \<Rightarrow> pyval" where
  "identity_dict i = VDict [(''player_id'', id_player i), (''display_name'', id_name i)]"

definition load_or_create ::
  "(string \<Rightarrow> py_error + pyval) \<Rightarrow> (pyval \<Rightarrow> string) \<Rightarrow> string \<Rightarrow> string option \<Rightarrow> string option \<Rightarrow>
     string option \<times> (py_error + identity)" where
  "load_or_create loads dumps uuid name file1 =
     (let given = (case name of None \<Rightarrow> [] | Some n \<Rightarrow> n) in
      case file1 of
        None \<Rightarrow>
          (let i = \<lparr>id_player = VStr uuid, id_name = VStr (if given = [] then ''Player'' else given)\<rparr>
           in (Some (dumps (identity_dict i)), Inr i))
      | Some text1 \<Rightarrow>
         (case loads text1 of
            Inl e \<Rightarrow> (file1, Inl e)
          | Inr v \<Rightarrow>
             (case identity_of v of
                Inl e \<Rightarrow> (file1, Inl e)
              | Inr i \<Rightarrow>
                  if given \<noteq> [] \<and> VStr given \<noteq> id_name i
                  then (let i1 = i\<lparr>id_name := VStr given\<rparr> in (Some (dumps (identity_dict i1)), Inr i1))
                  else (file1, Inr i))))"

text \<open>The identities of successive starts, each with its name and its fresh id.\<close>

fun starts ::
  "(string \<Rightarrow> py_error + pyval) \<Rightarrow> (pyval \<Rightarrow> string) \<Rightarrow> (string \<times> string option) list \<Rightarrow> string option \<Rightarrow>
     (py_error + identity) list" where
  "starts loads dumps [] file1 = []"
| "starts loads dumps ((uuid, name) # rest) file1 =
     (case load_or_create loads dumps uuid name file1 of
        (file2, r) \<Rightarrow> r # starts loads dumps rest file2)"

lemma identity_of_dict [simp]: "identity_of (identity_dict i) = Inr i"
  by (simp add: identity_of_def identity_dict_def unexpected_key_def)

text \<open>
  A player keeps the id of the first start for good, whatever names it takes later; a start that
  gives no name shows the last name given.
\<close>

lemma start_keeps_identity:
  assumes "loads (dumps (identity_dict i)) = Inr (identity_dict i)"
  shows "snd (load_or_create loads dumps uuid name (Some (dumps (identity_dict i)))) =
      Inr (i\<lparr>id_name := (case name of Some (c # cs) \<Rightarrow> VStr (c # cs) | _ \<Rightarrow> id_name i)\<rparr>)"
    and "fst (load_or_create loads dumps uuid name (Some (dumps (identity_dict i)))) =
      Some (dumps (identity_dict (i\<lparr>id_name := (case name of Some (c # cs) \<Rightarrow> VStr (c # cs) | _ \<Rightarrow> id_name i)\<rparr>)))"
  using assms by (auto simp: load_or_create_def Let_def split: option.split list.split)

text \<open>The names shown by successive starts: the last one given, in the beginning \<open>Player\<close>.\<close>

fun shown_names :: "string \<Rightarrow> (string \<times> string option) list \<Rightarrow> string list" where
  "shown_names current [] = []"
| "shown_names current (s # ss) =
     (let n = (case snd s of Some (c # cs) \<Rightarrow> c # cs | _ \<Rightarrow> current) in n # shown_names n ss)"

definition text_identity :: "string \<Rightarrow> string \<Rightarrow> identity" where
  "text_identity p n = \<lparr>id_player = VStr p, id_name = VStr n\<rparr>"

lemma later_starts:
  assumes json: "\<And>n. loads (dumps (identity_dict (text_identity p n))) = Inr (identity_dict (text_identity p n))"
  shows "starts loads dumps ss (Some (dumps (identity_dict (text_identity p current)))) =
      map (\<lambda>n. Inr (text_identity p n)) (shown_names current ss)"
proof (induction ss arbitrary: current)
  case (Cons s ss)
  obtain uuid name where s: "s = (uuid, name)" by (cases s)
  let ?n = "case name of Some (c # cs) \<Rightarrow> c # cs | _ \<Rightarrow> current"
  have "(text_identity p current)\<lparr>id_name := (case name of Some (c # cs) \<Rightarrow> VStr (c # cs) | _ \<Rightarrow> id_name (text_identity p current))\<rparr> =
      text_identity p ?n"
    by (simp add: text_identity_def split: option.split list.split)
  then have "load_or_create loads dumps uuid name (Some (dumps (identity_dict (text_identity p current)))) =
      (Some (dumps (identity_dict (text_identity p ?n))), Inr (text_identity p ?n))"
    using start_keeps_identity [of loads dumps "text_identity p current", OF json] by (metis prod.collapse)
  then show ?case using Cons.IH [of ?n] by (simp add: s Let_def)
qed simp

lemma starts_exact:
  assumes "\<And>n. loads (dumps (identity_dict (text_identity uuid n))) = Inr (identity_dict (text_identity uuid n))"
  shows "starts loads dumps ((uuid, name) # ss) None =
      map (\<lambda>n. Inr (text_identity uuid n)) (shown_names ''Player'' ((uuid, name) # ss))"
proof -
  let ?n = "case name of Some (c # cs) \<Rightarrow> c # cs | _ \<Rightarrow> ''Player''"
  have "load_or_create loads dumps uuid name None = (Some (dumps (identity_dict (text_identity uuid ?n))), Inr (text_identity uuid ?n))"
    by (auto simp: load_or_create_def text_identity_def Let_def split: option.split list.split)
  then show ?thesis using later_starts [OF assms, of ss ?n] by (simp add: Let_def)
qed

text \<open>A file that is not an identity is left as it is, and stays an error at every start.\<close>

lemma broken_identity_stays:
  assumes "loads text1 = Inl e \<or> (\<exists>v. loads text1 = Inr v \<and> identity_of v = Inl e)"
  shows "load_or_create loads dumps uuid name (Some text1) = (Some text1, Inl e)"
  using assms by (auto simp: load_or_create_def Let_def)

end
