(* ===== verification/Mod_Install.thy ===== *)
theory Mod_Install
  imports Local_Files Build_Sync
begin

text \<open>
  \<^verbatim>\<open>src/sims_mod_src/build.py\<close>: compiling and installing the mod, packaged or as loose source, and
  \<^verbatim>\<open>src/kermp/preflight.py\<close>: the checklist that looks at what is installed.
\<close>

section \<open>The interpreter\<close>

definition blank :: char where
  "blank = CHR '' ''"

definition py37_text :: string where
  "py37_text = ''Python 3.7''"

definition python37_names :: "string list" where
  "python37_names = [''py -3.7'', ''python3.7'', ''python37'']"

definition local_python :: "machine \<Rightarrow> string \<Rightarrow> path" where
  "local_python m t = mc_path m t @ [''Programs'', ''Python'', ''Python37'', ''python.exe'']"

text \<open>\<open>preflight._py37_available\<close>.\<close>

definition py37_available :: "machine \<Rightarrow> bool" where
  "py37_available m =
     (case env_text m ''PYTHON37'' of
        Some t \<Rightarrow> mc_exists m (mc_path m t)
      | None \<Rightarrow>
          list_ex (\<lambda>n. mc_which m (hd (split_words [] n)) \<noteq> None) python37_names \<or>
          (case env_text m ''LOCALAPPDATA'' of None \<Rightarrow> False | Some t \<Rightarrow> mc_exists m (local_python m t)))"

text \<open>\<open>build.is_py37\<close> and \<open>find_py37\<close>; an interpreter is the list of the words of its command.\<close>

definition is_py37 :: "machine \<Rightarrow> string \<Rightarrow> bool" where
  "is_py37 m exe =
     (case mc_run m [exe, ''--version''] of None \<Rightarrow> False | Some t \<Rightarrow> startswith py37_text (py_strip t))"

definition windows_path :: "string list \<Rightarrow> string" where
  "windows_path parts = join [char_of (92::nat)] parts"

definition candidates :: "machine \<Rightarrow> string list" where
  "candidates m =
     (case env_text m ''PYTHON37'' of None \<Rightarrow> [] | Some t \<Rightarrow> [t]) @ python37_names @
     (case env_text m ''LOCALAPPDATA'' of None \<Rightarrow> [] | Some t \<Rightarrow> [mc_str m (local_python m t)]) @
     [windows_path [''C:'', ''Python37'', ''python.exe''], windows_path [''C:'', ''Program Files'', ''Python37'', ''python.exe'']]"

definition try_python :: "machine \<Rightarrow> string \<Rightarrow> string list option" where
  "try_python m c =
     (if blank \<in> set c \<and> \<not> mc_exists m (mc_path m c) then
        (case mc_run m (split_words [] c @ [''--version'']) of
           None \<Rightarrow> None
         | Some t \<Rightarrow> if startswith py37_text t then Some (split_words [] c) else None)
      else if mc_exists m (mc_path m c) \<and> is_py37 m c then Some [c]
      else (case mc_which m c of None \<Rightarrow> None | Some w \<Rightarrow> if is_py37 m w then Some [w] else None))"

fun first_python :: "machine \<Rightarrow> string list \<Rightarrow> py_error + string list" where
  "first_python m [] = Inl (RuntimeError ''Python 3.7 not found. Set PYTHON37 to python.exe.'')"
| "first_python m (c # cs) = (case try_python m c of Some py \<Rightarrow> Inr py | None \<Rightarrow> first_python m cs)"

definition find_py37 :: "machine \<Rightarrow> py_error + string list" where
  "find_py37 m = first_python m (candidates m)"

text \<open>Whatever is found answered \<open>--version\<close> with 3.7.\<close>

lemma find_py37_runs:
  assumes "find_py37 m = Inr py"
  shows "\<exists>t. mc_run m (py @ [''--version'']) = Some t \<and> startswith py37_text (py_strip t) \<or>
    mc_run m (py @ [''--version'']) = Some t \<and> startswith py37_text t"
proof -
  have tried: "\<exists>t. mc_run m (py @ [''--version'']) = Some t \<and> startswith py37_text (py_strip t) \<or>
      mc_run m (py @ [''--version'']) = Some t \<and> startswith py37_text t" if "try_python m c = Some py" for c
    using that by (auto simp: try_python_def is_py37_def split: if_splits option.splits)
  have "first_python m cs = Inr py \<Longrightarrow> \<exists>c \<in> set cs. try_python m c = Some py" for cs
    by (induction m cs rule: first_python.induct) (auto split: option.splits)
  then show ?thesis using assms tried unfolding find_py37_def by blast
qed

text \<open>
  The checklist is content with the launcher \<open>py\<close>, whatever versions it can start: it reports
  Python 3.7 on a machine where no build will find one.
\<close>

lemma launcher_is_enough:
  assumes "env_text m ''PYTHON37'' = None" and "mc_which m ''py'' = Some w"
    and "\<And>c. mc_run m c = None"
  shows "py37_available m" and "find_py37 m = Inl (RuntimeError ''Python 3.7 not found. Set PYTHON37 to python.exe.'')"
proof -
  have w: "split_words [] ''py -3.7'' = [''py'', ''-3.7'']" by (simp add: py_space_def)
  show "py37_available m" using assms w by (simp add: py37_available_def python37_names_def)
  have "try_python m c = None" for c
    using assms(3) by (simp add: try_python_def is_py37_def split: option.split)
  then have "first_python m cs = Inl (RuntimeError ''Python 3.7 not found. Set PYTHON37 to python.exe.'')" for cs
    by (induction cs) simp_all
  then show "find_py37 m = Inl (RuntimeError ''Python 3.7 not found. Set PYTHON37 to python.exe.'')"
    by (simp add: find_py37_def)
qed

section \<open>Installing\<close>

text \<open>
  What is installed: the entries of the archive, and the tree of loose source, both from relative
  paths to texts. The source of the mod is such a list too.
\<close>

type_synonym tree = "(string \<times> string) list"

record installed =
  in_packaged :: "tree option"
  in_dev :: "tree option"

definition copy_dev_source :: "tree \<Rightarrow> installed \<Rightarrow> installed" where
  "copy_dev_source src i =
     (if src = [] then i
      else i\<lparr>in_dev := Some (fold (\<lambda>f. AList.update (fst f) (snd f)) src (case in_dev i of None \<Rightarrow> [] | Some fs \<Rightarrow> fs))\<rparr>)"

definition install_dev :: "tree \<Rightarrow> installed \<Rightarrow> installed" where
  "install_dev src i = copy_dev_source src (i\<lparr>in_packaged := None\<rparr>)"

definition clean_dev_source :: "installed \<Rightarrow> installed" where
  "clean_dev_source i = i\<lparr>in_dev := None\<rparr>"

text \<open>\<open>compile py text\<close> is the byte code, or \<open>None\<close> when the interpreter fails (\<open>check=True\<close>).\<close>

fun compile_all :: "(string \<Rightarrow> string option) \<Rightarrow> tree \<Rightarrow> py_error + tree" where
  "compile_all compile [] = Inr []"
| "compile_all compile (f # fs) =
     (case compile (snd f) of
        None \<Rightarrow> Inl (Unmodelled ''CalledProcessError'')
      | Some code \<Rightarrow>
         (case compile_all compile fs of
            Inl e \<Rightarrow> Inl e | Inr cs \<Rightarrow> Inr ((''kermp_mod/'' @ fst f @ ''c'', code) # cs)))"

definition build_packaged :: "machine \<Rightarrow> (string list \<Rightarrow> string \<Rightarrow> string option) \<Rightarrow> tree \<Rightarrow> installed \<Rightarrow> installed \<times> py_error option" where
  "build_packaged m compile src i =
     (let i1 = clean_dev_source i in
      case find_py37 m of
        Inl e \<Rightarrow> (i1, Some e)
      | Inr py \<Rightarrow>
         (case compile_all (compile py) src of
            Inl e \<Rightarrow> (i1, Some e)
          | Inr cs \<Rightarrow> (i1\<lparr>in_packaged := Some cs\<rparr>, None)))"

definition build_main ::
  "string list \<Rightarrow> machine \<Rightarrow> (string list \<Rightarrow> string \<Rightarrow> string option) \<Rightarrow> tree \<Rightarrow> installed \<Rightarrow> installed \<times> py_error option" where
  "build_main argv m compile src i =
     (if ''--dev-sync'' \<in> set argv then (copy_dev_source src i, None)
      else if ''--dev'' \<in> set argv then (install_dev src i, None)
      else build_packaged m compile src i)"

text \<open>Never both: the mod would be loaded twice.\<close>

definition single_load :: "installed \<Rightarrow> bool" where
  "single_load i \<longleftrightarrow> in_packaged i = None \<or> in_dev i = None"

lemma build_main_single:
  assumes "''--dev-sync'' \<notin> set argv"
  shows "single_load (fst (build_main argv m compile src i))"
  using assms
  by (auto simp: build_main_def install_dev_def copy_dev_source_def build_packaged_def clean_dev_source_def
      single_load_def Let_def split: sum.split)

text \<open>Successive runs of the script, each with its arguments, machine, compiler and source.\<close>

type_synonym build_run = "string list \<times> machine \<times> (string list \<Rightarrow> string \<Rightarrow> string option) \<times> tree"

definition build_runs :: "build_run list \<Rightarrow> installed \<Rightarrow> installed" where
  "build_runs = fold (\<lambda>(argv, m, compile, src) i. fst (build_main argv m compile src i))"

lemma build_runs_single:
  "single_load i \<Longrightarrow> (\<And>r. r \<in> set runs \<Longrightarrow> ''--dev-sync'' \<notin> set (fst r)) \<Longrightarrow> single_load (build_runs runs i)"
proof (induction runs arbitrary: i)
  case (Cons r runs)
  obtain argv m compile src where r: "r = (argv, m, compile, src)" by (cases r) auto
  have "single_load (fst (build_main argv m compile src i))" using Cons.prems(2) [of r] by (intro build_main_single) (simp add: r)
  then show ?case using Cons by (simp add: build_runs_def r)
qed (simp add: build_runs_def)

text \<open>
  The loose source after an installation: every file of the repository with its text. Files that are
  no longer there stay.
\<close>

lemma dev_source_current:
  assumes "distinct (map fst src)" and "(p, t) \<in> set src"
  shows "\<exists>fs. in_dev (copy_dev_source src i) = Some fs \<and> map_of fs p = Some t"
proof -
  have "map_of (fold (\<lambda>f. AList.update (fst f) (snd f)) src fs) p = Some t" for fs
    using assms
  proof (induction src arbitrary: fs)
    case (Cons f src)
    have keep: "p \<notin> fst ` set src \<Longrightarrow> map_of (fold (\<lambda>f. AList.update (fst f) (snd f)) src gs) p = map_of gs p" for gs
      by (induction src arbitrary: gs) (auto simp: update_conv')
    show ?case
    proof (cases "f = (p, t)")
      case True
      then show ?thesis using Cons.prems keep by (auto simp: update_conv')
    qed (use Cons in auto)
  qed simp
  moreover have "src \<noteq> []" using assms by auto
  ultimately show ?thesis by (simp add: copy_dev_source_def)
qed

lemma removed_source_stays:
  assumes "in_dev i = Some fs" and "map_of fs p = Some t" and "p \<notin> fst ` set src" and "src \<noteq> []"
  shows "\<exists>gs. in_dev (copy_dev_source src i) = Some gs \<and> map_of gs p = Some t"
proof -
  have "map_of (fold (\<lambda>f. AList.update (fst f) (snd f)) src gs) p = map_of gs p" for gs
    using assms(3) by (induction src arbitrary: gs) (auto simp: update_conv')
  then show ?thesis using assms by (simp add: copy_dev_source_def)
qed

text \<open>The archive holds one compiled file per source file, in order.\<close>

lemma packaged_entries:
  assumes "build_packaged m compile src i = (i1, None)"
  shows "\<exists>py cs. find_py37 m = Inr py \<and> in_packaged i1 = Some cs \<and> in_dev i1 = None \<and>
    list_all2 (\<lambda>f c. fst c = ''kermp_mod/'' @ fst f @ ''c'' \<and> compile py (snd f) = Some (snd c)) src cs"
proof -
  have all2: "compile_all cf fs = Inr cs \<Longrightarrow>
      list_all2 (\<lambda>f c. fst c = ''kermp_mod/'' @ fst f @ ''c'' \<and> cf (snd f) = Some (snd c)) fs cs" for cf fs cs
    by (induction cf fs arbitrary: cs rule: compile_all.induct) (auto split: option.splits sum.splits)
  then show ?thesis using assms
    by (fastforce simp: build_packaged_def clean_dev_source_def Let_def split: sum.splits)
qed

text \<open>
  A failed packaged build has already removed the loose source: with nothing packaged before, the mod
  is gone. And a sync next to an installed package loads the mod twice.
\<close>

lemma failed_build_uninstalls:
  assumes "find_py37 m = Inl e" and "in_packaged i = None"
  shows "fst (build_packaged m compile src i) = \<lparr>in_packaged = None, in_dev = None\<rparr>"
  using assms by (simp add: build_packaged_def clean_dev_source_def Let_def)

lemma sync_loads_twice:
  assumes "''--dev-sync'' \<in> set argv" and "in_packaged i = Some cs" and "src \<noteq> []"
  shows "\<not> single_load (fst (build_main argv m compile src i))"
  using assms by (simp add: build_main_def copy_dev_source_def single_load_def)

end
