(* ===== verification/Preflight.thy ===== *)
theory Preflight
  imports Mod_Install
begin

text \<open>
  \<^verbatim>\<open>src/kermp/preflight.py\<close>: the checklist before a session, line by line, and what it says about the
  installations of \<open>Mod_Install\<close>.
\<close>

section \<open>Lines\<close>

datatype report_line = Check string bool string | Info string string | Plain string

fun render :: "report_line \<Rightarrow> string" where
  "render (Check label ok detail) =
     ''['' @ (if ok then ''OK  '' else ''FAIL'') @ ''] '' @ label @ (if detail = [] then [] else ''  -> '' @ detail)"
| "render (Info label detail) = ''[INFO] '' @ label @ (if detail = [] then [] else ''  -> '' @ detail)"
| "render (Plain t) = t"

fun failed :: "report_line \<Rightarrow> bool" where
  "failed (Check label ok detail) = (\<not> ok)"
| "failed _ = False"

section \<open>The report\<close>

definition LAN_PORT :: int where "LAN_PORT = 17653"
definition BRIDGE_PORT :: int where "BRIDGE_PORT = 17654"

definition detected_lan_ip :: "machine \<Rightarrow> string" where
  "detected_lan_ip m = (case mc_lan_ip m of None \<Rightarrow> ''127.0.0.1'' | Some ip \<Rightarrow> ip)"

definition kermp_version :: "machine \<Rightarrow> string" where
  "kermp_version m = (case mc_kermp m of None \<Rightarrow> ''not-installed'' | Some v \<Rightarrow> v)"

definition double_load_line :: report_line where
  "double_load_line =
     Check ''No packaged/dev double-load'' False ''remove one: run build.py --dev (dev) or build.py (packaged)''"

definition run_preflight :: "machine \<Rightarrow> report_line list" where
  "run_preflight m =
     (let packaged = mc_exists m (packaged_mod m); dev = mc_exists m (dev_mod_tree m); file_str = mc_str m in
      [Plain ''KerMP multiplayer preflight'', Plain (replicate 40 (CHR ''='')),
       Check ''Python environment'' (fst (mc_python m) > 3 \<or> fst (mc_python m) = 3 \<and> snd (mc_python m) \<ge> 10)
         (''python '' @ mc_python_text m),
       Check ''KerMP package'' (kermp_version m \<noteq> ''not-installed'') (''version '' @ kermp_version m),
       Check ''Sims user folder'' (mc_exists m (sims_user_dir m)) (file_str (sims_user_dir m)),
       Check ''Sims Mods folder'' (mc_exists m (mods_dir m)) (file_str (mods_dir m)),
       Check ''Sims saves folder'' (mc_exists m (saves_dir m)) (file_str (saves_dir m)),
       Check ''Game version'' (preflight_version m \<noteq> ''unknown'') (preflight_version m),
       Check ''KerMP packaged mod'' packaged (file_str (packaged_mod m)),
       Info ''KerMP dev source tree''
         (if dev then ''installed '' @ file_str (dev_mod_tree m) else ''not installed (packaged mode)'')] @
      (if packaged \<and> dev then [double_load_line] else []) @
      [Check ''Python 3.7 (Sims mod build)'' (py37_available m)
         ''set PYTHON37 to a python 3.7 exe, or install it, to rebuild the .ts4script'',
       Check (''LAN port '' @ int_str LAN_PORT) (mc_port_free m LAN_PORT) [],
       Check (''Bridge port '' @ int_str BRIDGE_PORT) (mc_port_free m BRIDGE_PORT) [],
       Plain (''LAN address: '' @ detected_lan_ip m), Plain (''Save path:   '' @ file_str (saves_dir m)), Plain [],
       Plain ''If any line is FAIL, fix it before Host/Join. Windows Firewall must allow'',
       Plain ''python/KerMP on Private networks (this tool does not modify firewall rules).''])"

section \<open>What the report says\<close>

lemma double_load_reported:
  "double_load_line \<in> set (run_preflight m) \<longleftrightarrow> mc_exists m (packaged_mod m) \<and> mc_exists m (dev_mod_tree m)"
  by (simp add: run_preflight_def double_load_line_def Let_def)

text \<open>
  The report is clean exactly when the machine is ready for the packaged mod. With the loose source
  that \<open>build.py --dev\<close> installs it never is: that mode removes the package the report asks for.
\<close>

lemma clean_report:
  "(\<forall>l \<in> set (run_preflight m). \<not> failed l) \<longleftrightarrow>
     (fst (mc_python m) > 3 \<or> fst (mc_python m) = 3 \<and> snd (mc_python m) \<ge> 10) \<and> kermp_version m \<noteq> ''not-installed'' \<and>
     mc_exists m (sims_user_dir m) \<and> mc_exists m (mods_dir m) \<and> mc_exists m (saves_dir m) \<and>
     preflight_version m \<noteq> ''unknown'' \<and> mc_exists m (packaged_mod m) \<and> \<not> mc_exists m (dev_mod_tree m) \<and>
     py37_available m \<and> mc_port_free m LAN_PORT \<and> mc_port_free m BRIDGE_PORT"
  by (auto simp: run_preflight_def double_load_line_def Let_def)

text \<open>A line is marked in its first six characters, whatever folder it names.\<close>

lemma render_marks: "take 6 (render (Check label ok detail)) = (if ok then ''[OK  ]'' else ''[FAIL]'')"
  by simp

text \<open>The machine shows what an installation put there.\<close>

definition shows_installed :: "machine \<Rightarrow> installed \<Rightarrow> bool" where
  "shows_installed m i \<longleftrightarrow>
     mc_exists m (packaged_mod m) = (in_packaged i \<noteq> None) \<and> mc_exists m (dev_mod_tree m) = (in_dev i \<noteq> None)"

lemma no_double_load_line:
  "shows_installed m i \<Longrightarrow> double_load_line \<in> set (run_preflight m) \<longleftrightarrow> \<not> single_load i"
  by (auto simp: double_load_reported shows_installed_def single_load_def)

lemma dev_install_never_clean:
  assumes "''--dev'' \<in> set argv" and "''--dev-sync'' \<notin> set argv"
    and "shows_installed m (fst (build_main argv m1 compile src i))"
  shows "\<exists>l \<in> set (run_preflight m). failed l"
  using assms clean_report [of m]
  by (auto simp: build_main_def install_dev_def copy_dev_source_def shows_installed_def split: if_splits)

end
