(* ===== verification/Sidecar_Window.thy ===== *)
theory Sidecar_Window
  imports Preflight
begin

text \<open>
  \<^verbatim>\<open>src/kermp/gui.py\<close>: the window around the sidecar - its settings, the thread a session runs in, the
  queue of events between them and the model the window shows. Widgets and the log are left out.
\<close>

section \<open>What the window shows\<close>

record status_model =
  st_mode :: string
  st_running :: bool
  st_lan :: pyval
  st_bridge :: string
  st_player :: pyval
  st_name :: string
  st_session :: pyval
  st_players :: pyval
  st_address :: pyval
  st_sim :: string
  st_travel :: string
  st_epoch :: int
  st_owner :: string
  st_sent :: int
  st_received :: int
  st_error :: pyval
  st_compat :: string
  st_save :: string
  st_ready :: string
  st_clock :: string
  st_native :: string

definition fresh_model :: "string \<Rightarrow> string \<Rightarrow> status_model" where
  "fresh_model mode name =
     \<lparr>st_mode = mode, st_running = False, st_lan = VStr ''Disconnected'', st_bridge = ''Waiting'', st_player = VStr [],
      st_name = name, st_session = VStr [], st_players = VStr [], st_address = VStr [],
      st_sim = ''unknown'', st_travel = ''idle'', st_epoch = 0, st_owner = ''none'', st_sent = 0, st_received = 0,
      st_error = VStr [], st_compat = ''Checking'', st_save = ''0%'', st_ready = ''Not ready'', st_clock = ''Speed 1'',
      st_native = ''Unavailable''\<rparr>"

text \<open>
  The controller: whether its thread is alive, the arguments of every thread started, the events not
  yet polled.
\<close>

datatype window_event = Started pydict | Failed string | Stopped

record session_args =
  sa_mode :: string
  sa_name :: string
  sa_host_ip :: string
  sa_lan_port :: int
  sa_bridge_port :: int

record window =
  gw_model :: status_model
  gw_settings :: pydict
  gw_file :: "string option"
  gw_alive :: bool
  gw_threads :: "session_args list"
  gw_events :: "window_event list"

section \<open>Settings\<close>

definition default_settings :: pydict where
  "default_settings = [(''display_name'', VStr ''Player''), (''host_ip'', VStr ''127.0.0.1''),
     (''lan_port'', VInt LAN_PORT), (''bridge_port'', VInt BRIDGE_PORT)]"

text \<open>\<open>load_settings\<close>: a missing file or a text that is not JSON gives the defaults.\<close>

definition load_settings :: "(string \<Rightarrow> py_error + pyval) \<Rightarrow> string option \<Rightarrow> py_error + pyval" where
  "load_settings loads file1 =
     (case file1 of
        None \<Rightarrow> Inr (VDict default_settings)
      | Some t \<Rightarrow>
         (case loads t of
            Inr v \<Rightarrow> Inr v
          | Inl e \<Rightarrow> if exc_class e = ''ValueError'' then Inr (VDict default_settings) else Inl e))"

section \<open>The session thread\<close>

text \<open>
  \<open>RuntimeController._run\<close>: the events it publishes, given the identity, the welcome or the error of
  the start, and an error after it. The identity is read outside the \<open>try\<close>.
\<close>

fun all_texts :: "nat \<Rightarrow> pyval list \<Rightarrow> py_error + string list" where
  "all_texts n [] = Inr []"
| "all_texts n (v # vs) =
     (case v of
        VStr t \<Rightarrow> (case all_texts (Suc n) vs of Inl e \<Rightarrow> Inl e | Inr ts \<Rightarrow> Inr (t # ts))
      | _ \<Rightarrow> Inl (TypeError (''sequence item '' @ nat_str n @ '': expected str instance, '' @ type_name v @ '' found'')))"

definition join_names :: "pyval \<Rightarrow> py_error + string" where
  "join_names v =
     (case py_iter v of
        Inl e \<Rightarrow> Inl (TypeError ''can only join an iterable'')
      | Inr xs \<Rightarrow> (case all_texts 0 xs of Inl e \<Rightarrow> Inl e | Inr ts \<Rightarrow> Inr (join '', '' ts)))"

definition started_host :: "string \<Rightarrow> int \<Rightarrow> identity \<Rightarrow> pydict" where
  "started_host ip port i =
     [(''mode'', VStr ''HOSTING''), (''player_id'', id_player i), (''address'', VStr (ip @ '':'' @ int_str port))]"

definition started_client :: "pydict \<Rightarrow> identity \<Rightarrow> py_error + pydict" where
  "started_client welcome i =
     (case join_names (pget_default welcome ''players'' (VList [])) of
        Inl e \<Rightarrow> Inl e
      | Inr names \<Rightarrow>
          Inr [(''mode'', VStr ''CONNECTED''), (''player_id'', id_player i),
            (''session_id'', pget_default welcome ''session_id'' (VStr [])), (''players'', VStr names)])"

definition started_event :: "session_args \<Rightarrow> string \<Rightarrow> pydict \<Rightarrow> identity \<Rightarrow> py_error + pydict" where
  "started_event a ip welcome i =
     (if sa_mode a = ''host'' then Inr (started_host ip (sa_lan_port a) i) else started_client welcome i)"

definition session_events ::
  "session_args \<Rightarrow> string \<Rightarrow> py_error + identity \<Rightarrow> py_error + pydict \<Rightarrow> py_error option \<Rightarrow> window_event list" where
  "session_events a ip ident start later =
     (case ident of
        Inl e \<Rightarrow> []
      | Inr i \<Rightarrow>
         (case (case start of Inl e \<Rightarrow> Inl e | Inr welcome \<Rightarrow> started_event a ip welcome i) of
            Inl e \<Rightarrow> [Failed (exc_text e)]
          | Inr d \<Rightarrow> Started d # (case later of None \<Rightarrow> [] | Some e \<Rightarrow> [Failed (exc_text e)])) @ [Stopped])"

section \<open>The window\<close>

text \<open>\<open>RuntimeController.start\<close>: nothing happens while a thread is alive.\<close>

definition controller_start :: "session_args \<Rightarrow> window \<Rightarrow> window" where
  "controller_start a g = (if gw_alive g then g else g\<lparr>gw_alive := True, gw_threads := gw_threads g @ [a]\<rparr>)"

definition good_port :: "int \<Rightarrow> bool" where
  "good_port p \<longleftrightarrow> 1 \<le> p \<and> p \<le> 65535"

text \<open>\<open>_start\<close>; without two valid ports the window only shows a message. \<open>dumps\<close> writes the settings.\<close>

definition new_settings :: "string \<Rightarrow> string \<Rightarrow> int \<Rightarrow> int \<Rightarrow> pydict \<Rightarrow> pydict" where
  "new_settings name ip lan bridge s =
     AList.update ''bridge_port'' (VInt bridge) (AList.update ''lan_port'' (VInt lan)
      (AList.update ''host_ip'' (VStr (py_strip ip))
       (AList.update ''display_name'' (VStr (if py_strip name = [] then ''Player'' else py_strip name)) s)))"

definition window_start ::
  "(pyval \<Rightarrow> string) \<Rightarrow> string \<Rightarrow> string \<Rightarrow> string \<Rightarrow> string \<Rightarrow> string \<Rightarrow> window \<Rightarrow> window" where
  "window_start dumps mode name ip lan bridge g =
     (case (py_int (VStr lan), py_int (VStr bridge)) of
        (Inr l, Inr b) \<Rightarrow>
          if good_port l \<and> good_port b then
            (let s = new_settings name ip l b (gw_settings g) in
             controller_start \<lparr>sa_mode = mode, sa_name = name, sa_host_ip = ip, sa_lan_port = l, sa_bridge_port = b\<rparr>
               (g\<lparr>gw_settings := s, gw_file := Some (dumps (VDict s)), gw_model := fresh_model mode name\<rparr>))
          else g
      | _ \<Rightarrow> g)"

text \<open>\<open>_poll\<close>.\<close>

fun show_event :: "window_event \<Rightarrow> status_model \<Rightarrow> status_model" where
  "show_event (Started d) s =
     s\<lparr>st_running := True, st_lan := pget_default d ''mode'' (VStr ''Connected''),
       st_player := pget_default d ''player_id'' (VStr []), st_address := pget_default d ''address'' (VStr []),
       st_session := pget_default d ''session_id'' (VStr []), st_players := pget_default d ''players'' (VStr [])\<rparr>"
| "show_event (Failed t) s = s\<lparr>st_error := VStr t\<rparr>"
| "show_event Stopped s = s\<lparr>st_running := False, st_lan := VStr ''Disconnected''\<rparr>"

definition window_poll :: "window \<Rightarrow> window" where
  "window_poll g = g\<lparr>gw_model := fold show_event (gw_events g) (gw_model g), gw_events := []\<rparr>"

text \<open>The thread puts an event into the queue, and ends.\<close>

definition thread_event :: "window_event \<Rightarrow> window \<Rightarrow> window" where
  "thread_event e g = g\<lparr>gw_events := gw_events g @ [e]\<rparr>"

definition thread_end :: "window \<Rightarrow> window" where
  "thread_end g = g\<lparr>gw_alive := False\<rparr>"

section \<open>Properties\<close>

text \<open>A thread is only started with two ports a socket can be bound to.\<close>

definition window_ok :: "window \<Rightarrow> bool" where
  "window_ok g \<longleftrightarrow> (\<forall>a \<in> set (gw_threads g). good_port (sa_lan_port a) \<and> good_port (sa_bridge_port a))"

lemma window_ok_start [kermp_inv]: "window_ok g \<Longrightarrow> window_ok (window_start dumps mode name ip lan bridge g)"
  by (auto simp: window_start_def controller_start_def window_ok_def Let_def split: sum.split)

lemma window_ok_thread [kermp_inv]:
  "window_ok g \<Longrightarrow> window_ok (window_poll g)" "window_ok g \<Longrightarrow> window_ok (thread_event e g)"
  "window_ok g \<Longrightarrow> window_ok (thread_end g)"
  by (simp_all add: window_ok_def window_poll_def thread_event_def thread_end_def)

text \<open>At most one session at a time.\<close>

lemma no_second_thread: "gw_alive g \<Longrightarrow> gw_threads (window_start dumps mode name ip lan bridge g) = gw_threads g"
  by (simp add: window_start_def controller_start_def Let_def split: sum.split)

text \<open>
  Polling may happen at any moment between the events: the window ends up showing the same.
\<close>

fun window_run :: "(window_event option) list \<Rightarrow> window \<Rightarrow> window" where
  "window_run [] g = g"
| "window_run (None # xs) g = window_run xs (window_poll g)"
| "window_run (Some e # xs) g = window_run xs (thread_event e g)"

lemma window_run_model:
  "gw_model (window_poll (window_run xs g)) =
     fold show_event (gw_events g @ List.map_filter (\<lambda>x. x) xs) (gw_model g)"
proof (induction xs g rule: window_run.induct)
  case (1 g)
  show ?case by (simp add: window_poll_def List.map_filter_simps)
next
  case (2 xs g)
  then show ?case by (simp add: window_poll_def List.map_filter_simps)
next
  case (3 e xs g)
  then show ?case by (simp add: thread_event_def List.map_filter_simps)
qed

text \<open>
  Every session that got its identity ends shown as disconnected; one that failed shows the reason,
  whenever the window polled.
\<close>

lemma session_shown:
  assumes "List.map_filter (\<lambda>x. x) xs = session_events a ip (Inr i) start later" and "gw_events g = []"
  shows "\<not> st_running (gw_model (window_poll (window_run xs g)))"
    and "st_lan (gw_model (window_poll (window_run xs g))) = VStr ''Disconnected''"
    and "start = Inl e \<Longrightarrow> st_error (gw_model (window_poll (window_run xs g))) = VStr (exc_text e)"
  by (simp_all add: window_run_model assms session_events_def split: sum.split option.split)

lemma hosting_shown:
  assumes "sa_mode a = ''host''" and "gw_events g = []"
  shows "st_running (gw_model (window_poll (thread_event (hd (session_events a ip (Inr i) (Inr w) later)) g)))"
    and "st_address (gw_model (window_poll (thread_event (hd (session_events a ip (Inr i) (Inr w) later)) g))) =
      VStr (ip @ '':'' @ int_str (sa_lan_port a))"
  using assms
  by (simp_all add: session_events_def started_event_def started_host_def window_poll_def thread_event_def pget_default_def)

text \<open>
  An identity file that cannot be read ends the thread before its \<open>try\<close>: nothing is published, the
  window shows neither the error nor that nothing runs.
\<close>

lemma broken_identity_unseen: "session_events a ip (Inl e) start later = []"
  by (simp add: session_events_def)

text \<open>
  A second press of the button during a session starts nothing, but the model has already been
  replaced: the window shows a running session as disconnected, without its address.
\<close>

lemma second_start_forgets:
  assumes "gw_alive g" and "st_running (gw_model g)" and "py_int (VStr lan) = Inr l" and "py_int (VStr bridge) = Inr b"
    and "good_port l" and "good_port b"
  shows "gw_alive (window_start dumps mode name ip lan bridge g)"
    and "gw_model (window_start dumps mode name ip lan bridge g) = fresh_model mode name"
    and "\<not> st_running (gw_model (window_start dumps mode name ip lan bridge g))"
  using assms by (simp_all add: window_start_def controller_start_def fresh_model_def Let_def)

text \<open>The settings a start has written are the ones the next window reads.\<close>

lemma settings_round_trip:
  assumes "\<And>v. loads (dumps v) = Inr v" and "py_int (VStr lan) = Inr l" and "py_int (VStr bridge) = Inr b"
    and "good_port l" and "good_port b"
  shows "load_settings loads (gw_file (window_start dumps mode name ip lan bridge g)) =
      Inr (VDict (gw_settings (window_start dumps mode name ip lan bridge g)))"
    and "pget (gw_settings (window_start dumps mode name ip lan bridge g)) ''lan_port'' = VInt l"
  using assms
  by (simp_all add: window_start_def controller_start_def load_settings_def new_settings_def Let_def pget_def update_conv')

end
