(* ===== verification/Mod_Installers.thy ===== *)
theory Mod_Installers
  imports Mod_Native Mod_Environment
begin

text \<open>
  The installation of the mod in the game, \<open>install\<close> of \<^verbatim>\<open>src/sims_mod_src/kermp_mod/hooks.py\<close> with
  the installers it calls, in their order: which function each wraps, when it does nothing, what it
  reports. The table of the game's functions is that of \<open>Mod_Patches\<close>; an import that fails is the
  exception.
\<close>

section \<open>Installers of one function\<close>

text \<open>
  The flag that is set (the zone and the travel hook have none), the function, the text of the error
  when it is not there, and what a function that is wrapped already counts as.
\<close>

record installer =
  in_flag :: "string option"
  in_key :: string
  in_missing :: "string option"
  in_accepts :: bool

definition flag_on :: "installer \<Rightarrow> patch_mod \<Rightarrow> patch_mod" where
  "flag_on s m = (case in_flag s of None \<Rightarrow> m | Some f \<Rightarrow> m\<lparr>pm_flags := f # pm_flags m\<rparr>)"

definition flag_set :: "installer \<Rightarrow> patch_mod \<Rightarrow> bool" where
  "flag_set s m \<longleftrightarrow> (case in_flag s of None \<Rightarrow> False | Some f \<Rightarrow> f \<in> set (pm_flags m))"

text \<open>The state, the returned truth, the new \<open>last_error\<close> if there is one.\<close>

type_synonym installation = "patch_mod \<times> bool \<times> string option"

definition run_installer :: "installer \<Rightarrow> (py_error \<Rightarrow> string option) \<Rightarrow> py_error option \<Rightarrow> patch_mod \<Rightarrow> installation" where
  "run_installer s note import m =
     (if flag_set s m then (m, True, None)
      else case import of
        Some e \<Rightarrow> (m, False, note e)
      | None \<Rightarrow>
         (case map_of (pm_attrs m) (in_key s) of
            None \<Rightarrow> (m, False, in_missing s)
          | Some i \<Rightarrow>
              if kermp_wrapped i then (if in_accepts s then flag_on s m else m, in_accepts s, None)
              else (flag_on s (record_patch (in_key s) i
                      (m\<lparr>pm_attrs := AList.update (in_key s) (HookFn (in_key s) i) (pm_attrs m)\<rparr>)), True, None)))"

definition PUSH_HOOK :: installer where
  "PUSH_HOOK = \<lparr>in_flag = Some ''interaction_interception'', in_key = ''Sim.push_super_affordance'',
     in_missing = Some ''push_super_affordance_missing'', in_accepts = True\<rparr>"

definition AOP_HOOK :: installer where
  "AOP_HOOK = \<lparr>in_flag = Some ''aop_interception'', in_key = ''AffordanceObjectPair.test_and_execute'',
     in_missing = Some ''aop_test_and_execute_missing'', in_accepts = True\<rparr>"

definition LIFECYCLE_HOOK :: installer where
  "LIFECYCLE_HOOK = \<lparr>in_flag = Some ''native_interaction_lifecycle'', in_key = ''Interaction._trigger_interaction_start_event'',
     in_missing = Some ''interaction_start_event_missing'', in_accepts = True\<rparr>"

definition MESSAGE_HOOK :: installer where
  "MESSAGE_HOOK = \<lparr>in_flag = Some ''game_message_capture'', in_key = ''Client.send_message'',
     in_missing = None, in_accepts = True\<rparr>"

definition CANCEL_HOOK :: installer where
  "CANCEL_HOOK = \<lparr>in_flag = Some ''cancel_interception'', in_key = cancel_key, in_missing = None, in_accepts = False\<rparr>"

definition TRAVEL_HOOK :: installer where
  "TRAVEL_HOOK = \<lparr>in_flag = None, in_key = ''travel_commands.travel_sims_to_zone'', in_missing = None, in_accepts = False\<rparr>"

definition ZONE_HOOK :: installer where
  "ZONE_HOOK = \<lparr>in_flag = None, in_key = ''Zone.do_zone_spin_up'', in_missing = None, in_accepts = False\<rparr>"

text \<open>
  \<open>_install_timeline_suppression\<close> of \<open>hooks\<close> itself, which a game without the lifecycle guard uses; the
  class may be missing.
\<close>

definition TIMELINE_HOOK :: installer where
  "TIMELINE_HOOK = \<lparr>in_flag = Some ''timeline_suppression'', in_key = ''Timeline.simulate'',
     in_missing = Some ''timeline_simulate_missing'', in_accepts = True\<rparr>"

definition install_plain_timeline :: "bool \<Rightarrow> py_error option \<Rightarrow> patch_mod \<times> sim_status \<Rightarrow> (patch_mod \<times> sim_status) \<times> bool" where
  "install_plain_timeline class_there import ms =
     (if \<not> flag_set TIMELINE_HOOK (fst ms) \<and> import = None \<and> \<not> class_there
      then ((fst ms, (snd ms)\<lparr>ss_error := Some ''timeline_missing''\<rparr>), False)
      else case run_installer TIMELINE_HOOK (\<lambda>e. Some (''timeline_install:'' @ exc_class e @ '': '' @ exc_text e)) import (fst ms) of
        (m, done1, err) \<Rightarrow>
          if \<not> done1 then ((m, (snd ms)\<lparr>ss_error := err\<rparr>), False)
          else if flag_set TIMELINE_HOOK (fst ms) then (ms, True)
          else ((m, (snd ms)\<lparr>ss_available := True, ss_installed := True, ss_local := False, ss_error := None\<rparr>), True))"

text \<open>The wrapper it installs; the flag says that the game's own code runs.\<close>

definition plain_timeline_runs :: "string \<Rightarrow> bool \<Rightarrow> bool" where
  "plain_timeline_runs role bypass \<longleftrightarrow> role \<noteq> ''client'' \<or> bypass"

section \<open>Installers of several functions\<close>

text \<open>
  The clock: each of the three that is there and not wrapped; the flag is set whatever was found, unless the
  class is missing.
\<close>

definition CLOCK_KEYS :: "string list" where
  "CLOCK_KEYS = [''GameClock.set_clock_speed'', ''GameClock.push_speed'', ''GameClock.pop_speed'']"

definition install_clock_hooks :: "bool \<Rightarrow> py_error option \<Rightarrow> patch_mod \<Rightarrow> installation" where
  "install_clock_hooks class_there import m =
     (if ''clock_hooks'' \<in> set (pm_flags m) then (m, True, None)
      else case import of
        Some e \<Rightarrow> (m, False, Some (exc_class e @ '': '' @ exc_text e))
      | None \<Rightarrow>
          if \<not> class_there then (m, False, Some ''game_clock_missing'')
          else (let m1 = fst (fold hook_attr CLOCK_KEYS (m, False)) in (m1\<lparr>pm_flags := ''clock_hooks'' # pm_flags m1\<rparr>, True, None)))"

text \<open>
  \<open>_install_headless_remote_client_lifecycle\<close>: both functions or none. With the error goes the stage
  \<open>lifecycle_install_failed\<close>.
\<close>

definition HEADLESS_KEYS :: "string list" where
  "HEADLESS_KEYS = [''Client.on_add'', ''Client.on_remove'']"

definition no_client_attr :: "string \<Rightarrow> string" where
  "no_client_attr n = ''headless_lifecycle:AttributeError:type object 'Client' has no attribute '' @ [CHR 0x27] @ n @ [CHR 0x27]"

definition install_headless :: "py_error option \<Rightarrow> patch_mod \<Rightarrow> installation" where
  "install_headless import m =
     (case import of
        Some e \<Rightarrow> (m, False, Some (''headless_lifecycle:'' @ exc_class e @ '':'' @ exc_text e))
      | None \<Rightarrow>
         (case (map_of (pm_attrs m) ''Client.on_add'', map_of (pm_attrs m) ''Client.on_remove'') of
            (Some i, Some j) \<Rightarrow> if kermp_wrapped i then (m, True, None) else (fst (fold hook_attr HEADLESS_KEYS (m, False)), True, None)
          | (None, _) \<Rightarrow> (m, False, Some (no_client_attr ''on_add''))
          | (_, None) \<Rightarrow> (m, False, Some (no_client_attr ''on_remove''))))"

section \<open>What is known of the object hooks\<close>

text \<open>
  \<open>_build_hook_info\<close>: for each hook whether its function is callable and its signature, or the class of the
  exception its import raised. A mixin that cannot be imported counts as not available.
\<close>

datatype hook_report =
    Available string
  | Absent
  | Unreachable string

definition hook_info :: "(string \<Rightarrow> py_error option) \<Rightarrow> (string \<Rightarrow> py_error + string) \<Rightarrow> patch_mod \<Rightarrow> string \<times> string \<Rightarrow> hook_report" where
  "hook_info import signature m lk =
     (case import (snd lk) of
        Some e \<Rightarrow> if fst lk \<in> {''definition_hook'', ''scale_hook''} then Absent else Unreachable (exc_class e)
      | None \<Rightarrow>
         (case map_of (pm_attrs m) (snd lk) of
            None \<Rightarrow> Absent
          | Some i \<Rightarrow> Available (case signature (snd lk) of Inl e \<Rightarrow> ''<unavailable:'' @ exc_class e @ ''>'' | Inr s \<Rightarrow> s)))"

definition object_hook_info :: "(string \<Rightarrow> py_error option) \<Rightarrow> (string \<Rightarrow> py_error + string) \<Rightarrow> patch_mod \<Rightarrow> (string \<times> hook_report) list" where
  "object_hook_info import signature m = map (\<lambda>lk. (fst lk, hook_info import signature m lk)) OBJECT_HOOKS"

definition info_available :: "(string \<times> hook_report) list \<Rightarrow> string \<Rightarrow> bool" where
  "info_available info1 label \<longleftrightarrow> (case map_of info1 label of Some (Available s) \<Rightarrow> True | _ \<Rightarrow> False)"

section \<open>\<open>install\<close>\<close>

text \<open>
  What fails to import, whether the clock's class is there, the first client if the game has one, and the two
  registers of build mode.
\<close>

record install_env =
  ie_import :: "string \<Rightarrow> py_error option"
  ie_clock :: bool
  ie_client :: bool
  ie_text :: "py_error \<Rightarrow> string"

definition run_hook :: "install_env \<Rightarrow> installer \<Rightarrow> (py_error \<Rightarrow> string option) \<Rightarrow> patch_mod \<Rightarrow> installation" where
  "run_hook g s note m = run_installer s note (ie_import g (in_key s)) m"

text \<open>The installers with the text each leaves of an exception; some only write it to the log.\<close>

definition install_zone_hooks :: "install_env \<Rightarrow> patch_mod \<Rightarrow> installation" where
  "install_zone_hooks g m = run_hook g ZONE_HOOK (\<lambda>e. None) m"

definition install_message_capture :: "install_env \<Rightarrow> patch_mod \<Rightarrow> installation" where
  "install_message_capture g m = run_hook g MESSAGE_HOOK (\<lambda>e. None) m"

definition install_travel_hook :: "install_env \<Rightarrow> patch_mod \<Rightarrow> installation" where
  "install_travel_hook g m = run_hook g TRAVEL_HOOK (\<lambda>e. None) m"

definition install_push_interception :: "install_env \<Rightarrow> patch_mod \<Rightarrow> installation" where
  "install_push_interception g m = run_hook g PUSH_HOOK (\<lambda>e. Some (ie_text g e)) m"

definition install_lifecycle :: "install_env \<Rightarrow> patch_mod \<Rightarrow> installation" where
  "install_lifecycle g m =
     run_hook g LIFECYCLE_HOOK (\<lambda>e. Some (''interaction_lifecycle:'' @ exc_class e @ '':'' @ exc_text e)) m"

definition install_cancel_interception :: "install_env \<Rightarrow> patch_mod \<Rightarrow> installation" where
  "install_cancel_interception g m = run_hook g CANCEL_HOOK (\<lambda>e. None) m"

definition install_aop_interception :: "install_env \<Rightarrow> patch_mod \<Rightarrow> installation" where
  "install_aop_interception g m = run_hook g AOP_HOOK (\<lambda>e. Some (exc_class e @ '': '' @ exc_text e)) m"

definition install_hooks :: "install_env \<Rightarrow> patch_mod \<Rightarrow> patch_mod" where
  "install_hooks g m =
     (let m1 = fst (install_zone_hooks g (install_object_hooks m));
          m2 = fst (install_message_capture g m1);
          m3 = fst (install_travel_hook g m2);
          m4 = fst (install_push_interception g m3);
          m5 = fst (install_lifecycle g m4);
          m6 = (if ie_client g then fst (install_active_sim_hooks m5) else m5);
          m7 = fst (install_cancel_interception g m6)
      in fst (install_clock_hooks (ie_clock g) (ie_import g ''clock'') m7))"

text \<open>The first call only; the handlers it gives to the bridge, by their message types.\<close>

definition HANDLED_TYPES :: "string list" where
  "HANDLED_TYPES = [''travel.prepare'', ''travel.commit'', ''travel.view_batch'', ''travel.abort'', ''travel.resume'',
     ''build.apply'', ''sidecar.welcome'', ''sim.enumerate'', ''sim.select'', ''sim.selection_state'', ''sim.state'',
     ''interaction.accepted'', ''interaction.rejected'', ''interaction.queued'', ''interaction.started'',
     ''interaction.finished'', ''interaction.cancel'', ''interaction.request'', ''interaction.command'',
     ''game.raw_message'', ''clock.state'']"

definition install_mod :: "install_env \<Rightarrow> bool \<times> patch_mod \<Rightarrow> bool \<times> patch_mod" where
  "install_mod g im = (if fst im then im else (True, install_hooks g (snd im)))"

text \<open>What \<open>_sidecar_welcome\<close> installs besides the suppression of the simulation.\<close>

definition welcome_hooks :: "install_env \<Rightarrow> patch_mod \<Rightarrow> patch_mod" where
  "welcome_hooks g m =
     (let m1 = (if ie_client g then fst (install_active_sim_hooks m) else m);
          m2 = fst (install_clock_hooks (ie_clock g) (ie_import g ''clock'') m1)
      in install_proxy (fst (install_aop_interception g m2)))"

section \<open>Properties\<close>

lemma run_installer_ok:
  assumes "patches_ok as0 m"
  shows "patches_ok as0 (fst (run_installer s note import m))"
proof -
  have f: "patches_ok as0 (flag_on s m') \<longleftrightarrow> patches_ok as0 m'" for m'
    by (simp add: flag_on_def patches_ok_def split: option.split)
  have "patches_ok as0 (fst (hook_attr (in_key s) (m, False)))" by (rule hook_attr_ok) (simp add: assms)
  then show ?thesis
    using assms by (auto simp: run_installer_def f hook_attr_def split: option.split if_splits)
qed

lemma install_clock_ok: "patches_ok as0 m \<Longrightarrow> patches_ok as0 (fst (install_clock_hooks b import m))"
  using hook_attrs_ok [of as0 "(m, False)" CLOCK_KEYS]
  by (auto simp: install_clock_hooks_def patches_ok_def Let_def split: option.split)

lemma install_headless_ok: "patches_ok as0 m \<Longrightarrow> patches_ok as0 (fst (install_headless import m))"
  using hook_attrs_ok [of as0 "(m, False)" HEADLESS_KEYS] by (auto simp: install_headless_def split: option.split)

lemmas single_installers = install_zone_hooks_def install_message_capture_def install_travel_hook_def
  install_push_interception_def install_lifecycle_def install_cancel_interception_def install_aop_interception_def run_hook_def

lemma install_hooks_ok: "patches_ok as0 m \<Longrightarrow> patches_ok as0 (install_hooks g m)"
  unfolding install_hooks_def Let_def single_installers
  by (cases "ie_client g")
    (simp_all only: if_True if_False install_clock_ok run_installer_ok install_active_sim_ok install_object_hooks_ok)

text \<open>
  A fresh installation wraps each function at most once, with the game's own function below, and changes
  nothing else; after the teardown of a game that lets go of them all every function is the game's again.
\<close>

lemma install_restored:
  "map_of (pm_attrs (fst (teardown (\<lambda>k. False) (install_hooks g (unpatched as rs))))) k = map_of as k"
  using teardown_restores_attrs(1) [OF install_hooks_ok [OF patches_ok_unpatched], of "\<lambda>k. False" g as rs k]
  by (simp add: teardown_def Let_def)

text \<open>A second call of an installer that succeeded changes nothing but perhaps its answer.\<close>

lemma run_installer_again:
  assumes "run_installer s note import m = (m1, True, err)" "in_flag s \<noteq> None"
  shows "run_installer s note' import' m1 = (m1, True, None)"
  using assms
  by (auto simp: run_installer_def flag_set_def flag_on_def record_patch_def split: if_splits option.splits)

lemma run_installer_wrapped:
  assumes "run_installer s note None m = (m1, True, err)"
  shows "\<exists>i. map_of (pm_attrs m1) (in_key s) = Some i \<and> kermp_wrapped i \<or> flag_set s m"
  using assms
  by (auto simp: run_installer_def flag_on_def record_patch_def split: if_splits option.splits)

lemma install_once: "install_mod g' (install_mod g im) = install_mod g im"
  by (simp add: install_mod_def)

text \<open>
  The clock is reported as hooked although none of its functions was found.
\<close>

lemma clock_hooked_without_functions:
  assumes "map_of (pm_attrs m) ''GameClock.set_clock_speed'' = None" "map_of (pm_attrs m) ''GameClock.push_speed'' = None"
    "map_of (pm_attrs m) ''GameClock.pop_speed'' = None" "''clock_hooks'' \<notin> set (pm_flags m)"
  shows "install_clock_hooks True None m = (m\<lparr>pm_flags := ''clock_hooks'' # pm_flags m\<rparr>, True, None)"
  using assms by (simp add: install_clock_hooks_def CLOCK_KEYS_def hook_attr_def Let_def)

text \<open>
  A mod that was installed before the game had a client hooks the change of the active Sim with the sidecar's
  welcome.
\<close>

lemma hook_attr_other: "k' \<noteq> k \<Longrightarrow> map_of (pm_attrs (fst (hook_attr k' r))) k = map_of (pm_attrs (fst r)) k"
  by (simp add: hook_attr_def record_patch_def split: option.split)

lemma hook_attrs_other: "k \<notin> set ks \<Longrightarrow> map_of (pm_attrs (fst (fold hook_attr ks r))) k = map_of (pm_attrs (fst r)) k"
  by (induction ks arbitrary: r) (auto simp: hook_attr_other)

lemma hook_attrs_hooked:
  assumes "map_of (pm_attrs (fst r)) k = Some i" "\<not> kermp_wrapped i" "k \<in> set ks" "distinct ks"
  shows "map_of (pm_attrs (fst (fold hook_attr ks r))) k = Some (HookFn k i) \<and> snd (fold hook_attr ks r)"
  using assms
proof (induction ks arbitrary: r)
  case (Cons k' ks)
  have keep: "snd r \<Longrightarrow> snd (fold hook_attr ks r)" for r
    by (induction ks arbitrary: r) (simp_all add: hook_attr_def split: option.split)
  show ?case
  proof (cases "k' = k")
    case True
    then show ?thesis using Cons.prems keep [of "hook_attr k r"]
      by (simp add: hook_attrs_other) (simp add: hook_attr_def record_patch_def)
  next
    case False
    then show ?thesis using Cons.prems Cons.IH [of "hook_attr k' r"] by (simp add: hook_attr_other)
  qed
qed simp

lemma run_installer_other:
  "in_key s \<noteq> k \<Longrightarrow> map_of (pm_attrs (fst (run_installer s note import m))) k = map_of (pm_attrs m) k"
  by (simp add: run_installer_def flag_on_def record_patch_def split: option.split)

lemma install_clock_other:
  "k \<notin> set CLOCK_KEYS \<Longrightarrow> map_of (pm_attrs (fst (install_clock_hooks b import m))) k = map_of (pm_attrs m) k"
  using hook_attrs_other [of k CLOCK_KEYS "(m, False)"] by (auto simp: install_clock_hooks_def Let_def split: option.split)

lemma welcome_catches_up:
  assumes "ie_client g" "''active_sim'' \<notin> set (pm_flags m)" "k \<in> set ACTIVE_SIM_KEYS"
    and "map_of (pm_attrs m) k = Some i" "\<not> kermp_wrapped i"
  shows "map_of (pm_attrs (welcome_hooks g m)) k = Some (HookFn k i)"
proof -
  have d: "distinct ACTIVE_SIM_KEYS" by (simp add: ACTIVE_SIM_KEYS_def)
  have "map_of (pm_attrs (fst (install_active_sim_hooks m))) k = Some (HookFn k i)"
    using hook_attrs_hooked [of "(m, False)" k i ACTIVE_SIM_KEYS] assms(2-5) d
    by (auto simp: install_active_sim_hooks_def split: prod.split)
  moreover have "k \<notin> set CLOCK_KEYS" "in_key AOP_HOOK \<noteq> k"
    using assms(3) by (auto simp: ACTIVE_SIM_KEYS_def CLOCK_KEYS_def AOP_HOOK_def)
  moreover have "pm_attrs (install_proxy m') = pm_attrs m'" for m' by (simp add: install_proxy_def)
  ultimately show ?thesis using assms(1) by (simp add: welcome_hooks_def Let_def single_installers run_installer_other install_clock_other)
qed

lemma welcome_hooks_ok: "patches_ok as0 m \<Longrightarrow> patches_ok as0 (welcome_hooks g m)"
  unfolding welcome_hooks_def Let_def single_installers
  by (cases "ie_client g")
    (simp_all only: if_True if_False install_clock_ok run_installer_ok install_active_sim_ok install_proxy_ok)

text \<open>A hook is available exactly when its wrapper can be installed.\<close>

lemma info_available_iff:
  assumes "\<And>k. import k = None" "lk \<in> set OBJECT_HOOKS"
  shows "info_available (object_hook_info import signature m) (fst lk) \<longleftrightarrow> snd (install_wrapper lk m)"
proof -
  have "distinct (map fst OBJECT_HOOKS)" by (simp add: OBJECT_HOOKS_def)
  then have "map_of (object_hook_info import signature m) (fst lk) = Some (hook_info import signature m lk)"
    using assms(2) unfolding object_hook_info_def by (intro map_of_is_SomeI) (auto simp: comp_def)
  then show ?thesis
    by (auto simp: info_available_def hook_info_def assms(1) install_wrapper_def hook_attr_def split: option.split)
qed

end
