(* ===== verification/Mod_Reload.thy ===== *)
theory Mod_Reload
  imports Mod_Travel Mod_Installers
begin

text \<open>
  \<^verbatim>\<open>src/sims_mod_src/kermp_mod/reload.py\<close>: reloading the mod inside the game, around the teardown of
  \<open>Mod_Patches\<close> and the \<open>install\<close> of \<open>Mod_Installers\<close>; and the test of \<^verbatim>\<open>lifecycle_guard.py\<close> that decides whether a guest's game may be held.
\<close>

section \<open>When the game must run\<close>

text \<open>
  What the game answers: whether it travels (no service manager, an exception, an answer), whether
  there is a zone, whether there is a client and whether it has an active Sim.
\<close>

record life_signs =
  lf_traveling :: "(py_error + bool) option"
  lf_zone :: "py_error + bool"
  lf_client :: "py_error + bool option"

definition game_lifecycle_bypass :: "life_signs \<Rightarrow> bool" where
  "game_lifecycle_bypass s =
     (case lf_traveling s of
        Some (Inr True) \<Rightarrow> True
      | _ \<Rightarrow>
         (case lf_zone s of
            Inl e \<Rightarrow> True
          | Inr False \<Rightarrow> True
          | Inr True \<Rightarrow>
             (case lf_client s of Inl e \<Rightarrow> True | Inr None \<Rightarrow> True | Inr (Some sim) \<Rightarrow> \<not> sim)))"

text \<open>
  It fails open: the game is held only when every question had an answer that speaks for live play;
  an exception anywhere but in the travel question lets it run.
\<close>

lemma held_only_in_play:
  "\<not> game_lifecycle_bypass s \<longleftrightarrow>
     lf_traveling s \<noteq> Some (Inr True) \<and> lf_zone s = Inr True \<and> lf_client s = Inr (Some True)"
  by (auto simp: game_lifecycle_bypass_def split: option.splits sum.splits bool.splits)

lemma timeline_held_in_play:
  "\<not> snd (timeline_call (g\<lparr>ge_lifecycle := game_lifecycle_bypass s\<rparr>) m) \<longleftrightarrow>
     is_client m \<and> \<not> gm_bypass m \<and> lf_traveling s \<noteq> Some (Inr True) \<and> lf_zone s = Inr True \<and> lf_client s = Inr (Some True)"
  using held_only_in_play [of s] by (auto simp: timeline_call_def Let_def)

section \<open>Reloading\<close>

text \<open>
  The source files there are; what the teardown says besides the attributes it could not restore, and
  its text for one of those; whether the game can reload files; the reload of one file; what the
  installation of the guard and the start of the bridge raise; what \<open>install\<close> then finds in the game.
\<close>

record reload_env =
  rl_file :: "string \<Rightarrow> bool"
  rl_before :: "string list"
  rl_after :: "string list"
  rl_stuck :: "string \<Rightarrow> bool"
  rl_text :: "string \<Rightarrow> string"
  rl_service :: "py_error + bool"
  rl_reload :: "string \<Rightarrow> py_error option"
  rl_guard :: "py_error option"
  rl_start :: "py_error option"
  rl_hooks :: install_env

definition RELOAD_ORDER :: "string list" where
  "RELOAD_ORDER = [''bridge_client'', ''build_adapter'', ''interaction_trace'', ''hooks'', ''lifecycle_guard'', ''commands'']"

text \<open>The errors \<open>hooks.teardown\<close> returns, in its order.\<close>

definition teardown_errors :: "reload_env \<Rightarrow> patch_mod \<Rightarrow> string list" where
  "teardown_errors g m = rl_before g @ map (rl_text g) (snd (teardown (rl_stuck g) m)) @ rl_after g"

fun reload_files :: "reload_env \<Rightarrow> string list \<Rightarrow> string list \<times> bool" where
  "reload_files g [] = ([], True)"
| "reload_files g (n # ns) =
     (case rl_reload g n of
        Some e \<Rightarrow> ([''reload failed '' @ n @ '': '' @ exc_text e], False)
      | None \<Rightarrow> (case reload_files g ns of (ls, ok) \<Rightarrow> ((''reloaded '' @ n) # ls, ok)))"

text \<open>
  \<open>hooks.install\<close> starts the bridge and then runs the installers, which raise nothing; the teardown has
  set \<open>_installed\<close> back.
\<close>

definition reinstall :: "reload_env \<Rightarrow> patch_mod \<Rightarrow> patch_mod \<times> string" where
  "reinstall g m =
     (case rl_guard g of
        Some e \<Rightarrow> (m, ''install failed: '' @ exc_text e)
      | None \<Rightarrow>
         (case rl_start g of
            Some e \<Rightarrow> (m, ''install failed: '' @ exc_text e)
          | None \<Rightarrow> (snd (install_mod (rl_hooks g) (False, m)), ''KerMP reinstalled'')))"

text \<open>The state, the lines printed, the exception that escapes (the import of the reload service).\<close>

definition kermp_reload :: "reload_env \<Rightarrow> patch_mod \<Rightarrow> patch_mod \<times> string list \<times> py_error option" where
  "kermp_reload g m =
     (case find (\<lambda>n. \<not> rl_file g n) RELOAD_ORDER of
        Some n \<Rightarrow> (m, [''dev source missing for '' @ n @ '' (run build.py --dev first)''], None)
      | None \<Rightarrow>
         (let m1 = fst (teardown (rl_stuck g) m); errors = teardown_errors g m in
          if errors \<noteq> [] then
            (m1, map (\<lambda>e. ''teardown error: '' @ e) errors @ [''reload aborted: teardown incomplete''], None)
          else
           (case rl_service g of
              Inl e \<Rightarrow> (m1, [], Some e)
            | Inr False \<Rightarrow> (m1, [''sims4.reload unavailable in this build''], None)
            | Inr True \<Rightarrow>
               (case reload_files g RELOAD_ORDER of
                  (ls, False) \<Rightarrow> (m1, ls, None)
                | (ls, True) \<Rightarrow> (case reinstall g m1 of (m2, l) \<Rightarrow> (m2, ls @ [l], None))))))"

section \<open>What a reload leaves\<close>

text \<open>Nothing is touched unless all sources are there.\<close>

lemma missing_source_untouched:
  assumes "n \<in> set RELOAD_ORDER" and "\<not> rl_file g n"
  shows "fst (kermp_reload g m) = m"
proof -
  have "find (\<lambda>n. \<not> rl_file g n) RELOAD_ORDER \<noteq> None" using assms by (auto simp: find_None_iff)
  then show ?thesis by (auto simp: kermp_reload_def)
qed

lemma reload_files_all: "snd (reload_files g ns) \<longleftrightarrow> (\<forall>n \<in> set ns. rl_reload g n = None)"
  by (induction g ns rule: reload_files.induct) (auto split: option.split prod.split)

text \<open>\<open>KerMP reinstalled\<close> is printed only after every module was reloaded, and then as the last line.\<close>

definition reinstalled :: "reload_env \<Rightarrow> patch_mod \<Rightarrow> bool" where
  "reinstalled g m \<longleftrightarrow> (\<forall>n \<in> set RELOAD_ORDER. rl_file g n \<and> rl_reload g n = None) \<and> teardown_errors g m = [] \<and>
     rl_service g = Inr True \<and> rl_guard g = None \<and> rl_start g = None"

lemma reload_done:
  assumes "reinstalled g m"
  shows "fst (kermp_reload g m) = install_hooks (rl_hooks g) (fst (teardown (rl_stuck g) m))"
    and "last (fst (snd (kermp_reload g m))) = ''KerMP reinstalled''"
proof -
  have f: "find (\<lambda>n. \<not> rl_file g n) RELOAD_ORDER = None" using assms by (simp add: find_None_iff reinstalled_def)
  obtain ls where l: "reload_files g RELOAD_ORDER = (ls, True)"
    using assms reload_files_all [of g RELOAD_ORDER] unfolding reinstalled_def by (metis prod.collapse)
  show "fst (kermp_reload g m) = install_hooks (rl_hooks g) (fst (teardown (rl_stuck g) m))"
    and "last (fst (snd (kermp_reload g m))) = ''KerMP reinstalled''"
    using assms by (simp_all add: kermp_reload_def f l reinstall_def install_mod_def reinstalled_def)
qed

text \<open>
  After a teardown without errors the mod is either installed again by its own installer or not at
  all; the record of what is patched stays exact.
\<close>

lemma clean_reload:
  assumes ok: "patches_ok as0 m" and clean: "teardown_errors g m = []"
  shows "patches_ok as0 (fst (kermp_reload g m))"
proof -
  have none: "snd (teardown (rl_stuck g) m) = []" using clean by (simp add: teardown_errors_def)
  have "patches_ok as0 (fst (teardown (rl_stuck g) m))"
    using teardown_restores_attrs [OF ok, of "rl_stuck g"] none by (simp add: patches_ok_def)
  then show ?thesis using ok clean install_hooks_ok
    by (auto simp: kermp_reload_def reinstall_def install_mod_def Let_def split: option.split sum.split bool.split prod.split)
qed

text \<open>A function the mod hooked before is hooked again, around the game's own.\<close>

lemma reinstalled_attr:
  assumes "patches_ok as0 m" "reinstalled g m"
  shows "map_of (pm_attrs (fst (kermp_reload g m))) k =
    (case map_of (pm_patches (fst (kermp_reload g m))) k of None \<Rightarrow> map_of as0 k | Some i \<Rightarrow> Some (HookFn k i))"
  using clean_reload [OF assms(1)] assms(2) unfolding reinstalled_def patches_ok_def by blast

lemma failed_reload_uninstalls:
  assumes ok: "patches_ok as0 m" and clean: "teardown_errors g m = []"
    and files: "\<forall>n \<in> set RELOAD_ORDER. rl_file g n" and bad: "n \<in> set RELOAD_ORDER" "rl_reload g n \<noteq> None"
  shows "map_of (pm_attrs (fst (kermp_reload g m))) = map_of as0" and "pm_patches (fst (kermp_reload g m)) = []"
proof -
  have f: "find (\<lambda>n. \<not> rl_file g n) RELOAD_ORDER = None" using files by (simp add: find_None_iff)
  obtain ls where l: "reload_files g RELOAD_ORDER = (ls, False)"
    using bad reload_files_all [of g RELOAD_ORDER] by (metis (full_types) prod.collapse)
  have none: "snd (teardown (rl_stuck g) m) = []" using clean by (simp add: teardown_errors_def)
  have r: "fst (kermp_reload g m) = fst (teardown (rl_stuck g) m)"
    using clean by (simp add: kermp_reload_def f l Let_def split: sum.split bool.split)
  show "map_of (pm_attrs (fst (kermp_reload g m))) = map_of as0" and "pm_patches (fst (kermp_reload g m)) = []"
    using teardown_restores_attrs [OF ok, of "rl_stuck g"] none by (auto simp: r)
qed

text \<open>
  An aborted reload cannot be repaired by another one: the list of patches is gone, so the second
  teardown reports success although the game still holds the hook.
\<close>

lemma aborted_reload_forgets:
  assumes "patches_ok as0 m" and "k \<in> set (snd (teardown fails m))"
  shows "snd (teardown fails' (fst (teardown fails m))) = []"
    and "\<exists>i. map_of (pm_attrs (fst (teardown fails' (fst (teardown fails m))))) k = Some (HookFn k i)"
proof -
  have empty: "pm_patches (fst (teardown fails m)) = []" by (rule teardown_restores_attrs(3) [OF assms(1)])
  show "snd (teardown fails' (fst (teardown fails m))) = []"
    using empty by (simp add: teardown_def [of fails'] teardown_commands_def Let_def)
  obtain i where "map_of (pm_patches m) k = Some i"
    using assms(2) by (auto simp: teardown_def teardown_commands_def Let_def dest: weak_map_of_SomeI)
  then have "map_of (pm_attrs m) k = Some (HookFn k i)" using assms(1) by (simp add: patches_ok_def)
  then have "map_of (pm_attrs (fst (teardown fails m))) k = Some (HookFn k i)"
    using teardown_restores_attrs(1) [OF assms(1), of fails k] assms(2) by simp
  then show "\<exists>i. map_of (pm_attrs (fst (teardown fails' (fst (teardown fails m))))) k = Some (HookFn k i)"
    using empty by (simp add: teardown_def [of fails'] teardown_commands_def Let_def)
qed

end
