(* ===== verification/Build_Backend.thy ===== *)
theory Build_Backend
  imports KerMP_Interfaces
begin

text \<open>
  \<^verbatim>\<open>src/kermp/build_backend.py\<close>: the boundary between the transport and the game's build mode. The fake
  backend applies an operation once; the law is the locale \<open>once_only\<close>.
\<close>

record fake_backend =
  fb_applied :: "pydict list"
  fb_authority :: "string option"

definition new_fake_backend :: fake_backend where
  "new_fake_backend = \<lparr>fb_applied = [], fb_authority = None\<rparr>"

text \<open>Dictionaries are compared by value: two of them are equal when their normal forms are.\<close>

definition operation_key :: "pydict \<Rightarrow> pyval" where
  "operation_key op = py_norm (VDict op)"

definition backend_applied :: "pydict \<Rightarrow> fake_backend \<Rightarrow> bool" where
  "backend_applied op b \<longleftrightarrow> list_ex (\<lambda>o1. py_eq (VDict o1) (VDict op)) (fb_applied b)"

definition apply_remote_operation :: "pydict \<Rightarrow> fake_backend \<Rightarrow> fake_backend \<times> bool" where
  "apply_remote_operation op b =
     (if backend_applied op b then b else b\<lparr>fb_applied := fb_applied b @ [op]\<rparr>, True)"

definition set_build_authority :: "string option \<Rightarrow> fake_backend \<Rightarrow> fake_backend" where
  "set_build_authority owner b = b\<lparr>fb_authority := owner\<rparr>"

definition backend_capabilities :: "string set" where
  "backend_capabilities = {''wall.create'', ''wall.delete''}"

lemma backend_applied_key: "backend_applied op b \<longleftrightarrow> operation_key op \<in> operation_key ` set (fb_applied b)"
  unfolding backend_applied_def py_eq_def operation_key_def list_ex_iff image_iff by metis

interpretation backend_once: once_only "\<lambda>b. operation_key ` set (fb_applied b)" operation_key
  "\<lambda>op b. \<not> backend_applied op b" "\<lambda>op b. fst (apply_remote_operation op b)"
  by unfold_locales (auto simp: backend_applied_key apply_remote_operation_def)

text \<open>
  However often operations arrive, each is in the list once, in the order of its first arrival, and the
  call always reports success.
\<close>

lemma applied_once:
  "fb_applied (fold (\<lambda>op b. fst (apply_remote_operation op b)) ops b) = fb_applied b @ backend_once.accepted ops b"
proof (induction ops arbitrary: b)
  case (Cons op ops)
  show ?case by (simp add: Cons.IH) (simp add: apply_remote_operation_def)
qed simp

lemma backend_operations_distinct:
  "distinct (map operation_key (fb_applied (fold (\<lambda>op b. fst (apply_remote_operation op b)) ops new_fake_backend)))"
  using backend_once.distinct_accepted by (simp add: applied_once new_fake_backend_def)

lemma backend_covers:
  "op \<in> set ops \<Longrightarrow> backend_applied op (fold (\<lambda>op b. fst (apply_remote_operation op b)) ops b)"
proof (induction ops arbitrary: b)
  case (Cons o1 ops)
  have "backend_applied op b \<Longrightarrow> backend_applied op (fold (\<lambda>op b. fst (apply_remote_operation op b)) os b)" for os b
    unfolding applied_once backend_applied_key by auto
  moreover have "backend_applied o1 (fst (apply_remote_operation o1 b))" for b
    by (simp add: apply_remote_operation_def backend_applied_def)
  ultimately show ?case using Cons by auto
qed simp

end
