(* ===== verification/Trace_Context.thy ===== *)
theory Trace_Context
  imports Mod_Trace Mod_Environment
begin

text \<open>
  What the tracer notes beside a call (\<open>_runtime_context\<close> and \<open>_sim_id\<close> of
  \<^verbatim>\<open>interaction_trace.py\<close>): the connection, its client, that client's active Sim and its menu. Nothing here
  may raise: every failure leaves the fields that are not known yet empty.
\<close>

section \<open>The id of a Sim\<close>

fun first_id :: "gval list \<Rightarrow> string option" where
  "first_id [] = None"
| "first_id (v # vs) =
     (if v = GNone then first_id vs
      else case gint v of None \<Rightarrow> first_id vs | Some i \<Rightarrow> Some (int_str i))"

definition trace_sim_id :: "gval \<Rightarrow> string option" where
  "trace_sim_id sim =
     (if sim = GNone then None
      else let info = gattr sim ''sim_info'' in
        first_id [gattr info ''sim_id'', gattr info ''id'', gattr sim ''sim_id'', gattr sim ''id''])"

section \<open>The context of a call\<close>

text \<open>
  The client manager, if it can be reached, with its lookup; the first client; the length of a menu.
\<close>

record trace_env =
  te_manager :: "(gval \<Rightarrow> py_error + gval) option"
  te_first :: "py_error + gval"
  te_len :: "gval \<Rightarrow> int option"
  te_role :: pyval

record trace_context =
  cx_role :: string
  cx_connection :: gval
  cx_client :: gval
  cx_sim :: "string option"
  cx_revision :: gval
  cx_count :: "int option"

fun is_game_int :: "gval \<Rightarrow> bool" where
  "is_game_int (GInt i) = True"
| "is_game_int (GBool b) = True"
| "is_game_int v = False"

definition context_candidates :: "gval \<Rightarrow> gval list \<Rightarrow> gval list" where
  "context_candidates connection args =
     filter (\<lambda>v. v \<noteq> GNone)
       (connection # (if args = [] then [] else [gattr (hd args) ''id'', if is_game_int (last args) then last args else GNone]))"

text \<open>The first candidate the manager knows, with its client; nothing when the lookup raises.\<close>

fun known_client :: "(gval \<Rightarrow> py_error + gval) \<Rightarrow> gval list \<Rightarrow> py_error + (gval \<times> gval) option" where
  "known_client lookup [] = Inr None"
| "known_client lookup (v # vs) =
     (case lookup v of
        Inl e \<Rightarrow> Inl e
      | Inr c \<Rightarrow> if c = GNone then known_client lookup vs else Inr (Some (v, c)))"

definition client_context :: "trace_env \<Rightarrow> gval \<Rightarrow> gval \<Rightarrow> trace_context \<Rightarrow> trace_context" where
  "client_context g connection client t =
     (let menu = gattr client ''choice_menu'' in
      t\<lparr>cx_connection := connection, cx_client := gattr client ''id'', cx_sim := trace_sim_id (gattr client ''active_sim''),
        cx_revision := gattr menu ''revision'', cx_count := (if menu = GNone then Some 0 else te_len g menu)\<rparr>)"

definition runtime_context :: "trace_env \<Rightarrow> gval \<Rightarrow> gval list \<Rightarrow> trace_context" where
  "runtime_context g connection args =
     (let t = \<lparr>cx_role = py_str (py_or (te_role g) (VStr ''unknown'')), cx_connection = connection, cx_client = GNone,
               cx_sim = None, cx_revision = GNone, cx_count = None\<rparr> in
      case te_manager g of
        None \<Rightarrow> t
      | Some lookup \<Rightarrow>
         (case known_client lookup (context_candidates connection args) of
            Inl e \<Rightarrow> t
          | Inr (Some (v, c)) \<Rightarrow> client_context g v c t
          | Inr None \<Rightarrow> (case te_first g of Inl e \<Rightarrow> t | Inr c \<Rightarrow> client_context g connection c t)))"

lemma known_client_known:
  "known_client lookup vs = Inr (Some (v, c)) \<Longrightarrow> v \<in> set vs \<and> lookup v = Inr c \<and> c \<noteq> GNone"
  by (induction lookup vs rule: known_client.induct) (auto split: sum.splits if_splits)

text \<open>
  When the manager knows one of the candidates, connection, client and Sim of the event are of the same
  client, and the connection is one the call itself named.
\<close>

lemma context_consistent:
  assumes "te_manager g = Some lookup" and "known_client lookup (context_candidates connection args) = Inr (Some (v, c))"
  shows "cx_connection (runtime_context g connection args) = v" and "v \<in> set (context_candidates connection args)"
    and "lookup v = Inr c" and "cx_client (runtime_context g connection args) = gattr c ''id''"
    and "cx_sim (runtime_context g connection args) = trace_sim_id (gattr c ''active_sim'')"
  using known_client_known [OF assms(2)] assms by (simp_all add: runtime_context_def client_context_def Let_def)

text \<open>
  A call on a connection the manager does not know is noted with that connection, but with the first
  client, its Sim and its menu.
\<close>

lemma unknown_connection_misattributed:
  assumes "te_manager g = Some lookup" and "\<And>v. lookup v = Inr GNone" and "te_first g = Inr c"
  shows "cx_connection (runtime_context g connection args) = connection"
    and "cx_client (runtime_context g connection args) = gattr c ''id''"
proof -
  have "known_client lookup vs = Inr None" for vs by (induction vs) (simp_all add: assms(2))
  then show "cx_connection (runtime_context g connection args) = connection"
    and "cx_client (runtime_context g connection args) = gattr c ''id''"
    using assms by (simp_all add: runtime_context_def client_context_def Let_def)
qed

text \<open>The id is read from the description of the Sim when it has one, and is the text of a number.\<close>

lemma sim_id_of_info:
  assumes "gattr sim ''sim_info'' = info" and "gattr info ''sim_id'' = v" and "v \<noteq> GNone" and "gint v = Some i" and "sim \<noteq> GNone"
  shows "trace_sim_id sim = Some (int_str i)"
  using assms by (simp add: trace_sim_id_def Let_def)

lemma sim_id_number: "trace_sim_id sim = Some s \<Longrightarrow> \<exists>i. s = int_str i"
proof -
  have "first_id vs = Some s \<Longrightarrow> \<exists>i. s = int_str i" for vs
    by (induction vs) (auto split: if_splits option.splits)
  then show "trace_sim_id sim = Some s \<Longrightarrow> \<exists>i. s = int_str i" by (auto simp: trace_sim_id_def Let_def simp del: first_id.simps split: if_splits)
qed

end
