(* ===== verification/Net_Tasks.thy ===== *)
theory Net_Tasks
  imports Host_Runtime Client_Runtime
begin

text \<open>
  The broadcasts of \<^verbatim>\<open>src/kermp/net.py\<close> at their \<open>await\<close> points. \<open>Net\<close> runs a handler in one
  piece; here every pass of the loop over \<open>self.peers\<close> is a step of its own, and between two steps
  other tasks of the event loop run: further broadcasts, connections that join or leave, handlers.
  A broadcast that is left alone does what \<open>Net.broadcast\<close> says; one that is not may be overtaken,
  or raise because the dictionary it walks through has changed. At the end: starting and closing
  the server.
\<close>

section \<open>Tasks\<close>

text \<open>
  The suspended call: its envelope, how many peers the iterator saw, its position, the dead so far,
  and where the call is. \<open>ta_keys\<close> (the peers at its start), \<open>ta_changes\<close> and \<open>ta_clean\<close> (no peer
  joined or left up to the end of the loop) only describe it.
\<close>

datatype phase = Visiting | Dropping "string list" | Finished | Raised py_error

record task =
  ta_msg :: msg
  ta_size :: nat
  ta_left :: "string list"
  ta_dead :: "string list"
  ta_phase :: phase
  ta_keys :: "string list"
  ta_changes :: nat
  ta_clean :: bool

text \<open>The host, how often its \<open>peers\<close> gained or lost a key, and its broadcasts, oldest first.\<close>

record loop_state =
  lo_host :: host
  lo_changes :: nat
  lo_tasks :: "task list"

definition peer_keys :: "host \<Rightarrow> string list" where
  "peer_keys h = map fst (h_peers h)"

definition put_task :: "nat \<Rightarrow> task \<Rightarrow> loop_state \<Rightarrow> loop_state" where
  "put_task i t n = n\<lparr>lo_tasks := (lo_tasks n)[i := t]\<rparr>"

definition put_host :: "host \<Rightarrow> loop_state \<Rightarrow> loop_state" where
  "put_host h n = n\<lparr>lo_host := h, lo_changes := (if peer_keys h = peer_keys (lo_host n) then lo_changes n
     else lo_changes n + 1)\<rparr>"

text \<open>The beginning: the number is taken, the iterator made.\<close>

definition new_task :: "string \<Rightarrow> pydict \<Rightarrow> loop_state \<Rightarrow> task" where
  "new_task ty payload n =
     \<lparr>ta_msg = \<lparr>ms_type = ty, ms_payload = payload, ms_seq = Some (h_seq (lo_host n) + 1)\<rparr>,
      ta_size = length (h_peers (lo_host n)), ta_left = peer_keys (lo_host n), ta_dead = [], ta_phase = Visiting,
      ta_keys = peer_keys (lo_host n), ta_changes = lo_changes n, ta_clean = False\<rparr>"

definition begin_broadcast :: "string \<Rightarrow> pydict \<Rightarrow> loop_state \<Rightarrow> loop_state" where
  "begin_broadcast ty payload n =
     n\<lparr>lo_host := (lo_host n)\<lparr>h_seq := h_seq (lo_host n) + 1\<rparr>, lo_tasks := lo_tasks n @ [new_task ty payload n]\<rparr>"

text \<open>One pass: the write and its \<open>drain\<close>, which succeed or raise an \<open>OSError\<close>.\<close>

definition visit :: "bool \<Rightarrow> string \<Rightarrow> string list \<Rightarrow> nat \<Rightarrow> task \<Rightarrow> loop_state \<Rightarrow> loop_state" where
  "visit up pid rest i t n =
     (if up then put_host (emit (ToPeer pid (ta_msg t)) (lo_host n)) (put_task i (t\<lparr>ta_left := rest\<rparr>) n)
      else put_task i (t\<lparr>ta_left := rest, ta_dead := ta_dead t @ [pid]\<rparr>) n)"

text \<open>
  What the iterator does when it is asked again. An untouched dictionary gives its keys in order;
  one of another size raises; one that lost a key and gained one may do either, or stop.
\<close>

definition untouched :: "loop_state \<Rightarrow> task \<Rightarrow> bool" where
  "untouched n t \<longleftrightarrow> lo_changes n = ta_changes t"

definition resized :: "loop_state \<Rightarrow> task \<Rightarrow> bool" where
  "resized n t \<longleftrightarrow> length (h_peers (lo_host n)) \<noteq> ta_size t"

inductive next_peer :: "loop_state \<Rightarrow> task \<Rightarrow> string \<Rightarrow> string list \<Rightarrow> bool" where
  in_order: "untouched n t \<Longrightarrow> ta_left t = pid # rest \<Longrightarrow> next_peer n t pid rest"
| replaced: "\<not> untouched n t \<Longrightarrow> \<not> resized n t \<Longrightarrow> pid \<in> set (peer_keys (lo_host n)) \<Longrightarrow> next_peer n t pid rest"

inductive no_more_peers :: "loop_state \<Rightarrow> task \<Rightarrow> bool" where
  exhausted: "untouched n t \<Longrightarrow> ta_left t = [] \<Longrightarrow> no_more_peers n t"
| cut_short: "\<not> untouched n t \<Longrightarrow> \<not> resized n t \<Longrightarrow> no_more_peers n t"

inductive iteration_error :: "loop_state \<Rightarrow> task \<Rightarrow> py_error \<Rightarrow> bool" where
  size_error: "resized n t \<Longrightarrow> iteration_error n t (RuntimeError ''dictionary changed size during iteration'')"
| keys_error: "\<not> untouched n t \<Longrightarrow> \<not> resized n t \<Longrightarrow>
    iteration_error n t (RuntimeError ''dictionary keys changed during iteration'')"

text \<open>A step of broadcast \<open>i\<close>; \<open>up\<close> tells which connections accept a write.\<close>

inductive task_step :: "(string \<Rightarrow> bool) \<Rightarrow> nat \<Rightarrow> loop_state \<Rightarrow> loop_state \<Rightarrow> bool" for up i where
  written: "i < length (lo_tasks n) \<Longrightarrow> t = lo_tasks n ! i \<Longrightarrow> ta_phase t = Visiting \<Longrightarrow> next_peer n t pid rest \<Longrightarrow>
    task_step up i n (visit (up pid) pid rest i t n)"
| loop_end: "i < length (lo_tasks n) \<Longrightarrow> t = lo_tasks n ! i \<Longrightarrow> ta_phase t = Visiting \<Longrightarrow> no_more_peers n t \<Longrightarrow>
    task_step up i n (put_task i (t\<lparr>ta_phase := Dropping (ta_dead t), ta_clean := untouched n t\<rparr>) n)"
| escape: "i < length (lo_tasks n) \<Longrightarrow> t = lo_tasks n ! i \<Longrightarrow> ta_phase t = Visiting \<Longrightarrow> iteration_error n t e \<Longrightarrow>
    task_step up i n (put_task i (t\<lparr>ta_phase := Raised e\<rparr>) n)"
| drop_one: "i < length (lo_tasks n) \<Longrightarrow> t = lo_tasks n ! i \<Longrightarrow> ta_phase t = Dropping (pid # rest) \<Longrightarrow>
    task_step up i n (put_host (drop_peer pid (lo_host n)) (put_task i (t\<lparr>ta_phase := Dropping rest\<rparr>) n))"
| returned: "i < length (lo_tasks n) \<Longrightarrow> t = lo_tasks n ! i \<Longrightarrow> ta_phase t = Dropping [] \<Longrightarrow>
    task_step up i n (put_task i (t\<lparr>ta_phase := Finished\<rparr>) n)"

inductive_cases task_stepE: "task_step up i n n'"

definition idle_loop :: "host \<Rightarrow> loop_state" where
  "idle_loop h = \<lparr>lo_host = h, lo_changes = 0, lo_tasks = []\<rparr>"

section \<open>A broadcast that is left alone\<close>

text \<open>What task \<open>t\<close> has still to do to a host nobody else touches, and a bound on its steps.\<close>

definition pending :: "(string \<Rightarrow> bool) \<Rightarrow> task \<Rightarrow> host \<Rightarrow> host" where
  "pending up t h =
     (case ta_phase t of
        Visiting \<Rightarrow> fold drop_peer (ta_dead t @ filter (\<lambda>p. \<not> up p) (ta_left t))
          (h\<lparr>h_log := h_log h @ map (\<lambda>p. ToPeer p (ta_msg t)) (filter up (ta_left t))\<rparr>)
      | Dropping ps \<Rightarrow> fold drop_peer ps h
      | _ \<Rightarrow> h)"

definition steps_left :: "task \<Rightarrow> nat" where
  "steps_left t =
     (case ta_phase t of
        Visiting \<Rightarrow> 2 * length (ta_left t) + length (ta_dead t) + 2
      | Dropping ps \<Rightarrow> length ps + 1
      | _ \<Rightarrow> 0)"

definition undisturbed :: "loop_state \<Rightarrow> nat \<Rightarrow> bool" where
  "undisturbed n i \<longleftrightarrow> i < length (lo_tasks n) \<and> (\<forall>e. ta_phase (lo_tasks n ! i) \<noteq> Raised e) \<and>
     (ta_phase (lo_tasks n ! i) = Visiting \<longrightarrow>
        untouched n (lo_tasks n ! i) \<and> \<not> resized n (lo_tasks n ! i))"

lemma put_simps [simp]:
  "lo_host (put_task i t n) = lo_host n" "lo_changes (put_task i t n) = lo_changes n"
  "lo_tasks (put_task i t n) = (lo_tasks n)[i := t]"
  "lo_host (put_host h n) = h" "lo_tasks (put_host h n) = lo_tasks n"
  by (simp_all add: put_task_def put_host_def)

lemma put_host_changes:
  "lo_changes (put_host h n) = (if peer_keys h = peer_keys (lo_host n) then lo_changes n else lo_changes n + 1)"
  by (simp add: put_host_def)

lemma peer_keys_simps [simp]:
  "peer_keys (emit out h) = peer_keys h" "peer_keys (put_session s h) = peer_keys h"
  "peer_keys (h\<lparr>h_log := l\<rparr>) = peer_keys h" "peer_keys (h\<lparr>h_seq := q\<rparr>) = peer_keys h"
  by (simp_all add: peer_keys_def)

lemma resized_keys: "resized n t \<longleftrightarrow> length (peer_keys (lo_host n)) \<noteq> ta_size t"
  by (simp add: resized_def peer_keys_def)

lemma untouched_put_task [simp]:
  "untouched (put_task i t n) t' = untouched n t'" "resized (put_task i t n) t' = resized n t'"
  "untouched (n\<lparr>lo_tasks := ts\<rparr>) t' = untouched n t'" "resized (n\<lparr>lo_tasks := ts\<rparr>) t' = resized n t'"
  by (simp_all add: untouched_def resized_def)

lemma untouched_task [simp]:
  "untouched n (t\<lparr>ta_left := l\<rparr>) = untouched n t" "untouched n (t\<lparr>ta_dead := d\<rparr>) = untouched n t"
  "resized n (t\<lparr>ta_left := l\<rparr>) = resized n t" "resized n (t\<lparr>ta_dead := d\<rparr>) = resized n t"
  by (simp_all add: untouched_def resized_def)

lemma untouched_same_keys:
  "peer_keys h = peer_keys (lo_host n) \<Longrightarrow> untouched (put_host h n) t = untouched n t"
  "peer_keys h = peer_keys (lo_host n) \<Longrightarrow> resized (put_host h n) t = resized n t"
  by (simp_all add: untouched_def resized_keys put_host_changes)

lemma visit_frame [simp]:
  "untouched (visit b pid rest i t n) t' = untouched n t'" "resized (visit b pid rest i t n) t' = resized n t'"
  "length (lo_tasks (visit b pid rest i t n)) = length (lo_tasks n)"
  by (simp_all add: visit_def untouched_same_keys)

lemma pending_step:
  assumes "task_step up i n n'" "undisturbed n i"
  shows "undisturbed n' i \<and> steps_left (lo_tasks n' ! i) < steps_left (lo_tasks n ! i) \<and>
    pending up (lo_tasks n' ! i) (lo_host n') = pending up (lo_tasks n ! i) (lo_host n)"
  using assms(1)
proof cases
  case (written t pid rest)
  then have "ta_left t = pid # rest" using assms(2) by (auto simp: undisturbed_def elim: next_peer.cases)
  then show ?thesis using written assms(2)
    by (auto simp: visit_def undisturbed_def pending_def steps_left_def emit_def untouched_same_keys)
next
  case (loop_end t)
  then have "ta_left t = []" using assms(2) by (auto simp: undisturbed_def elim: no_more_peers.cases)
  then show ?thesis using loop_end assms(2) by (simp add: undisturbed_def pending_def steps_left_def)
next
  case (escape t e)
  then show ?thesis using assms(2) by (auto simp: undisturbed_def elim: iteration_error.cases)
qed (use assms(2) in \<open>auto simp: undisturbed_def pending_def steps_left_def\<close>)

lemma task_progress:
  assumes "undisturbed n i" "ta_phase (lo_tasks n ! i) \<noteq> Finished"
  shows "\<exists>n'. task_step up i n n'"
proof (cases "ta_phase (lo_tasks n ! i)")
  case Visiting
  show ?thesis
  proof (cases "ta_left (lo_tasks n ! i)")
    case Nil
    then show ?thesis using Visiting assms(1) by (blast intro: loop_end exhausted dest: undisturbed_def [THEN iffD1])
  next
    case (Cons pid rest)
    then show ?thesis using Visiting assms(1) by (blast intro: written in_order dest: undisturbed_def [THEN iffD1])
  qed
next
  case (Dropping ps)
  then show ?thesis using assms(1) by (cases ps) (auto simp: undisturbed_def intro: drop_one returned)
qed (use assms in \<open>auto simp: undisturbed_def\<close>)

lemma pending_steps:
  "(task_step up i)\<^sup>*\<^sup>* n n' \<Longrightarrow> undisturbed n i \<Longrightarrow>
     undisturbed n' i \<and> pending up (lo_tasks n' ! i) (lo_host n') = pending up (lo_tasks n ! i) (lo_host n)"
proof (induction rule: rtranclp_induct)
  case (step m m')
  then show ?case using pending_step [OF step.hyps(2)] by presburger
qed simp

lemma task_terminates:
  "undisturbed n i \<Longrightarrow> \<exists>n'. (task_step up i)\<^sup>*\<^sup>* n n' \<and> ta_phase (lo_tasks n' ! i) = Finished"
proof (induction "steps_left (lo_tasks n ! i)" arbitrary: n rule: less_induct)
  case less
  show ?case
  proof (cases "ta_phase (lo_tasks n ! i) = Finished")
    case False
    then obtain n1 where s: "task_step up i n n1" using task_progress less.prems by blast
    then show ?thesis
      using pending_step [OF s less.prems] less.hyps [of n1] converse_rtranclp_into_rtranclp
      by (metis (no_types, lifting))
  qed blast
qed

lemma begin_undisturbed: "undisturbed (begin_broadcast ty payload n) (length (lo_tasks n))"
  by (simp add: undisturbed_def begin_broadcast_def new_task_def untouched_def resized_def peer_keys_def)

lemma begin_pending:
  "pending (ev_up ev) (new_task ty payload n) (lo_host (begin_broadcast ty payload n)) =
     broadcast ev ty payload (lo_host n)"
  by (simp add: pending_def new_task_def begin_broadcast_def broadcast_def broadcast_log_def dead_peers_def
      peer_keys_def filter_map comp_def Let_def)

text \<open>
  Left alone, a broadcast returns from wherever it stands, and when it has returned the host is the
  one \<open>Net.broadcast\<close> computes.
\<close>

lemma broadcast_alone_lemma:
  assumes "(task_step (ev_up ev) (length (lo_tasks n)))\<^sup>*\<^sup>* (begin_broadcast ty payload n) n'"
  shows "\<exists>n2. (task_step (ev_up ev) (length (lo_tasks n)))\<^sup>*\<^sup>* n' n2 \<and>
      ta_phase (lo_tasks n2 ! length (lo_tasks n)) = Finished \<and> lo_host n2 = broadcast ev ty payload (lo_host n)"
    and "ta_phase (lo_tasks n' ! length (lo_tasks n)) = Finished \<Longrightarrow> lo_host n' = broadcast ev ty payload (lo_host n)"
proof -
  let ?i = "length (lo_tasks n)"
  have eq: "undisturbed m ?i \<and> pending (ev_up ev) (lo_tasks m ! ?i) (lo_host m) = broadcast ev ty payload (lo_host n)"
    if "(task_step (ev_up ev) ?i)\<^sup>*\<^sup>* (begin_broadcast ty payload n) m" for m
    using pending_steps [OF that begin_undisturbed] begin_pending [of ev ty payload n]
    by (simp add: begin_broadcast_def)
  have fin: "lo_host m = broadcast ev ty payload (lo_host n)"
    if "(task_step (ev_up ev) ?i)\<^sup>*\<^sup>* (begin_broadcast ty payload n) m" "ta_phase (lo_tasks m ! ?i) = Finished" for m
    using eq [OF that(1)] that(2) by (simp add: pending_def)
  obtain n2 where "(task_step (ev_up ev) ?i)\<^sup>*\<^sup>* n' n2" "ta_phase (lo_tasks n2 ! ?i) = Finished"
    using task_terminates eq [OF assms] by blast
  then show "\<exists>n2. (task_step (ev_up ev) ?i)\<^sup>*\<^sup>* n' n2 \<and> ta_phase (lo_tasks n2 ! ?i) = Finished \<and>
      lo_host n2 = broadcast ev ty payload (lo_host n)"
    using fin assms by (meson rtranclp_trans)
  show "ta_phase (lo_tasks n' ! ?i) = Finished \<Longrightarrow> lo_host n' = broadcast ev ty payload (lo_host n)"
    using fin assms by blast
qed

section \<open>Broadcasts among the other tasks\<close>

text \<open>Who got a given envelope, in the order of the writes.\<close>

definition line_takers :: "msg \<Rightarrow> host_output list \<Rightarrow> string list" where
  "line_takers m os = List.map_filter (\<lambda>out. case out of ToPeer p m' \<Rightarrow> if m' = m then Some p else None | _ \<Rightarrow> None) os"

lemma line_takers_simps [simp]:
  "line_takers m [] = []" "line_takers m (a @ b) = line_takers m a @ line_takers m b"
  "line_takers m [ToPeer p m'] = (if m' = m then [p] else [])"
  "line_takers m [Closed p] = []"
  by (simp_all add: line_takers_def map_filter_def)

lemma line_takers_none: "\<forall>out \<in> set os. \<forall>p. out \<noteq> ToPeer p m \<Longrightarrow> line_takers m os = []"
  by (auto simp: line_takers_def map_filter_def filter_empty_conv split: host_output.splits)

text \<open>
  What is known of a task: its number is one the host has given, no snapshot has its envelope's type;
  in the loop over an untouched dictionary the peers passed are those that got the line and those
  found dead; after a clean loop these are all it started with.
\<close>

definition halfway :: "host_output list \<Rightarrow> task \<Rightarrow> bool" where
  "halfway os t \<longleftrightarrow> (\<exists>passed. ta_keys t = passed @ ta_left t \<and> set (ta_dead t) \<subseteq> set passed \<and>
     line_takers (ta_msg t) os = filter (\<lambda>p. p \<notin> set (ta_dead t)) passed)"

definition delivered :: "host_output list \<Rightarrow> task \<Rightarrow> bool" where
  "delivered os t \<longleftrightarrow> set (ta_dead t) \<subseteq> set (ta_keys t) \<and>
     line_takers (ta_msg t) os = filter (\<lambda>p. p \<notin> set (ta_dead t)) (ta_keys t)"

definition task_ok :: "loop_state \<Rightarrow> task \<Rightarrow> bool" where
  "task_ok n t \<longleftrightarrow> (\<exists>q. ms_seq (ta_msg t) = Some q \<and> q \<le> h_seq (lo_host n)) \<and>
     ms_type (ta_msg t) \<noteq> mt_value MT_SNAPSHOT \<and> distinct (ta_keys t) \<and> ta_changes t \<le> lo_changes n \<and>
     ta_size t = length (ta_keys t) \<and>
     (untouched n t \<longrightarrow> peer_keys (lo_host n) = ta_keys t) \<and>
     (untouched n t \<and> ta_phase t = Visiting \<longrightarrow> halfway (h_log (lo_host n)) t) \<and>
     (ta_clean t \<longrightarrow> ta_phase t \<noteq> Visiting \<and> delivered (h_log (lo_host n)) t)"

definition loop_ok :: "loop_state \<Rightarrow> bool" where
  "loop_ok n \<longleftrightarrow> host_ok (lo_host n) \<and> distinct (map (ms_seq \<circ> ta_msg) (lo_tasks n)) \<and>
     (\<forall>t \<in> set (lo_tasks n). task_ok n t)"

text \<open>What a step of another task may do to the host.\<close>

definition host_moves :: "task list \<Rightarrow> loop_state \<Rightarrow> loop_state \<Rightarrow> bool" where
  "host_moves ts n n' \<longleftrightarrow> host_ok (lo_host n') \<and> h_seq (lo_host n) \<le> h_seq (lo_host n') \<and>
     lo_changes n \<le> lo_changes n' \<and>
     (lo_changes n' = lo_changes n \<longrightarrow> peer_keys (lo_host n') = peer_keys (lo_host n)) \<and>
     (\<forall>t \<in> set ts. line_takers (ta_msg t) (h_log (lo_host n')) = line_takers (ta_msg t) (h_log (lo_host n)))"

lemma task_ok_moves:
  assumes "host_moves ts n n'" "t \<in> set ts" "task_ok n t"
  shows "task_ok n' t"
proof -
  have r: "line_takers (ta_msg t) (h_log (lo_host n')) = line_takers (ta_msg t) (h_log (lo_host n))"
    using assms unfolding host_moves_def by blast
  have h: "halfway (h_log (lo_host n')) t = halfway (h_log (lo_host n)) t"
    "delivered (h_log (lo_host n')) t = delivered (h_log (lo_host n)) t"
    by (simp_all add: halfway_def delivered_def r)
  have "untouched n' t \<Longrightarrow> untouched n t" and u: "lo_changes n' = lo_changes n" if "untouched n' t"
    using assms that by (auto simp: untouched_def host_moves_def task_ok_def)
  then have k: "untouched n' t \<longrightarrow> untouched n t \<and> peer_keys (lo_host n') = peer_keys (lo_host n)"
    using assms(1) unfolding host_moves_def by blast
  obtain q where "ms_seq (ta_msg t) = Some q" "q \<le> h_seq (lo_host n)" using assms(3) by (auto simp: task_ok_def)
  moreover have "h_seq (lo_host n) \<le> h_seq (lo_host n')" "lo_changes n \<le> lo_changes n'"
    using assms(1) by (simp_all add: host_moves_def)
  ultimately show ?thesis using assms(3) k unfolding task_ok_def h by (metis order_trans)
qed

lemma loop_ok_moves:
  assumes "host_moves (lo_tasks n) n n'" "lo_tasks n' = lo_tasks n" "loop_ok n"
  shows "loop_ok n'"
  using assms task_ok_moves [OF assms(1)] by (simp add: loop_ok_def host_moves_def)

text \<open>An update of the host whose new lines none of the tasks wrote.\<close>

lemma host_moves_put:
  assumes "host_ok h'" "h_seq h' = h_seq (lo_host n)" "h_log h' = h_log (lo_host n) @ xs"
    "\<forall>t \<in> set ts. \<forall>out \<in> set xs. \<forall>p. out \<noteq> ToPeer p (ta_msg t)"
  shows "host_moves ts n (put_host h' n)"
proof -
  have "line_takers (ta_msg t) xs = []" if "t \<in> set ts" for t using assms(4) that by (intro line_takers_none) blast
  then show ?thesis using assms(1-3) by (simp add: host_moves_def put_host_changes)
qed

lemma drop_peer_moves: "host_ok (lo_host n) \<Longrightarrow> host_moves ts n (put_host (drop_peer pid (lo_host n)) n)"
proof -
  assume "host_ok (lo_host n)"
  moreover obtain xs where "h_log (drop_peer pid (lo_host n)) = h_log (lo_host n) @ xs" "set xs \<subseteq> {Closed pid}"
    using drop_peer_output by blast
  moreover have "h_seq (drop_peer pid (lo_host n)) = h_seq (lo_host n)" by (simp add: drop_peer_def Let_def)
  ultimately show ?thesis by (intro host_moves_put [of _ _ xs]) auto
qed

text \<open>A step of one task: the other tasks see a move of the host.\<close>

definition others :: "nat \<Rightarrow> task list \<Rightarrow> task list" where
  "others i ts = take i ts @ drop (Suc i) ts"

lemma loop_ok_task:
  assumes "loop_ok n" "i < length (lo_tasks n)" "host_moves (others i (lo_tasks n)) n n'"
    "lo_tasks n' = (lo_tasks n)[i := t']" "ta_msg t' = ta_msg (lo_tasks n ! i)" "task_ok n' t'"
  shows "loop_ok n'"
proof -
  have "map (ms_seq \<circ> ta_msg) (lo_tasks n') = map (ms_seq \<circ> ta_msg) (lo_tasks n)"
    using assms(2,5) by (simp add: assms(4) map_update) (simp add: list_update_same_conv)
  moreover have "set (lo_tasks n') = insert t' (set (others i (lo_tasks n)))"
    using assms(2) by (simp add: assms(4) upd_conv_take_nth_drop others_def)
  moreover have "set (others i (lo_tasks n)) \<subseteq> set (lo_tasks n)"
    by (auto simp: others_def dest: in_set_takeD in_set_dropD)
  ultimately show ?thesis
    using assms(1,3,6) task_ok_moves [OF assms(3)] unfolding loop_ok_def host_moves_def
    by (metis (no_types, lifting) insert_iff subsetD)
qed

lemma others_distinct:
  assumes "distinct (map f ts)" "i < length ts" "x \<in> set (others i ts)"
  shows "f x \<noteq> f (ts ! i)"
proof -
  have "\<exists>j < length ts. j \<noteq> i \<and> x = ts ! j"
  proof (cases "x \<in> set (take i ts)")
    case True
    then obtain j where "j < i" "x = ts ! j" using assms(2) by (auto simp: in_set_conv_nth)
    then show ?thesis using assms(2) by (intro exI [of _ j]) simp
  next
    case False
    then have "x \<in> set (drop (Suc i) ts)" using assms(3) by (simp add: others_def)
    then obtain k where "k < length ts - Suc i" "x = ts ! (Suc i + k)" by (auto simp: in_set_conv_nth)
    then show ?thesis by (intro exI [of _ "Suc i + k"]) simp
  qed
  then obtain j where "j < length ts" "j \<noteq> i" "x = ts ! j" by blast
  then show ?thesis using assms(1,2) by (auto simp: distinct_conv_nth)
qed

lemma others_msg:
  assumes "loop_ok n" "i < length (lo_tasks n)" "t \<in> set (others i (lo_tasks n))"
  shows "ta_msg t \<noteq> ta_msg (lo_tasks n ! i)"
  using others_distinct [of "ms_seq \<circ> ta_msg"] assms by (fastforce simp: loop_ok_def)

lemma untouched_phase [simp]:
  "untouched n (t\<lparr>ta_phase := p\<rparr>) = untouched n t" "untouched n (t\<lparr>ta_clean := b\<rparr>) = untouched n t"
  "delivered os (t\<lparr>ta_phase := p\<rparr>) = delivered os t" "delivered os (t\<lparr>ta_clean := b\<rparr>) = delivered os t"
  by (simp_all add: untouched_def delivered_def)

lemma task_ok_phase:
  "task_ok n t \<Longrightarrow> ta_phase t \<noteq> Visiting \<Longrightarrow> p \<noteq> Visiting \<Longrightarrow> task_ok n (t\<lparr>ta_phase := p\<rparr>)"
  "task_ok n t \<Longrightarrow> ta_phase t = Visiting \<Longrightarrow> task_ok n (t\<lparr>ta_phase := Raised e\<rparr>)"
  by (auto simp: task_ok_def untouched_def delivered_def)

lemma host_moves_refl: "host_ok (lo_host n) \<Longrightarrow> host_moves ts n (put_task i t n)"
  by (simp add: host_moves_def)

lemma host_moves_put_task:
  "host_moves ts n (put_host h (put_task i t n)) \<longleftrightarrow> host_moves ts n (put_host h n)"
  by (simp add: host_moves_def put_host_changes)

lemma task_ok_put_task: "task_ok (put_task i t n) t' = task_ok n t'"
  by (simp add: task_ok_def)

lemma visit_ok:
  assumes n: "loop_ok n" "i < length (lo_tasks n)" and t: "t = lo_tasks n ! i"
    and v: "ta_phase t = Visiting" "next_peer n t pid rest"
  shows "loop_ok (visit up pid rest i t n)"
proof -
  have tn: "task_ok n t" "host_ok (lo_host n)" using n t by (simp_all add: loop_ok_def)
  then obtain q where q: "ms_seq (ta_msg t) = Some q" "q \<le> h_seq (lo_host n)" by (auto simp: task_ok_def)
  have clean: "\<not> ta_clean t" using tn(1) v(1) by (auto simp: task_ok_def)
  have half: "halfway (h_log (lo_host n)) t" and left: "ta_left t = pid # rest" and d: "distinct (ta_keys t)"
    if "untouched n t"
    using that tn(1) v by (auto simp: task_ok_def elim: next_peer.cases)
  show ?thesis
  proof (cases up)
    case False
    let ?t = "t\<lparr>ta_left := rest, ta_dead := ta_dead t @ [pid]\<rparr>"
    have "halfway (h_log (lo_host n)) ?t" if u: "untouched n t"
    proof -
      obtain passed where p: "ta_keys t = passed @ pid # rest" "set (ta_dead t) \<subseteq> set passed"
        "line_takers (ta_msg t) (h_log (lo_host n)) = filter (\<lambda>p. p \<notin> set (ta_dead t)) passed"
        using half [OF u] by (auto simp: halfway_def left [OF u])
      have "filter (\<lambda>p. p \<notin> set (ta_dead ?t)) (passed @ [pid]) = filter (\<lambda>p. p \<notin> set (ta_dead t)) passed"
        using d [OF u] p(1) by (auto intro: filter_cong)
      then show ?thesis using p unfolding halfway_def by (intro exI [of _ "passed @ [pid]"]) auto
    qed
    then have "task_ok n ?t" using tn(1) clean v(1) by (simp add: task_ok_def)
    then show ?thesis using False n t tn(2)
      by (simp add: visit_def) (rule loop_ok_task [of n i _ ?t], simp_all add: host_moves_refl task_ok_put_task)
  next
    case True
    let ?t = "t\<lparr>ta_left := rest\<rparr>" and ?h = "emit (ToPeer pid (ta_msg t)) (lo_host n)"
    have "halfway (h_log ?h) ?t" if u: "untouched n t"
    proof -
      obtain passed where p: "ta_keys t = passed @ pid # rest" "set (ta_dead t) \<subseteq> set passed"
        "line_takers (ta_msg t) (h_log (lo_host n)) = filter (\<lambda>p. p \<notin> set (ta_dead t)) passed"
        using half [OF u] by (auto simp: halfway_def left [OF u])
      then show ?thesis using d [OF u] unfolding halfway_def by (intro exI [of _ "passed @ [pid]"]) auto
    qed
    moreover have "untouched (put_host ?h n) t = untouched n t" by (simp add: untouched_same_keys)
    ultimately have ok: "task_ok (put_host ?h (put_task i ?t n)) ?t"
      using tn(1) clean v(1) by (simp add: task_ok_def untouched_same_keys put_host_changes)
    have "host_ok ?h" using tn(2) q by (auto simp: host_ok_def)
    then have "host_moves (others i (lo_tasks n)) n (put_host ?h n)"
      by (rule host_moves_put) (use others_msg [OF n] t in auto)
    then have "host_moves (others i (lo_tasks n)) n (put_host ?h (put_task i ?t n))"
      by (simp only: host_moves_put_task)
    then show ?thesis using True n t ok
      by (simp add: visit_def) (rule loop_ok_task [of n i _ ?t], simp_all)
  qed
qed

lemma task_step_ok:
  assumes "task_step up i n n'" "loop_ok n"
  shows "loop_ok n'"
  using assms(1)
proof cases
  case (written t pid rest)
  then show ?thesis using visit_ok assms(2) by simp
next
  case (loop_end t)
  let ?t = "t\<lparr>ta_phase := Dropping (ta_dead t), ta_clean := untouched n t\<rparr>"
  have tn: "task_ok n t" "host_ok (lo_host n)" using assms(2) loop_end by (simp_all add: loop_ok_def)
  have "delivered (h_log (lo_host n)) t" if "untouched n t"
  proof -
    have "ta_left t = []" using loop_end(5) that by (auto elim: no_more_peers.cases)
    then show ?thesis using that tn(1) loop_end(4) by (simp add: task_ok_def halfway_def delivered_def)
  qed
  then have ok: "task_ok n ?t" using tn(1) by (simp add: task_ok_def)
  show ?thesis unfolding loop_end(1)
    by (rule loop_ok_task [of n i _ ?t])
      (use ok loop_end(2,3) assms(2) tn(2) in \<open>simp_all add: host_moves_refl task_ok_put_task\<close>)
next
  case (escape t e)
  then have tn: "task_ok n t" "host_ok (lo_host n)" using assms(2) by (simp_all add: loop_ok_def)
  show ?thesis unfolding escape(1)
    by (rule loop_ok_task [of n i _ "t\<lparr>ta_phase := Raised e\<rparr>"])
      (use tn escape(2-4) assms(2) in \<open>simp_all add: host_moves_refl task_ok_put_task task_ok_phase\<close>)
next
  case (drop_one t pid rest)
  let ?t = "t\<lparr>ta_phase := Dropping rest\<rparr>"
  let ?n = "put_host (drop_peer pid (lo_host n)) (put_task i ?t n)"
  have tn: "task_ok n t" "host_ok (lo_host n)" using assms(2) drop_one by (simp_all add: loop_ok_def)
  have m: "host_moves ts n ?n" for ts
    by (simp only: host_moves_put_task) (rule drop_peer_moves [OF tn(2)])
  have "task_ok ?n t" by (rule task_ok_moves [OF m [of "[t]"] _ tn(1)]) simp
  then have ok: "task_ok ?n ?t" using drop_one(4) by (intro task_ok_phase(1) [of ?n t]) simp_all
  show ?thesis unfolding drop_one(1)
    by (rule loop_ok_task [of n i _ ?t]) (use ok drop_one(2,3) assms(2) m in simp_all)
next
  case (returned t)
  then have tn: "task_ok n t" "host_ok (lo_host n)" using assms(2) by (simp_all add: loop_ok_def)
  show ?thesis unfolding returned(1)
    by (rule loop_ok_task [of n i _ "t\<lparr>ta_phase := Finished\<rparr>"])
      (use tn returned(2-4) assms(2) in \<open>simp_all add: host_moves_refl task_ok_put_task task_ok_phase\<close>)
qed

lemma plain_output_other: "plain_output q (ToPeer p m) \<Longrightarrow> ms_seq m = Some k \<Longrightarrow> ms_type m = mt_value MT_SNAPSHOT"
  by (simp add: plain_output_def)

lemma in_log_seqs: "ToPeer p m \<in> set os \<Longrightarrow> ms_seq m = Some q \<Longrightarrow> q \<in> set (log_seqs os)"
  by (induction os) (auto simp: log_seqs_def map_filter_def split: host_output.splits)

lemma begin_ok:
  assumes n: "loop_ok n" and ty: "ty \<noteq> mt_value MT_SNAPSHOT"
  shows "loop_ok (begin_broadcast ty payload n)"
proof -
  let ?t = "new_task ty payload n" and ?n = "begin_broadcast ty payload n"
  have c: "host_ok (lo_host n)" using n by (simp add: loop_ok_def)
  then have core: "host_ok (lo_host ?n)" by (fastforce simp: host_ok_def begin_broadcast_def)
  have m: "host_moves (lo_tasks n) n ?n"
    using core by (simp add: host_moves_def) (simp add: begin_broadcast_def)
  have fresh: "\<forall>out \<in> set (h_log (lo_host n)). \<forall>p. out \<noteq> ToPeer p (ta_msg ?t)"
  proof (intro ballI allI notI)
    fix out p assume out: "out \<in> set (h_log (lo_host n))" "out = ToPeer p (ta_msg ?t)"
    then have "h_seq (lo_host n) + 1 \<in> set (log_seqs (h_log (lo_host n)))"
      by (intro in_log_seqs [of p "ta_msg ?t"]) (simp_all add: new_task_def)
    then show False using c by (auto simp: host_ok_def)
  qed
  have "task_ok ?n ?t"
    using ty c line_takers_none [OF fresh]
    by (simp add: task_ok_def halfway_def new_task_def begin_broadcast_def host_ok_def peer_keys_def)
  moreover have "\<forall>t \<in> set (lo_tasks n). task_ok ?n t"
    using task_ok_moves [OF m] n by (simp add: loop_ok_def)
  moreover have "\<forall>t \<in> set (lo_tasks n). ms_seq (ta_msg t) \<noteq> ms_seq (ta_msg ?t)"
    using n by (auto simp: loop_ok_def task_ok_def new_task_def)
  ultimately show ?thesis using n core by (auto simp: loop_ok_def begin_broadcast_def)
qed

text \<open>
  What a handler does between two \<open>await\<close> points, or a join or departure: the counter stays, and
  of numbered lines it writes at most the answer to a snapshot request.
\<close>

definition quiet :: "host \<Rightarrow> host \<Rightarrow> bool" where
  "quiet h h' \<longleftrightarrow> host_ok h' \<and> h_seq h' = h_seq h \<and>
     (\<exists>xs. h_log h' = h_log h @ xs \<and> (\<forall>out \<in> set xs. plain_output (h_seq h) out))"

lemma quiet_refl: "host_ok h \<Longrightarrow> quiet h h"
  by (simp add: quiet_def)

lemma quiet_trans: "quiet h h' \<Longrightarrow> quiet h' h'' \<Longrightarrow> quiet h h''"
  by (fastforce simp: quiet_def)

lemma quiet_host_ok: "quiet h h' \<Longrightarrow> host_ok h'"
  by (simp add: quiet_def)

lemma quiet_ok:
  assumes "loop_ok n" "quiet (lo_host n) h'"
  shows "loop_ok (put_host h' n)"
proof -
  obtain xs where xs: "h_log h' = h_log (lo_host n) @ xs" "\<forall>out \<in> set xs. plain_output (h_seq (lo_host n)) out"
    and k: "h_seq h' = h_seq (lo_host n)" "host_ok h'"
    using assms(2) by (auto simp: quiet_def)
  have "host_moves (lo_tasks n) n (put_host h' n)"
  proof (rule host_moves_put [OF k(2,1) xs(1)], intro ballI allI notI)
    fix t out p assume t: "t \<in> set (lo_tasks n)" "out \<in> set xs" "out = ToPeer p (ta_msg t)"
    then have "task_ok n t" using assms(1) by (simp add: loop_ok_def)
    then show False using t xs(2) plain_output_other by (fastforce simp: task_ok_def)
  qed
  then show ?thesis by (rule loop_ok_moves) (use assms(1) in simp_all)
qed

lemma idle_loop_ok: "host_ok h \<Longrightarrow> loop_ok (idle_loop h)"
  by (simp add: loop_ok_def idle_loop_def)

section \<open>What goes wrong between the steps\<close>

text \<open>
  A peer that leaves (or joins) while a broadcast waits: the only step left to it raises, whoever
  was still to come gets nothing, and the peers found dead stay.
\<close>

lemma resized_only_raises:
  assumes "loop_ok n" "i < length (lo_tasks n)" "ta_phase (lo_tasks n ! i) = Visiting" "resized n (lo_tasks n ! i)"
  shows "task_step up i n n' \<longleftrightarrow> n' = put_task i ((lo_tasks n ! i)\<lparr>ta_phase :=
    Raised (RuntimeError ''dictionary changed size during iteration'')\<rparr>) n"
proof -
  have "task_ok n (lo_tasks n ! i)" using assms(1,2) by (simp add: loop_ok_def)
  then have u: "\<not> untouched n (lo_tasks n ! i)" using assms(4) by (auto simp: task_ok_def resized_keys)
  show ?thesis
    using assms(2-4) u
    by (auto elim!: task_stepE next_peer.cases no_more_peers.cases iteration_error.cases intro: escape size_error)
qed

lemma leave_resizes:
  assumes "loop_ok n" "i < length (lo_tasks n)" "untouched n (lo_tasks n ! i)" "pid \<in> set (peer_keys (lo_host n))"
  shows "resized (put_host (drop_peer pid (lo_host n)) n) (lo_tasks n ! i)"
proof -
  let ?h = "lo_host n"
  have t: "task_ok n (lo_tasks n ! i)" "dict_ok (h_peers ?h)"
    using assms(1,2) by (simp_all add: loop_ok_def host_ok_def)
  have "h_peers (drop_peer pid ?h) = AList.delete pid (h_peers ?h)" by (simp add: drop_peer_def Let_def)
  then have "peer_keys (drop_peer pid ?h) = remove1 pid (peer_keys ?h)"
    using t(2) by (simp add: peer_keys_def delete_keys distinct_remove1_removeAll)
  then have "length (peer_keys (drop_peer pid ?h)) < length (peer_keys ?h)"
    using assms(4) length_pos_if_in_set [OF assms(4)] by (simp add: length_remove1)
  then show ?thesis using t(1) assms(3) by (simp add: resized_keys task_ok_def)
qed

text \<open>
  One step of a task, as a function: of what the iterator may do with a dictionary that lost a key and
  gained one it takes the error. A schedule can be written down with it.
\<close>

definition next_visit :: "(string \<Rightarrow> bool) \<Rightarrow> nat \<Rightarrow> task \<Rightarrow> loop_state \<Rightarrow> loop_state" where
  "next_visit up i t n =
     (if resized n t
      then put_task i (t\<lparr>ta_phase := Raised (RuntimeError ''dictionary changed size during iteration'')\<rparr>) n
      else if \<not> untouched n t
      then put_task i (t\<lparr>ta_phase := Raised (RuntimeError ''dictionary keys changed during iteration'')\<rparr>) n
      else case ta_left t of
             [] \<Rightarrow> put_task i (t\<lparr>ta_phase := Dropping (ta_dead t), ta_clean := untouched n t\<rparr>) n
           | pid # rest \<Rightarrow> visit (up pid) pid rest i t n)"

definition next_drop :: "nat \<Rightarrow> task \<Rightarrow> string list \<Rightarrow> loop_state \<Rightarrow> loop_state" where
  "next_drop i t ps n =
     (case ps of
        [] \<Rightarrow> put_task i (t\<lparr>ta_phase := Finished\<rparr>) n
      | pid # rest \<Rightarrow> put_host (drop_peer pid (lo_host n)) (put_task i (t\<lparr>ta_phase := Dropping rest\<rparr>) n))"

definition next_step :: "(string \<Rightarrow> bool) \<Rightarrow> nat \<Rightarrow> loop_state \<Rightarrow> loop_state" where
  "next_step up i n =
     (if length (lo_tasks n) \<le> i then n
      else case ta_phase (lo_tasks n ! i) of
             Visiting \<Rightarrow> next_visit up i (lo_tasks n ! i) n
           | Dropping ps \<Rightarrow> next_drop i (lo_tasks n ! i) ps n
           | _ \<Rightarrow> n)"

lemma next_visit_step:
  assumes "i < length (lo_tasks n)" "t = lo_tasks n ! i" "ta_phase t = Visiting"
  shows "task_step up i n (next_visit up i t n)"
proof (cases "resized n t")
  case True
  then show ?thesis using escape [OF assms size_error] by (simp add: next_visit_def)
next
  case same: False
  show ?thesis
  proof (cases "untouched n t")
    case False
    then show ?thesis using escape [OF assms keys_error] same by (simp add: next_visit_def)
  next
    case True
    then show ?thesis
      using loop_end [OF assms exhausted [OF True]] written [OF assms in_order [OF True], where up = up] same
      by (cases "ta_left t") (simp_all add: next_visit_def)
  qed
qed

lemma next_step_step: "next_step up i n = n \<or> task_step up i n (next_step up i n)"
proof (cases "i < length (lo_tasks n)")
  case i: True
  show ?thesis
  proof (cases "ta_phase (lo_tasks n ! i)")
    case Visiting
    then show ?thesis using next_visit_step [OF i refl Visiting] i by (simp add: next_step_def)
  next
    case (Dropping ps)
    then show ?thesis using i drop_one [OF i refl] returned [OF i refl]
      by (cases ps) (simp_all add: next_step_def next_drop_def)
  qed (simp_all add: next_step_def)
qed (simp add: next_step_def)

text \<open>
  Two broadcasts to two peers. The first has written to \<open>a\<close> and waits; the second starts, writes to
  both; then the first goes on: \<open>b\<close> gets the later number before the earlier one, although neither
  call is disturbed and both return.
\<close>

definition overtake_begin :: "string \<Rightarrow> pydict \<Rightarrow> pydict \<Rightarrow> loop_state \<Rightarrow> loop_state" where
  "overtake_begin ty p1 p2 n = begin_broadcast ty p2 (next_step (\<lambda>pid. True) 0 (begin_broadcast ty p1 n))"

definition overtake :: "string \<Rightarrow> pydict \<Rightarrow> pydict \<Rightarrow> loop_state \<Rightarrow> loop_state" where
  "overtake ty p1 p2 n =
     (let first = next_step (\<lambda>pid. True) 0; second = next_step (\<lambda>pid. True) 1
      in (first ^^ 3) ((second ^^ 4) (overtake_begin ty p1 p2 n)))"

lemmas run_simps = next_step_def next_visit_def next_drop_def begin_broadcast_def new_task_def visit_def put_task_def put_host_def emit_def
  untouched_def resized_def peer_keys_def idle_loop_def Let_def

text \<open>A state of this run: the host's counter and log, and the two tasks.\<close>

definition pair_state :: "host \<Rightarrow> int \<Rightarrow> host_output list \<Rightarrow> task list \<Rightarrow> loop_state" where
  "pair_state h q l ts = \<lparr>lo_host = h\<lparr>h_seq := q, h_log := l\<rparr>, lo_changes = 0, lo_tasks = ts\<rparr>"

definition pair_task :: "host \<Rightarrow> msg \<Rightarrow> string list \<Rightarrow> phase \<Rightarrow> task" where
  "pair_task h m left ph = \<lparr>ta_msg = m, ta_size = length (h_peers h), ta_left = left, ta_dead = [], ta_phase = ph,
     ta_keys = peer_keys h, ta_changes = 0, ta_clean = (ph \<noteq> Visiting)\<rparr>"

lemma pair_begin:
  "begin_broadcast ty p (pair_state h q l ts) =
     pair_state h (q + 1) l (ts @ [pair_task h \<lparr>ms_type = ty, ms_payload = p, ms_seq = Some (q + 1)\<rparr> (peer_keys h) Visiting])"
  by (simp add: pair_state_def pair_task_def run_simps)

lemma pair_next:
  assumes "i < length ts"
  shows "ts ! i = pair_task h m (pid # rest) Visiting \<Longrightarrow> up pid \<Longrightarrow>
      next_step up i (pair_state h q l ts) = pair_state h q (l @ [ToPeer pid m]) (ts[i := pair_task h m rest Visiting])"
    and "ts ! i = pair_task h m [] Visiting \<Longrightarrow>
      next_step up i (pair_state h q l ts) = pair_state h q l (ts[i := pair_task h m [] (Dropping [])])"
    and "ts ! i = pair_task h m [] (Dropping []) \<Longrightarrow>
      next_step up i (pair_state h q l ts) = pair_state h q l (ts[i := pair_task h m [] Finished])"
  using assms by (simp_all add: pair_state_def pair_task_def run_simps)

lemma pair_idle: "idle_loop h = pair_state h (h_seq h) (h_log h) []"
  by (simp add: idle_loop_def pair_state_def)

lemma overtake_result:
  assumes "peer_keys h = [a, b]"
  shows "overtake ty p1 p2 (idle_loop h) =
      (let m1 = \<lparr>ms_type = ty, ms_payload = p1, ms_seq = Some (h_seq h + 1)\<rparr>;
           m2 = \<lparr>ms_type = ty, ms_payload = p2, ms_seq = Some (h_seq h + 1 + 1)\<rparr>
       in pair_state h (h_seq h + 1 + 1) (h_log h @ [ToPeer a m1, ToPeer a m2, ToPeer b m2, ToPeer b m1])
            [pair_task h m1 [] Finished, pair_task h m2 [] Finished])"
  by (simp add: overtake_def overtake_begin_def pair_idle pair_begin assms pair_next Let_def eval_nat_numeral)

text \<open>
  The guest that takes the later of two game messages throws the earlier away when it comes: its last
  number is already higher.
\<close>

lemma game_error_last [simp]: "cr_last_seq (game_error ev reason r) = cr_last_seq r"
  by (simp add: game_error_def to_game_def)

lemma accept_raw_last: "cr_last_seq (fst (accept_raw ev d r)) = seq_of d"
  by (auto simp: accept_raw_def apply_game_message_def game_error_def to_game_def Let_def
      split: sum.split option.split)

lemma late_raw_ignored:
  assumes "cr_last_seq r < seq_of d" "raw_bytes d = Inr bs" "epoch_error d (cr_epoch r) = Inr None"
    and "py_int (pget_default e ''sequence'' (VInt 0)) = Inr q" "q \<le> seq_of d"
    and "py_int (pget_default d ''sequence'' (VInt 0)) = Inr (seq_of d)"
  shows "net_raw_message ev' e (fst (net_raw_message ev d r)) = (fst (net_raw_message ev d r), None)"
proof -
  have "net_raw_message ev d r = accept_raw ev d r" using assms by (simp add: net_raw_message_def)
  then show ?thesis using assms(4,5) by (simp add: net_raw_message_def accept_raw_last)
qed

text \<open>The lines one peer gets, in order.\<close>

definition lines_to :: "string \<Rightarrow> host_output list \<Rightarrow> msg list" where
  "lines_to pid os = List.map_filter (\<lambda>out. case out of ToPeer p m \<Rightarrow> if p = pid then Some m else None | _ \<Rightarrow> None) os"

lemma overtaken_lines:
  assumes "peer_keys h = [a, b]" "a \<noteq> b"
  shows "lines_to b (h_log (lo_host (overtake ty p1 p2 (idle_loop h)))) = lines_to b (h_log h) @
      [\<lparr>ms_type = ty, ms_payload = p2, ms_seq = Some (h_seq h + 2)\<rparr>, \<lparr>ms_type = ty, ms_payload = p1, ms_seq = Some (h_seq h + 1)\<rparr>]"
    and "\<forall>t \<in> set (lo_tasks (overtake ty p1 p2 (idle_loop h))). ta_phase t = Finished \<and> ta_clean t"
  using assms
  by (simp_all add: overtake_result [OF assms(1)] pair_state_def pair_task_def lines_to_def map_filter_def Let_def)

section \<open>Starting and closing the server\<close>

text \<open>
  \<open>_server\<close> is set from \<open>start\<close> to \<open>close\<close>; it listens from \<open>start\<close> until \<open>close\<close> or the end of
  \<open>serve_forever\<close>, whose \<open>async with\<close> closes it. Whether the port is free is an argument.
\<close>

record host_server =
  sv_host :: host
  sv_set :: bool
  sv_listening :: bool

definition new_server :: "host \<Rightarrow> host_server" where
  "new_server h = \<lparr>sv_host = h, sv_set = False, sv_listening = False\<rparr>"

definition server_start :: "bool \<Rightarrow> host_server \<Rightarrow> host_server \<times> py_error option" where
  "server_start free s =
     (if free then (s\<lparr>sv_set := True, sv_listening := True\<rparr>, None)
      else (s, Some (OSError ''address already in use'')))"

text \<open>\<open>serve_forever\<close> up to the moment it waits, and its end.\<close>

definition serve_begin :: "bool \<Rightarrow> host_server \<Rightarrow> host_server \<times> py_error option" where
  "serve_begin free s = (if sv_set s then (s, None) else server_start free s)"

definition serve_end :: "host_server \<Rightarrow> host_server" where
  "serve_end s = s\<lparr>sv_listening := False\<rparr>"

definition close_peers :: "host \<Rightarrow> host" where
  "close_peers h = (fold (\<lambda>kv. emit (Closed (fst kv))) (h_peers h) h)\<lparr>h_peers := []\<rparr>"

definition server_close :: "host_server \<Rightarrow> host_server" where
  "server_close s = \<lparr>sv_host = close_peers (sv_host s), sv_set = False, sv_listening = False\<rparr>"

lemma close_log: "h_log (fold (\<lambda>kv. emit (Closed (fst kv))) ps h) = h_log h @ map (\<lambda>kv. Closed (fst kv)) ps"
  by (induction ps arbitrary: h) simp_all

lemma close_frame:
  "h_session (fold (\<lambda>kv. emit (Closed (fst kv))) ps h) = h_session h"
  "h_id (fold (\<lambda>kv. emit (Closed (fst kv))) ps h) = h_id h"
  "h_seq (fold (\<lambda>kv. emit (Closed (fst kv))) ps h) = h_seq h"
  by (induction ps arbitrary: h) simp_all

lemma close_seqs: "log_seqs (map (\<lambda>kv. Closed (fst kv)) ps) = []"
  by (simp add: log_seqs_def map_filter_def)

lemma close_peers_ok: "host_ok h \<Longrightarrow> host_ok (close_peers h)"
  by (simp add: host_ok_def close_peers_def close_log close_frame close_seqs)

text \<open>
  Closing leaves the session as it is: a player goes when the connection's own \<open>finally\<close> runs. Once
  all have, exactly those that were connected are gone, whatever the order.
\<close>

lemma drop_players: "hs_players (h_session (fold drop_peer ps h)) = filter (\<lambda>kv. fst kv \<notin> set ps) (hs_players (h_session h))"
proof (induction ps arbitrary: h)
  case (Cons p ps)
  have "hs_players (h_session (drop_peer p h)) = filter (\<lambda>kv. fst kv \<noteq> p) (hs_players (h_session h))"
    by (auto simp: drop_peer_def Let_def remove_player_fields AList.delete_eq intro!: filter_cong)
  then show ?case using Cons by (simp add: conj_commute)
qed simp

lemma close_then_leave:
  assumes "set ps = dict_keys (h_peers h)" "[] \<notin> set ps"
  shows "hs_players (h_session (fold (\<lambda>p. finish_conn (Some p)) ps (close_peers h))) =
      filter (\<lambda>kv. fst kv \<notin> dict_keys (h_peers h)) (hs_players (h_session h))"
    and "h_peers (fold (\<lambda>p. finish_conn (Some p)) ps (close_peers h)) = []"
proof -
  have f: "fold (\<lambda>p. finish_conn (Some p)) ps g = fold drop_peer ps g" for g
    using assms(2) by (intro fold_cong) (auto simp: finish_conn_def fun_eq_iff)
  show "hs_players (h_session (fold (\<lambda>p. finish_conn (Some p)) ps (close_peers h))) =
      filter (\<lambda>kv. fst kv \<notin> dict_keys (h_peers h)) (hs_players (h_session h))"
    by (simp add: f drop_players assms(1) close_peers_def close_frame)
  have "h_peers (fold drop_peer ps g) = []" if "h_peers g = []" for g
    using that by (induction ps arbitrary: g) (simp_all add: drop_peer_def Let_def)
  then show "h_peers (fold (\<lambda>p. finish_conn (Some p)) ps (close_peers h)) = []"
    by (simp add: f close_peers_def)
qed

end
