(* ===== verification/Host_Tasks.thy ===== *)
theory Host_Tasks
  imports Net_Tasks
begin

text \<open>
  The handlers of \<^verbatim>\<open>src/kermp/net.py\<close> and of \<open>HostRuntime\<close> in \<^verbatim>\<open>src/kermp/runtime.py\<close> at their
  \<open>await\<close> points, and the event loop that runs them. \<open>Net\<close> and \<open>Host_Runtime\<close> run a handler in one
  piece; here it is a flow: pieces of code that run without interruption, and awaited broadcasts,
  which run in the steps of \<open>Net_Tasks\<close>. Any number of handlers wait at the same time. A flow nobody
  interrupts does what the handler of \<open>Net\<close> and \<open>Host_Runtime\<close> does; whatever the loop interleaves,
  the host's invariant holds between any two steps. After a broadcast has returned, and between a
  failed handler and the end of its connection, the loop may run other tasks here although Python
  goes on at once: the steps of the code are among those of the model.
\<close>

section \<open>Flows\<close>

text \<open>
  The rest of a coroutine: it has ended, with the exception that escapes it; it has a piece to
  run; it awaits \<open>self.broadcast(...)\<close> and goes on with the envelope, or with what the call raises.
\<close>

datatype flow =
    Ends "py_error option"
  | Piece "env \<Rightarrow> host \<Rightarrow> host \<times> flow"
  | Cast string pydict "py_error + envelope \<Rightarrow> flow"

text \<open>The host at the next suspension, and the rest.\<close>

type_synonym segment = "host \<times> flow"

text \<open>Code without an \<open>await\<close> but for the last write.\<close>

definition at_once :: "hres \<Rightarrow> segment" where
  "at_once r = (fst r, Ends (snd r))"

definition one_piece :: "(env \<Rightarrow> host \<Rightarrow> hres) \<Rightarrow> flow" where
  "one_piece f = Piece (\<lambda>ev h. at_once (f ev h))"

text \<open>\<open>await self.broadcast(...)\<close>, then \<open>p\<close>; with nothing after it; an exception escapes.\<close>

definition cast_then :: "string \<Rightarrow> pydict \<Rightarrow> flow \<Rightarrow> flow" where
  "cast_then ty d p = Cast ty d (\<lambda>x. case x of Inl err \<Rightarrow> Ends (Some err) | Inr e \<Rightarrow> p)"

definition cast :: "string \<Rightarrow> pydict \<Rightarrow> flow" where
  "cast ty d = cast_then ty d (Ends None)"

text \<open>\<open>try: p except classes as exc: f exc\<close>.\<close>

primrec caught :: "string list \<Rightarrow> (py_error \<Rightarrow> flow) \<Rightarrow> flow \<Rightarrow> flow" where
  "caught cs f (Ends x) =
     (case x of None \<Rightarrow> Ends None | Some e \<Rightarrow> if exc_class e \<in> set cs then f e else Ends (Some e))"
| "caught cs f (Piece g) = Piece (\<lambda>ev h. map_prod id (caught cs f) (g ev h))"
| "caught cs f (Cast ty d k) = Cast ty d (\<lambda>x. caught cs f (k x))"

text \<open>The flow run in one environment while nothing else touches the host.\<close>

primrec run :: "env \<Rightarrow> flow \<Rightarrow> host \<Rightarrow> hres" where
  "run ev (Ends x) = (\<lambda>h. (h, x))"
| "run ev (Piece g) = (\<lambda>h. case map_prod id (run ev) (g ev h) of (h1, r) \<Rightarrow> r h1)"
| "run ev (Cast ty d k) = (\<lambda>h.
     run ev (k (Inr (make_envelope ty d (h_id h) (Some (h_seq h + 1)) (ev_uuid ev) VNone))) (broadcast ev ty d h))"

definition finish :: "env \<Rightarrow> segment \<Rightarrow> hres" where
  "finish ev s = run ev (snd s) (fst s)"

section \<open>The host runtime\<close>

definition start_travel_begin :: "env \<Rightarrow> pydict \<Rightarrow> string \<Rightarrow> host \<Rightarrow> segment" where
  "start_travel_begin ev payload requested_by h =
     (let zone = py_str (py_or (pget payload ''zone_id'') (VStr [])) in
      case py_iter (pget_default payload ''actor_ids'' (VList [])) of
        Inl err \<Rightarrow> (h, Ends (Some err))
      | Inr actors \<Rightarrow>
         if zone = [] then (h, Ends None)
         else case propose (ev_uuid ev) zone (str_list actors) (map fst (hs_players (h_session h))) (host_travel h) of
           Inl err \<Rightarrow> (h, Ends (Some err))
         | Inr (c, t) \<Rightarrow>
            (let out = travel_dict t @ [(''requested_by'', VStr requested_by)]
             in (tell_game ev ''travel.prepare'' out (put_travel c h), cast (mt_value MT_TRAVEL_PROPOSE) out)))"

text \<open>The commit waits twice: other players' messages are handled before the coordinator waits for the zone.\<close>

definition zone_wait :: "string \<Rightarrow> host \<Rightarrow> hres" where
  "zone_wait txn_id h =
     (case begin_zone_wait txn_id (host_travel h) of
        Inl err \<Rightarrow> (h, Some err)
      | Inr c \<Rightarrow> (put_travel c h, None))"

definition commit_flow :: "travel_txn \<Rightarrow> string \<Rightarrow> flow" where
  "commit_flow t txn_id =
     (let begin_batch = batch_dict (tx_id t) (tx_epoch t) ''begin'' in
      cast_then (mt_value MT_TRAVEL_VIEW_BATCH) begin_batch
        (Piece (\<lambda>ev h.
           (tell_game ev (mt_value MT_TRAVEL_COMMIT) (travel_dict t)
              (tell_game ev (mt_value MT_TRAVEL_VIEW_BATCH) begin_batch h),
            cast_then (mt_value MT_TRAVEL_COMMIT) (travel_dict t) (one_piece (\<lambda>ev. zone_wait txn_id))))))"

definition travel_ready_begin :: "string \<Rightarrow> pydict \<Rightarrow> host \<Rightarrow> segment" where
  "travel_ready_begin pid payload h =
     (let txn_id = py_str (py_or (pget payload ''txn_id'') (VStr [])) in
      if txn_id = [] then (h, Ends None)
      else case py_int (pget_default payload ''epoch'' (VInt (-1))) of
        Inl err \<Rightarrow> (h, Ends (Some err))
      | Inr epoch \<Rightarrow>
      (case mark_ready pid txn_id (Some epoch) (host_travel h) of
         Inl err \<Rightarrow> (h, Ends None)
       | Inr (c, commit) \<Rightarrow>
          (put_travel c h,
           case (commit, tc_current c) of (True, Some t) \<Rightarrow> commit_flow t txn_id | _ \<Rightarrow> Ends None)))"

definition travel_zone_ready_begin :: "env \<Rightarrow> string \<Rightarrow> pydict \<Rightarrow> host \<Rightarrow> segment" where
  "travel_zone_ready_begin ev pid payload h =
     (let txn_id = py_str (py_or (pget payload ''txn_id'') (VStr [])) in
      if txn_id = [] then (h, Ends None)
      else case tc_current (host_travel h) of
        None \<Rightarrow> (h, Ends None)
      | Some expected \<Rightarrow>
      (case py_int (pget_default payload ''epoch'' (VInt (-1))) of
         Inl err \<Rightarrow> (h, Ends (Some err))
       | Inr epoch \<Rightarrow>
          if epoch \<noteq> tx_epoch expected then (h, Ends None)
          else case mark_zone_ready pid txn_id (Some epoch) (host_travel h) of
            Inl err \<Rightarrow> (h, Ends None)
          | Inr (c, resume) \<Rightarrow>
             (if resume
              then (let out = [(''txn_id'', VStr txn_id), (''epoch'', VInt (tx_epoch expected))]
                    in (tell_game ev (mt_value MT_TRAVEL_RESUME) out (put_travel c h),
                        cast (mt_value MT_TRAVEL_RESUME) out))
              else (put_travel c h, Ends None))))"

definition abort_begin :: "string \<Rightarrow> pydict \<Rightarrow> host \<Rightarrow> segment" where
  "abort_begin reason payload h =
     (case tc_current (host_travel h) of
        None \<Rightarrow> (h, Ends None)
      | Some t \<Rightarrow>
      (case py_int (pget_default payload ''epoch'' (VInt (-1))) of
         Inl err \<Rightarrow> (h, Ends (Some err))
       | Inr epoch \<Rightarrow>
          if epoch \<noteq> tx_epoch t then (h, Ends None)
          else case abort_travel (tx_id t) (host_travel h) of
            Inl err \<Rightarrow> (h, Ends (Some err))
          | Inr c \<Rightarrow>
             (put_travel c h, cast (mt_value MT_TRAVEL_ABORT)
                [(''txn_id'', VStr (tx_id t)), (''epoch'', VInt (tx_epoch t)),
                 (''reason'', pget_default payload ''reason'' (VStr reason))])))"

text \<open>To the game, or a rejection to the peers; \<open>rest\<close> is what follows when the game got it.\<close>

definition deliver_begin ::
  "env \<Rightarrow> message_type \<Rightarrow> message_type \<Rightarrow> pydict \<Rightarrow> flow \<Rightarrow> host \<Rightarrow> segment" where
  "deliver_begin ev mt rejected request rest h =
     (case game_send ev (mt_value mt) request h of
        (h1, True) \<Rightarrow> (h1, rest)
      | (h1, False) \<Rightarrow> (h1, cast (mt_value rejected) (undelivered request)))"

definition network_begin :: "env \<Rightarrow> envelope \<Rightarrow> host \<Rightarrow> segment" where
  "network_begin ev e h =
     (case mt_of (e_type e) of
        Some MT_TRAVEL_REQUEST \<Rightarrow> start_travel_begin ev (e_payload e) (e_sender e) h
      | Some MT_TRAVEL_READY \<Rightarrow> travel_ready_begin (e_sender e) (e_payload e) h
      | Some MT_TRAVEL_ZONE_READY \<Rightarrow> travel_zone_ready_begin ev (e_sender e) (e_payload e) h
      | Some MT_TRAVEL_ABORT \<Rightarrow> abort_begin ''participant_abort'' (e_payload e) h
      | Some MT_INTERACTION_ACCEPTED \<Rightarrow>
          deliver_begin ev MT_INTERACTION_REQUEST MT_INTERACTION_REJECTED (e_payload e) (Ends None) h
      | Some MT_INTERACTION_COMMAND_ACCEPTED \<Rightarrow>
          deliver_begin ev MT_INTERACTION_COMMAND MT_INTERACTION_COMMAND_REJECTED (e_payload e) (Ends None) h
      | _ \<Rightarrow> at_once (network_message ev e h))"

text \<open>\<open>include_host=True\<close>: the envelope of the broadcast then goes to \<open>on_message\<close>.\<close>

definition cast_host :: "string \<Rightarrow> pydict \<Rightarrow> flow" where
  "cast_host ty d = Cast ty d (\<lambda>x. case x of
     Inl err \<Rightarrow> Ends (Some err) | Inr e \<Rightarrow> Piece (\<lambda>ev. network_begin ev e))"

section \<open>The messages of a guest\<close>

text \<open>\<open>except classes as exc: await self._send_error(id, str(exc))\<close>.\<close>

definition answered :: "string list \<Rightarrow> string \<Rightarrow> segment \<Rightarrow> segment" where
  "answered cs pid s = map_prod id (caught cs (\<lambda>err. one_piece (\<lambda>ev. error_reply ev pid err))) s"

definition readiness_begin :: "string \<Rightarrow> pydict \<Rightarrow> host \<Rightarrow> segment" where
  "readiness_begin pid fs h =
     (case update_readiness pid fs (h_session h) of
        (s, Inl e) \<Rightarrow> (put_session s h, Ends (Some e))
      | (s, Inr r) \<Rightarrow>
         (put_session s h,
          case readiness_snapshot r of
            Inl e \<Rightarrow> Ends (Some e)
          | Inr d \<Rightarrow> cast_host (mt_value MT_READINESS) ((''player_id'', VStr pid) # d)))"

definition save_ack_begin :: "envelope \<Rightarrow> host \<Rightarrow> segment" where
  "save_ack_begin e h =
     (case py_int (pget_default (e_payload e) ''total_bytes'' (VInt 0)) of
        Inl err \<Rightarrow> (h, Ends (Some err))
      | Inr n \<Rightarrow> readiness_begin (e_sender e)
          [(''save_hash'', VStr (py_str (py_or (pget (e_payload e) ''sha256'') (VStr [])))),
           (''save_bytes_received'', VInt n), (''save_total_bytes'', VInt n)] h)"

definition clock_begin :: "int \<Rightarrow> bool \<Rightarrow> host \<Rightarrow> segment" where
  "clock_begin speed paused h =
     (let h1 = set_clock speed paused h
      in (h1, cast_host (mt_value MT_CLOCK_STATE) (clock_dict (hs_clock (h_session h1)))))"

definition clock_speed_begin :: "env \<Rightarrow> envelope \<Rightarrow> host \<Rightarrow> segment" where
  "clock_speed_begin ev e h =
     (case py_int (pget_default (e_payload e) ''speed'' (VInt 0)) of
        Inl err \<Rightarrow> (h, Ends (Some err))
      | Inr speed \<Rightarrow>
          if speed \<notin> {0, 1, 2, 3} then at_once (send_error ev (e_sender e) ''invalid_clock_speed'' h)
          else clock_begin speed (speed = 0) h)"

definition clock_pause_begin :: "envelope \<Rightarrow> host \<Rightarrow> segment" where
  "clock_pause_begin e h =
     (let paused = truthy (pget (e_payload e) ''paused'')
      in clock_begin (if paused then 0 else max 1 (ck_speed (hs_clock (h_session h)))) paused h)"

definition command_begin :: "env \<Rightarrow> envelope \<Rightarrow> host \<Rightarrow> segment" where
  "command_begin ev e h =
     (case py_dict (py_or (pget (e_payload e) ''payload'') (VDict [])) of
        Inl err \<Rightarrow> (h, Ends (Some err))
      | Inr payload \<Rightarrow>
     (case router_id (pget (e_payload e) ''request_id'') of
        Inl err \<Rightarrow> (h, Ends (Some err))
      | Inr rid \<Rightarrow>
     (case dispatch_command (ev_now ev) (ev_uuid ev) (e_sender e) (py_str (pget (e_payload e) ''family''))
             payload rid (hs_commands (h_session h)) of
        (r, x) \<Rightarrow> (with_session (\<lambda>s. s\<lparr>hs_commands := r\<rparr>) h,
          case x of Inl err \<Rightarrow> Ends (Some err) | Inr result \<Rightarrow> cast_host (mt_value MT_COMMAND_RESULT) result))))"

definition dialog_begin :: "envelope \<Rightarrow> host \<Rightarrow> segment" where
  "dialog_begin e h =
     (case py_dict (py_or (pget (e_payload e) ''response'') (VDict [])) of
        Inl err \<Rightarrow> (h, Ends (Some err))
      | Inr response \<Rightarrow>
     (case respond_dialog (e_sender e) (py_str (pget (e_payload e) ''dialog_id'')) response
             (hs_dialogs (h_session h)) of
        (r, x) \<Rightarrow> (with_session (\<lambda>s. s\<lparr>hs_dialogs := r\<rparr>) h,
          case x of
            Inl err \<Rightarrow> Ends (Some err)
          | Inr result \<Rightarrow> cast_host (mt_value MT_DIALOG_RESPONSE) (response_dict result))))"

definition lock_request_begin :: "env \<Rightarrow> envelope \<Rightarrow> host \<Rightarrow> segment" where
  "lock_request_begin ev e h =
     (case request_lock (ev_now ev) (ev_ns ev) (e_sender e) (hs_build (h_session h)) of
        (a, granted) \<Rightarrow>
          (with_session (\<lambda>s. s\<lparr>hs_build := a\<rparr>) h,
           cast (mt_value MT_BUILD_LOCK_STATE)
             [(''owner_id'', lock_owner a), (''granted_to'', granted_to (e_sender e) granted)]))"

definition sim_select_begin :: "env \<Rightarrow> envelope \<Rightarrow> host \<Rightarrow> segment" where
  "sim_select_begin ev e h =
     (case select_sim (e_sender e) (py_str (pget (e_payload e) ''sim_id'')) (h_session h) of
        (s, Inl err) \<Rightarrow> at_once (error_reply ev (e_sender e) err (put_session s h))
      | (s, Inr state) \<Rightarrow> (put_session s h, cast_host (mt_value MT_SIM_SELECTION_STATE) state))"

definition sim_state_begin :: "env \<Rightarrow> envelope \<Rightarrow> host \<Rightarrow> segment" where
  "sim_state_begin ev e h =
     (case py_iter (py_or (pget (e_payload e) ''sims'') (VList [])) of
        Inl err \<Rightarrow> (h, Ends (Some err))
      | Inr sims \<Rightarrow>
     (case update_sims sims (h_session h) of
        (s, Some err) \<Rightarrow> (put_session s h, Ends (Some err))
      | (s, None) \<Rightarrow>
         (put_session s h,
          case session_snapshot (ev_now ev) s of
            Inl err \<Rightarrow> Ends (Some err)
          | Inr d \<Rightarrow> cast_host (mt_value MT_SIM_STATE) d)))"

text \<open>A validated request: an answer to its author, or the announcement.\<close>

definition announce_begin ::
  "env \<Rightarrow> string list \<Rightarrow> string \<Rightarrow> message_type \<Rightarrow> host_session \<times> (py_error + pydict) \<Rightarrow> host \<Rightarrow> segment" where
  "announce_begin ev cs pid mt r h =
     (case r of
        (s, Inl err) \<Rightarrow> at_once (catching cs (error_reply ev pid) (put_session s h, Some err))
      | (s, Inr request) \<Rightarrow> (put_session s h, cast_host (mt_value mt) request))"

definition interaction_begin :: "env \<Rightarrow> envelope \<Rightarrow> host \<Rightarrow> segment" where
  "interaction_begin ev e h = announce_begin ev [''ValueError''] (e_sender e) MT_INTERACTION_ACCEPTED
     (validate_interaction (pget (e_payload e) ''request_id'') (e_sender e) (e_payload e) (h_session h)) h"

definition interaction_command_begin :: "env \<Rightarrow> envelope \<Rightarrow> host \<Rightarrow> segment" where
  "interaction_command_begin ev e h =
     announce_begin ev [''TypeError'', ''ValueError''] (e_sender e) MT_INTERACTION_COMMAND_ACCEPTED
       (validate_command (e_sender e) (e_payload e) (h_session h)) h"

definition interaction_cancel_begin :: "env \<Rightarrow> envelope \<Rightarrow> host \<Rightarrow> segment" where
  "interaction_cancel_begin ev e h = announce_begin ev [''ValueError''] (e_sender e) MT_INTERACTION_CANCEL
     (cancel_interaction (cancel_id (e_payload e) (h_session h)) (e_sender e) (e_payload e) (h_session h)) h"

definition lock_release_begin :: "envelope \<Rightarrow> host \<Rightarrow> segment" where
  "lock_release_begin e h =
     (with_session (\<lambda>s. s\<lparr>hs_build := fst (release_lock (e_sender e) (hs_build s))\<rparr>) h,
      cast (mt_value MT_BUILD_LOCK_STATE) [(''owner_id'', VNone)])"

definition build_operation_begin :: "env \<Rightarrow> envelope \<Rightarrow> host \<Rightarrow> segment" where
  "build_operation_begin ev e h =
     (let failed = catching [''PermissionError'', ''KeyError'', ''TypeError''] (error_reply ev (e_sender e))
      in case submit_arguments (e_payload e) of
           Inl err \<Rightarrow> at_once (failed (h, Some err))
         | Inr (op, data) \<Rightarrow>
            (case submit (ev_now ev) (e_sender e) op data (hs_build (h_session h)) of
               (a, Inl err) \<Rightarrow> at_once (failed (with_session (\<lambda>s. s\<lparr>hs_build := a\<rparr>) h, Some err))
             | (a, Inr o1) \<Rightarrow>
                 (with_session (\<lambda>s. s\<lparr>hs_build := a\<rparr>) h, cast_host (mt_value MT_BUILD_APPLY) (apply_payload o1))))"

text \<open>\<open>_dispatch\<close>. The handlers without a broadcast are those of \<open>Net\<close>.\<close>

definition dispatch_begin :: "env \<Rightarrow> envelope \<Rightarrow> host \<Rightarrow> segment" where
  "dispatch_begin ev e h =
     (case mt_of (e_type e) of
        Some MT_PING \<Rightarrow> at_once (handle_ping ev e h)
      | Some MT_READINESS \<Rightarrow> answered [''ValueError'', ''KeyError''] (e_sender e)
          (readiness_begin (e_sender e) (filter (\<lambda>kv. fst kv \<in> set readiness_allowed) (e_payload e)) h)
      | Some MT_SAVE_ACK \<Rightarrow> answered [''ValueError'', ''KeyError''] (e_sender e) (save_ack_begin e h)
      | Some MT_SAVE_ERROR \<Rightarrow> readiness_begin (e_sender e)
          [(''error'', VStr (''save_sync:'' @ py_str (pget_default (e_payload e) ''reason'' (VStr ''unknown''))))] h
      | Some MT_CLOCK_REQUEST_SPEED \<Rightarrow> clock_speed_begin ev e h
      | Some MT_CLOCK_REQUEST_PAUSE \<Rightarrow> clock_pause_begin e h
      | Some MT_CLOCK_RESYNC \<Rightarrow> at_once (handle_clock_resync ev e h)
      | Some MT_COMMAND_REQUEST \<Rightarrow> answered [''ValueError''] (e_sender e) (command_begin ev e h)
      | Some MT_DIALOG_RESPONSE \<Rightarrow> answered [''ValueError''] (e_sender e) (dialog_begin e h)
      | Some MT_SNAPSHOT_REQUEST \<Rightarrow> at_once (handle_snapshot_request ev e h)
      | Some MT_BUILD_LOCK_REQUEST \<Rightarrow> lock_request_begin ev e h
      | Some MT_SIM_SELECT \<Rightarrow> sim_select_begin ev e h
      | Some MT_SIM_STATE \<Rightarrow> sim_state_begin ev e h
      | Some MT_INTERACTION_REQUEST \<Rightarrow> interaction_begin ev e h
      | Some MT_INTERACTION_COMMAND \<Rightarrow> interaction_command_begin ev e h
      | Some MT_INTERACTION_CANCEL \<Rightarrow> interaction_cancel_begin ev e h
      | Some MT_BUILD_LOCK_RELEASE \<Rightarrow> lock_release_begin e h
      | Some MT_BUILD_OPERATION \<Rightarrow> build_operation_begin ev e h
      | _ \<Rightarrow> network_begin ev e h)"

section \<open>The life of a connection, and a save\<close>

definition drop_flow :: "string \<Rightarrow> flow" where
  "drop_flow pid = one_piece (\<lambda>ev h. (finish_conn (Some pid) h, None))"

text \<open>
  The first line; \<open>Some pid\<close> when the player has joined and its lines are read as soon as the flow
  ends. A refused newcomer is told so, then the \<open>finally\<close> drops the id it claimed.
\<close>

definition accept_begin :: "env \<Rightarrow> py_error + envelope \<Rightarrow> host \<Rightarrow> segment \<times> string option" where
  "accept_begin ev line h =
     (case line of
        Inl err \<Rightarrow> ((h, Ends None), None)
      | Inr e \<Rightarrow>
         if e_type e \<noteq> mt_value MT_HELLO then ((h, Ends None), None)
         else if map_of (h_peers h) (e_sender e) \<noteq> None \<or> e_sender e = h_id h
         then ((newcomer_error ''duplicate_player_id'' h, drop_flow (e_sender e)), None)
         else case hello_manifest e of
           Inl err \<Rightarrow>
             if exc_class err \<in> {''TypeError'', ''ValueError''}
             then ((newcomer_error (''invalid_manifest:'' @ exc_text err) h, drop_flow (e_sender e)), None)
             else ((h, drop_flow (e_sender e)), None)
         | Inr m \<Rightarrow> (at_once (join_player ev e m h), Some (e_sender e)))"

definition line_begin :: "env \<Rightarrow> string \<Rightarrow> py_error + envelope \<Rightarrow> host \<Rightarrow> segment" where
  "line_begin ev pid line h =
     (case line of
        Inl err \<Rightarrow> (h, Ends (Some err))
      | Inr e \<Rightarrow>
         if e_sender e \<noteq> pid then at_once (send_error ev pid ''sender_id_mismatch'' h)
         else if stale pid e h then (h, Ends None)
         else dispatch_begin ev e (note_seq pid e h))"

text \<open>\<open>stream_save_to\<close>: other tasks run between two messages.\<close>

fun send_flow :: "string \<Rightarrow> (string \<times> pydict) list \<Rightarrow> flow" where
  "send_flow pid [] = Ends None"
| "send_flow pid (m # ms) = Piece (\<lambda>ev h.
     case send_to ev pid (fst m) (snd m) h of
       (h1, Some err) \<Rightarrow> (h1, Ends (Some err))
     | (h1, None) \<Rightarrow> (h1, send_flow pid ms))"

definition stream_begin :: "string \<Rightarrow> save_slot \<Rightarrow> byte list \<Rightarrow> int \<Rightarrow> host \<Rightarrow> segment" where
  "stream_begin pid slot bytes chunk_size h =
     (h, case save_messages (hs_id (h_session h)) slot bytes chunk_size of
           Inl e \<Rightarrow> Ends (Some e)
         | Inr ms \<Rightarrow> send_flow pid ms)"

section \<open>The events of the host's game\<close>

definition game_readiness_begin :: "env \<Rightarrow> pydict \<Rightarrow> bool \<Rightarrow> host \<Rightarrow> segment" where
  "game_readiness_begin ev fs welcome h =
     (case update_readiness (h_id h) fs (h_session h) of
        (s, Inl e) \<Rightarrow> (put_session s h, Ends (Some e))
      | (s, Inr r) \<Rightarrow>
         (if welcome
          then tell_game ev ''sidecar.welcome''
             [(''role'', VStr ''host''), (''player_id'', VStr (h_id h)), (''protocol_version'', VInt 1)]
             (put_session s h)
          else put_session s h,
          case readiness_snapshot r of
            Inl e \<Rightarrow> Ends (Some e)
          | Inr d \<Rightarrow> cast (mt_value MT_READINESS) ((''player_id'', VStr (h_id h)) # d)))"

definition game_clock_begin :: "pydict \<Rightarrow> host \<Rightarrow> segment" where
  "game_clock_begin payload h =
     (case py_int (pget_default payload ''speed'' (VInt (ck_speed (hs_clock (h_session h))))) of
        Inl e \<Rightarrow> (h, Ends (Some e))
      | Inr speed \<Rightarrow>
          if speed \<notin> {0, 1, 2, 3} then (h, Ends None)
          else (let h1 = set_clock speed (speed = 0) h
                in (h1, cast (mt_value MT_CLOCK_STATE) (clock_dict (hs_clock (h_session h1))))))"

definition game_sim_select_begin :: "env \<Rightarrow> pydict \<Rightarrow> host \<Rightarrow> segment" where
  "game_sim_select_begin ev payload h =
     (case select_sim (h_id h) (py_str (pget payload ''sim_id'')) (h_session h) of
        (s, Inl e) \<Rightarrow>
          (tell_game ev (mt_value MT_ERROR) [(''reason'', VStr (exc_text e))] (put_session s h), Ends None)
      | (s, Inr state) \<Rightarrow> (put_session s h, cast_host (mt_value MT_SIM_SELECTION_STATE) state))"

definition game_interaction_begin :: "env \<Rightarrow> pydict \<Rightarrow> host \<Rightarrow> segment" where
  "game_interaction_begin ev payload0 h =
     (let payload = with_player (h_id h) payload0 in
      case validate_interaction (pget payload ''request_id'') (h_id h) payload (h_session h) of
        (s, Inl e) \<Rightarrow>
          at_once (reject_local ev [''ValueError''] MT_INTERACTION_REJECTED payload e (put_session s h))
      | (s, Inr request) \<Rightarrow>
          deliver_begin ev MT_INTERACTION_REQUEST MT_INTERACTION_REJECTED request
            (cast (mt_value MT_INTERACTION_ACCEPTED) request) (put_session s h))"

definition game_interaction_command_begin :: "env \<Rightarrow> pydict \<Rightarrow> host \<Rightarrow> segment" where
  "game_interaction_command_begin ev payload0 h =
     (let payload = with_player (h_id h) payload0 in
      case validate_command (h_id h) payload (h_session h) of
        (s, Inl e) \<Rightarrow>
          at_once (reject_local ev [''TypeError'', ''ValueError''] MT_INTERACTION_COMMAND_REJECTED payload e
                     (put_session s h))
      | (s, Inr request) \<Rightarrow>
          deliver_begin ev MT_INTERACTION_COMMAND MT_INTERACTION_COMMAND_REJECTED request
            (cast (mt_value MT_INTERACTION_COMMAND_ACCEPTED) request) (put_session s h))"

definition game_interaction_cancel_begin :: "env \<Rightarrow> pydict \<Rightarrow> host \<Rightarrow> segment" where
  "game_interaction_cancel_begin ev payload h =
     (case cancel_interaction (cancel_id payload (h_session h)) (h_id h) payload (h_session h) of
        (s, Inl e) \<Rightarrow>
          at_once (reject_local ev [''ValueError''] MT_INTERACTION_REJECTED payload e (put_session s h))
      | (s, Inr request) \<Rightarrow>
          (tell_game ev (mt_value MT_INTERACTION_CANCEL) request (put_session s h),
           cast (mt_value MT_INTERACTION_CANCEL) request))"

definition game_build_begin :: "env \<Rightarrow> pydict \<Rightarrow> host \<Rightarrow> segment" where
  "game_build_begin ev payload h =
     (let failed = (\<lambda>e h1. if exc_class e \<in> {''PermissionError'', ''ValueError'', ''TypeError''}
             then (tell_game ev (mt_value MT_ERROR) [(''reason'', VStr (exc_text e))] h1, Ends None)
             else (h1, Ends (Some e)))
      in case request_lock (ev_now ev) (ev_ns ev) (h_id h) (hs_build (h_session h)) of
           (a, False) \<Rightarrow>
             (tell_game ev ''build.lock_state'' [(''owner_id'', lock_owner a)] (put_build a h), Ends None)
         | (a, True) \<Rightarrow>
            (case py_dict (py_or (pget payload ''data'') (VDict [])) of
               Inl e \<Rightarrow> failed e (put_build a h)
             | Inr data \<Rightarrow>
            (case submit (ev_now ev) (h_id h) (py_str (pget payload ''op'')) data a of
               (b, Inl e) \<Rightarrow> failed e (put_build b h)
             | (b, Inr o1) \<Rightarrow> (put_build b h, cast (mt_value MT_BUILD_APPLY) (host_apply_payload o1)))))"

definition game_lock_request_begin :: "env \<Rightarrow> host \<Rightarrow> segment" where
  "game_lock_request_begin ev h =
     (case request_lock (ev_now ev) (ev_ns ev) (h_id h) (hs_build (h_session h)) of
        (a, granted) \<Rightarrow>
          (let out = [(''owner_id'', lock_owner a), (''granted_to'', granted_to (h_id h) granted)];
               ty = mt_value MT_BUILD_LOCK_STATE
           in (tell_game ev ty out (put_build a h), cast ty out)))"

definition game_lock_release_begin :: "env \<Rightarrow> host \<Rightarrow> segment" where
  "game_lock_release_begin ev h =
     (let a = fst (release_lock (h_id h) (hs_build (h_session h)));
          out = [(''owner_id'', lock_owner a)];
          ty = mt_value MT_BUILD_LOCK_STATE
      in (tell_game ev ty out (put_build a h), cast ty out))"

definition game_sims_begin :: "env \<Rightarrow> pydict \<Rightarrow> host \<Rightarrow> segment" where
  "game_sims_begin ev payload h =
     (case py_iter (pget_default payload ''sims'' (VList [])) of
        Inl e \<Rightarrow> (h, Ends (Some e))
      | Inr sims \<Rightarrow>
      (case update_sims sims (h_session h) of
         (s, Some e) \<Rightarrow> (put_session s h, Ends (Some e))
       | (s, None) \<Rightarrow>
          (put_session s h,
           case session_snapshot (ev_now ev) s of
             Inl e \<Rightarrow> Ends (Some e)
           | Inr d \<Rightarrow> cast (mt_value MT_SIM_STATE) d)))"

definition game_result_begin :: "message_type \<Rightarrow> pydict \<Rightarrow> host \<Rightarrow> segment" where
  "game_result_begin mt payload h =
     (let rid = py_str (py_or (pget payload ''request_id'') (VStr []));
          s1 = put_request_field rid ''status'' (VStr (last_part (mt_value mt))) (h_session h);
          s2 = (if pget payload ''interaction_id'' = VNone then s1
                else put_request_field rid ''interaction_id'' (VStr (py_str (pget payload ''interaction_id''))) s1)
      in (put_session s2 h, cast (mt_value mt) payload))"

text \<open>The two events that count, up to their broadcast.\<close>

type_synonym counted_segment = "host_runtime \<times> flow"

definition counted :: "(host \<Rightarrow> segment) \<Rightarrow> host_runtime \<Rightarrow> counted_segment" where
  "counted f r = (case f (hr_host r) of (h, p) \<Rightarrow> (r\<lparr>hr_host := h\<rparr>, p))"

definition game_raw_begin :: "env \<Rightarrow> pydict \<Rightarrow> host_runtime \<Rightarrow> counted_segment" where
  "game_raw_begin ev payload r =
     (case raw_message payload of
        Inl e \<Rightarrow> (r\<lparr>hr_host := tell_game ev (mt_value MT_ERROR) (raw_error e) (hr_host r)\<rparr>, Ends None)
      | Inr (msg_id, raw) \<Rightarrow>
        (let seq = hr_game_seq r + 1;
             out = [(''msg_id'', VInt msg_id), (''sequence'', VInt seq), (''payload_b64'', VStr (b64encode raw))] @
               (case active_epoch (host_travel (hr_host r)) of None \<Rightarrow> [] | Some ep \<Rightarrow> [(''epoch'', VInt ep)])
         in (r\<lparr>hr_sent := hr_sent r + 1, hr_last_size := int (length raw), hr_last_id := Some msg_id,
               hr_game_seq := seq\<rparr>, cast (mt_value MT_GAME_RAW_MESSAGE) out)))"

definition game_view_begin :: "env \<Rightarrow> pydict \<Rightarrow> host_runtime \<Rightarrow> counted_segment" where
  "game_view_begin ev payload r =
     (case py_int (pget_default payload ''epoch'' (VInt 0)) of
        Inl e \<Rightarrow> (r, Ends (Some e))
      | Inr epoch \<Rightarrow>
      (case tc_current (host_travel (hr_host r)) of
         None \<Rightarrow> (r, Ends None)
       | Some t \<Rightarrow>
          if tx_epoch t \<noteq> epoch then (r, Ends None)
          else (let kind = py_lower (py_str (pget_default payload ''kind'' (VStr [])));
                    out = batch_dict (tx_id t) epoch kind;
                    ty = mt_value MT_TRAVEL_VIEW_BATCH
                in (r\<lparr>hr_host := (if kind = ''begin'' then tell_game ev ty out (hr_host r) else hr_host r),
                      hr_batch_open := (kind = ''begin'')\<rparr>,
                    cast_then ty out
                      (if kind = ''end'' then one_piece (\<lambda>ev h. (tell_game ev ty out h, None)) else Ends None)))))"

definition game_begin :: "env \<Rightarrow> string \<Rightarrow> pydict \<Rightarrow> host_runtime \<Rightarrow> counted_segment" where
  "game_begin ev ty payload r =
     (if ty = ''game.hello''
      then counted (game_readiness_begin ev [(''bridge_connected'', VBool True)] True) r
      else if ty = ''simulation.authority''
      then counted (game_readiness_begin ev
             [(''bridge_connected'', VBool True), (''simulation_authority_ready'', VBool True)] False) r
      else if ty = ''sims.state'' then counted (game_sims_begin ev payload) r
      else case mt_of ty of
        Some MT_CLOCK_STATE \<Rightarrow> counted (game_clock_begin payload) r
      | Some MT_GAME_RAW_MESSAGE \<Rightarrow> game_raw_begin ev payload r
      | Some MT_TRAVEL_VIEW_BATCH \<Rightarrow> game_view_begin ev payload r
      | Some MT_SIM_SELECT \<Rightarrow> counted (game_sim_select_begin ev payload) r
      | Some MT_INTERACTION_REQUEST \<Rightarrow> counted (game_interaction_begin ev payload) r
      | Some MT_INTERACTION_COMMAND \<Rightarrow> counted (game_interaction_command_begin ev payload) r
      | Some MT_INTERACTION_CANCEL \<Rightarrow> counted (game_interaction_cancel_begin ev payload) r
      | Some MT_TRAVEL_REQUEST \<Rightarrow> counted (\<lambda>h. start_travel_begin ev payload (h_id h) h) r
      | Some MT_TRAVEL_READY \<Rightarrow> counted (\<lambda>h. travel_ready_begin (h_id h) payload h) r
      | Some MT_TRAVEL_ZONE_READY \<Rightarrow> counted (\<lambda>h. travel_zone_ready_begin ev (h_id h) payload h) r
      | Some MT_TRAVEL_ABORT \<Rightarrow> counted (abort_begin ''game_abort'' payload) r
      | Some MT_BUILD_OPERATION \<Rightarrow> counted (game_build_begin ev payload) r
      | Some MT_BUILD_LOCK_REQUEST \<Rightarrow> counted (game_lock_request_begin ev) r
      | Some MT_BUILD_LOCK_RELEASE \<Rightarrow> counted (game_lock_release_begin ev) r
      | Some MT_SIM_STATE \<Rightarrow> counted (game_sims_begin ev payload) r
      | Some t \<Rightarrow>
          if t \<in> {MT_INTERACTION_ACCEPTED, MT_INTERACTION_REJECTED, MT_INTERACTION_COMMAND_ACCEPTED,
                  MT_INTERACTION_COMMAND_REJECTED, MT_INTERACTION_QUEUED, MT_INTERACTION_STARTED,
                  MT_INTERACTION_FINISHED}
          then counted (game_result_begin t payload) r else (r, Ends None)
      | None \<Rightarrow> (r, Ends None))"

section \<open>A flow that is left alone\<close>

lemma finish_at_once [simp]: "finish ev (at_once r) = r"
  by (simp add: finish_def at_once_def)

lemma finish_pair: "finish ev (h, p) = run ev p h"
  by (simp add: finish_def)

lemma finish_ends [simp]: "finish ev (h, Ends x) = (h, x)"
  by (simp add: finish_def)

lemma run_piece [simp]: "run ev (Piece g) h = finish ev (g ev h)"
  by (cases "g ev h") (simp add: finish_def)

declare run.simps(2) [simp del]

lemma run_one_piece [simp]: "run ev (one_piece f) h = f ev h"
  by (simp add: one_piece_def)

lemma run_cast_then: "run ev (cast_then ty d p) h = run ev p (broadcast ev ty d h)"
  by (simp add: cast_then_def)

lemma run_cast [simp]: "run ev (cast ty d) h = (broadcast ev ty d h, None)"
  by (simp add: cast_def run_cast_then)

lemma finish_cast [simp]: "finish ev (h, cast ty d) = (broadcast ev ty d h, None)"
  by (simp add: finish_pair)

lemma run_caught: "run ev (caught cs f p) h = catching cs (\<lambda>e. run ev (f e)) (run ev p h)"
proof (induction p arbitrary: h)
  case (Ends x)
  then show ?case by (simp add: catching_def split: option.split)
next
  case (Piece g)
  obtain h1 q where g: "g ev h = (h1, q)" by (cases "g ev h")
  have "run ev (caught cs f q) h1 = catching cs (\<lambda>e. run ev (f e)) (run ev q h1)"
    using Piece [of "g ev" "(h1, q)" q h1] g by (metis rangeI prod_set_simps(2) singletonI snd_conv snds.intros)
  then show ?case by (simp add: finish_def g)
qed simp

lemma finish_answered:
  "finish ev (answered cs pid s) = catching cs (error_reply ev pid) (finish ev s)"
  by (cases s) (simp add: answered_def finish_def run_caught fun_eq_iff [symmetric] catching_def split: prod.split option.split)

text \<open>Each beginning, finished, is the handler of \<open>Net\<close> or \<open>Host_Runtime\<close>.\<close>

named_theorems finished_flow

lemma finish_start_travel [finished_flow]: "finish ev (start_travel_begin ev d q h) = start_travel ev d q h"
  by (simp add: start_travel_begin_def start_travel_def Let_def split: sum.split prod.split)

lemma run_commit: "run ev (commit_flow t i) h = commit_travel ev t i h"
  by (simp add: commit_flow_def commit_travel_def Let_def run_cast_then zone_wait_def finish_def split: sum.split)

lemma finish_travel_ready [finished_flow]: "finish ev (travel_ready_begin pid d h) = travel_ready ev pid d h"
  by (simp add: travel_ready_begin_def travel_ready_def Let_def finish_def run_commit
      split: sum.split prod.split option.split bool.split)

lemma finish_zone_ready [finished_flow]:
  "finish ev (travel_zone_ready_begin ev pid d h) = travel_zone_ready ev pid d h"
  by (simp add: travel_zone_ready_begin_def travel_zone_ready_def Let_def split: sum.split prod.split option.split)

lemma finish_abort [finished_flow]: "finish ev (abort_begin q d h) = abort_current ev q d h"
  by (simp add: abort_begin_def abort_current_def split: sum.split option.split)

lemma finish_deliver [finished_flow]:
  "finish ev (deliver_begin ev mt rej d rest h) =
     (case deliver_or_reject ev mt rej d h of (h1, True) \<Rightarrow> run ev rest h1 | (h1, False) \<Rightarrow> (h1, None))"
  by (simp add: deliver_begin_def deliver_or_reject_def finish_pair split: prod.split bool.split)

lemma finish_network: "finish ev (network_begin ev e h) = network_message ev e h"
proof (cases "mt_of (e_type e)")
  case (Some t)
  then show ?thesis
    by (cases t) (simp_all add: network_begin_def network_message_def finished_flow split: prod.split bool.split)
qed (simp add: network_begin_def network_message_def)

lemma finish_cast_host [finished_flow]:
  "finish ev (h, cast_host ty d) = broadcast_host (runtime_callback ev) ev ty d h"
proof -
  have "finish ev (h, cast_host ty d) =
      (let e = make_envelope ty d (h_id h) (Some (h_seq h + 1)) (ev_uuid ev) VNone
       in finish ev (network_begin ev e (broadcast ev ty d h)))"
    by (simp add: cast_host_def finish_pair)
  then show ?thesis by (simp add: broadcast_host_def runtime_callback_def finish_network Let_def)
qed

lemma finish_readiness [finished_flow]:
  "finish ev (readiness_begin pid fs h) = publish_readiness (runtime_callback ev) ev pid fs h"
  by (simp add: readiness_begin_def publish_readiness_def finished_flow split: prod.split sum.split)

lemma finish_reports [finished_flow]:
  "finish ev (answered [''ValueError'', ''KeyError''] (e_sender e) (readiness_begin (e_sender e)
     (filter (\<lambda>kv. fst kv \<in> set readiness_allowed) (e_payload e)) h)) = handle_readiness (runtime_callback ev) ev e h"
  "finish ev (answered [''ValueError'', ''KeyError''] (e_sender e) (save_ack_begin e h)) =
     handle_save_ack (runtime_callback ev) ev e h"
  by (simp_all add: finish_answered save_ack_begin_def handle_readiness_def handle_save_ack_def finished_flow
      split: sum.split)

lemma finish_clock [finished_flow]:
  "finish ev (clock_begin speed paused h) = publish_clock (runtime_callback ev) ev (set_clock speed paused h)"
  by (simp add: clock_begin_def publish_clock_def finished_flow Let_def)

lemma finish_clock_handlers [finished_flow]:
  "finish ev (clock_speed_begin ev e h) = handle_clock_speed (runtime_callback ev) ev e h"
  "finish ev (clock_pause_begin e h) = handle_clock_pause (runtime_callback ev) ev e h"
  by (simp_all add: clock_speed_begin_def handle_clock_speed_def clock_pause_begin_def handle_clock_pause_def
      finished_flow Let_def split: sum.split)

lemma finish_routers [finished_flow]:
  "finish ev (answered [''ValueError''] (e_sender e) (command_begin ev e h)) = handle_command (runtime_callback ev) ev e h"
  "finish ev (answered [''ValueError''] (e_sender e) (dialog_begin e h)) = handle_dialog_response (runtime_callback ev) ev e h"
  by (simp_all add: finish_answered command_begin_def handle_command_def dialog_begin_def handle_dialog_response_def
      finished_flow split: sum.split prod.split)

lemma finish_locks [finished_flow]:
  "finish ev (lock_request_begin ev e h) = handle_lock_request ev e h"
  "finish ev (lock_release_begin e h) = handle_lock_release ev e h"
  by (simp_all add: lock_request_begin_def handle_lock_request_def lock_release_begin_def handle_lock_release_def
      split: prod.split)

lemma finish_sims [finished_flow]:
  "finish ev (sim_select_begin ev e h) = handle_sim_select (runtime_callback ev) ev e h"
  "finish ev (sim_state_begin ev e h) = handle_sim_state (runtime_callback ev) ev e h"
  by (simp_all add: sim_select_begin_def handle_sim_select_def sim_state_begin_def handle_sim_state_def
      finished_flow split: prod.split sum.split option.split)

lemma finish_interactions [finished_flow]:
  "finish ev (interaction_begin ev e h) = handle_interaction_request (runtime_callback ev) ev e h"
  "finish ev (interaction_command_begin ev e h) = handle_interaction_command (runtime_callback ev) ev e h"
  "finish ev (interaction_cancel_begin ev e h) = handle_interaction_cancel (runtime_callback ev) ev e h"
  by (simp_all add: interaction_begin_def handle_interaction_request_def interaction_command_begin_def
      handle_interaction_command_def interaction_cancel_begin_def handle_interaction_cancel_def announce_begin_def
      finished_flow split: prod.split sum.split)

lemma finish_build_operation [finished_flow]:
  "finish ev (build_operation_begin ev e h) = handle_build_operation (runtime_callback ev) ev e h"
  by (simp add: build_operation_begin_def handle_build_operation_def finished_flow Let_def
      split: prod.split sum.split)

lemma handle_other_runtime: "handle_other (runtime_callback ev) e h = network_message ev e h"
  by (simp add: handle_other_def runtime_callback_def)

lemma finish_dispatch: "finish ev (dispatch_begin ev e h) = dispatch (runtime_callback ev) ev e h"
proof (cases "mt_of (e_type e)")
  case (Some t)
  then show ?thesis
    by (cases t) (simp_all add: dispatch_begin_def dispatch_def finished_flow finish_network
        handle_other_runtime handle_save_error_def)
qed (simp add: dispatch_begin_def dispatch_def finish_network handle_other_runtime)

lemma finish_line:
  "finish ev (line_begin ev pid (Inr e) h) = process_line (runtime_callback ev) ev pid e h"
  by (simp add: line_begin_def process_line_def finish_dispatch)

lemma run_send: "run ev (send_flow pid ms) h = send_all ev pid ms h"
proof -
  have fold: "fold (\<lambda>m r. and_then r (send_to ev pid (fst m) (snd m))) ms (h, Some e) = (h, Some e)" for ms h e
    by (induction ms) (simp_all add: and_then_def)
  show ?thesis
  proof (induction ms arbitrary: h)
    case (Cons m ms)
    obtain h1 x where s: "send_to ev pid (fst m) (snd m) h = (h1, x)" by (cases "send_to ev pid (fst m) (snd m) h")
    show ?case
      using Cons fold by (cases x) (simp_all add: send_all_def and_then_def s finish_pair)
  qed (simp add: send_all_def)
qed

lemma finish_stream: "finish ev (stream_begin pid slot bytes cs h) = stream_save_to ev pid slot bytes cs h"
  by (simp add: stream_begin_def stream_save_to_def finish_pair run_send split: sum.split)

text \<open>The events of the game, with their counters.\<close>

definition finish_counted :: "env \<Rightarrow> counted_segment \<Rightarrow> rres" where
  "finish_counted ev s = (case finish ev (hr_host (fst s), snd s) of (h, x) \<Rightarrow> ((fst s)\<lparr>hr_host := h\<rparr>, x))"

lemma finish_counted_host: "finish_counted ev (counted f r) = on_host (\<lambda>h. finish ev (f h)) r"
  by (cases "f (hr_host r)") (simp add: finish_counted_def counted_def on_host_def)

lemma finish_game_readiness [finished_flow]:
  "finish ev (game_readiness_begin ev [(''bridge_connected'', VBool True)] True h) = game_hello ev h"
  "finish ev (game_readiness_begin ev [(''bridge_connected'', VBool True), (''simulation_authority_ready'', VBool True)]
     False h) = game_authority ev h"
  by (simp_all add: game_readiness_begin_def game_hello_def game_authority_def broadcast_readiness_def
      split: prod.split sum.split)

lemma finish_game_state [finished_flow]:
  "finish ev (game_clock_begin d h) = game_clock_state ev d h"
  "finish ev (game_sims_begin ev d h) = game_sims ev d h"
  "finish ev (game_result_begin mt d h) = game_interaction_result ev (mt_value mt) d h"
  by (simp_all add: game_clock_begin_def game_clock_state_def game_sims_begin_def game_sims_def
      game_result_begin_def game_interaction_result_def Let_def split: prod.split sum.split option.split)

lemma finish_game_interactions [finished_flow]:
  "finish ev (game_sim_select_begin ev d h) = game_sim_select ev d h"
  "finish ev (game_interaction_begin ev d h) = game_interaction ev d h"
  "finish ev (game_interaction_command_begin ev d h) = game_interaction_command ev d h"
  "finish ev (game_interaction_cancel_begin ev d h) = game_interaction_cancel ev d h"
  by (simp_all add: game_sim_select_begin_def game_sim_select_def game_interaction_begin_def game_interaction_def
      game_interaction_command_begin_def game_interaction_command_def game_interaction_cancel_begin_def
      game_interaction_cancel_def publish_local_def finished_flow Let_def
      split: prod.split sum.split bool.split)

lemma finish_game_build [finished_flow]:
  "finish ev (game_build_begin ev d h) = game_build_operation ev d h"
  "finish ev (game_lock_request_begin ev h) = game_lock_request ev h"
  "finish ev (game_lock_release_begin ev h) = game_lock_release ev h"
  by (simp_all add: game_build_begin_def game_build_operation_def game_lock_request_begin_def game_lock_request_def
      game_lock_release_begin_def game_lock_release_def Let_def split: prod.split sum.split bool.split) auto

lemma finish_raw: "finish_counted ev (game_raw_begin ev d r) = game_raw_message ev d r"
  by (simp add: finish_counted_def game_raw_begin_def game_raw_message_def Let_def split: sum.split prod.split)

lemma finish_view: "finish_counted ev (game_view_begin ev d r) = game_view_batch ev d r"
  by (simp add: finish_counted_def game_view_begin_def game_view_batch_def Let_def finish_pair run_cast_then
      split: sum.split option.split)

lemma finish_game: "finish_counted ev (game_begin ev ty d r) = game_event ev ty d r"
proof -
  have idle: "finish_counted ev (r, Ends x) = (r, x)" for x by (simp add: finish_counted_def)
  show ?thesis
  proof (cases "mt_of ty")
    case (Some t)
    then have "ty = mt_value t" by (simp add: mt_of_iff)
    then show ?thesis using Some
      by (cases t) (simp_all add: game_begin_def game_event_def finish_counted_host finished_flow finish_raw finish_view idle)
  qed (simp add: game_begin_def game_event_def finish_counted_host finished_flow idle)
qed

end
