(* ===== verification/Host_Loop.thy ===== *)
theory Host_Loop
  imports Host_Tasks
begin

text \<open>
  The event loop of the host: the flows of \<open>Host_Tasks\<close> as concurrent tasks. Every connection is a
  task that reads lines and handles each; every event of the game and every save transfer is a task
  of its own. What the pieces of the handlers do to the host is proved from their definitions;
  with it the invariant of the host holds between any two steps, however the tasks interleave.
\<close>

section \<open>What the pieces of a flow do\<close>

interpretation quiet_writes: host_writes "quiet h0" for h0
proof unfold_locales
  fix h s p m t d
  assume h: "quiet h0 h"
  note step = quiet_trans [OF h]
  show ok: "host_ok h" by (rule quiet_host_ok [OF h])
  show "session_ext (h_session h) s \<Longrightarrow> quiet h0 (put_session s h)"
    using put_session_ok [OF ok] by (intro step) (simp add: quiet_def)
  show "plain_output (h_seq h) (ToPeer p m) \<Longrightarrow> quiet h0 (emit (ToPeer p m) h)"
    using ok by (intro step) (auto simp: quiet_def plain_output_def intro: emit_peer_ok)
  show "quiet h0 (emit (ToGame t d) h)"
    using ok by (intro step) (simp add: quiet_def plain_output_def)
qed

text \<open>
  A flow whose every piece keeps the invariant and writes no number of its own, and whose
  broadcasts are of no snapshot, whatever they return.
\<close>

inductive good :: "flow \<Rightarrow> bool" where
  good_ends: "good (Ends x)"
| good_piece: "(\<And>ev h. host_ok h \<Longrightarrow> quiet h (fst (g ev h))) \<Longrightarrow> (\<And>ev h. host_ok h \<Longrightarrow> good (snd (g ev h))) \<Longrightarrow>
    good (Piece g)"
| good_cast_any: "ty \<noteq> mt_value MT_SNAPSHOT \<Longrightarrow> (\<And>x. good (k x)) \<Longrightarrow> good (Cast ty d k)"

inductive_simps good_simps [simp]: "good (Ends x)" "good (Piece g)" "good (Cast ty d k)"

definition fine :: "host \<Rightarrow> segment \<Rightarrow> bool" where
  "fine h s \<longleftrightarrow> quiet h (fst s) \<and> good (snd s)"

lemma fineI: "quiet h h' \<Longrightarrow> good p \<Longrightarrow> fine h (h', p)"
  by (simp add: fine_def)

lemma at_once_parts [simp]: "fst (at_once r) = fst r" "good (snd (at_once r))"
  by (simp_all add: at_once_def)

lemma fine_at_once [simp]: "fine h (at_once r) \<longleftrightarrow> quiet h (fst r)"
  by (simp add: fine_def)

lemma good_one_piece: "(\<And>ev h. host_ok h \<Longrightarrow> quiet h (fst (f ev h))) \<Longrightarrow> good (one_piece f)"
  by (simp add: one_piece_def at_once_def)

lemma snapshot_type [simp]: "mt_value mt = mt_value MT_SNAPSHOT \<longleftrightarrow> mt = MT_SNAPSHOT"
  by (metis mt_of_value option.inject)

lemma good_cast_then: "mt \<noteq> MT_SNAPSHOT \<Longrightarrow> good p \<Longrightarrow> good (cast_then (mt_value mt) d p)"
  by (simp add: cast_then_def split: sum.split)

lemma good_cast [simp]: "mt \<noteq> MT_SNAPSHOT \<Longrightarrow> good (cast (mt_value mt) d)"
  by (simp add: cast_def good_cast_then)

lemma good_caught: "good p \<Longrightarrow> (\<And>e. good (f e)) \<Longrightarrow> good (caught cs f p)"
  by (induction rule: good.induct) (auto split: option.split)

lemma fine_answered: "fine h s \<Longrightarrow> fine h (answered cs pid s)"
  by (cases s) (auto simp: fine_def answered_def quiet_refl intro!: good_caught good_one_piece)

subsection \<open>The host runtime\<close>

lemma fine_start_travel: "host_ok h \<Longrightarrow> fine h (start_travel_begin ev payload q h)"
proof -
  assume h: "host_ok h"
  note t = host_travel_parts [OF h] and q = quiet_refl [OF h]
  have "quiet h (put_travel c h)"
    if "propose i z as (map fst (hs_players (h_session h))) (host_travel h) = Inr (c, x)" for i z as c x
    using t propose_ok [OF _ that] travellers_propose [OF that] by (intro quiet_writes.P_put_travel [OF q]) simp_all
  then show ?thesis using q by (auto simp: start_travel_begin_def fine_def Let_def split: sum.splits prod.splits)
qed

lemma quiet_zone_wait: "host_ok h \<Longrightarrow> quiet h (fst (zone_wait i h))"
proof -
  assume h: "host_ok h"
  have "quiet h (put_travel c h)" if "begin_zone_wait i (host_travel h) = Inr c" for c
    using host_travel_parts [OF h] begin_zone_wait_ok [OF _ that] travellers_ops(3) [OF _ that]
    by (intro quiet_writes.P_put_travel [OF quiet_refl [OF h]]) blast+
  then show ?thesis using quiet_refl [OF h] by (simp add: zone_wait_def split: sum.split)
qed

lemma good_commit: "good (commit_flow t i)"
  by (auto simp: commit_flow_def Let_def quiet_refl intro!: good_cast_then good_one_piece quiet_zone_wait)

lemma fine_travel_ready: "host_ok h \<Longrightarrow> fine h (travel_ready_begin pid payload h)"
proof -
  assume h: "host_ok h"
  note t = host_travel_parts [OF h] and q = quiet_refl [OF h]
  have "quiet h (put_travel c h)" if "mark_ready pid i ep (host_travel h) = Inr (c, b)" for i ep c b
    using t mark_ready_ok [OF _ that] travellers_ops(1) [OF _ that]
    by (intro quiet_writes.P_put_travel [OF q]) blast+
  then show ?thesis
    using q by (auto simp: travel_ready_begin_def fine_def good_commit Let_def split: sum.splits prod.splits option.splits bool.splits)
qed

lemma fine_zone_ready: "host_ok h \<Longrightarrow> fine h (travel_zone_ready_begin ev pid payload h)"
proof -
  assume h: "host_ok h"
  note t = host_travel_parts [OF h] and q = quiet_refl [OF h]
  have "quiet h (put_travel c h)" if "mark_zone_ready pid i ep (host_travel h) = Inr (c, b)" for i ep c b
    using t mark_zone_ready_ok [OF _ that] travellers_ops(2) [OF _ that]
    by (intro quiet_writes.P_put_travel [OF q]) blast+
  then show ?thesis
    using q by (auto simp: travel_zone_ready_begin_def fine_def Let_def split: sum.splits prod.splits option.splits)
qed

lemma fine_abort: "host_ok h \<Longrightarrow> fine h (abort_begin reason payload h)"
proof -
  assume h: "host_ok h"
  note t = host_travel_parts [OF h] and q = quiet_refl [OF h]
  have "quiet h (put_travel c h)" if "abort_travel i (host_travel h) = Inr c" for i c
    using t abort_travel_ok [OF _ that] travellers_ops(4) [OF _ that]
    by (intro quiet_writes.P_put_travel [OF q]) blast+
  then show ?thesis using q by (auto simp: abort_begin_def fine_def split: sum.splits option.splits)
qed

lemma fine_deliver:
  "quiet h0 h \<Longrightarrow> good p \<Longrightarrow> rej \<noteq> MT_SNAPSHOT \<Longrightarrow> fine h0 (deliver_begin ev mt rej d p h)"
  by (simp add: deliver_begin_def game_send_def fine_def)

lemma fine_network: "host_ok h \<Longrightarrow> fine h (network_begin ev e h)"
proof -
  assume h: "host_ok h"
  note q = quiet_refl [OF h]
  show ?thesis
  proof (cases "mt_of (e_type e)")
    case (Some t)
    then show ?thesis
      by (cases t) (simp_all add: network_begin_def network_message_def fine_start_travel [OF h] fine_travel_ready [OF h]
          fine_zone_ready [OF h] fine_abort [OF h] fine_deliver [OF q] q)
  qed (simp add: network_begin_def network_message_def q)
qed

lemma good_cast_host [simp]: "mt \<noteq> MT_SNAPSHOT \<Longrightarrow> good (cast_host (mt_value mt) d)"
  using fine_network by (auto simp: cast_host_def fine_def split: sum.split)

subsection \<open>The messages of a guest\<close>

text \<open>The session operations of the handlers, as pieces.\<close>

lemma put_readiness_quiet:
  "host_ok h \<Longrightarrow> update_readiness pid fs (h_session h) = (s, x) \<Longrightarrow> quiet h (put_session s h)"
  by (rule quiet_writes.P_put_readiness [OF quiet_refl])

lemmas put_validated_quiet = quiet_writes.P_put_validated [OF quiet_refl]

lemma put_routers_quiet:
  assumes ok: "host_ok h"
  shows "dispatch_command now uuid pid fam p rid (hs_commands (h_session h)) = (r, x) \<Longrightarrow>
     quiet h (with_session (\<lambda>s. s\<lparr>hs_commands := r\<rparr>) h)"
    "respond_dialog pid did resp (hs_dialogs (h_session h)) = (d, y) \<Longrightarrow>
     quiet h (with_session (\<lambda>s. s\<lparr>hs_dialogs := d\<rparr>) h)"
  using dispatch_command_ok [OF host_parts(2) [OF ok], of now uuid pid fam p rid]
    respond_dialog_ok [OF host_parts(3) [OF ok], of pid did resp]
  by (auto intro: quiet_writes.put_commands_ok quiet_writes.put_dialogs_ok quiet_refl [OF ok])

lemma put_locks_quiet:
  assumes ok: "host_ok h"
  shows "request_lock now ns pid (hs_build (h_session h)) = (a, g) \<Longrightarrow>
     quiet h (with_session (\<lambda>s. s\<lparr>hs_build := a\<rparr>) h)"
    "submit now pid op data (hs_build (h_session h)) = (b, x) \<Longrightarrow> quiet h (with_session (\<lambda>s. s\<lparr>hs_build := b\<rparr>) h)"
    "quiet h (with_session (\<lambda>s. s\<lparr>hs_build := fst (release_lock pid (hs_build s))\<rparr>) h)"
proof -
  note a = host_parts(1) [OF ok] and put = quiet_writes.put_build_ok [OF quiet_refl [OF ok]]
  show "request_lock now ns pid (hs_build (h_session h)) = (a, g) \<Longrightarrow>
     quiet h (with_session (\<lambda>s. s\<lparr>hs_build := a\<rparr>) h)"
    using put [OF request_lock_ok [OF a, of now ns pid]] by simp
  show "submit now pid op data (hs_build (h_session h)) = (b, x) \<Longrightarrow> quiet h (with_session (\<lambda>s. s\<lparr>hs_build := b\<rparr>) h)"
    using put [OF submit_ok [OF a, of now pid op data]] by simp
  show "quiet h (with_session (\<lambda>s. s\<lparr>hs_build := fst (release_lock pid (hs_build s))\<rparr>) h)"
    using host_sessionD [OF ok] session_ext_fields(2) release_lock_ok [OF a]
    by (intro quiet_writes.P_with [OF quiet_refl [OF ok]]) blast
qed

lemma fine_readiness: "host_ok h \<Longrightarrow> fine h (readiness_begin pid fs h)"
  by (auto simp: readiness_begin_def fine_def put_readiness_quiet split: prod.split sum.split)

lemma fine_save_ack: "host_ok h \<Longrightarrow> fine h (save_ack_begin e h)"
  using fine_readiness by (auto simp: save_ack_begin_def fineI quiet_refl split: sum.split)

lemma fine_clock:
  assumes "host_ok h"
  shows "fine h (clock_begin speed paused h)" "fine h (clock_speed_begin ev e h)" "fine h (clock_pause_begin e h)"
  using quiet_refl [OF assms]
  by (simp_all add: clock_speed_begin_def clock_pause_begin_def clock_begin_def fineI Let_def split: sum.split)

lemma fine_routers:
  assumes "host_ok h"
  shows "fine h (command_begin ev e h)" "fine h (dialog_begin e h)"
  using quiet_refl [OF assms]
  by (auto simp: command_begin_def dialog_begin_def intro!: fineI put_routers_quiet [OF assms] split: sum.split prod.split)

lemma fine_locks:
  assumes "host_ok h"
  shows "fine h (lock_request_begin ev e h)" "fine h (lock_release_begin e h)"
  by (simp_all add: lock_request_begin_def lock_release_begin_def fine_def put_locks_quiet [OF assms] split: prod.split)

lemma fine_sims:
  assumes "host_ok h"
  shows "fine h (sim_select_begin ev e h)" "fine h (sim_state_begin ev e h)"
  using quiet_refl [OF assms]
  by (auto simp: sim_select_begin_def sim_state_begin_def fine_def put_validated_quiet [OF assms]
      split: prod.split sum.split option.split)

lemma quiet_catching: "quiet h0 h \<Longrightarrow> quiet h0 (fst (catching cs (error_reply ev pid) (h, x)))"
  by (rule quiet_writes.catching_ok) simp_all

lemma fine_interactions:
  assumes "host_ok h"
  shows "fine h (interaction_begin ev e h)" "fine h (interaction_command_begin ev e h)"
    "fine h (interaction_cancel_begin ev e h)"
  by (simp_all add: interaction_begin_def interaction_command_begin_def interaction_cancel_begin_def announce_begin_def fine_def
      quiet_catching put_validated_quiet [OF assms] split: prod.split sum.split)

lemma fine_build_operation: "host_ok h \<Longrightarrow> fine h (build_operation_begin ev e h)"
  using quiet_refl [of h]
  by (simp add: build_operation_begin_def fine_def Let_def quiet_catching put_locks_quiet split: prod.split sum.split)

lemma fine_dispatch: "host_ok h \<Longrightarrow> fine h (dispatch_begin ev e h)"
proof -
  assume ok: "host_ok h"
  note q = quiet_refl [OF ok]
  have plain: "quiet h (fst (handle_ping ev e h))" "quiet h (fst (handle_clock_resync ev e h))"
    "quiet h (fst (handle_snapshot_request ev e h))"
    using q by (simp_all add: handle_ping_def handle_clock_resync_def handle_snapshot_request_def split: sum.split)
  show ?thesis
  proof (cases "mt_of (e_type e)")
    case (Some t)
    then show ?thesis
      by (cases t) (simp_all add: dispatch_begin_def fine_network [OF ok] plain fine_answered fine_readiness [OF ok]
          fine_save_ack [OF ok] fine_clock [OF ok] fine_routers [OF ok] fine_locks [OF ok] fine_sims [OF ok]
          fine_interactions [OF ok] fine_build_operation [OF ok])
  qed (simp add: dispatch_begin_def fine_network [OF ok])
qed

subsection \<open>Connections, saves, and the host's game\<close>

lemma quiet_drop: "host_ok h \<Longrightarrow> quiet h (finish_conn who h)"
proof -
  assume h: "host_ok h"
  have "quiet h (drop_peer pid h)" for pid
    using h drop_peer_ok [OF h] by (auto simp: quiet_def drop_peer_def Let_def plain_output_def)
  then show ?thesis using quiet_refl [OF h] by (simp add: finish_conn_def split: option.split)
qed

lemma good_drop [simp]: "good (drop_flow pid)"
  unfolding drop_flow_def by (rule good_one_piece) (simp add: quiet_drop)

lemma quiet_note_seq: "host_ok h \<Longrightarrow> quiet h (note_seq pid e h)"
  using plain_host.note_seq_ok [of h pid e] by (auto simp: quiet_def note_seq_def split: option.splits)

lemma quiet_newcomer: "host_ok h \<Longrightarrow> quiet h (newcomer_error reason h)"
  by (simp add: newcomer_error_def quiet_def plain_output_def)

lemma quiet_join:
  assumes "host_ok h" "e_sender e \<noteq> h_id h"
  shows "quiet h (fst (join_player ev e m h))"
  using plain_host.join_player_ok [OF assms, of ev m]
  by (auto simp: quiet_def join_player_def reply_def peer_write_def plain_output_def Let_def split: sum.splits)

lemma fine_accept: "host_ok h \<Longrightarrow> fine h (fst (accept_begin ev line h))"
  by (auto simp: accept_begin_def quiet_refl quiet_newcomer quiet_join intro!: fineI split: sum.split)

lemma fine_line: "host_ok h \<Longrightarrow> fine h (line_begin ev pid line h)"
proof -
  assume h: "host_ok h"
  have "fine h (dispatch_begin ev e (note_seq pid e h))" for e
    using fine_dispatch [OF quiet_host_ok [OF quiet_note_seq [OF h]]] quiet_trans [OF quiet_note_seq [OF h]]
    unfolding fine_def by blast
  then show ?thesis using quiet_refl [OF h] by (simp add: line_begin_def fineI split: sum.split)
qed

lemma good_send: "good (send_flow pid ms)"
proof (induction ms)
  case (Cons m ms)
  have "quiet h (fst (send_to ev pid (fst m) (snd m) h))" if "host_ok h" for ev h
    using quiet_writes.send_to_ok [OF quiet_refl [OF that]] .
  then show ?case using Cons by (auto split: prod.split option.split) (metis fst_conv)+
qed simp

lemma fine_stream: "host_ok h \<Longrightarrow> fine h (stream_begin pid slot bytes cs h)"
  by (simp add: stream_begin_def fine_def quiet_refl good_send split: sum.split)

lemma fine_game_state:
  assumes "host_ok h"
  shows "fine h (game_readiness_begin ev fs w h)" "fine h (game_clock_begin d h)" "fine h (game_sims_begin ev d h)"
    "fine h (game_sim_select_begin ev d h)"
  using quiet_refl [OF assms]
  by (auto simp: game_readiness_begin_def game_clock_begin_def game_sims_begin_def game_sim_select_begin_def fine_def
      Let_def put_readiness_quiet [OF assms] put_validated_quiet [OF assms] split: prod.split sum.split option.split)

lemma fine_game_interactions:
  assumes "host_ok h"
  shows "fine h (game_interaction_begin ev d h)" "fine h (game_interaction_command_begin ev d h)"
    "fine h (game_interaction_cancel_begin ev d h)"
  by (simp_all add: game_interaction_begin_def game_interaction_command_begin_def game_interaction_cancel_begin_def
      Let_def fineI fine_deliver quiet_writes.P_reject_local put_validated_quiet [OF assms] split: prod.split sum.split)

lemma put_build_quiet:
  assumes ok: "host_ok h"
  shows "request_lock now ns pid (hs_build (h_session h)) = (a, g) \<Longrightarrow> quiet h (put_build a h)"
    "request_lock now ns pid (hs_build (h_session h)) = (a, g) \<Longrightarrow> submit now' pid op data a = (b, x) \<Longrightarrow>
       quiet h (put_build b h)"
    "quiet h (put_build (fst (release_lock pid (hs_build (h_session h)))) h)"
proof -
  note a = host_parts(1) [OF ok] and put = quiet_writes.P_put_build [OF quiet_refl [OF ok]]
  have ok_a: "authority_ok a" if "request_lock now ns pid (hs_build (h_session h)) = (a, g)" for a g
    using request_lock_ok [OF a, of now ns pid] that by simp
  then show "request_lock now ns pid (hs_build (h_session h)) = (a, g) \<Longrightarrow> quiet h (put_build a h)"
    using put by blast
  show "request_lock now ns pid (hs_build (h_session h)) = (a, g) \<Longrightarrow> submit now' pid op data a = (b, x) \<Longrightarrow>
      quiet h (put_build b h)"
    using put [OF submit_ok, of a now' pid op data] ok_a by simp
  show "quiet h (put_build (fst (release_lock pid (hs_build (h_session h)))) h)"
    by (rule put [OF release_lock_ok [OF a]])
qed

lemma fine_game_build:
  assumes "host_ok h"
  shows "fine h (game_build_begin ev d h)" "fine h (game_lock_request_begin ev h)" "fine h (game_lock_release_begin ev h)"
  by (simp_all add: game_build_begin_def game_lock_request_begin_def game_lock_release_begin_def Let_def fine_def
      put_build_quiet [OF assms] split: prod.split sum.split bool.split)

lemma quiet_put_request: "quiet h0 h \<Longrightarrow> h_session h = s \<Longrightarrow> quiet h0 (put_session (put_request_field r k v s) h)"
  using host_sessionD [OF quiet_host_ok, of h0 h]
  by (auto intro!: quiet_writes.P_put session_ext_player_ops(7))

lemma fine_game_result: "host_ok h \<Longrightarrow> mt \<noteq> MT_SNAPSHOT \<Longrightarrow> fine h (game_result_begin mt d h)"
proof -
  assume h: "host_ok h" and mt: "mt \<noteq> MT_SNAPSHOT"
  have q: "quiet h (put_session (put_request_field r k v (h_session h)) h)" for r k v
    by (rule quiet_put_request [OF quiet_refl [OF h] refl])
  have "quiet h (put_session (put_request_field r' k' v' (put_request_field r k v (h_session h))) h)" for r k v r' k' v'
    using quiet_put_request [OF q refl, where v = v'] by (simp add: put_session_def)
  then show ?thesis using q mt by (simp add: game_result_begin_def Let_def fine_def)
qed

definition counted_fine :: "host \<Rightarrow> counted_segment \<Rightarrow> bool" where
  "counted_fine h s \<longleftrightarrow> fine h (hr_host (fst s), snd s)"

lemma counted_fineI: "fine (hr_host r) (f (hr_host r)) \<Longrightarrow> counted_fine (hr_host r) (counted f r)"
  by (cases "f (hr_host r)") (simp add: counted_fine_def counted_def)

lemma fine_game_counted:
  assumes "host_ok (hr_host r)"
  shows "counted_fine (hr_host r) (game_raw_begin ev d r)" "counted_fine (hr_host r) (game_view_begin ev d r)"
  using quiet_refl [OF assms]
  by (auto simp: counted_fine_def fine_def game_raw_begin_def game_view_begin_def Let_def
      intro!: good_cast_then good_one_piece dest: quiet_refl split: sum.split prod.split option.split)

lemma fine_game: "host_ok (hr_host r) \<Longrightarrow> counted_fine (hr_host r) (game_begin ev ty d r)"
proof -
  assume h: "host_ok (hr_host r)"
  have idle: "counted_fine (hr_host r) (r, Ends x)" for x by (simp add: counted_fine_def fineI quiet_refl [OF h])
  note fine = fine_game_state [OF h] fine_game_interactions [OF h] fine_game_build [OF h] fine_game_result [OF h]
    fine_start_travel [OF h] fine_travel_ready [OF h] fine_zone_ready [OF h] fine_abort [OF h] fine_game_counted [OF h]
  show ?thesis
  proof (cases "mt_of ty")
    case (Some t)
    then show ?thesis by (cases t) (simp_all add: game_begin_def counted_fineI fine idle)
  qed (simp add: game_begin_def counted_fineI fine idle)
qed

section \<open>The loop\<close>

text \<open>
  A task has a flow to run, waits for a broadcast (which is task \<open>lo_tasks ! k\<close>, with its envelope and what
  comes after it), or waits for the next line. When its flow has ended, the task of a connection reads on; if
  it failed, the \<open>finally\<close> drops the peer. The host is the one of \<open>nt_loop\<close>; \<open>nt_runtime\<close> holds the
  counters of the runtime.
\<close>

datatype after = Reads string | Stops

datatype thread =
    Runs flow after
  | Waits nat envelope "py_error + envelope \<Rightarrow> flow" after
  | Reading string

record net =
  nt_loop :: loop_state
  nt_runtime :: host_runtime
  nt_threads :: "thread list"

abbreviation nt_host :: "net \<Rightarrow> host" where
  "nt_host n \<equiv> lo_host (nt_loop n)"

definition idle_net :: "host \<Rightarrow> net" where
  "idle_net h = \<lparr>nt_loop = idle_loop h, nt_runtime = new_runtime h, nt_threads = []\<rparr>"

text \<open>After a segment: a broadcast it awaits begins at once.\<close>

definition moved :: "segment \<Rightarrow> loop_state \<Rightarrow> loop_state" where
  "moved s l = (case s of (h, Cast ty d k) \<Rightarrow> begin_broadcast ty d (put_host h l) | (h, p) \<Rightarrow> put_host h l)"

definition stands :: "env \<Rightarrow> segment \<Rightarrow> after \<Rightarrow> loop_state \<Rightarrow> thread" where
  "stands ev s a l =
     (case s of
        (h, Cast ty d k) \<Rightarrow>
          Waits (length (lo_tasks l)) (make_envelope ty d (h_id h) (Some (h_seq h + 1)) (ev_uuid ev) VNone) k a
      | (h, p) \<Rightarrow> Runs p a)"

text \<open>Task \<open>i\<close> has run a segment; a new task has.\<close>

definition task_goes_on :: "env \<Rightarrow> nat \<Rightarrow> segment \<Rightarrow> after \<Rightarrow> net \<Rightarrow> net" where
  "task_goes_on ev i s a n =
     n\<lparr>nt_loop := moved s (nt_loop n), nt_threads := (nt_threads n)[i := stands ev s a (nt_loop n)]\<rparr>"

definition task_starts :: "env \<Rightarrow> segment \<Rightarrow> after \<Rightarrow> net \<Rightarrow> net" where
  "task_starts ev s a n =
     n\<lparr>nt_loop := moved s (nt_loop n), nt_threads := nt_threads n @ [stands ev s a (nt_loop n)]\<rparr>"

definition connection :: "string option \<Rightarrow> after" where
  "connection who = (case who of None \<Rightarrow> Stops | Some pid \<Rightarrow> Reads pid)"

definition task_is :: "net \<Rightarrow> nat \<Rightarrow> thread \<Rightarrow> bool" where
  "task_is n i t \<longleftrightarrow> i < length (nt_threads n) \<and> nt_threads n ! i = t"

inductive net_step :: "net \<Rightarrow> net \<Rightarrow> bool" where
  greeted: "accept_begin ev line (nt_host n) = (s, who) \<Longrightarrow> net_step n (task_starts ev s (connection who) n)"
| got_line: "task_is n i (Reading pid) \<Longrightarrow>
    net_step n (task_goes_on ev i (line_begin ev pid line (nt_host n)) (Reads pid) n)"
| at_eof: "task_is n i (Reading pid) \<Longrightarrow> net_step n (task_goes_on ev i (nt_host n, drop_flow pid) Stops n)"
| game_told: "game_begin ev ty payload ((nt_runtime n)\<lparr>hr_host := nt_host n\<rparr>) = (r, p) \<Longrightarrow>
    net_step n (task_starts ev (hr_host r, p) Stops (n\<lparr>nt_runtime := r\<rparr>))"
| save_asked: "net_step n (task_starts ev (stream_begin pid slot bytes sz (nt_host n)) Stops n)"
| piece_run: "task_is n i (Runs (Piece g) a) \<Longrightarrow> net_step n (task_goes_on ev i (g ev (nt_host n)) a n)"
| reads_on: "task_is n i (Runs (Ends None) (Reads pid)) \<Longrightarrow>
    net_step n (n\<lparr>nt_threads := (nt_threads n)[i := Reading pid]\<rparr>)"
| failed: "task_is n i (Runs (Ends (Some e)) (Reads pid)) \<Longrightarrow>
    net_step n (task_goes_on ev i (nt_host n, drop_flow pid) Stops n)"
| broadcast_step: "task_step up j (nt_loop n) l \<Longrightarrow> net_step n (n\<lparr>nt_loop := l\<rparr>)"
| broadcast_done: "task_is n i (Waits j e k a) \<Longrightarrow> j < length (lo_tasks (nt_loop n)) \<Longrightarrow>
    ta_phase (lo_tasks (nt_loop n) ! j) = Finished \<Longrightarrow> net_step n (task_goes_on ev i (nt_host n, k (Inr e)) a n)"
| broadcast_failed: "task_is n i (Waits j e k a) \<Longrightarrow> j < length (lo_tasks (nt_loop n)) \<Longrightarrow>
    ta_phase (lo_tasks (nt_loop n) ! j) = Raised err \<Longrightarrow> net_step n (task_goes_on ev i (nt_host n, k (Inl err)) a n)"

abbreviation net_reach :: "net \<Rightarrow> net \<Rightarrow> bool" where
  "net_reach \<equiv> net_step\<^sup>*\<^sup>*"

section \<open>The invariant of the loop\<close>

definition thread_ok :: "thread \<Rightarrow> bool" where
  "thread_ok t = (case t of Runs p a \<Rightarrow> good p | Waits j e k a \<Rightarrow> (\<forall>x. good (k x)) | Reading pid \<Rightarrow> True)"

definition net_ok :: "net \<Rightarrow> bool" where
  "net_ok n \<longleftrightarrow> loop_ok (nt_loop n) \<and> (\<forall>t \<in> set (nt_threads n). thread_ok t)"

lemma net_host_ok: "net_ok n \<Longrightarrow> host_ok (nt_host n)"
  by (simp add: net_ok_def loop_ok_def)

lemma stands_ok: "fine h s \<Longrightarrow> thread_ok (stands ev s a l)"
  by (cases s; cases "snd s") (auto simp: stands_def thread_ok_def fine_def)

lemma moved_ok: "fine (lo_host l) s \<Longrightarrow> loop_ok l \<Longrightarrow> loop_ok (moved s l)"
  using quiet_ok [of l "fst s"] begin_ok by (cases s; cases "snd s") (auto simp: moved_def fine_def)

lemma task_goes_on_ok: "net_ok n \<Longrightarrow> fine (nt_host n) s \<Longrightarrow> net_ok (task_goes_on ev i s a n)"
  using moved_ok [of "nt_loop n" s] stands_ok [of "nt_host n" s ev a "nt_loop n"]
  by (auto simp: net_ok_def task_goes_on_def dest!: set_update_subset_insert [THEN subsetD])

lemma task_starts_ok: "net_ok n \<Longrightarrow> fine (nt_host n) s \<Longrightarrow> net_ok (task_starts ev s a n)"
  using moved_ok [of "nt_loop n" s] stands_ok [of "nt_host n" s ev a "nt_loop n"]
  by (auto simp: net_ok_def task_starts_def)

lemma task_is_ok: "net_ok n \<Longrightarrow> task_is n i t \<Longrightarrow> thread_ok t"
  by (auto simp: net_ok_def task_is_def)

lemma net_step_ok: "net_step n n' \<Longrightarrow> net_ok n \<Longrightarrow> net_ok n'"
proof (induction rule: net_step.induct)
  case (greeted ev line n s who)
  then show ?case using fine_accept [OF net_host_ok, of n ev line] by (simp add: task_starts_ok)
next
  case (got_line n i pid ev line)
  then show ?case by (simp add: task_goes_on_ok fine_line net_host_ok)
next
  case (at_eof n i pid ev)
  then show ?case by (simp add: task_goes_on_ok fineI quiet_refl net_host_ok)
next
  case (game_told ev ty payload n r p)
  have "counted_fine (nt_host n) (r, p)"
    using fine_game [of "(nt_runtime n)\<lparr>hr_host := nt_host n\<rparr>" ev ty payload] game_told net_host_ok by simp
  then have "fine (nt_host (n\<lparr>nt_runtime := r\<rparr>)) (hr_host r, p)" by (simp add: counted_fine_def)
  moreover have "net_ok (n\<lparr>nt_runtime := r\<rparr>)" using game_told by (simp add: net_ok_def)
  ultimately show ?case by (rule task_starts_ok [rotated])
next
  case (save_asked n ev pid slot bytes sz)
  then show ?case by (simp add: task_starts_ok fine_stream net_host_ok)
next
  case (piece_run n i g a ev)
  then have "good (Piece g)" using task_is_ok by (fastforce simp: thread_ok_def)
  then show ?case using piece_run net_host_ok by (simp add: task_goes_on_ok fine_def)
next
  case (reads_on n i pid)
  then show ?case by (auto simp: net_ok_def thread_ok_def dest!: set_update_subset_insert [THEN subsetD])
next
  case (failed n i e pid ev)
  then show ?case by (simp add: task_goes_on_ok fineI quiet_refl net_host_ok)
next
  case (broadcast_step up j n l)
  then show ?case using task_step_ok by (auto simp: net_ok_def)
next
  case (broadcast_done n i j e k a ev)
  then have "good (k (Inr e))" using task_is_ok by (fastforce simp: thread_ok_def)
  then show ?case using broadcast_done by (simp add: task_goes_on_ok fineI quiet_refl net_host_ok)
next
  case (broadcast_failed n i j e k a err ev)
  then have "good (k (Inl err))" using task_is_ok by (fastforce simp: thread_ok_def)
  then show ?case using broadcast_failed by (simp add: task_goes_on_ok fineI quiet_refl net_host_ok)
qed

lemma net_reach_ok: "net_reach n n' \<Longrightarrow> net_ok n \<Longrightarrow> net_ok n'"
  by (induction rule: rtranclp_induct) (blast intro: net_step_ok)+

lemma idle_net_ok: "host_ok h \<Longrightarrow> net_ok (idle_net h)"
  by (simp add: net_ok_def idle_net_def idle_loop_ok)

text \<open>
  Whatever arrives and however the tasks interleave: the host's invariant, no number for two broadcasts,
  and a broadcast whose loop no join or departure disturbed has written its line exactly once to every
  peer it started with, in their order, but for those whose connection failed.
\<close>

lemma net_reach_host:
  assumes "host_ok h" "net_reach (idle_net h) n"
  shows "host_ok (nt_host n)" "distinct (map (ms_seq \<circ> ta_msg) (lo_tasks (nt_loop n)))"
    "t \<in> set (lo_tasks (nt_loop n)) \<Longrightarrow> ta_clean t \<Longrightarrow>
      line_takers (ta_msg t) (h_log (nt_host n)) = filter (\<lambda>p. p \<notin> set (ta_dead t)) (ta_keys t)"
  using net_reach_ok [OF assms(2) idle_net_ok [OF assms(1)]]
  by (auto simp: net_ok_def loop_ok_def task_ok_def delivered_def)

section \<open>A handler that is left alone\<close>

lemma task_step_length: "task_step up i l l' \<Longrightarrow> length (lo_tasks l') = length (lo_tasks l)"
  by (induction rule: task_step.induct) simp_all

lemma task_steps_net:
  "(task_step up i)\<^sup>*\<^sup>* (nt_loop n) l \<Longrightarrow>
     net_reach n (n\<lparr>nt_loop := l\<rparr>) \<and> length (lo_tasks l) = length (lo_tasks (nt_loop n))"
proof (induction rule: rtranclp_induct)
  case (step l l')
  have "net_step (n\<lparr>nt_loop := l\<rparr>) (n\<lparr>nt_loop := l'\<rparr>)"
    using broadcast_step [of up i "n\<lparr>nt_loop := l\<rparr>" l'] step.hyps(2) by simp
  then show ?case using step task_step_length by (metis rtranclp.rtrancl_into_rtrancl)
qed simp

text \<open>
  A task whose flow nobody interrupts ends with the host and the exception of the handler that runs in
  one piece; the other tasks stand where they stood.
\<close>

lemma flow_left_alone:
  assumes "i < length (nt_threads n)"
  shows "\<exists>n'. net_reach (task_goes_on ev i (h, p) a n) n' \<and> nt_host n' = fst (run ev p h) \<and>
    nt_threads n' = (nt_threads n)[i := Runs (Ends (snd (run ev p h))) a]"
  using assms
proof (induction p arbitrary: h n)
  case (Ends x)
  then show ?case by (intro exI [of _ "task_goes_on ev i (h, Ends x) a n"]) (simp add: task_goes_on_def moved_def stands_def)
next
  case (Piece g)
  obtain h1 q where g: "g ev h = (h1, q)" by (cases "g ev h")
  let ?n = "task_goes_on ev i (h, Piece g) a n"
  have n: "task_is ?n i (Runs (Piece g) a)" "nt_host ?n = h" "nt_threads ?n = (nt_threads n)[i := Runs (Piece g) a]"
    using Piece.prems by (simp_all add: task_is_def task_goes_on_def moved_def stands_def)
  have step: "net_step ?n (task_goes_on ev i (h1, q) a ?n)" using piece_run [OF n(1), of ev] by (simp add: n(2) g)
  obtain n' where "net_reach (task_goes_on ev i (h1, q) a ?n) n'" "nt_host n' = fst (run ev q h1)"
    "nt_threads n' = (nt_threads ?n)[i := Runs (Ends (snd (run ev q h1))) a]"
    using Piece.IH [of "g ev" "(h1, q)" q ?n h1] g Piece.prems n(3)
    by (metis length_list_update prod_set_simps(2) rangeI singletonI snd_conv snds.intros)
  then show ?case
    using converse_rtranclp_into_rtranclp [of net_step, OF step]
    by (intro exI [of _ n']) (simp add: finish_def g n(3))
next
  case (Cast ty d k)
  let ?l = "put_host h (nt_loop n)" and ?n = "task_goes_on ev i (h, Cast ty d k) a n"
  let ?j = "length (lo_tasks ?l)" and ?b = "broadcast ev ty d h"
  define e where "e = make_envelope ty d (h_id h) (Some (h_seq h + 1)) (ev_uuid ev) VNone"
  have n: "nt_loop ?n = begin_broadcast ty d ?l" "nt_threads ?n = (nt_threads n)[i := Waits ?j e k a]"
    by (simp_all add: task_goes_on_def moved_def stands_def e_def)
  obtain l where l: "(task_step (ev_up ev) ?j)\<^sup>*\<^sup>* (begin_broadcast ty d ?l) l" "ta_phase (lo_tasks l ! ?j) = Finished"
    "lo_host l = ?b"
    using broadcast_alone_lemma(1) [OF rtranclp.rtrancl_refl, of ev ?l ty d] by auto
  let ?n1 = "?n\<lparr>nt_loop := l\<rparr>"
  have reach: "net_reach ?n ?n1" "length (lo_tasks l) = length (lo_tasks (begin_broadcast ty d ?l))"
    using task_steps_net [of "ev_up ev" ?j ?n l] l(1) by (simp_all add: n(1))
  have wait: "task_is ?n1 i (Waits ?j e k a)" using Cast.prems by (simp add: task_is_def n(2))
  have step: "net_step ?n1 (task_goes_on ev i (?b, k (Inr e)) a ?n1)"
    using broadcast_done [OF wait] l(2,3) reach(2) by (simp add: begin_broadcast_def)
  obtain n' where "net_reach (task_goes_on ev i (?b, k (Inr e)) a ?n1) n'" "nt_host n' = fst (run ev (k (Inr e)) ?b)"
    "nt_threads n' = (nt_threads ?n1)[i := Runs (Ends (snd (run ev (k (Inr e)) ?b))) a]"
    using Cast.IH [of "k (Inr e)" ?n1 ?b] Cast.prems n(2) by auto
  then show ?case
    using rtranclp_trans [OF reach(1) converse_rtranclp_into_rtranclp [of net_step, OF step]]
    by (intro exI [of _ n']) (simp add: n(2) e_def)
qed

text \<open>So a line, and an event of the game, can be handled as \<open>Net\<close> and \<open>Host_Runtime\<close> say.\<close>

lemma line_left_alone:
  assumes "task_is n i (Reading pid)"
  shows "\<exists>n'. net_reach n n' \<and> nt_host n' = fst (process_line (runtime_callback ev) ev pid e (nt_host n)) \<and>
    nt_threads n' = (nt_threads n)[i := Runs (Ends (snd (process_line (runtime_callback ev) ev pid e (nt_host n)))) (Reads pid)]"
proof -
  obtain h p where s: "line_begin ev pid (Inr e) (nt_host n) = (h, p)" by (cases "line_begin ev pid (Inr e) (nt_host n)")
  have "net_step n (task_goes_on ev i (h, p) (Reads pid) n)" using got_line [OF assms, of ev "Inr e"] s by simp
  moreover have "run ev p h = process_line (runtime_callback ev) ev pid e (nt_host n)"
    using finish_line [of ev pid e "nt_host n"] s by (simp add: finish_pair)
  ultimately show ?thesis
    using flow_left_alone [of i n ev h p "Reads pid"] assms by (auto simp: task_is_def intro: converse_rtranclp_into_rtranclp)
qed

end
