(* ===== verification/Sidecar_Life.thy ===== *)
theory Sidecar_Life
  imports Net_Tasks Bridge Sidecar_Window
begin

text \<open>
  A sidecar from its start to its end: \<open>start\<close> and \<open>stop\<close> of the two runtimes
  (\<^verbatim>\<open>src/kermp/runtime.py\<close>), the command line (\<^verbatim>\<open>src/kermp/cli.py\<close>), the session thread of the window
  and its buttons (\<^verbatim>\<open>src/kermp/gui.py\<close>). The machine is the list of ports that somebody listens on. The
  bridge binds in a thread of its own; here it does so before the network starts.
\<close>

section \<open>Ports\<close>

text \<open>
  Binding: refused when somebody listens on the port. A listener that closes gives its port back.
\<close>

definition bind_port :: "int \<Rightarrow> int list \<Rightarrow> int list \<times> bool" where
  "bind_port p busy = (if p \<in> set busy then (busy, False) else (p # busy, True))"

definition free_port :: "bool \<Rightarrow> int \<Rightarrow> int list \<Rightarrow> int list" where
  "free_port mine p busy = (if mine then remove1 p busy else busy)"

text \<open>\<open>LocalGameBridge.start\<close>: only the first call starts a thread; a failed \<open>bind\<close> ends it in silence.\<close>

record bridge_thread =
  bt_port :: int
  bt_started :: bool
  bt_bound :: bool

definition new_bridge_thread :: "int \<Rightarrow> bridge_thread" where
  "new_bridge_thread port = \<lparr>bt_port = port, bt_started = False, bt_bound = False\<rparr>"

definition bridge_start :: "bridge_thread \<Rightarrow> int list \<Rightarrow> bridge_thread \<times> int list" where
  "bridge_start b busy =
     (if bt_started b then (b, busy)
      else case bind_port (bt_port b) busy of
             (busy1, bound) \<Rightarrow> (b\<lparr>bt_started := True, bt_bound := bound\<rparr>, busy1))"

definition bridge_shutdown :: "bridge_thread \<Rightarrow> int list \<Rightarrow> bridge_thread \<times> int list" where
  "bridge_shutdown b busy = (b\<lparr>bt_bound := False\<rparr>, free_port (bt_bound b) (bt_port b) busy)"

section \<open>The runtimes\<close>

record host_life =
  hl_bridge :: bridge_thread
  hl_server :: host_server
  hl_port :: int

definition new_host_life :: "host \<Rightarrow> int \<Rightarrow> int \<Rightarrow> host_life" where
  "new_host_life h lan bridge = \<lparr>hl_bridge = new_bridge_thread bridge, hl_server = new_server h, hl_port = lan\<rparr>"

text \<open>\<open>HostRuntime.start\<close> and \<open>stop\<close>.\<close>

definition host_start :: "host_life \<Rightarrow> int list \<Rightarrow> host_life \<times> int list \<times> py_error option" where
  "host_start l busy =
     (case bridge_start (hl_bridge l) busy of
        (b, busy1) \<Rightarrow>
       (case bind_port (hl_port l) busy1 of
          (busy2, free) \<Rightarrow>
         (case server_start free (hl_server l) of
            (s, err) \<Rightarrow> (l\<lparr>hl_bridge := b, hl_server := s\<rparr>, busy2, err))))"

definition host_stop :: "host_life \<Rightarrow> int list \<Rightarrow> host_life \<times> int list" where
  "host_stop l busy =
     (case bridge_shutdown (hl_bridge l) busy of
        (b, busy1) \<Rightarrow> (l\<lparr>hl_bridge := b, hl_server := server_close (hl_server l)\<rparr>,
          free_port (sv_listening (hl_server l)) (hl_port l) busy1))"

text \<open>
  \<open>ClientRuntime.start\<close> and \<open>stop\<close>; \<open>answer\<close> is what \<open>open_connection\<close> or the line of the host
  gives. \<open>reached\<close> tells whether there was a connection at all.
\<close>

record client_life =
  cl_bridge :: bridge_thread
  cl_net :: client

definition new_client_life :: "client \<Rightarrow> int \<Rightarrow> client_life" where
  "new_client_life c bridge = \<lparr>cl_bridge = new_bridge_thread bridge, cl_net = c\<rparr>"

definition guest_start ::
  "bool \<Rightarrow> py_error + envelope \<Rightarrow> client_life \<Rightarrow> int list \<Rightarrow> client_life \<times> int list \<times> (py_error + envelope)" where
  "guest_start reached answer l busy =
     (case bridge_start (cl_bridge l) busy of
        (b, busy1) \<Rightarrow>
          if \<not> reached then (l\<lparr>cl_bridge := b\<rparr>, busy1, answer)
          else case client_connect answer (cl_net l) of
                 (c, r) \<Rightarrow> (l\<lparr>cl_bridge := b, cl_net := c\<rparr>, busy1, r))"

definition guest_stop :: "client_life \<Rightarrow> int list \<Rightarrow> client_life \<times> int list" where
  "guest_stop l busy =
     (case bridge_shutdown (cl_bridge l) busy of
        (b, busy1) \<Rightarrow> (l\<lparr>cl_bridge := b, cl_net := client_close (cl_net l)\<rparr>, busy1))"

section \<open>The session thread of the window\<close>

text \<open>
  \<open>_run\<close> with the ports: \<open>make_host\<close> and \<open>make_client\<close> build the network end for an identity,
  \<open>answer\<close> is what a guest's connection attempt gives. The result is what the thread publishes and the
  ports busy when it has ended. A session that starts runs until the window stops it. \<open>_run\<close> stops the
  runtime after \<open>stop_event\<close> only: an exception of the start skips it.
\<close>

definition host_thread :: "session_args \<Rightarrow> string \<Rightarrow> identity \<Rightarrow> host \<Rightarrow> int list \<Rightarrow> window_event list \<times> int list" where
  "host_thread a ip i h busy =
     (case host_start (new_host_life h (sa_lan_port a) (sa_bridge_port a)) busy of
        (l, busy1, Some e) \<Rightarrow> (session_events a ip (Inr i) (Inl e) None, busy1)
      | (l, busy1, None) \<Rightarrow> (session_events a ip (Inr i) (Inr []) None, snd (host_stop l busy1)))"

definition guest_thread ::
  "session_args \<Rightarrow> identity \<Rightarrow> client \<Rightarrow> bool \<Rightarrow> py_error + envelope \<Rightarrow> int list \<Rightarrow> window_event list \<times> int list" where
  "guest_thread a i c reached answer busy =
     (case guest_start reached answer (new_client_life c (sa_bridge_port a)) busy of
        (l, busy1, Inl e) \<Rightarrow> (session_events a [] (Inr i) (Inl e) None, busy1)
      | (l, busy1, Inr w) \<Rightarrow>
         (case started_event a [] (e_payload w) i of
            Inl e \<Rightarrow> (session_events a [] (Inr i) (Inr (e_payload w)) None, busy1)
          | Inr d \<Rightarrow> (session_events a [] (Inr i) (Inr (e_payload w)) None, snd (guest_stop l busy1))))"

text \<open>\<open>_copy_address\<close>: the text that goes to the clipboard.\<close>

definition copied_address :: "string \<Rightarrow> string \<Rightarrow> window \<Rightarrow> pyval" where
  "copied_address ip lan g = py_or (st_address (gw_model g)) (VStr (ip @ '':'' @ lan))"

text \<open>
  The status \<open>_poll\<close> sets. \<open>dash\<close> is the sign for a field without a value.
\<close>

definition shown :: "string \<Rightarrow> pyval \<Rightarrow> string" where
  "shown alt v = py_str (py_or v (VStr alt))"

definition status_lines :: "string \<Rightarrow> status_model \<Rightarrow> string list" where
  "status_lines dash s =
     [''Mode: '' @ (if st_mode s = [] then ''idle'' else st_mode s),
      ''LAN: '' @ py_str (st_lan s) @ ''    Bridge: '' @ st_bridge s,
      ''Player: '' @ shown dash (st_player s), ''Session: '' @ shown dash (st_session s),
      ''Players: '' @ shown dash (st_players s), ''Address: '' @ shown dash (st_address s),
      ''Compatibility: '' @ st_compat s @ ''    Save: '' @ st_save s @ ''    Ready: '' @ st_ready s,
      ''Clock: '' @ st_clock s @ ''    Native Build/Buy: '' @ st_native s, ''Build lock: '' @ st_owner s,
      ''Last error: '' @ shown ''none'' (st_error s)]"

section \<open>The command line\<close>

text \<open>
  The options of \<open>host\<close> and \<open>join\<close> with their defaults. What \<open>argparse\<close> finds on the command line is
  the mode, the positional argument and the texts of the options given; a port that is no number is an
  error of its own, which ends the process with code 2.
\<close>

record cli_args =
  ca_mode :: string
  ca_name :: string
  ca_address :: string
  ca_port :: int
  ca_bridge :: int

definition text_option :: "string \<Rightarrow> string \<Rightarrow> (string \<times> string) list \<Rightarrow> string" where
  "text_option k d given = (case map_of given k of None \<Rightarrow> d | Some t \<Rightarrow> t)"

definition int_option :: "string \<Rightarrow> int \<Rightarrow> (string \<times> string) list \<Rightarrow> py_error + int" where
  "int_option k d given = (case map_of given k of None \<Rightarrow> Inr d | Some t \<Rightarrow> py_int (VStr t))"

definition with_ports :: "(string \<times> string) list \<Rightarrow> (int \<Rightarrow> int \<Rightarrow> cli_args) \<Rightarrow> py_error + cli_args" where
  "with_ports given f =
     (case int_option ''--port'' 17653 given of
        Inl e \<Rightarrow> Inl e
      | Inr port \<Rightarrow>
         (case int_option ''--bridge-port'' 17654 given of Inl e \<Rightarrow> Inl e | Inr bridge \<Rightarrow> Inr (f port bridge)))"

definition host_options :: "(string \<times> string) list \<Rightarrow> py_error + cli_args" where
  "host_options given =
     with_ports given (\<lambda>port bridge. \<lparr>ca_mode = ''host'', ca_name = text_option ''--name'' ''Host'' given,
       ca_address = text_option ''--bind'' ''0.0.0.0'' given, ca_port = port, ca_bridge = bridge\<rparr>)"

definition join_options :: "string \<Rightarrow> (string \<times> string) list \<Rightarrow> py_error + cli_args" where
  "join_options address given =
     with_ports given (\<lambda>port bridge. \<lparr>ca_mode = ''join'', ca_name = text_option ''--name'' ''Client'' given,
       ca_address = address, ca_port = port, ca_bridge = bridge\<rparr>)"

text \<open>What a run prints, and the exception that ends it; a \<open>KeyboardInterrupt\<close> ends it without one.\<close>

definition bridge_line_printed :: "cli_args \<Rightarrow> string" where
  "bridge_line_printed a = ''Sims bridge: 127.0.0.1:'' @ int_str (ca_bridge a)"

definition run_host ::
  "cli_args \<Rightarrow> py_error + identity \<Rightarrow> (identity \<Rightarrow> host) \<Rightarrow> string list \<Rightarrow> int list \<Rightarrow>
     string list \<times> int list \<times> py_error option" where
  "run_host a ident mk sockets busy =
     (case ident of
        Inl e \<Rightarrow> ([], busy, Some e)
      | Inr i \<Rightarrow>
         (case host_start (new_host_life (mk i) (ca_port a) (ca_bridge a)) busy of
            (l, busy1, Some e) \<Rightarrow> ([], busy1, Some e)
          | (l, busy1, None) \<Rightarrow>
              ([''KerMP host ready: '' @ (if sv_set (hl_server l) then join '', '' sockets else ''?''),
                bridge_line_printed a,
                ''player: '' @ py_str (id_name i) @ '' ('' @ py_str (id_player i) @ '')''],
               busy1, snd (serve_begin True (hl_server l)))))"

definition run_client ::
  "(pydict \<Rightarrow> string) \<Rightarrow> cli_args \<Rightarrow> py_error + identity \<Rightarrow> (identity \<Rightarrow> client) \<Rightarrow> bool \<Rightarrow> py_error + envelope \<Rightarrow>
     py_error option \<Rightarrow> int list \<Rightarrow> string list \<times> int list \<times> py_error option" where
  "run_client dumps a ident mk reached answer listening busy =
     (case ident of
        Inl e \<Rightarrow> ([], busy, Some e)
      | Inr i \<Rightarrow>
         (case guest_start reached answer (new_client_life (mk i) (ca_bridge a)) busy of
            (l, busy1, Inl e) \<Rightarrow> ([], busy1, Some e)
          | (l, busy1, Inr w) \<Rightarrow> ([''Connected: '' @ dumps (e_payload w), bridge_line_printed a], busy1, listening)))"

text \<open>\<open>main\<close>; at its end the process gives every port back.\<close>

record cli_world =
  cw_ident :: "string \<Rightarrow> py_error + identity"
  cw_host :: "identity \<Rightarrow> host"
  cw_client :: "identity \<Rightarrow> client"
  cw_sockets :: "string list"
  cw_dumps :: "pydict \<Rightarrow> string"
  cw_reached :: bool
  cw_answer :: "py_error + envelope"
  cw_listening :: "py_error option"

definition cli_main :: "cli_world \<Rightarrow> cli_args \<Rightarrow> int list \<Rightarrow> string list \<times> py_error option" where
  "cli_main w a busy =
     (case (if ca_mode a = ''host''
            then run_host a (cw_ident w (ca_name a)) (cw_host w) (cw_sockets w) busy
            else run_client (cw_dumps w) a (cw_ident w (ca_name a)) (cw_client w) (cw_reached w) (cw_answer w)
                   (cw_listening w) busy) of
        (printed, busy1, err) \<Rightarrow> (printed, err))"

section \<open>Properties\<close>

text \<open>A session that ran and was stopped leaves the ports as it found them.\<close>

lemmas life_defs = host_start_def host_stop_def guest_start_def guest_stop_def new_host_life_def new_client_life_def
  bridge_start_def bridge_shutdown_def new_bridge_thread_def bind_port_def free_port_def server_start_def new_server_def

lemma stop_frees_ports:
  assumes "host_start (new_host_life h lan bridge) busy = (l, busy1, None)"
  shows "snd (host_stop l busy1) = busy" and "sv_set (hl_server (fst (host_stop l busy1))) = False"
  using assms by (auto simp: life_defs server_close_def split: if_splits)

lemma guest_stop_frees_ports:
  assumes "guest_start reached answer (new_client_life c bridge) busy = (l, busy1, Inr w)"
  shows "snd (guest_stop l busy1) = busy"
  using assms by (auto simp: life_defs split: if_splits prod.splits)

text \<open>
  A session whose start fails is never stopped: the bridge's thread goes on listening.
\<close>

lemma failed_host_keeps_bridge:
  assumes "sa_lan_port a \<in> set busy" "sa_bridge_port a \<notin> set busy"
  shows "host_thread a ip i h busy =
    ([Failed ''address already in use'', Stopped], sa_bridge_port a # busy)"
  using assms by (simp add: host_thread_def life_defs session_events_def)

lemma failed_guest_keeps_bridge:
  assumes "sa_bridge_port a \<notin> set busy"
  shows "guest_thread a i c False (Inl e) busy = ([Failed (exc_text e), Stopped], sa_bridge_port a # busy)"
  using assms by (simp add: guest_thread_def life_defs session_events_def)

text \<open>
  The next session on the same bridge port starts all the same and is shown as hosting, but no game
  can reach it: its bridge was refused the port, and nobody is told.
\<close>

lemma bridge_bound_iff:
  "host_start (new_host_life h lan bridge) busy = (l, busy1, err) \<Longrightarrow> bt_bound (hl_bridge l) \<longleftrightarrow> bridge \<notin> set busy"
  by (auto simp: life_defs split: if_splits)

lemma retry_without_bridge:
  assumes "lan \<notin> set busy" "lan \<noteq> bridge" "bridge \<notin> set busy"
    and "guest_thread \<lparr>sa_mode = ''client'', sa_name = name, sa_host_ip = ip, sa_lan_port = lan, sa_bridge_port = bridge\<rparr>
      i c False (Inl e) busy = (evs, busy1)"
  shows "\<exists>l busy2. host_start (new_host_life h lan bridge) busy1 = (l, busy2, None) \<and> \<not> bt_bound (hl_bridge l) \<and>
      sv_listening (hl_server l)"
  using assms by (auto simp: failed_guest_keeps_bridge life_defs)

text \<open>
  The defaults of the command line are the ports and names of the window, so that a host started here and
  a guest started there meet.
\<close>

lemma default_ports:
  "host_options [] = Inr \<lparr>ca_mode = ''host'', ca_name = ''Host'', ca_address = ''0.0.0.0'', ca_port = LAN_PORT, ca_bridge = BRIDGE_PORT\<rparr>"
  "join_options address [] = Inr \<lparr>ca_mode = ''join'', ca_name = ''Client'', ca_address = address, ca_port = LAN_PORT, ca_bridge = BRIDGE_PORT\<rparr>"
  by (simp_all add: host_options_def join_options_def with_ports_def int_option_def text_option_def LAN_PORT_def BRIDGE_PORT_def)

text \<open>
  On one machine the host and a guest with the defaults share the bridge port: the second one runs, and
  its game cannot connect.
\<close>

lemma second_sidecar_unreachable:
  assumes "host_options [] = Inr a" "join_options address [] = Inr a'" "ca_port a \<notin> set busy" "ca_bridge a \<notin> set busy"
    and "host_start (new_host_life h (ca_port a) (ca_bridge a)) busy = (l, busy1, None)"
    and "guest_start True (Inr w) (new_client_life c (ca_bridge a')) busy1 = (l', busy2, r)"
  shows "bt_bound (hl_bridge l) \<and> \<not> bt_bound (cl_bridge l') \<and> busy2 = busy1"
  using assms by (auto simp: default_ports life_defs split: if_splits prod.splits)

text \<open>The command line reports what went wrong and does not print that it is ready.\<close>

lemma cli_host_prints:
  "cli_main w a busy = (printed, err) \<Longrightarrow> ca_mode a = ''host'' \<Longrightarrow>
     (err = None \<longleftrightarrow> length printed = 3) \<and> (err \<noteq> None \<longleftrightarrow> printed = [])"
  by (auto simp: cli_main_def run_host_def serve_begin_def life_defs split: sum.splits if_splits prod.splits option.splits)

text \<open>
  Whatever a session does, the window goes on showing compatibility, save, readiness, clock, native module and
  build lock as they were when the model was made: no event carries them.
\<close>

lemma window_status_frozen:
  assumes "gw_model g = fresh_model mode name"
  shows "map (nth (status_lines dash (gw_model (window_poll (window_run es g))))) [6, 7, 8] =
    [''Compatibility: Checking    Save: 0%    Ready: Not ready'', ''Clock: Speed 1    Native Build/Buy: Unavailable'',
     ''Build lock: none'']"
proof -
  have "st_compat (show_event e s) = st_compat s \<and> st_save (show_event e s) = st_save s \<and>
      st_ready (show_event e s) = st_ready s \<and> st_clock (show_event e s) = st_clock s \<and>
      st_native (show_event e s) = st_native s \<and> st_owner (show_event e s) = st_owner s" for e s
    by (cases e) simp_all
  then have "st_compat (fold show_event es s) = st_compat s \<and> st_save (fold show_event es s) = st_save s \<and>
      st_ready (fold show_event es s) = st_ready s \<and> st_clock (fold show_event es s) = st_clock s \<and>
      st_native (fold show_event es s) = st_native s \<and> st_owner (fold show_event es s) = st_owner s" for es s
    by (induction es arbitrary: s) simp_all
  then show ?thesis
    unfolding window_run_model assms by (simp add: status_lines_def fresh_model_def)
qed

text \<open>
  The checklist run after a failed start, in the same process (\<open>preflight._port_available\<close> binds the port and
  closes it again), blames the bridge port.
\<close>

definition port_available :: "int \<Rightarrow> int list \<Rightarrow> bool" where
  "port_available p busy = snd (bind_port p busy)"

lemma failed_start_fails_preflight:
  assumes "mc_port_free m = (\<lambda>p. port_available p (snd (guest_thread a i c False (Inl e) busy)))"
    and "sa_bridge_port a = BRIDGE_PORT"
  shows "\<exists>l \<in> set (run_preflight m). failed l"
proof -
  have "BRIDGE_PORT \<in> set (snd (guest_thread a i c False (Inl e) busy))"
    using assms(2) by (cases "BRIDGE_PORT \<in> set busy") (simp_all add: guest_thread_def life_defs)
  then have "\<not> mc_port_free m BRIDGE_PORT" by (simp add: assms(1) port_available_def bind_port_def)
  then show ?thesis using clean_report [of m] by blast
qed

end
