(* ===== verification/Trace_Snapshots.thy ===== *)
theory Trace_Snapshots
  imports Trace_Context Mod_Console "HOL-Library.Sublist"
begin

text \<open>
  The rest of \<^verbatim>\<open>interaction_trace.py\<close>: its status, the file a trace is dumped to, and the snapshots of the
  game's commands and clients; with the console commands of \<^verbatim>\<open>commands.py\<close> that print them. What the game
  answers - the registry, the module of its commands, the clients - is an argument; the text of a
  signature, of an event and of a value are parameters.
\<close>

section \<open>The dump\<close>

definition trace_status :: "trace_mod \<Rightarrow> pydict" where
  "trace_status m =
     [(''enabled'', VBool (tm_enabled m)), (''session'', VInt (tm_session m)),
      (''events'', VInt (int (length (tm_events m)))), (''patched'', VInt (int (length (tm_patches m)))),
      (''errors'', VList (map VStr (tm_errors m))),
      (''counts'', VDict (map (\<lambda>(l, n). (l, VInt n)) (tm_counts m))), (''max_events'', VInt (int MAX_EVENTS))]"

text \<open>
  One file per session, below the user data of the game, or below its usual place when the game does not
  say. A file is its lines; \<open>open(path, 'w')\<close> starts it anew.
\<close>

type_synonym disk = "string list \<Rightarrow> string list option"

definition dump_path :: "string option \<Rightarrow> string \<Rightarrow> int \<Rightarrow> string list" where
  "dump_path base home session =
     (case base of
        Some (c # cs) \<Rightarrow> [c # cs]
      | _ \<Rightarrow> [home, ''Documents'', ''Electronic Arts'', ''The Sims 4'']) @
     [''KerMP'', ''interaction-trace-session-'' @ int_str session @ ''.jsonl'']"

definition dump_to_file ::
  "(trace_event \<Rightarrow> string) \<Rightarrow> string list \<Rightarrow> int option \<Rightarrow> trace_mod \<Rightarrow> disk \<Rightarrow> disk" where
  "dump_to_file dumps path limit m fs = fs(path \<mapsto> map dumps (trace_events limit m))"

lemma dump_paths_differ:
  "s \<noteq> s' \<Longrightarrow> dump_path base home s \<noteq> dump_path base home s'"
  by (simp add: dump_path_def)

text \<open>Dumping reads the trace only, and does not touch the file of another session.\<close>

lemma dump_other_session:
  "s \<noteq> tm_session m \<Longrightarrow>
     dump_to_file dumps (dump_path base home (tm_session m)) limit m fs (dump_path base home s) = fs (dump_path base home s)"
  using dump_paths_differ [of s "tm_session m"] by (simp add: dump_to_file_def)

lemma dump_complete:
  assumes "limit = None \<or> (\<exists>n. limit = Some n \<and> int (length (tm_events m)) \<le> n)"
  shows "dump_to_file dumps path limit m fs path = Some (map dumps (tm_events m))"
  using assms by (auto simp: dump_to_file_def trace_events_def last_n_def)

text \<open>
  \<open>kermp.trace.stop\<close> writes every event; \<open>kermp.trace.dump\<close> afterwards writes the same file again with at
  most as many as it is told to print, 200 without an argument: what the file had before them is gone.
\<close>

definition kermp_trace_stop_file ::
  "(trace_event \<Rightarrow> string) \<Rightarrow> string option \<Rightarrow> string \<Rightarrow> trace_mod \<Rightarrow> disk \<Rightarrow> trace_mod \<times> disk" where
  "kermp_trace_stop_file dumps base home m fs =
     (let m1 = trace_stop m in (m1, dump_to_file dumps (dump_path base home (tm_session m1)) None m1 fs))"

definition kermp_trace_dump ::
  "(trace_event \<Rightarrow> string) \<Rightarrow> string option \<Rightarrow> string \<Rightarrow> string \<Rightarrow> int \<Rightarrow> trace_mod \<Rightarrow> disk \<Rightarrow> disk \<times> string list" where
  "kermp_trace_dump dumps base home shown limit m fs =
     (let values = trace_dump limit m in
      (dump_to_file dumps (dump_path base home (tm_session m)) (Some (clamp_limit limit)) m fs,
       (''trace dump events='' @ nat_str (length values) @ '' file='' @ shown) # map dumps values))"

lemma stop_file_complete:
  "kermp_trace_stop_file dumps base home m fs = (m1, fs1) \<Longrightarrow>
     fs1 (dump_path base home (tm_session m1)) = Some (map dumps (tm_events m1))"
  by (auto simp: kermp_trace_stop_file_def Let_def dump_complete)

lemma short_dump_truncates:
  assumes "1 \<le> limit" "limit < int (length (tm_events m))" "limit \<le> 512"
  shows "\<exists>ls. fst (kermp_trace_dump dumps base home shown limit m fs) (dump_path base home (tm_session m)) = Some ls \<and>
    length ls = nat limit \<and> length ls < length (tm_events m)"
  using assms
  by (simp add: kermp_trace_dump_def dump_to_file_def trace_events_def clamp_limit_def length_last_n Let_def)

text \<open>What is printed is what is written.\<close>

lemma dump_prints_file:
  "kermp_trace_dump dumps base home shown limit m fs = (fs1, head1 # ls) \<Longrightarrow>
     fs1 (dump_path base home (tm_session m)) = Some ls"
  by (auto simp: kermp_trace_dump_def dump_to_file_def trace_dump_def Let_def)

text \<open>\<open>kermp.trace.mark\<close>.\<close>

definition kermp_trace_mark :: "string \<Rightarrow> trace_mod \<Rightarrow> trace_mod \<times> string" where
  "kermp_trace_mark label m = (trace_mark label m, ''trace mark='' @ label)"

section \<open>The game's commands\<close>

text \<open>
  \<open>_callable_info\<close>; the attributes of a code object are read without a default, so an object whose
  \<open>__code__\<close> is something else raises.
\<close>

definition code_attr :: "gval \<Rightarrow> string \<Rightarrow> py_error + gval" where
  "code_attr code n =
     (case gattr_opt code n of
        None \<Rightarrow> Inl (AttributeError ([CHR 0x27] @ gtype code @ [CHR 0x27] @ '' object has no attribute '' @ [CHR 0x27] @ n @ [CHR 0x27]))
      | Some v \<Rightarrow> Inr v)"

definition code_names :: "gval \<Rightarrow> py_error + gval" where
  "code_names v = (case v of
        GSeq xs \<Rightarrow> Inr (GSeq (take 30 xs))
      | GStr t \<Rightarrow> Inr (GSeq (map (\<lambda>c. GStr [c]) (take 30 t)))
      | _ \<Rightarrow> Inl (TypeError ''not subscriptable''))"

definition code_info :: "gval \<Rightarrow> py_error + (string \<times> gval) list" where
  "code_info code =
     (if code = GNone then Inr []
      else case code_attr code ''co_filename'' of
        Inl e \<Rightarrow> Inl e
      | Inr f \<Rightarrow>
        (case code_attr code ''co_firstlineno'' of
           Inl e \<Rightarrow> Inl e
         | Inr l \<Rightarrow>
           (case code_attr code ''co_names'' of
              Inl e \<Rightarrow> Inl e
            | Inr ns \<Rightarrow>
              (case code_names ns of
                 Inl e \<Rightarrow> Inl e
               | Inr taken \<Rightarrow> Inr [(''file'', f), (''line'', l), (''names'', taken)]))))"

definition callable_info :: "(gval \<Rightarrow> py_error + string) \<Rightarrow> gval \<Rightarrow> py_error + (string \<times> gval) list" where
  "callable_info signature v =
     (case code_info (gattr v ''__code__'') of
        Inl e \<Rightarrow> Inl e
      | Inr extra \<Rightarrow>
         Inr ([(''type'', GStr (gtype v)), (''module'', gattr v ''__module__''), (''qualname'', gattr v ''__qualname__''),
           (''name'', gattr v ''__name__''),
           (''trace_wrapper'', GBool (gtruthy (gattr v ''_kermp_trace_wrapper''))),
           (''kermp_wrapper'', GBool (gtruthy (gattr v ''_kermp_wrapped''))),
           (''signature'', GStr (case signature v of Inl e \<Rightarrow> ''<'' @ exc_class e @ ''>'' | Inr s \<Rightarrow> s))] @ extra))"

text \<open>
  \<open>registry_snapshot\<close>: what the registry describes for each term, and what the commands the mod hooks are at
  the moment. An exception of one term is its entry, one of the commands ends their list.
\<close>

definition REGISTRY_TERMS :: "string list" where
  "REGISTRY_TERMS = [''interaction'', ''choice'', ''select'', ''picker'', ''pie'', ''queue'', ''push'']"

definition HANDLER_NAMES :: "string list" where
  "HANDLER_NAMES = [''has_choices'', ''generate_choices'', ''select_choice'', ''push_interaction'',
     ''push_targeting_sim_info'', ''cancel_super_interaction'', ''cancel_mixer_interaction'']"

definition term_error :: "py_error \<Rightarrow> gval" where
  "term_error e = GStr (exc_class e @ '':'' @ exc_text e)"

definition described_term :: "(string \<Rightarrow> py_error + gval list) \<Rightarrow> string \<Rightarrow> gval" where
  "described_term describe t =
     (case describe t of Inl e \<Rightarrow> GSeq [term_error e] | Inr vs \<Rightarrow> GSeq (map primitive (take 40 vs)))"

fun handler_infos :: "(gval \<Rightarrow> py_error + string) \<Rightarrow> (string \<Rightarrow> gval) \<Rightarrow> string list \<Rightarrow> (string \<times> gval) list" where
  "handler_infos signature handler [] = []"
| "handler_infos signature handler (n # ns) =
     (case callable_info signature (handler n) of
        Inl e \<Rightarrow> [(''error'', term_error e)]
      | Inr info \<Rightarrow> (n, GMap info) # handler_infos signature handler ns)"

definition method_terms :: "string list" where
  "method_terms = [''command'', ''describe'', ''execute'', ''register'']"

definition names_with :: "string list \<Rightarrow> string list \<Rightarrow> string list" where
  "names_with terms names = sort (filter (\<lambda>n. \<exists>t \<in> set terms. sublist t (py_lower n)) names)"

record registry =
  rg_type :: string
  rg_methods :: "string list"
  rg_described :: "(string \<times> gval) list"
  rg_handlers :: "(string \<times> gval) list"

definition registry_snapshot ::
  "(gval \<Rightarrow> py_error + string) \<Rightarrow> (string \<Rightarrow> py_error + gval list) \<Rightarrow> py_error + (string \<Rightarrow> gval) \<Rightarrow> gval \<Rightarrow>
     string list \<Rightarrow> registry" where
  "registry_snapshot signature describe commands native names =
     \<lparr>rg_type = gtype native, rg_methods = names_with method_terms names,
      rg_described = map (\<lambda>t. (t, described_term describe t)) REGISTRY_TERMS,
      rg_handlers = (case commands of
         Inl e \<Rightarrow> [(''error'', term_error e)]
       | Inr handler \<Rightarrow> handler_infos signature handler HANDLER_NAMES)\<rparr>"

text \<open>
  A snapshot never raises. It lists the seven commands, or the ones before the first that could not be
  described and why.
\<close>

lemma handler_infos_keys:
  "map fst (handler_infos signature handler ns) = ns \<or>
     (\<exists>k < length ns. map fst (handler_infos signature handler ns) = take k ns @ [''error''])"
proof (induction ns)
  case (Cons n ns)
  then show ?case
    by (cases "callable_info signature (handler n)") (auto intro: exI [of _ 0] exI [of _ "Suc k" for k])
qed simp

lemma registry_complete:
  assumes "\<And>n. n \<in> set HANDLER_NAMES \<Longrightarrow> gattr (handler n) ''__code__'' = GNone"
  shows "map fst (rg_handlers (registry_snapshot signature describe (Inr handler) native names)) = HANDLER_NAMES"
proof -
  have "set ns \<subseteq> set HANDLER_NAMES \<Longrightarrow> map fst (handler_infos signature handler ns) = ns" for ns
    by (induction ns) (simp_all add: callable_info_def code_info_def assms)
  then show ?thesis by (simp add: registry_snapshot_def)
qed

text \<open>After an installation of the hooks the snapshot shows which commands are wrapped.\<close>

lemma callable_info_wrapped:
  "callable_info signature v = Inr info \<Longrightarrow>
     map_of info ''kermp_wrapper'' = Some (GBool (gtruthy (gattr v ''_kermp_wrapped'')))"
  by (auto simp: callable_info_def split: sum.splits)

definition kermp_trace_registry :: "(gval \<Rightarrow> string) \<Rightarrow> registry \<Rightarrow> string list" where
  "kermp_trace_registry dumps r =
     (''registry type='' @ rg_type r @ '' methods='' @ or_none (join '','' (rg_methods r))) #
     map (\<lambda>(n, v). ''handler '' @ n @ ''='' @ dumps v) (sort_key fst (rg_handlers r)) @
     map (\<lambda>(t, v). ''registry term='' @ t @ '' values='' @ dumps v) (sort_key fst (rg_described r))"

lemma registry_lines:
  "length (kermp_trace_registry dumps (registry_snapshot signature describe commands native names)) \<le> 15"
proof -
  have "length (handler_infos signature handler ns) \<le> length ns" if "ns \<noteq> []" for handler ns
  proof -
    have "length (map fst (handler_infos signature handler ns)) \<le> length ns"
      using handler_infos_keys [of signature handler ns] by (elim disjE exE) simp_all
    then show ?thesis by simp
  qed
  from this [of HANDLER_NAMES] show ?thesis
    by (simp add: kermp_trace_registry_def registry_snapshot_def REGISTRY_TERMS_def HANDLER_NAMES_def split: sum.split)
qed

section \<open>The clients\<close>

text \<open>
  \<open>client_snapshot\<close>: one entry for every client of the manager, \<open>menu_len\<close> the length of a menu where it has
  one; then the client of the distributor. What fails is noted; what was read before stays.
\<close>

definition client_entry :: "(gval \<Rightarrow> int option) \<Rightarrow> gval \<Rightarrow> gval" where
  "client_entry menu_len c =
     (let menu = gattr c ''choice_menu'' in
      GMap [(''id'', gattr c ''id''), (''active'', gattr c ''active''),
        (''active_sim_id'', case trace_sim_id (gattr c ''active_sim'') of None \<Rightarrow> GNone | Some s \<Rightarrow> GStr s),
        (''choice_menu_type'', if menu = GNone then GNone else GStr (gtype menu)),
        (''choice_menu_revision'', if menu = GNone then GNone else gattr menu ''revision''),
        (''choice_menu_count'', if menu = GNone then GInt 0
           else case menu_len menu of None \<Rightarrow> GNone | Some n \<Rightarrow> GInt n),
        (''interaction_parameters'', primitive (gattr c ''_interaction_parameters''))])"

record clients_seen =
  cs_clients :: "gval list"
  cs_distributor :: gval
  cs_error :: "gval"

definition client_snapshot ::
  "(gval \<Rightarrow> int option) \<Rightarrow> py_error + gval list \<Rightarrow> py_error + gval \<Rightarrow> clients_seen" where
  "client_snapshot menu_len clients distributor =
     (case clients of
        Inl e \<Rightarrow> \<lparr>cs_clients = [], cs_distributor = GNone, cs_error = term_error e\<rparr>
      | Inr cs \<Rightarrow>
         (case distributor of
            Inl e \<Rightarrow> \<lparr>cs_clients = map (client_entry menu_len) cs, cs_distributor = GNone, cs_error = term_error e\<rparr>
          | Inr d \<Rightarrow> \<lparr>cs_clients = map (client_entry menu_len) cs, cs_distributor = gattr (gattr d ''client'') ''id'',
              cs_error = GNone\<rparr>))"

definition kermp_trace_clients :: "(gval \<Rightarrow> string) \<Rightarrow> (gval \<Rightarrow> string) \<Rightarrow> clients_seen \<Rightarrow> string list" where
  "kermp_trace_clients tx dumps s =
     (''clients distributor_client_id='' @ gstr tx (cs_distributor s) @ '' error='' @
        gstr tx (if gtruthy (cs_error s) then cs_error s else GStr ''none'')) #
     map dumps (cs_clients s)"

text \<open>Every client of the manager is listed, also when the distributor cannot be asked; and can be printed.\<close>

lemma clients_listed:
  "clients = Inr cs \<Longrightarrow> length (cs_clients (client_snapshot menu_len clients distributor)) = length cs"
  "cs_error (client_snapshot menu_len clients distributor) = GNone \<longleftrightarrow> (\<exists>cs d. clients = Inr cs \<and> distributor = Inr d)"
  by (simp_all add: client_snapshot_def term_error_def split: sum.split)

text \<open>
  The tracer's context of a call and the snapshot agree on a client: the Sim and the length of its menu are
  the same.
\<close>

lemma snapshot_matches_context:
  "client_entry (te_len g) c = GMap d \<Longrightarrow>
     map_of d ''active_sim_id'' =
       Some (case cx_sim (client_context g v c t) of None \<Rightarrow> GNone | Some s \<Rightarrow> GStr s) \<and>
     map_of d ''choice_menu_count'' =
       Some (case cx_count (client_context g v c t) of None \<Rightarrow> GNone | Some n \<Rightarrow> GInt n)"
  by (auto simp: client_entry_def client_context_def Let_def split: option.splits)

end
