(* ===== verification/Console_Reports.thy ===== *)
theory Console_Reports
  imports Mod_Console Local_Files "HOL-Library.Sublist"
begin

text \<open>
  The long reports of \<^verbatim>\<open>commands.py\<close>: \<open>kermp.core.status\<close>, \<open>kermp.play.status\<close>, \<open>kermp.build.eventprobe\<close>
  and \<open>kermp.distributor.status\<close>, with \<open>inspect_distributor_boundary\<close> of \<^verbatim>\<open>hooks.py\<close>, which asks the
  installed game what there is. The status dictionaries of the hooks and what the game answers are arguments.
\<close>

section \<open>Lines of fields\<close>

definition fields_line :: "(string \<times> string) list \<Rightarrow> string" where
  "fields_line kvs = join '' '' (map (\<lambda>(k, v). k @ ''='' @ v) kvs)"

definition field :: "pydict \<Rightarrow> string \<Rightarrow> string" where
  "field d k = py_str (pget d k)"

definition field_or :: "string \<Rightarrow> pydict \<Rightarrow> string \<Rightarrow> string" where
  "field_or alt d k = py_str (py_or (pget d k) (VStr alt))"

text \<open>\<open>(text or 'none').splitlines()[0] if text else 'none'\<close>.\<close>

definition first_line :: "string \<Rightarrow> string" where
  "first_line t = takeWhile (\<lambda>c. \<not> line_end c) t"

definition error_field :: "pydict \<Rightarrow> string" where
  "error_field d = (if truthy (pget d ''last_error'') then first_line (field d ''last_error'') else ''none'')"

definition single_line :: "string \<Rightarrow> bool" where
  "single_line t \<longleftrightarrow> (\<forall>c \<in> set t. \<not> line_end c)"

lemma first_line_single: "single_line (first_line t)"
  by (auto simp: single_line_def first_line_def dest: set_takeWhileD)

lemma error_field_single: "single_line (error_field d)"
proof -
  have "single_line ''none''" by code_simp
  then show ?thesis by (simp add: error_field_def first_line_single)
qed

lemma first_line_prefix: "\<exists>rest. t = first_line t @ rest"
  using takeWhile_dropWhile_id unfolding first_line_def by metis

section \<open>\<open>kermp.core.status\<close>\<close>

record view_counters =
  vc_sent :: int
  vc_received :: int
  vc_last_size :: int
  vc_last_id :: pyval

definition kermp_core_status :: "(string \<times> string) list \<Rightarrow> view_counters \<Rightarrow> game_mod \<Rightarrow> string list" where
  "kermp_core_status sims c m =
     [fields_line [(''role'', role_text (gm_role m)), (''player_id'', ''local''), (''active_sim_id'', core_active sims),
        (''connected_players'', ''unknown'')],
      fields_line [(''interaction_requests'', ''unknown''), (''interaction_started'', ''unknown''),
        (''view_updates_sent'', int_str (vc_sent c))],
      fields_line [(''view_updates_received'', int_str (vc_received c)), (''last_view_update_size'', int_str (vc_last_size c)),
        (''last_view_update_msg_id'', py_str (vc_last_id c))],
      fields_line [(''travel_state'', if truthy (gm_txn m) then ''pending'' else ''idle''), (''travel_epoch'', int_str (gm_epoch m)),
        (''buffered_view_updates'', nat_str (length (gm_buffer m))), (''timeline_mode'', ''normal'')]]"

section \<open>\<open>kermp.play.status\<close>\<close>

text \<open>
  What the command collects: the role, the bridge, the zone (0 when unknown), the status dictionaries of the
  hooks, whether \<open>omega.send\<close> is there, the counters, both Sims, the last local operation and the
  capabilities of the adapter.
\<close>

record play_view =
  pv_role :: pyval
  pv_bridge :: bool
  pv_zone :: string
  pv_sim :: pydict
  pv_clock :: pydict
  pv_aop :: pydict
  pv_capture :: pydict
  pv_interaction :: pydict
  pv_command :: pydict
  pv_omega :: bool
  pv_installed :: bool
  pv_counters :: view_counters
  pv_active :: "string option"
  pv_authoritative :: "string option"

definition authority_line :: "pydict \<Rightarrow> string" where
  "authority_line s =
     ''SIM_AUTHORITY '' @ fields_line [(''suppression_installed'', field s ''installed''),
       (''available'', field s ''timeline_suppression_available''), (''local_enabled'', field s ''local_simulation_enabled''),
       (''bypass'', field s ''bypass''), (''error'', field_or ''none'' s ''last_error'')]"

definition clock_line :: "pydict \<Rightarrow> pydict \<Rightarrow> string" where
  "clock_line s c =
     ''CLOCK '' @ fields_line [(''hooks_installed'', field c ''installed''), (''source'', field s ''clock_source''),
       (''requests'', field c ''requests''), (''applied'', field c ''applied''), (''error'', field_or ''none'' c ''last_error'')]"

definition aop_line :: "pydict \<Rightarrow> string" where
  "aop_line a =
     fields_line [(''INPUT_ENTRYPOINT'', field_or ''none'' a ''last_entrypoint''), (''AOP_seen'', field a ''seen''),
       (''AOP_user_seen'', field a ''user_seen''), (''AOP_forwarded'', field a ''forwarded''),
       (''source'', field_or ''none'' a ''last_source''), (''affordance'', field_or ''none'' a ''last_affordance''),
       (''target'', field_or ''none'' a ''last_target''), (''target_kind'', field_or ''none'' a ''last_target_kind''),
       (''target_type'', field_or ''none'' a ''last_target_type''), (''target_local_object'', field a ''last_target_local_object''),
       (''position'', field a ''last_position_present''), (''pick'', field a ''last_pick_present''),
       (''sim'', field_or ''none'' a ''last_sim''), (''error'', field_or ''none'' a ''last_error'')]"

definition capture_line :: "bool \<Rightarrow> pydict \<Rightarrow> string" where
  "capture_line installed c =
     ''CAPTURE '' @ fields_line [(''installed'', bool_text installed), (''observed'', field c ''observed''),
       (''replicated'', field c ''replicated''), (''dropped_local'', field c ''dropped_local''),
       (''dropped_local_ops'', field c ''dropped_local_ops''), (''error'', error_field c)]"

definition interaction_line :: "pydict \<Rightarrow> string" where
  "interaction_line i =
     ''INTERACTION '' @ fields_line [(''intercepted'', field i ''forwarded''), (''sent'', field i ''sent''),
       (''accepted'', field i ''accepted''), (''delivered'', field i ''delivered''), (''apply_accepted'', field i ''apply_accepted''),
       (''apply_rejected'', field i ''apply_rejected''), (''rejected'', field i ''rejected''), (''queued'', field i ''queued''),
       (''started'', field i ''started''), (''last_affordance'', field i ''last_affordance_id''),
       (''last_target'', field i ''last_target_id''), (''last_sim'', field i ''last_sim_id''), (''error'', error_field i)]"

definition command_line :: "pydict \<Rightarrow> string" where
  "command_line c =
     ''NATIVE_COMMAND '' @ fields_line [(''installed'', field c ''installed''), (''captured'', field c ''captured''),
       (''forwarded'', field c ''forwarded''), (''fallback'', field c ''fallback''), (''received'', field c ''received''),
       (''replayed'', field c ''replayed''), (''result_truthy'', field c ''result_truthy''), (''queue_created'', field c ''queue_created''),
       (''interaction_started'', field c ''interaction_started''), (''rejected'', field c ''rejected''),
       (''remote_clients'', field c ''remote_clients''), (''remote_stage'', field_or ''none'' c ''remote_client_stage''),
       (''remote_registration'', field_or ''unknown'' c ''remote_client_registration''),
       (''last_command'', field_or ''none'' c ''last_command''), (''last_result'', field_or ''none'' c ''last_result_type''),
       (''last_interaction'', field_or ''none'' c ''last_interaction_id''), (''last_player'', field_or ''none'' c ''last_player_id''),
       (''remote_client_id'', field_or ''none'' c ''last_remote_client_id''), (''error'', error_field c)]"

text \<open>\<open>adapter.last_local_operation and ...get('op') or 'none'\<close> is printed as the owner of the build lock.\<close>

definition build_line :: "adapter \<Rightarrow> string" where
  "build_line a =
     ''BUILD_MODE '' @ fields_line [(''build_owner'', case ad_last_local a of None \<Rightarrow> ''none'' | Some p \<Rightarrow> or_none (go_op p)),
       (''capture_available'', bool_text (''capture'' \<in> capabilities a)),
       (''apply_available'', bool_text (''apply'' \<in> capabilities a))]"

definition kermp_play_status :: "(pyval \<Rightarrow> string) \<Rightarrow> play_view \<Rightarrow> adapter \<Rightarrow> string list" where
  "kermp_play_status dumps v a =
     [''ROLE='' @ role_text (pv_role v),
      fields_line [(''BRIDGE'', if pv_bridge v then ''connected'' else ''disconnected''), (''zone_id'', pv_zone v)],
      authority_line (pv_sim v), clock_line (pv_sim v) (pv_clock v), aop_line (pv_aop v),
      ''OMEGA send_available='' @ bool_text (pv_omega v), capture_line (pv_installed v) (pv_capture v),
      interaction_line (pv_interaction v), command_line (pv_command v),
      ''NATIVE_COMMAND_BY_NAME='' @ dumps (py_or (pget (pv_command v) ''by_name'') (VDict [])),
      ''RX '' @ fields_line [(''view_updates_received'', int_str (vc_received (pv_counters v)) @ '' TX view_updates_sent='' @
        int_str (vc_sent (pv_counters v)))],
      ''LOCAL_ACTIVE_SIM='' @ opt_none (pv_active v), ''AUTHORITATIVE_CONTROLLED_SIM='' @ opt_none (pv_authoritative v),
      build_line a]"

text \<open>
  The lock is asked for, granted and lost without the line changing; it names the kind of the last
  operation captured here.
\<close>

lemma build_owner_is_operation:
  "ad_last_local a = ad_last_local a' \<Longrightarrow> capabilities a = capabilities a' \<Longrightarrow> build_line a = build_line a'"
  "ad_last_local a = Some p \<Longrightarrow> go_op p \<noteq> [] \<Longrightarrow>
     \<exists>rest. build_line a = ''BUILD_MODE build_owner='' @ go_op p @ '' '' @ rest"
  by (auto simp: build_line_def fields_line_def or_none_def)

text \<open>
  A traceback kept as the last error of the capture, of the interactions or of the commands is cut to its first line; those
  three lines stay lines as long as the other fields are.
\<close>

lemma single_line_simps [simp]:
  "single_line []" "single_line (c # t) \<longleftrightarrow> \<not> line_end c \<and> single_line t"
  "single_line (a @ b) \<longleftrightarrow> single_line a \<and> single_line b"
  by (auto simp: single_line_def)

lemma no_line_end [simp]: "\<not> line_end (CHR '' '')" "\<not> line_end (CHR ''='')"
  by code_simp+

lemma single_line_join: "single_line sep \<Longrightarrow> \<forall>x \<in> set xs. single_line x \<Longrightarrow> single_line (join sep xs)"
  by (induction sep xs rule: join.induct) simp_all

lemma single_line_fields: "\<forall>kv \<in> set kvs. single_line (fst kv) \<and> single_line (snd kv) \<Longrightarrow> single_line (fields_line kvs)"
  unfolding fields_line_def by (rule single_line_join) (simp_all add: case_prod_beta)

lemma capture_line_single:
  assumes "\<And>k. single_line (field c k)"
  shows "single_line (capture_line b c)"
proof -
  have t: "single_line ''CAPTURE ''" "single_line (bool_text True)" "single_line (bool_text False)"
    by code_simp+
  then have bt: "single_line (bool_text b)" by (cases b) simp_all
  have k: "single_line ''installed''" "single_line ''observed''" "single_line ''replicated''" "single_line ''dropped_local''"
    "single_line ''dropped_local_ops''" "single_line ''error''"
    by code_simp+
  have "single_line (fields_line [(''installed'', bool_text b), (''observed'', field c ''observed''),
       (''replicated'', field c ''replicated''), (''dropped_local'', field c ''dropped_local''),
       (''dropped_local_ops'', field c ''dropped_local_ops''), (''error'', error_field c)])"
    by (rule single_line_fields) (simp only: list.set ball_simps fst_conv snd_conv k bt assms error_field_single simp_thms)
  then show ?thesis unfolding capture_line_def using t(1) by (simp only: single_line_simps(3))
qed

section \<open>\<open>kermp.build.eventprobe\<close>\<close>

definition kermp_build_eventprobe :: "pydict \<Rightarrow> string list" where
  "kermp_build_eventprobe e =
     [fields_line [(''wall_callback_attribute_exists'', field e ''attribute_exists''), (''type'', field e ''type''),
        (''callable'', field e ''callable''), (''semantics'', field e ''collection_semantics'')],
      fields_line [(''wall_callback_registered'', field e ''registered''), (''wall_events_seen'', field e ''event_count'')],
      ''last_wall_event='' @ field e ''last_event'']"

text \<open>
  What the command prints: the inspection of the zone's callbacks, repeated with the installation when the
  callback is not registered yet. \<open>wv\<close> is what Python says of the collection: its type, its \<open>repr\<close>, whether it
  can be called; \<open>last_event\<close> the arguments of the last wall event.
\<close>

record wall_view =
  wv_type :: string
  wv_repr :: string
  wv_callable :: bool
  wv_last_event :: pyval

definition inspect_wall :: "wall_view \<Rightarrow> wall_mod \<Rightarrow> pydict" where
  "inspect_wall v m =
     (let base = (\<lambda>ty rp ca sem. [(''zone_available'', VBool (wm_zone m \<noteq> None)),
            (''attribute_exists'', VBool (wall_collection m \<noteq> None)), (''type'', ty), (''repr'', rp), (''callable'', ca),
            (''collection_semantics'', sem), (''registration_method'', VNone), (''registered'', VBool (wm_registered m)),
            (''event_count'', VInt (int (wm_events m))), (''last_event'', wv_last_event v), (''error'', VNone)])
      in case wall_collection m of
           None \<Rightarrow> base VNone VNone (VBool False) VNone
         | Some (z, c) \<Rightarrow> base (VStr (wv_type v)) (VStr (take 1000 (wv_repr v))) (VBool (wv_callable v))
             (VStr (collection_semantics (wv_callable v) c)))"

text \<open>\<open>wall_event_probe\<close>: the state afterwards and the report.\<close>

definition wall_event_probe :: "wall_view \<Rightarrow> wall_mod \<Rightarrow> wall_mod \<times> pydict" where
  "wall_event_probe v m =
     (let m1 = install_wall_callback m
      in (m1, AList.update ''event_count'' (VInt (int (wm_events m1)))
            (AList.update ''registered'' (VBool (wm_registered m1)) (inspect_wall v m))))"

text \<open>The probe says that the callback is registered exactly when it is, and registers it at most once.\<close>

lemma wall_probe_registered:
  "pget (snd (wall_event_probe v m)) ''registered'' = VBool (wm_registered (fst (wall_event_probe v m)))"
  by (simp add: wall_event_probe_def Let_def pget_def)

lemma wall_probe_idle: "wm_registered m \<Longrightarrow> fst (wall_event_probe v m) = m"
  by (simp add: wall_event_probe_def install_wall_callback_def Let_def split: option.split prod.split)

section \<open>The distributor of the game\<close>

definition NEEDLES :: "string list" where
  "NEEDLES = [''op'', ''message'', ''view'', ''send'', ''process'', ''flush'', ''distribut'']"

definition dunder :: "string \<Rightarrow> bool" where
  "dunder n \<longleftrightarrow> take 2 n = ''__''"

definition interesting :: "string list \<Rightarrow> string list" where
  "interesting names =
     take 60 (sort (filter (\<lambda>n. \<not> dunder n \<and> (\<exists>t \<in> set NEEDLES. sublist t (py_lower n))) names))"

text \<open>
  What the game answers: the module \<open>omega\<close>; the class \<open>Distributor\<close> if there is one, with its names, the
  signature of each (\<open>None\<close> when it cannot be called) and its instance; the constants; the first client and its
  \<open>omega\<close>. A part that cannot be reached is the exception.
\<close>

record dist_class =
  dc_names :: "string list"
  dc_signature :: "string \<Rightarrow> (py_error + string) option"
  dc_instance :: "py_error + (string \<times> string list) option"

record omega_seen =
  om_type :: string
  om_repr :: string
  om_send :: bool
  om_names :: "string list"

record client_seen =
  ct_type :: string
  ct_names :: "string list"
  ct_omega :: "omega_seen option"

record boundary_env =
  be_capture :: bool
  be_omega :: "py_error + (string \<times> bool)"
  be_class :: "py_error + dist_class option"
  be_consts :: "py_error + (string \<times> gval) list"
  be_client :: "py_error + client_seen option"

record boundary =
  br_modules :: "string list"
  br_distributor :: "string list"
  br_signatures :: "(string \<times> string) list"
  br_instance :: "string list"
  br_client_methods :: "string list"
  br_client_omega :: "string list"
  br_client_type :: "string option"
  br_omega_type :: "string option"
  br_omega_repr :: "string option"
  br_omega_send :: bool
  br_capture :: bool
  br_global_type :: "string option"
  br_global_send :: bool
  br_consts :: "(string \<times> gval) list"
  br_error :: "string option"
  br_omega_error :: "string option"

definition error_note :: "py_error \<Rightarrow> string" where
  "error_note e = exc_class e @ '': '' @ exc_text e"

definition signature_of :: "dist_class \<Rightarrow> string \<Rightarrow> (string \<times> string) option" where
  "signature_of c n =
     (case dc_signature c n of
        None \<Rightarrow> None
      | Some (Inr s) \<Rightarrow> Some (n, take 200 s)
      | Some (Inl e) \<Rightarrow> Some (n, ''uninspectable''))"

definition note_omega :: "boundary_env \<Rightarrow> boundary \<Rightarrow> boundary" where
  "note_omega g r =
     (case be_omega g of
        Inl e \<Rightarrow> r
      | Inr (t, send) \<Rightarrow> r\<lparr>br_global_type := Some t, br_global_send := send\<rparr>)"

definition note_class :: "boundary_env \<Rightarrow> boundary \<Rightarrow> boundary" where
  "note_class g r =
     (case be_class g of
        Inl e \<Rightarrow> r\<lparr>br_error := Some (error_note e)\<rparr>
      | Inr None \<Rightarrow> r\<lparr>br_modules := br_modules r @ [''distributor.system'']\<rparr>
      | Inr (Some c) \<Rightarrow>
          (let names = interesting (dc_names c) in
           r\<lparr>br_modules := br_modules r @ [''distributor.system''], br_distributor := names,
             br_signatures := List.map_filter (signature_of c) names,
             br_instance := (case dc_instance c of Inr (Some (t, ns)) \<Rightarrow> interesting ns | _ \<Rightarrow> [])\<rparr>))"

text \<open>The constants whose name speaks of a view update: a number, or the start of the \<open>repr\<close>.\<close>

definition view_const :: "(gval \<Rightarrow> string) \<Rightarrow> string \<times> gval \<Rightarrow> (string \<times> gval) option" where
  "view_const rep nv =
     (if sublist ''VIEW_UPDATE'' (fst nv)
      then Some (fst nv, case gint (snd nv) of Some i \<Rightarrow> GInt i | None \<Rightarrow> GStr (take 200 (rep (snd nv))))
      else None)"

definition note_consts :: "(gval \<Rightarrow> string) \<Rightarrow> boundary_env \<Rightarrow> boundary \<Rightarrow> boundary" where
  "note_consts rep g r =
     (case be_consts g of Inl e \<Rightarrow> r | Inr nvs \<Rightarrow> r\<lparr>br_consts := List.map_filter (view_const rep) nvs\<rparr>)"

definition omega_names :: "omega_seen \<Rightarrow> string list" where
  "omega_names w =
     (let public = sort (filter (\<lambda>n. \<not> dunder n) (om_names w)) in
      if interesting public = [] then take 60 public else interesting public)"

definition note_client :: "boundary_env \<Rightarrow> boundary \<Rightarrow> boundary" where
  "note_client g r =
     (case be_client g of
        Inl e \<Rightarrow> r\<lparr>br_omega_error := Some (error_note e)\<rparr>
      | Inr None \<Rightarrow> r
      | Inr (Some c) \<Rightarrow>
          (let r1 = r\<lparr>br_client_type := Some (ct_type c), br_client_methods := interesting (ct_names c)\<rparr> in
           case ct_omega c of
             None \<Rightarrow> r1
           | Some w \<Rightarrow> r1\<lparr>br_omega_type := Some (om_type w), br_omega_repr := Some (take 300 (om_repr w)),
               br_omega_send := om_send w, br_client_omega := omega_names w\<rparr>))"

definition empty_boundary :: "bool \<Rightarrow> boundary" where
  "empty_boundary capture =
     \<lparr>br_modules = [], br_distributor = [], br_signatures = [], br_instance = [], br_client_methods = [], br_client_omega = [],
      br_client_type = None, br_omega_type = None, br_omega_repr = None, br_omega_send = False, br_capture = capture,
      br_global_type = None, br_global_send = False, br_consts = [], br_error = None, br_omega_error = None\<rparr>"

definition inspect_distributor_boundary :: "(gval \<Rightarrow> string) \<Rightarrow> boundary_env \<Rightarrow> boundary" where
  "inspect_distributor_boundary rep g =
     note_client g (note_consts rep g (note_class g (note_omega g (empty_boundary (be_capture g)))))"

definition names_or_none :: "string list \<Rightarrow> string" where
  "names_or_none ns = or_none (join '','' ns)"

definition kermp_distributor_status :: "((string \<times> gval) list \<Rightarrow> string) \<Rightarrow> boundary \<Rightarrow> string list" where
  "kermp_distributor_status show_consts r =
     [fields_line [(''modules'', names_or_none (br_modules r)), (''client_type'', opt_none (br_client_type r)),
        (''omega_type'', opt_none (br_omega_type r)), (''omega_send_callable'', bool_text (br_omega_send r)),
        (''capture_installed'', bool_text (br_capture r)), (''error'', opt_none (br_error r)),
        (''omega_error'', opt_none (br_omega_error r))],
      fields_line [(''global_omega_type'', opt_none (br_global_type r)),
        (''global_omega_send_callable'', bool_text (br_global_send r))],
      ''distributor_methods='' @ names_or_none (br_distributor r),
      ''distributor_instance_methods='' @ names_or_none (br_instance r),
      ''client_methods='' @ names_or_none (br_client_methods r), ''omega_methods='' @ names_or_none (br_client_omega r),
      ''view_update_consts='' @ show_consts (br_consts r)] @
     map (\<lambda>(n, s). ''distributor.'' @ n @ '' signature='' @ s) (sort_key fst (br_signatures r))"

lemma interesting_props:
  "length (interesting names) \<le> 60" "sorted (interesting names)" "set (interesting names) \<subseteq> set names"
  "n \<in> set (interesting names) \<Longrightarrow> \<not> dunder n \<and> (\<exists>t \<in> set NEEDLES. sublist t (py_lower n))"
  by (auto simp: interesting_def sorted_wrt_take dest: in_set_takeD)

lemma map_filter_length: "length (List.map_filter f xs) \<le> length xs"
  by (simp add: map_filter_def)

text \<open>
  Whatever the game answers the report is bounded; and a part that cannot be reached leaves the other parts
  as they are.
\<close>

lemma distributor_status_bounded:
  "length (kermp_distributor_status show_consts (inspect_distributor_boundary rep g)) \<le> 67"
proof -
  have s: "br_signatures (inspect_distributor_boundary rep g) = br_signatures (note_class g (note_omega g (empty_boundary (be_capture g))))"
    by (simp add: inspect_distributor_boundary_def note_client_def note_consts_def Let_def split: sum.split option.split)
  have "br_signatures (note_omega g (empty_boundary (be_capture g))) = []"
    by (simp add: note_omega_def empty_boundary_def split: sum.split prod.split)
  then have "length (br_signatures (note_class g (note_omega g (empty_boundary (be_capture g))))) \<le> 60"
    using order_trans [OF map_filter_length interesting_props(1)]
    by (auto simp: note_class_def Let_def split: sum.split option.split)
  then show ?thesis by (simp add: kermp_distributor_status_def s)
qed

lemma note_frame:
  "br_client_methods (note_consts rep g r) = br_client_methods r" "br_client_omega (note_consts rep g r) = br_client_omega r"
  "br_client_methods (note_class g r) = br_client_methods r" "br_client_omega (note_class g r) = br_client_omega r"
  "br_client_methods (note_omega g r) = br_client_methods r" "br_client_omega (note_omega g r) = br_client_omega r"
  by (simp_all add: note_consts_def note_class_def note_omega_def Let_def split: sum.split option.split prod.split)

lemma boundary_parts_independent:
  assumes "be_client g = be_client g'"
  shows "br_client_methods (inspect_distributor_boundary rep g) = br_client_methods (inspect_distributor_boundary rep g')"
    "br_client_omega (inspect_distributor_boundary rep g) = br_client_omega (inspect_distributor_boundary rep g')"
proof -
  have "br_client_methods (note_client g r) = br_client_methods (note_client g' r') \<and>
      br_client_omega (note_client g r) = br_client_omega (note_client g' r')"
    if "br_client_methods r = br_client_methods r'" "br_client_omega r = br_client_omega r'" for r r'
    using that by (simp add: note_client_def assms Let_def split: sum.split option.split)
  then show "br_client_methods (inspect_distributor_boundary rep g) = br_client_methods (inspect_distributor_boundary rep g')"
    "br_client_omega (inspect_distributor_boundary rep g) = br_client_omega (inspect_distributor_boundary rep g')"
    unfolding inspect_distributor_boundary_def by (simp_all add: note_frame empty_boundary_def)
qed

section \<open>\<open>kermp.build.object.reset\<close>\<close>

definition kermp_build_object_reset :: "adapter \<Rightarrow> adapter \<times> string" where
  "kermp_build_object_reset a = (reset_diagnostics a, ''KerMP Build/Buy diagnostics reset'')"

lemma reset_clears_owner: "build_line (fst (kermp_build_object_reset a)) = build_line (reset_diagnostics a)"
  "ad_last_local (fst (kermp_build_object_reset a)) = None"
  by (simp_all add: kermp_build_object_reset_def reset_diagnostics_def)

end
