(* ===== verification/Mod_Picks.thy ===== *)
theory Mod_Picks
  imports Object_Apply Mod_Interactions Mod_Native
begin

text \<open>
  Two conversions of \<^verbatim>\<open>hooks.py\<close> between the game's values and the wire: the kind of a pick, which a
  guest sends by name and the host looks up again (\<open>_wire_pick_type\<close>, \<open>_native_pick_type\<close>), and a location
  (\<open>_deserialize_location\<close>). An enumeration of the game is the list of its members, \<open>construct\<close> the call
  of its class with a number.
\<close>

section \<open>The kind of a pick\<close>

record pick_enum =
  pk_members :: "(string \<times> int) list"
  pk_construct :: "int \<Rightarrow> py_error + int"

text \<open>A member has its name and its number; a value without a name is sent as a number.\<close>

definition pick_member :: "string \<Rightarrow> int \<Rightarrow> gval" where
  "pick_member n i = GObj ''PickType'' [(''name'', GStr n), (''value'', GInt i)]"

definition wire_pick_type :: "player_env \<Rightarrow> gval \<Rightarrow> gval" where
  "wire_pick_type g v =
     (if gtruthy (gattr v ''name'') then GStr (gstr (pe_repr g) (gattr v ''name''))
      else case gint v of Some i \<Rightarrow> GInt i | None \<Rightarrow> command_value g v (GInt 0))"

definition native_pick_type :: "pick_enum \<Rightarrow> pyval \<Rightarrow> py_error + int" where
  "native_pick_type pk v =
     (case map_of (pk_members pk) (py_str v) of
        Some i \<Rightarrow> Inr i
      | None \<Rightarrow>
         (case (case py_int v of Inl e \<Rightarrow> Inl e | Inr i \<Rightarrow> pk_construct pk i) of
            Inr i \<Rightarrow> Inr i
          | Inl e \<Rightarrow>
             (case map_of (pk_members pk) ''PICK_TERRAIN'' of
                None \<Rightarrow> Inl (AttributeError ''PICK_TERRAIN'')
              | Some i \<Rightarrow> Inr i)))"

text \<open>A named kind arrives as the same kind.\<close>

lemma pick_round_trip:
  assumes "dict_ok (pk_members pk)" "(n, i) \<in> set (pk_members pk)" "n \<noteq> []"
  shows "native_pick_type pk (wire ft (wire_pick_type g (pick_member n i))) = Inr i"
proof -
  have "wire ft (wire_pick_type g (pick_member n i)) = VStr n"
    using assms(3) by (simp add: wire_pick_type_def pick_member_def gattr_def)
  then show ?thesis using assms(1,2) by (simp add: native_pick_type_def)
qed

text \<open>
  A number that names no member is given to the class; what the class does not take, and any other
  text, is taken for a pick of the ground.
\<close>

lemma pick_number:
  "int_str i \<notin> dict_keys (pk_members pk) \<Longrightarrow> pk_construct pk i = Inr j \<Longrightarrow> native_pick_type pk (VInt i) = Inr j"
  by (simp add: native_pick_type_def map_of_eq_None_iff [THEN iffD2])

lemma pick_unknown_is_ground:
  assumes "map_of (pk_members pk) ''PICK_TERRAIN'' = Some t" "py_str v \<notin> dict_keys (pk_members pk)"
    and "(\<exists>e. py_int v = Inl e) \<or> (\<exists>i e. py_int v = Inr i \<and> pk_construct pk i = Inl e)"
  shows "native_pick_type pk v = Inr t"
  using assms by (auto simp: native_pick_type_def map_of_eq_None_iff [THEN iffD2])

text \<open>
  The priority and the source of an interaction by their names: an attribute of the class, or the usual one,
  which is read in any case. A number is no name, so it becomes the usual one.
\<close>

definition named_or_default :: "string \<Rightarrow> (string \<times> int) list \<Rightarrow> pyval \<Rightarrow> py_error + int" where
  "named_or_default usual members v =
     (case map_of members usual of
        None \<Rightarrow> Inl (AttributeError usual)
      | Some d \<Rightarrow> Inr (case map_of members (py_str v) of None \<Rightarrow> d | Some i \<Rightarrow> i))"

definition native_priority :: "(string \<times> int) list \<Rightarrow> pyval \<Rightarrow> py_error + int" where
  "native_priority = named_or_default ''High''"

definition native_interaction_source :: "(string \<times> int) list \<Rightarrow> pyval \<Rightarrow> py_error + int" where
  "native_interaction_source = named_or_default ''SOURCE_PIE_MENU''"

text \<open>A named priority arrives as the same priority; one that is a plain number arrives as high.\<close>

lemma priority_round_trip:
  assumes "dict_ok members" "(n, i) \<in> set members" "n \<noteq> []" "map_of members ''High'' = Some h"
  shows "native_priority members (wire ft (command_value g (GObj c [(''name'', GStr n)]) (GStr ''High''))) = Inr i"
  using assms by (simp add: native_priority_def named_or_default_def command_value_def gattr_def)

lemma numeric_priority_is_high:
  assumes "map_of members ''High'' = Some h" "int_str k \<notin> dict_keys members"
  shows "native_priority members (wire ft (command_value g (GInt k) (GStr ''High''))) = Inr h"
  using assms by (simp add: native_priority_def named_or_default_def command_value_def gattr_def hook_json.simps
      map_of_eq_None_iff [THEN iffD2])

section \<open>Locations\<close>

text \<open>
  A location from the wire, with the transform and the surface of the fallback where they are missing; the
  fallback itself when the data is no mapping, when there is no transform at all, or when the game does not
  take them.
\<close>

datatype location_value = KeptLocation | BuiltLocation transform surface

definition deserialize_location ::
  "(string \<Rightarrow> rat option) \<Rightarrow> (vec \<Rightarrow> vec \<Rightarrow> bool) \<Rightarrow> (transform \<Rightarrow> surface \<Rightarrow> bool) \<Rightarrow> bool \<Rightarrow> pyval \<Rightarrow> location_value" where
  "deserialize_location flt accepts locates has_transform data =
     (case data of
        VDict d \<Rightarrow>
          (let t = deserialize_transform flt accepts data;
               s = deserialize_surface (pget d ''routing_surface'')
           in if t = KeptTransform \<and> \<not> has_transform then KeptLocation
              else if locates t s then BuiltLocation t s else KeptLocation)
      | _ \<Rightarrow> KeptLocation)"

text \<open>
  What \<open>_serialize_transform\<close> wrote is rebuilt: a position of three numbers, an orientation of four and the
  surface.
\<close>

lemma location_rebuilt:
  assumes "pget d ''position'' = VNone" "pget d ''translation'' = VList ps" "ps \<noteq> []"
    and "vec_of flt 3 (VList ps) = Some p" "vec_of flt 4 (pget d ''orientation'') = Some q"
    and "accepts p q" "locates (Built p q) (deserialize_surface (pget d ''routing_surface''))"
  shows "deserialize_location flt accepts locates b (VDict d) =
    BuiltLocation (Built p q) (deserialize_surface (pget d ''routing_surface''))"
  using assms by (simp add: deserialize_location_def deserialize_transform_def py_or_def Let_def)

text \<open>Data that is no mapping changes nothing.\<close>

lemma location_kept_without_mapping: "(\<nexists>d. data = VDict d) \<Longrightarrow> deserialize_location flt accepts locates b data = KeptLocation"
  by (auto simp: deserialize_location_def split: pyval.split)

end
