(* ===== verification/Fake_Reports.thy ===== *)
theory Fake_Reports
  imports Fake_Player
begin

text \<open>
  What the test player prints of itself (\<open>print_status\<close>, \<open>print_dialogs\<close>, \<open>raw-status\<close> and \<open>last\<close> of
  \<^verbatim>\<open>src/tools/fake_player.py\<close>), as the dictionaries it turns into JSON; and the hash of a file as the
  save transfer computes it, block by block (\<open>sha256_file\<close> of \<^verbatim>\<open>save_sync.py\<close>).
\<close>

section \<open>The reports\<close>

definition fake_status :: "fake_state \<Rightarrow> pydict" where
  "fake_status s =
     [(''player_id'', VStr (fk_id s)), (''connection'', VStr (fk_connection s)), (''session_id'', VStr (fk_session s)),
      (''compatibility'', fk_compat s), (''readiness'', VDict (fk_ready s)),
      (''save_progress'', pget (fk_ready s) ''save_progress''),
      (''bridge_readiness'', pget (fk_ready s) ''bridge_connected''), (''zone'', fk_zone s), (''clock'', VDict (fk_clock s)),
      (''build_lock_owner'', fk_owner s), (''travel'', VDict (fk_travel s)), (''last_error'', VStr (fk_error s))]"

definition fake_dialogs :: "fake_state \<Rightarrow> pyval" where
  "fake_dialogs s = VList (map snd (fk_dialogs s))"

definition fake_raw_status :: "fake_state \<Rightarrow> string" where
  "fake_raw_status s =
     ''count='' @ int_str (fk_raw s) @ '' last_msg_id='' @ py_str (fk_msg s) @ '' last_size='' @
     (case fk_size s of None \<Rightarrow> ''None'' | Some n \<Rightarrow> int_str n)"

definition fake_last :: "fake_state \<Rightarrow> pydict" where
  "fake_last s =
     [(''last_command'', VStr (fk_command s)), (''request_id'', fk_request s), (''last_correlated_result'', fk_result s),
      (''last_error'', VStr (fk_error s))]"

text \<open>A player that has just started is idle in every part of the report.\<close>

lemma fresh_status:
  "pget (fake_status (new_fake pid d)) ''connection'' = VStr ''disconnected''"
  "pget (fake_status (new_fake pid d)) ''save_progress'' = VNone" "fake_dialogs (new_fake pid d) = VList []"
  by (simp_all add: fake_status_def new_fake_def fake_dialogs_def pget_def)

text \<open>What a snapshot of the session says of the lock and the clock is what is printed.\<close>

lemma status_shows_state:
  "pget (fake_status s) ''build_lock_owner'' = fk_owner s" "pget (fake_status s) ''clock'' = VDict (fk_clock s)"
  "pget (fake_status s) ''travel'' = VDict (fk_travel s)" "pget (fake_last s) ''request_id'' = fk_request s"
  by (simp_all add: fake_status_def fake_last_def pget_def)

section \<open>Hashing a file\<close>

text \<open>
  \<open>iter(lambda: stream.read(n), b"")\<close>: blocks until an empty one. The digest sees them one after the other.
\<close>

function read_blocks :: "nat \<Rightarrow> 'b list \<Rightarrow> 'b list list" where
  "read_blocks n bytes = (if n = 0 \<or> bytes = [] then [] else take n bytes # read_blocks n (drop n bytes))"
  by pat_completeness auto

termination
  by (relation "measure (\<lambda>(n, bytes). length bytes)") auto

declare read_blocks.simps [simp del]

definition sha256_file :: "('s \<Rightarrow> 'b list \<Rightarrow> 's) \<Rightarrow> 's \<Rightarrow> ('s \<Rightarrow> string) \<Rightarrow> 'b list \<Rightarrow> string" where
  "sha256_file update start hexdigest bytes = hexdigest (foldl update start (read_blocks 1048576 bytes))"

lemma concat_read_blocks: "0 < n \<Longrightarrow> concat (read_blocks n bytes) = bytes"
  by (induction n bytes rule: read_blocks.induct) (subst read_blocks.simps, auto)

lemma read_blocks_sized: "b \<in> set (read_blocks n bytes) \<Longrightarrow> b \<noteq> [] \<and> length b \<le> n"
proof (induction n bytes rule: read_blocks.induct)
  case (1 n bytes)
  then show ?case by (subst (asm) (2) read_blocks.simps) (auto split: if_splits)
qed

text \<open>
  With a digest that depends on the bytes only and not on how they are cut (the contract of \<open>hashlib\<close>), the
  hash of the file is the hash of its bytes, whatever the size of the blocks.
\<close>

lemma sha256_file_whole:
  assumes cut: "\<And>s a b. update (update s a) b = update s (a @ b)" and none: "\<And>s. update s [] = s"
  shows "sha256_file update start hexdigest bytes = hexdigest (update start bytes)"
proof -
  have "foldl update s bs = update s (concat bs)" for s bs
    by (induction bs arbitrary: s) (simp_all add: cut none)
  then show ?thesis by (simp add: sha256_file_def concat_read_blocks)
qed

end
