(* ===== verification/Wall_Probe.thy ===== *)
theory Wall_Probe
  imports Mod_Console "HOL-Library.Multiset"
begin

text \<open>
  The probe of the walls: \<open>probe_wall_contours\<close> of \<^verbatim>\<open>src/sims_mod_src/kermp_mod/build_adapter.py\<close>, which calls
  the game's \<open>get_wall_contours\<close> without arguments, the comparison with the probe before it, and the console
  command \<open>kermp.build.probe\<close> that shows both.
\<close>

section \<open>Asking the game\<close>

text \<open>
  What Python sees of the function: whether it can be called, its type, \<open>repr\<close>, documentation and
  signature; and what the call returns - its type, its \<open>repr\<close> and the items of the iteration.
\<close>

record wall_answer =
  wr_type :: string
  wr_repr :: string
  wr_items :: "py_error + pyval list"

record wall_function =
  wf_callable :: bool
  wf_type :: string
  wf_repr :: string
  wf_doc :: "string option"
  wf_signature :: "py_error + string"
  wf_call :: "py_error + wall_answer"

definition safe_signature :: "py_error + string \<Rightarrow> string" where
  "safe_signature s = (case s of Inl e \<Rightarrow> ''<unavailable:'' @ exc_class e @ ''>'' | Inr t \<Rightarrow> t)"

text \<open>A game without the function answers like \<open>None\<close>.\<close>

definition no_wall_function :: wall_function where
  "no_wall_function = \<lparr>wf_callable = False, wf_type = ''NoneType'', wf_repr = ''None'', wf_doc = None,
     wf_signature = Inl (TypeError ''None is not a callable object''), wf_call = Inl (TypeError ''not callable'')\<rparr>"

definition empty_shot :: pydict where
  "empty_shot = [(''module_available'', VBool False), (''callable'', VBool False), (''type'', VNone), (''repr'', VNone),
     (''doc'', VNone), (''signature'', VNone), (''error'', VNone), (''contours'', VList [])]"

definition with_error :: "py_error \<Rightarrow> pydict \<Rightarrow> pydict" where
  "with_error e d = AList.update ''error'' (VStr (exc_class e @ '': '' @ exc_text e)) d"

definition described_function :: "wall_function \<Rightarrow> pydict" where
  "described_function f =
     AList.update ''signature'' (VStr (safe_signature (wf_signature f)))
       (AList.update ''doc'' (VStr (take 1000 (case wf_doc f of None \<Rightarrow> [] | Some t \<Rightarrow> t)))
         (AList.update ''repr'' (VStr (take 1000 (wf_repr f)))
           (AList.update ''type'' (VStr (wf_type f))
             (AList.update ''callable'' (VBool (wf_callable f))
               (AList.update ''module_available'' (VBool True) empty_shot)))))"

definition called_function :: "wall_function \<Rightarrow> pydict \<Rightarrow> pydict" where
  "called_function f d =
     (case wf_call f of
        Inl e \<Rightarrow> with_error e d
      | Inr r \<Rightarrow>
         (let d1 = AList.update ''raw_repr'' (VStr (take 6000 (wr_repr r))) (AList.update ''raw_type'' (VStr (wr_type r)) d) in
          case wr_items r of
            Inl e \<Rightarrow> with_error e d1
          | Inr xs \<Rightarrow> AList.update ''contours'' (VList (map (json_value 0) xs)) d1))"

definition probe_wall_contours :: "py_error + wall_function option \<Rightarrow> pydict" where
  "probe_wall_contours game =
     (case game of
        Inl e \<Rightarrow> with_error e empty_shot
      | Inr f \<Rightarrow>
         (let target = (case f of None \<Rightarrow> no_wall_function | Some g \<Rightarrow> g) in
          if wf_callable target then called_function target (described_function target) else described_function target))"

text \<open>The contours a probe reports, and the command with all its parts.\<close>

definition shot_contours :: "pydict \<Rightarrow> pyval list" where
  "shot_contours d = (case pget d ''contours'' of VList xs \<Rightarrow> xs | _ \<Rightarrow> [])"

definition console_probe ::
  "(pyval \<Rightarrow> string) \<Rightarrow> py_error + wall_function option \<Rightarrow> adapter \<Rightarrow> adapter \<times> string list" where
  "console_probe dumps game a =
     (let shot = probe_wall_contours game in kermp_build_probe dumps shot (shot_contours shot) a)"

section \<open>What a probe says\<close>

lemma pget_updated: "pget (AList.update k v d) k' = (if k' = k then v else pget d k')"
  by (simp add: pget_def update_conv')

lemma described_parts:
  "pget (described_function f) ''error'' = VNone" "pget (described_function f) ''contours'' = VList []"
  "pget empty_shot ''contours'' = VList []"
  by (simp_all add: described_function_def pget_updated) (simp_all add: empty_shot_def pget_def)

lemma called_parts:
  "pget (called_function f d) ''error'' = (case wf_call f of
     Inl e \<Rightarrow> VStr (exc_class e @ '': '' @ exc_text e)
   | Inr r \<Rightarrow> (case wr_items r of Inl e \<Rightarrow> VStr (exc_class e @ '': '' @ exc_text e) | Inr xs \<Rightarrow> pget d ''error''))"
  "pget (called_function f d) ''contours'' = (case wf_call f of
     Inl e \<Rightarrow> pget d ''contours''
   | Inr r \<Rightarrow> (case wr_items r of Inl e \<Rightarrow> pget d ''contours'' | Inr xs \<Rightarrow> VList (map (json_value 0) xs)))"
  by (simp_all add: called_function_def with_error_def pget_updated Let_def split: sum.split)

text \<open>
  A probe never raises, and says of itself whether it worked: the error is there exactly when the module, the
  call or the iteration raised, and then there are no contours.
\<close>

lemma probe_error_iff:
  "pget (probe_wall_contours game) ''error'' = VNone \<longleftrightarrow>
     (case game of Inl e \<Rightarrow> False | Inr None \<Rightarrow> True
      | Inr (Some f) \<Rightarrow> wf_callable f \<longrightarrow> (\<exists>r xs. wf_call f = Inr r \<and> wr_items r = Inr xs))"
  by (simp add: probe_wall_contours_def with_error_def pget_updated described_parts called_parts no_wall_function_def Let_def
      split: sum.split option.split) auto

lemma probe_error_no_contours:
  "pget (probe_wall_contours game) ''error'' \<noteq> VNone \<Longrightarrow> shot_contours (probe_wall_contours game) = []"
  by (simp add: probe_wall_contours_def shot_contours_def with_error_def pget_updated described_parts called_parts Let_def
      split: sum.splits option.splits if_splits)

lemma probe_reports_items:
  "wf_callable f \<Longrightarrow> wf_call f = Inr r \<Longrightarrow> wr_items r = Inr xs \<Longrightarrow>
     shot_contours (probe_wall_contours (Inr (Some f))) = map (json_value 0) xs"
  by (simp add: probe_wall_contours_def shot_contours_def called_parts)

text \<open>
  The first probe is the baseline; every later one is compared with the one before, and takes its place.
\<close>

lemma console_probe_baseline:
  "ad_probe (fst (console_probe dumps game a)) = Some (shot_contours (probe_wall_contours game))"
  by (simp add: console_probe_def kermp_build_probe_def probe_def Let_def split: prod.split option.split)

lemma surplus_all: "length (surplus key xs []) = length xs"
proof -
  have "mset (map key (surplus key xs [])) = mset (map key xs)"
    by (rule multiset_eqI) (simp add: count_mset count_surplus del: mset_map)
  then show ?thesis by (metis length_map mset_eq_length)
qed

text \<open>
  The command does not look at the error: a probe that failed counts as one without walls, so it is reported
  as the removal of every wall, and the next one that works as the addition of every wall.
\<close>

lemma failed_probe_removes_walls:
  assumes "pget (probe_wall_contours game) ''error'' \<noteq> VNone" "ad_probe a = Some before"
  shows "snd (console_probe dumps game a) =
    [probe_head ''delta'' (probe_wall_contours game) 0,
     ''before='' @ nat_str (length before) @ '' after=0 added=0 removed='' @ nat_str (length before) @ '' changed=0'']"
proof -
  have "nat_str 0 = ''0''" by code_simp
  moreover have "surplus dumps [] before = []" by (simp add: surplus_def)
  moreover have "changed_items before [] = []" by (simp add: changed_items_def by_identity_def Let_def)
  ultimately show ?thesis
    using probe_error_no_contours [OF assms(1)] assms(2)
    by (simp add: console_probe_def kermp_build_probe_def probe_def contour_delta_def surplus_all Let_def)
qed

lemma probe_after_failure:
  assumes "pget (probe_wall_contours game) ''error'' \<noteq> VNone"
    and "wf_callable f" "wf_call f = Inr r" "wr_items r = Inr xs"
  shows "\<exists>d. snd (probe dumps (shot_contours (probe_wall_contours (Inr (Some f)))) (fst (console_probe dumps game a))) = Some d \<and>
    dt_before d = 0 \<and> length (dt_added d) = length xs"
  using console_probe_baseline [of dumps game a] probe_error_no_contours [OF assms(1)] probe_reports_items [OF assms(2-4)]
  by (simp add: probe_def contour_delta_def surplus_all)

end
