(* ===== verification/Spec2Isabelle.thy ===== *)
theory Spec2Isabelle
  imports Composition Object_Apply Mod_Trace Mod_Environment Mod_Console Fake_Player Fake_Game End_To_End Sidecar_Window
    Mod_Reload Build_Backend Trace_Context Host_Loop Sidecar_Life Trace_Snapshots Console_Reports Mod_Installers
    Mod_Picks Fake_Reports Wall_Probe
begin

text \<open>
  KerMP connects the games of several computers over a LAN. Each computer runs a sidecar
  process (\<^verbatim>\<open>src/kermp\<close>) and, inside the game, a script mod (\<^verbatim>\<open>src/sims_mod_src/kermp_mod\<close>); the
  two talk over a local socket in JSON lines, the sidecars among each other in JSON envelopes, one
  per line. One sidecar is the host: it owns the session and decides; the others are guests.

  The theories, and what they model:

  \<^item> \<open>KerMP_Prelude\<close>: JSON values, the conversions of Python the code applies to them, exceptions as
    values, dictionaries as association lists. \<open>KerMP_Interfaces\<close>: the contracts as locales -
    \<open>barrier\<close> (interpreted by the two barriers of a travel), \<open>bounded_log\<close> (build history, tracer
    log, capture queue), \<open>once_only\<close> (requests, commands, remote operations, the fake backend) and
    \<open>exclusive_lease\<close> (the build lock).
  \<^item> \<open>Protocol\<close> (\<^verbatim>\<open>protocol.py\<close>), \<open>Readiness\<close>, \<open>Compatibility\<close>, \<open>Travel\<close>, \<open>Build_Sync\<close>
    (\<^verbatim>\<open>buildsync.py\<close>), \<open>Routing\<close>, \<open>Save_Sync\<close>, \<open>Session\<close>: one theory per module of the sidecar,
    with its records, one definition per method, and the invariants its methods keep.
  \<^item> \<open>Base64\<close>: the encoding the payloads use. \<open>Net\<close> (\<^verbatim>\<open>net.py\<close>): the host's connections and
    dispatch, and the client connection, each handler in one piece. \<open>Net_Tasks\<close>: broadcasts at their \<open>await\<close> points,
    and the start and close of the server. \<open>Host_Tasks\<close>: every handler of the host and of its runtime at its
    \<open>await\<close> points, as a flow, with the lemma for each that left alone it is the handler in one piece
    (\<open>finish_dispatch\<close>, \<open>finish_game\<close>, \<open>finish_line\<close>). \<open>Host_Loop\<close>: the event loop, which runs connections, events of
    the game and save transfers as concurrent tasks; its invariant. \<open>Wire_Lines\<close>: the reading of lines by
    \<^verbatim>\<open>StreamReader.readline\<close> with its limit.
  \<^item> \<open>Host_Runtime\<close> and \<open>Client_Runtime\<close> (\<^verbatim>\<open>runtime.py\<close>): the reaction to every message of the
    network and of the local game. \<open>Bridge\<close>: both ends of the local socket (\<^verbatim>\<open>bridge.py\<close>,
    \<^verbatim>\<open>bridge_client.py\<close>). \<open>Sidecar_Life\<close>: the start and stop of a runtime with its ports, the thread of the
    window's session, its status text, and the command line (\<^verbatim>\<open>cli.py\<close>).
  \<^item> \<open>Build_Adapter\<close> (\<^verbatim>\<open>build_adapter.py\<close>): object operations as the mod captures and applies them; \<open>Wall_Probe\<close>: what it asks the
    game of the walls.
    \<open>Game_Values\<close>: values of the game's Python process and their serialisation. From
    \<^verbatim>\<open>hooks.py\<close>: \<open>Object_Capture\<close> and \<open>Object_Apply\<close> (build mode), \<open>Mod_Travel\<close> (authority,
    travel, held back messages; with \<^verbatim>\<open>lifecycle_guard.py\<close>), \<open>Mod_Interactions\<close> (what a guest's
    player starts), \<open>Mod_Replay\<close> (what the host's game does with it), \<open>Mod_Messages\<close> (messages
    of the game, the clock), \<open>Mod_Patches\<close> (installation and teardown), \<open>Mod_Native\<close> (pushes and
    travels that start inside the game, the active Sim), \<open>Mod_Environment\<close> (virtual clients, listings,
    walls, build mode), \<open>Mod_Installers\<close> (\<open>install\<close> and the installers of the hooks), \<open>Mod_Picks\<close> (picks, priorities and
    locations on the wire). \<open>Mod_Console\<close> and \<open>Console_Reports\<close> (\<^verbatim>\<open>commands.py\<close>): the console of the mod and its long
    reports. \<open>Mod_Trace\<close>: the tracer
    (\<^verbatim>\<open>interaction_trace.py\<close>) and the capture queue (\<^verbatim>\<open>native_capture.py\<close>); \<open>Trace_Context\<close>: what the
    tracer notes beside a call; \<open>Trace_Snapshots\<close>: its dumps and its snapshots of the game's commands and clients.
  \<^item> \<open>Fake_Player\<close> (\<^verbatim>\<open>tools/fake_player.py\<close>): the second player used for tests, which speaks the
    protocol without a game, and what it and the host do together; \<open>Fake_Reports\<close>: what it prints, and the hash of a file. \<open>Fake_Game\<close>
    (\<^verbatim>\<open>tools/fake_game.py\<close>): a game without a game, at the socket of a sidecar.
  \<^item> \<open>Build_Backend\<close> (\<^verbatim>\<open>build_backend.py\<close>): the fake of the build mode used by the tests.
  \<^item> \<open>Local_Files\<close>: what a sidecar reads from its machine - the folder of the game, its version, the packs
    and the identity (\<^verbatim>\<open>identity.py\<close>). \<open>Mod_Install\<close> (\<^verbatim>\<open>sims_mod_src/build.py\<close>): building and installing the
    mod. \<open>Preflight\<close> (\<^verbatim>\<open>preflight.py\<close>): the checklist about both. \<open>Sidecar_Window\<close> (\<^verbatim>\<open>gui.py\<close>): the session
    thread and what the window shows of it. \<open>Mod_Reload\<close> (\<^verbatim>\<open>reload.py\<close>, \<^verbatim>\<open>lifecycle_guard.py\<close>): reloading the
    mod in the game, and when a guest's game may be held.
  \<^item> \<open>Composition\<close>: what holds of several of these together: a game message, a build operation, a
    travel acknowledgement, a clock request on their way through all processes. \<open>End_To_End\<close>: a travel that
    starts inside a game.

  State is a record per class (fields in the order of the code), an operation a function from the
  state to the new state and the result; an exception is a value of \<open>py_error\<close>. What the code
  writes to a socket is appended to a log in the record. What it reads from outside - the time,
  fresh identifiers, whether a write succeeds, what the game answers - is an argument (the records
  \<open>env\<close>, \<open>client_env\<close>, \<open>game_env\<close> and so on). JSON text, SHA-256 and \<open>repr\<close> are parameters.

  This theory states the properties C1 to C40, each applied to a concrete input (\<open>_witness\<close>)
  where it has hypotheses: first those that cross processes, then build mode, interactions, the
  clock, travel and the session, readiness, objects, the mod itself, and the tools and installation. Liveness and termination
  are theorems that a result is reached (\<open>travel_completes\<close>, \<open>virtual_clients_clean\<close>), all
  functions are total and no fuel is used; loops that wait for a socket are lists of what arrives.

  What the model showed to be wrong in the code is proved as well: \<open>silent_after_travel\<close>,
  \<open>large_save_stops\<close>, \<open>departure_commits_silently\<close>, \<open>mod_run_holds\<close>,
  \<open>host_repeat_dropped\<close>, \<open>push_at_sim_hits_zero\<close>, \<open>popped_pause_pauses\<close>,
  \<open>cancel_wrapper_left\<close>, \<open>rewelcome_reports_uninstalled\<close>, \<open>untyped_line_kills\<close>,
  \<open>choice_raises_twice\<close>, \<open>ground_push_refused\<close>, \<open>local_restore_claims\<close>,
  \<open>zero_bound_lists_one\<close>, \<open>wall_callback_stays_behind\<close>, \<open>target_zone_never_known\<close>,
  \<open>failed_flush_loses_queue\<close>, \<open>preflight_misses_onedrive\<close>, \<open>undecodable_version_passes\<close>,
  \<open>launcher_is_enough\<close>, \<open>failed_build_uninstalls\<close>, \<open>sync_loads_twice\<close>, \<open>removed_source_stays\<close>,
  \<open>second_start_forgets\<close>, \<open>broken_identity_unseen\<close>, \<open>aborted_reload_forgets\<close>,
  \<open>bad_line_ends_reader\<close>, \<open>replay_after_reset_dropped\<close>, \<open>unknown_connection_misattributed\<close>,
  \<open>resized_only_raises\<close>, \<open>overtaken_lines\<close>, \<open>retry_without_bridge\<close>, \<open>window_status_frozen\<close>,
  \<open>short_dump_truncates\<close>, \<open>build_owner_is_operation\<close>, \<open>clock_hooked_without_functions\<close>, \<open>failed_probe_removes_walls\<close>.

  Not modelled: the widgets and the log of the window; splitting the words of the command line
  (\<open>argparse\<close>); the dialogs of the game in \<^verbatim>\<open>hooks.py\<close>; interleaving inside the handlers of a guest
  (they are atomic here; the host's are in \<open>Host_Loop\<close>), and the close of a server whose tasks are running; a
  dictionary that is changed while a broadcast of it waits (a message is a value here, so an accepted interaction
  whose status changes in that time is the earlier one for every peer); text beyond code point 255; NaN and
  infinite floats.
\<close>
section \<open>Concrete inputs\<close>

text \<open>The inputs at which the properties are applied: a host with one guest, a guest, their games.\<close>

definition demo_manifest :: compat_manifest where
  "demo_manifest = default_manifest (VStr ''h'') (VStr ''Host'')"

definition demo_env :: env where
  "demo_env = \<lparr>ev_now = 0, ev_ns = 0, ev_uuid = ''t1'', ev_up = (\<lambda>p. True), ev_game = True\<rparr>"

definition demo_host :: host where
  "demo_host = new_host ''h'' ''Host'' demo_manifest False ''s1''"

definition demo_lan_host :: host where
  "demo_lan_host = demo_host\<lparr>h_session := add_player ''g'' ''Guest'' None (h_session demo_host),
     h_peers := [(''g'', \<lparr>pe_id = ''g'', pe_name = ''Guest'', pe_last_seq = 0\<rparr>)]\<rparr>"

definition demo_client :: client_runtime where
  "demo_client = new_client_runtime ((new_client ''g'' ''Guest'' demo_manifest)\<lparr>cl_open := True\<rparr>)
     \<lparr>sd_files = [], sd_backups = []\<rparr>"

definition demo_client_env :: client_env where
  "demo_client_env = \<lparr>cv_up = True, cv_game = True, cv_sha256 = (\<lambda>bytes. replicate 64 (CHR ''a'')),
     cv_stamp = ''0'', cv_path = (\<lambda>p. p)\<rparr>"

definition demo_message_env :: message_env where
  "demo_message_env = \<lparr>me_up = True, me_local_ids = {7}, me_local_ops = {9},
     me_serialize = (\<lambda>m. case m of OtherMessage raw \<Rightarrow> raw | _ \<Rightarrow> [])\<rparr>"

definition demo_host_messages :: message_mod where
  "demo_host_messages = new_message_mod\<lparr>mm_role := VStr ''host'', mm_bridge := new_bridge_client\<lparr>bc_open := True\<rparr>\<rparr>"

definition demo_game :: game_env where
  "demo_game = \<lparr>ge_up = True, ge_active = None, ge_zone = None, ge_sims = [], ge_restores = True, ge_travel = None,
     ge_client = True, ge_send = None, ge_timeline = None, ge_lifecycle = False\<rparr>"

definition demo_guest_game :: game_mod where
  "demo_guest_game = new_mod\<lparr>gm_role := VStr ''client'', gm_bridge := new_bridge_client\<lparr>bc_open := True\<rparr>\<rparr>"

lemmas demo_defs = demo_manifest_def demo_env_def demo_host_def demo_lan_host_def demo_client_def
  demo_client_env_def demo_message_env_def demo_host_messages_def demo_game_def demo_guest_game_def

lemma demo_host_players: "map fst (hs_players (h_session demo_host)) = [''h'']"
  by code_simp

lemma demo_lan_host_players: "map fst (hs_players (h_session demo_lan_host)) = [''h'', ''g'']"
  by code_simp

lemma demo_host_idle: "tc_current (host_travel demo_host) = None" "tc_current (host_travel demo_lan_host) = None"
  by code_simp+

text \<open>A JSON writer for texts without special characters, and the reader of the lines it wrote.\<close>

fun demo_json :: "pyval \<Rightarrow> string" where
  "demo_json VNone = ''null''"
| "demo_json (VBool b) = (if b then ''true'' else ''false'')"
| "demo_json (VInt i) = int_str i"
| "demo_json (VFloat r t) = t"
| "demo_json (VStr t) = [CHR 0x22] @ t @ [CHR 0x22]"
| "demo_json (VList vs) = ''['' @ join '','' (map demo_json vs) @ '']''"
| "demo_json (VDict d) = ''{'' @ join '','' (map (\<lambda>(k, v). [CHR 0x22] @ k @ [CHR 0x22] @ '':'' @ demo_json v) d) @ ''}''"

definition demo_reader :: "envelope list \<Rightarrow> string \<Rightarrow> py_error + pyval" where
  "demo_reader es t =
     (case find (\<lambda>e. to_line demo_json e = t) es of
        None \<Rightarrow> Inl (ValueError ''Expecting value'')
      | Some e \<Rightarrow> Inr (VDict (envelope_dict e)))"

section \<open>Between the processes\<close>

text \<open>C1. A message the host's game sends through \<open>Client.send_message\<close> reaches the game of a connected guest: the
  mod emits its copy for the other screens (of a view update, every entry with the operations not meant for the
  host's own screen), the sidecar writes it to the peer as a numbered envelope, and when the line of that envelope is
  no longer than the 64 KiB the guest's reader takes, the guest's sidecar passes it to its game and the mod delivers
  the same bytes. A longer line ends the guest's listening with the reader's error, and nothing is delivered.\<close>

theorem game_message_delivered:
  fixes ev :: env and r :: host_runtime
  assumes leaves: "leaves g mid msg m"
    and host: "\<And>p. ev_up ev p" "pid \<in> dict_keys (h_peers (hr_host r))"
    and guest: "cr_last_seq c \<le> hr_game_seq r" "\<not> cr_buffering c" "cv_game cev"
      "epoch_fits (cr_epoch c) (active_epoch (host_travel (hr_host r)))"
    and game: "is_client m'" "\<not> gm_buffering m'" "ge_client g'" "ge_send g' = None"
  defines "raw \<equiv> me_serialize g (remote_copy (me_local_ops g) msg)"
  defines "out \<equiv> \<lparr>ms_type = mt_value MT_GAME_RAW_MESSAGE,
      ms_payload = relay_payload mid (hr_game_seq r + 1) raw (active_epoch (host_travel (hr_host r))),
      ms_seq = Some (h_seq (hr_host r) + 1)\<rparr>"
  assumes wire: "sent_as hid out e" "json_line dumps loads e"
  shows "mm_out (capture_message g mid msg m) = mm_out m @ [(''game.raw_message'', raw_payload mid raw)] \<and>
    ToPeer pid out \<in> set (h_log (hr_host (fst (game_raw_message ev (raw_payload mid raw) r)))) \<and>
    (if line_fits dumps e
     then (\<exists>c'. client_listen (client_message cev) [read_envelope loads (to_line dumps e)] c = (c', None) \<and>
             cr_game c' = cr_game c @ [(mt_value MT_GAME_RAW_MESSAGE, ms_payload out)]) \<and>
          gm_delivered (fst (raw_game_message g' (ms_payload out) m')) = gm_delivered m' @ [(mid, raw)]
     else client_listen (client_message cev) [read_envelope loads (to_line dumps e)] c = (c, Some limit_error))"
  using game_message_end_to_end [OF leaves host guest game, unfolded outgoing_def, OF wire [unfolded out_def raw_def]]
  by (simp add: out_def raw_def)

lemma newline_char: "newline = CHR 0x0A"
  by code_simp

lemma b64_lines: "newline \<notin> set (b64encode bs)"
proof -
  have "newline \<notin> set b64_alphabet" by (simp add: b64_alphabet_def newline_char)
  moreover have "b64_char n \<in> set b64_alphabet" for n
    unfolding b64_char_def by (rule nth_mem) (simp add: b64_alphabet_def)
  ultimately have "newline \<noteq> b64_char n" for n by metis
  then have d: "newline \<notin> set (digits k n)" for k n
    unfolding digits_def by (auto dest!: in_set_takeD)
  show ?thesis by (induction bs rule: b64encode.induct) (simp_all add: d newline_char [symmetric], simp_all add: newline_char)
qed

lemma demo_reader_own:
  assumes "inj_on (to_line demo_json) (set es)" "e \<in> set es"
  shows "demo_reader es (to_line demo_json e) = Inr (VDict (envelope_dict e))"
  using assms by (auto simp: demo_reader_def find_None_iff find_Some_iff inj_on_def split: option.split)

lemma demo_numbers: "int_str 0 = ''0''" "int_str 1 = ''1''" "int_str 2 = ''2''" "int_str 3 = ''3''" "int_str 5 = ''5''"
  by code_simp+

lemmas demo_text = mt_value.simps envelope_dict_def relay_payload_def make_envelope_def seq_val_def PROTOCOL_VERSION_def newline_char
  STREAM_LIMIT_def b64_lines [unfolded newline_char] length_b64encode demo_numbers

definition demo_raw_line :: envelope where
  "demo_raw_line = make_envelope (mt_value MT_GAME_RAW_MESSAGE) (relay_payload 5 1 [1, 2] None) ''h'' (Some 1) ''u1'' VNone"

lemma demo_raw_line_text: "newline \<notin> set (demo_json (VDict (envelope_dict demo_raw_line)))"
  by (simp add: demo_raw_line_def demo_text del: b64encode.simps)

lemma demo_raw_line_fits: "line_fits demo_json demo_raw_line"
  by (simp add: line_fits_def demo_raw_line_def demo_text del: b64encode.simps)

lemma demo_raw_line_read: "json_line demo_json (demo_reader [demo_raw_line]) demo_raw_line"
  using demo_raw_line_text by (simp add: json_line_def demo_reader_own)

theorem game_message_delivered_witness:
  "mm_out (capture_message demo_message_env 5 (OtherMessage [1, 2]) demo_host_messages) =
      [(''game.raw_message'', raw_payload 5 [1, 2])] \<and>
    (\<exists>c'. client_listen (client_message demo_client_env)
        [read_envelope (demo_reader [demo_raw_line]) (to_line demo_json demo_raw_line)] demo_client = (c', None) \<and>
      cr_game c' = [(mt_value MT_GAME_RAW_MESSAGE, relay_payload 5 1 [1, 2] None)]) \<and>
    gm_delivered (fst (raw_game_message demo_game (relay_payload 5 1 [1, 2] None) demo_guest_game)) = [(5, [1, 2])]"
proof -
  let ?out = "\<lparr>ms_type = mt_value MT_GAME_RAW_MESSAGE, ms_payload = relay_payload 5 1 [1, 2] None, ms_seq = Some 1\<rparr>"
  have sent: "sent_as ''h'' ?out demo_raw_line" by (auto simp: sent_as_def demo_raw_line_def)
  have seq: "h_seq (hr_host (new_runtime demo_lan_host)) = 0"
    by (simp add: demo_lan_host_def demo_host_def new_host_def new_runtime_def Let_def)
  have epoch: "active_epoch (host_travel (hr_host (new_runtime demo_lan_host))) = None"
    using demo_host_idle by (simp add: active_epoch_def new_runtime_def)
  show ?thesis
    using game_message_delivered [of demo_message_env 5 "OtherMessage [1, 2]" demo_host_messages demo_env "''g''"
      "new_runtime demo_lan_host" demo_client demo_client_env demo_guest_game demo_game "''h''" demo_raw_line demo_json
      "demo_reader [demo_raw_line]"] sent demo_raw_line_read demo_raw_line_fits seq epoch
    by (simp add: demo_message_env_def demo_host_messages_def demo_env_def demo_client_env_def demo_game_def
        demo_guest_game_def demo_client_def demo_lan_host_def new_client_runtime_def new_runtime_def leaves_def local_only_def
        outgoing_def remote_copy_def mm_out_def new_message_mod_def new_bridge_client_def epoch_fits_def new_mod_def
        MAX_RAW_BYTES_def)
qed

text \<open>C2. A travel the host starts ends: once every player has acknowledged it and has loaded the zone, in
  whatever order and however often, the transaction is complete and every peer has been sent the resume.\<close>

theorem travel_completes:
  assumes up: "\<And>p. ev_up ev p" and i: "ev_uuid ev \<noteq> []" and zone: "zone \<noteq> []"
    and idle: "case tc_current (host_travel h) of None \<Rightarrow> True | Some t \<Rightarrow> finished (tx_phase t)"
    and players: "hs_players (h_session h) \<noteq> []"
    and acks: "set acks = dict_keys (hs_players (h_session h))"
    and loads: "set loads = dict_keys (hs_players (h_session h))"
  shows "map_option tx_phase (tc_current (host_travel (host_journey ev zone q acks loads h))) = Some COMPLETE \<and>
    resume_sent (ev_uuid ev) (tc_epoch (host_travel h) + 1) (host_journey ev zone q acks loads h) \<and>
    h_peers (host_journey ev zone q acks loads h) = h_peers h"
  using host_journey_complete [OF assms] by blast

theorem travel_completes_witness:
  "map_option tx_phase (tc_current (host_travel
      (host_journey demo_env ''z1'' ''h'' [''g'', ''h'', ''g''] [''h'', ''g''] demo_lan_host))) = Some COMPLETE"
proof -
  have "hs_players (h_session demo_lan_host) \<noteq> []" "dict_keys (hs_players (h_session demo_lan_host)) = {''g'', ''h''}"
    using demo_lan_host_players by (auto simp: set_map [symmetric] simp del: set_map)
  then show ?thesis
    using travel_completes [of demo_env "''z1''" demo_lan_host "[''g'', ''h'', ''g'']" "[''h'', ''g'']" "''h''"] demo_host_idle
    by (simp add: demo_env_def insert_commute)
qed

text \<open>C3. Whatever arrives at a fresh host - connections, lines, broken lines, the end of a connection,
  messages of its own game, save transfers - and however the handlers, broadcasts and transfers interleave at their
  \<open>await\<close> points, between any two steps the host's invariant holds: players, controllers, build history,
  dialogs and travel are consistent, every peer is a player, and no line carries a number the host's counter has
  not reached; and no two broadcasts have the same number. Lines of different broadcasts may overtake each other.\<close>

theorem host_invariant_reachable:
  assumes "net_reach (idle_net (new_host pid name m native sid)) n"
  shows "host_ok (nt_host n) \<and> distinct (map (\<lambda>t. ms_seq (ta_msg t)) (lo_tasks (nt_loop n)))"
  using net_reach_host(1,2) [OF new_host_ok assms] by (simp add: comp_def)

text \<open>The host's game reports its clock; the broadcast has begun.\<close>

definition told :: "string \<Rightarrow> pydict \<Rightarrow> host \<Rightarrow> net" where
  "told ty payload h =
     (case game_begin demo_env ty payload (new_runtime h) of
        (r, p) \<Rightarrow> task_starts demo_env (hr_host r, p) Stops ((idle_net h)\<lparr>nt_runtime := r\<rparr>))"

lemma told_reach: "net_reach (idle_net h) (told ty payload h)"
proof -
  obtain r p where g: "game_begin demo_env ty payload (new_runtime h) = (r, p)"
    by (cases "game_begin demo_env ty payload (new_runtime h)")
  have "(nt_runtime (idle_net h))\<lparr>hr_host := nt_host (idle_net h)\<rparr> = new_runtime h"
    by (simp add: idle_net_def idle_loop_def new_runtime_def)
  then have "net_step (idle_net h) (told ty payload h)"
    using game_told [of demo_env ty payload "idle_net h" r p] g by (simp add: told_def)
  then show ?thesis by blast
qed

theorem host_invariant_reachable_witness:
  "host_ok (nt_host (told ''clock.state'' [] demo_host))"
  using host_invariant_reachable [of "''h''" "''Host''" demo_manifest False "''s1''" "told ''clock.state'' [] demo_host"]
    told_reach [of demo_host "''clock.state''" "[]"] unfolding demo_host_def by blast


text \<open>C4. A save the host streams arrives when its lines fit: the guest that reads the lines of the host's messages
  in order, none longer than the 64 KiB its reader takes, ends with the file's bytes under the slot's name, no
  transfer in progress, and its last message to the host is the acknowledgement with the hash and the size. The
  chunk size is the caller's; with the default one a file of a full chunk has a line that does not fit
  (\<open>large_save_stops\<close>).\<close>

theorem save_arrives:
  fixes r :: client_runtime
  assumes slot: "slot_of_file (cv_sha256 ev) name bytes mtime = Inr s"
    and ms: "save_messages sid s bytes cs = Inr ms"
    and hash: "length (cv_sha256 ev bytes) = 64" and ne: "bytes \<noteq> []" and sid: "sid \<noteq> []"
    and up: "cv_up ev" "cl_open (cr_client r)"
    and sent: "list_all2 (\<lambda>m e. sent_as hid \<lparr>ms_type = fst m, ms_payload = snd m, ms_seq = None\<rparr> e) ms es"
    and wire: "list_all (json_line dumps loads) es" "list_all (line_fits dumps) es"
  shows "\<exists>r'. client_listen (client_message ev) (map (\<lambda>e. read_envelope loads (to_line dumps e)) es) r = (r', None) \<and>
    map_of (sd_files (cr_dir r')) (ss_id s @ ''.save'') = Some bytes \<and> cr_saver r' = None \<and>
    (\<exists>d. last (cl_sent (cr_client r')) = \<lparr>ms_type = mt_value MT_SAVE_ACK, ms_payload = d, ms_seq = None\<rparr> \<and>
       pget d ''sha256'' = VStr (cv_sha256 ev bytes) \<and> pget d ''total_bytes'' = VInt (int (length bytes)))"
  using save_over_lines [OF assms] by blast

definition demo_bytes :: "byte list" where
  "demo_bytes = [1, 2, 3, 4, 5]"

definition demo_slot :: save_slot where
  "demo_slot = \<lparr>ss_id = ''Slot_1'', ss_size = 5, ss_modified = 0, ss_sha256 = replicate 64 (CHR ''a'')\<rparr>"

lemma demo_slot_of_file: "slot_of_file (cv_sha256 demo_client_env) ''Slot_1.save'' demo_bytes 0 = Inr demo_slot"
  by code_simp

definition demo_save :: "(string \<times> pydict) list" where
  "demo_save = (case save_messages ''s1'' demo_slot demo_bytes 2 of Inl e \<Rightarrow> [] | Inr ms \<Rightarrow> ms)"

definition demo_save_lines :: "envelope list" where
  "demo_save_lines = map (\<lambda>m. make_envelope (fst m) (snd m) ''h'' None ''u1'' VNone) demo_save"

lemma demo_save_messages:
  "demo_save = [(''save.manifest'', [(''session_id'', VStr ''s1''), (''slot_id'', VStr ''Slot_1''), (''total_bytes'', VInt 5),
      (''chunk_size'', VInt 2), (''chunk_count'', VInt 3), (''sha256'', VStr (ss_sha256 demo_slot)), (''modified_at'', VFloat 0 [])]),
    (''save.begin'', [(''session_id'', VStr ''s1''), (''slot_id'', VStr ''Slot_1'')]),
    (''save.chunk'', chunk_payload ''s1'' (0, [1, 2])),
    (''save.chunk'', chunk_payload ''s1'' (1, [3, 4])),
    (''save.chunk'', chunk_payload ''s1'' (2, [5])),
    (''save.end'', [(''session_id'', VStr ''s1''), (''sha256'', VStr (ss_sha256 demo_slot))])]"
  by (simp add: demo_save_def save_messages_def save_manifest_def MAX_CHUNK_SIZE_def demo_slot_def demo_bytes_def mt_value.simps
      eval_nat_numeral upt_conv_Cons)

lemma demo_save_text:
  "list_all (\<lambda>e. newline \<notin> set (demo_json (VDict (envelope_dict e)))) demo_save_lines"
  "list_all (line_fits demo_json) demo_save_lines"
  by (simp_all add: demo_save_lines_def demo_save_messages demo_text chunk_payload_def demo_slot_def line_fits_def del: b64encode.simps)

lemma demo_save_distinct: "distinct (map (to_line demo_json) demo_save_lines)"
  by (simp add: demo_save_lines_def demo_save_messages demo_text to_line_def chunk_payload_def del: b64encode.simps)

lemma demo_save_read: "list_all (json_line demo_json (demo_reader demo_save_lines)) demo_save_lines"
  using demo_save_text(1) demo_save_distinct
  by (auto simp: list_all_iff json_line_def distinct_map intro: demo_reader_own)

theorem save_arrives_witness:
  "\<exists>r'. client_listen (client_message demo_client_env)
      (map (\<lambda>e. read_envelope (demo_reader demo_save_lines) (to_line demo_json e)) demo_save_lines) demo_client = (r', None) \<and>
    map_of (sd_files (cr_dir r')) ''Slot_1.save'' = Some demo_bytes"
proof -
  have "save_messages ''s1'' demo_slot demo_bytes 2 = Inr demo_save"
    by (simp add: demo_save_def save_messages_def save_manifest_def MAX_CHUNK_SIZE_def Let_def)
  moreover have "list_all2 (\<lambda>m e. sent_as ''h'' \<lparr>ms_type = fst m, ms_payload = snd m, ms_seq = None\<rparr> e) demo_save demo_save_lines"
    by (auto simp: demo_save_lines_def list_all2_conv_all_nth sent_as_def)
  ultimately have "\<exists>r'. client_listen (client_message demo_client_env)
      (map (\<lambda>e. read_envelope (demo_reader demo_save_lines) (to_line demo_json e)) demo_save_lines) demo_client = (r', None) \<and>
    map_of (sd_files (cr_dir r')) (ss_id demo_slot @ ''.save'') = Some demo_bytes \<and> cr_saver r' = None \<and>
    (\<exists>d. last (cl_sent (cr_client r')) = \<lparr>ms_type = mt_value MT_SAVE_ACK, ms_payload = d, ms_seq = None\<rparr> \<and>
       pget d ''sha256'' = VStr (cv_sha256 demo_client_env demo_bytes) \<and> pget d ''total_bytes'' = VInt (int (length demo_bytes)))"
    using demo_save_read demo_save_text(2)
    by (intro save_arrives [OF demo_slot_of_file, of "''s1''" 2 demo_save _ "''h''"])
      (simp_all add: demo_client_env_def demo_bytes_def demo_client_def new_client_runtime_def)
  then show ?thesis by (auto simp: demo_slot_def)
qed

text \<open>C5. Whatever a guest's sidecar receives from the host and from its game, the message numbers its game
  has been given, followed by those held back for a travel, are strictly increasing and no larger than the last
  one taken; at most 256 are held back, and none outside a travel.\<close>

theorem client_view_in_order:
  assumes "list_all raw_has_id is"
  shows "client_ok (client_run is (new_client_runtime c d))"
  using assms by (simp add: client_run_ok)

theorem client_view_in_order_witness:
  "client_ok (client_run
     [FromHost demo_client_env (host_message ''h'' (mt_value MT_GAME_RAW_MESSAGE, relay_payload 5 1 [1] None)),
      FromHost demo_client_env (host_message ''h'' (mt_value MT_GAME_RAW_MESSAGE, relay_payload 5 1 [2] None))]
     (new_client_runtime (cr_client demo_client) (cr_dir demo_client)))"
proof (rule client_view_in_order)
  have "raw_has_id (FromHost demo_client_env (host_message ''h'' (mt_value MT_GAME_RAW_MESSAGE, relay_payload 5 1 raw None)))" for raw
    by (simp add: has_id_def raw_has_id_def)
  then show "list_all raw_has_id [FromHost demo_client_env (host_message ''h'' (mt_value MT_GAME_RAW_MESSAGE, relay_payload 5 1 [1] None)),
      FromHost demo_client_env (host_message ''h'' (mt_value MT_GAME_RAW_MESSAGE, relay_payload 5 1 [2] None))]"
    by simp
qed



lemma demo_lan_host_ok: "host_ok demo_lan_host"
proof -
  have ok: "session_ok (h_session demo_host)" "controllers_ok (h_session demo_host)"
    using new_host_ok unfolding demo_host_def host_ok_def by blast+
  have id: "h_id demo_lan_host = ''h''" "h_log demo_lan_host = []"
    by (simp_all add: demo_lan_host_def demo_host_def new_host_def Let_def)
  have players: "''g'' \<in> dict_keys (hs_players (h_session demo_lan_host))"
    using demo_lan_host_players by (metis list.set_intros list.set_map)
  show ?thesis
    using add_player_ok [OF ok] players id unfolding host_ok_def by (simp add: demo_lan_host_def)
qed




section \<open>Build mode\<close>

text \<open>C7. While a lease runs, nobody else gets in: of any sequence of lock requests, releases and operations of
  other players, in time order and before the lease ends, none is granted or accepted, and after each of them
  the owner still holds the lock.\<close>

theorem lease_exclusive:
  assumes "live_owner t a = Some p" and "sorted (t # map fst xs)"
    and "\<forall>x \<in> set xs. fst x \<le> lease_end a \<and> fst (snd x) \<noteq> p" and "xs = ys @ x # zs"
  shows "\<not> lease_allowed (fst x) (fst (snd x)) (snd (snd x)) (fold lease_step ys a) \<and>
    live_owner (fst x) (fold lease_step (ys @ [x]) a) = Some p"
  using assms by (rule others_refused)

definition demo_lease :: build_authority where
  "demo_lease = fst (request_lock 0 0 ''g'' default_authority)"

lemma no_lock_yet: "live_owner 0 default_authority = None"
  by code_simp

lemma demo_lease_owner: "live_owner 0 demo_lease = Some ''g'' \<and> lease_end demo_lease = 8 \<and> live_owner 1 demo_lease = Some ''g''"
proof -
  have "snd (request_lock 0 0 ''g'' default_authority)"
    using no_lock_yet by (simp add: request_granted_iff)
  moreover have "ba_lease default_authority = 8"
    by (simp add: default_authority_def new_authority_def)
  ultimately have "live_owner 0 demo_lease = Some ''g''" "lease_end demo_lease = 8"
    using request_granted_owner [of 0 0 "''g''" default_authority] by (simp_all add: demo_lease_def)
  then show ?thesis
    unfolding live_owner_Some by auto
qed

theorem lease_exclusive_witness:
  "\<not> lease_allowed 2 ''h'' (Request 1) (fold lease_step [(1, ''h'', Release)] demo_lease) \<and>
   live_owner 2 (fold lease_step [(1, ''h'', Release), (2, ''h'', Request 1)] demo_lease) = Some ''g''"
proof -
  have "live_owner 0 demo_lease = Some ''g''" and e: "lease_end demo_lease = 8"
    using demo_lease_owner by simp_all
  moreover have "sorted (0 # map fst [(1, ''h'', Release), (2, ''h'', Request 1)] :: rat list)"
    by simp
  moreover have "\<forall>x \<in> set [(1, ''h'', Release), (2, ''h'', Request 1)]. fst x \<le> lease_end demo_lease \<and> fst (snd x) \<noteq> ''g''"
    unfolding e by simp
  ultimately show ?thesis
    using lease_exclusive [of 0 demo_lease "''g''" "[(1, ''h'', Release), (2, ''h'', Request 1)]" "[(1, ''h'', Release)]"
      "(2, ''h'', Request 1)" "[]"]
    unfolding append_Cons append_Nil fst_conv snd_conv by blast
qed

text \<open>C8. A submitted operation is accepted exactly when its player holds the unexpired lease and the
  data passes validation; then it gets the next number and is the newest of the history.\<close>

theorem submit_needs_lease:
  "(\<exists>o1. snd (submit now pid op data a) = Inr o1) \<longleftrightarrow>
     live_owner now a = Some pid \<and> (\<exists>d. validate_build_data op data = Inr d)"
  by (rule submit_accepted_iff)

text \<open>C9. A rejected operation leaves nothing behind: the authority is as before, apart from a lock that had
  expired and is dropped; the number is not used up and the history is the same.\<close>

theorem build_rejection_frame:
  assumes "snd (submit now pid op data a) = Inl e"
  shows "fst (submit now pid op data a) = drop_expired now a \<and>
    ba_seq (fst (submit now pid op data a)) = ba_seq a \<and> ba_history (fst (submit now pid op data a)) = ba_history a"
  using submit_rejected_frame [OF assms] by simp

theorem build_rejection_frame_witness:
  "fst (submit 1 ''h'' ''object.destroy'' [(''object_id'', VStr ''5'')] demo_lease) = drop_expired 1 demo_lease \<and>
   ba_seq (fst (submit 1 ''h'' ''object.destroy'' [(''object_id'', VStr ''5'')] demo_lease)) = ba_seq demo_lease \<and>
   ba_history (fst (submit 1 ''h'' ''object.destroy'' [(''object_id'', VStr ''5'')] demo_lease)) = ba_history demo_lease"
proof -
  have "\<nexists>o1. snd (submit 1 ''h'' ''object.destroy'' [(''object_id'', VStr ''5'')] demo_lease) = Inr o1"
    using demo_lease_owner by (simp add: submit_accepted_iff)
  then obtain e where "snd (submit 1 ''h'' ''object.destroy'' [(''object_id'', VStr ''5'')] demo_lease) = Inl e"
    by (cases "snd (submit 1 ''h'' ''object.destroy'' [(''object_id'', VStr ''5'')] demo_lease)") auto
  then show ?thesis by (rule build_rejection_frame)
qed

text \<open>C10. A peer that knows every operation up to number \<open>s\<close>, no older than the retained history, is given
  exactly the operations it misses, in order and without a gap, whatever requests were made before.\<close>

theorem missed_operations_replayed:
  assumes "a = fold lease_step xs (new_authority lease limit)" and "0 < limit"
    and "ba_seq a - int (length (ba_history a)) \<le> s"
  shows "map bo_seq (history_since s a) = [s + 1..ba_seq a]"
  using assms lease_run_ok by (intro history_since_complete) simp_all

theorem missed_operations_replayed_witness:
  "map bo_seq (history_since (ba_seq (fold lease_step [(0, ''g'', Request 0),
      (1, ''g'', Submit ''object.destroy'' [(''object_id'', VStr ''5'')])] (new_authority 8 2)) - 1)
    (fold lease_step [(0, ''g'', Request 0), (1, ''g'', Submit ''object.destroy'' [(''object_id'', VStr ''5'')])] (new_authority 8 2)))
   = [1..1]"
proof -
  define a where "a = fold lease_step [(0, ''g'', Request 0),
      (1, ''g'', Submit ''object.destroy'' [(''object_id'', VStr ''5'')])] (new_authority 8 2)"
  have "ba_seq a = 1 \<and> length (ba_history a) = 1"
    unfolding a_def by code_simp
  then show ?thesis
    using missed_operations_replayed [OF a_def, of 0] by (simp add: a_def)
qed

text \<open>C11. An object operation captured in one game is the operation the other games are told to apply: it is
  accepted when its player holds the lease and the data is within the limits, gets the next number, and the
  announcement is read back by the adapter as the same operation on the same data, with its number as id.\<close>

theorem build_operation_replicated:
  assumes captured: "capture_local payload a = (a', Some o1)"
    and limits: "length (go_data o1) \<le> MAX_BUILD_DATA_KEYS" "entry_error (go_data o1) = None"
      "go_op o1 = ''funds.modify'' \<Longrightarrow> is_number (pget (stringify_keys id_keys (go_data o1)) ''amount'')"
    and lease: "live_owner now auth = Some pid"
  shows "\<exists>o2. snd (submit now pid (go_op o1) (go_data o1) auth) = Inr o2 \<and> bo_seq o2 = ba_seq auth + 1 \<and>
    normalize_operation (VDict (apply_payload o2)) =
      Inr \<lparr>go_op = go_op o1, go_data = stringify_keys id_keys (go_data o1), go_id = Some (int_str (ba_seq auth + 1))\<rparr>"
  using assms by (rule build_end_to_end)

definition demo_destroy :: pyval where
  "demo_destroy = VDict [(''op'', VStr ''object.destroy''), (''data'', VDict [(''object_id'', VInt 5)])]"

lemma demo_destroy_captured:
  "map_option (\<lambda>o1. (go_op o1, go_data o1)) (snd (capture_local demo_destroy new_adapter)) =
     Some (''object.destroy'', [(''object_id'', VStr ''5'')])"
  by code_simp

theorem build_operation_replicated_witness:
  "\<exists>o2. snd (submit 1 ''g'' ''object.destroy'' [(''object_id'', VStr ''5'')] demo_lease) = Inr o2 \<and>
     go_data (projr (normalize_operation (VDict (apply_payload o2)))) = [(''object_id'', VStr ''5'')]"
proof -
  obtain a' o1 where o1: "capture_local demo_destroy new_adapter = (a', Some o1)" "go_op o1 = ''object.destroy''"
    "go_data o1 = [(''object_id'', VStr ''5'')]"
    using demo_destroy_captured by (cases "capture_local demo_destroy new_adapter") auto
  have "length (go_data o1) \<le> MAX_BUILD_DATA_KEYS" "entry_error (go_data o1) = None"
    unfolding o1 by code_simp+
  then have "\<exists>o2. snd (submit 1 ''g'' (go_op o1) (go_data o1) demo_lease) = Inr o2 \<and> bo_seq o2 = ba_seq demo_lease + 1 \<and>
    normalize_operation (VDict (apply_payload o2)) = Inr \<lparr>go_op = go_op o1,
      go_data = stringify_keys id_keys (go_data o1), go_id = Some (int_str (ba_seq demo_lease + 1))\<rparr>"
    using build_operation_replicated [OF o1(1)] demo_lease_owner o1(2) by simp
  moreover have "stringify_keys id_keys [(''object_id'', VStr ''5'')] = [(''object_id'', VStr ''5'')]"
    by code_simp
  ultimately show ?thesis
    by (auto simp: o1)
qed


section \<open>Between the steps of a broadcast\<close>

text \<open>C12. A broadcast run \<open>await\<close> by \<open>await\<close> while nothing else touches the host implements the
  handler-sized one: wherever it stands it can still return, it never raises, and when it has returned the
  host - peers, players, numbers, lines written and connections closed - is the one \<open>broadcast\<close> computes.\<close>

theorem broadcast_steps_refine:
  assumes "(task_step (ev_up ev) (length (lo_tasks n)))\<^sup>*\<^sup>* (begin_broadcast ty payload n) n'"
  shows "(\<exists>n2. (task_step (ev_up ev) (length (lo_tasks n)))\<^sup>*\<^sup>* n' n2 \<and>
      ta_phase (lo_tasks n2 ! length (lo_tasks n)) = Finished \<and> lo_host n2 = broadcast ev ty payload (lo_host n)) \<and>
    (ta_phase (lo_tasks n' ! length (lo_tasks n)) = Finished \<longrightarrow> lo_host n' = broadcast ev ty payload (lo_host n))"
  using broadcast_alone_lemma [OF assms] by blast

theorem broadcast_steps_refine_witness:
  "\<exists>n2. (task_step (\<lambda>p. True) 0)\<^sup>*\<^sup>* (begin_broadcast ''clock.state'' [] (idle_loop demo_lan_host)) n2 \<and>
     ta_phase (lo_tasks n2 ! 0) = Finished \<and> lo_host n2 = broadcast demo_env ''clock.state'' [] demo_lan_host"
  using broadcast_steps_refine [of demo_env "idle_loop demo_lan_host" "''clock.state''" "[]"
      "begin_broadcast ''clock.state'' [] (idle_loop demo_lan_host)"]
  by (simp add: demo_env_def idle_loop_def)

text \<open>C13. However the handlers, broadcasts, joins and departures of the event loop interleave at their
  \<open>await\<close> points, the host's invariant holds between any two steps; and a broadcast whose loop no join or
  departure disturbed has written its line exactly once to every peer it started with, in their order, but
  for those whose connection failed.\<close>

theorem interleaved_broadcasts_deliver:
  assumes "host_ok h" "net_reach (idle_net h) n" "t \<in> set (lo_tasks (nt_loop n))" "ta_clean t"
  shows "host_ok (nt_host n) \<and>
    line_takers (ta_msg t) (h_log (nt_host n)) = filter (\<lambda>p. p \<notin> set (ta_dead t)) (ta_keys t)"
  using net_reach_host(1,3) [OF assms(1,2)] assms(3,4) by blast

text \<open>The game reports its clock, and the broadcast of it writes to the guest and ends its loop.\<close>

definition demo_net :: net where
  "demo_net = (let n = told ''clock.state'' [] demo_lan_host
     in n\<lparr>nt_loop := (next_step (\<lambda>p. True) 0 ^^ 2) (nt_loop n)\<rparr>)"

lemma next_steps_reach: "net_reach n0 n \<Longrightarrow> net_reach n0 (n\<lparr>nt_loop := (next_step up i ^^ k) (nt_loop n)\<rparr>)"
proof (induction k)
  case (Suc k)
  let ?l = "(next_step up i ^^ k) (nt_loop n)"
  have "next_step up i ?l = ?l \<or> net_step (n\<lparr>nt_loop := ?l\<rparr>) (n\<lparr>nt_loop := next_step up i ?l\<rparr>)"
    using next_step_step [of up i ?l] broadcast_step [of up i "n\<lparr>nt_loop := ?l\<rparr>"] by auto
  then show ?case using Suc by (auto intro: rtranclp.rtrancl_into_rtrancl)
qed simp

lemma demo_net_reach: "net_reach (idle_net demo_lan_host) demo_net"
  unfolding demo_net_def Let_def by (rule next_steps_reach) (rule told_reach)

lemma demo_net_task: "lo_tasks (nt_loop demo_net) = [\<lparr>ta_msg = \<lparr>ms_type = ''clock.state'', ms_payload =
      clock_dict \<lparr>ck_sequence = 1, ck_speed = 1, ck_paused = False\<rparr>, ms_seq = Some 1\<rparr>, ta_size = 1,
     ta_left = [], ta_dead = [], ta_phase = Dropping [], ta_keys = [''g''], ta_changes = 0, ta_clean = True\<rparr>]"
proof -
  let ?h = "set_clock 1 False demo_lan_host"
  have c: "hs_clock (h_session demo_lan_host) = \<lparr>ck_sequence = 0, ck_speed = 1, ck_paused = False\<rparr>"
    by code_simp
  have t: "mt_value MT_CLOCK_STATE = ''clock.state''" "mt_of ''clock.state'' = Some MT_CLOCK_STATE"
    by code_simp+
  have "game_begin demo_env ''clock.state'' [] (new_runtime demo_lan_host) =
      ((new_runtime demo_lan_host)\<lparr>hr_host := ?h\<rparr>, cast ''clock.state'' (clock_dict \<lparr>ck_sequence = 1, ck_speed = 1, ck_paused = False\<rparr>))"
    by (simp add: game_begin_def t counted_def game_clock_begin_def new_runtime_def pget_default_def c Let_def)
      (simp add: set_clock_def with_session_def c)
  moreover have k: "peer_keys ?h = [''g'']" "h_seq ?h = 0" "length (h_peers ?h) = 1" "peer_keys demo_lan_host = [''g'']"
    by (simp_all add: set_clock_def demo_lan_host_def demo_host_def new_host_def peer_keys_def Let_def)
  moreover have "put_host ?h (idle_loop demo_lan_host) = pair_state ?h (h_seq ?h) (h_log ?h) []"
    using k by (simp add: put_host_def idle_loop_def pair_state_def)
  ultimately have "nt_loop (told ''clock.state'' [] demo_lan_host) = begin_broadcast ''clock.state''
      (clock_dict \<lparr>ck_sequence = 1, ck_speed = 1, ck_paused = False\<rparr>) (pair_state ?h 0 (h_log ?h) [])"
    by (simp add: told_def task_starts_def moved_def cast_def cast_then_def idle_net_def)
  then show ?thesis
    by (simp add: demo_net_def pair_begin pair_next k eval_nat_numeral) (simp add: pair_state_def pair_task_def k)
qed

theorem interleaved_broadcasts_deliver_witness:
  "line_takers \<lparr>ms_type = ''clock.state'', ms_payload = clock_dict \<lparr>ck_sequence = 1, ck_speed = 1, ck_paused = False\<rparr>,
     ms_seq = Some 1\<rparr> (h_log (nt_host demo_net)) = [''g'']"
  using interleaved_broadcasts_deliver [OF demo_lan_host_ok demo_net_reach, of "hd (lo_tasks (nt_loop demo_net))"]
  by (simp add: demo_net_task)


section \<open>Interactions\<close>

definition demo_player_env :: player_env where
  "demo_player_env = \<lparr>pe_up = True, pe_uuid = ''u1'', pe_repr = (\<lambda>v. ''object''), pe_float = (\<lambda>s. None), pe_text = (\<lambda>r. ''0.0''),
     pe_managed = (\<lambda>i v. i = 42), pe_original = None\<rparr>"

definition demo_chair :: gval where
  "demo_chair = GObj ''objects.Chair'' [(''id'', GInt 42)]"

definition demo_sim :: gval where
  "demo_sim = GObj ''sims.Sim'' [(''id'', GInt 11)]"

definition demo_affordance :: gval where
  "demo_affordance = GObj ''Sit'' [(''guid64'', GInt 9)]"

definition demo_guest_inter :: inter_mod where
  "demo_guest_inter = new_inter_mod\<lparr>im_role := VStr ''client'', im_bridge := new_bridge_client\<lparr>bc_open := True\<rparr>\<rparr>"

definition demo_host_inter :: inter_mod where
  "demo_host_inter = new_inter_mod\<lparr>im_role := VStr ''host'', im_bridge := new_bridge_client\<lparr>bc_open := True\<rparr>\<rparr>"

text \<open>C14. A push at an object that a guest's interface makes is asked of the host once, for the guest's Sim, and
  the host's replay reads from it the same interaction at the same object with the same priority and source.\<close>

theorem object_push_reaches_host:
  assumes "capture_push g ''interactions.push'' (Inr tgt) sim aff pr ctx m = (m1, r)" and "co_forwarded r"
    and "gattr tgt ''sim_info'' = GNone" and "\<not> gcallable (gattr tgt ''get_sim_instance'')" and "\<And>a. known a"
  shows "\<exists>oid aid sid command. pe_managed g oid tgt \<and> coerce_id tgt = Some oid \<and> coerce_id aff = Some aid \<and>
    sim_id_of sim = Some sid \<and>
    im_sent m1 = im_sent m @ [(''interaction.command'', command_message (''command-'' @ pe_uuid g) (int_str sid) command)] \<and>
    parse_command known command = Inr (PushInteraction aid (int_str oid)
      (wire (pe_text g) (command_value g pr (GStr ''High'')))
      (wire (pe_text g) (command_value g ctx (GStr ''SOURCE_PIE_MENU''))))"
  using assms by (rule push_object_reaches_host)

lemma demo_push_forwarded:
  "co_forwarded (snd (capture_push demo_player_env ''interactions.push'' (Inr demo_chair) demo_sim demo_affordance
      (GStr ''High'') (GStr ''SOURCE_PIE_MENU'') demo_guest_inter))"
  by code_simp

theorem object_push_reaches_host_witness:
  "\<exists>command. im_sent (fst (capture_push demo_player_env ''interactions.push'' (Inr demo_chair) demo_sim demo_affordance
      (GStr ''High'') (GStr ''SOURCE_PIE_MENU'') demo_guest_inter)) =
        [(''interaction.command'', command_message ''command-u1'' (int_str 11) command)] \<and>
    (\<exists>p q. parse_command (\<lambda>a. True) command = Inr (PushInteraction 9 (int_str 42) p q))"
proof -
  obtain m1 r where c: "capture_push demo_player_env ''interactions.push'' (Inr demo_chair) demo_sim demo_affordance
      (GStr ''High'') (GStr ''SOURCE_PIE_MENU'') demo_guest_inter = (m1, r)"
    by fastforce
  then have "co_forwarded r"
    using demo_push_forwarded by simp
  moreover have "gattr demo_chair ''sim_info'' = GNone" "\<not> gcallable (gattr demo_chair ''get_sim_instance'')"
    "coerce_id demo_chair = Some 42" "coerce_id demo_affordance = Some 9" "sim_id_of demo_sim = Some 11"
    "im_sent demo_guest_inter = []"
    by code_simp+
  ultimately show ?thesis
    using object_push_reaches_host [OF c, of "\<lambda>a. True"] c by (auto simp: demo_player_env_def)
qed

text \<open>C15. A push a guest makes runs once: either it is forwarded, with one message to the host and no local call,
  or the game's own handler is called once and nothing is sent; only when that handler raises inside the capture
  can it be called a second time.\<close>

theorem push_runs_once:
  "executed_once m (fst (capture_push g name target sim aff prio ctx m)) (snd (capture_push g name target sim aff prio ctx m)) \<or>
   raised_twice g (snd (capture_push g name target sim aff prio ctx m))"
  using push_once surjective_pairing by blast

text \<open>C16. The host's counters of forwarded commands balance after any sequence of them: every command received was
  either replayed or rejected.\<close>

theorem replay_counters_balanced:
  "replay_balanced (fold (\<lambda>gp m. fst (interaction_command (fst gp) (snd gp) m)) xs new_inter_mod)"
proof -
  have "replay_balanced (fst (interaction_command g p m))" if "replay_balanced m" for g p m
    using that by (cases "interaction_command g p m") (auto intro: replay_counts)
  then have "replay_balanced (fold (\<lambda>gp m. fst (interaction_command (fst gp) (snd gp) m)) xs m)" if "replay_balanced m" for m
    using that by (induction xs arbitrary: m) auto
  moreover have "replay_balanced new_inter_mod"
    by (simp add: replay_balanced_def commands_seen_def new_inter_mod_def count_of_def)
  ultimately show ?thesis by blast
qed

text \<open>C17. The host's game runs at most one native command per message, and only one whose name, arguments and
  affordance the parser accepts, for a Sim that is loaded, through a virtual client of the sender.\<close>

theorem replay_runs_only_valid:
  assumes "interaction_command g p m = (m1, c # cs, e)"
  shows "cs = [] \<and> host_role m \<and> re_client g = None \<and>
    (\<exists>command sid. py_dict (py_or (pget p ''command'') (VDict [])) = Inr command \<and>
       (\<exists>n \<in> set NATIVE_COMMANDS. pget command ''name'' = VStr n) \<and>
       parse_command (re_affordance g) command = Inr c \<and> int_text (pget p ''sim_id'') = Inr sid \<and> re_sim g sid)"
  using replay_calls [OF assms] parse_command_names by blast

definition demo_replay_env :: replay_env where
  "demo_replay_env = \<lparr>re_up = True, re_sim = (\<lambda>i. i = 11), re_client = None, re_affordance = (\<lambda>a. a = 9), re_queue = [],
     re_call = (\<lambda>c. \<lparr>nr_started = [], nr_raised = None, nr_truthy = True, nr_interaction = Some ''5'', nr_queue = []\<rparr>)\<rparr>"

definition demo_command :: pydict where
  "demo_command = command_message ''command-u1'' ''11''
     (push_command demo_player_env ''interactions.push'' 9
        \<lparr>tg_kind = ''object'', tg_id = ''42'', tg_sim = None, tg_type = ''objects.Chair'', tg_local = True, tg_position = GNone,
         tg_pick = GNone\<rparr> (GStr ''High'') (GStr ''SOURCE_PIE_MENU''))"

lemma demo_command_replayed:
  "fst (snd (interaction_command demo_replay_env demo_command demo_host_inter)) =
     [PushInteraction 9 ''42'' (VStr ''High'') (VStr ''SOURCE_PIE_MENU'')]"
  by code_simp

theorem replay_runs_only_valid_witness:
  "\<exists>command. py_dict (py_or (pget demo_command ''command'') (VDict [])) = Inr command \<and>
     parse_command (\<lambda>a. a = 9) command = Inr (PushInteraction 9 ''42'' (VStr ''High'') (VStr ''SOURCE_PIE_MENU''))"
proof -
  obtain m1 e where "interaction_command demo_replay_env demo_command demo_host_inter =
      (m1, [PushInteraction 9 ''42'' (VStr ''High'') (VStr ''SOURCE_PIE_MENU'')], e)"
    using demo_command_replayed by (metis prod.collapse)
  from replay_runs_only_valid [OF this] show ?thesis
    by (auto simp: demo_replay_env_def)
qed

text \<open>C18. A point on the ground survives the way from a guest's pie menu to the host: the descriptor the guest
  sends is rebuilt there as the same coordinates on the same routing surface.\<close>

theorem go_here_round_trip:
  assumes "gattr_opt tgt ''position'' = Some p" and "components flt p 3 = Inr (Some [x, y, z])"
    and "surface_object (gattr tgt ''routing_surface'') a b c" and "tgt \<noteq> GNone"
    and "target_position rep flt tgt = Inr v"
    and "ve_location g [x, y, z] (SurfaceId a b c) = None" and "ve_proxy g [x, y, z] (SurfaceId a b c) = Inr True"
  shows "position_target g (wire ft v) = Inr (PointTarget [x, y, z] (SurfaceId a b c))"
  using assms by (rule point_survives)

definition demo_resolve_env :: resolve_env where
  "demo_resolve_env = \<lparr>ve_up = True, ve_float = (\<lambda>s. None), ve_sim = (\<lambda>i. True), ve_affordance = (\<lambda>a. True), ve_object = (\<lambda>i. True),
     ve_location = (\<lambda>p s. None), ve_proxy = (\<lambda>p s. Inr True), ve_context = None,
     ve_push = (\<lambda>s a t kw. \<lparr>nr_started = [], nr_raised = None, nr_truthy = True, nr_interaction = None, nr_queue = []\<rparr>)\<rparr>"

definition demo_ground :: gval where
  "demo_ground = GObj ''objects.terrain.TerrainPoint''
     [(''position'', GObj ''Vector3'' [(''x'', GInt 1), (''y'', GInt 2), (''z'', GInt 3)]),
      (''routing_surface'', GObj ''SurfaceIdentifier'' [(''primary_id'', GInt 5), (''secondary_id'', GInt 0), (''type'', GInt 1)])]"

lemma demo_ground_described: "\<exists>v. target_position (\<lambda>v. []) (\<lambda>s. None) demo_ground = Inr v"
proof -
  have "(case target_position (\<lambda>v. []) (\<lambda>s. None) demo_ground of Inl e \<Rightarrow> False | Inr v \<Rightarrow> True)"
    by code_simp
  then show ?thesis by (auto split: sum.splits)
qed

theorem go_here_round_trip_witness:
  "\<exists>v. target_position (\<lambda>v. []) (\<lambda>s. None) demo_ground = Inr v \<and>
     position_target demo_resolve_env (wire (\<lambda>r. []) v) = Inr (PointTarget [1, 2, 3] (SurfaceId 5 0 1))"
proof -
  obtain v where v: "target_position (\<lambda>v. []) (\<lambda>s. None) demo_ground = Inr v"
    using demo_ground_described by blast
  have "components (\<lambda>s. None) (GObj ''Vector3'' [(''x'', GInt 1), (''y'', GInt 2), (''z'', GInt 3)]) 3 = Inr (Some [1, 2, 3])"
    by (simp add: components_def axis_names_def numeral_3_eq_3)
  then show ?thesis
    using go_here_round_trip [of demo_ground _ "\<lambda>s. None" 1 2 3 5 0 1 "\<lambda>v. []" v demo_resolve_env "\<lambda>r. []"] v
    by (simp add: demo_ground_def gattr_def surface_object_def demo_resolve_env_def)
qed

text \<open>C19. An interaction request the host's game cannot resolve is answered: nothing is pushed, and one rejection
  naming the request and the stage that failed is sent back.\<close>

theorem unresolved_interaction_answered:
  assumes "resolve_interaction g p = Inl x" and "ve_up g" and "bc_open (im_bridge m)"
    and "interaction_request g p m = (m1, ps, e)"
  shows "e = None \<and> ps = [] \<and> (\<exists>note. im_sent m1 = im_sent m @ [(''interaction.rejected'', note)] \<and>
    pget note ''request_id'' = VStr (text_id (pget p ''request_id'')) \<and>
    pget note ''resolve_stage'' = VStr (failed_stage x))"
  using assms by (rule unresolved_answered)

theorem unresolved_interaction_answered_witness:
  "\<exists>note. im_sent (fst (interaction_request demo_resolve_env [(''request_id'', VStr ''r1'')] demo_host_inter)) =
      [(''interaction.rejected'', note)] \<and> pget note ''request_id'' = VStr ''r1''"
proof -
  obtain m1 ps e where r: "interaction_request demo_resolve_env [(''request_id'', VStr ''r1'')] demo_host_inter = (m1, ps, e)"
    by (cases "interaction_request demo_resolve_env [(''request_id'', VStr ''r1'')] demo_host_inter") auto
  obtain x where "resolve_interaction demo_resolve_env [(''request_id'', VStr ''r1'')] = Inl x"
    by (simp add: resolve_interaction_def lookup_id_def pindex_def)
  moreover have "ve_up demo_resolve_env" "bc_open (im_bridge demo_host_inter)" "im_sent demo_host_inter = []"
    "text_id (VStr ''r1'') = ''r1''"
    by code_simp+
  ultimately show ?thesis
    using unresolved_interaction_answered [OF _ _ _ r] r by auto
qed

section \<open>The clock and the host's messages\<close>

definition demo_clock_env :: clock_env where
  "demo_clock_env = \<lparr>ce_text = (\<lambda>v. ''SPEED2''), ce_clock_up = True, ce_original = (\<lambda>n v. None), ce_service = None\<rparr>"

definition demo_clock :: clock_mod where
  "demo_clock = \<lparr>ck_role = VStr ''client'', ck_bridge = new_bridge_client\<lparr>bc_open := True\<rparr>, ck_bypass = False, ck_requests = 0,
     ck_applied = 0, ck_error = None, ck_calls = []\<rparr>"

text \<open>C20. A speed a guest picks does not change its own game: one request goes to the host, the host takes the
  speed into its clock, tells every peer, and a game that is told calls its own clock with that speed.\<close>

theorem clock_request_applied:
  assumes guest: "ck_role m = VStr ''client''" "\<not> ck_bypass m" "bc_open (ck_bridge m)" "ce_clock_up g"
    and host: "\<And>p. ev_up ev p"
    and game: "ce_service g' = None" "\<And>v. ce_original g' ''set_clock_speed'' v = None"
  shows "\<exists>d. ck_out (fst (clock_wrapped g (SetSpeed v) m)) = ck_out m @ [(''clock.request_speed'', d)] \<and>
    ck_calls (fst (clock_wrapped g (SetSpeed v) m)) = ck_calls m \<and>
    (\<exists>h' out. handle_clock_speed None ev (host_message pid (''clock.request_speed'', d)) h = (h', None) \<and>
       ck_speed (hs_clock (h_session h')) = wanted_speed g v \<and>
       h_log h' = h_log h @ map (\<lambda>kv. ToPeer (fst kv) \<lparr>ms_type = mt_value MT_CLOCK_STATE, ms_payload = out,
         ms_seq = Some (h_seq h + 1)\<rparr>) (h_peers h) \<and>
       ck_calls (clock_state g' out m') = ck_calls m' @ [(''set_clock_speed'', speed_mode (wanted_speed g v))])"
  using assms by (rule clock_end_to_end)

theorem clock_request_applied_witness:
  "\<exists>d. ck_out (fst (clock_wrapped demo_clock_env (SetSpeed (GInt 2)) demo_clock)) = [(''clock.request_speed'', d)] \<and>
    (\<exists>h' out. handle_clock_speed None demo_env (host_message ''g'' (''clock.request_speed'', d)) demo_lan_host = (h', None) \<and>
       ck_speed (hs_clock (h_session h')) = wanted_speed demo_clock_env (GInt 2) \<and>
       ck_calls (clock_state demo_clock_env out demo_clock) = [(''set_clock_speed'', speed_mode (wanted_speed demo_clock_env (GInt 2)))])"
proof -
  have "ck_role demo_clock = VStr ''client''" "\<not> ck_bypass demo_clock" "bc_open (ck_bridge demo_clock)" "ce_clock_up demo_clock_env"
    "ck_out demo_clock = []" "ck_calls demo_clock = []" "\<And>p. ev_up demo_env p" "ce_service demo_clock_env = None"
    "\<And>v. ce_original demo_clock_env ''set_clock_speed'' v = None"
    by (simp_all add: demo_clock_def demo_clock_env_def demo_env_def ck_out_def new_bridge_client_def)
  then show ?thesis
    using clock_request_applied [of demo_clock demo_clock_env demo_env demo_clock_env "GInt 2" "''g''" demo_lan_host demo_clock]
    by auto
qed

text \<open>C21. Which messages of the host's game leave it, and with what bytes: on the host, a message that is not for
  its own screen only, can be serialised and is not too large is sent; every other message sends nothing. The bytes are
  those of the copy for the other screens: of a view update every entry without an operation list or with an operation
  not meant for the host's own screen, with just these operations, which are all such operations of the message in
  their order; any other message as it is.\<close>

theorem message_copy_exact:
  "mm_out (capture_message g mid msg m) =
     mm_out m @ (if mm_role m = VStr ''host'' \<and> mid \<notin> me_local_ids g \<and> msg \<noteq> NotSerializable \<and>
         length (me_serialize g (remote_copy (me_local_ops g) msg)) \<le> MAX_RAW_BYTES \<and> bc_open (mm_bridge m) \<and> me_up g
       then [(''game.raw_message'', raw_payload mid (me_serialize g (remote_copy (me_local_ops g) msg)))] else []) \<and>
   message_ops (remote_copy (me_local_ops g) msg) = filter (\<lambda>x. fst x \<notin> me_local_ops g) (message_ops msg)"
  by (simp add: capture_leaves leaves_def outgoing_def local_only_def copy_ops)

section \<open>Virtual clients, requests and commands\<close>

text \<open>C22. The search for the id of a virtual client ends with the first number, from the one derived from the player
  on, that the game's client manager does not use; and when the mod is taken out, the manager has the clients it
  had before, however many players were given one.\<close>

theorem virtual_clients_clean:
  "free_id used i \<notin> set used \<and> i \<le> free_id used i \<and> {i..<free_id used i} \<subseteq> set used \<and>
   teardown_clients (fold (\<lambda>ps p. fst (remote_client_for digest create activate (fst ps) (snd ps) p)) reqs (new_pool used)) = new_pool used"
proof -
  have ge: "i \<le> free_id used i"
  proof (induction used i rule: free_id.induct)
    case (1 used i)
    then show ?case by (cases "i \<in> set used") (simp_all add: free_id.simps [of used i])
  qed
  have "pool_ok used (fold (\<lambda>ps p. fst (remote_client_for digest create activate (fst ps) (snd ps) p)) reqs p)"
    if "pool_ok used p" for p
    using that by (induction reqs arbitrary: p) (simp_all add: pool_ok_remote_client)
  then show ?thesis
    using free_id_free free_id_first ge pool_ok_new teardown_restores by fastforce
qed

text \<open>C23. The host takes every interaction request id at most once: among the requests a run of requests,
  cancellations and field changes accepts, no two have the same id.\<close>

theorem interactions_accepted_once:
  "distinct (map interaction_key (interaction_once.accepted acts s))"
  by (rule interaction_once.distinct_accepted)

text \<open>C24. A routed command is executed only by a handler registered for its family; an accepted one has its id
  recorded, so that whatever is registered and dispatched afterwards, a command with that id is refused as a
  duplicate, whoever sends it.\<close>

theorem commands_whitelisted:
  assumes "dispatch_command now uuid pid family payload rid r = (r', Inr res)"
  shows "(\<exists>h d. map_of (cm_handlers r) family = Some h \<and> h pid payload = Inr d) \<and>
    (effective_id rid' uuid' = effective_id rid uuid \<longrightarrow>
       snd (dispatch_command now' uuid' pid' family' payload' rid' (fold router_do calls r')) =
         Inl (ValueError ''duplicate_request_id''))"
proof -
  have acc: "snd (dispatch_command now uuid pid family payload rid r) = Inr res"
    using assms by simp
  have "effective_id rid uuid \<in> dict_keys (cm_pending (fold router_do calls r'))"
    using dispatch_seen(2) [OF acc] assms router_run_seen [of r' calls] by auto
  then show ?thesis
    using dispatch_whitelist [OF acc] seen_refused [of rid' uuid'] by simp
qed

definition demo_router :: command_router where
  "demo_router = \<lparr>cm_handlers = [(''ui'', \<lambda>pid d. Inr d)], cm_pending = []\<rparr>"

lemma demo_dispatched:
  "dispatch_command 0 ''u1'' ''g'' ''ui'' [] (Some ''r1'') demo_router =
     (fst (dispatch_command 0 ''u1'' ''g'' ''ui'' [] (Some ''r1'') demo_router),
      Inr [(''request_id'', VStr ''r1''), (''family'', VStr ''ui''), (''result'', VDict [])])"
  by (simp add: dispatch_command_def demo_router_def effective_id_def Let_def)

theorem commands_whitelisted_witness:
  "snd (dispatch_command 2 ''u3'' ''h'' ''ui'' [] (Some ''r1'')
      (fst (dispatch_command 1 ''u2'' ''g'' ''ui'' [] (Some ''r2'') (fst (dispatch_command 0 ''u1'' ''g'' ''ui'' [] (Some ''r1'') demo_router)))))
      = Inl (ValueError ''duplicate_request_id'')"
proof -
  have "effective_id (Some ''r1'') ''u3'' = effective_id (Some ''r1'') ''u1''"
    by (simp add: effective_id_def)
  then show ?thesis
    using commands_whitelisted [OF demo_dispatched, of "Some ''r1''" "''u3''" 2 "''h''" "''ui''" "[]"
        "[Dispatches (1, ''u2'', ''g'', ''ui'', [], Some ''r2'')]"]
    by (simp add: router_do_def)
qed

section \<open>Travel and the session\<close>

text \<open>C25. A travel is committed only when everybody has agreed, and complete only when everybody has arrived: in any
  state a run of calls leads to, each participant of a committed transaction has acknowledged this transaction by
  its id, and each participant of a complete one has reported its zone for it.\<close>

theorem commit_needs_every_ack:
  assumes "tc_current (travel_run evs new_coordinator) = Some t"
    and "tx_phase t \<in> {COMMITTED, WAITING_ZONE_READY, COMPLETE}" and "p \<in> tx_participants t"
  shows "(\<exists>ep. EvReady p (tx_id t) ep \<in> set evs) \<and>
    (tx_phase t = COMPLETE \<longrightarrow> (\<exists>ep. EvZoneReady p (tx_id t) ep \<in> set evs))"
proof -
  have "txn_ok t"
    using travel_run_ok [OF travel_ok_new, of evs] assms(1) unfolding travel_ok_def by simp
  then have "p \<in> tx_ready t" "tx_phase t = COMPLETE \<Longrightarrow> p \<in> tx_zone_ready t"
    using assms(2,3) by (auto simp: txn_ok_def)
  then show ?thesis
    using acked_run [OF assms(1)] unfolding acked_def by blast
qed

theorem commit_needs_every_ack_witness:
  "\<exists>t. tc_current (travel_run [EvPropose ''t1'' ''z1'' [] [''g''], EvReady ''g'' ''t1'' (Some 1)] new_coordinator) = Some t \<and>
     tx_phase t = COMMITTED \<and>
     (\<exists>ep. EvReady ''g'' (tx_id t) ep \<in> set [EvPropose ''t1'' ''z1'' [] [''g''], EvReady ''g'' ''t1'' (Some 1)])"
proof -
  have "map_option (\<lambda>t. (tx_phase t, ''g'' \<in> tx_participants t))
      (tc_current (travel_run [EvPropose ''t1'' ''z1'' [] [''g''], EvReady ''g'' ''t1'' (Some 1)] new_coordinator)) =
      Some (COMMITTED, True)"
    by code_simp
  then show ?thesis
    using commit_needs_every_ack by blast
qed

text \<open>C26. A player who leaves is forgotten by every part of the session: it is no player and no controller of any
  Sim, holds no build lock, takes no part in a travel still running, and owns no open dialog.\<close>

theorem departed_player_forgotten:
  assumes "session_ok s"
  shows "get_player pid (remove_player pid s) = None \<and>
    (\<forall>sid m. map_of (hs_sims (remove_player pid s)) sid = Some m \<longrightarrow> pid \<notin> set (si_controllers m)) \<and>
    \<not> owns pid (hs_build (remove_player pid s)) \<and>
    (\<forall>t. tc_current (hs_travel (remove_player pid s)) = Some t \<longrightarrow> finished (tx_phase t) \<or> pid \<notin> tx_participants t) \<and>
    (\<forall>i d. map_of (dr_pending (hs_dialogs (remove_player pid s))) i = Some d \<longrightarrow> dl_owner d \<noteq> pid)"
  using remove_player_forgets [OF assms] by blast

theorem departed_player_forgotten_witness:
  "get_player ''g'' (h_session demo_lan_host) \<noteq> None \<and> get_player ''g'' (remove_player ''g'' (h_session demo_lan_host)) = None"
proof -
  have "session_ok (h_session demo_lan_host)"
    using demo_lan_host_ok by (simp add: host_ok_def)
  moreover have "get_player ''g'' (h_session demo_lan_host) \<noteq> None"
    by code_simp
  ultimately show ?thesis
    using departed_player_forgotten by blast
qed

text \<open>C27. A player who comes back gets its Sim back, as long as the Sim is still in the household.\<close>

theorem reconnect_restores_sim:
  assumes "get_player pid s = Some p" "pl_sim p = Some sid" "sid \<noteq> []" "map_of (hs_sims s) sid \<noteq> None"
  shows "Option.bind (get_player pid (add_player pid name m (remove_player pid s))) pl_sim = Some sid"
  using assms by (rule reconnect_restores)

definition demo_playing :: host_session where
  "demo_playing = fst (select_sim ''g'' ''s11'' (fst (update_sims [VDict [(''sim_id'', VStr ''s11''), (''name'', VStr ''Bella'')]]
     (h_session demo_lan_host))))"

lemma demo_playing_sim:
  "(case get_player ''g'' demo_playing of None \<Rightarrow> None | Some p \<Rightarrow> pl_sim p) = Some ''s11'' \<and> map_of (hs_sims demo_playing) ''s11'' \<noteq> None"
  by code_simp

theorem reconnect_restores_sim_witness:
  "Option.bind (get_player ''g'' (add_player ''g'' ''Guest'' None (remove_player ''g'' demo_playing))) pl_sim = Some ''s11''"
  using demo_playing_sim reconnect_restores_sim [of "''g''" demo_playing _ "''s11''" "''Guest''" None]
  by (auto split: option.splits)

section \<open>Compatibility and readiness\<close>

text \<open>The session is ready to play exactly when it has players and every one of them is compatible, has the
  save, a game connected to its sidecar, a loaded zone and a decided simulation authority - and the native part
  where the session requires it.\<close>

theorem core_ready_characterised:
  "core_ready (session_readiness s) \<longleftrightarrow> hs_players s \<noteq> [] \<and>
     (\<forall>(pid, p) \<in> set (hs_players s). rd_reasons (pl_readiness p) = [] \<and>
        truthy (rd_save_hash (pl_readiness p)) \<and> truthy (rd_bridge (pl_readiness p)) \<and>
        truthy (rd_zone (pl_readiness p)) \<and> truthy (rd_authority (pl_readiness p)) \<and>
        (hs_native_required s \<longrightarrow> truthy (rd_native (pl_readiness p))))"
  by (rule core_ready_iff)

theorem core_ready_characterised_witness:
  "\<not> core_ready (session_readiness (new_session ''s1'' None False)) \<and>
   \<not> core_ready (session_readiness (h_session demo_host))"
proof -
  have "hs_players (new_session ''s1'' None False) = []"
    by (simp add: new_session_def)
  moreover have "list_ex (\<lambda>kv. \<not> truthy (rd_zone (pl_readiness (snd kv)))) (hs_players (h_session demo_host))"
    by code_simp
  ultimately show ?thesis
    unfolding core_ready_characterised by (auto simp: list_ex_iff)
qed

text \<open>A player's lifecycle never goes back while its gates only open: when everything that was true of its
  readiness stays true, its state does not decrease, and it is \<open>GAME_READY\<close> exactly when it may play.\<close>

theorem readiness_monotone:
  assumes "gates_le r r'"
  shows "advance_state r \<le> advance_state r' \<and> (advance_state r' = GAME_READY \<longleftrightarrow> truthy (ready_value r'))"
  using advance_monotone [OF assms] game_ready_iff by blast

theorem readiness_monotone_witness:
  "advance_state new_readiness \<le> advance_state (new_readiness\<lparr>rd_save_total := VInt 5\<rparr>)"
proof -
  have "gates_le new_readiness (new_readiness\<lparr>rd_save_total := VInt 5\<rparr>)"
    by (simp add: gates_le_def new_readiness_def)
  then show ?thesis
    using readiness_monotone by blast
qed

text \<open>C28. Two guests compatible with the same host are compatible with each other, whichever of them is asked.\<close>

theorem compatibility_equivalence:
  assumes "compare_manifests h a nr = []" and "compare_manifests h b nr = []"
  shows "compare_manifests a b nr = [] \<and> compare_manifests b a nr = []"
  using compatible_trans [OF assms] compare_sym by metis

theorem compatibility_equivalence_witness:
  "compare_manifests (demo_manifest\<lparr>m_game_version := VStr ''1.1'', m_player_id := VStr ''a''\<rparr>)
     (demo_manifest\<lparr>m_game_version := VStr ''1.1'', m_player_id := VStr ''b''\<rparr>) False = []"
proof -
  have "compare_manifests (demo_manifest\<lparr>m_game_version := VStr ''1.1''\<rparr>)
      (demo_manifest\<lparr>m_game_version := VStr ''1.1'', m_player_id := v\<rparr>) False = []" for v
    by (simp add: compatible_iff demo_manifest_def default_manifest_def native_mismatch_def UNKNOWN_def)
  then show ?thesis
    using compatibility_equivalence by blast
qed

section \<open>Objects\<close>

text \<open>C29. What passes the host's validation is well typed: a known operation, with the keys it came with, every id
  a text or absent, and the fields its kind needs.\<close>

theorem build_data_typed:
  assumes "validate_build_data op data = Inr d"
  shows "op \<in> set OBJECT_OPERATIONS \<and> dict_keys d = dict_keys data \<and> required_error op d = None \<and>
    (\<forall>k v. k \<in> set id_keys \<longrightarrow> map_of d k = Some v \<longrightarrow> v = VNone \<or> (\<exists>s. v = VStr s))"
  using assms validate_accepts_known validate_keys validate_required validate_ids_text by metis

theorem build_data_typed_witness:
  "\<exists>d. validate_build_data ''object.destroy'' [(''object_id'', VInt 5)] = Inr d \<and> dict_keys d = {''object_id''} \<and>
     required_error ''object.destroy'' d = None"
proof -
  have "validate_build_data ''object.destroy'' [(''object_id'', VInt 5)] = Inr [(''object_id'', VStr ''5'')]"
    by code_simp
  from build_data_typed [OF this] this show ?thesis by auto
qed

text \<open>C30. The adapter applies every operation of another player at most once: among the payloads of a run that it
  applies, no two have the same key, whatever the game reports back meanwhile.\<close>

theorem remote_operations_once:
  "distinct (map (payload_key dumps) (remote_once.accepted dumps echoes err payloads a))"
  by (rule remote_once.distinct_accepted)

text \<open>The difference of two wall contours accounts for every segment: for each text a segment has, the
  number of such segments afterwards and removed is the number before and added.\<close>

theorem contour_delta_balances:
  "count_list (map dumps after) k + count_list (map dumps (dt_removed (contour_delta dumps before after))) k =
   count_list (map dumps before) k + count_list (map dumps (dt_added (contour_delta dumps before after))) k"
  by (rule contour_balance)

text \<open>A change of an object's parent is one operation on the wire, however many hooked calls the game makes
  inside it: at most one message is published, and it is a build operation.\<close>

theorem nested_edit_published_once:
  assumes "bm_depth m = 0" and "nests h"
  shows "published (fst (run_hooked cx (Hooked h c inner out) m)) = published m \<or>
    (\<exists>o1. published (fst (run_hooked cx (Hooked h c inner out) m)) =
        published m @ [(''build.operation'', game_op_dict o1)] \<and> go_op o1 \<in> set OBJECT_OPERATIONS)"
  using assms by (rule parent_change_once)

definition demo_build :: build_mod where
  "demo_build = \<lparr>bm_adapter = new_adapter, bm_depth = 0, bm_bridge = new_bridge_client\<lparr>bc_open := True\<rparr>\<rparr>"

definition demo_capture :: capture_env where
  "demo_capture = \<lparr>cx_repr = (\<lambda>v. []), cx_float = (\<lambda>s. None), cx_text = (\<lambda>r. []), cx_up = True\<rparr>"

definition demo_call :: call_site where
  "demo_call = \<lparr>cs_bound = None, cs_args = [], cs_kwargs = [(''obj_id'', GInt 5), (''parent_id'', GInt 6)], cs_before = GNone, cs_after = GNone\<rparr>"

definition demo_nested :: hooked_call where
  "demo_nested = Hooked ParentHook demo_call
     [Hooked MoveHook demo_call [] (Inr GNone), Hooked MoveHook demo_call [] (Inr GNone)] (Inr GNone)"

lemma demo_nested_publishes: "length (published (fst (run_hooked demo_capture demo_nested demo_build))) = 1"
  by code_simp

theorem nested_edit_published_once_witness:
  "\<exists>o1. published (fst (run_hooked demo_capture demo_nested demo_build)) = [(''build.operation'', game_op_dict o1)] \<and>
     go_op o1 \<in> set OBJECT_OPERATIONS"
proof -
  have "bm_depth demo_build = 0" "nests ParentHook" "published demo_build = []"
    by (simp_all add: demo_build_def nests_def published_def new_bridge_client_def)
  then show ?thesis
    using nested_edit_published_once [of demo_build ParentHook demo_capture demo_call
        "[Hooked MoveHook demo_call [] (Inr GNone), Hooked MoveHook demo_call [] (Inr GNone)]" "Inr GNone"] demo_nested_publishes
    unfolding demo_nested_def by auto
qed

text \<open>Applying another player's operation does not echo: what the game reports while it is applied is neither
  captured nor published again, and the adapter is out of the applying state afterwards, also when it fails.\<close>

theorem remote_apply_silent:
  assumes "\<not> ad_applying a"
  shows "ad_captured (fst (apply_remote dumps (echo_apply echoes err) payload a)) = ad_captured a \<and>
    ad_last_local (fst (apply_remote dumps (echo_apply echoes err) payload a)) = ad_last_local a \<and>
    \<not> ad_applying (fst (apply_remote dumps (echo_apply echoes err) payload a))"
  using apply_remote_silent [OF assms] by blast

theorem remote_apply_silent_witness:
  "ad_captured (fst (apply_remote (\<lambda>v. []) (echo_apply (\<lambda>o1. [demo_destroy]) (\<lambda>o1. None)) demo_destroy
      (configure True True new_adapter))) = 0"
proof -
  have "\<not> ad_applying (configure True True new_adapter)" "ad_captured (configure True True new_adapter) = 0"
    by (simp_all add: configure_def new_adapter_def)
  then show ?thesis
    using remote_apply_silent by metis
qed

text \<open>C31. When the host's resume for the guest's travel arrives after the last batch, everything held back goes to
  the game, in order, and nothing is held back any more.\<close>

theorem held_back_messages_released:
  assumes "client_ok r" "cr_batch_complete r" "cv_game ev"
    and "py_int (pget_default (e_payload e) ''epoch'' (VInt (-1))) = Inr (cr_epoch r)"
    and "e_type e = mt_value MT_TRAVEL_RESUME"
  shows "raw_seqs (cr_game (fst (client_message ev e r))) = raw_seqs (cr_game r) @ map seq_of (cr_buffer r) \<and>
    cr_buffer (fst (client_message ev e r)) = [] \<and> \<not> cr_buffering (fst (client_message ev e r))"
  using resume_releases [OF assms] by blast

definition demo_travelling :: client_runtime where
  "demo_travelling = demo_client\<lparr>cr_epoch := 1, cr_buffering := True, cr_batch_complete := True, cr_last_seq := 4,
     cr_buffer := [relay_payload 5 3 [1] (Some 1), relay_payload 5 4 [2] (Some 1)]\<rparr>"

theorem held_back_messages_released_witness:
  "raw_seqs (cr_game (fst (client_message demo_client_env
      (host_message ''h'' (mt_value MT_TRAVEL_RESUME, ack_payload ''t1'' 1)) demo_travelling))) = [3, 4]"
proof -
  have "seq_of (relay_payload 5 q raw ep) = q" for q raw ep
    by (simp add: seq_of_def)
  then have "client_ok demo_travelling" "cr_batch_complete demo_travelling" "cv_game demo_client_env" "cr_epoch demo_travelling = 1"
    "raw_seqs (cr_game demo_travelling) = []" "map seq_of (cr_buffer demo_travelling) = [3, 4]"
    by (simp_all add: client_ok_def demo_travelling_def demo_client_def new_client_runtime_def has_id_def max_buffered_def
        demo_client_env_def)
  then show ?thesis
    using held_back_messages_released [of demo_travelling demo_client_env
        "host_message ''h'' (mt_value MT_TRAVEL_RESUME, ack_payload ''t1'' 1)"]
    by simp
qed

text \<open>C32. Moving another player's object succeeds only when the object stands where the operation says: without an
  exception, the position the game reports agrees with the wanted one to a thousandth, and all the calls made were
  placements of that object.\<close>

theorem location_success_verified:
  assumes "apply_location g oid zone d calls = (cs, None)"
  shows "position_matches (gs_float g) (gs_position g cs) (pget d ''transform'') = Inr True \<and>
    adds_moves calls (cs, None)"
  using apply_location_ok [OF assms] apply_location_moves [of calls g oid zone d] assms by (simp add: in_place_def)

definition demo_side :: game_side where
  "demo_side = \<lparr>gs_zone = Inr 1, gs_known = (\<lambda>i. True), gs_call = (\<lambda>c. Inr GNone),
     gs_position = (\<lambda>cs. if cs = [] then GNone else GObj ''Vector3'' [(''x'', GInt 1), (''y'', GInt 2), (''z'', GInt 3)]),
     gs_methods = (\<lambda>n. True), gs_transform = (\<lambda>p q. True), gs_has_transform = True, gs_float = (\<lambda>s. None)\<rparr>"

definition demo_place :: pydict where
  "demo_place = [(''transform'', VDict [(''translation'', VList [VInt 1, VInt 2, VInt 3]),
     (''orientation'', VList [VInt 0, VInt 0, VInt 0, VInt 1])])]"

lemma demo_place_works: "snd (apply_location demo_side (Some 5) 1 demo_place []) = None"
  by code_simp

theorem location_success_verified_witness:
  "\<exists>cs. fst (apply_location demo_side (Some 5) 1 demo_place []) = cs \<and> list_all moves cs \<and>
     position_matches (\<lambda>s. None) (gs_position demo_side cs) (pget demo_place ''transform'') = Inr True"
proof -
  have "apply_location demo_side (Some 5) 1 demo_place [] = (fst (apply_location demo_side (Some 5) 1 demo_place []), None)"
    using demo_place_works by (metis prod.collapse)
  from location_success_verified [OF this] show ?thesis
    by (simp add: adds_moves_def demo_side_def)
qed

section \<open>The mod in the game\<close>

text \<open>During a travel a guest's game reports its zone ready at most once, whatever it receives and however often
  the zone spins up, and only if it had not reported it before.\<close>

theorem zone_ready_reported_once:
  assumes "is_client m0" "list_all within_travel is"
  shows "zone_reports (mod_run is m0) \<le> zone_reports m0 + (if gm_zone_reported m0 then 0 else 1)"
  using mod_run_once [OF assms] by (auto simp: once_from_def)

theorem zone_ready_reported_once_witness:
  "zone_reports (mod_run [ZoneLoaded demo_game, FromSidecar demo_game ''travel.resume'' (ack_payload ''t1'' 0), ZoneLoaded demo_game]
     demo_guest_game) \<le> 1"
proof -
  have "is_client demo_guest_game" "zone_reports demo_guest_game = 0" "\<not> gm_zone_reported demo_guest_game"
    by (simp_all add: demo_guest_game_def new_mod_def zone_reports_def new_bridge_client_def)
  moreover have "list_all within_travel [ZoneLoaded demo_game, FromSidecar demo_game ''travel.resume'' (ack_payload ''t1'' 0), ZoneLoaded demo_game]"
    by (simp add: within_travel_def)
  ultimately show ?thesis
    using zone_ready_reported_once by fastforce
qed

text \<open>C33. Taking the mod out gives the game its functions back: whichever hooks were installed, in whatever order and
  however often, every attribute is what it was before - except those the game does not let go of, and exactly these
  are reported.\<close>

theorem mod_teardown_restores:
  "map_of (pm_attrs (fst (teardown fails (install_proxy (fold (\<lambda>fk m. fst (install_hook (fst fk) (snd fk) m)) hooks (unpatched as rs)))))) k =
     (if k \<in> set (snd (teardown fails (install_proxy (fold (\<lambda>fk m. fst (install_hook (fst fk) (snd fk) m)) hooks (unpatched as rs)))))
      then map_of (pm_attrs (install_proxy (fold (\<lambda>fk m. fst (install_hook (fst fk) (snd fk) m)) hooks (unpatched as rs)))) k
      else map_of as k)"
proof -
  have "patches_ok as (fold (\<lambda>fk m. fst (install_hook (fst fk) (snd fk) m)) hooks m)" if "patches_ok as m" for m
    using that by (induction hooks arbitrary: m) (simp_all add: install_hook_ok)
  then show ?thesis
    by (intro teardown_restores_attrs(1) install_proxy_ok) (simp add: patches_ok_unpatched)
qed

text \<open>C34. The capture queue accounts for everything pushed: after any sequence of pushes and takes it holds at most
  its capacity, the numbers taken and queued are increasing, and every number given out was taken, is queued or was
  counted as dropped.\<close>

theorem capture_queue_accounts:
  assumes "new_capture_queue capacity = Inr q0" and "fold (queue_step sha) evs (q0, []) = (q, out)"
  shows "length (cq_items q) \<le> nat capacity \<and> sorted_wrt (<) (map fst (out @ cq_items q)) \<and>
    cq_next q - 1 = cq_dropped q + int (length out) + int (length (cq_items q))"
proof -
  have ok: "queue_ok (q, out)"
    using queue_ok_run [OF queue_ok_new [OF assms(1)], of sha evs] assms(2) by simp
  have cap: "cq_capacity (fst (fold (queue_step sha) evs qo)) = cq_capacity (fst qo)" for qo
  proof (induction evs arbitrary: qo)
    case (Cons ev evs)
    have "cq_capacity (fst (queue_step sha ev qo)) = cq_capacity (fst qo)"
      by (cases ev; cases qo)
        (auto simp: capture_push_item_def deque_append_def capture_take_def Let_def split: list.splits)
    then show ?case using Cons.IH by simp
  qed simp
  have "cq_capacity q = nat capacity"
    using cap [of "(q0, [])"] assms by (auto simp: new_capture_queue_def split: if_splits)
  moreover have "sorted_wrt (<) (map fst (cq_items q))"
    using ok by (auto simp: queue_ok_def sorted_wrt_upto)
  moreover have "fst x < fst y" if x: "x \<in> set out" and y: "y \<in> set (cq_items q)" for x y
  proof -
    have "map fst (cq_items q) = [cq_next q - int (length (cq_items q))..cq_next q - 1]"
      and below: "\<And>z. z \<in> set out \<Longrightarrow> fst z < cq_next q - int (length (cq_items q))"
      using ok by (auto simp: queue_ok_def)
    then have "fst ` set (cq_items q) = {cq_next q - int (length (cq_items q))..cq_next q - 1}"
      by (metis list.set_map set_upto)
    then have "cq_next q - int (length (cq_items q)) \<le> fst y"
      using y by force
    then show ?thesis
      using below [OF x] by simp
  qed
  moreover have "length (cq_items q) \<le> cq_capacity q" "sorted_wrt (<) (map fst out)"
    "cq_next q - 1 = cq_dropped q + int (length out) + int (length (cq_items q))"
    using ok by (simp_all add: queue_ok_def)
  ultimately show ?thesis
    by (simp add: sorted_wrt_append)
qed

theorem capture_queue_accounts_witness:
  "case fold (queue_step (\<lambda>bs. [])) [QPush [1 :: nat] 0, QPush [2] 0, QPush [3] 0, QTake] (projr (new_capture_queue 2), []) of
     (q, out) \<Rightarrow> cq_next q - 1 = cq_dropped q + int (length out) + int (length (cq_items q))"
proof -
  have "new_capture_queue 2 = Inr (projr (new_capture_queue 2))"
    by (simp add: new_capture_queue_def)
  then show ?thesis
    using capture_queue_accounts [of 2 "projr (new_capture_queue 2)" "\<lambda>bs. []" "[QPush [1 :: nat] 0, QPush [2] 0, QPush [3] 0, QTake]"]
    by (auto split: prod.split)
qed

text \<open>A tracer that is started and then records the given phases and labels.\<close>

definition traced_run :: "(string \<times> string) list \<Rightarrow> attrs \<Rightarrow> trace_mod" where
  "traced_run calls as = fold (\<lambda>pl m. trace_record (fst pl) (snd pl) m) calls (trace_start TRACE_SPECS (new_trace as))"

text \<open>C35. The tracer's log is bounded: after a start and any sequence of recordings it holds at most 512 events, with
  consecutive numbers up to the last one, and of each function at most 96 of them - 12 of the timeline.\<close>

theorem trace_log_bounded:
  "length (tm_events (traced_run calls as)) \<le> 512 \<and>
   map fst (tm_events (traced_run calls as)) =
     [tm_seq (traced_run calls as) - int (length (tm_events (traced_run calls as))) + 1..tm_seq (traced_run calls as)] \<and>
   int (length (filter (\<lambda>e. snd (snd e) = label) (tm_events (traced_run calls as)))) \<le>
     (if label = ''scheduling.Timeline.simulate'' then 12 else 96)"
proof -
  have "trace_ok (new_trace as)"
    using trace_limit_pos by (simp add: trace_ok_def new_trace_def trace_count_def less_imp_le)
  then have start: "trace_ok (trace_start TRACE_SPECS (new_trace as))"
    by (rule trace_ok_start)
  have "trace_ok (fold (\<lambda>pl m. trace_record (fst pl) (snd pl) m) cs m0)" if "trace_ok m0" for m0 and cs :: "(string \<times> string) list"
    using that by (induction cs arbitrary: m0) (simp_all add: trace_ok_record)
  from this [OF start, of calls] have "trace_ok (traced_run calls as)"
    by (simp add: traced_run_def)
  then show ?thesis
    unfolding trace_ok_def MAX_EVENTS_def trace_limit_def MAX_PER_FUNCTION_def SIMULATE_LABEL_def by (metis min.boundedE)
qed

text \<open>The client reads back the index and the bytes of every chunk the host sends.\<close>

theorem chunk_survives_transport: "chunk_bytes (chunk_payload sid (i, c)) = Inr (int i, c)"
  by (rule chunk_bytes_payload)



section \<open>Tools and installation\<close>

definition demo_fake_env :: fake_env where
  "demo_fake_env = \<lparr>fx_up = True, fx_auto = True, fx_save = True, fx_uuid = ''r1'', fx_float = (\<lambda>s. Some 1),
     fx_text = (\<lambda>r. ''1.0''), fx_sha = (\<lambda>bytes. replicate 64 (CHR ''a'')), fx_stamp = ''0''\<rparr>"

definition demo_player :: fake_state where
  "demo_player = fst (fst (run_command demo_fake_env ''sell 7'' (new_fake ''g'' \<lparr>sd_files = [], sd_backups = []\<rparr>)))"

text \<open>C36. Whatever the test player has queued, after any messages of the host and any lines typed, is accepted by a
  host that grants it the lock: every operation, in the order of the commands, with consecutive numbers.\<close>

theorem test_player_builds_accepted:
  assumes "fake_reachable g s" and "snd (request_lock now ns (fk_id s) a)" and "0 \<le> ba_lease a"
  shows "\<exists>bs. snd (submit_all now (fk_id s) (fk_pending s) (fst (request_lock now ns (fk_id s) a))) = map Inr bs \<and>
      map bo_op bs = map fst (fk_pending s) \<and>
      map bo_seq bs = map (\<lambda>n. ba_seq a + 1 + int n) [0..<length (fk_pending s)]"
  using fake_builds_accepted [OF assms] .

lemma demo_player_queue:
  "fk_pending demo_player = [(''object.destroy'', [(''object_id'', VStr ''7'')])]" "fk_id demo_player = ''g''"
  by code_simp+

theorem test_player_builds_accepted_witness:
  "\<exists>b. snd (submit_all 0 ''g'' (fk_pending demo_player) (fst (request_lock 0 0 ''g'' default_authority))) = [Inr b] \<and>
     bo_op b = ''object.destroy'' \<and> bo_seq b = 1"
proof -
  have r: "fake_reachable demo_fake_env demo_player"
    unfolding demo_player_def by (intro fake_reachable.intros) (simp add: MAX_LINE_def)
  have "snd (request_lock 0 0 (fk_id demo_player) default_authority)" "0 \<le> ba_lease default_authority"
    "ba_seq default_authority = 0"
    by (simp_all add: request_lock_def default_authority_def new_authority_def drop_expired_def Let_def)
  then show ?thesis
    using test_player_builds_accepted [OF r, of 0 0 default_authority] by (auto simp: demo_player_queue)
qed

text \<open>C37. A travel a player starts inside its game is not run there but becomes one request; the host proposes exactly
  this zone and these Sims. Every game that is told of the travel and knows the zone, or has no service to ask, calls
  its own travel command once, for its active Sim and the other Sims of the request; a game whose service does not
  know the zone calls nothing and reports that.\<close>

theorem natural_travel_replayed:
  assumes "bc_open (gm_bridge m)" and "ge_up g" and "travel_args bound GNone [] = (GInt z, map GInt ids)"
    and "\<And>p. ev_up ev p"
    and "tc_current (host_travel h) = None \<or> (\<exists>t. tc_current (host_travel h) = Some t \<and> finished (tx_phase t))"
    and "hs_players (h_session h) \<noteq> []"
  shows "\<exists>d t. bc_sent (gm_bridge (fst (fst (natural_travel tx g False bound m)))) =
        bc_sent (gm_bridge m) @ [(''travel.request'', d)] \<and>
      \<not> snd (natural_travel tx g False bound m) \<and>
      tc_current (host_travel (fst (start_travel ev d pid h))) = Some t \<and>
      (\<forall>n a bypass. ne_command n \<and> ne_active n = Some a \<longrightarrow>
         invoke_native_travel n (travel_dict t) bypass =
           (if ne_zone n = None \<or> the (ne_zone n) z
            then ([((a, z, filter (\<lambda>i. i \<noteq> a) ids), True)], False, ne_call n a z (filter (\<lambda>i. i \<noteq> a) ids))
            else ([], bypass, Some (ValueError ''destination_zone_not_found''))))"
proof -
  obtain t where t: "tc_current (host_travel (fst (start_travel ev (travel_payload tx (GInt z) (map GInt ids)) pid h))) = Some t"
    "tx_zone t = int_str z" "tx_actors t = map int_str ids"
    using request_proposed [OF assms(4-6)] by blast
  have "invoke_native_travel n (travel_dict t) bypass =
      (if ne_zone n = None \<or> the (ne_zone n) z
       then ([((a, z, filter (\<lambda>i. i \<noteq> a) ids), True)], False, ne_call n a z (filter (\<lambda>i. i \<noteq> a) ids))
       else ([], bypass, Some (ValueError ''destination_zone_not_found'')))"
    if "ne_command n \<and> ne_active n = Some a" for n a bypass
    using proposed_invokes [OF t(2,3), of n a "[]" bypass] proposed_unknown_zone [OF t(2,3), of n _ "[]" bypass] that
    by (cases "ne_zone n") auto
  then show ?thesis
    using natural_travel_sends [OF assms(1-3), of tx] t(1) by blast
qed

theorem natural_travel_replayed_witness:
  "\<exists>d t. bc_sent (gm_bridge (fst (fst (natural_travel (\<lambda>v. []) demo_game False
        [(''zone_id'', GInt 7), (''sim_ids'', GSeq [GInt 1, GInt 2])] demo_guest_game)))) = [(''travel.request'', d)] \<and>
      tc_current (host_travel (fst (start_travel demo_env d ''g'' demo_lan_host))) = Some t \<and>
      fst (invoke_native_travel \<lparr>ne_command = True, ne_zone = Some (\<lambda>z. z = 7), ne_active = Some 1, ne_call = (\<lambda>a z s. None)\<rparr>
        (travel_dict t) False) = [((1, 7, [2]), True)] \<and>
      fst (invoke_native_travel \<lparr>ne_command = True, ne_zone = Some (\<lambda>z. z = 8), ne_active = Some 1, ne_call = (\<lambda>a z s. None)\<rparr>
        (travel_dict t) False) = []"
proof -
  have "travel_args [(''zone_id'', GInt 7), (''sim_ids'', GSeq [GInt 1, GInt 2])] GNone [] = (GInt 7, map GInt [1, 2])"
    by code_simp
  moreover have "tc_current (host_travel demo_lan_host) = None" "hs_players (h_session demo_lan_host) \<noteq> []"
    using demo_host_idle demo_lan_host_players by auto
  ultimately show ?thesis
    using natural_travel_replayed [of demo_guest_game demo_game
        "[(''zone_id'', GInt 7), (''sim_ids'', GSeq [GInt 1, GInt 2])]" 7 "[1, 2]" demo_env demo_lan_host "\<lambda>v. []" "''g''"]
    by (fastforce simp: demo_guest_game_def demo_game_def demo_env_def new_mod_def new_bridge_client_def)
qed

text \<open>C38. A player keeps the id of its first start for good and shows the last name it gave, \<open>Player\<close> before it gave
  one, whatever is drawn and given at later starts.\<close>

theorem player_keeps_identity:
  assumes "\<And>n. loads (dumps (identity_dict (text_identity uuid n))) = Inr (identity_dict (text_identity uuid n))"
  shows "starts loads dumps ((uuid, name) # ss) None =
      map (\<lambda>n. Inr (text_identity uuid n)) (shown_names ''Player'' ((uuid, name) # ss))"
  by (rule starts_exact [OF assms])

definition demo_dumps :: "pyval \<Rightarrow> string" where
  "demo_dumps v = (case v of VDict [(k, p), (l, VStr n)] \<Rightarrow> n | _ \<Rightarrow> [])"

definition demo_loads :: "string \<Rightarrow> py_error + pyval" where
  "demo_loads t = Inr (identity_dict (text_identity ''p1'' t))"

theorem player_keeps_identity_witness:
  "starts demo_loads demo_dumps [(''p1'', None), (''p2'', Some ''Ann''), (''p3'', None)] None =
     [Inr (text_identity ''p1'' ''Player''), Inr (text_identity ''p1'' ''Ann''), Inr (text_identity ''p1'' ''Ann'')]"
  using player_keeps_identity [of demo_loads demo_dumps "''p1''" None "[(''p2'', Some ''Ann''), (''p3'', None)]"]
  by (simp add: demo_loads_def demo_dumps_def identity_dict_def text_identity_def Let_def)

text \<open>C39. However often the mod is built and installed, packaged or as loose source, with or without success, it is
  never installed both ways, so that the checklist does not report a double load; only a source sync can do that.\<close>

theorem single_installation:
  assumes "single_load i" and "\<And>r. r \<in> set runs \<Longrightarrow> ''--dev-sync'' \<notin> set (fst r)"
  shows "single_load (build_runs runs i) \<and>
    (\<forall>m. shows_installed m (build_runs runs i) \<longrightarrow> double_load_line \<notin> set (run_preflight m))"
  using build_runs_single [OF assms] no_double_load_line by blast

definition demo_machine :: machine where
  "demo_machine = \<lparr>mc_text = (\<lambda>p. NoText), mc_exists = (\<lambda>p. False), mc_env = (\<lambda>n. None), mc_path = (\<lambda>t. [t]),
     mc_str = (\<lambda>p. join ''/'' p), mc_home = [''home''], mc_which = (\<lambda>n. None), mc_run = (\<lambda>c. Some ''Python 3.7.9''),
     mc_port_free = (\<lambda>p. True), mc_lan_ip = None, mc_python = (3, 12), mc_python_text = ''3.12'', mc_kermp = None\<rparr>"

definition demo_runs :: "build_run list" where
  "demo_runs = [([''--dev''], demo_machine, \<lambda>py t. Some t, [(''hooks.py'', ''a'')]),
     ([], demo_machine, \<lambda>py t. Some t, [(''hooks.py'', ''a'')])]"

theorem single_installation_witness:
  "single_load (build_runs demo_runs \<lparr>in_packaged = None, in_dev = None\<rparr>) \<and>
     in_packaged (build_runs demo_runs \<lparr>in_packaged = None, in_dev = None\<rparr>) = Some [(''kermp_mod/hooks.pyc'', ''a'')]"
proof -
  have "in_packaged (build_runs demo_runs \<lparr>in_packaged = None, in_dev = None\<rparr>) = Some [(''kermp_mod/hooks.pyc'', ''a'')]"
    by code_simp
  moreover have "single_load \<lparr>in_packaged = None, in_dev = None\<rparr>" by (simp add: single_load_def)
  moreover have "''--dev-sync'' \<notin> set (fst r)" if "r \<in> set demo_runs" for r
    using that by (auto simp: demo_runs_def)
  ultimately show ?thesis
    using single_installation by blast
qed

text \<open>C40. A reload whose teardown succeeded keeps the record of what is patched exact, and when everything succeeds
  the mod's own installer has run on the restored game, so that each function it patches is hooked once, around the
  game's own. A missing source file changes nothing; when a module cannot be reloaded every patched attribute is the
  game's again and nothing is recorded (in the command registry the cancel command keeps a wrapper,
  \<open>cancel_wrapper_left\<close>).\<close>

theorem reload_reinstalls_or_restores:
  assumes "patches_ok as0 m" and "teardown_errors g m = []"
  shows "patches_ok as0 (fst (kermp_reload g m)) \<and>
    (reinstalled g m \<longrightarrow> fst (kermp_reload g m) = install_hooks (rl_hooks g) (fst (teardown (rl_stuck g) m)) \<and>
       last (fst (snd (kermp_reload g m))) = ''KerMP reinstalled'') \<and>
    ((\<exists>n \<in> set RELOAD_ORDER. \<not> rl_file g n) \<longrightarrow> fst (kermp_reload g m) = m) \<and>
    ((\<forall>n \<in> set RELOAD_ORDER. rl_file g n) \<and> (\<exists>n \<in> set RELOAD_ORDER. rl_reload g n \<noteq> None) \<longrightarrow>
       map_of (pm_attrs (fst (kermp_reload g m))) = map_of as0 \<and> pm_patches (fst (kermp_reload g m)) = [])"
  using clean_reload [OF assms] reload_done missing_source_untouched failed_reload_uninstalls [OF assms] by blast

definition demo_attrs :: attrs where
  "demo_attrs = [(''GameClock.set_clock_speed'', GameFn ''speed'')]"

definition demo_install :: install_env where
  "demo_install = \<lparr>ie_import = (\<lambda>k. None), ie_clock = True, ie_client = False, ie_text = exc_text\<rparr>"

definition demo_patched :: patch_mod where
  "demo_patched = install_hooks demo_install (unpatched demo_attrs [])"

definition demo_reload :: "bool \<Rightarrow> reload_env" where
  "demo_reload broken = \<lparr>rl_file = (\<lambda>n. True), rl_before = [], rl_after = [], rl_stuck = (\<lambda>k. False), rl_text = (\<lambda>k. k),
     rl_service = Inr True, rl_reload = (\<lambda>n. if broken \<and> n = ''hooks'' then Some (ValueError ''syntax'') else None),
     rl_guard = None, rl_start = None, rl_hooks = demo_install\<rparr>"

theorem reload_reinstalls_or_restores_witness:
  "map_of (pm_attrs (fst (kermp_reload (demo_reload True) demo_patched))) = map_of demo_attrs \<and>
   fst (kermp_reload (demo_reload False) demo_patched) = install_hooks demo_install (fst (teardown (\<lambda>k. False) demo_patched)) \<and>
   map_of (pm_attrs demo_patched) ''GameClock.set_clock_speed'' = Some (HookFn ''GameClock.set_clock_speed'' (GameFn ''speed''))"
proof -
  have ok: "patches_ok demo_attrs demo_patched"
    unfolding demo_patched_def by (intro install_hooks_ok patches_ok_unpatched)
  have none: "teardown_errors (demo_reload b) demo_patched = []" for b
    by (simp add: teardown_errors_def teardown_def demo_reload_def Let_def)
  have "''hooks'' \<in> set RELOAD_ORDER" by (simp add: RELOAD_ORDER_def)
  then have "(\<forall>n \<in> set RELOAD_ORDER. rl_file (demo_reload True) n) \<and> (\<exists>n \<in> set RELOAD_ORDER. rl_reload (demo_reload True) n \<noteq> None)"
    by (force simp: demo_reload_def)
  moreover have "reinstalled (demo_reload False) demo_patched"
    using none [of False] by (simp add: reinstalled_def demo_reload_def)
  moreover have "map_of (pm_attrs demo_patched) ''GameClock.set_clock_speed'' =
      Some (HookFn ''GameClock.set_clock_speed'' (GameFn ''speed''))"
    by code_simp
  ultimately show ?thesis
    using reload_reinstalls_or_restores [OF ok none, of True] reload_reinstalls_or_restores [OF ok none, of False]
    by (simp add: demo_reload_def)
qed

end
